(* ===== verification/Prelude.thy ===== *)
theory Prelude
  imports Main "HOL-Library.List_Lexorder" "HOL-Library.Char_ord" "HOL-Library.Sublist"
    "HOL-Library.Multiset" "HOL-Library.Code_Target_Numeral"
begin

section \<open>Prelude: results, machine integers, strings\<close>

text \<open>
  What the component theories share. Rust's \<open>Result\<close> is a sum type with the error on the
  left, chained by \<open>and_then\<close>. \<open>usize\<close> and \<open>u64\<close> values are natural numbers with the width
  written out where the source saturates or wraps. A Rust \<open>String\<close> is the list of its UTF-8
  bytes, so that \<open>length\<close> is \<open>str::len\<close> and the order of strings (\<open>HOL-Library.List_Lexorder\<close>
  over \<open>HOL-Library.Char_ord\<close>) is the byte-wise order of \<open>Ord for str\<close>.
\<close>

named_theorems result_simps \<open>how a result flows through \<open>and_then\<close>\<close>
named_theorems size_simps \<open>saturating byte counts under a no-overflow bound\<close>

type_synonym ('e, 'a) result = "'e + 'a"

subsection \<open>Results\<close>

definition and_then :: "('e, 'a) result \<Rightarrow> ('a \<Rightarrow> ('e, 'b) result) \<Rightarrow> ('e, 'b) result" where
  "and_then r f = (case r of Inl e \<Rightarrow> Inl e | Inr x \<Rightarrow> f x)"

lemma and_then_simps [simp]:
  "and_then (Inl e) f = Inl e"
  "and_then (Inr x) f = f x"
  by (simp_all add: and_then_def)

lemma and_then_Inr_iff [result_simps]:
  "and_then r f = Inr y \<longleftrightarrow> (\<exists>x. r = Inr x \<and> f x = Inr y)"
  by (cases r) auto

lemma and_then_Inl_iff [result_simps]:
  "and_then r f = Inl e \<longleftrightarrow> r = Inl e \<or> (\<exists>x. r = Inr x \<and> f x = Inl e)"
  by (cases r) auto

lemma and_then_assoc: "and_then (and_then r f) g = and_then r (\<lambda>x. and_then (f x) g)"
  by (cases r) auto

definition ok_or :: "'e \<Rightarrow> 'a option \<Rightarrow> ('e, 'a) result" where
  "ok_or e m = (case m of None \<Rightarrow> Inl e | Some x \<Rightarrow> Inr x)"

lemma ok_or_simps [simp]: "ok_or e None = Inl e" "ok_or e (Some x) = Inr x"
  by (simp_all add: ok_or_def)

lemma ok_or_Inr_iff [result_simps]: "ok_or e m = Inr x \<longleftrightarrow> m = Some x"
  by (cases m) auto

text \<open>A loop whose body may return early with an error: \<open>for x in xs { s = f(s, x)?; }\<close>.\<close>

fun fold_res :: "('s \<Rightarrow> 'x \<Rightarrow> ('e, 's) result) \<Rightarrow> 's \<Rightarrow> 'x list \<Rightarrow> ('e, 's) result" where
  "fold_res f s [] = Inr s"
| "fold_res f s (x # xs) = and_then (f s x) (\<lambda>s'. fold_res f s' xs)"

lemma fold_res_append:
  "fold_res f s (xs @ ys) = and_then (fold_res f s xs) (\<lambda>s'. fold_res f s' ys)"
  by (induction xs arbitrary: s) (auto simp: and_then_assoc)

lemma fold_res_invariant:
  assumes "fold_res f s xs = Inr s'" and "P s"
    and "\<And>s x s'. x \<in> set xs \<Longrightarrow> P s \<Longrightarrow> f s x = Inr s' \<Longrightarrow> P s'"
  shows "P s'"
  using assms
proof (induction xs arbitrary: s)
  case Nil
  then show ?case by simp
next
  case (Cons x xs)
  from Cons.prems(1) obtain t where "f s x = Inr t" and "fold_res f t xs = Inr s'"
    by (auto simp: result_simps)
  with Cons show ?case by (meson list.set_intros)
qed

subsection \<open>Machine integers\<close>

definition usize_max :: nat where
  "usize_max = 2 ^ 64 - 1"

definition sat_add :: "nat \<Rightarrow> nat \<Rightarrow> nat" where
  "sat_add a b = min (a + b) usize_max"

text \<open>\<open>saturating_sub\<close> is the truncating subtraction of \<open>nat\<close>; the name records where it is used.\<close>

definition sat_sub :: "nat \<Rightarrow> nat \<Rightarrow> nat" where
  "sat_sub a b = a - b"

text \<open>\<open>+= 1\<close> on a \<open>u64\<close> in a release build (the counters of the store).\<close>

definition u64_succ :: "nat \<Rightarrow> nat" where
  "u64_succ n = (n + 1) mod 2 ^ 64"

lemma sat_add_le [simp]: "sat_add a b \<le> usize_max"
  by (simp add: sat_add_def)

lemma sat_add_exact [size_simps]: "a + b \<le> usize_max \<Longrightarrow> sat_add a b = a + b"
  by (simp add: sat_add_def)

lemma sat_sub_simp [size_simps]: "sat_sub a b = a - b"
  by (simp add: sat_sub_def)

lemma u64_succ_exact [simp]: "n < 2 ^ 64 - 1 \<Longrightarrow> u64_succ n = Suc n"
  by (simp add: u64_succ_def)

text \<open>A byte count built by a sequence of \<open>bytes = bytes.saturating_add(x)\<close>.\<close>

definition sat_sum :: "nat \<Rightarrow> nat list \<Rightarrow> nat" where
  "sat_sum b xs = foldl sat_add b xs"

lemma sat_sum_Nil [simp]: "sat_sum b [] = b"
  by (simp add: sat_sum_def)

lemma sat_sum_Cons [simp]: "sat_sum b (x # xs) = sat_sum (sat_add b x) xs"
  by (simp add: sat_sum_def)

lemma sat_sum_append: "sat_sum b (xs @ ys) = sat_sum (sat_sum b xs) ys"
  by (simp add: sat_sum_def)

lemma sat_sum_min: "b \<le> usize_max \<Longrightarrow> sat_sum b xs = min (b + sum_list xs) usize_max"
  by (induction xs arbitrary: b) (auto simp: sat_add_def)

lemma sat_sum_exact [size_simps]:
  "b + sum_list xs \<le> usize_max \<Longrightarrow> sat_sum b xs = b + sum_list xs"
  by (simp add: sat_sum_min)

lemma sat_sum_le: "b \<le> usize_max \<Longrightarrow> sat_sum b xs \<le> usize_max"
  by (simp add: sat_sum_min)

subsection \<open>Strings\<close>

text \<open>\<open>str::split\<close> with a one-byte separator: always at least one piece.\<close>

fun split_on :: "char \<Rightarrow> string \<Rightarrow> string list" where
  "split_on c [] = [[]]"
| "split_on c (x # xs) =
     (if x = c then [] # split_on c xs
      else (case split_on c xs of [] \<Rightarrow> [[x]] | p # ps \<Rightarrow> (x # p) # ps))"

fun split_once :: "char \<Rightarrow> string \<Rightarrow> (string \<times> string) option" where
  "split_once c [] = None"
| "split_once c (x # xs) =
     (if x = c then Some ([], xs)
      else map_option (\<lambda>(a, b). (x # a, b)) (split_once c xs))"

definition strip_prefix :: "string \<Rightarrow> string \<Rightarrow> string option" where
  "strip_prefix p s = (if prefix p s then Some (drop (length p) s) else None)"

definition starts_with :: "string \<Rightarrow> string \<Rightarrow> bool" where
  "starts_with s p = prefix p s"

definition ends_with :: "string \<Rightarrow> string \<Rightarrow> bool" where
  "ends_with s p = suffix p s"

text \<open>\<open>str::find\<close>: the position of the first occurrence.\<close>

fun find_str :: "string \<Rightarrow> string \<Rightarrow> nat option" where
  "find_str p [] = (if p = [] then Some 0 else None)"
| "find_str p (x # xs) = (if prefix p (x # xs) then Some 0 else map_option Suc (find_str p xs))"

definition trim_start_char :: "char \<Rightarrow> string \<Rightarrow> string" where
  "trim_start_char c s = dropWhile (\<lambda>x. x = c) s"

definition trim_end_char :: "char \<Rightarrow> string \<Rightarrow> string" where
  "trim_end_char c s = rev (dropWhile (\<lambda>x. x = c) (rev s))"

text \<open>\<open>trim_end_matches(['\r', '\n'])\<close>.\<close>

definition trim_line_end :: "string \<Rightarrow> string" where
  "trim_line_end s = rev (dropWhile (\<lambda>x. x = CHR 0x0D \<or> x = CHR 0x0A) (rev s))"

text \<open>
  \<open>str::trim\<close> strips the characters with the Unicode property White_Space; as UTF-8 byte
  sequences they are the following.
\<close>

definition white_space :: "string list" where
  "white_space =
    [[CHR 0x09], [CHR 0x0A], [CHR 0x0B], [CHR 0x0C], [CHR 0x0D], [CHR 0x20],
     [CHR 0xC2, CHR 0x85], [CHR 0xC2, CHR 0xA0], [CHR 0xE1, CHR 0x9A, CHR 0x80],
     [CHR 0xE2, CHR 0x80, CHR 0x80], [CHR 0xE2, CHR 0x80, CHR 0x81], [CHR 0xE2, CHR 0x80, CHR 0x82],
     [CHR 0xE2, CHR 0x80, CHR 0x83], [CHR 0xE2, CHR 0x80, CHR 0x84], [CHR 0xE2, CHR 0x80, CHR 0x85],
     [CHR 0xE2, CHR 0x80, CHR 0x86], [CHR 0xE2, CHR 0x80, CHR 0x87], [CHR 0xE2, CHR 0x80, CHR 0x88],
     [CHR 0xE2, CHR 0x80, CHR 0x89], [CHR 0xE2, CHR 0x80, CHR 0x8A], [CHR 0xE2, CHR 0x80, CHR 0xA8],
     [CHR 0xE2, CHR 0x80, CHR 0xA9], [CHR 0xE2, CHR 0x80, CHR 0xAF], [CHR 0xE2, CHR 0x81, CHR 0x9F],
     [CHR 0xE3, CHR 0x80, CHR 0x80]]"

function strip_seqs :: "string list \<Rightarrow> string \<Rightarrow> string" where
  "strip_seqs ws s =
     (case find (\<lambda>w. w \<noteq> [] \<and> prefix w s) ws of
        None \<Rightarrow> s
      | Some w \<Rightarrow> strip_seqs ws (drop (length w) s))"
  by pat_completeness auto
termination
proof (relation "measure (\<lambda>(ws, s). length s)")
  show "wf (measure (\<lambda>(ws, s). length s))" by simp
next
  fix ws s w
  assume "find (\<lambda>w. w \<noteq> [] \<and> prefix w s) ws = Some w"
  then have "w \<noteq> []" "prefix w s" by (auto simp: find_Some_iff)
  then have "0 < length w" "length w \<le> length s" by (auto simp: prefix_length_le)
  then have "length (drop (length w) s) < length s" by (auto simp del: length_greater_0_conv)
  then show "((ws, drop (length w) s), ws, s) \<in> measure (\<lambda>(ws, s). length s)" by simp
qed

declare strip_seqs.simps [simp del]

definition trim :: "string \<Rightarrow> string" where
  "trim s = rev (strip_seqs (map rev white_space) (rev (strip_seqs white_space s)))"

text \<open>\<open>is_empty()\<close> after \<open>trim()\<close>, the guard the store puts on names.\<close>

definition blank :: "string \<Rightarrow> bool" where
  "blank s \<longleftrightarrow> trim s = []"

definition ascii_lower_char :: "char \<Rightarrow> char" where
  "ascii_lower_char c =
     (if 65 \<le> (of_char c :: nat) \<and> (of_char c :: nat) \<le> 90 then char_of (of_char c + 32 :: nat) else c)"

definition to_ascii_lowercase :: "string \<Rightarrow> string" where
  "to_ascii_lowercase s = map ascii_lower_char s"

lemma split_on_not_Nil [simp]: "split_on c s \<noteq> []"
  by (cases s) (auto split: list.splits)

lemma split_on_no_sep: "c \<notin> set s \<Longrightarrow> split_on c s = [s]"
  by (induction s) auto

lemma split_on_pieces: "p \<in> set (split_on c s) \<Longrightarrow> c \<notin> set p"
proof (induction s arbitrary: p)
  case Nil
  then show ?case by simp
next
  case (Cons x xs)
  then show ?case by (fastforce split: if_splits list.splits)
qed

lemma split_once_Some: "split_once c s = Some (a, b) \<Longrightarrow> s = a @ c # b \<and> c \<notin> set a"
  by (induction s arbitrary: a b) (auto split: if_splits)

lemma split_once_None: "split_once c s = None \<longleftrightarrow> c \<notin> set s"
  by (induction s) auto

lemma find_str_Some: "find_str p s = Some n \<Longrightarrow> \<exists>a b. s = a @ p @ b \<and> length a = n"
proof (induction s arbitrary: n)
  case Nil
  then show ?case by (auto split: if_splits)
next
  case (Cons x xs)
  show ?case
  proof (cases "prefix p (x # xs)")
    case True
    with Cons.prems show ?thesis by (auto simp: prefix_def)
  next
    case False
    with Cons.prems obtain m where "find_str p xs = Some m" "n = Suc m" by auto
    with Cons.IH obtain a b where "xs = a @ p @ b" "length a = m" by blast
    with \<open>n = Suc m\<close> have "x # xs = (x # a) @ p @ b \<and> length (x # a) = n" by simp
    then show ?thesis by blast
  qed
qed

lemma find_str_append: "\<exists>n \<le> length a. find_str p (a @ p @ b) = Some n"
proof (induction a)
  case Nil
  have "prefix p (p @ b)" by simp
  then show ?case
    by (cases "p @ b") auto
next
  case (Cons x xs)
  then show ?case by auto
qed

lemma strip_prefix_Some: "strip_prefix p s = Some r \<longleftrightarrow> s = p @ r"
  by (auto simp: strip_prefix_def prefix_def)

subsection \<open>Decimal numerals\<close>

definition digit_char :: "nat \<Rightarrow> char" where
  "digit_char d = char_of (48 + d)"

fun show_nat :: "nat \<Rightarrow> string" where
  "show_nat n = (if n < 10 then [digit_char n] else show_nat (n div 10) @ [digit_char (n mod 10)])"

declare show_nat.simps [simp del]

definition read_nat :: "string \<Rightarrow> nat" where
  "read_nat s = foldl (\<lambda>acc c. 10 * acc + (of_char c - 48)) 0 s"

lemma of_char_digit: "d < 10 \<Longrightarrow> (of_char (digit_char d) :: nat) = 48 + d"
  by (simp add: digit_char_def)

lemma read_nat_snoc: "read_nat (s @ [c]) = 10 * read_nat s + (of_char c - 48)"
  by (simp add: read_nat_def)

lemma read_show_nat [simp]: "read_nat (show_nat n) = n"
proof (induction n rule: show_nat.induct)
  case (1 n)
  show ?case
  proof (cases "n < 10")
    case True
    then show ?thesis
      by (subst show_nat.simps) (simp add: read_nat_def of_char_digit)
  next
    case False
    with 1 have "read_nat (show_nat (n div 10)) = n div 10" by simp
    with False show ?thesis
      by (subst show_nat.simps) (simp add: read_nat_snoc of_char_digit)
  qed
qed

lemma show_nat_inj [simp]: "show_nat m = show_nat n \<longleftrightarrow> m = n"
  by (metis read_show_nat)

text \<open>\<open>format!("{n:020}")\<close>: zero-padded to the width.\<close>

definition pad_nat :: "nat \<Rightarrow> nat \<Rightarrow> string" where
  "pad_nat w n = (let s = show_nat n in replicate (w - length s) (CHR ''0'') @ s)"

lemma read_nat_zeros: "read_nat (replicate k (CHR ''0'') @ s) = read_nat s"
  by (induction k) (simp_all add: read_nat_def)

lemma pad_nat_inj [simp]: "pad_nat w m = pad_nat w n \<longleftrightarrow> m = n"
proof
  assume "pad_nat w m = pad_nat w n"
  then have "read_nat (pad_nat w m) = read_nat (pad_nat w n)" by simp
  then show "m = n" by (simp add: pad_nat_def Let_def read_nat_zeros)
qed simp

end
