(* ===== verification/BTree.thy ===== *)
theory BTree
  imports Prelude
begin

section \<open>Ordered maps and sets\<close>

text \<open>
  \<open>std::collections::BTreeMap\<close> and \<open>BTreeSet\<close>, on which every state of the program rests. A map
  is the list of its entries in key order, so that iterating over the map is going through the
  list, \<open>get\<close> is \<open>map_of\<close> and equality of maps is equality of lists. The locale
  \<open>ordered_map\<close> states what the store relies on; it is interpreted on the operations below.
\<close>

type_synonym ('k, 'v) btree = "('k \<times> 'v) list"

subsection \<open>The interface\<close>

locale ordered_map =
  fixes empty :: "'m"
    and get :: "'m \<Rightarrow> 'k \<Rightarrow> 'v option"
    and ins :: "'k \<Rightarrow> 'v \<Rightarrow> 'm \<Rightarrow> 'm"
    and rem :: "'k \<Rightarrow> 'm \<Rightarrow> 'm"
    and ok :: "'m \<Rightarrow> bool"
  assumes get_empty: "get empty k = None"
    and get_ins: "ok m \<Longrightarrow> get (ins k v m) j = (if j = k then Some v else get m j)"
    and get_rem: "ok m \<Longrightarrow> get (rem k m) j = (if j = k then None else get m j)"
    and ok_empty: "ok empty"
    and ok_ins: "ok m \<Longrightarrow> ok (ins k v m)"
    and ok_rem: "ok m \<Longrightarrow> ok (rem k m)"
    and get_ext: "ok m \<Longrightarrow> ok n \<Longrightarrow> (\<And>k. get m k = get n k) \<Longrightarrow> m = n"
begin

lemma ins_ins_same: "ok m \<Longrightarrow> ins k v (ins k w m) = ins k v m"
  by (rule get_ext) (auto simp: get_ins ok_ins)

lemma ins_commute: "ok m \<Longrightarrow> k \<noteq> j \<Longrightarrow> ins k v (ins j w m) = ins j w (ins k v m)"
  by (rule get_ext) (auto simp: get_ins ok_ins)

lemma rem_absent: "ok m \<Longrightarrow> get m k = None \<Longrightarrow> rem k m = m"
  by (rule get_ext) (auto simp: get_rem ok_rem)

lemma ins_same: "ok m \<Longrightarrow> get m k = Some v \<Longrightarrow> ins k v m = m"
  by (rule get_ext) (auto simp: get_ins ok_ins)

lemma rem_ins: "ok m \<Longrightarrow> get m k = None \<Longrightarrow> rem k (ins k v m) = m"
  by (rule get_ext) (auto simp: get_ins get_rem ok_ins ok_rem)

lemma ins_rem: "ok m \<Longrightarrow> ins k v (rem k m) = ins k v m"
  by (rule get_ext) (auto simp: get_ins get_rem ok_ins ok_rem)

end

subsection \<open>The operations\<close>

definition bt_ok :: "('k::linorder, 'v) btree \<Rightarrow> bool" where
  "bt_ok m \<longleftrightarrow> sorted_wrt (<) (map fst m)"

abbreviation bt_get :: "('k, 'v) btree \<Rightarrow> 'k \<Rightarrow> 'v option" where
  "bt_get m k \<equiv> map_of m k"

fun bt_insert :: "'k::linorder \<Rightarrow> 'v \<Rightarrow> ('k, 'v) btree \<Rightarrow> ('k, 'v) btree" where
  "bt_insert k v [] = [(k, v)]"
| "bt_insert k v ((j, w) # m) =
     (if k < j then (k, v) # (j, w) # m
      else if k = j then (k, v) # m
      else (j, w) # bt_insert k v m)"

definition bt_remove :: "'k \<Rightarrow> ('k, 'v) btree \<Rightarrow> ('k, 'v) btree" where
  "bt_remove k m = filter (\<lambda>(j, _). j \<noteq> k) m"

definition bt_keys :: "('k, 'v) btree \<Rightarrow> 'k list" where
  "bt_keys m = map fst m"

definition bt_values :: "('k, 'v) btree \<Rightarrow> 'v list" where
  "bt_values m = map snd m"

definition bt_has :: "('k, 'v) btree \<Rightarrow> 'k \<Rightarrow> bool" where
  "bt_has m k \<longleftrightarrow> bt_get m k \<noteq> None"

text \<open>\<open>extend\<close> and \<open>collect\<close>: later entries replace earlier ones.\<close>

definition bt_extend :: "('k::linorder, 'v) btree \<Rightarrow> ('k \<times> 'v) list \<Rightarrow> ('k, 'v) btree" where
  "bt_extend m kvs = fold (\<lambda>(k, v). bt_insert k v) kvs m"

definition bt_of_list :: "('k::linorder \<times> 'v) list \<Rightarrow> ('k, 'v) btree" where
  "bt_of_list kvs = bt_extend [] kvs"

text \<open>Updating the value behind \<open>get_mut\<close> keeps the key's place.\<close>

definition bt_adjust :: "'k \<Rightarrow> ('v \<Rightarrow> 'v) \<Rightarrow> ('k, 'v) btree \<Rightarrow> ('k, 'v) btree" where
  "bt_adjust k f m = map (\<lambda>(j, v). (j, if j = k then f v else v)) m"

text \<open>\<open>values_mut\<close>.\<close>

definition bt_map :: "('v \<Rightarrow> 'w) \<Rightarrow> ('k, 'v) btree \<Rightarrow> ('k, 'w) btree" where
  "bt_map f m = map (\<lambda>(j, v). (j, f v)) m"

definition bs_ok :: "'k::linorder list \<Rightarrow> bool" where
  "bs_ok s \<longleftrightarrow> sorted_wrt (<) s"

fun bs_insert :: "'k::linorder \<Rightarrow> 'k list \<Rightarrow> 'k list" where
  "bs_insert k [] = [k]"
| "bs_insert k (j # s) = (if k < j then k # j # s else if k = j then j # s else j # bs_insert k s)"

definition bs_remove :: "'k \<Rightarrow> 'k list \<Rightarrow> 'k list" where
  "bs_remove k s = filter (\<lambda>j. j \<noteq> k) s"

definition bs_of_list :: "'k::linorder list \<Rightarrow> 'k list" where
  "bs_of_list xs = fold bs_insert xs []"

subsection \<open>Maps: lookup and invariant\<close>

lemma bt_ok_Nil [simp]: "bt_ok []"
  by (simp add: bt_ok_def)

lemma bt_ok_Cons: "bt_ok ((k, v) # m) \<longleftrightarrow> (\<forall>j \<in> fst ` set m. k < j) \<and> bt_ok m"
  by (auto simp: bt_ok_def)

lemma bt_ok_distinct: "bt_ok m \<Longrightarrow> distinct (map fst m)"
  by (simp add: bt_ok_def strict_sorted_iff)

lemma set_bt_insert: "fst ` set (bt_insert k v m) = insert k (fst ` set m)"
  by (induction k v m rule: bt_insert.induct) auto

lemma bt_ok_insert [simp]: "bt_ok m \<Longrightarrow> bt_ok (bt_insert k v m)"
  by (induction k v m rule: bt_insert.induct)
    (auto simp: bt_ok_Cons set_bt_insert intro: less_trans)

lemma bt_insert_not_Nil [simp]: "bt_insert k v m \<noteq> []"
  by (induction k v m rule: bt_insert.induct) auto

lemma bt_get_insert [simp]: "bt_get (bt_insert k v m) j = (if j = k then Some v else bt_get m j)"
  by (induction k v m rule: bt_insert.induct) auto

lemma bt_get_remove [simp]: "bt_get (bt_remove k m) j = (if j = k then None else bt_get m j)"
  by (induction m) (auto simp: bt_remove_def)

lemma bt_ok_filter: "bt_ok m \<Longrightarrow> bt_ok (filter P m)"
  by (simp add: bt_ok_def sorted_wrt_map sorted_wrt_filter)

lemma bt_ok_remove [simp]: "bt_ok m \<Longrightarrow> bt_ok (bt_remove k m)"
  by (simp add: bt_remove_def bt_ok_filter)

lemma bt_get_filter:
  "bt_ok m \<Longrightarrow> bt_get (filter P m) k = (case bt_get m k of None \<Rightarrow> None | Some v \<Rightarrow> if P (k, v) then Some v else None)"
proof (induction m)
  case Nil
  then show ?case by simp
next
  case (Cons e m)
  obtain j w where e: "e = (j, w)" by (cases e)
  with Cons.prems have "bt_ok m" and "\<forall>i \<in> fst ` set m. j < i" by (auto simp: bt_ok_Cons)
  then have "bt_get m j = None" by (auto simp: map_of_eq_None_iff)
  with Cons.IH \<open>bt_ok m\<close> e show ?case by auto
qed

lemma bt_get_None: "bt_get m k = None \<longleftrightarrow> k \<notin> fst ` set m"
  by (rule map_of_eq_None_iff)

lemma bt_in_set: "bt_ok m \<Longrightarrow> (k, v) \<in> set m \<longleftrightarrow> bt_get m k = Some v"
  by (simp add: bt_ok_distinct map_of_eq_Some_iff)

lemma bt_ext:
  assumes "bt_ok m" and "bt_ok n" and "\<And>k. bt_get m k = bt_get n k"
  shows "m = n"
proof -
  have "set m = set n"
    using assms by (auto simp: bt_in_set)
  moreover have "inj_on fst (set m)"
    using assms(1) by (meson bt_ok_distinct distinct_map)
  ultimately show ?thesis
    using assms(1,2)
    by (intro map_sorted_distinct_set_unique [of fst]) (auto simp: bt_ok_def strict_sorted_iff)
qed

lemma bt_has_simps [simp]:
  "bt_has (bt_insert k v m) j \<longleftrightarrow> j = k \<or> bt_has m j"
  "bt_has (bt_remove k m) j \<longleftrightarrow> j \<noteq> k \<and> bt_has m j"
  "\<not> bt_has [] j"
  by (auto simp: bt_has_def)

lemma bt_has_keys: "bt_has m k \<longleftrightarrow> k \<in> set (map fst m)"
  by (simp add: bt_has_def map_of_eq_None_iff)

lemma bt_ok_extend [simp]: "bt_ok m \<Longrightarrow> bt_ok (bt_extend m kvs)"
  by (induction kvs arbitrary: m) (auto simp: bt_extend_def)

lemma bt_get_extend: "bt_get (bt_extend m kvs) k = (case bt_get (rev kvs) k of None \<Rightarrow> bt_get m k | Some v \<Rightarrow> Some v)"
  by (induction kvs arbitrary: m) (auto simp: bt_extend_def map_add_def split: option.splits)

lemma bt_get_rev: "bt_ok m \<Longrightarrow> bt_get (rev m) k = bt_get m k"
proof (induction m)
  case Nil
  then show ?case by simp
next
  case (Cons e m)
  obtain j w where e: "e = (j, w)" by (cases e)
  with Cons.prems have "bt_ok m" and "bt_get m j = None"
    by (auto simp: bt_ok_Cons bt_get_None)
  with Cons.IH e show ?case
    by (auto simp: map_add_def split: option.splits)
qed

lemma bt_get_extend_ok:
  "bt_ok kvs \<Longrightarrow> bt_get (bt_extend m kvs) k = (case bt_get kvs k of None \<Rightarrow> bt_get m k | Some v \<Rightarrow> Some v)"
  by (simp add: bt_get_extend bt_get_rev)

lemma bt_ok_of_list [simp]: "bt_ok (bt_of_list kvs)"
  by (simp add: bt_of_list_def)

interpretation bt: ordered_map "[]" "bt_get" "bt_insert" "bt_remove" "bt_ok"
  by unfold_locales (auto intro: bt_ext)

subsection \<open>Maps: totals over the entries\<close>

lemma bt_sum_insert:
  fixes f :: "'k::linorder \<times> 'v \<Rightarrow> nat"
  assumes "bt_ok m"
  shows "sum_list (map f (bt_insert k v m)) + (case bt_get m k of None \<Rightarrow> 0 | Some w \<Rightarrow> f (k, w))
    = sum_list (map f m) + f (k, v)"
  using assms
proof (induction k v m rule: bt_insert.induct)
  case (1 k v)
  then show ?case by simp
next
  case (2 k v j w m)
  from 2 have gt: "\<forall>i \<in> fst ` set m. j < i" and "bt_ok m" by (auto simp: bt_ok_Cons)
  show ?case
  proof (cases "k \<le> j")
    case True
    have "bt_get m k = None"
      using gt True by (auto simp: bt_get_None)
    with True show ?thesis by auto
  next
    case False
    with 2 \<open>bt_ok m\<close> show ?thesis by auto
  qed
qed

lemma bt_sum_remove:
  fixes f :: "'k::linorder \<times> 'v \<Rightarrow> nat"
  assumes "bt_ok m"
  shows "sum_list (map f (bt_remove k m)) + (case bt_get m k of None \<Rightarrow> 0 | Some w \<Rightarrow> f (k, w))
    = sum_list (map f m)"
  using assms
proof (induction m)
  case Nil
  then show ?case by (simp add: bt_remove_def)
next
  case (Cons e m)
  obtain j w where e: "e = (j, w)" by (cases e)
  with Cons.prems have gt: "\<forall>i \<in> fst ` set m. j < i" and "bt_ok m" by (auto simp: bt_ok_Cons)
  have "bt_remove j m = m"
    using gt by (auto simp: bt_remove_def filter_id_conv)
  with Cons.IH \<open>bt_ok m\<close> e show ?case
    by (cases "k = j") (auto simp: bt_remove_def)
qed

lemma bt_length_insert:
  "bt_ok m \<Longrightarrow> length (bt_insert k v m) = (if bt_has m k then length m else Suc (length m))"
  using bt_sum_insert [of m "\<lambda>_. 1" k v] by (auto simp: sum_list_triv bt_has_def split: option.splits)

lemma bt_length_remove:
  "bt_ok m \<Longrightarrow> length (bt_remove k m) = (if bt_has m k then length m - 1 else length m)"
  using bt_sum_remove [of m "\<lambda>_. 1" k] by (auto simp: sum_list_triv bt_has_def split: option.splits)

lemma bt_remove_absent [simp]: "\<not> bt_has m k \<Longrightarrow> bt_remove k m = m"
  by (force simp: bt_remove_def bt_has_def map_of_eq_None_iff filter_id_conv)

lemma bt_entry_le_sum:
  fixes f :: "'k::linorder \<times> 'v \<Rightarrow> nat"
  shows "bt_ok m \<Longrightarrow> bt_get m k = Some v \<Longrightarrow> f (k, v) \<le> sum_list (map f m)"
  using member_le_sum_list [of "f (k, v)" "map f m"] by (force simp: bt_in_set [symmetric])

lemma mset_bt_insert: "bt_ok m \<Longrightarrow> mset (bt_insert k v m) = add_mset (k, v) (mset (bt_remove k m))"
proof (induction k v m rule: bt_insert.induct)
  case (1 k v)
  then show ?case by (simp add: bt_remove_def)
next
  case (2 k v j w m)
  from 2 have gt: "\<forall>i \<in> fst ` set m. j < i" and "bt_ok m" by (auto simp: bt_ok_Cons)
  have absent: "bt_remove k m = m" if "k \<le> j"
    using gt that by (fastforce simp: bt_remove_def filter_id_conv)
  show ?case
  proof (cases "k \<le> j")
    case True
    with absent have "bt_remove k m = m" .
    with True show ?thesis by (cases "k = j") (auto simp: bt_remove_def)
  next
    case False
    with 2 \<open>bt_ok m\<close> show ?thesis by (auto simp: bt_remove_def)
  qed
qed

text \<open>A property of every entry.\<close>

definition bt_all :: "('k \<Rightarrow> 'v \<Rightarrow> bool) \<Rightarrow> ('k, 'v) btree \<Rightarrow> bool" where
  "bt_all P m \<longleftrightarrow> list_all (\<lambda>(k, v). P k v) m"

lemma bt_all_iff: "bt_ok m \<Longrightarrow> bt_all P m \<longleftrightarrow> (\<forall>k v. bt_get m k = Some v \<longrightarrow> P k v)"
  by (auto simp: bt_all_def list_all_iff bt_in_set)

lemma bt_all_Nil [simp]: "bt_all P []"
  by (simp add: bt_all_def)

lemma bt_all_Cons [simp]: "bt_all P ((k, v) # m) \<longleftrightarrow> P k v \<and> bt_all P m"
  by (simp add: bt_all_def)

lemma bt_all_get: "bt_all P m \<Longrightarrow> bt_get m k = Some v \<Longrightarrow> P k v"
  by (auto simp: bt_all_def list_all_iff dest: map_of_SomeD)

lemma bt_all_insert [intro]: "bt_all P m \<Longrightarrow> P k v \<Longrightarrow> bt_all P (bt_insert k v m)"
  by (induction k v m rule: bt_insert.induct) (auto simp: bt_all_def)

lemma bt_all_filter [intro]: "bt_all P m \<Longrightarrow> bt_all P (filter Q m)"
  by (auto simp: bt_all_def list_all_iff)

lemma bt_all_remove [intro]: "bt_all P m \<Longrightarrow> bt_all P (bt_remove k m)"
  unfolding bt_remove_def by (rule bt_all_filter)

lemma bt_all_adjust: "bt_all P m \<Longrightarrow> (\<And>v. P k v \<Longrightarrow> P k (f v)) \<Longrightarrow> bt_all P (bt_adjust k f m)"
  by (fastforce simp: bt_all_def bt_adjust_def list_all_iff)

lemma bt_all_mono: "bt_all P m \<Longrightarrow> (\<And>k v. P k v \<Longrightarrow> Q k v) \<Longrightarrow> bt_all Q m"
  by (auto simp: bt_all_def list_all_iff)

lemma bt_all_extend: "bt_all P m \<Longrightarrow> bt_all P kvs \<Longrightarrow> bt_all P (bt_extend m kvs)"
proof (induction kvs arbitrary: m)
  case Nil
  then show ?case by (simp add: bt_extend_def)
next
  case (Cons e kvs)
  obtain k v where "e = (k, v)" by (cases e)
  with Cons.prems have "bt_all P (bt_insert k v m)" and "bt_all P kvs"
    by (auto simp: bt_all_def intro!: bt_all_insert [unfolded bt_all_def])
  from Cons.IH [OF this] \<open>e = (k, v)\<close> show ?case by (simp add: bt_extend_def)
qed

subsection \<open>Maps: updates in place\<close>

lemma bt_keys_adjust [simp]: "map fst (bt_adjust k f m) = map fst m"
  by (auto simp: bt_adjust_def)

lemma bt_ok_adjust [simp]: "bt_ok (bt_adjust k f m) \<longleftrightarrow> bt_ok m"
  by (simp add: bt_ok_def)

lemma bt_get_adjust [simp]:
  "bt_get (bt_adjust k f m) j = (if j = k then map_option f (bt_get m j) else bt_get m j)"
  by (induction m) (auto simp: bt_adjust_def)

lemma bt_has_adjust [simp]: "bt_has (bt_adjust k f m) j \<longleftrightarrow> bt_has m j"
  by (auto simp: bt_has_def)

lemma bt_adjust_insert: "bt_ok m \<Longrightarrow> bt_get m k = Some v \<Longrightarrow> bt_adjust k f m = bt_insert k (f v) m"
  by (rule bt_ext) auto

lemma bt_adjust_absent: "bt_get m k = None \<Longrightarrow> bt_adjust k f m = m"
  by (induction m) (auto simp: bt_adjust_def split: if_splits)

lemma bt_adjust_id: "bt_ok m \<Longrightarrow> bt_get m k = Some v \<Longrightarrow> f v = v \<Longrightarrow> bt_adjust k f m = m"
  by (rule bt_ext) auto

lemma bt_length_adjust [simp]: "length (bt_adjust k f m) = length m"
  by (simp add: bt_adjust_def)

lemma bt_keys_map [simp]: "map fst (bt_map f m) = map fst m"
  by (auto simp: bt_map_def)

lemma bt_ok_map [simp]: "bt_ok (bt_map f m) \<longleftrightarrow> bt_ok m"
  by (simp add: bt_ok_def)

lemma bt_get_map [simp]: "bt_get (bt_map f m) k = map_option f (bt_get m k)"
  by (induction m) (auto simp: bt_map_def)

lemma bt_has_map [simp]: "bt_has (bt_map f m) k \<longleftrightarrow> bt_has m k"
  by (auto simp: bt_has_def)

lemma bt_length_map [simp]: "length (bt_map f m) = length m"
  by (simp add: bt_map_def)

subsection \<open>Sets\<close>

lemma bs_ok_Nil [simp]: "bs_ok []"
  by (simp add: bs_ok_def)

lemma bs_ok_Cons: "bs_ok (k # s) \<longleftrightarrow> (\<forall>j \<in> set s. k < j) \<and> bs_ok s"
  by (simp add: bs_ok_def)

lemma set_bs_insert [simp]: "set (bs_insert k s) = insert k (set s)"
  by (induction k s rule: bs_insert.induct) auto

lemma bs_ok_insert [simp]: "bs_ok s \<Longrightarrow> bs_ok (bs_insert k s)"
  by (induction k s rule: bs_insert.induct) (auto simp: bs_ok_Cons intro: less_trans)

lemma set_bs_remove [simp]: "set (bs_remove k s) = set s - {k}"
  by (auto simp: bs_remove_def)

lemma bs_ok_remove [simp]: "bs_ok s \<Longrightarrow> bs_ok (bs_remove k s)"
  by (simp add: bs_remove_def bs_ok_def sorted_wrt_filter)

lemma bs_ok_of_list [simp]: "bs_ok (bs_of_list xs)"
proof -
  have "bs_ok s \<Longrightarrow> bs_ok (fold bs_insert xs s)" for s
    by (induction xs arbitrary: s) auto
  then show ?thesis by (simp add: bs_of_list_def)
qed

lemma set_bs_of_list [simp]: "set (bs_of_list xs) = set xs"
proof -
  have "set (fold bs_insert xs s) = set xs \<union> set s" for s
    by (induction xs arbitrary: s) auto
  then show ?thesis by (simp add: bs_of_list_def)
qed

lemma bs_ext: "bs_ok s \<Longrightarrow> bs_ok t \<Longrightarrow> set s = set t \<Longrightarrow> s = t"
  by (simp add: bs_ok_def strict_sorted_equal)

lemma bs_insert_sum:
  fixes f :: "'k::linorder \<Rightarrow> nat"
  shows "bs_ok s \<Longrightarrow> sum_list (map f (bs_insert k s)) = (if k \<in> set s then sum_list (map f s) else sum_list (map f s) + f k)"
  by (induction k s rule: bs_insert.induct) (auto simp: bs_ok_Cons)

lemma bs_remove_sum:
  fixes f :: "'k::linorder \<Rightarrow> nat"
  shows "bs_ok s \<Longrightarrow> sum_list (map f (bs_remove k s)) + (if k \<in> set s then f k else 0) = sum_list (map f s)"
proof (induction s)
  case Nil
  then show ?case by (simp add: bs_remove_def)
next
  case (Cons j s)
  then have "j \<notin> set s" by (auto simp: bs_ok_Cons)
  then have "bs_remove j s = s" by (auto simp: bs_remove_def filter_id_conv)
  with Cons show ?case by (cases "k = j") (auto simp: bs_remove_def bs_ok_Cons)
qed

end
