(* ===== verification/Json.thy ===== *)
theory Json
  imports Complex_Main BTree
begin

section \<open>JSON values\<close>

text \<open>
  \<open>serde_json::Value\<close> as the program uses it. The crate is built without \<open>preserve_order\<close>
  and \<open>arbitrary_precision\<close>, so an object is a \<open>BTreeMap\<close> and a number is a \<open>u64\<close>, a negative
  \<open>i64\<close> or a finite \<open>f64\<close>; a finite \<open>f64\<close> is represented by the rational it denotes (the two
  zeros, which compare equal, are one value here). The serializer \<open>serde_json::to_vec\<close> is
  third-party code: it is the parameter \<open>to_vec\<close> of every definition that uses it.
\<close>

datatype jnum = PosInt nat | NegInt int | Float rat

datatype json =
    JNull
  | JBool bool
  | JNum jnum
  | JStr string
  | JArr "json list"
  | JObj "(string \<times> json) list"

type_synonym to_vec = "json \<Rightarrow> string option"

subsection \<open>Accessors\<close>

text \<open>\<open>Value::get(key)\<close> with a string key.\<close>

fun jget :: "json \<Rightarrow> string \<Rightarrow> json option" where
  "jget (JObj m) k = bt_get m k"
| "jget _ _ = None"

fun as_str :: "json \<Rightarrow> string option" where
  "as_str (JStr s) = Some s"
| "as_str _ = None"

fun as_bool :: "json \<Rightarrow> bool option" where
  "as_bool (JBool b) = Some b"
| "as_bool _ = None"

fun as_array :: "json \<Rightarrow> json list option" where
  "as_array (JArr xs) = Some xs"
| "as_array _ = None"

fun as_object :: "json \<Rightarrow> (string \<times> json) list option" where
  "as_object (JObj m) = Some m"
| "as_object _ = None"

fun as_u64 :: "json \<Rightarrow> nat option" where
  "as_u64 (JNum (PosInt n)) = Some n"
| "as_u64 _ = None"

definition is_object :: "json \<Rightarrow> bool" where
  "is_object v \<longleftrightarrow> as_object v \<noteq> None"

abbreviation empty_object :: json where
  "empty_object \<equiv> JObj []"

text \<open>\<open>body.get(key).cloned().unwrap_or_else(|| json!({}))\<close>.\<close>

definition jget_or_object :: "json \<Rightarrow> string \<Rightarrow> json" where
  "jget_or_object v k = (case jget v k of Some w \<Rightarrow> w | None \<Rightarrow> empty_object)"

definition jstr_at :: "json \<Rightarrow> string \<Rightarrow> string option" where
  "jstr_at v k = Option.bind (jget v k) as_str"

subsection \<open>Well-formed values\<close>

lemma size_json_member [termination_simp]:
  "e \<in> set m \<Longrightarrow> size (snd e) < Suc (size_list (size_prod size size) m)"
  by (induction m) (auto simp: size_prod_def split: prod.splits)

text \<open>Every object of the value has its keys in order and once each.\<close>

fun json_ok :: "json \<Rightarrow> bool" where
  "json_ok (JArr xs) = (\<forall>x \<in> set xs. json_ok x)"
| "json_ok (JObj m) = (bt_ok m \<and> (\<forall>e \<in> set m. json_ok (snd e)))"
| "json_ok _ = True"

lemma json_ok_jget: "json_ok v \<Longrightarrow> jget v k = Some w \<Longrightarrow> json_ok w"
  by (cases v) (force dest: map_of_SomeD)+

lemma json_ok_jget_or_object: "json_ok v \<Longrightarrow> json_ok (jget_or_object v k)"
  by (auto simp: jget_or_object_def json_ok_jget split: option.splits)

lemma json_ok_bt_insert:
  "json_ok (JObj m) \<Longrightarrow> json_ok v \<Longrightarrow> json_ok (JObj (bt_insert k v m))"
proof -
  assume "json_ok (JObj m)" "json_ok v"
  then have "\<forall>e \<in> set (bt_insert k v m). json_ok (snd e)"
    by (induction k v m rule: bt_insert.induct) (auto simp: bt_ok_Cons)
  with \<open>json_ok (JObj m)\<close> show ?thesis by simp
qed

subsection \<open>Shallow merge\<close>

text \<open>\<open>merge_object\<close>: the entries of the patch replace those of the target; anything else than
  two objects makes the patch the result.\<close>

fun merge_object :: "json \<Rightarrow> json \<Rightarrow> json" where
  "merge_object (JObj target) (JObj patch) = JObj (bt_extend target patch)"
| "merge_object target patch = patch"

lemma json_ok_merge_object [simp]:
  assumes "json_ok t" and "json_ok p"
  shows "json_ok (merge_object t p)"
proof (cases "\<exists>a b. t = JObj a \<and> p = JObj b")
  case True
  then obtain a b where tp: "t = JObj a" "p = JObj b" by blast
  have "json_ok (JObj (bt_extend a kvs))" if "\<forall>e \<in> set kvs. json_ok (snd e)" "json_ok (JObj a)" for kvs
    using that
  proof (induction kvs arbitrary: a)
    case (Cons e kvs)
    then show ?case
      by (cases e) (auto simp: bt_extend_def simp del: json_ok.simps intro: json_ok_bt_insert)
  qed (simp add: bt_extend_def)
  from this [of b] assms tp show ?thesis by simp
next
  case False
  with assms show ?thesis by (cases t; cases p) simp_all
qed

lemma jget_merge_object:
  assumes "json_ok (JObj p)"
  shows "jget (merge_object (JObj t) (JObj p)) k
    = (case jget (JObj p) k of None \<Rightarrow> jget (JObj t) k | Some v \<Rightarrow> Some v)"
  using assms by (simp add: bt_get_extend_ok split: option.splits)

end
