(* ===== verification/StoreModel.thy ===== *)
theory StoreModel
  imports Json
begin

section \<open>The database and its mutations\<close>

text \<open>
  The data of \<open>src/storage/mod.rs\<close> (database, index, document, template, alias), the byte
  estimates the store keeps of it, the \<open>Mutation\<close> of \<open>src/storage/mutation_log.rs\<close> and
  \<open>Mutation::apply_to\<close>, one definition per arm. A counter is a \<open>u64\<close>, a byte count a \<open>usize\<close>;
  the field prefixes \<open>db_\<close>, \<open>im_\<close>, \<open>doc_\<close>, \<open>it_\<close>, \<open>am_\<close> stand for the owning struct.
\<close>

subsection \<open>State\<close>

record StoredDocument =
  doc_id :: string
  doc_source :: json
  doc_version :: nat
  doc_seq_no :: nat
  doc_primary_term :: nat

record IndexMetadata =
  im_name :: string
  im_settings :: json
  im_mappings :: json
  im_aliases :: "string list"
  im_documents :: "(string, StoredDocument) btree"
  im_tombstones :: "(string, nat) btree"
  im_store_size_bytes :: nat

record IndexTemplate =
  it_name :: string
  it_index_patterns :: "string list"
  it_template :: json
  it_raw :: json

record AliasMetadata =
  am_alias :: string
  am_index :: string
  am_raw :: json

record Database =
  db_indexes :: "(string, IndexMetadata) btree"
  db_templates :: "(string, IndexTemplate) btree"
  db_registries :: "(string, (string, json) btree) btree"
  db_aliases :: "(string, AliasMetadata) btree"
  db_seq_no :: nat

text \<open>\<open>Database::default()\<close>.\<close>

definition Database_default :: Database where
  "Database_default = \<lparr>db_indexes = [], db_templates = [], db_registries = [], db_aliases = [], db_seq_no = 0\<rparr>"

datatype Mutation =
    CreateIndex (m_name: string) (m_settings: json) (m_mappings: json)
  | DeleteIndex (m_name: string)
  | PutTemplate (m_name: string) (m_patterns: "string list") (m_template: json) (m_raw: json)
  | DeleteTemplate (m_name: string)
  | PutRegistryObject (m_namespace: string) (m_name: string) (m_raw: json)
  | DeleteRegistryObject (m_namespace: string) (m_name: string)
  | PutMapping (m_index: string) (m_mappings: json)
  | PutSettings (m_index: string) (m_settings: json)
  | PutAlias (m_index: string) (m_alias: string) (m_raw: json)
  | DeleteAlias (m_index: string) (m_alias: string)
  | IndexDocument (m_index: string) (m_id: string) (m_source: json)
  | CreateDocument (m_index: string) (m_id: string) (m_source: json)
  | UpdateDocument (m_index: string) (m_id: string) (m_doc: json) (m_doc_as_upsert: bool)
  | DeleteDocument (m_index: string) (m_id: string)
  | RenameDocument (m_index: string) (m_old_id: string) (m_new_id: string)

subsection \<open>Byte estimates\<close>

definition estimate_value_bytes :: "to_vec \<Rightarrow> json \<Rightarrow> nat" where
  "estimate_value_bytes tv v = (case tv v of Some bytes \<Rightarrow> length bytes | None \<Rightarrow> usize_max div 2)"

definition estimate_document_bytes :: "to_vec \<Rightarrow> string \<Rightarrow> json \<Rightarrow> nat" where
  "estimate_document_bytes tv did source = sat_add (sat_add (length did) 64) (estimate_value_bytes tv source)"

definition estimate_tombstone_bytes :: "string \<Rightarrow> nat" where
  "estimate_tombstone_bytes did = sat_add (length did) 16"

definition estimate_index_bytes :: "to_vec \<Rightarrow> IndexMetadata \<Rightarrow> nat" where
  "estimate_index_bytes tv im =
     (let bytes = length (im_name im);
          bytes = sat_add bytes (estimate_value_bytes tv (im_settings im));
          bytes = sat_add bytes (estimate_value_bytes tv (im_mappings im));
          bytes = sat_sum bytes (map length (im_aliases im));
          bytes = sat_sum bytes (map (\<lambda>(did, d). estimate_document_bytes tv did (doc_source d)) (im_documents im))
      in sat_sum bytes (map estimate_tombstone_bytes (bt_keys (im_tombstones im))))"

definition estimate_database_bytes :: "to_vec \<Rightarrow> Database \<Rightarrow> nat" where
  "estimate_database_bytes tv db =
     (let bytes = 128;
          bytes = sat_sum bytes (map im_store_size_bytes (bt_values (db_indexes db)));
          bytes = sat_sum bytes (concat (map (\<lambda>t. [length (it_name t), estimate_value_bytes tv (it_raw t)])
                                   (bt_values (db_templates db))));
          bytes = sat_sum bytes (concat (map (\<lambda>a. [length (am_alias a), length (am_index a), estimate_value_bytes tv (am_raw a)])
                                   (bt_values (db_aliases db))))
      in sat_sum bytes (concat (map (\<lambda>(namespace, registry). length namespace #
              concat (map (\<lambda>(name, raw). [length name, estimate_value_bytes tv raw]) registry))
            (db_registries db))))"

definition recompute_store_size :: "to_vec \<Rightarrow> IndexMetadata \<Rightarrow> IndexMetadata" where
  "recompute_store_size tv im = im\<lparr>im_store_size_bytes := estimate_index_bytes tv im\<rparr>"

definition IndexMetadata_new :: "to_vec \<Rightarrow> string \<Rightarrow> json \<Rightarrow> json \<Rightarrow> IndexMetadata" where
  "IndexMetadata_new tv name settings mappings =
     recompute_store_size tv
       \<lparr>im_name = name, im_settings = settings, im_mappings = mappings, im_aliases = [],
        im_documents = [], im_tombstones = [], im_store_size_bytes = 0\<rparr>"

subsection \<open>Applying a mutation\<close>

text \<open>\<open>if let Some(index_meta) = db.indexes.get_mut(index) { ... }\<close>.\<close>

definition on_index :: "string \<Rightarrow> (IndexMetadata \<Rightarrow> IndexMetadata) \<Rightarrow> Database \<Rightarrow> Database" where
  "on_index index f db = db\<lparr>db_indexes := bt_adjust index f (db_indexes db)\<rparr>"

definition next_seq_no :: "Database \<Rightarrow> Database" where
  "next_seq_no db = db\<lparr>db_seq_no := u64_succ (db_seq_no db)\<rparr>"

definition apply_create_index :: "to_vec \<Rightarrow> string \<Rightarrow> json \<Rightarrow> json \<Rightarrow> Database \<Rightarrow> Database" where
  "apply_create_index tv name settings mappings db =
     (if bt_has (db_indexes db) name then db
      else db\<lparr>db_indexes := bt_insert name (IndexMetadata_new tv name settings mappings) (db_indexes db)\<rparr>)"

definition apply_delete_index :: "string \<Rightarrow> Database \<Rightarrow> Database" where
  "apply_delete_index name db =
     db\<lparr>db_indexes := bt_remove name (db_indexes db),
        db_aliases := filter (\<lambda>(_, a). am_index a \<noteq> name) (db_aliases db)\<rparr>"

definition apply_put_template :: "string \<Rightarrow> string list \<Rightarrow> json \<Rightarrow> json \<Rightarrow> Database \<Rightarrow> Database" where
  "apply_put_template name patterns template raw db =
     db\<lparr>db_templates := bt_insert name
          \<lparr>it_name = name, it_index_patterns = patterns, it_template = template, it_raw = raw\<rparr>
          (db_templates db)\<rparr>"

definition apply_delete_template :: "string \<Rightarrow> Database \<Rightarrow> Database" where
  "apply_delete_template name db = db\<lparr>db_templates := bt_remove name (db_templates db)\<rparr>"

definition apply_put_registry_object :: "string \<Rightarrow> string \<Rightarrow> json \<Rightarrow> Database \<Rightarrow> Database" where
  "apply_put_registry_object namespace name raw db =
     (let registry = (case bt_get (db_registries db) namespace of Some r \<Rightarrow> r | None \<Rightarrow> [])
      in db\<lparr>db_registries := bt_insert namespace (bt_insert name raw registry) (db_registries db)\<rparr>)"

definition apply_delete_registry_object :: "string \<Rightarrow> string \<Rightarrow> Database \<Rightarrow> Database" where
  "apply_delete_registry_object namespace name db =
     (case bt_get (db_registries db) namespace of
        None \<Rightarrow> db
      | Some registry \<Rightarrow>
          (let registry' = bt_remove name registry
           in if registry' = [] then db\<lparr>db_registries := bt_remove namespace (db_registries db)\<rparr>
              else db\<lparr>db_registries := bt_insert namespace registry' (db_registries db)\<rparr>))"

definition apply_put_mapping :: "to_vec \<Rightarrow> string \<Rightarrow> json \<Rightarrow> Database \<Rightarrow> Database" where
  "apply_put_mapping tv index mappings db =
     on_index index (\<lambda>im. recompute_store_size tv
       (im\<lparr>im_mappings := merge_object (im_mappings im) mappings\<rparr>)) db"

definition apply_put_settings :: "to_vec \<Rightarrow> string \<Rightarrow> json \<Rightarrow> Database \<Rightarrow> Database" where
  "apply_put_settings tv index settings db =
     on_index index (\<lambda>im. recompute_store_size tv
       (im\<lparr>im_settings := merge_object (im_settings im) settings\<rparr>)) db"

definition apply_put_alias :: "to_vec \<Rightarrow> string \<Rightarrow> string \<Rightarrow> json \<Rightarrow> Database \<Rightarrow> Database" where
  "apply_put_alias tv index alias raw db =
     (let db = on_index index (\<lambda>im. recompute_store_size tv
                 (im\<lparr>im_aliases := bs_insert alias (im_aliases im)\<rparr>)) db
      in db\<lparr>db_aliases := bt_insert alias \<lparr>am_alias = alias, am_index = index, am_raw = raw\<rparr> (db_aliases db)\<rparr>)"

definition apply_delete_alias :: "to_vec \<Rightarrow> string \<Rightarrow> string \<Rightarrow> Database \<Rightarrow> Database" where
  "apply_delete_alias tv index alias db =
     (let db = on_index index (\<lambda>im. recompute_store_size tv
                 (im\<lparr>im_aliases := bs_remove alias (im_aliases im)\<rparr>)) db
      in db\<lparr>db_aliases := bt_remove alias (db_aliases db)\<rparr>)"

text \<open>\<open>existing.version + 1\<close>, or 1 for a new document.\<close>

definition next_version :: "IndexMetadata \<Rightarrow> string \<Rightarrow> nat" where
  "next_version im did = (case bt_get (im_documents im) did of Some d \<Rightarrow> u64_succ (doc_version d) | None \<Rightarrow> 1)"

text \<open>The size bookkeeping the document arms share.\<close>

definition sub_document_bytes :: "to_vec \<Rightarrow> string \<Rightarrow> IndexMetadata \<Rightarrow> IndexMetadata" where
  "sub_document_bytes tv did im =
     (case bt_get (im_documents im) did of
        Some existing \<Rightarrow> im\<lparr>im_store_size_bytes :=
          sat_sub (im_store_size_bytes im) (estimate_document_bytes tv did (doc_source existing))\<rparr>
      | None \<Rightarrow> im)"

definition take_tombstone :: "string \<Rightarrow> IndexMetadata \<Rightarrow> IndexMetadata" where
  "take_tombstone did im =
     (if bt_has (im_tombstones im) did
      then im\<lparr>im_tombstones := bt_remove did (im_tombstones im),
              im_store_size_bytes := sat_sub (im_store_size_bytes im) (estimate_tombstone_bytes did)\<rparr>
      else im)"

definition put_document :: "string \<Rightarrow> StoredDocument \<Rightarrow> IndexMetadata \<Rightarrow> IndexMetadata" where
  "put_document did d im = im\<lparr>im_documents := bt_insert did d (im_documents im)\<rparr>"

definition add_store_bytes :: "nat \<Rightarrow> IndexMetadata \<Rightarrow> IndexMetadata" where
  "add_store_bytes n im = im\<lparr>im_store_size_bytes := sat_add (im_store_size_bytes im) n\<rparr>"

definition index_document_in :: "to_vec \<Rightarrow> nat \<Rightarrow> string \<Rightarrow> json \<Rightarrow> IndexMetadata \<Rightarrow> IndexMetadata" where
  "index_document_in tv seq_no did source im =
     (let im = sub_document_bytes tv did im;
          im = take_tombstone did im;
          version = next_version im did;
          new_bytes = estimate_document_bytes tv did source;
          im = put_document did \<lparr>doc_id = did, doc_source = source, doc_version = version,
                                doc_seq_no = seq_no, doc_primary_term = 1\<rparr> im
      in add_store_bytes new_bytes im)"

definition create_document_in :: "to_vec \<Rightarrow> nat \<Rightarrow> string \<Rightarrow> json \<Rightarrow> IndexMetadata \<Rightarrow> IndexMetadata" where
  "create_document_in tv seq_no did source im =
     (if bt_has (im_documents im) did then im
      else
        let im = take_tombstone did im;
            im = put_document did \<lparr>doc_id = did, doc_source = source, doc_version = 1,
                                  doc_seq_no = seq_no, doc_primary_term = 1\<rparr> im
        in add_store_bytes (estimate_document_bytes tv did source) im)"

text \<open>The source an update starts from: the stored one, or an empty object for an upsert.\<close>

definition update_base :: "IndexMetadata \<Rightarrow> string \<Rightarrow> bool \<Rightarrow> json option" where
  "update_base im did doc_as_upsert =
     (case bt_get (im_documents im) did of
        Some d \<Rightarrow> Some (doc_source d)
      | None \<Rightarrow> if doc_as_upsert then Some empty_object else None)"

definition update_document_in ::
    "to_vec \<Rightarrow> nat \<Rightarrow> string \<Rightarrow> json \<Rightarrow> bool \<Rightarrow> IndexMetadata \<Rightarrow> IndexMetadata" where
  "update_document_in tv seq_no did doc doc_as_upsert im =
     (case update_base im did doc_as_upsert of
        None \<Rightarrow> im
      | Some base \<Rightarrow>
          (let source = merge_object base doc;
               im = sub_document_bytes tv did im;
               version = next_version im did;
               new_bytes = estimate_document_bytes tv did source;
               im = put_document did \<lparr>doc_id = did, doc_source = source, doc_version = version,
                                     doc_seq_no = seq_no, doc_primary_term = 1\<rparr> im;
               im = take_tombstone did im
           in add_store_bytes new_bytes im))"

definition delete_document_in :: "to_vec \<Rightarrow> nat \<Rightarrow> string \<Rightarrow> IndexMetadata \<Rightarrow> IndexMetadata" where
  "delete_document_in tv seq_no did im =
     (case bt_get (im_documents im) did of
        None \<Rightarrow> im
      | Some d \<Rightarrow>
          im\<lparr>im_documents := bt_remove did (im_documents im),
             im_store_size_bytes :=
               sat_add (sat_sub (im_store_size_bytes im) (estimate_document_bytes tv did (doc_source d)))
                 (estimate_tombstone_bytes did),
             im_tombstones := bt_insert did seq_no (im_tombstones im)\<rparr>)"

definition rename_document_in :: "to_vec \<Rightarrow> string \<Rightarrow> string \<Rightarrow> IndexMetadata \<Rightarrow> IndexMetadata" where
  "rename_document_in tv old_id new_id im =
     (if bt_has (im_documents im) new_id then im
      else case bt_get (im_documents im) old_id of
        None \<Rightarrow> im
      | Some d \<Rightarrow>
          recompute_store_size tv
            (put_document new_id (d\<lparr>doc_id := new_id\<rparr>)
              (im\<lparr>im_documents := bt_remove old_id (im_documents im)\<rparr>)))"

definition apply_index_document :: "to_vec \<Rightarrow> string \<Rightarrow> string \<Rightarrow> json \<Rightarrow> Database \<Rightarrow> Database" where
  "apply_index_document tv index did source db =
     (let db = next_seq_no db in on_index index (index_document_in tv (db_seq_no db) did source) db)"

definition apply_create_document :: "to_vec \<Rightarrow> string \<Rightarrow> string \<Rightarrow> json \<Rightarrow> Database \<Rightarrow> Database" where
  "apply_create_document tv index did source db =
     (let db = next_seq_no db in on_index index (create_document_in tv (db_seq_no db) did source) db)"

definition apply_update_document ::
    "to_vec \<Rightarrow> string \<Rightarrow> string \<Rightarrow> json \<Rightarrow> bool \<Rightarrow> Database \<Rightarrow> Database" where
  "apply_update_document tv index did doc doc_as_upsert db =
     (let db = next_seq_no db
      in on_index index (update_document_in tv (db_seq_no db) did doc doc_as_upsert) db)"

definition apply_delete_document :: "to_vec \<Rightarrow> string \<Rightarrow> string \<Rightarrow> Database \<Rightarrow> Database" where
  "apply_delete_document tv index did db =
     (let db = next_seq_no db in on_index index (delete_document_in tv (db_seq_no db) did) db)"

definition apply_rename_document :: "to_vec \<Rightarrow> string \<Rightarrow> string \<Rightarrow> string \<Rightarrow> Database \<Rightarrow> Database" where
  "apply_rename_document tv index old_id new_id db =
     on_index index (rename_document_in tv old_id new_id) db"

fun apply_to :: "to_vec \<Rightarrow> Mutation \<Rightarrow> Database \<Rightarrow> Database" where
  "apply_to tv (CreateIndex name settings mappings) db = apply_create_index tv name settings mappings db"
| "apply_to tv (DeleteIndex name) db = apply_delete_index name db"
| "apply_to tv (PutTemplate name patterns template raw) db = apply_put_template name patterns template raw db"
| "apply_to tv (DeleteTemplate name) db = apply_delete_template name db"
| "apply_to tv (PutRegistryObject namespace name raw) db = apply_put_registry_object namespace name raw db"
| "apply_to tv (DeleteRegistryObject namespace name) db = apply_delete_registry_object namespace name db"
| "apply_to tv (PutMapping index mappings) db = apply_put_mapping tv index mappings db"
| "apply_to tv (PutSettings index settings) db = apply_put_settings tv index settings db"
| "apply_to tv (PutAlias index alias raw) db = apply_put_alias tv index alias raw db"
| "apply_to tv (DeleteAlias index alias) db = apply_delete_alias tv index alias db"
| "apply_to tv (IndexDocument index did source) db = apply_index_document tv index did source db"
| "apply_to tv (CreateDocument index did source) db = apply_create_document tv index did source db"
| "apply_to tv (UpdateDocument index did doc upsert) db = apply_update_document tv index did doc upsert db"
| "apply_to tv (DeleteDocument index did) db = apply_delete_document tv index did db"
| "apply_to tv (RenameDocument index old_id new_id) db = apply_rename_document tv index old_id new_id db"

definition apply_all :: "to_vec \<Rightarrow> Mutation list \<Rightarrow> Database \<Rightarrow> Database" where
  "apply_all tv ms db = fold (apply_to tv) ms db"

lemma apply_all_simps [simp]:
  "apply_all tv [] db = db"
  "apply_all tv (m # ms) db = apply_all tv ms (apply_to tv m db)"
  by (simp_all add: apply_all_def)

lemma apply_all_append: "apply_all tv (ms @ ns) db = apply_all tv ns (apply_all tv ms db)"
  by (simp add: apply_all_def)

end
