(* ===== verification/StoreInv.thy ===== *)
theory StoreInv
  imports StoreModel
begin

section \<open>Invariants of the database\<close>

text \<open>
  What every mutation keeps of the database: maps in order, entries filed under the name they
  carry, and the numbering of document versions and sequence numbers (\<open>db_ok\<close>); aliases that
  point at an index which lists them (\<open>aliases_ok\<close>); and documents disjoint from tombstones
  (\<open>tombstones_ok\<close>).
\<close>

named_theorems apply_defs \<open>the arms of \<open>apply_to\<close>\<close>

lemmas [apply_defs] =
  apply_create_index_def apply_delete_index_def apply_put_template_def apply_delete_template_def
  apply_put_registry_object_def apply_delete_registry_object_def apply_put_mapping_def
  apply_put_settings_def apply_put_alias_def apply_delete_alias_def apply_index_document_def
  apply_create_document_def apply_update_document_def apply_delete_document_def
  apply_rename_document_def on_index_def next_seq_no_def

named_theorems doc_defs \<open>the steps a document arm is made of\<close>

lemmas [doc_defs] =
  sub_document_bytes_def take_tombstone_def put_document_def add_store_bytes_def

subsection \<open>Well-formed indexes\<close>

definition doc_ok :: "nat \<Rightarrow> string \<Rightarrow> StoredDocument \<Rightarrow> bool" where
  "doc_ok n did d \<longleftrightarrow> doc_id d = did \<and> json_ok (doc_source d) \<and> 1 \<le> doc_version d
     \<and> doc_version d \<le> doc_seq_no d \<and> doc_seq_no d \<le> n \<and> doc_primary_term d = 1"

text \<open>The sequence numbers in use in an index: those of its documents and of its tombstones.\<close>

definition index_seq_nos :: "IndexMetadata \<Rightarrow> nat list" where
  "index_seq_nos im = map (doc_seq_no \<circ> snd) (im_documents im) @ map snd (im_tombstones im)"

definition index_ok :: "nat \<Rightarrow> string \<Rightarrow> IndexMetadata \<Rightarrow> bool" where
  "index_ok n name im \<longleftrightarrow> im_name im = name \<and> json_ok (im_settings im) \<and> json_ok (im_mappings im)
     \<and> bs_ok (im_aliases im) \<and> bt_ok (im_documents im) \<and> bt_ok (im_tombstones im)
     \<and> bt_all (doc_ok n) (im_documents im) \<and> bt_all (\<lambda>_ t. t \<le> n) (im_tombstones im)
     \<and> distinct (index_seq_nos im)"

definition db_ok :: "Database \<Rightarrow> bool" where
  "db_ok db \<longleftrightarrow> bt_ok (db_indexes db) \<and> bt_ok (db_templates db) \<and> bt_ok (db_registries db)
     \<and> bt_ok (db_aliases db)
     \<and> bt_all (index_ok (db_seq_no db)) (db_indexes db)
     \<and> bt_all (\<lambda>name t. it_name t = name \<and> json_ok (it_template t) \<and> json_ok (it_raw t)) (db_templates db)
     \<and> bt_all (\<lambda>_ r. bt_ok r \<and> r \<noteq> [] \<and> bt_all (\<lambda>_. json_ok) r) (db_registries db)
     \<and> bt_all (\<lambda>alias a. am_alias a = alias \<and> json_ok (am_raw a)) (db_aliases db)"

text \<open>The JSON values a mutation carries come out of the parser: well-formed.\<close>

fun mutation_ok :: "Mutation \<Rightarrow> bool" where
  "mutation_ok (CreateIndex _ settings mappings) = (json_ok settings \<and> json_ok mappings)"
| "mutation_ok (PutTemplate _ _ template raw) = (json_ok template \<and> json_ok raw)"
| "mutation_ok (PutRegistryObject _ _ raw) = json_ok raw"
| "mutation_ok (PutMapping _ mappings) = json_ok mappings"
| "mutation_ok (PutSettings _ settings) = json_ok settings"
| "mutation_ok (PutAlias _ _ raw) = json_ok raw"
| "mutation_ok (IndexDocument _ _ source) = json_ok source"
| "mutation_ok (CreateDocument _ _ source) = json_ok source"
| "mutation_ok (UpdateDocument _ _ doc _) = json_ok doc"
| "mutation_ok _ = True"

lemma doc_ok_mono: "doc_ok n did d \<Longrightarrow> n \<le> n' \<Longrightarrow> doc_ok n' did d"
  by (simp add: doc_ok_def)

lemma index_ok_mono: "index_ok n name im \<Longrightarrow> n \<le> n' \<Longrightarrow> index_ok n' name im"
  by (auto simp: index_ok_def elim!: bt_all_mono doc_ok_mono)

lemma index_ok_size [simp]: "index_ok n name (im\<lparr>im_store_size_bytes := b\<rparr>) \<longleftrightarrow> index_ok n name im"
  by (simp add: index_ok_def index_seq_nos_def)

lemma index_ok_seq_no: "index_ok n name im \<Longrightarrow> s \<in> set (index_seq_nos im) \<Longrightarrow> s \<le> n"
  by (force simp: index_ok_def index_seq_nos_def bt_all_def list_all_iff doc_ok_def)

lemma index_ok_recompute [simp]: "index_ok n name (recompute_store_size tv im) \<longleftrightarrow> index_ok n name im"
  by (simp add: recompute_store_size_def)

lemma index_ok_add_store_bytes [simp]: "index_ok n name (add_store_bytes b im) \<longleftrightarrow> index_ok n name im"
  by (simp add: add_store_bytes_def)

lemma index_ok_sub_document_bytes [simp]:
  "index_ok n name (sub_document_bytes tv did im) \<longleftrightarrow> index_ok n name im"
  by (simp add: sub_document_bytes_def split: option.splits)

lemma distinct_filter_seq:
  "distinct (map f xs @ map g ys) \<Longrightarrow> distinct (map f (filter P xs) @ map g (filter Q ys))"
  by (auto simp: distinct_map_filter)

lemma index_ok_take_tombstone: "index_ok n name im \<Longrightarrow> index_ok n name (take_tombstone did im)"
  using distinct_filter_seq [of "doc_seq_no \<circ> snd" "im_documents im" snd "im_tombstones im" "\<lambda>_. True"]
  by (auto simp: take_tombstone_def index_ok_def index_seq_nos_def bt_remove_def bt_ok_filter)

text \<open>A document stored under a number above those in use.\<close>

lemma distinct_seq_insert:
  assumes "bt_ok docs" and "distinct (map g docs @ ts)"
    and "g (did, d) \<notin> set (map g (bt_remove did docs) @ ts)"
  shows "distinct (map g (bt_insert did d docs) @ ts)"
proof -
  have "mset (map g (bt_insert did d docs) @ ts) = mset (g (did, d) # map g (bt_remove did docs) @ ts)"
    using assms(1) by (simp add: mset_bt_insert)
  moreover have "distinct (g (did, d) # map g (bt_remove did docs) @ ts)"
    using assms(2,3) by (auto simp: bt_remove_def distinct_map_filter)
  ultimately show ?thesis by (metis mset_eq_imp_distinct_iff)
qed

lemma index_ok_put_new:
  assumes "index_ok n name im" and "doc_ok (Suc n) did d" and "doc_seq_no d = Suc n"
  shows "index_ok (Suc n) name (put_document did d im)"
proof -
  have fresh: "Suc n \<notin> set (index_seq_nos im)"
    using index_ok_seq_no [OF assms(1)] by force
  have "distinct (map (doc_seq_no \<circ> snd) (bt_insert did d (im_documents im)) @ map snd (im_tombstones im))"
  proof (rule distinct_seq_insert)
    show "(doc_seq_no \<circ> snd) (did, d)
        \<notin> set (map (doc_seq_no \<circ> snd) (bt_remove did (im_documents im)) @ map snd (im_tombstones im))"
      using fresh assms(3) by (auto simp: index_seq_nos_def bt_remove_def)
  qed (use assms(1) in \<open>auto simp: index_ok_def index_seq_nos_def\<close>)
  moreover have "index_ok (Suc n) name im"
    using assms(1) by (rule index_ok_mono) simp
  ultimately show ?thesis
    using assms(2) by (auto simp: index_ok_def put_document_def index_seq_nos_def)
qed

subsection \<open>Each document arm keeps the index well formed\<close>

lemma next_version_ok:
  assumes "index_ok n name im" and "n < 2 ^ 64 - 1"
  shows "1 \<le> next_version im did \<and> next_version im did \<le> Suc n"
proof (cases "bt_get (im_documents im) did")
  case None
  then show ?thesis by (simp add: next_version_def)
next
  case (Some d)
  with assms have "doc_ok n did d" by (auto simp: index_ok_def dest: bt_all_get)
  with Some assms(2) show ?thesis by (simp add: next_version_def doc_ok_def)
qed

lemma next_version_sub_bytes [simp]: "next_version (sub_document_bytes tv did im) i = next_version im i"
  by (simp add: next_version_def sub_document_bytes_def split: option.splits)

lemma next_version_take_tombstone [simp]: "next_version (take_tombstone did im) i = next_version im i"
  by (simp add: next_version_def take_tombstone_def)

lemma documents_take_tombstone [simp]: "im_documents (take_tombstone did im) = im_documents im"
  by (simp add: take_tombstone_def)

lemma index_document_in_ok:
  assumes "index_ok n name im" and "json_ok source" and "n < 2 ^ 64 - 1"
  shows "index_ok (Suc n) name (index_document_in tv (Suc n) did source im)"
  using assms next_version_ok [OF assms(1,3), of did]
  by (auto simp: index_document_in_def Let_def doc_ok_def
      intro!: index_ok_put_new index_ok_take_tombstone)

lemma create_document_in_ok:
  assumes "index_ok n name im" and "json_ok source"
  shows "index_ok (Suc n) name (create_document_in tv (Suc n) did source im)"
  using assms
  by (auto simp: create_document_in_def Let_def doc_ok_def
      intro!: index_ok_put_new index_ok_take_tombstone elim: index_ok_mono)

lemma update_base_ok: "index_ok n name im \<Longrightarrow> update_base im did b = Some base \<Longrightarrow> json_ok base"
  by (auto simp: update_base_def index_ok_def doc_ok_def dest: bt_all_get split: option.splits if_splits)

lemma update_document_in_ok:
  assumes "index_ok n name im" and "json_ok doc" and "n < 2 ^ 64 - 1"
  shows "index_ok (Suc n) name (update_document_in tv (Suc n) did doc upsert im)"
  using assms next_version_ok [OF assms(1,3), of did]
  by (auto simp: update_document_in_def Let_def doc_ok_def
      intro!: index_ok_put_new index_ok_take_tombstone elim: index_ok_mono
      dest: update_base_ok split: option.splits)

lemma delete_document_in_ok:
  assumes "index_ok n name im"
  shows "index_ok (Suc n) name (delete_document_in tv (Suc n) did im)"
proof (cases "bt_get (im_documents im) did")
  case None
  with assms show ?thesis by (auto simp: delete_document_in_def elim: index_ok_mono)
next
  case (Some d)
  let ?f = "doc_seq_no \<circ> snd"
  have fresh: "Suc n \<notin> set (index_seq_nos im)"
    using index_ok_seq_no [OF assms] by force
  have dist: "distinct (map snd (im_tombstones im) @ map ?f (bt_remove did (im_documents im)))"
    using assms distinct_filter_seq [of ?f "im_documents im" snd "im_tombstones im" _ "\<lambda>_. True"]
    by (auto simp: index_ok_def index_seq_nos_def bt_remove_def)
  have "distinct (map snd (bt_insert did (Suc n) (im_tombstones im)) @ map ?f (bt_remove did (im_documents im)))"
  proof (rule distinct_seq_insert [OF _ dist])
    show "bt_ok (im_tombstones im)" using assms by (simp add: index_ok_def)
  qed (use fresh in \<open>auto simp: index_seq_nos_def bt_remove_def\<close>)
  then have "distinct (map ?f (bt_remove did (im_documents im)) @ map snd (bt_insert did (Suc n) (im_tombstones im)))"
    by auto
  moreover have "index_ok (Suc n) name im"
    using assms by (rule index_ok_mono) simp
  ultimately show ?thesis
    using Some by (auto simp: index_ok_def index_seq_nos_def delete_document_in_def)
qed

lemma rename_document_in_ok:
  assumes "index_ok n name im"
  shows "index_ok n name (rename_document_in tv old_id new_id im)"
proof (cases "bt_has (im_documents im) new_id \<or> bt_get (im_documents im) old_id = None")
  case True
  with assms show ?thesis by (auto simp: rename_document_in_def split: option.splits)
next
  case False
  then obtain d where new: "\<not> bt_has (im_documents im) new_id"
    and d: "bt_get (im_documents im) old_id = Some d" by auto
  let ?f = "doc_seq_no \<circ> snd" and ?docs = "bt_remove old_id (im_documents im)"
  have bt: "bt_ok (im_documents im)" and ok: "doc_ok n old_id d"
    using assms d by (auto simp: index_ok_def dest: bt_all_get)
  have "(old_id, d) \<in> set (im_documents im)" using d by (rule map_of_SomeD)
  have "mset (im_documents im) = add_mset (old_id, d) (mset ?docs)"
    using mset_bt_insert [OF bt, of old_id d] bt.ins_same [OF bt d] by simp
  then have "mset (map ?f (im_documents im) @ map snd (im_tombstones im))
      = mset (doc_seq_no d # map ?f ?docs @ map snd (im_tombstones im))" by simp
  then have dist: "distinct (doc_seq_no d # map ?f ?docs @ map snd (im_tombstones im))"
    using assms mset_eq_imp_distinct_iff unfolding index_ok_def index_seq_nos_def by blast
  have "distinct (map ?f (bt_insert new_id (d\<lparr>doc_id := new_id\<rparr>) ?docs) @ map snd (im_tombstones im))"
    by (rule distinct_seq_insert) (use bt dist in \<open>auto simp: bt_remove_def bt_ok_filter\<close>)
  with assms new d ok show ?thesis
    by (auto simp: rename_document_in_def index_ok_def index_seq_nos_def put_document_def doc_ok_def
        recompute_store_size_def)
qed


subsection \<open>Every mutation keeps the database well formed\<close>

lemma index_ok_new:
  "json_ok settings \<Longrightarrow> json_ok mappings \<Longrightarrow> index_ok n name (IndexMetadata_new tv name settings mappings)"
  by (simp add: IndexMetadata_new_def) (simp add: index_ok_def index_seq_nos_def)

lemma db_ok_on_index:
  assumes "db_ok db"
    and "\<And>im. index_ok (db_seq_no db) index im \<Longrightarrow> index_ok (db_seq_no db) index (f im)"
  shows "db_ok (on_index index f db)"
  using assms by (auto simp: db_ok_def on_index_def intro: bt_all_adjust)

lemma db_ok_on_index_next:
  assumes "db_ok db" and "db_seq_no db < 2 ^ 64 - 1"
    and "\<And>im. index_ok (db_seq_no db) index im \<Longrightarrow> index_ok (Suc (db_seq_no db)) index (f im)"
  shows "db_ok (on_index index f (next_seq_no db))"
proof -
  have "bt_all (index_ok (Suc (db_seq_no db))) (bt_adjust index f (db_indexes db))"
    using assms(1,3) index_ok_mono [of "db_seq_no db" _ _ "Suc (db_seq_no db)"]
    by (fastforce simp: bt_all_def bt_adjust_def list_all_iff db_ok_def)
  with assms(1,2) show ?thesis by (simp add: db_ok_def on_index_def next_seq_no_def)
qed

lemma seq_no_next [simp]: "n < 2 ^ 64 - 1 \<Longrightarrow> db_seq_no db = n \<Longrightarrow> db_seq_no (next_seq_no db) = Suc n"
  by (simp add: next_seq_no_def)

lemma index_ok_aliases:
  "index_ok n name im \<Longrightarrow> bs_ok as \<Longrightarrow> index_ok n name (im\<lparr>im_aliases := as\<rparr>)"
  by (simp add: index_ok_def index_seq_nos_def)

lemma index_ok_mappings:
  "index_ok n name im \<Longrightarrow> json_ok v \<Longrightarrow> index_ok n name (im\<lparr>im_mappings := merge_object (im_mappings im) v\<rparr>)"
  by (simp add: index_ok_def index_seq_nos_def)

lemma index_ok_settings:
  "index_ok n name im \<Longrightarrow> json_ok v \<Longrightarrow> index_ok n name (im\<lparr>im_settings := merge_object (im_settings im) v\<rparr>)"
  by (simp add: index_ok_def index_seq_nos_def)

lemma db_ok_registries:
  "db_ok db \<Longrightarrow> bt_ok rs \<Longrightarrow> bt_all (\<lambda>_ r. bt_ok r \<and> r \<noteq> [] \<and> bt_all (\<lambda>_. json_ok) r) rs
    \<Longrightarrow> db_ok (db\<lparr>db_registries := rs\<rparr>)"
  by (simp add: db_ok_def)

lemma apply_registry_ok:
  assumes "db_ok db"
  shows "json_ok raw \<Longrightarrow> db_ok (apply_put_registry_object ns name raw db)"
    and "db_ok (apply_delete_registry_object ns name db)"
proof -
  let ?P = "\<lambda>(_::string) r. bt_ok r \<and> r \<noteq> [] \<and> bt_all (\<lambda>_. json_ok) r"
  have rs: "bt_ok (db_registries db)" and all: "bt_all ?P (db_registries db)"
    using assms by (auto simp: db_ok_def)
  show "db_ok (apply_put_registry_object ns name raw db)" if "json_ok raw"
    using that rs all bt_all_get [OF all, of ns] unfolding apply_put_registry_object_def Let_def
    by (intro db_ok_registries assms) (auto simp: bt_ok_Cons intro!: bt_all_insert split: option.splits)
  show "db_ok (apply_delete_registry_object ns name db)"
    using assms rs all bt_all_get [OF all, of ns]
    by (auto simp: apply_delete_registry_object_def Let_def intro!: db_ok_registries bt_all_insert split: option.splits)
qed

lemma apply_index_level_ok:
  assumes "db_ok db"
  shows "json_ok s \<Longrightarrow> json_ok m \<Longrightarrow> db_ok (apply_create_index tv name s m db)"
    and "db_ok (apply_delete_index name db)"
    and "json_ok m \<Longrightarrow> db_ok (apply_put_mapping tv name m db)"
    and "json_ok s \<Longrightarrow> db_ok (apply_put_settings tv name s db)"
proof -
  show "json_ok s \<Longrightarrow> json_ok m \<Longrightarrow> db_ok (apply_create_index tv name s m db)"
    using assms by (auto simp: db_ok_def apply_create_index_def intro: index_ok_new)
  show "db_ok (apply_delete_index name db)"
    using assms by (auto simp: db_ok_def apply_delete_index_def bt_ok_filter)
  show "json_ok m \<Longrightarrow> db_ok (apply_put_mapping tv name m db)"
    unfolding apply_put_mapping_def by (rule db_ok_on_index [OF assms]) (simp add: index_ok_mappings)
  show "json_ok s \<Longrightarrow> db_ok (apply_put_settings tv name s db)"
    unfolding apply_put_settings_def by (rule db_ok_on_index [OF assms]) (simp add: index_ok_settings)
qed

lemma apply_name_level_ok:
  assumes "db_ok db"
  shows "json_ok t \<Longrightarrow> json_ok raw \<Longrightarrow> db_ok (apply_put_template name ps t raw db)"
    and "db_ok (apply_delete_template name db)"
    and "json_ok raw \<Longrightarrow> db_ok (apply_put_alias tv index alias raw db)"
    and "db_ok (apply_delete_alias tv index alias db)"
proof -
  have al: "db_ok (on_index index (\<lambda>im. recompute_store_size tv (im\<lparr>im_aliases := g (im_aliases im)\<rparr>)) db)"
    if "\<And>s. bs_ok s \<Longrightarrow> bs_ok (g s)" for g
    by (rule db_ok_on_index [OF assms]) (use that in \<open>simp add: index_ok_def index_seq_nos_def recompute_store_size_def\<close>)
  show "json_ok t \<Longrightarrow> json_ok raw \<Longrightarrow> db_ok (apply_put_template name ps t raw db)"
    and "db_ok (apply_delete_template name db)"
    using assms by (auto simp: db_ok_def apply_put_template_def apply_delete_template_def)
  show "json_ok raw \<Longrightarrow> db_ok (apply_put_alias tv index alias raw db)"
    using al [of "bs_insert alias"] by (auto simp: db_ok_def apply_put_alias_def Let_def)
  show "db_ok (apply_delete_alias tv index alias db)"
    using al [of "bs_remove alias"] by (auto simp: db_ok_def apply_delete_alias_def Let_def)
qed

lemma apply_document_level_ok:
  assumes "db_ok db" and "db_seq_no db < 2 ^ 64 - 1"
  shows "json_ok v \<Longrightarrow> db_ok (apply_index_document tv index did v db)"
    and "json_ok v \<Longrightarrow> db_ok (apply_create_document tv index did v db)"
    and "json_ok v \<Longrightarrow> db_ok (apply_update_document tv index did v upsert db)"
    and "db_ok (apply_delete_document tv index did db)"
    and "db_ok (apply_rename_document tv index old_id new_id db)"
proof -
  have seq: "db_seq_no (next_seq_no db) = Suc (db_seq_no db)"
    using assms(2) by simp
  show "json_ok v \<Longrightarrow> db_ok (apply_index_document tv index did v db)"
    unfolding apply_index_document_def Let_def
    by (rule db_ok_on_index_next [OF assms]) (use assms(2) seq in \<open>simp add: index_document_in_ok\<close>)
  show "json_ok v \<Longrightarrow> db_ok (apply_create_document tv index did v db)"
    unfolding apply_create_document_def Let_def
    by (rule db_ok_on_index_next [OF assms]) (use seq in \<open>simp add: create_document_in_ok\<close>)
  show "json_ok v \<Longrightarrow> db_ok (apply_update_document tv index did v upsert db)"
    unfolding apply_update_document_def Let_def
    by (rule db_ok_on_index_next [OF assms]) (use assms(2) seq in \<open>simp add: update_document_in_ok\<close>)
  show "db_ok (apply_delete_document tv index did db)"
    unfolding apply_delete_document_def Let_def
    by (rule db_ok_on_index_next [OF assms]) (use seq in \<open>simp add: delete_document_in_ok\<close>)
  show "db_ok (apply_rename_document tv index old_id new_id db)"
    unfolding apply_rename_document_def
    by (rule db_ok_on_index [OF assms(1)]) (rule rename_document_in_ok)
qed

lemma db_ok_apply_to:
  assumes "db_ok db" and "mutation_ok m" and "db_seq_no db < 2 ^ 64 - 1"
  shows "db_ok (apply_to tv m db)"
  using assms
  by (cases m) (simp_all add: apply_registry_ok apply_index_level_ok apply_name_level_ok
      apply_document_level_ok)

lemma db_ok_default [simp]: "db_ok Database_default"
  by (simp add: db_ok_def Database_default_def)


subsection \<open>Documents and tombstones\<close>

definition index_tombstones_ok :: "IndexMetadata \<Rightarrow> bool" where
  "index_tombstones_ok im \<longleftrightarrow> list_all (\<lambda>did. \<not> bt_has (im_tombstones im) did) (bt_keys (im_documents im))"

definition tombstones_ok :: "Database \<Rightarrow> bool" where
  "tombstones_ok db \<longleftrightarrow> bt_all (\<lambda>_. index_tombstones_ok) (db_indexes db)"

lemma index_tombstones_ok_iff:
  "index_tombstones_ok im \<longleftrightarrow> (\<forall>did. bt_has (im_documents im) did \<longrightarrow> \<not> bt_has (im_tombstones im) did)"
  by (force simp: index_tombstones_ok_def list_all_iff bt_keys_def bt_has_def map_of_eq_None_iff)

text \<open>The one mutation that can break it: a rename onto an id that has a tombstone.\<close>

fun renames_onto_tombstone :: "Database \<Rightarrow> Mutation \<Rightarrow> bool" where
  "renames_onto_tombstone db (RenameDocument index old_id new_id) =
     (case bt_get (db_indexes db) index of
        None \<Rightarrow> False
      | Some im \<Rightarrow> bt_has (im_tombstones im) new_id)"
| "renames_onto_tombstone db _ = False"

lemma tombstones_ok_arms:
  assumes "index_tombstones_ok im"
  shows "index_tombstones_ok (index_document_in tv n did v im)"
    and "index_tombstones_ok (create_document_in tv n did v im)"
    and "index_tombstones_ok (update_document_in tv n did v upsert im)"
    and "index_tombstones_ok (delete_document_in tv n did im)"
    and "\<not> bt_has (im_tombstones im) new_id \<Longrightarrow> index_tombstones_ok (rename_document_in tv did new_id im)"
  using assms
  by (auto simp: index_tombstones_ok_iff index_document_in_def create_document_in_def
      update_document_in_def delete_document_in_def rename_document_in_def recompute_store_size_def
      doc_defs Let_def split: option.splits)

lemma tombstones_ok_on_index:
  assumes "tombstones_ok db"
    and "\<And>im. bt_get (db_indexes db) index = Some im \<Longrightarrow> index_tombstones_ok im \<Longrightarrow> index_tombstones_ok (f im)"
    and "bt_ok (db_indexes db)"
  shows "tombstones_ok (on_index index f db)" and "tombstones_ok (on_index index f (next_seq_no db))"
  using assms by (auto simp: tombstones_ok_def on_index_def next_seq_no_def bt_all_iff)

lemma tombstones_ok_apply_to:
  assumes "tombstones_ok db" and "db_ok db" and "\<not> renames_onto_tombstone db m"
  shows "tombstones_ok (apply_to tv m db)"
proof -
  have bt: "bt_ok (db_indexes db)" using assms(2) by (simp add: db_ok_def)
  note on_index_ok = tombstones_ok_on_index [OF assms(1) _ bt]
  have recompute: "index_tombstones_ok (recompute_store_size tv im) = index_tombstones_ok im"
    "index_tombstones_ok (im\<lparr>im_mappings := v\<rparr>) = index_tombstones_ok im"
    "index_tombstones_ok (im\<lparr>im_settings := v\<rparr>) = index_tombstones_ok im" for im v
    by (simp_all add: index_tombstones_ok_def recompute_store_size_def)
  have put: "tombstones_ok (apply_put_template name ps t raw db)"
    "tombstones_ok (apply_delete_template name db)"
    "tombstones_ok (apply_put_registry_object ns name raw db)" for ns name ps t raw
    using assms(1) by (simp_all add: tombstones_ok_def apply_put_template_def
        apply_delete_template_def apply_put_registry_object_def Let_def)
  show ?thesis
  proof (cases m)
    case (CreateIndex name settings mappings)
    have "index_tombstones_ok (IndexMetadata_new tv name settings mappings)"
      by (simp add: index_tombstones_ok_def IndexMetadata_new_def recompute_store_size_def bt_keys_def)
    with CreateIndex assms(1) show ?thesis
      by (auto simp: tombstones_ok_def apply_create_index_def)
  next
    case (DeleteIndex name)
    with assms(1) show ?thesis by (auto simp: tombstones_ok_def apply_delete_index_def)
  next
    case (DeleteRegistryObject ns name)
    with assms(1) show ?thesis
      by (auto simp: tombstones_ok_def apply_delete_registry_object_def Let_def split: option.splits)
  next
    case (PutAlias index al raw)
    have "tombstones_ok (on_index index (\<lambda>im. recompute_store_size tv (im\<lparr>im_aliases := bs_insert al (im_aliases im)\<rparr>)) db)"
      by (rule on_index_ok) (simp add: index_tombstones_ok_def recompute_store_size_def)
    with PutAlias show ?thesis by (simp add: apply_put_alias_def tombstones_ok_def Let_def)
  next
    case (DeleteAlias index al)
    have "tombstones_ok (on_index index (\<lambda>im. recompute_store_size tv (im\<lparr>im_aliases := bs_remove al (im_aliases im)\<rparr>)) db)"
      by (rule on_index_ok) (simp add: index_tombstones_ok_def recompute_store_size_def)
    with DeleteAlias show ?thesis by (simp add: apply_delete_alias_def tombstones_ok_def Let_def)
  next
    case (RenameDocument index old_id new_id)
    with assms(3) show ?thesis
      by (auto simp: apply_rename_document_def intro!: on_index_ok tombstones_ok_arms)
  qed (simp_all add: put apply_put_mapping_def apply_put_settings_def apply_index_document_def
      apply_create_document_def apply_update_document_def apply_delete_document_def Let_def
      on_index_ok tombstones_ok_arms recompute)
qed


subsection \<open>Aliases\<close>

definition alias_listed :: "Database \<Rightarrow> string \<Rightarrow> AliasMetadata \<Rightarrow> bool" where
  "alias_listed db al a =
     (case bt_get (db_indexes db) (am_index a) of
        None \<Rightarrow> False
      | Some im \<Rightarrow> al \<in> set (im_aliases im))"

definition aliases_ok :: "Database \<Rightarrow> bool" where
  "aliases_ok db \<longleftrightarrow> bt_all (alias_listed db) (db_aliases db)"

text \<open>A mutation that adds an alias names an index that exists.\<close>

fun alias_target_ok :: "Database \<Rightarrow> Mutation \<Rightarrow> bool" where
  "alias_target_ok db (PutAlias index al raw) = bt_has (db_indexes db) index"
| "alias_target_ok db _ = True"

lemma alias_listed_on_index:
  assumes "alias_listed db al a" and "\<And>im. al \<in> set (im_aliases im) \<Longrightarrow> al \<in> set (im_aliases (f im))"
  shows "alias_listed (on_index index f db) al a"
    and "alias_listed (on_index index f (next_seq_no db)) al a"
  using assms by (auto simp: alias_listed_def on_index_def next_seq_no_def split: option.splits)

lemma aliases_ok_on_index:
  assumes "aliases_ok db" and "\<And>im. im_aliases (f im) = im_aliases im"
  shows "aliases_ok (on_index index f db)" and "aliases_ok (on_index index f (next_seq_no db))"
proof -
  have "alias_listed (on_index index f db) al a" "alias_listed (on_index index f (next_seq_no db)) al a"
    if "alias_listed db al a" for al a
    using that assms(2) by (auto intro: alias_listed_on_index)
  with assms(1) show "aliases_ok (on_index index f db)" "aliases_ok (on_index index f (next_seq_no db))"
    by (auto simp: aliases_ok_def on_index_def next_seq_no_def elim!: bt_all_mono)
qed

lemma im_aliases_arms [simp]:
  "im_aliases (recompute_store_size tv im) = im_aliases im"
  "im_aliases (index_document_in tv n did v im) = im_aliases im"
  "im_aliases (create_document_in tv n did v im) = im_aliases im"
  "im_aliases (update_document_in tv n did v upsert im) = im_aliases im"
  "im_aliases (delete_document_in tv n did im) = im_aliases im"
  "im_aliases (rename_document_in tv did new_id im) = im_aliases im"
  by (simp_all add: index_document_in_def create_document_in_def update_document_in_def
      delete_document_in_def rename_document_in_def recompute_store_size_def doc_defs Let_def
      split: option.splits)

lemma aliases_ok_indexes_unchanged:
  "aliases_ok db \<Longrightarrow> db_indexes db' = db_indexes db \<Longrightarrow> db_aliases db' = db_aliases db \<Longrightarrow> aliases_ok db'"
  by (simp add: aliases_ok_def alias_listed_def [abs_def])

lemma aliases_ok_create_index:
  assumes "aliases_ok db"
  shows "aliases_ok (apply_create_index tv name s m db)"
proof -
  have "alias_listed (apply_create_index tv name s m db) al a" if "alias_listed db al a" for al a
    using that by (auto simp: alias_listed_def apply_create_index_def bt_has_def split: option.splits)
  with assms show ?thesis
    by (auto simp: aliases_ok_def apply_create_index_def elim!: bt_all_mono)
qed

lemma aliases_ok_delete_index:
  assumes "aliases_ok db"
  shows "aliases_ok (apply_delete_index name db)"
proof -
  have "alias_listed (apply_delete_index name db) al a"
    if "alias_listed db al a" "am_index a \<noteq> name" for al a
    using that by (auto simp: alias_listed_def apply_delete_index_def split: option.splits)
  with assms show ?thesis
    by (auto simp: aliases_ok_def apply_delete_index_def bt_all_def list_all_iff)
qed

lemma aliases_ok_put_alias:
  assumes "aliases_ok db" and "bt_has (db_indexes db) index"
  shows "aliases_ok (apply_put_alias tv index al raw db)"
proof -
  let ?db = "apply_put_alias tv index al raw db"
  have old: "alias_listed ?db al' a" if "alias_listed db al' a" for al' a
    using that by (auto simp: alias_listed_def apply_put_alias_def on_index_def Let_def split: option.splits)
  have new: "alias_listed ?db al \<lparr>am_alias = al, am_index = index, am_raw = raw\<rparr>"
    using assms(2) by (auto simp: alias_listed_def apply_put_alias_def on_index_def Let_def bt_has_def)
  have "bt_all (alias_listed ?db) (db_aliases db)"
    using assms(1) old unfolding aliases_ok_def by (rule bt_all_mono)
  from bt_all_insert [of "alias_listed ?db", OF this new] show ?thesis
    by (simp add: aliases_ok_def) (simp add: apply_put_alias_def on_index_def Let_def)
qed

lemma aliases_ok_delete_alias:
  assumes "aliases_ok db"
  shows "aliases_ok (apply_delete_alias tv index al db)"
proof -
  have "alias_listed (apply_delete_alias tv index al db) al' a"
    if "alias_listed db al' a" "al' \<noteq> al" for al' a
    using that by (auto simp: alias_listed_def apply_delete_alias_def on_index_def Let_def split: option.splits)
  with assms show ?thesis
    by (auto simp: aliases_ok_def apply_delete_alias_def on_index_def Let_def bt_remove_def bt_all_def list_all_iff)
qed

lemma aliases_ok_apply_to:
  assumes "aliases_ok db" and "alias_target_ok db m"
  shows "aliases_ok (apply_to tv m db)"
proof -
  have "aliases_ok (apply_put_template name ps t raw db)" "aliases_ok (apply_delete_template name db)"
    "aliases_ok (apply_put_registry_object ns name raw db)" "aliases_ok (apply_delete_registry_object ns name db)"
    for ns name ps t raw
    by (rule aliases_ok_indexes_unchanged [OF assms(1)];
        simp add: apply_put_template_def apply_delete_template_def apply_put_registry_object_def
          apply_delete_registry_object_def Let_def split: option.splits)+
  moreover have "aliases_ok (apply_put_mapping tv index v db)" "aliases_ok (apply_put_settings tv index v db)"
    "aliases_ok (apply_index_document tv index did v db)" "aliases_ok (apply_create_document tv index did v db)"
    "aliases_ok (apply_update_document tv index did v upsert db)" "aliases_ok (apply_delete_document tv index did db)"
    "aliases_ok (apply_rename_document tv index did new_id db)" for index did new_id v upsert
    unfolding apply_put_mapping_def apply_put_settings_def apply_index_document_def
      apply_create_document_def apply_update_document_def apply_delete_document_def
      apply_rename_document_def Let_def
    by (rule aliases_ok_on_index [OF assms(1)], simp)+
  ultimately show ?thesis
    using assms by (cases m) (simp_all only: apply_to.simps alias_target_ok.simps aliases_ok_create_index
      aliases_ok_delete_index aliases_ok_put_alias aliases_ok_delete_alias)
qed

end
