(* ===== verification/StoreSize.thy ===== *)
theory StoreSize
  imports StoreInv
begin

section \<open>Byte accounting\<close>

text \<open>
  The store keeps a running byte count per index and prices a mutation before applying it
  (\<open>estimate_database_bytes_after_mutation\<close>, \<open>SizeDelta\<close>). Here the counts are compared with the
  plain, unsaturated sums over the state: while no counter has reached \<open>usize::MAX\<close>, the running
  count is the sum and the price of a mutation is the size of the database after it.
\<close>

subsection \<open>Pricing a mutation\<close>

record SizeDelta =
  sd_add :: nat
  sd_subtract :: nat

definition SizeDelta_add :: "nat \<Rightarrow> SizeDelta" where
  "SizeDelta_add bytes = \<lparr>sd_add = bytes, sd_subtract = 0\<rparr>"

definition SizeDelta_default :: SizeDelta where
  "SizeDelta_default = \<lparr>sd_add = 0, sd_subtract = 0\<rparr>"

definition SizeDelta_subtract :: "nat \<Rightarrow> SizeDelta \<Rightarrow> SizeDelta" where
  "SizeDelta_subtract bytes d = d\<lparr>sd_subtract := sat_add (sd_subtract d) bytes\<rparr>"

definition SizeDelta_apply :: "SizeDelta \<Rightarrow> nat \<Rightarrow> nat" where
  "SizeDelta_apply d current = sat_add (sat_sub current (sd_subtract d)) (sd_add d)"

definition subtract_existing :: "to_vec \<Rightarrow> string \<Rightarrow> IndexMetadata \<Rightarrow> SizeDelta \<Rightarrow> SizeDelta" where
  "subtract_existing tv did im delta =
     (case bt_get (im_documents im) did of
        Some existing \<Rightarrow> SizeDelta_subtract (estimate_document_bytes tv did (doc_source existing)) delta
      | None \<Rightarrow> delta)"

definition subtract_tombstone :: "string \<Rightarrow> IndexMetadata \<Rightarrow> SizeDelta \<Rightarrow> SizeDelta" where
  "subtract_tombstone did im delta =
     (if bt_has (im_tombstones im) did then SizeDelta_subtract (estimate_tombstone_bytes did) delta else delta)"

fun estimate_mutation_size_delta :: "to_vec \<Rightarrow> Database \<Rightarrow> Mutation \<Rightarrow> SizeDelta option" where
  "estimate_mutation_size_delta tv db (CreateIndex name settings mappings) =
     Some (SizeDelta_add (estimate_index_bytes tv (IndexMetadata_new tv name settings mappings)))"
| "estimate_mutation_size_delta tv db (IndexDocument index did source) =
     map_option (\<lambda>im. subtract_tombstone did im
         (subtract_existing tv did im (SizeDelta_add (estimate_document_bytes tv did source))))
       (bt_get (db_indexes db) index)"
| "estimate_mutation_size_delta tv db (CreateDocument index did source) =
     map_option (\<lambda>im. if bt_has (im_documents im) did then SizeDelta_default
         else subtract_tombstone did im (SizeDelta_add (estimate_document_bytes tv did source)))
       (bt_get (db_indexes db) index)"
| "estimate_mutation_size_delta tv db (UpdateDocument index did doc doc_as_upsert) =
     map_option (\<lambda>im. case update_base im did doc_as_upsert of
           None \<Rightarrow> SizeDelta_default
         | Some base \<Rightarrow> subtract_tombstone did im (subtract_existing tv did im
             (SizeDelta_add (estimate_document_bytes tv did (merge_object base doc)))))
       (bt_get (db_indexes db) index)"
| "estimate_mutation_size_delta tv db (DeleteDocument index did) =
     map_option (\<lambda>im. case bt_get (im_documents im) did of
           None \<Rightarrow> SizeDelta_default
         | Some existing \<Rightarrow> SizeDelta_subtract (estimate_document_bytes tv did (doc_source existing))
             (SizeDelta_add (estimate_tombstone_bytes did)))
       (bt_get (db_indexes db) index)"
| "estimate_mutation_size_delta tv db _ = None"

definition estimate_database_bytes_after_mutation :: "to_vec \<Rightarrow> Database \<Rightarrow> Mutation \<Rightarrow> nat option" where
  "estimate_database_bytes_after_mutation tv db m =
     (let current = estimate_database_bytes tv db
      in map_option (\<lambda>delta. SizeDelta_apply delta current) (estimate_mutation_size_delta tv db m))"

subsection \<open>Unsaturated sizes\<close>

definition docs_bytes :: "to_vec \<Rightarrow> (string, StoredDocument) btree \<Rightarrow> nat" where
  "docs_bytes tv docs = sum_list (map (\<lambda>(i, d). estimate_document_bytes tv i (doc_source d)) docs)"

definition tombs_bytes :: "(string, nat) btree \<Rightarrow> nat" where
  "tombs_bytes ts = sum_list (map (\<lambda>(i, _). estimate_tombstone_bytes i) ts)"

definition head_bytes :: "to_vec \<Rightarrow> IndexMetadata \<Rightarrow> nat" where
  "head_bytes tv im = length (im_name im) + estimate_value_bytes tv (im_settings im)
     + estimate_value_bytes tv (im_mappings im) + sum_list (map length (im_aliases im))"

definition index_bytes :: "to_vec \<Rightarrow> IndexMetadata \<Rightarrow> nat" where
  "index_bytes tv im = head_bytes tv im + docs_bytes tv (im_documents im) + tombs_bytes (im_tombstones im)"

definition indexes_bytes :: "Database \<Rightarrow> nat" where
  "indexes_bytes db = sum_list (map (\<lambda>(_, im). im_store_size_bytes im) (db_indexes db))"

definition names_bytes :: "to_vec \<Rightarrow> Database \<Rightarrow> nat" where
  "names_bytes tv db =
     sum_list (map (\<lambda>(_, t). length (it_name t) + estimate_value_bytes tv (it_raw t)) (db_templates db))
     + sum_list (map (\<lambda>(_, a). length (am_alias a) + length (am_index a) + estimate_value_bytes tv (am_raw a)) (db_aliases db))
     + sum_list (map (\<lambda>(ns, r). length ns + sum_list (map (\<lambda>(name, raw). length name + estimate_value_bytes tv raw) r)) (db_registries db))"

definition database_bytes :: "to_vec \<Rightarrow> Database \<Rightarrow> nat" where
  "database_bytes tv db = 128 + indexes_bytes db + names_bytes tv db"

definition size_exact :: "to_vec \<Rightarrow> IndexMetadata \<Rightarrow> bool" where
  "size_exact tv im \<longleftrightarrow> im_store_size_bytes im = index_bytes tv im"

definition sizes_exact :: "to_vec \<Rightarrow> Database \<Rightarrow> bool" where
  "sizes_exact tv db \<longleftrightarrow> bt_all (\<lambda>_. size_exact tv) (db_indexes db)"

lemma sat_add_min: "sat_add a b = min (a + b) usize_max"
  by (rule sat_add_def)

lemma min_usize_add: "min (min a usize_max + b) usize_max = min (a + b) usize_max" for b :: nat
  by simp

lemma sat_sum_min_base: "sat_sum (min a usize_max) xs = min (a + sum_list xs) usize_max"
  by (simp add: sat_sum_min)

lemma estimate_document_bytes_le [simp]: "estimate_document_bytes tv did v \<le> usize_max"
  by (simp add: estimate_document_bytes_def)

lemma estimate_tombstone_bytes_le [simp]: "estimate_tombstone_bytes did \<le> usize_max"
  by (simp add: estimate_tombstone_bytes_def)

lemma estimate_index_bytes_min: "estimate_index_bytes tv im = min (index_bytes tv im) usize_max"
  by (simp add: estimate_index_bytes_def Let_def sat_add_min sat_sum_min_base index_bytes_def
      head_bytes_def docs_bytes_def tombs_bytes_def bt_keys_def comp_def case_prod_unfold)

lemma sum_list_concat_map: "sum_list (concat (map f xs)) = sum_list (map (\<lambda>x. sum_list (f x)) xs)" for f :: "'a \<Rightarrow> nat list"
  by (induction xs) auto

lemma estimate_database_bytes_min: "estimate_database_bytes tv db = min (database_bytes tv db) usize_max"
proof -
  have "128 \<le> usize_max" by (simp add: usize_max_def)
  then have "sat_sum 128 xs = min (128 + sum_list xs) usize_max" for xs
    by (rule sat_sum_min)
  then show ?thesis
    unfolding estimate_database_bytes_def Let_def sat_sum_append [symmetric]
    by (simp add: database_bytes_def indexes_bytes_def names_bytes_def
        bt_values_def comp_def case_prod_unfold sum_list_concat_map ac_simps del: sat_sum_Cons)
qed

lemma estimate_exact: "estimate_database_bytes tv db < usize_max \<Longrightarrow> estimate_database_bytes tv db = database_bytes tv db"
  by (simp add: estimate_database_bytes_min)

lemma store_size_le_database:
  assumes "bt_get (db_indexes db) index = Some im"
  shows "im_store_size_bytes im \<le> database_bytes tv db"
proof -
  have "im_store_size_bytes im \<in> set (map (\<lambda>(_, im). im_store_size_bytes im) (db_indexes db))"
    using map_of_SomeD [OF assms] by force
  then show ?thesis
    using member_le_sum_list unfolding database_bytes_def indexes_bytes_def by fastforce
qed

subsection \<open>What each document arm does to the unsaturated sizes\<close>

definition existing_bytes :: "to_vec \<Rightarrow> IndexMetadata \<Rightarrow> string \<Rightarrow> nat" where
  "existing_bytes tv im did =
     (case bt_get (im_documents im) did of Some d \<Rightarrow> estimate_document_bytes tv did (doc_source d) | None \<Rightarrow> 0)"

definition existing_tombstone_bytes :: "IndexMetadata \<Rightarrow> string \<Rightarrow> nat" where
  "existing_tombstone_bytes im did = (if bt_has (im_tombstones im) did then estimate_tombstone_bytes did else 0)"

lemma docs_bytes_insert:
  "bt_ok (im_documents im) \<Longrightarrow>
    docs_bytes tv (bt_insert did d (im_documents im)) + existing_bytes tv im did
      = docs_bytes tv (im_documents im) + estimate_document_bytes tv did (doc_source d)"
  using bt_sum_insert [of "im_documents im" "\<lambda>(i, d). estimate_document_bytes tv i (doc_source d)" did d]
  by (simp add: docs_bytes_def existing_bytes_def cong: option.case_cong)

lemma docs_bytes_remove:
  "bt_ok (im_documents im) \<Longrightarrow>
    docs_bytes tv (bt_remove did (im_documents im)) + existing_bytes tv im did = docs_bytes tv (im_documents im)"
  using bt_sum_remove [of "im_documents im" "\<lambda>(i, d). estimate_document_bytes tv i (doc_source d)" did]
  by (simp add: docs_bytes_def existing_bytes_def cong: option.case_cong)

lemma tombs_bytes_remove:
  "bt_ok (im_tombstones im) \<Longrightarrow>
    tombs_bytes (bt_remove did (im_tombstones im)) + existing_tombstone_bytes im did = tombs_bytes (im_tombstones im)"
  using bt_sum_remove [of "im_tombstones im" "\<lambda>(i, _). estimate_tombstone_bytes i" did]
  by (auto simp: tombs_bytes_def existing_tombstone_bytes_def bt_has_def split: option.splits)

lemma tombs_bytes_insert_new:
  "bt_ok (im_tombstones im) \<Longrightarrow> \<not> bt_has (im_tombstones im) did \<Longrightarrow>
    tombs_bytes (bt_insert did n (im_tombstones im)) = tombs_bytes (im_tombstones im) + estimate_tombstone_bytes did"
  using bt_sum_insert [of "im_tombstones im" "\<lambda>(i, _). estimate_tombstone_bytes i" did n]
  by (auto simp: tombs_bytes_def bt_has_def split: option.splits)

lemma existing_le:
  assumes "bt_ok (im_documents im)" and "bt_ok (im_tombstones im)"
  shows "existing_bytes tv im did + existing_tombstone_bytes im did \<le> index_bytes tv im"
  using docs_bytes_remove [OF assms(1), of tv did] tombs_bytes_remove [OF assms(2), of did]
  by (simp add: index_bytes_def)

lemma store_size_steps:
  "im_store_size_bytes (sub_document_bytes tv did im) = im_store_size_bytes im - existing_bytes tv im did"
  "im_store_size_bytes (take_tombstone did im) = im_store_size_bytes im - existing_tombstone_bytes im did"
  "im_store_size_bytes (put_document did d im) = im_store_size_bytes im"
  "im_store_size_bytes (add_store_bytes n im) = sat_add (im_store_size_bytes im) n"
  by (auto simp: doc_defs existing_bytes_def existing_tombstone_bytes_def sat_sub_def split: option.splits)

lemma index_bytes_steps:
  "index_bytes tv (sub_document_bytes tv' did im) = index_bytes tv im"
  "index_bytes tv (add_store_bytes n im) = index_bytes tv im"
  "bt_ok (im_tombstones im) \<Longrightarrow>
    index_bytes tv (take_tombstone did im) + existing_tombstone_bytes im did = index_bytes tv im"
  "bt_ok (im_documents im) \<Longrightarrow>
    index_bytes tv (put_document did d im) + existing_bytes tv im did
      = index_bytes tv im + estimate_document_bytes tv did (doc_source d)"
  using tombs_bytes_remove [of im did] docs_bytes_insert [of im tv did d]
  by (auto simp: doc_defs index_bytes_def head_bytes_def existing_tombstone_bytes_def split: option.splits)

lemma existing_steps [simp]:
  "existing_bytes tv (take_tombstone i im) did = existing_bytes tv im did"
  "existing_bytes tv (sub_document_bytes tv i im) did = existing_bytes tv im did"
  "existing_tombstone_bytes (sub_document_bytes tv i im) did = existing_tombstone_bytes im did"
  "existing_tombstone_bytes (put_document i d im) did = existing_tombstone_bytes im did"
  "im_tombstones (sub_document_bytes tv i im) = im_tombstones im"
  "im_documents (sub_document_bytes tv i im) = im_documents im"
  "im_tombstones (put_document i d im) = im_tombstones im"
  by (auto simp: doc_defs existing_bytes_def existing_tombstone_bytes_def split: option.splits)

text \<open>An arm that takes \<open>old\<close> bytes out and puts \<open>new\<close> bytes in, in the running count as in the sum.\<close>

definition resized :: "to_vec \<Rightarrow> nat \<Rightarrow> nat \<Rightarrow> IndexMetadata \<Rightarrow> IndexMetadata \<Rightarrow> bool" where
  "resized tv old new im im' \<longleftrightarrow> old \<le> index_bytes tv im
     \<and> im_store_size_bytes im' = sat_add (im_store_size_bytes im - old) new
     \<and> index_bytes tv im' + old = index_bytes tv im + new"

lemma resized_exact:
  assumes "resized tv old new im im'" and "size_exact tv im" and "im_store_size_bytes im' < usize_max"
  shows "size_exact tv im'"
  using assms by (auto simp: resized_def size_exact_def sat_add_def min_def split: if_splits)

lemma bt_ok_steps [simp]:
  "bt_ok (im_tombstones im) \<Longrightarrow> bt_ok (im_tombstones (take_tombstone did im))"
  "bt_ok (im_documents im) \<Longrightarrow> bt_ok (im_documents (put_document did d im))"
  by (simp_all add: doc_defs)

lemma index_document_in_resized:
  assumes "bt_ok (im_documents im)" and "bt_ok (im_tombstones im)"
  shows "resized tv (existing_bytes tv im did + existing_tombstone_bytes im did)
    (estimate_document_bytes tv did v) im (index_document_in tv n did v im)"
proof -
  let ?a = "sub_document_bytes tv did im"
  let ?b = "take_tombstone did ?a"
  have "index_bytes tv ?b + existing_tombstone_bytes im did = index_bytes tv im"
    using index_bytes_steps(3) [of ?a tv did] assms by (simp add: index_bytes_steps(1))
  moreover have "index_bytes tv (put_document did d ?b) + existing_bytes tv im did
      = index_bytes tv ?b + estimate_document_bytes tv did (doc_source d)" for d
    using index_bytes_steps(4) [of ?b tv did d] assms by simp
  ultimately show ?thesis
    using existing_le [OF assms, of tv did]
    by (simp add: resized_def index_document_in_def Let_def index_bytes_steps store_size_steps)
       (metis StoredDocument.select_convs(2) ab_semigroup_add_class.add_ac(1) add.commute)
qed

lemma create_document_in_resized:
  assumes "bt_ok (im_documents im)" and "bt_ok (im_tombstones im)" and "\<not> bt_has (im_documents im) did"
  shows "resized tv (existing_tombstone_bytes im did)
    (estimate_document_bytes tv did v) im (create_document_in tv n did v im)"
proof -
  let ?b = "take_tombstone did im"
  have none: "existing_bytes tv im did = 0"
    using assms(3) by (simp add: existing_bytes_def bt_has_def)
  have "index_bytes tv ?b + existing_tombstone_bytes im did = index_bytes tv im"
    using index_bytes_steps(3) assms by simp
  moreover have "index_bytes tv (put_document did d ?b)
      = index_bytes tv ?b + estimate_document_bytes tv did (doc_source d)" for d
    using index_bytes_steps(4) [of ?b tv did d] assms none by simp
  ultimately show ?thesis
    using existing_le [OF assms(1,2), of tv did] assms(3)
    by (simp add: resized_def create_document_in_def Let_def index_bytes_steps store_size_steps)
qed

lemma update_document_in_resized:
  assumes "bt_ok (im_documents im)" and "bt_ok (im_tombstones im)"
    and "update_base im did upsert = Some base"
  shows "resized tv (existing_bytes tv im did + existing_tombstone_bytes im did)
    (estimate_document_bytes tv did (merge_object base doc)) im (update_document_in tv n did doc upsert im)"
proof -
  let ?a = "sub_document_bytes tv did im"
  have "index_bytes tv (put_document did d ?a) + existing_bytes tv im did
      = index_bytes tv im + estimate_document_bytes tv did (doc_source d)" for d
    using index_bytes_steps(4) [of ?a tv did d] assms by (simp add: index_bytes_steps(1))
  moreover have "index_bytes tv (take_tombstone did (put_document did d ?a)) + existing_tombstone_bytes im did
      = index_bytes tv (put_document did d ?a)" for d
    using index_bytes_steps(3) [of "put_document did d ?a" tv did] assms by simp
  ultimately show ?thesis
    using existing_le [OF assms(1,2), of tv did] assms(3)
    by (simp add: resized_def update_document_in_def Let_def index_bytes_steps store_size_steps)
       (metis StoredDocument.select_convs(2) ab_semigroup_add_class.add_ac(1) add.commute)
qed

lemma delete_document_in_resized:
  assumes "bt_ok (im_documents im)" and "bt_ok (im_tombstones im)"
    and "bt_get (im_documents im) did = Some d" and "\<not> bt_has (im_tombstones im) did"
  shows "resized tv (existing_bytes tv im did) (estimate_tombstone_bytes did) im
    (delete_document_in tv n did im)"
  using assms existing_le [OF assms(1,2), of tv did] docs_bytes_remove [OF assms(1), of tv did]
    tombs_bytes_insert_new [OF assms(2,4), of n]
  by (simp add: resized_def delete_document_in_def sat_sub_def existing_bytes_def index_bytes_def head_bytes_def)

subsection \<open>The running counts stay exact\<close>

lemma size_exact_recompute:
  "im_store_size_bytes (recompute_store_size tv im) < usize_max \<Longrightarrow> size_exact tv (recompute_store_size tv im)"
proof -
  have "index_bytes tv (recompute_store_size tv im) = index_bytes tv im"
    by (simp add: index_bytes_def head_bytes_def recompute_store_size_def)
  then show "im_store_size_bytes (recompute_store_size tv im) < usize_max \<Longrightarrow> ?thesis"
    by (simp add: size_exact_def) (simp add: recompute_store_size_def estimate_index_bytes_min)
qed

definition keeps_exact :: "to_vec \<Rightarrow> (IndexMetadata \<Rightarrow> IndexMetadata) \<Rightarrow> IndexMetadata \<Rightarrow> bool" where
  "keeps_exact tv f im \<longleftrightarrow> (size_exact tv im \<longrightarrow> im_store_size_bytes (f im) < usize_max \<longrightarrow> size_exact tv (f im))"

lemma keeps_exact_arms:
  assumes "index_ok n name im" and "index_tombstones_ok im"
  shows "keeps_exact tv (index_document_in tv s did v) im"
    and "keeps_exact tv (create_document_in tv s did v) im"
    and "keeps_exact tv (update_document_in tv s did v upsert) im"
    and "keeps_exact tv (delete_document_in tv s did) im"
    and "keeps_exact tv (rename_document_in tv did new_id) im"
proof -
  have ok: "bt_ok (im_documents im)" "bt_ok (im_tombstones im)"
    using assms(1) by (auto simp: index_ok_def)
  show "keeps_exact tv (index_document_in tv s did v) im"
    unfolding keeps_exact_def using resized_exact [OF index_document_in_resized [OF ok]] by blast
  show "keeps_exact tv (create_document_in tv s did v) im"
  proof (cases "bt_has (im_documents im) did")
    case True
    then show ?thesis by (simp add: keeps_exact_def create_document_in_def)
  next
    case False
    from create_document_in_resized [OF ok False] show ?thesis
      by (auto simp: keeps_exact_def intro: resized_exact)
  qed
  show "keeps_exact tv (update_document_in tv s did v upsert) im"
  proof (cases "update_base im did upsert")
    case None
    then show ?thesis by (simp add: keeps_exact_def update_document_in_def)
  next
    case (Some base)
    from update_document_in_resized [OF ok Some] show ?thesis
      by (auto simp: keeps_exact_def intro: resized_exact)
  qed
  show "keeps_exact tv (delete_document_in tv s did) im"
  proof (cases "bt_get (im_documents im) did")
    case None
    then show ?thesis by (simp add: keeps_exact_def delete_document_in_def)
  next
    case (Some d)
    with assms(2) have "\<not> bt_has (im_tombstones im) did"
      by (auto simp: index_tombstones_ok_iff bt_has_def)
    from delete_document_in_resized [OF ok Some this] show ?thesis
      by (auto simp: keeps_exact_def intro: resized_exact)
  qed
  show "keeps_exact tv (rename_document_in tv did new_id) im"
    by (auto simp: keeps_exact_def rename_document_in_def size_exact_recompute split: option.splits)
qed

lemma store_size_less:
  assumes "estimate_database_bytes tv db < usize_max" and "bt_get (db_indexes db) index = Some im"
  shows "im_store_size_bytes im < usize_max"
  using assms(1) store_size_le_database [OF assms(2), of tv] estimate_exact [OF assms(1)] by linarith

lemma sizes_exact_on_index:
  assumes "sizes_exact tv db" and "db_ok db"
    and "db_indexes db' = bt_adjust index f (db_indexes db)"
    and "estimate_database_bytes tv db' < usize_max"
    and "\<And>im. bt_get (db_indexes db) index = Some im \<Longrightarrow> keeps_exact tv f im"
  shows "sizes_exact tv db'"
proof -
  have bt: "bt_ok (db_indexes db)" using assms(2) by (simp add: db_ok_def)
  have "size_exact tv im'" if get: "bt_get (db_indexes db') name = Some im'" for name im'
  proof (cases "name = index")
    case True
    with get assms(3) obtain im where im: "bt_get (db_indexes db) index = Some im" "im' = f im" by auto
    have "im_store_size_bytes (f im) < usize_max"
      using store_size_less [OF assms(4) get] im by simp
    with im assms(1,5) bt show ?thesis by (auto simp: keeps_exact_def sizes_exact_def bt_all_iff)
  next
    case False
    with get assms(1,3) bt show ?thesis by (auto simp: sizes_exact_def bt_all_iff)
  qed
  with assms(3) bt show ?thesis by (simp add: sizes_exact_def bt_all_iff)
qed

lemma sizes_exact_indexes:
  "sizes_exact tv db \<Longrightarrow> db_indexes db' = db_indexes db \<Longrightarrow> sizes_exact tv db'"
  by (simp add: sizes_exact_def)

lemma keeps_exact_recompute: "keeps_exact tv (\<lambda>im. recompute_store_size tv (g im)) im"
  by (simp add: keeps_exact_def size_exact_recompute)

lemma sizes_exact_create_index:
  assumes "sizes_exact tv db" and "db_ok db"
    and "estimate_database_bytes tv (apply_create_index tv name s m db) < usize_max"
  shows "sizes_exact tv (apply_create_index tv name s m db)"
proof (cases "bt_has (db_indexes db) name")
  case False
  let ?new = "IndexMetadata_new tv name s m"
  have "bt_get (db_indexes (apply_create_index tv name s m db)) name = Some ?new"
    using False by (simp add: apply_create_index_def)
  from store_size_less [OF assms(3) this] have "size_exact tv ?new"
    unfolding IndexMetadata_new_def by (rule size_exact_recompute)
  with assms(1) False show ?thesis by (auto simp: sizes_exact_def apply_create_index_def)
qed (use assms in \<open>simp add: apply_create_index_def\<close>)

lemma sizes_exact_apply_to:
  assumes "sizes_exact tv db" and "db_ok db" and "tombstones_ok db"
    and est: "estimate_database_bytes tv (apply_to tv m db) < usize_max"
  shows "sizes_exact tv (apply_to tv m db)"
proof -
  have arms: "keeps_exact tv (index_document_in tv s did v) im" "keeps_exact tv (create_document_in tv s did v) im"
    "keeps_exact tv (update_document_in tv s did v upsert) im" "keeps_exact tv (delete_document_in tv s did) im"
    "keeps_exact tv (rename_document_in tv did new_id) im"
    if "bt_get (db_indexes db) index = Some im" for s did v upsert new_id index im
    using that assms(2,3) keeps_exact_arms [of "db_seq_no db" index im tv]
    by (auto simp: db_ok_def tombstones_ok_def dest!: bt_all_get)
  note on = sizes_exact_on_index [OF assms(1,2) _ est]
  show ?thesis
  proof (cases m)
    case (CreateIndex name s v)
    with assms sizes_exact_create_index show ?thesis by simp
  next
    case (DeleteIndex name)
    with assms(1) show ?thesis by (auto simp: sizes_exact_def apply_delete_index_def)
  next
    case (PutMapping index v)
    then show ?thesis
      by (intro on) (simp add: apply_put_mapping_def on_index_def, rule keeps_exact_recompute)
  next
    case (PutSettings index v)
    then show ?thesis
      by (intro on) (simp add: apply_put_settings_def on_index_def, rule keeps_exact_recompute)
  next
    case (PutAlias index al raw)
    then show ?thesis
      by (intro on) (simp add: apply_put_alias_def on_index_def Let_def, rule keeps_exact_recompute)
  next
    case (DeleteAlias index al)
    then show ?thesis
      by (intro on) (simp add: apply_delete_alias_def on_index_def Let_def, rule keeps_exact_recompute)
  next
    case (IndexDocument index did v)
    then show ?thesis
      by (intro on) (simp add: apply_defs Let_def, erule arms)
  next
    case (CreateDocument index did v)
    then show ?thesis
      by (intro on) (simp add: apply_defs Let_def, erule arms)
  next
    case (UpdateDocument index did v upsert)
    then show ?thesis
      by (intro on) (simp add: apply_defs Let_def, erule arms)
  next
    case (DeleteDocument index did)
    then show ?thesis
      by (intro on) (simp add: apply_defs Let_def, erule arms)
  next
    case (RenameDocument index old_id new_id)
    then show ?thesis
      by (intro on) (simp add: apply_defs Let_def, erule arms)
  qed (use assms(1) in \<open>auto simp: apply_defs Let_def intro: sizes_exact_indexes split: option.splits\<close>)
qed

subsection \<open>The price of a mutation is the size after it\<close>

lemma indexes_bytes_adjust:
  assumes "bt_ok (db_indexes db)" and "bt_get (db_indexes db) index = Some im"
  shows "sum_list (map (\<lambda>(_, im). im_store_size_bytes im) (bt_adjust index f (db_indexes db))) + im_store_size_bytes im
    = indexes_bytes db + im_store_size_bytes (f im)"
  using bt_sum_insert [OF assms(1), of "\<lambda>(_, im). im_store_size_bytes im" index "f im"] assms
  by (simp add: bt_adjust_insert indexes_bytes_def)

text \<open>Everything but the index map and the sequence number.\<close>

definition same_names :: "Database \<Rightarrow> Database \<Rightarrow> bool" where
  "same_names db db' \<longleftrightarrow> db_templates db' = db_templates db \<and> db_registries db' = db_registries db
     \<and> db_aliases db' = db_aliases db"

lemma names_bytes_same: "same_names db db' \<Longrightarrow> names_bytes tv db' = names_bytes tv db"
  by (simp add: same_names_def names_bytes_def)

lemma priced_resize:
  assumes "db_ok db" and "sizes_exact tv db" and cur: "estimate_database_bytes tv db < usize_max"
    and get: "bt_get (db_indexes db) index = Some im" and rs: "resized tv old new im (f im)"
    and db': "db_indexes db' = bt_adjust index f (db_indexes db)" "same_names db db'"
    and n: "SizeDelta_apply \<lparr>sd_add = new, sd_subtract = old\<rparr> (estimate_database_bytes tv db) < usize_max"
  shows "SizeDelta_apply \<lparr>sd_add = new, sd_subtract = old\<rparr> (estimate_database_bytes tv db)
    = estimate_database_bytes tv db'"
proof -
  let ?cur = "database_bytes tv db"
  have bt: "bt_ok (db_indexes db)" using assms(1) by (simp add: db_ok_def)
  have "size_exact tv im" using assms(2) get bt by (auto simp: sizes_exact_def bt_all_iff)
  then have old: "old \<le> im_store_size_bytes im" using rs by (simp add: resized_def size_exact_def)
  have le: "im_store_size_bytes im \<le> ?cur" by (rule store_size_le_database [OF get])
  have curE: "estimate_database_bytes tv db = ?cur" by (rule estimate_exact [OF cur])
  from n have small: "?cur - old + new < usize_max"
    by (auto simp: SizeDelta_apply_def sat_add_def sat_sub_def curE min_def split: if_splits)
  have "im_store_size_bytes (f im) + old = im_store_size_bytes im + new"
    using rs small old le by (auto simp: resized_def sat_add_def)
  with indexes_bytes_adjust [OF bt get, of f] db' names_bytes_same [OF db'(2), of tv]
  have "database_bytes tv db' + old = ?cur + new"
    by (simp add: database_bytes_def) (simp add: indexes_bytes_def)
  moreover from this small old le have "estimate_database_bytes tv db' = database_bytes tv db'"
    by (simp add: estimate_database_bytes_min)
  ultimately show ?thesis
    using small old le by (simp add: curE SizeDelta_apply_def sat_add_def sat_sub_def)
qed

lemma estimate_same_sizes:
  assumes "db_indexes db' = db_indexes db" and "same_names db db'"
  shows "estimate_database_bytes tv db' = estimate_database_bytes tv db"
  using assms by (simp add: estimate_database_bytes_min database_bytes_def indexes_bytes_def names_bytes_same)

lemma SizeDelta_apply_default: "n \<le> usize_max \<Longrightarrow> SizeDelta_apply SizeDelta_default n = n"
  by (simp add: SizeDelta_apply_def SizeDelta_default_def sat_add_def sat_sub_def)

lemma estimate_le [simp]: "estimate_database_bytes tv db \<le> usize_max"
  by (simp add: estimate_database_bytes_min)

lemma subtract_existing_tombstone:
  assumes "existing_bytes tv im did + existing_tombstone_bytes im did \<le> usize_max"
  shows "subtract_tombstone did im (subtract_existing tv did im (SizeDelta_add new))
    = \<lparr>sd_add = new, sd_subtract = existing_bytes tv im did + existing_tombstone_bytes im did\<rparr>"
  using assms
  by (auto simp: subtract_tombstone_def subtract_existing_def SizeDelta_subtract_def SizeDelta_add_def
      existing_bytes_def existing_tombstone_bytes_def sat_add_def split: option.splits)

lemma subtract_tombstone_add:
  "subtract_tombstone did im (SizeDelta_add new) = \<lparr>sd_add = new, sd_subtract = existing_tombstone_bytes im did\<rparr>"
  using estimate_tombstone_bytes_le [of did]
  by (auto simp: subtract_tombstone_def SizeDelta_subtract_def SizeDelta_add_def
      existing_tombstone_bytes_def sat_add_def)


lemma priced_create_index:
  assumes "\<not> bt_has (db_indexes db) name" and "db_ok db" and cur: "estimate_database_bytes tv db < usize_max"
    and n: "SizeDelta_apply (SizeDelta_add (estimate_index_bytes tv (IndexMetadata_new tv name s v)))
      (estimate_database_bytes tv db) < usize_max" (is "SizeDelta_apply (SizeDelta_add ?new) _ < _")
  shows "SizeDelta_apply (SizeDelta_add ?new) (estimate_database_bytes tv db)
    = estimate_database_bytes tv (apply_create_index tv name s v db)"
proof -
  let ?im = "IndexMetadata_new tv name s v" and ?db = "apply_create_index tv name s v db"
  have new: "im_store_size_bytes ?im = ?new"
    by (simp add: IndexMetadata_new_def estimate_index_bytes_min index_bytes_def head_bytes_def recompute_store_size_def)
  have "indexes_bytes ?db = indexes_bytes db + ?new"
    using bt_sum_insert [of "db_indexes db" "\<lambda>(_, im). im_store_size_bytes im" name ?im] assms(1,2) new
    by (auto simp: indexes_bytes_def apply_create_index_def db_ok_def bt_has_def)
  then have "database_bytes tv ?db = database_bytes tv db + ?new"
    using assms(1) names_bytes_same [of db ?db]
    by (simp add: database_bytes_def same_names_def apply_create_index_def)
  with n cur estimate_exact [OF cur] show ?thesis
    by (simp add: SizeDelta_apply_def SizeDelta_add_def sat_add_def sat_sub_def estimate_database_bytes_min)
qed

definition price_assumptions :: "to_vec \<Rightarrow> Database \<Rightarrow> Mutation \<Rightarrow> bool" where
  "price_assumptions tv db m \<longleftrightarrow> db_ok db \<and> tombstones_ok db \<and> sizes_exact tv db
     \<and> estimate_database_bytes tv db < usize_max
     \<and> (case m of CreateIndex name _ _ \<Rightarrow> \<not> bt_has (db_indexes db) name | _ \<Rightarrow> True)"

lemma estimate_after_mutation:
  assumes pre: "price_assumptions tv db m"
    and n: "estimate_database_bytes_after_mutation tv db m = Some n" "n < usize_max"
  shows "n = estimate_database_bytes tv (apply_to tv m db)"
proof -
  have ok: "db_ok db" and exact: "sizes_exact tv db" and cur: "estimate_database_bytes tv db < usize_max"
    using pre by (auto simp: price_assumptions_def)
  obtain delta where delta: "estimate_mutation_size_delta tv db m = Some delta"
    and n_eq: "n = SizeDelta_apply delta (estimate_database_bytes tv db)"
    using n(1) by (auto simp: estimate_database_bytes_after_mutation_def Let_def)
  have im_ok: "bt_ok (im_documents im)" "bt_ok (im_tombstones im)" "index_tombstones_ok im"
    "existing_bytes tv im did + existing_tombstone_bytes im did \<le> usize_max"
    if get: "bt_get (db_indexes db) index = Some im" for index im did
  proof -
    have "index_ok (db_seq_no db) index im" and "index_tombstones_ok im" and ex: "size_exact tv im"
      using pre get by (auto simp: price_assumptions_def db_ok_def tombstones_ok_def sizes_exact_def dest: bt_all_get)
    then show "bt_ok (im_documents im)" "bt_ok (im_tombstones im)" "index_tombstones_ok im"
      by (auto simp: index_ok_def)
    then show "existing_bytes tv im did + existing_tombstone_bytes im did \<le> usize_max"
      using existing_le [of im tv did] store_size_less [OF cur get] ex by (simp add: size_exact_def)
  qed
  have same: "same_names db (apply_to tv m db)" if "\<And>name s v. m \<noteq> CreateIndex name s v"
    using that delta by (cases m) (auto simp: same_names_def apply_defs Let_def)
  have bt: "bt_ok (db_indexes db)" using ok by (simp add: db_ok_def)
  have changed: ?thesis
    if "bt_get (db_indexes db) index = Some im" "delta = \<lparr>sd_add = new, sd_subtract = old\<rparr>"
      "resized tv old new im (f im)" "db_indexes (apply_to tv m db) = bt_adjust index f (db_indexes db)"
      "\<And>name s v. m \<noteq> CreateIndex name s v" for index im old new f
    using priced_resize [OF ok exact cur that(1,3,4) same [OF that(5)]] that(2) n(2) n_eq by simp
  have unchanged: ?thesis
    if "bt_get (db_indexes db) index = Some im" "delta = SizeDelta_default"
      "f im = im" "db_indexes (apply_to tv m db) = bt_adjust index f (db_indexes db)"
      "\<And>name s v. m \<noteq> CreateIndex name s v" for index im f
    using estimate_same_sizes [of "apply_to tv m db" db tv] same [OF that(5)] that n_eq
    by (simp add: SizeDelta_apply_default bt_adjust_id [where f = f, OF bt that(1,3)])
  show ?thesis
  proof (cases m)
    case (CreateIndex name s v)
    with delta n_eq n(2) pre priced_create_index [OF _ ok cur, of name s v] show ?thesis
      by (auto simp: price_assumptions_def)
  next
    case (IndexDocument index did v)
    with delta obtain im where im: "bt_get (db_indexes db) index = Some im" by auto
    show ?thesis
      by (rule changed [where f = "index_document_in tv (u64_succ (db_seq_no db)) did v", OF im _ index_document_in_resized [OF im_ok(1,2) [OF im]]])
        (use IndexDocument im delta in \<open>simp_all add: apply_defs Let_def subtract_existing_tombstone [OF im_ok(4) [OF im]]\<close>)
  next
    case (CreateDocument index did v)
    with delta obtain im where im: "bt_get (db_indexes db) index = Some im" by auto
    show ?thesis
    proof (cases "bt_has (im_documents im) did")
      case True
      show ?thesis
        by (rule unchanged [OF im, where f = "create_document_in tv (u64_succ (db_seq_no db)) did v"])
          (use True CreateDocument im delta in \<open>simp_all add: apply_defs Let_def create_document_in_def\<close>)
    next
      case False
      show ?thesis
        by (rule changed [where f = "create_document_in tv (u64_succ (db_seq_no db)) did v", OF im _ create_document_in_resized [OF im_ok(1,2) [OF im] False]])
          (use False CreateDocument im delta in \<open>simp_all add: apply_defs Let_def subtract_tombstone_add\<close>)
    qed
  next
    case (UpdateDocument index did v upsert)
    with delta obtain im where im: "bt_get (db_indexes db) index = Some im" by auto
    show ?thesis
    proof (cases "update_base im did upsert")
      case None
      show ?thesis
        by (rule unchanged [OF im, where f = "update_document_in tv (u64_succ (db_seq_no db)) did v upsert"])
          (use None UpdateDocument im delta in \<open>simp_all add: apply_defs Let_def update_document_in_def\<close>)
    next
      case (Some base)
      show ?thesis
        by (rule changed [where f = "update_document_in tv (u64_succ (db_seq_no db)) did v upsert", OF im _ update_document_in_resized [OF im_ok(1,2) [OF im] Some]])
          (use Some UpdateDocument im delta in \<open>simp_all add: apply_defs Let_def subtract_existing_tombstone [OF im_ok(4) [OF im]]\<close>)
    qed
  next
    case (DeleteDocument index did)
    with delta obtain im where im: "bt_get (db_indexes db) index = Some im" by auto
    show ?thesis
    proof (cases "bt_get (im_documents im) did")
      case None
      show ?thesis
        by (rule unchanged [OF im, where f = "delete_document_in tv (u64_succ (db_seq_no db)) did"])
          (use None DeleteDocument im delta in \<open>simp_all add: apply_defs Let_def delete_document_in_def\<close>)
    next
      case (Some d)
      with im_ok(3) [OF im] have "\<not> bt_has (im_tombstones im) did"
        by (auto simp: index_tombstones_ok_iff bt_has_def)
      note rs = delete_document_in_resized [OF im_ok(1,2) [OF im] Some this]
      show ?thesis
        by (rule changed [where f = "delete_document_in tv (u64_succ (db_seq_no db)) did", OF im _ rs])
          (use Some DeleteDocument im delta in \<open>simp_all add: apply_defs Let_def existing_bytes_def
            SizeDelta_subtract_def SizeDelta_add_def sat_add_exact\<close>)
    qed
  qed (use delta in simp_all)
qed

end
