(* ===== verification/Validate.thy ===== *)
theory Validate
  imports StoreSize
begin

section \<open>Validation of mutations and write operations\<close>

text \<open>
  The guards of \<open>src/storage/mod.rs\<close>: \<open>validate_mutation\<close>, the memory checks, name resolution and
  \<open>prepare_write_operation\<close>, which turns a client's write operation into mutations. An error is a
  \<open>StoreError\<close> with the status, type and reason the source gives.
\<close>

record StoreError =
  se_status :: nat
  se_type :: string
  se_reason :: string

type_synonym 'a store_result = "(StoreError, 'a) result"

definition StoreError_new :: "nat \<Rightarrow> string \<Rightarrow> string \<Rightarrow> StoreError" where
  "StoreError_new status error_type reason = \<lparr>se_status = status, se_type = error_type, se_reason = reason\<rparr>"

definition not_found :: "string \<Rightarrow> string \<Rightarrow> StoreError" where
  "not_found error_type reason = StoreError_new 404 error_type reason"

record StoreLimits =
  max_indexes :: nat
  max_documents :: nat
  memory_limit_bytes :: nat

datatype WriteOperation =
    OpIndex (op_index: string) (op_id: string) (op_source: json)
  | OpCreate (op_index: string) (op_id: string) (op_source: json)
  | OpUpdate (op_index: string) (op_id: string) (op_doc: json) (op_doc_as_upsert: bool) (op_upsert: "json option")
  | OpDelete (op_index: string) (op_id: string)

datatype WriteOutcome = OutDocument StoredDocument | OutDeleted bool

datatype PreparedOutcome = PrepDocument string string | PrepDeleted bool

record PreparedWrite =
  pw_mutations :: "Mutation list"
  pw_outcome :: PreparedOutcome

subsection \<open>Name resolution\<close>

definition resolve_index :: "Database \<Rightarrow> string \<Rightarrow> string option" where
  "resolve_index db index_or_alias =
     (if bt_has (db_indexes db) index_or_alias then Some index_or_alias
      else map_option am_index (bt_get (db_aliases db) index_or_alias))"

text \<open>\<open>sort\<close> then \<open>dedup\<close> of a list of names is the ordered set of them.\<close>

definition resolve_indices :: "Database \<Rightarrow> string \<Rightarrow> string list" where
  "resolve_indices db index_or_alias =
     (if bt_has (db_indexes db) index_or_alias then [index_or_alias]
      else
        let names = map im_name (filter (\<lambda>im. index_or_alias \<in> set (im_aliases im)) (bt_values (db_indexes db)));
            names = (if names = [] then
                       (case bt_get (db_aliases db) index_or_alias of Some a \<Rightarrow> [am_index a] | None \<Rightarrow> [])
                     else names)
        in bs_of_list names)"

definition document_count :: "Database \<Rightarrow> nat" where
  "document_count db = sum_list (map (\<lambda>(_, im). length (im_documents im)) (db_indexes db))"

subsection \<open>Guards\<close>

definition no_such_index :: "string \<Rightarrow> StoreError" where
  "no_such_index index = not_found ''index_not_found_exception'' (''no such index ['' @ index @ '']'')"

definition document_missing :: "string \<Rightarrow> StoreError" where
  "document_missing did = not_found ''document_missing_exception'' (''document ['' @ did @ ''] missing'')"

definition document_exists :: "string \<Rightarrow> StoreError" where
  "document_exists did =
     StoreError_new 409 ''version_conflict_engine_exception'' (''document ['' @ did @ ''] already exists'')"

definition validate_registry_namespace :: "string \<Rightarrow> unit store_result" where
  "validate_registry_namespace namespace =
     (if namespace \<in> {''component_template'', ''legacy_template'', ''ingest_pipeline'', ''search_pipeline'', ''script''}
      then Inr ()
      else Inl (StoreError_new 400 ''invalid_registry_namespace_exception''
                 (''unsupported registry namespace ['' @ namespace @ '']'')))"

definition validate_create_index :: "StoreLimits \<Rightarrow> Database \<Rightarrow> string \<Rightarrow> unit store_result" where
  "validate_create_index limits db name =
     (if blank name then Inl (StoreError_new 400 ''invalid_index_name_exception'' ''index name must not be empty'')
      else if bt_has (db_indexes db) name then
        Inl (StoreError_new 400 ''resource_already_exists_exception'' (''index ['' @ name @ ''] already exists''))
      else if max_indexes limits \<le> length (db_indexes db) then
        Inl (StoreError_new 429 ''resource_limit_exception'' ''maximum index count reached'')
      else Inr ())"

definition validate_put_template :: "string \<Rightarrow> string list \<Rightarrow> unit store_result" where
  "validate_put_template name patterns =
     (if blank name then
        Inl (StoreError_new 400 ''invalid_index_template_exception'' ''index template name must not be empty'')
      else if patterns = [] then
        Inl (StoreError_new 400 ''invalid_index_template_exception''
              ''index template requires at least one index pattern'')
      else Inr ())"

definition validate_delete_template :: "Database \<Rightarrow> string \<Rightarrow> unit store_result" where
  "validate_delete_template db name =
     (if bt_has (db_templates db) name then Inr ()
      else Inl (not_found ''index_template_missing_exception'' (''index template ['' @ name @ ''] missing'')))"

definition validate_put_registry_object :: "string \<Rightarrow> string \<Rightarrow> unit store_result" where
  "validate_put_registry_object namespace name =
     and_then (validate_registry_namespace namespace) (\<lambda>_.
       if blank name then
         Inl (StoreError_new 400 ''invalid_registry_object_exception'' ''registry object name must not be empty'')
       else Inr ())"

definition validate_delete_registry_object :: "Database \<Rightarrow> string \<Rightarrow> string \<Rightarrow> unit store_result" where
  "validate_delete_registry_object db namespace name =
     and_then (validate_registry_namespace namespace) (\<lambda>_.
       if (case bt_get (db_registries db) namespace of Some r \<Rightarrow> bt_has r name | None \<Rightarrow> False) then Inr ()
       else Inl (not_found ''registry_object_missing_exception''
                  (''registry object ['' @ namespace @ ''/'' @ name @ ''] missing'')))"

fun is_create_document :: "Mutation \<Rightarrow> bool" where
  "is_create_document (CreateDocument _ _ _) = True"
| "is_create_document _ = False"

fun is_index_document :: "Mutation \<Rightarrow> bool" where
  "is_index_document (IndexDocument _ _ _) = True"
| "is_index_document _ = False"

fun is_plain_update :: "Mutation \<Rightarrow> bool" where
  "is_plain_update (UpdateDocument _ _ _ upsert) = (\<not> upsert)"
| "is_plain_update _ = False"

text \<open>The arm the three document-writing mutations share.\<close>

definition validate_document_write ::
    "StoreLimits \<Rightarrow> Database \<Rightarrow> Mutation \<Rightarrow> string \<Rightarrow> string \<Rightarrow> unit store_result" where
  "validate_document_write limits db m index did =
     and_then (ok_or (no_such_index index) (bt_get (db_indexes db) index)) (\<lambda>im.
       let existing = bt_has (im_documents im) did
       in if is_create_document m \<and> existing then Inl (document_exists did)
          else if is_plain_update m \<and> \<not> existing then Inl (document_missing did)
          else if \<not> existing \<and> max_documents limits \<le> document_count db then
            Inl (StoreError_new 429 ''resource_limit_exception'' ''maximum document count reached'')
          else if is_index_document m \<and> blank (im_name im) then
            Inl (StoreError_new 400 ''invalid_index_name_exception'' ''index name must not be empty'')
          else Inr ())"

definition validate_index_exists :: "Database \<Rightarrow> string \<Rightarrow> unit store_result" where
  "validate_index_exists db index = (if bt_has (db_indexes db) index then Inr () else Inl (no_such_index index))"

definition validate_rename_document :: "Database \<Rightarrow> string \<Rightarrow> string \<Rightarrow> string \<Rightarrow> unit store_result" where
  "validate_rename_document db index old_id new_id =
     and_then (ok_or (no_such_index index) (bt_get (db_indexes db) index)) (\<lambda>im.
       if \<not> bt_has (im_documents im) old_id then Inl (document_missing old_id)
       else if bt_has (im_documents im) new_id then Inl (document_exists new_id)
       else Inr ())"

definition validate_put_alias :: "Database \<Rightarrow> string \<Rightarrow> string \<Rightarrow> unit store_result" where
  "validate_put_alias db index al =
     and_then (validate_index_exists db index) (\<lambda>_.
       if blank al \<or> CHR ''*'' \<in> set al then
         Inl (StoreError_new 400 ''invalid_alias_name_exception'' (''invalid alias name ['' @ al @ '']''))
       else if bt_has (db_indexes db) al then
         Inl (StoreError_new 400 ''invalid_alias_name_exception''
               (''alias ['' @ al @ ''] conflicts with an existing index''))
       else Inr ())"

definition validate_delete_alias :: "Database \<Rightarrow> string \<Rightarrow> string \<Rightarrow> unit store_result" where
  "validate_delete_alias db index al =
     (if (case bt_get (db_aliases db) al of Some a \<Rightarrow> am_index a = index | None \<Rightarrow> False) then Inr ()
      else Inl (StoreError_new 404 ''aliases_not_found_exception'' (''alias ['' @ al @ ''] missing'')))"

fun validate_mutation :: "StoreLimits \<Rightarrow> Database \<Rightarrow> Mutation \<Rightarrow> unit store_result" where
  "validate_mutation limits db (CreateIndex name _ _) = validate_create_index limits db name"
| "validate_mutation limits db (DeleteIndex name) = validate_index_exists db name"
| "validate_mutation limits db (PutTemplate name patterns _ _) = validate_put_template name patterns"
| "validate_mutation limits db (DeleteTemplate name) = validate_delete_template db name"
| "validate_mutation limits db (PutRegistryObject namespace name _) = validate_put_registry_object namespace name"
| "validate_mutation limits db (DeleteRegistryObject namespace name) = validate_delete_registry_object db namespace name"
| "validate_mutation limits db (IndexDocument index did source) =
     validate_document_write limits db (IndexDocument index did source) index did"
| "validate_mutation limits db (CreateDocument index did source) =
     validate_document_write limits db (CreateDocument index did source) index did"
| "validate_mutation limits db (UpdateDocument index did doc upsert) =
     validate_document_write limits db (UpdateDocument index did doc upsert) index did"
| "validate_mutation limits db (DeleteDocument index _) = validate_index_exists db index"
| "validate_mutation limits db (RenameDocument index old_id new_id) = validate_rename_document db index old_id new_id"
| "validate_mutation limits db (PutMapping index _) = validate_index_exists db index"
| "validate_mutation limits db (PutSettings index _) = validate_index_exists db index"
| "validate_mutation limits db (PutAlias index al _) = validate_put_alias db index al"
| "validate_mutation limits db (DeleteAlias index al) = validate_delete_alias db index al"

definition validate_memory_bytes :: "StoreLimits \<Rightarrow> nat \<Rightarrow> unit store_result" where
  "validate_memory_bytes limits bytes =
     (if memory_limit_bytes limits < bytes then
        Inl (StoreError_new 429 ''resource_limit_exception''
              (''estimated stored state is '' @ show_nat bytes @ '' bytes, exceeding configured memory limit ''
               @ show_nat (memory_limit_bytes limits) @ '' bytes''))
      else Inr ())"

definition validate_memory :: "to_vec \<Rightarrow> StoreLimits \<Rightarrow> Database \<Rightarrow> unit store_result" where
  "validate_memory tv limits db = validate_memory_bytes limits (estimate_database_bytes tv db)"

definition validate_memory_after_mutation :: "to_vec \<Rightarrow> StoreLimits \<Rightarrow> Database \<Rightarrow> Mutation \<Rightarrow> unit store_result" where
  "validate_memory_after_mutation tv limits db m =
     validate_memory_bytes limits
       (case estimate_database_bytes_after_mutation tv db m of
          Some bytes \<Rightarrow> bytes
        | None \<Rightarrow> estimate_database_bytes tv (apply_to tv m db))"

end
