(* ===== verification/Store.thy ===== *)
theory Store
  imports Validate
begin

section \<open>Write operations and commits\<close>

text \<open>
  The write paths of \<open>Store\<close> in \<open>src/storage/mod.rs\<close>, up to the point where the result reaches the
  mutation log: what a batch of mutations (\<open>commit_mutations\<close>), a bulk request
  (\<open>apply_write_operations\<close>) and an atomic dynamic write
  (\<open>apply_dynamic_write_operations_atomic\<close>) make of a copy of the database, the candidate, and
  which mutations they would commit. The three loops share the contract \<open>guarded_machine\<close>.
\<close>

subsection \<open>Index templates\<close>

definition pattern_matches :: "string \<Rightarrow> string \<Rightarrow> bool" where
  "pattern_matches pattern val =
     (if pattern = ''*'' then True
      else case split_once (CHR ''*'') pattern of
             Some (pre, suf) \<Rightarrow> starts_with val pre \<and> ends_with val suf
           | None \<Rightarrow> pattern = val)"

definition extract_index_config :: "json \<Rightarrow> json \<times> json" where
  "extract_index_config body = (jget_or_object body ''settings'', jget_or_object body ''mappings'')"

definition index_patterns :: "json \<Rightarrow> string list" where
  "index_patterns body =
     (case jget body ''index_patterns'' of
        Some (JStr pattern) \<Rightarrow> [pattern]
      | Some (JArr patterns) \<Rightarrow> List.map_filter as_str patterns
      | _ \<Rightarrow> [])"

definition template_matches :: "string \<Rightarrow> IndexTemplate \<Rightarrow> bool" where
  "template_matches index_name t = list_ex (\<lambda>p. pattern_matches p index_name) (it_index_patterns t)"

definition template_config_for :: "Database \<Rightarrow> string \<Rightarrow> json \<times> json" where
  "template_config_for db index_name =
     (case find (template_matches index_name) (bt_values (db_templates db)) of
        Some t \<Rightarrow> (jget_or_object (it_template t) ''settings'', jget_or_object (it_template t) ''mappings'')
      | None \<Rightarrow> (empty_object, empty_object))"

definition resolve_or_create_index :: "Database \<Rightarrow> string \<Rightarrow> string \<times> Mutation list" where
  "resolve_or_create_index db index_or_alias =
     (case resolve_index db index_or_alias of
        Some index \<Rightarrow> (index, [])
      | None \<Rightarrow> (let (settings, mappings) = template_config_for db index_or_alias
                 in (index_or_alias, [CreateIndex index_or_alias settings mappings])))"

subsection \<open>Preparing a write operation\<close>

definition stored_document :: "Database \<Rightarrow> string \<Rightarrow> string \<Rightarrow> StoredDocument option" where
  "stored_document db index did = Option.bind (bt_get (db_indexes db) index) (\<lambda>im. bt_get (im_documents im) did)"

definition prepare_put ::
    "Database \<Rightarrow> string \<Rightarrow> string \<Rightarrow> (string \<Rightarrow> string \<Rightarrow> Mutation) \<Rightarrow> PreparedWrite" where
  "prepare_put db index did mk =
     (let (index, mutations) = resolve_or_create_index db index
      in \<lparr>pw_mutations = mutations @ [mk index did], pw_outcome = PrepDocument index did\<rparr>)"

definition prepare_update ::
    "Database \<Rightarrow> string \<Rightarrow> string \<Rightarrow> json \<Rightarrow> bool \<Rightarrow> json option \<Rightarrow> PreparedWrite store_result" where
  "prepare_update db index did doc doc_as_upsert upsert =
     and_then
       (case resolve_index db index of
          Some i \<Rightarrow> Inr (i, [])
        | None \<Rightarrow> if doc_as_upsert \<or> upsert \<noteq> None then Inr (resolve_or_create_index db index)
                  else Inl (no_such_index index))
       (\<lambda>(index, mutations).
          let exists = stored_document db index did \<noteq> None
          in if \<not> doc_as_upsert \<and> upsert = None \<and> \<not> exists then Inl (document_missing did)
             else if exists then
               Inr \<lparr>pw_mutations = mutations @ [UpdateDocument index did doc doc_as_upsert],
                    pw_outcome = PrepDocument index did\<rparr>
             else
               Inr \<lparr>pw_mutations = mutations @ [CreateDocument index did (case upsert of Some u \<Rightarrow> u | None \<Rightarrow> doc)],
                    pw_outcome = PrepDocument index did\<rparr>)"

definition prepare_delete :: "Database \<Rightarrow> string \<Rightarrow> string \<Rightarrow> PreparedWrite store_result" where
  "prepare_delete db index did =
     and_then (ok_or (no_such_index index) (resolve_index db index)) (\<lambda>index.
       let found = stored_document db index did \<noteq> None
       in Inr \<lparr>pw_mutations = (if found then [DeleteDocument index did] else []),
               pw_outcome = PrepDeleted found\<rparr>)"

fun prepare_write_operation :: "Database \<Rightarrow> WriteOperation \<Rightarrow> PreparedWrite store_result" where
  "prepare_write_operation db (OpIndex index did source) =
     Inr (prepare_put db index did (\<lambda>i d. IndexDocument i d source))"
| "prepare_write_operation db (OpCreate index did source) =
     Inr (prepare_put db index did (\<lambda>i d. CreateDocument i d source))"
| "prepare_write_operation db (OpUpdate index did doc doc_as_upsert upsert) =
     prepare_update db index did doc doc_as_upsert upsert"
| "prepare_write_operation db (OpDelete index did) = prepare_delete db index did"

definition internal_document_error :: "string \<Rightarrow> StoreError" where
  "internal_document_error action =
     StoreError_new 500 ''document_missing_exception'' (action @ '' document missing'')"

definition single_write_result :: "WriteOutcome store_result list \<Rightarrow> WriteOutcome store_result" where
  "single_write_result results =
     (if results = [] then Inl (StoreError_new 500 ''document_exception'' ''write operation returned no result'')
      else last results)"

fun resolve_outcome :: "PreparedOutcome \<Rightarrow> Database \<Rightarrow> WriteOutcome store_result" where
  "resolve_outcome (PrepDocument index did) db =
     ok_or (internal_document_error ''committed'') (map_option OutDocument (stored_document db index did))"
| "resolve_outcome (PrepDeleted found) db = Inr (OutDeleted found)"

subsection \<open>Batches of mutations\<close>

definition commit_step :: "to_vec \<Rightarrow> StoreLimits \<Rightarrow> Database \<Rightarrow> Mutation \<Rightarrow> Database store_result" where
  "commit_step tv limits candidate m =
     and_then (validate_mutation limits candidate m) (\<lambda>_.
       let candidate = apply_to tv m candidate
       in and_then (validate_memory tv limits candidate) (\<lambda>_. Inr candidate))"

definition commit_candidate :: "to_vec \<Rightarrow> StoreLimits \<Rightarrow> Mutation list \<Rightarrow> Database \<Rightarrow> Database store_result" where
  "commit_candidate tv limits ms before = fold_res (commit_step tv limits) before ms"

subsection \<open>Bulk requests\<close>

text \<open>
  The closure of \<open>apply_write_operations\<close> works on the shared candidate: a mutation it has applied
  stays applied when a later one of the same operation fails.
\<close>

fun run_mutations :: "to_vec \<Rightarrow> StoreLimits \<Rightarrow> Mutation list \<Rightarrow> Database \<Rightarrow> Database \<times> unit store_result" where
  "run_mutations tv limits [] candidate = (candidate, Inr ())"
| "run_mutations tv limits (m # ms) candidate =
     (case and_then (validate_mutation limits candidate m)
             (\<lambda>_. validate_memory_after_mutation tv limits candidate m) of
        Inl e \<Rightarrow> (candidate, Inl e)
      | Inr _ \<Rightarrow> run_mutations tv limits ms (apply_to tv m candidate))"

definition bulk_operation ::
    "to_vec \<Rightarrow> StoreLimits \<Rightarrow> WriteOperation \<Rightarrow> Database \<Rightarrow> Database \<times> (Mutation list \<times> WriteOutcome) store_result" where
  "bulk_operation tv limits op candidate =
     (case prepare_write_operation candidate op of
        Inl e \<Rightarrow> (candidate, Inl e)
      | Inr prepared \<Rightarrow>
          (case run_mutations tv limits (pw_mutations prepared) candidate of
             (candidate, Inl e) \<Rightarrow> (candidate, Inl e)
           | (candidate, Inr _) \<Rightarrow>
               (candidate, and_then (resolve_outcome (pw_outcome prepared) candidate)
                             (\<lambda>outcome. Inr (pw_mutations prepared, outcome)))))"

fun bulk_loop ::
    "to_vec \<Rightarrow> StoreLimits \<Rightarrow> WriteOperation list \<Rightarrow> Database \<Rightarrow> Mutation list \<Rightarrow> WriteOutcome store_result list
      \<Rightarrow> Database \<times> Mutation list \<times> WriteOutcome store_result list" where
  "bulk_loop tv limits [] candidate committed results = (candidate, committed, results)"
| "bulk_loop tv limits (op # ops) candidate committed results =
     (case bulk_operation tv limits op candidate of
        (candidate, Inr (ms, outcome)) \<Rightarrow>
          bulk_loop tv limits ops candidate (committed @ ms) (results @ [Inr outcome])
      | (candidate, Inl e) \<Rightarrow> bulk_loop tv limits ops candidate committed (results @ [Inl e]))"

definition bulk_candidate ::
    "to_vec \<Rightarrow> StoreLimits \<Rightarrow> WriteOperation list \<Rightarrow> Database
      \<Rightarrow> Database \<times> Mutation list \<times> WriteOutcome store_result list" where
  "bulk_candidate tv limits ops before = bulk_loop tv limits ops before [] []"

subsection \<open>Atomic dynamic writes\<close>

definition atomic_step ::
    "to_vec \<Rightarrow> StoreLimits \<Rightarrow> Database \<times> Mutation list \<times> WriteOutcome list \<Rightarrow> WriteOperation
      \<Rightarrow> (Database \<times> Mutation list \<times> WriteOutcome list) store_result" where
  "atomic_step tv limits s op =
     (case s of (candidate, committed, outcomes) \<Rightarrow>
       and_then (prepare_write_operation candidate op) (\<lambda>prepared.
       and_then (fold_res (commit_step tv limits) candidate (pw_mutations prepared)) (\<lambda>candidate.
       and_then (resolve_outcome (pw_outcome prepared) candidate) (\<lambda>outcome.
         Inr (candidate, committed @ pw_mutations prepared, outcomes @ [outcome])))))"

definition atomic_candidate ::
    "to_vec \<Rightarrow> StoreLimits \<Rightarrow> (Database \<Rightarrow> (WriteOperation list \<times> 'a) store_result) \<Rightarrow> Database
      \<Rightarrow> (Database \<times> Mutation list \<times> WriteOutcome list \<times> 'a) store_result" where
  "atomic_candidate tv limits build_operations before =
     and_then (build_operations before) (\<lambda>(operations, metadata).
     and_then (fold_res (atomic_step tv limits) (before, [], []) operations) (\<lambda>(candidate, committed, outcomes).
       Inr (candidate, committed, outcomes, metadata)))"

end
