(* ===== verification/StoreCommit.thy ===== *)
theory StoreCommit
  imports Store
begin

section \<open>What a commit keeps\<close>

text \<open>
  The contract \<open>guarded_machine\<close> between the loops that run mutations and the guards that admit
  them, and its two interpretations: the guard of \<open>commit_mutations\<close> and of atomic writes
  (validate, apply, then check the memory of the result) and the guard of bulk requests
  (validate, then check the price). The invariant is \<open>store_inv\<close>.
\<close>

subsection \<open>The contract\<close>

text \<open>
  A machine whose steps are admitted by a guard. The invariant carries a budget: the number of
  further steps for which the counters of the state cannot wrap around.
\<close>

locale guarded_machine =
  fixes guard :: "'s \<Rightarrow> 'm \<Rightarrow> ('e, unit) result"
    and step :: "'m \<Rightarrow> 's \<Rightarrow> 's"
    and admissible :: "'m \<Rightarrow> bool"
    and inv :: "nat \<Rightarrow> 's \<Rightarrow> bool"
  assumes inv_step: "inv (Suc n) s \<Longrightarrow> admissible m \<Longrightarrow> guard s m = Inr () \<Longrightarrow> inv n (step m s)"
    and inv_weaken: "inv (Suc n) s \<Longrightarrow> inv n s"
begin

definition run1 :: "'s \<Rightarrow> 'm \<Rightarrow> ('e, 's) result" where
  "run1 s m = and_then (guard s m) (\<lambda>_. Inr (step m s))"

lemma inv_mono: "inv (k + n) s \<Longrightarrow> inv n s"
  by (induction k) (auto dest: inv_weaken)

lemma run_all_eq: "fold_res run1 s ms = Inr s' \<Longrightarrow> s' = fold step ms s"
  by (induction ms arbitrary: s) (auto simp: run1_def result_simps)

lemma run_all_inv:
  "fold_res run1 s ms = Inr s' \<Longrightarrow> inv (length ms + n) s \<Longrightarrow> list_all admissible ms \<Longrightarrow> inv n s'"
  by (induction ms arbitrary: s) (auto simp: run1_def result_simps dest: inv_step)

text \<open>Running with the partial effects kept: the state after a failure is that of the steps before it.\<close>

fun run_until :: "'m list \<Rightarrow> 's \<Rightarrow> 's \<times> ('e, unit) result" where
  "run_until [] s = (s, Inr ())"
| "run_until (m # ms) s = (case guard s m of Inl e \<Rightarrow> (s, Inl e) | Inr _ \<Rightarrow> run_until ms (step m s))"

lemma run_until_inv:
  "inv (length ms + n) s \<Longrightarrow> list_all admissible ms \<Longrightarrow> inv n (fst (run_until ms s))"
proof (induction ms arbitrary: s)
  case Nil
  then show ?case by simp
next
  case (Cons m ms)
  show ?case
  proof (cases "guard s m")
    case (Inl e)
    with Cons.prems(1) show ?thesis using inv_mono [of "Suc (length ms)" n s] by simp
  next
    case (Inr u)
    with Cons.prems have "inv (length ms + n) (step m s)" by (auto intro: inv_step)
    with Cons Inr show ?thesis by simp
  qed
qed

lemma run_until_ok: "run_until ms s = (s', Inr u) \<Longrightarrow> s' = fold step ms s"
  by (induction ms arbitrary: s) (auto split: sum.splits)

lemma run_until_prefix: "\<exists>k \<le> length ms. fst (run_until ms s) = fold step (take k ms) s"
proof (induction ms arbitrary: s)
  case Nil
  then show ?case by simp
next
  case (Cons m ms)
  show ?case
  proof (cases "guard s m")
    case (Inl e)
    then show ?thesis by (intro exI [of _ 0]) simp
  next
    case (Inr u)
    from Cons.IH [of "step m s"] obtain k where
      "k \<le> length ms" "fst (run_until ms (step m s)) = fold step (take k ms) (step m s)" by blast
    with Inr show ?thesis by (intro exI [of _ "Suc k"]) simp
  qed
qed

end

subsection \<open>The invariant of the store\<close>

definition store_inv :: "to_vec \<Rightarrow> StoreLimits \<Rightarrow> nat \<Rightarrow> Database \<Rightarrow> bool" where
  "store_inv tv limits n db \<longleftrightarrow> db_ok db \<and> tombstones_ok db \<and> aliases_ok db \<and> sizes_exact tv db
     \<and> length (db_indexes db) \<le> max_indexes limits \<and> document_count db \<le> max_documents limits
     \<and> estimate_database_bytes tv db \<le> memory_limit_bytes limits
     \<and> memory_limit_bytes limits < usize_max \<and> db_seq_no db + n < 2 ^ 64"

text \<open>The mutations clients cause: well-formed values, and no renaming (only the repair at startup renames).\<close>

definition client_mutation :: "Mutation \<Rightarrow> bool" where
  "client_mutation m \<longleftrightarrow> mutation_ok m \<and> (case m of RenameDocument _ _ _ \<Rightarrow> False | _ \<Rightarrow> True)"

definition commit_guard :: "to_vec \<Rightarrow> StoreLimits \<Rightarrow> Database \<Rightarrow> Mutation \<Rightarrow> unit store_result" where
  "commit_guard tv limits db m =
     and_then (validate_mutation limits db m) (\<lambda>_. validate_memory tv limits (apply_to tv m db))"

definition bulk_guard :: "to_vec \<Rightarrow> StoreLimits \<Rightarrow> Database \<Rightarrow> Mutation \<Rightarrow> unit store_result" where
  "bulk_guard tv limits db m =
     and_then (validate_mutation limits db m) (\<lambda>_. validate_memory_after_mutation tv limits db m)"

lemma commit_step_eq:
  "commit_step tv limits db m = and_then (commit_guard tv limits db m) (\<lambda>_. Inr (apply_to tv m db))"
  by (simp add: commit_step_def commit_guard_def Let_def and_then_assoc)

lemma validate_memory_bytes_ok [result_simps]:
  "validate_memory_bytes limits b = Inr u \<longleftrightarrow> b \<le> memory_limit_bytes limits"
  by (auto simp: validate_memory_bytes_def)

subsection \<open>Counts\<close>

lemma document_count_adjust:
  assumes "bt_ok (db_indexes db)" and "bt_get (db_indexes db) index = Some im"
  shows "sum_list (map (\<lambda>(_, im). length (im_documents im)) (bt_adjust index f (db_indexes db))) + length (im_documents im)
    = document_count db + length (im_documents (f im))"
  using bt_sum_insert [OF assms(1), of "\<lambda>(_, im). length (im_documents im)" index "f im"] assms
  by (simp add: bt_adjust_insert document_count_def)

lemma document_count_absent: "bt_get (db_indexes db) index = None \<Longrightarrow>
    sum_list (map (\<lambda>(_, im). length (im_documents im)) (bt_adjust index f (db_indexes db))) = document_count db"
  by (simp add: bt_adjust_absent document_count_def)

lemma document_count_same: "db_indexes db' = db_indexes db \<Longrightarrow> document_count db' = document_count db"
  by (simp add: document_count_def)

lemma length_documents_steps [simp]:
  "im_documents (recompute_store_size tv im) = im_documents im"
  "im_documents (add_store_bytes n im) = im_documents im"
  "im_documents (put_document did d im) = bt_insert did d (im_documents im)"
  by (simp_all add: recompute_store_size_def doc_defs)

text \<open>How many documents an arm adds.\<close>

lemma length_documents_arms:
  assumes "bt_ok (im_documents im)"
  shows "length (im_documents (index_document_in tv n did v im))
      = length (im_documents im) + (if bt_has (im_documents im) did then 0 else 1)"
    and "length (im_documents (create_document_in tv n did v im))
      = length (im_documents im) + (if bt_has (im_documents im) did then 0 else 1)"
    and "length (im_documents (update_document_in tv n did v upsert im))
      \<le> length (im_documents im) + (if bt_has (im_documents im) did then 0 else 1)"
    and "length (im_documents (delete_document_in tv n did im)) \<le> length (im_documents im)"
  using assms
  by (simp_all add: index_document_in_def create_document_in_def update_document_in_def
      delete_document_in_def Let_def bt_length_insert bt_length_remove split: option.splits)

lemma document_write_admitted:
  assumes "validate_document_write limits db m index did = Inr ()"
  obtains im where "bt_get (db_indexes db) index = Some im"
    and "bt_has (im_documents im) did \<or> document_count db < max_documents limits"
  using assms by (auto simp: validate_document_write_def Let_def result_simps split: if_splits)

lemma document_count_write:
  assumes "db_ok db" and "validate_document_write limits db m index did = Inr ()"
    and "document_count db \<le> max_documents limits"
    and "db_indexes db' = bt_adjust index f (db_indexes db)"
    and "\<And>im. bt_ok (im_documents im) \<Longrightarrow>
      length (im_documents (f im)) \<le> length (im_documents im) + (if bt_has (im_documents im) did then 0 else 1)"
  shows "document_count db' \<le> max_documents limits"
proof -
  obtain im where im: "bt_get (db_indexes db) index = Some im"
    and room: "bt_has (im_documents im) did \<or> document_count db < max_documents limits"
    using assms(2) by (rule document_write_admitted)
  have bt: "bt_ok (db_indexes db)" and "bt_ok (im_documents im)"
    using assms(1) im by (auto simp: db_ok_def index_ok_def dest: bt_all_get)
  with assms(5) [of im] document_count_adjust [OF bt im, of f] assms(3,4) room show ?thesis
    by (auto simp: document_count_def [of db'] split: if_splits)
qed

lemma document_count_keep:
  assumes "db_ok db" and "db_indexes db' = bt_adjust index f (db_indexes db)"
    and "\<And>im. bt_ok (im_documents im) \<Longrightarrow> length (im_documents (f im)) \<le> length (im_documents im)"
  shows "document_count db' \<le> document_count db"
proof (cases "bt_get (db_indexes db) index")
  case None
  with assms(2) document_count_absent [of db index f] show ?thesis by (simp add: document_count_def [of db'])
next
  case (Some im)
  have bt: "bt_ok (db_indexes db)" and "bt_ok (im_documents im)"
    using assms(1) Some by (auto simp: db_ok_def index_ok_def dest: bt_all_get)
  with assms(2) assms(3) [of im] document_count_adjust [OF bt Some, of f] show ?thesis
    by (simp add: document_count_def [of db'])
qed

lemma document_count_create_index:
  assumes "db_ok db"
  shows "document_count (apply_create_index tv name s v db) = document_count db"
  using assms bt_sum_insert [of "db_indexes db" "\<lambda>(_, im). length (im_documents im)" name "IndexMetadata_new tv name s v"]
  by (auto simp: document_count_def apply_create_index_def IndexMetadata_new_def db_ok_def bt_has_def)

lemma document_count_delete_index:
  assumes "db_ok db"
  shows "document_count (apply_delete_index name db) \<le> document_count db"
  using assms bt_sum_remove [of "db_indexes db" "\<lambda>(_, im). length (im_documents im)" name]
  by (auto simp: document_count_def apply_delete_index_def db_ok_def)

lemma document_count_apply_to:
  assumes "db_ok db" and "validate_mutation limits db m = Inr ()" and "document_count db \<le> max_documents limits"
    and "client_mutation m"
  shows "document_count (apply_to tv m db) \<le> max_documents limits"
proof -
  note written = document_count_write [OF assms(1) _ assms(3), of m _ _ "apply_to tv m db"]
  note keep = order.trans [OF document_count_keep [OF assms(1)] assms(3)]
  show ?thesis
  proof (cases m)
    case (CreateIndex name s v)
    with assms document_count_create_index show ?thesis by simp
  next
    case (DeleteIndex name)
    with assms(3) document_count_delete_index [OF assms(1), of name] show ?thesis by simp
  next
    case (PutMapping index v)
    then show ?thesis by (intro keep) (simp add: apply_defs, simp)
  next
    case (PutSettings index v)
    then show ?thesis by (intro keep) (simp add: apply_defs, simp)
  next
    case (PutAlias index al raw)
    then show ?thesis by (intro keep) (simp add: apply_defs Let_def, simp)
  next
    case (DeleteAlias index al)
    then show ?thesis by (intro keep) (simp add: apply_defs Let_def, simp)
  next
    case (IndexDocument index did v)
    with assms(2) show ?thesis
      by (intro written) (simp, simp add: apply_defs Let_def, simp add: length_documents_arms)
  next
    case (CreateDocument index did v)
    with assms(2) show ?thesis
      by (intro written) (simp, simp add: apply_defs Let_def, simp add: length_documents_arms)
  next
    case (UpdateDocument index did v upsert)
    with assms(2) show ?thesis
      by (intro written) (simp, simp add: apply_defs Let_def, simp only: length_documents_arms)
  next
    case (DeleteDocument index did)
    then show ?thesis by (intro keep) (simp add: apply_defs Let_def, simp add: length_documents_arms)
  qed (use assms(3,4) in \<open>auto simp: apply_defs Let_def client_mutation_def document_count_def split: option.splits\<close>)
qed

lemma length_indexes_apply_to:
  assumes "db_ok db" and "validate_mutation limits db m = Inr ()" and "length (db_indexes db) \<le> max_indexes limits"
  shows "length (db_indexes (apply_to tv m db)) \<le> max_indexes limits"
  using assms
  by (cases m) (auto simp: apply_defs Let_def validate_create_index_def bt_length_insert bt_length_remove
      db_ok_def split: if_splits option.splits)

lemma db_seq_no_apply_to:
  assumes "db_seq_no db < 2 ^ 64 - 1"
  shows "db_seq_no (apply_to tv m db) \<le> Suc (db_seq_no db)"
  using assms by (cases m) (auto simp: apply_defs Let_def split: option.splits)

lemma alias_target_validated:
  "validate_mutation limits db m = Inr () \<Longrightarrow> alias_target_ok db m"
  by (cases m) (auto simp: validate_put_alias_def validate_index_exists_def result_simps split: if_splits)

lemma store_inv_step:
  assumes "store_inv tv limits (Suc n) db" and "client_mutation m" and "validate_mutation limits db m = Inr ()"
    and "estimate_database_bytes tv (apply_to tv m db) \<le> memory_limit_bytes limits"
  shows "store_inv tv limits n (apply_to tv m db)"
proof -
  have "db_seq_no db < 2 ^ 64 - 1" using assms(1) by (simp add: store_inv_def)
  moreover have "\<not> renames_onto_tombstone db m" and "mutation_ok m"
    using assms(2) by (cases m; simp add: client_mutation_def)+
  ultimately show ?thesis
    using assms db_seq_no_apply_to [of db tv m] alias_target_validated [OF assms(3)]
    by (auto simp: store_inv_def db_ok_apply_to tombstones_ok_apply_to aliases_ok_apply_to
        sizes_exact_apply_to length_indexes_apply_to document_count_apply_to)
qed

lemma commit_guard_step:
  assumes "store_inv tv limits (Suc n) db" and "client_mutation m" and "commit_guard tv limits db m = Inr ()"
  shows "store_inv tv limits n (apply_to tv m db)"
  using assms by (intro store_inv_step) (auto simp: commit_guard_def validate_memory_def result_simps)

text \<open>The price the bulk guard checks is the size the commit guard checks.\<close>

lemma bulk_guard_price:
  assumes "store_inv tv limits n db" and "bulk_guard tv limits db m = Inr ()"
  shows "estimate_database_bytes tv (apply_to tv m db) \<le> memory_limit_bytes limits"
proof (cases "estimate_database_bytes_after_mutation tv db m")
  case None
  with assms(2) show ?thesis by (simp add: bulk_guard_def validate_memory_after_mutation_def result_simps)
next
  case (Some b)
  have valid: "validate_mutation limits db m = Inr ()" and le: "b \<le> memory_limit_bytes limits"
    using assms(2) Some by (auto simp: bulk_guard_def validate_memory_after_mutation_def result_simps)
  have "price_assumptions tv db m"
    using assms(1) valid
    by (auto simp: store_inv_def price_assumptions_def validate_create_index_def split: Mutation.splits if_splits)
  from estimate_after_mutation [OF this Some] le assms(1) show ?thesis by (simp add: store_inv_def)
qed

lemma bulk_guard_step:
  assumes "store_inv tv limits (Suc n) db" and "client_mutation m" and "bulk_guard tv limits db m = Inr ()"
  shows "store_inv tv limits n (apply_to tv m db)"
  using assms bulk_guard_price [OF assms(1,3)]
  by (intro store_inv_step) (auto simp: bulk_guard_def result_simps)

lemma store_inv_weaken: "store_inv tv limits (Suc n) db \<Longrightarrow> store_inv tv limits n db"
  by (simp add: store_inv_def)

interpretation committing: guarded_machine "commit_guard tv limits" "apply_to tv" client_mutation "store_inv tv limits"
  for tv limits
  by unfold_locales (fact commit_guard_step, fact store_inv_weaken)

interpretation bulking: guarded_machine "bulk_guard tv limits" "apply_to tv" client_mutation "store_inv tv limits"
  for tv limits
  by unfold_locales (fact bulk_guard_step, fact store_inv_weaken)

subsection \<open>The three loops are runs of the machines\<close>

lemma commit_step_run1: "commit_step tv limits = committing.run1 tv limits"
  by (rule ext)+ (simp add: commit_step_eq committing.run1_def)

lemma run_mutations_until: "run_mutations tv limits ms db = bulking.run_until tv limits ms db"
  by (induction ms arbitrary: db) (simp_all add: bulk_guard_def split: sum.splits)

lemma apply_all_fold: "apply_all tv ms db = fold (apply_to tv) ms db"
  by (simp add: apply_all_def)

lemma commit_candidate_apply_all:
  "commit_candidate tv limits ms db = Inr db' \<Longrightarrow> db' = apply_all tv ms db"
  unfolding commit_candidate_def commit_step_run1 apply_all_fold by (rule committing.run_all_eq)

text \<open>The values of a write operation come out of the parser.\<close>

fun operation_ok :: "WriteOperation \<Rightarrow> bool" where
  "operation_ok (OpIndex _ _ source) = json_ok source"
| "operation_ok (OpCreate _ _ source) = json_ok source"
| "operation_ok (OpUpdate _ _ doc _ upsert) = (json_ok doc \<and> (case upsert of Some u \<Rightarrow> json_ok u | None \<Rightarrow> True))"
| "operation_ok (OpDelete _ _) = True"

lemma template_config_ok:
  assumes "db_ok db" and "template_config_for db index = (s, v)"
  shows "json_ok s \<and> json_ok v"
proof (cases "find (template_matches index) (bt_values (db_templates db))")
  case None
  with assms(2) show ?thesis by (auto simp: template_config_for_def)
next
  case (Some t)
  then have "t \<in> set (bt_values (db_templates db))" by (auto simp: find_Some_iff)
  with assms(1) have "json_ok (it_template t)"
    by (auto simp: db_ok_def bt_all_def list_all_iff bt_values_def)
  with Some assms(2) show ?thesis by (auto simp: template_config_for_def json_ok_jget_or_object)
qed

lemma resolve_or_create_cases:
  obtains (existing) i where "resolve_index db index = Some i" "resolve_or_create_index db index = (i, [])"
  | (created) s v where "resolve_index db index = None" "template_config_for db index = (s, v)"
      "resolve_or_create_index db index = (index, [CreateIndex index s v])"
  by (cases "resolve_index db index"; cases "template_config_for db index")
    (auto simp: resolve_or_create_index_def)

lemma resolve_or_create_client:
  assumes "db_ok db" and "resolve_or_create_index db index = (i, ms)"
  shows "list_all client_mutation ms \<and> length ms \<le> 1 \<and> (resolve_index db index \<noteq> None \<longrightarrow> ms = [])"
  using assms(2) template_config_ok [OF assms(1), of index]
  by (cases rule: resolve_or_create_cases [of db index]) (auto simp: client_mutation_def)

lemma prepared_mutations:
  assumes "db_ok db" and "operation_ok op" and "prepare_write_operation db op = Inr p"
  shows "list_all client_mutation (pw_mutations p) \<and> length (pw_mutations p) \<le> 2
    \<and> (resolve_index db (op_index op) \<noteq> None \<longrightarrow> length (pw_mutations p) \<le> 1)"
proof (cases op)
  case (OpUpdate index did doc b upsert)
  with assms resolve_or_create_client [OF assms(1), of index] show ?thesis
    by (cases "resolve_or_create_index db index")
      (auto simp: prepare_update_def result_simps client_mutation_def Let_def split: option.splits if_splits)
qed (use assms resolve_or_create_client [OF assms(1)] in \<open>auto simp: prepare_put_def prepare_delete_def
    client_mutation_def Let_def result_simps split: prod.splits\<close>)

lemma bulk_operation_inv:
  assumes "store_inv tv limits (2 + n) db" and "operation_ok op"
  shows "store_inv tv limits n (fst (bulk_operation tv limits op db))"
proof (cases "prepare_write_operation db op")
  case (Inl e)
  with assms(1) show ?thesis
    using bulking.inv_mono [of tv limits 2 n db] by (simp add: bulk_operation_def)
next
  case (Inr p)
  have "db_ok db" using assms(1) by (simp add: store_inv_def)
  from prepared_mutations [OF this assms(2) Inr]
  have ms: "list_all client_mutation (pw_mutations p)" "length (pw_mutations p) \<le> 2" by auto
  have "store_inv tv limits (2 - length (pw_mutations p) + (length (pw_mutations p) + n)) db"
    using ms(2) assms(1) by simp
  then have "store_inv tv limits (length (pw_mutations p) + n) db" by (rule bulking.inv_mono)
  with bulking.run_until_inv ms(1)
  have "store_inv tv limits n (fst (run_mutations tv limits (pw_mutations p) db))"
    unfolding run_mutations_until by blast
  with Inr show ?thesis
    by (auto simp: bulk_operation_def split: prod.splits sum.splits)
qed

lemma bulk_loop_inv:
  assumes "store_inv tv limits (2 * length ops + n) db" and "list_all operation_ok ops"
  shows "store_inv tv limits n (fst (bulk_loop tv limits ops db committed results))"
  using assms
proof (induction ops arbitrary: db committed results)
  case Nil
  then show ?case by simp
next
  case (Cons op ops)
  have "store_inv tv limits (2 * length ops + n) (fst (bulk_operation tv limits op db))"
    using Cons.prems by (intro bulk_operation_inv) auto
  with Cons show ?case by (auto split: prod.splits sum.splits)
qed

text \<open>What one bulk operation does to the candidate.\<close>

lemma bulk_operation_ok:
  assumes "bulk_operation tv limits op db = (db', Inr (ms, outcome))"
  shows "db' = apply_all tv ms db"
  using assms bulking.run_until_ok [of tv limits]
  by (auto simp: bulk_operation_def run_mutations_until apply_all_fold result_simps split: sum.splits prod.splits)

lemma run_mutations_single_error:
  assumes "length ms \<le> 1" and "run_mutations tv limits ms db = (db', Inl e)"
  shows "db' = db"
  using assms by (cases ms) (auto split: sum.splits)

text \<open>A write operation only writes documents and creates indexes, so a name that resolves keeps resolving.\<close>

definition write_mutation :: "Mutation \<Rightarrow> bool" where
  "write_mutation m \<longleftrightarrow> (case m of CreateIndex _ _ _ \<Rightarrow> True | IndexDocument _ _ _ \<Rightarrow> True
     | CreateDocument _ _ _ \<Rightarrow> True | UpdateDocument _ _ _ _ \<Rightarrow> True | DeleteDocument _ _ \<Rightarrow> True | _ \<Rightarrow> False)"

lemma write_mutation_resolves:
  assumes "write_mutation m" and "resolve_index db x \<noteq> None"
  shows "resolve_index (apply_to tv m db) x \<noteq> None"
  using assms by (cases m) (auto simp: write_mutation_def resolve_index_def apply_defs Let_def split: if_splits)

lemma write_mutations_resolve:
  "list_all write_mutation ms \<Longrightarrow> resolve_index db x \<noteq> None \<Longrightarrow> resolve_index (apply_all tv ms db) x \<noteq> None"
proof (induction ms arbitrary: db)
  case (Cons m ms)
  from Cons.prems have "resolve_index (apply_to tv m db) x \<noteq> None"
    by (intro write_mutation_resolves) auto
  with Cons show ?case by simp
qed simp

lemma prepared_write_mutations:
  assumes "prepare_write_operation db op = Inr p"
  shows "list_all write_mutation (pw_mutations p)"
proof -
  have "list_all write_mutation (snd (resolve_or_create_index db index))" for index
    by (cases rule: resolve_or_create_cases [of db index]) (auto simp: write_mutation_def)
  then have roc: "list_all write_mutation ms" if "resolve_or_create_index db index = (i, ms)" for index i ms
    using that by (metis snd_conv)
  show ?thesis
    using assms by (cases op) (auto simp: prepare_put_def prepare_update_def prepare_delete_def Let_def
        result_simps write_mutation_def dest!: roc split: prod.splits option.splits if_splits)
qed

lemma bulk_operation_prefix:
  "\<exists>ms. list_all write_mutation ms \<and> fst (bulk_operation tv limits op db) = apply_all tv ms db"
proof (cases "prepare_write_operation db op")
  case (Inl e)
  then show ?thesis by (intro exI [of _ "[]"]) (simp add: bulk_operation_def)
next
  case (Inr p)
  obtain k where "fst (run_mutations tv limits (pw_mutations p) db) = apply_all tv (take k (pw_mutations p)) db"
    using bulking.run_until_prefix [of "pw_mutations p" tv limits db]
    unfolding run_mutations_until apply_all_fold by blast
  moreover have "list_all write_mutation (take k (pw_mutations p))"
    using prepared_write_mutations [OF Inr] by (auto simp: list_all_iff dest: in_set_takeD)
  moreover have "fst (bulk_operation tv limits op db) = fst (run_mutations tv limits (pw_mutations p) db)"
    using Inr by (auto simp: bulk_operation_def split: prod.splits sum.splits)
  ultimately show ?thesis by auto
qed

lemma bulk_operation_resolves:
  "resolve_index db x \<noteq> None \<Longrightarrow> resolve_index (fst (bulk_operation tv limits op db)) x \<noteq> None"
  using bulk_operation_prefix [of tv limits op db] write_mutations_resolve [of _ db x tv] by metis

subsection \<open>Reading back what was written\<close>

lemma stored_document_on_index:
  "stored_document (on_index i f db) j did =
     (if j = i then Option.bind (bt_get (db_indexes db) i) (\<lambda>im. bt_get (im_documents (f im)) did)
      else stored_document db j did)"
  by (auto simp: stored_document_def on_index_def split: bind_splits)

lemma stored_document_next [simp]: "stored_document (next_seq_no db) j did = stored_document db j did"
  by (simp add: stored_document_def next_seq_no_def)

lemma indexes_next [simp]: "db_indexes (next_seq_no db) = db_indexes db"
  by (simp add: next_seq_no_def)

text \<open>The version a write gives a document.\<close>

definition version_after :: "StoredDocument option \<Rightarrow> nat" where
  "version_after old = (case old of Some d \<Rightarrow> u64_succ (doc_version d) | None \<Rightarrow> 1)"

definition new_document :: "Database \<Rightarrow> string \<Rightarrow> string \<Rightarrow> json \<Rightarrow> StoredDocument" where
  "new_document db index did source =
     \<lparr>doc_id = did, doc_source = source, doc_version = version_after (stored_document db index did),
      doc_seq_no = u64_succ (db_seq_no db), doc_primary_term = 1\<rparr>"

lemma documents_after_index:
  "bt_get (im_documents (index_document_in tv n did v im)) d
    = (if d = did then Some \<lparr>doc_id = did, doc_source = v, doc_version = next_version im did,
                              doc_seq_no = n, doc_primary_term = 1\<rparr> else bt_get (im_documents im) d)"
  by (simp add: index_document_in_def Let_def)

lemma documents_after_create:
  "bt_get (im_documents im) did = None \<Longrightarrow> bt_get (im_documents (create_document_in tv n did v im)) d
    = (if d = did then Some \<lparr>doc_id = did, doc_source = v, doc_version = 1,
                              doc_seq_no = n, doc_primary_term = 1\<rparr> else bt_get (im_documents im) d)"
  by (simp add: create_document_in_def Let_def bt_has_def)

lemma documents_after_update:
  "bt_get (im_documents im) did = Some old \<Longrightarrow> bt_get (im_documents (update_document_in tv n did v upsert im)) d
    = (if d = did then Some \<lparr>doc_id = did, doc_source = merge_object (doc_source old) v,
         doc_version = next_version im did, doc_seq_no = n, doc_primary_term = 1\<rparr>
       else bt_get (im_documents im) d)"
  by (simp add: update_document_in_def update_base_def Let_def)

lemma documents_after_delete:
  "bt_get (im_documents (delete_document_in tv n did im)) d = (if d = did then None else bt_get (im_documents im) d)"
  by (simp add: delete_document_in_def split: option.splits)

lemma stored_document_at: "bt_get (db_indexes db) i = Some im \<Longrightarrow> stored_document db i did = bt_get (im_documents im) did"
  by (simp add: stored_document_def)

lemma next_version_stored:
  "bt_get (db_indexes db) i = Some im \<Longrightarrow> next_version im did = version_after (stored_document db i did)"
  by (simp add: next_version_def version_after_def stored_document_at)

lemma seq_no_next_eq [simp]: "db_seq_no (next_seq_no db) = u64_succ (db_seq_no db)"
  by (simp add: next_seq_no_def)

lemma stored_after_index:
  assumes "bt_has (db_indexes db) index"
  shows "stored_document (apply_to tv (IndexDocument index did v) db) j d
    = (if j = index \<and> d = did then Some (new_document db index did v) else stored_document db j d)"
proof -
  obtain im where im: "bt_get (db_indexes db) index = Some im" using assms by (auto simp: bt_has_def)
  show ?thesis
    by (simp add: apply_index_document_def Let_def stored_document_on_index documents_after_index im
        new_document_def next_version_stored [OF im] stored_document_at [OF im])
qed

lemma stored_after_create:
  assumes "bt_has (db_indexes db) index" and "stored_document db index did = None"
  shows "stored_document (apply_to tv (CreateDocument index did v) db) j d
    = (if j = index \<and> d = did then Some (new_document db index did v) else stored_document db j d)"
proof -
  obtain im where im: "bt_get (db_indexes db) index = Some im" using assms(1) by (auto simp: bt_has_def)
  with assms(2) have "bt_get (im_documents im) did = None" by (simp add: stored_document_at)
  then show ?thesis
    by (simp add: apply_create_document_def Let_def stored_document_on_index documents_after_create im
        new_document_def assms(2) version_after_def stored_document_at [OF im])
qed

lemma stored_after_update:
  assumes "stored_document db index did = Some old"
  shows "stored_document (apply_to tv (UpdateDocument index did v upsert) db) j d
    = (if j = index \<and> d = did then Some (new_document db index did (merge_object (doc_source old) v))
       else stored_document db j d)"
proof -
  obtain im where im: "bt_get (db_indexes db) index = Some im" and "bt_get (im_documents im) did = Some old"
    using assms by (auto simp: stored_document_def split: bind_splits)
  then show ?thesis
    by (simp add: apply_update_document_def Let_def stored_document_on_index documents_after_update
        new_document_def next_version_stored [OF im] stored_document_at [OF im])
qed

lemma stored_after_delete:
  assumes "bt_has (db_indexes db) index"
  shows "stored_document (apply_to tv (DeleteDocument index did) db) j d
    = (if j = index \<and> d = did then None else stored_document db j d)"
proof -
  obtain im where im: "bt_get (db_indexes db) index = Some im" using assms by (auto simp: bt_has_def)
  show ?thesis
    by (simp add: apply_delete_document_def Let_def stored_document_on_index documents_after_delete im
        stored_document_at [OF im])
qed

lemma stored_after_create_index:
  assumes "\<not> bt_has (db_indexes db) name"
  shows "stored_document (apply_to tv (CreateIndex name s v) db) j d = stored_document db j d"
  using assms by (auto simp: apply_create_index_def stored_document_def IndexMetadata_new_def bt_has_def
      split: bind_splits)

lemma document_write_exists:
  "validate_document_write limits db m index did = Inr u \<Longrightarrow> bt_has (db_indexes db) index"
  by (auto simp: validate_document_write_def result_simps bt_has_def)

lemma bulk_guard_validate: "bulk_guard tv limits db m = Inr u \<Longrightarrow> validate_mutation limits db m = Inr ()"
  by (auto simp: bulk_guard_def result_simps)

lemma create_validated_absent:
  "validate_mutation limits db (CreateDocument index did v) = Inr () \<Longrightarrow> stored_document db index did = None"
  by (auto simp: validate_document_write_def result_simps Let_def bt_has_def stored_document_def split: if_splits)

text \<open>The last mutation of a prepared operation, run on the state the ones before it lead to.\<close>

lemma bulk_run_last:
  assumes "bulking.run_until tv limits (ms @ [m]) db = (db', Inr u)"
  obtains db1 where "db1 = apply_all tv ms db" and "validate_mutation limits db1 m = Inr ()"
    and "db' = apply_to tv m db1"
  using assms
proof (induction ms arbitrary: db thesis)
  case Nil
  then show ?case by (auto simp: bulk_guard_validate split: sum.splits)
next
  case (Cons a ms)
  then show ?case by (auto split: sum.splits)
qed

lemma stored_after_put:
  assumes "bulking.run_until tv limits (ms @ [m]) db = (db', Inr u)"
    and "m = IndexDocument i did v \<or> m = CreateDocument i did v"
  shows "stored_document db' i did = Some (new_document (apply_all tv ms db) i did v)"
proof -
  obtain db1 where db1: "db1 = apply_all tv ms db"
    and valid: "validate_mutation limits db1 m = Inr ()" and db': "db' = apply_to tv m db1"
    using assms(1) by (rule bulk_run_last)
  show ?thesis
    using assms(2)
  proof
    assume m: "m = IndexDocument i did v"
    with valid have "bt_has (db_indexes db1) i" by (auto dest: document_write_exists)
    with m db' db1 stored_after_index show ?thesis by simp
  next
    assume m: "m = CreateDocument i did v"
    with valid have "bt_has (db_indexes db1) i" by (auto dest: document_write_exists)
    moreover have "stored_document db1 i did = None"
      using valid unfolding m by (rule create_validated_absent)
    ultimately have "bt_has (db_indexes db1) i" "stored_document db1 i did = None" by auto
    with m db' db1 stored_after_create show ?thesis by simp
  qed
qed

text \<open>The shapes a prepared operation can have.\<close>

lemma prepared_shapes:
  assumes "prepare_write_operation db op = Inr p"
  obtains (put) ms m i did v where "pw_mutations p = ms @ [m]" "m = IndexDocument i did v \<or> m = CreateDocument i did v"
      "pw_outcome p = PrepDocument i did"
  | (update) i did v b where "pw_mutations p = [UpdateDocument i did v b]" "stored_document db i did \<noteq> None"
      "pw_outcome p = PrepDocument i did"
  | (delete) found where "pw_outcome p = PrepDeleted found"
proof (cases op)
  case (OpIndex index did source)
  with assms show ?thesis by (auto simp: prepare_put_def Let_def split: prod.splits intro: put)
next
  case (OpCreate index did source)
  with assms show ?thesis by (auto simp: prepare_put_def Let_def split: prod.splits intro: put)
next
  case (OpDelete index did)
  with assms show ?thesis by (auto simp: prepare_delete_def Let_def result_simps intro: delete)
next
  case (OpUpdate index did doc b upsert)
  have none: "stored_document db i d = None"
    if "resolve_index db index = None" "resolve_or_create_index db index = (i, ms)" for i ms d
    using that by (auto simp: resolve_or_create_index_def resolve_index_def stored_document_def bt_has_def
        split: prod.splits if_splits)
  show ?thesis
    using assms OpUpdate none
    by (auto simp: prepare_update_def Let_def result_simps split: option.splits if_splits
        intro: put update)
qed

lemma resolve_outcome_after_write:
  assumes "prepare_write_operation db op = Inr p"
    and "bulking.run_until tv limits (pw_mutations p) db = (db', Inr u)"
  shows "\<exists>outcome. resolve_outcome (pw_outcome p) db' = Inr outcome"
  using assms(1)
proof (cases rule: prepared_shapes)
  case (put ms m i did v)
  with assms(2) stored_after_put [of tv limits ms m db db' u i did v] show ?thesis by simp
next
  case (update i did v b)
  with assms(2) have "db' = apply_to tv (UpdateDocument i did v b) db"
    by (auto split: sum.splits)
  with update stored_after_update show ?thesis by auto
next
  case (delete found)
  then show ?thesis by simp
qed

text \<open>An update prepared for a resolvable index has an outcome once its mutations are applied.\<close>

lemma bulk_operation_error:
  assumes "db_ok db" and "operation_ok op" and "resolve_index db (op_index op) \<noteq> None"
    and "bulk_operation tv limits op db = (db', Inl e)"
  shows "db' = db"
proof (cases "prepare_write_operation db op")
  case (Inl e')
  with assms(4) show ?thesis by (simp add: bulk_operation_def)
next
  case (Inr p)
  with prepared_mutations [OF assms(1,2)] assms(3) have "length (pw_mutations p) \<le> 1" by auto
  with run_mutations_single_error [OF this] assms(4) Inr
    resolve_outcome_after_write [OF Inr, of tv limits, folded run_mutations_until]
  show ?thesis
    by (fastforce simp: bulk_operation_def result_simps split: prod.splits sum.splits)
qed

subsection \<open>Whole requests\<close>

lemma bulk_loop_replay:
  assumes "bulk_loop tv limits ops db committed results = (db', committed', results')"
    and "db = apply_all tv committed before"
    and "store_inv tv limits (2 * length ops) db" and "list_all operation_ok ops"
    and "list_all (\<lambda>op. resolve_index db (op_index op) \<noteq> None) ops"
  shows "db' = apply_all tv committed' before \<and> length results' = length results + length ops"
  using assms
proof (induction ops arbitrary: db committed results)
  case Nil
  then show ?case by auto
next
  case (Cons op ops)
  obtain db1 r where step: "bulk_operation tv limits op db = (db1, r)" by (cases "bulk_operation tv limits op db")
  have inv: "store_inv tv limits (2 * length ops) db1"
    using bulk_operation_inv [of tv limits "2 * length ops" db op] Cons.prems(3,4) step by simp
  have "resolve_index db1 x \<noteq> None" if "resolve_index db x \<noteq> None" for x
    using bulk_operation_resolves [OF that, of tv limits op] step by simp
  with Cons.prems(5) have res: "list_all (\<lambda>op. resolve_index db1 (op_index op) \<noteq> None) ops"
    by (auto simp: list_all_iff)
  show ?case
  proof (cases r)
    case (Inl e)
    have "db_ok db" using Cons.prems(3) by (simp add: store_inv_def)
    with Inl step Cons.prems(4,5) have "db1 = db" by (auto intro: bulk_operation_error)
    with Cons.IH [of db1 committed "results @ [Inl e]"] Cons.prems inv res step Inl show ?thesis by simp
  next
    case (Inr mo)
    obtain ms outcome where mo: "mo = (ms, outcome)" by (cases mo)
    with step Inr have "db1 = apply_all tv ms db" by (auto intro: bulk_operation_ok)
    with Cons.prems(2) have "db1 = apply_all tv (committed @ ms) before" by (simp add: apply_all_append)
    with Cons.IH [of db1 "committed @ ms" "results @ [Inr outcome]"] Cons.prems inv res step Inr mo
    show ?thesis by simp
  qed
qed

lemma bulk_loop_all_ok:
  assumes "bulk_loop tv limits ops db committed results = (db', committed', results')"
    and "db = apply_all tv committed before" and "list_all (\<lambda>r. \<not> isl r) results'"
  shows "db' = apply_all tv committed' before"
  using assms
proof (induction ops arbitrary: db committed results)
  case Nil
  then show ?case by auto
next
  case (Cons op ops)
  obtain db1 r where step: "bulk_operation tv limits op db = (db1, r)" by (cases "bulk_operation tv limits op db")
  have grows: "\<exists>more. results' = res @ more" if "bulk_loop tv limits ops d c res = (db', committed', results')" for d c res
    using that
    by (induction ops arbitrary: d c res) (auto split: prod.splits sum.splits, metis append_assoc, metis append_assoc)
  show ?case
  proof (cases r)
    case (Inl e)
    with Cons.prems(1) step have "bulk_loop tv limits ops db1 committed (results @ [Inl e]) = (db', committed', results')"
      by simp
    from grows [OF this] Cons.prems(3) show ?thesis by auto
  next
    case (Inr mo)
    obtain ms outcome where mo: "mo = (ms, outcome)" by (cases mo)
    with step Inr have "db1 = apply_all tv ms db" by (auto intro: bulk_operation_ok)
    with Cons.prems(2) have "db1 = apply_all tv (committed @ ms) before" by (simp add: apply_all_append)
    with Cons.IH [of db1 "committed @ ms" "results @ [Inr outcome]"] Cons.prems step Inr mo
    show ?thesis by simp
  qed
qed

lemma atomic_step_Inr:
  "atomic_step tv limits (db, committed, outs) op = Inr s \<longleftrightarrow>
    (\<exists>p c out. prepare_write_operation db op = Inr p \<and> fold_res (commit_step tv limits) db (pw_mutations p) = Inr c
      \<and> resolve_outcome (pw_outcome p) c = Inr out \<and> s = (c, committed @ pw_mutations p, outs @ [out]))"
  by (auto simp: atomic_step_def result_simps)

lemma atomic_fold_Cons:
  assumes "fold_res (atomic_step tv limits) (db, committed, outs) (op # ops) = Inr s"
  obtains p c out where "prepare_write_operation db op = Inr p"
    and "fold_res (commit_step tv limits) db (pw_mutations p) = Inr c"
    and "fold_res (atomic_step tv limits) (c, committed @ pw_mutations p, outs @ [out]) ops = Inr s"
proof -
  obtain s' where "atomic_step tv limits (db, committed, outs) op = Inr s'"
    and "fold_res (atomic_step tv limits) s' ops = Inr s"
    using assms by (auto simp: and_then_Inr_iff)
  then show thesis using that by (auto simp: atomic_step_Inr)
qed

lemma atomic_fold:
  assumes "fold_res (atomic_step tv limits) (db, committed, outs) ops = Inr (db', committed', outs')"
    and "db = apply_all tv committed before"
  shows "db' = apply_all tv committed' before \<and> length outs' = length outs + length ops"
  using assms
proof (induction ops arbitrary: db committed outs)
  case Nil
  then show ?case by auto
next
  case (Cons op ops)
  from Cons.prems(1) obtain p c out where "prepare_write_operation db op = Inr p" and p: "fold_res (commit_step tv limits) db (pw_mutations p) = Inr c"
    and rest: "fold_res (atomic_step tv limits) (c, committed @ pw_mutations p, outs @ [out]) ops = Inr (db', committed', outs')"
    by (rule atomic_fold_Cons)
  have "c = apply_all tv (pw_mutations p) db"
    using p by (intro commit_candidate_apply_all) (simp add: commit_candidate_def)
  with Cons.prems(2) have "c = apply_all tv (committed @ pw_mutations p) before" by (simp add: apply_all_append)
  from Cons.IH [OF rest this] show ?case by simp
qed

lemma atomic_fold_inv:
  assumes "fold_res (atomic_step tv limits) (db, committed, outs) ops = Inr (db', committed', outs')"
    and "store_inv tv limits (2 * length ops + n) db" and "list_all operation_ok ops"
  shows "store_inv tv limits n db'"
  using assms
proof (induction ops arbitrary: db committed outs)
  case Nil
  then show ?case by auto
next
  case (Cons op ops)
  from Cons.prems(1) obtain p c out where prep: "prepare_write_operation db op = Inr p"
    and run: "fold_res (commit_step tv limits) db (pw_mutations p) = Inr c"
    and rest: "fold_res (atomic_step tv limits) (c, committed @ pw_mutations p, outs @ [out]) ops = Inr (db', committed', outs')"
    by (rule atomic_fold_Cons)
  let ?m = "2 * length ops + n" and ?k = "length (pw_mutations p)"
  have "db_ok db" using Cons.prems(2) by (simp add: store_inv_def)
  from prepared_mutations [OF this _ prep] Cons.prems(3)
  have ms: "list_all client_mutation (pw_mutations p)" "?k \<le> 2" by auto
  have "store_inv tv limits (2 - ?k + (?k + ?m)) db" using ms(2) Cons.prems(2) by simp
  then have "store_inv tv limits (?k + ?m) db" by (rule committing.inv_mono)
  with run [unfolded commit_step_run1] have "store_inv tv limits ?m c"
    using ms(1) by (rule committing.run_all_inv)
  from Cons.IH [OF rest this] Cons.prems(3) show ?case by simp
qed

end
