(* ===== verification/StoreWrites.thy ===== *)
theory StoreWrites
  imports StoreCommit
begin

section \<open>Write operations as updates of a map\<close>

text \<open>
  The abstract specification of \<open>apply_write_operations\<close>, and the proof that an operation that
  succeeds implements it. What a write operation promises, without mutations: the database as a map from index and id to
  sources, the entry the operation is about, and the source it leaves there.
\<close>

definition sources :: "Database \<Rightarrow> string \<times> string \<Rightarrow> json option" where
  "sources db = (\<lambda>(index, did). map_option doc_source (stored_document db index did))"

definition op_target :: "Database \<Rightarrow> WriteOperation \<Rightarrow> string" where
  "op_target db op = (case resolve_index db (op_index op) of Some i \<Rightarrow> i | None \<Rightarrow> op_index op)"

fun op_result :: "json option \<Rightarrow> WriteOperation \<Rightarrow> json option" where
  "op_result old (OpIndex _ _ source) = Some source"
| "op_result old (OpCreate _ _ source) = Some source"
| "op_result old (OpUpdate _ _ doc _ upsert) =
     Some (case old of Some source \<Rightarrow> merge_object source doc
           | None \<Rightarrow> (case upsert of Some u \<Rightarrow> u | None \<Rightarrow> doc))"
| "op_result old (OpDelete _ _) = None"

fun outcome_matches :: "WriteOperation \<Rightarrow> StoredDocument option \<Rightarrow> StoredDocument option \<Rightarrow> WriteOutcome \<Rightarrow> bool" where
  "outcome_matches (OpDelete _ _) old new outcome = (outcome = OutDeleted (old \<noteq> None))"
| "outcome_matches _ old new outcome =
     (\<exists>d. new = Some d \<and> outcome = OutDocument d \<and> doc_version d = version_after old)"

definition writes :: "Database \<Rightarrow> Database \<Rightarrow> WriteOperation \<Rightarrow> WriteOutcome \<Rightarrow> bool" where
  "writes db db' op outcome \<longleftrightarrow>
     (let i = op_target db op; did = op_id op
      in sources db' = (sources db)((i, did) := op_result (sources db (i, did)) op)
         \<and> outcome_matches op (stored_document db i did) (stored_document db' i did) outcome)"

lemma resolve_or_create_target:
  assumes "resolve_or_create_index db index = (i, ms)"
  shows "i = (case resolve_index db index of Some j \<Rightarrow> j | None \<Rightarrow> index)"
    and "stored_document (apply_all tv ms db) = stored_document db"
proof -
  show "i = (case resolve_index db index of Some j \<Rightarrow> j | None \<Rightarrow> index)"
    using assms by (cases rule: resolve_or_create_cases [of db index]) auto
  show "stored_document (apply_all tv ms db) = stored_document db"
  proof (cases rule: resolve_or_create_cases [of db index])
    case (created s v)
    then have "\<not> bt_has (db_indexes db) index" by (auto simp: resolve_index_def split: if_splits)
    moreover have "ms = [CreateIndex index s v]" using assms created by auto
    ultimately show ?thesis
      using stored_after_create_index [of db index tv s v] by (intro ext) simp
  qed (use assms in auto)
qed

lemma sources_upd:
  assumes "\<And>j d. stored_document db' j d = (if j = i \<and> d = did then Some new else stored_document db j d)"
  shows "sources db' = (sources db)((i, did) := Some (doc_source new))"
  using assms by (auto simp: sources_def fun_eq_iff)

lemma sources_del:
  assumes "\<And>j d. stored_document db' j d = (if j = i \<and> d = did then None else stored_document db j d)"
  shows "sources db' = (sources db)((i, did) := None)"
  using assms by (auto simp: sources_def fun_eq_iff)

lemma new_document_simps [simp]:
  "doc_source (new_document db i did v) = v"
  "doc_version (new_document db i did v) = version_after (stored_document db i did)"
  by (simp_all add: new_document_def)

text \<open>A put after the mutations that may have created its index.\<close>

lemma put_writes:
  assumes "resolve_or_create_index db index = (i, ms)"
    and "bulking.run_until tv limits (ms @ [m]) db = (db', Inr u)"
    and "m = IndexDocument i did v \<or> m = CreateDocument i did v"
  shows "stored_document db' j d = (if j = i \<and> d = did
    then Some (new_document (apply_all tv ms db) i did v) else stored_document db j d)"
    and "version_after (stored_document (apply_all tv ms db) i did) = version_after (stored_document db i did)"
proof -
  note same = resolve_or_create_target(2) [OF assms(1), of tv]
  obtain db1 where db1: "db1 = apply_all tv ms db"
    and valid: "validate_mutation limits db1 m = Inr ()" and db': "db' = apply_to tv m db1"
    using assms(2) by (rule bulk_run_last)
  have has: "bt_has (db_indexes db1) i"
    using valid assms(3) by (auto dest: document_write_exists)
  show "version_after (stored_document (apply_all tv ms db) i did) = version_after (stored_document db i did)"
    by (simp add: same)
  show "stored_document db' j d = (if j = i \<and> d = did
    then Some (new_document (apply_all tv ms db) i did v) else stored_document db j d)"
    using assms(3)
  proof
    assume "m = IndexDocument i did v"
    with stored_after_index [OF has] db' db1 same show ?thesis by simp
  next
    assume m: "m = CreateDocument i did v"
    have "stored_document db1 i did = None"
      using valid unfolding m by (rule create_validated_absent)
    from stored_after_create [OF has this] m db' db1 same show ?thesis by simp
  qed
qed

lemma bulk_operation_ok_run:
  assumes "bulk_operation tv limits op db = (db', Inr (ms, outcome))"
  obtains p u where "prepare_write_operation db op = Inr p" and "ms = pw_mutations p"
    and "bulking.run_until tv limits ms db = (db', Inr u)" and "resolve_outcome (pw_outcome p) db' = Inr outcome"
  using assms by (auto simp: bulk_operation_def run_mutations_until result_simps split: sum.splits prod.splits)

lemma put_operation_writes:
  assumes "bulk_operation tv limits op db = (db', Inr (ms, outcome))"
    and "op = OpIndex index did v \<or> op = OpCreate index did v"
  shows "writes db db' op outcome"
proof -
  obtain p u where p: "prepare_write_operation db op = Inr p" "ms = pw_mutations p"
    and run: "bulking.run_until tv limits ms db = (db', Inr u)"
    and out: "resolve_outcome (pw_outcome p) db' = Inr outcome"
    using assms(1) by (rule bulk_operation_ok_run)
  obtain i pre where roc: "resolve_or_create_index db index = (i, pre)" by (cases "resolve_or_create_index db index")
  define m where "m = (case op of OpIndex _ _ _ \<Rightarrow> IndexDocument i did v | _ \<Rightarrow> CreateDocument i did v)"
  have m: "m = IndexDocument i did v \<or> m = CreateDocument i did v"
    by (simp add: m_def split: WriteOperation.splits)
  have ms: "ms = pre @ [m]" and outc: "pw_outcome p = PrepDocument i did"
    using assms(2) p roc by (auto simp: prepare_put_def m_def)
  have i: "op_target db op = i" "op_id op = did"
    using resolve_or_create_target(1) [OF roc] assms(2) by (auto simp: op_target_def split: option.splits)
  note put = put_writes [OF roc run [unfolded ms] m]
  let ?new = "new_document (apply_all tv pre db) i did v"
  have new: "stored_document db' i did = Some ?new" and outcome: "outcome = OutDocument ?new"
    using put(1) [of i did] out outc by auto
  have src: "sources db' = (sources db)((i, did) := Some v)"
    using sources_upd [OF put(1)] by simp
  have res: "op_result (sources db (i, did)) op = Some v" using assms(2) by auto
  have "outcome_matches op (stored_document db i did) (Some ?new) (OutDocument ?new)"
    using assms(2) put(2) by auto
  then show ?thesis
    unfolding writes_def Let_def i src new outcome res by blast
qed

lemma run_until_single:
  "bulking.run_until tv limits [m] db = (db', Inr u) \<Longrightarrow>
    validate_mutation limits db m = Inr () \<and> db' = apply_to tv m db"
  using bulk_guard_validate by (auto split: sum.splits)

lemma update_operation_writes:
  assumes "bulk_operation tv limits (OpUpdate index did doc b upsert) db = (db', Inr (ms, outcome))"
  shows "writes db db' (OpUpdate index did doc b upsert) outcome"
proof -
  let ?op = "OpUpdate index did doc b upsert"
  obtain p u where p: "prepare_update db index did doc b upsert = Inr p" "ms = pw_mutations p"
    and run: "bulking.run_until tv limits ms db = (db', Inr u)"
    and out: "resolve_outcome (pw_outcome p) db' = Inr outcome"
    using assms by (rule bulk_operation_ok_run) auto
  obtain i pre where roc: "resolve_or_create_index db index = (i, pre)" by (cases "resolve_or_create_index db index")
  note target = resolve_or_create_target(1) [OF roc]
  have i: "op_target db ?op = i"
    using target by (auto simp: op_target_def split: option.splits)
  show ?thesis
  proof (cases "stored_document db i did")
    case (Some old)
    then have "resolve_index db i = Some i"
      by (auto simp: resolve_index_def stored_document_def bt_has_def split: bind_splits)
    then have "resolve_index db index = Some i"
      using target roc Some by (cases rule: resolve_or_create_cases [of db index]) auto
    with p Some have shape: "ms = [UpdateDocument i did doc b]" "pw_outcome p = PrepDocument i did"
      by (auto simp: prepare_update_def Let_def)
    from run_until_single [OF run [unfolded shape(1)]]
    have st: "stored_document db' j d = (if j = i \<and> d = did
      then Some (new_document db i did (merge_object (doc_source old) doc)) else stored_document db j d)" for j d
      using stored_after_update [OF Some] by simp
    from sources_upd [OF st] st [of i did] out shape i Some show ?thesis
      by (auto simp: writes_def Let_def result_simps sources_def)
  next
    case None
    let ?v = "case upsert of Some u \<Rightarrow> u | None \<Rightarrow> doc"
    have shape: "ms = pre @ [CreateDocument i did ?v]" "pw_outcome p = PrepDocument i did"
      using p None roc
      by (auto simp: prepare_update_def Let_def result_simps resolve_or_create_index_def split: option.splits if_splits)
    note put = put_writes [OF roc run [unfolded shape(1)] disjI2 [OF refl]]
    from sources_upd [OF put(1)] put out shape i None show ?thesis
      by (auto simp: writes_def Let_def result_simps sources_def)
  qed
qed

lemma delete_operation_writes:
  assumes "bulk_operation tv limits (OpDelete index did) db = (db', Inr (ms, outcome))"
  shows "writes db db' (OpDelete index did) outcome"
proof -
  obtain p u where p: "prepare_delete db index did = Inr p" "ms = pw_mutations p"
    and run: "bulking.run_until tv limits ms db = (db', Inr u)"
    and out: "resolve_outcome (pw_outcome p) db' = Inr outcome"
    using assms by (rule bulk_operation_ok_run) auto
  obtain i where i: "resolve_index db index = Some i"
    using p(1) by (auto simp: prepare_delete_def result_simps)
  then have target: "op_target db (OpDelete index did) = i" by (simp add: op_target_def)
  show ?thesis
  proof (cases "stored_document db i did")
    case None
    with p i run out have "db' = db" "outcome = OutDeleted False" by (auto simp: prepare_delete_def Let_def)
    with None target show ?thesis by (auto simp: writes_def Let_def sources_def fun_eq_iff)
  next
    case (Some old)
    with p i have shape: "ms = [DeleteDocument i did]" "pw_outcome p = PrepDeleted True"
      by (auto simp: prepare_delete_def Let_def)
    from run_until_single [OF run [unfolded shape(1)]]
    have "bt_has (db_indexes db) i" "db' = apply_to tv (DeleteDocument i did) db"
      by (auto simp: validate_index_exists_def split: if_splits)
    then have st: "stored_document db' j d = (if j = i \<and> d = did then None else stored_document db j d)" for j d
      using stored_after_delete by simp
    from sources_del [OF st] out shape target Some show ?thesis
      by (auto simp: writes_def Let_def)
  qed
qed

lemma bulk_operation_writes:
  "bulk_operation tv limits op db = (db', Inr (ms, outcome)) \<Longrightarrow> writes db db' op outcome"
  by (cases op) (auto intro: put_operation_writes update_operation_writes delete_operation_writes)

end
