(* ===== verification/StoreProperties.thy ===== *)
theory StoreProperties
  imports StoreWrites
begin

section \<open>Properties of the store\<close>

text \<open>
  The claims about mutations, write operations and commits, each with a witness on the sample
  database below: an index with an alias and one document, in a store of small limits.
\<close>

definition sample_vec :: to_vec where
  "sample_vec v = Some ''{}''"

definition sample_limits :: StoreLimits where
  "sample_limits = \<lparr>max_indexes = 3, max_documents = 2, memory_limit_bytes = 1000\<rparr>"

definition sample_db :: Database where
  "sample_db = apply_all sample_vec
     [CreateIndex ''logs'' empty_object empty_object, PutAlias ''logs'' ''l'' empty_object,
      IndexDocument ''logs'' ''1'' (JObj [(''a'', JBool True)])] Database_default"

lemma sample_inv: "store_inv sample_vec sample_limits 10 sample_db"
  by code_simp

text \<open>C23. Validated mutations keep the invariant of the store: maps in order and filed under the
  names they carry, versions and sequence numbers in range and unique, documents disjoint from
  tombstones, aliases listed by the index they point at, exact byte counts, and the limits on
  indexes, documents and memory. The candidate they lead to is the mutations applied in order.\<close>

theorem commit_keeps_invariant:
  assumes "commit_candidate tv limits ms before = Inr candidate"
    and "store_inv tv limits (length ms + n) before" and "list_all client_mutation ms"
  shows "store_inv tv limits n candidate \<and> candidate = apply_all tv ms before"
  using assms committing.run_all_inv commit_candidate_apply_all
  unfolding commit_candidate_def commit_step_run1 by blast

definition sample_mutations :: "Mutation list" where
  "sample_mutations = [CreateIndex ''m'' empty_object empty_object, CreateDocument ''m'' ''2'' JNull,
     DeleteDocument ''logs'' ''1'', PutMapping ''m'' empty_object]"

lemma sample_commit: "\<not> isl (commit_candidate sample_vec sample_limits sample_mutations sample_db)
    \<and> list_all client_mutation sample_mutations \<and> length sample_mutations = 4"
  by code_simp

theorem commit_keeps_invariant_witness:
  "\<exists>c. commit_candidate sample_vec sample_limits sample_mutations sample_db = Inr c
    \<and> store_inv sample_vec sample_limits 6 c"
proof -
  obtain c where c: "commit_candidate sample_vec sample_limits sample_mutations sample_db = Inr c"
    using sample_commit by (cases "commit_candidate sample_vec sample_limits sample_mutations sample_db") auto
  have "store_inv sample_vec sample_limits (length sample_mutations + 6) sample_db"
    using sample_inv sample_commit by simp
  from commit_keeps_invariant [OF c this] sample_commit c show ?thesis by blast
qed

text \<open>C25. A bulk request keeps the invariant of the store whatever its operations are and whichever
  of them fail, although its guard prices a mutation instead of measuring its result.\<close>

theorem bulk_keeps_invariant:
  assumes "bulk_candidate tv limits ops before = (candidate, committed, results)"
    and "store_inv tv limits (2 * length ops + n) before" and "list_all operation_ok ops"
  shows "store_inv tv limits n candidate"
  using bulk_loop_inv [OF assms(2,3), of "[]" "[]"] assms(1) by (simp add: bulk_candidate_def)

definition sample_ops :: "WriteOperation list" where
  "sample_ops = [OpIndex ''logs'' ''1'' JNull, OpUpdate ''l'' ''1'' (JObj [(''b'', JNull)]) False None,
     OpDelete ''logs'' ''9'', OpCreate ''logs'' ''1'' JNull, OpUpdate ''l'' ''2'' JNull True None]"

lemma sample_ops_ok: "list_all operation_ok sample_ops \<and> length sample_ops = 5
    \<and> list_all (\<lambda>op. resolve_index sample_db (op_index op) \<noteq> None) sample_ops"
  by code_simp

theorem bulk_keeps_invariant_witness:
  "store_inv sample_vec sample_limits 0 (fst (bulk_candidate sample_vec sample_limits sample_ops sample_db))"
proof -
  obtain c m r where b: "bulk_candidate sample_vec sample_limits sample_ops sample_db = (c, m, r)"
    by (cases "bulk_candidate sample_vec sample_limits sample_ops sample_db") auto
  have "store_inv sample_vec sample_limits (2 * length sample_ops + 0) sample_db"
    using sample_inv sample_ops_ok by simp
  from bulk_keeps_invariant [OF b this] sample_ops_ok b show ?thesis by simp
qed

text \<open>The operations that succeed, as the results tell.\<close>

definition succeeded :: "WriteOperation list \<Rightarrow> WriteOutcome store_result list \<Rightarrow> WriteOperation list" where
  "succeeded ops results = map fst (filter (\<lambda>(_, r). \<not> isl r) (zip ops results))"

lemma bulk_loop_without_failures:
  assumes "bulk_loop tv limits ops db committed results = (db', committed', results')"
    and "store_inv tv limits (2 * length ops) db" and "list_all operation_ok ops"
    and "list_all (\<lambda>op. resolve_index db (op_index op) \<noteq> None) ops"
  shows "\<exists>more. results' = results @ more \<and> length more = length ops
    \<and> (\<forall>before. bulk_loop tv limits (succeeded ops more) db committed before
         = (db', committed', before @ filter (\<lambda>r. \<not> isl r) more))"
  using assms
proof (induction ops arbitrary: db committed results)
  case Nil
  then show ?case by (simp add: succeeded_def)
next
  case (Cons op ops)
  obtain db1 r where step: "bulk_operation tv limits op db = (db1, r)" by (cases "bulk_operation tv limits op db")
  have inv: "store_inv tv limits (2 * length ops) db1"
    using bulk_operation_inv [of tv limits "2 * length ops" db op] Cons.prems(2,3) step by simp
  have "resolve_index db1 x \<noteq> None" if "resolve_index db x \<noteq> None" for x
    using bulk_operation_resolves [OF that, of tv limits op] step by simp
  with Cons.prems(4) have res: "list_all (\<lambda>op. resolve_index db1 (op_index op) \<noteq> None) ops"
    by (auto simp: list_all_iff)
  show ?case
  proof (cases r)
    case (Inl e)
    have "db_ok db" using Cons.prems(2) by (simp add: store_inv_def)
    with Inl step Cons.prems(3,4) have same: "db1 = db" by (auto intro: bulk_operation_error)
    from Cons.prems(1) step Inl
    have "bulk_loop tv limits ops db1 committed (results @ [Inl e]) = (db', committed', results')" by simp
    from Cons.IH [OF this inv _ res] Cons.prems(3) obtain more where
      "results' = (results @ [Inl e]) @ more" "length more = length ops"
      "\<forall>before. bulk_loop tv limits (succeeded ops more) db committed before
         = (db', committed', before @ filter (\<lambda>r. \<not> isl r) more)" using same by auto
    then show ?thesis by (intro exI [of _ "Inl e # more"]) (simp add: succeeded_def)
  next
    case (Inr mo)
    obtain ms outcome where mo: "mo = (ms, outcome)" by (cases mo)
    from Cons.prems(1) step Inr mo
    have "bulk_loop tv limits ops db1 (committed @ ms) (results @ [Inr outcome]) = (db', committed', results')" by simp
    from Cons.IH [OF this inv _ res] Cons.prems(3) obtain more where
      "results' = (results @ [Inr outcome]) @ more" "length more = length ops"
      "\<forall>before. bulk_loop tv limits (succeeded ops more) db1 (committed @ ms) before
         = (db', committed', before @ filter (\<lambda>r. \<not> isl r) more)" by auto
    then show ?thesis using step Inr mo by (intro exI [of _ "Inr outcome # more"]) (simp add: succeeded_def)
  qed
qed

text \<open>C14. When every operation of a bulk request names an index or alias that exists, the database
  left in memory is what replaying the logged mutations gives, the results are one per operation,
  and an operation that failed had no effect: the request without the failed operations leads to the same database,
  logs the same mutations and gives the same results to the others.\<close>

theorem bulk_is_replay:
  assumes "bulk_candidate tv limits ops before = (candidate, committed, results)"
    and "store_inv tv limits (2 * length ops) before" and "list_all operation_ok ops"
    and "list_all (\<lambda>op. resolve_index before (op_index op) \<noteq> None) ops"
  shows "candidate = apply_all tv committed before \<and> length results = length ops
    \<and> bulk_candidate tv limits (succeeded ops results) before = (candidate, committed, filter (\<lambda>r. \<not> isl r) results)"
proof -
  note loop = assms(1) [unfolded bulk_candidate_def]
  from bulk_loop_without_failures [OF loop assms(2-4)]
  have "bulk_candidate tv limits (succeeded ops results) before = (candidate, committed, filter (\<lambda>r. \<not> isl r) results)"
    by (metis append_Nil bulk_candidate_def)
  moreover from bulk_loop_replay [OF loop apply_all_simps(1) [symmetric] assms(2-4)]
  have "candidate = apply_all tv committed before \<and> length results = length ops" by simp
  ultimately show ?thesis by blast
qed

theorem bulk_is_replay_witness:
  "\<exists>c m r. bulk_candidate sample_vec sample_limits sample_ops sample_db = (c, m, r)
    \<and> c = apply_all sample_vec m sample_db \<and> length r = 5
    \<and> bulk_candidate sample_vec sample_limits (succeeded sample_ops r) sample_db = (c, m, filter (\<lambda>r. \<not> isl r) r)"
proof -
  obtain c m r where b: "bulk_candidate sample_vec sample_limits sample_ops sample_db = (c, m, r)"
    by (cases "bulk_candidate sample_vec sample_limits sample_ops sample_db") auto
  have "store_inv sample_vec sample_limits (2 * length sample_ops) sample_db"
    using sample_inv sample_ops_ok by simp
  from bulk_is_replay [OF b this] sample_ops_ok b show ?thesis by simp
qed

text \<open>The same holds of any bulk request all of whose operations succeed, also when they
  create the indexes they write to.\<close>

lemma bulk_all_ok_is_replay:
  assumes "bulk_candidate tv limits ops before = (candidate, committed, results)"
    and "list_all (\<lambda>r. \<not> isl r) results"
  shows "candidate = apply_all tv committed before"
  using bulk_loop_all_ok [of tv limits ops before "[]" "[]" candidate committed results before] assms
  by (simp add: bulk_candidate_def)






text \<open>C24. An atomic dynamic write either fails, or every operation it was built from succeeds: the
  database it commits is the replay of exactly the mutations it logs, with one outcome per
  operation, and keeps the invariant of the store.\<close>

theorem atomic_all_or_nothing:
  assumes "atomic_candidate tv limits build before = Inr (candidate, committed, outcomes, metadata)"
  shows "\<exists>ops. build before = Inr (ops, metadata) \<and> length outcomes = length ops
    \<and> candidate = apply_all tv committed before
    \<and> (store_inv tv limits (2 * length ops + n) before \<longrightarrow> list_all operation_ok ops
        \<longrightarrow> store_inv tv limits n candidate)"
proof -
  obtain ops where ops: "build before = Inr (ops, metadata)"
    and run: "fold_res (atomic_step tv limits) (before, [], []) ops = Inr (candidate, committed, outcomes)"
    using assms by (auto simp: atomic_candidate_def result_simps split: prod.splits)
  from atomic_fold [OF run, of before] atomic_fold_inv [OF run, of n] ops show ?thesis by auto
qed

theorem atomic_all_or_nothing_witness:
  "\<exists>c m outs u. atomic_candidate sample_vec sample_limits (\<lambda>_. Inr (take 3 sample_ops, ())) sample_db = Inr (c, m, outs, u)
    \<and> store_inv sample_vec sample_limits 0 c \<and> c = apply_all sample_vec m sample_db"
proof -
  let ?r = "atomic_candidate sample_vec sample_limits (\<lambda>_. Inr (take 3 sample_ops, ())) sample_db"
  have "\<not> isl ?r" by code_simp
  then obtain c m outs u where r: "?r = Inr (c, m, outs, u)" by (cases ?r) auto
  have "length (take 3 sample_ops) = 3" "list_all operation_ok (take 3 sample_ops)"
    using sample_ops_ok by (auto simp: list_all_iff dest: in_set_takeD)
  moreover have "store_inv sample_vec sample_limits (2 * 3 + 0) sample_db"
    using bulking.inv_mono [of sample_vec sample_limits 4 6 sample_db] sample_inv by simp
  ultimately show ?thesis
    using atomic_all_or_nothing [OF r, of 0] r by auto
qed

text \<open>C16. A write operation that succeeds changes the map from index and id to sources at exactly one
  entry, that of its resolved index and its id: an index or create puts the given source, an update
  the stored source with the top-level fields of the partial document replaced, or the upsert (else
  the partial document) when there is none, and a delete nothing; the outcome is the stored document,
  with its version one above the old one, or whether a document was there.\<close>

theorem write_operation_refines_map:
  assumes "bulk_operation tv limits op db = (db', Inr (ms, outcome))"
  shows "sources db' = (sources db)((op_target db op, op_id op)
      := op_result (sources db (op_target db op, op_id op)) op)
    \<and> outcome_matches op (stored_document db (op_target db op) (op_id op))
        (stored_document db' (op_target db op) (op_id op)) outcome"
  using bulk_operation_writes [OF assms] by (simp add: writes_def Let_def)

definition sample_update :: WriteOperation where
  "sample_update = OpUpdate ''l'' ''1'' (JObj [(''b'', JNull)]) False None"

theorem write_operation_refines_map_witness:
  "\<exists>db' ms out. bulk_operation sample_vec sample_limits sample_update sample_db = (db', Inr (ms, out))
    \<and> sources db' (''logs'', ''1'') = Some (JObj [(''a'', JBool True), (''b'', JNull)])"
proof -
  have "\<not> isl (snd (bulk_operation sample_vec sample_limits sample_update sample_db))" by code_simp
  then obtain db' ms out where run: "bulk_operation sample_vec sample_limits sample_update sample_db = (db', Inr (ms, out))"
    by (metis old.prod.exhaust snd_conv sum.collapse(2))
  have "op_target sample_db sample_update = ''logs'' \<and> op_id sample_update = ''1''
    \<and> op_result (sources sample_db (''logs'', ''1'')) sample_update
      = Some (JObj [(''a'', JBool True), (''b'', JNull)])" by code_simp
  with write_operation_refines_map [OF run] run show ?thesis by auto
qed

text \<open>C28. The price \<open>estimate_database_bytes_after_mutation\<close> puts on a mutation, from a size delta
  and without applying it, is the estimate of the database after it, as long as the price is below
  \<open>usize::MAX\<close> and, for the creation of an index, the index does not exist.\<close>

theorem price_is_size_after:
  assumes "db_ok db" and "tombstones_ok db" and "sizes_exact tv db"
    and "estimate_database_bytes tv db < usize_max"
    and "\<And>name s v. m = CreateIndex name s v \<Longrightarrow> \<not> bt_has (db_indexes db) name"
    and "estimate_database_bytes_after_mutation tv db m = Some n" and "n < usize_max"
  shows "n = estimate_database_bytes tv (apply_to tv m db)"
proof (rule estimate_after_mutation [OF _ assms(6,7)])
  show "price_assumptions tv db m"
    using assms(1-5) by (simp add: price_assumptions_def split: Mutation.splits)
qed

theorem price_is_size_after_witness:
  "estimate_database_bytes_after_mutation sample_vec sample_db (DeleteDocument ''logs'' ''1'')
    = Some (estimate_database_bytes sample_vec (apply_to sample_vec (DeleteDocument ''logs'' ''1'') sample_db))"
proof -
  have ok: "db_ok sample_db" "tombstones_ok sample_db" "sizes_exact sample_vec sample_db"
    "estimate_database_bytes sample_vec sample_db < usize_max"
    using sample_inv by (auto simp: store_inv_def)
  have price: "case estimate_database_bytes_after_mutation sample_vec sample_db (DeleteDocument ''logs'' ''1'') of
      Some n \<Rightarrow> n < usize_max | None \<Rightarrow> False" by code_simp
  then obtain n where n: "estimate_database_bytes_after_mutation sample_vec sample_db (DeleteDocument ''logs'' ''1'') = Some n"
    "n < usize_max" by (auto split: option.splits)
  from price_is_size_after [OF ok _ n] n show ?thesis by simp
qed

text \<open>C29. For every mutation but the renaming of a document onto an id that has a tombstone, the count each index keeps
  incrementally stays the sum over its settings, mappings, aliases, documents and tombstones, as long as the estimate of
  the database is below \<open>usize::MAX\<close>, the sequence number has room, and no id has both a document and a tombstone;
  the last of these is kept as well.\<close>

theorem store_sizes_stay_exact:
  assumes "db_ok db" and "tombstones_ok db" and "sizes_exact tv db" and "mutation_ok m"
    and "\<not> renames_onto_tombstone db m" and "db_seq_no db < 2 ^ 64 - 1"
    and "estimate_database_bytes tv (apply_to tv m db) < usize_max"
  shows "sizes_exact tv (apply_to tv m db) \<and> tombstones_ok (apply_to tv m db) \<and> db_ok (apply_to tv m db)"
  using assms by (simp add: sizes_exact_apply_to tombstones_ok_apply_to db_ok_apply_to)

theorem store_sizes_stay_exact_witness:
  "sizes_exact sample_vec (apply_to sample_vec (RenameDocument ''logs'' ''1'' ''2'') sample_db)"
proof -
  have ok: "db_ok sample_db" "tombstones_ok sample_db" "sizes_exact sample_vec sample_db"
    using sample_inv by (auto simp: store_inv_def)
  have "mutation_ok (RenameDocument ''logs'' ''1'' ''2'')" by simp
  moreover have "\<not> renames_onto_tombstone sample_db (RenameDocument ''logs'' ''1'' ''2'')" by code_simp
  moreover have "db_seq_no sample_db < 2 ^ 64 - 1" by code_simp
  moreover have "estimate_database_bytes sample_vec
      (apply_to sample_vec (RenameDocument ''logs'' ''1'' ''2'') sample_db) < usize_max" by code_simp
  ultimately show ?thesis using store_sizes_stay_exact [OF ok] by blast
qed

text \<open>Renaming a document onto an id with a tombstone leaves both, and deleting that document
  later makes the running count of the index differ from the sum over its contents.\<close>

lemma rename_onto_tombstone_miscounts:
  "let db = apply_all sample_vec [IndexDocument ''logs'' ''2'' JNull, DeleteDocument ''logs'' ''2'',
        RenameDocument ''logs'' ''1'' ''2''] sample_db
   in sizes_exact sample_vec db \<and> \<not> tombstones_ok db
      \<and> \<not> sizes_exact sample_vec (apply_to sample_vec (DeleteDocument ''logs'' ''2'') db)"
  by code_simp

text \<open>Pointing an alias at another index does not take it out of the alias set of the index it
  pointed at, and it cannot be deleted from there any more: the deletion is refused as missing.\<close>

lemma alias_repointing_leaves_stale_entry:
  "let db = apply_all sample_vec [CreateIndex ''m'' empty_object empty_object, PutAlias ''m'' ''l'' empty_object] sample_db
   in resolve_index db ''l'' = Some ''m''
      \<and> resolve_indices db ''l'' = [''logs'', ''m'']
      \<and> isl (validate_mutation sample_limits db (DeleteAlias ''logs'' ''l''))
      \<and> resolve_indices (apply_to sample_vec (DeleteAlias ''m'' ''l'') db) ''l'' = [''logs'']
      \<and> resolve_index (apply_to sample_vec (DeleteAlias ''m'' ''l'') db) ''l'' = None"
  by code_simp

end
