(* ===== verification/Utf8.thy ===== *)
theory Utf8
  imports Prelude
begin

section \<open>UTF-8\<close>

text \<open>
  The parts of the Rust standard library that look into the bytes of a string: the validity check of
  \<open>String::from_utf8\<close> and \<open>read_line\<close>, and \<open>String::from_utf8_lossy\<close>.
\<close>

definition byte_in :: "char \<Rightarrow> nat \<Rightarrow> nat \<Rightarrow> bool" where
  "byte_in c lo hi \<longleftrightarrow> lo \<le> of_char c \<and> of_char c \<le> hi"

text \<open>The bytes that may follow the first byte of a three-byte and of a four-byte sequence.\<close>

definition second_of_three :: "char \<Rightarrow> char \<Rightarrow> bool" where
  "second_of_three a b \<longleftrightarrow> byte_in a 224 224 \<and> byte_in b 160 191
     \<or> (byte_in a 225 236 \<or> byte_in a 238 239) \<and> byte_in b 128 191
     \<or> byte_in a 237 237 \<and> byte_in b 128 159"

definition second_of_four :: "char \<Rightarrow> char \<Rightarrow> bool" where
  "second_of_four a b \<longleftrightarrow> byte_in a 240 240 \<and> byte_in b 144 191 \<or> byte_in a 241 243 \<and> byte_in b 128 191
     \<or> byte_in a 244 244 \<and> byte_in b 128 143"

text \<open>Well-formed UTF-8 (Unicode Standard, table 3-7), which \<open>read_line\<close> insists on: the state is
  what the sequence begun still needs.\<close>

datatype utf8_state = U0 | U1 | U2 | Second3 char | Second4 char

fun utf8_step :: "utf8_state \<Rightarrow> char \<Rightarrow> utf8_state option" where
  "utf8_step U0 a =
     (if byte_in a 0 127 then Some U0
      else if byte_in a 194 223 then Some U1
      else if byte_in a 224 239 then Some (Second3 a)
      else if byte_in a 240 244 then Some (Second4 a)
      else None)"
| "utf8_step U1 b = (if byte_in b 128 191 then Some U0 else None)"
| "utf8_step U2 b = (if byte_in b 128 191 then Some U1 else None)"
| "utf8_step (Second3 a) b = (if second_of_three a b then Some U1 else None)"
| "utf8_step (Second4 a) b = (if second_of_four a b then Some U2 else None)"

fun utf8_run :: "utf8_state \<Rightarrow> string \<Rightarrow> utf8_state option" where
  "utf8_run st [] = Some st"
| "utf8_run st (c # cs) = Option.bind (utf8_step st c) (\<lambda>st. utf8_run st cs)"

definition utf8_valid :: "string \<Rightarrow> bool" where
  "utf8_valid s \<longleftrightarrow> utf8_run U0 s = Some U0"

text \<open>\<open>String::from_utf8_lossy\<close>: every maximal ill-formed part becomes U+FFFD.\<close>

definition replacement :: string where
  "replacement = [CHR 0xEF, CHR 0xBF, CHR 0xBD]"

function lossy :: "utf8_state \<Rightarrow> string \<Rightarrow> string \<Rightarrow> string" where
  "lossy st buf [] = (if st = U0 then [] else replacement)"
| "lossy st buf (c # cs) =
     (case utf8_step st c of
        Some st' \<Rightarrow> if st' = U0 then buf @ c # lossy U0 [] cs else lossy st' (buf @ [c]) cs
      | None \<Rightarrow> if st = U0 then replacement @ lossy U0 [] cs else replacement @ lossy U0 [] (c # cs))"
  by pat_completeness auto
termination
  by (relation "measure (\<lambda>(st, _, cs). 2 * length cs + (if st = U0 then 0 else 1))") auto

definition from_utf8_lossy :: "string \<Rightarrow> string" where
  "from_utf8_lossy s = lossy U0 [] s"

lemma utf8_run_append: "utf8_run st (a @ b) = Option.bind (utf8_run st a) (\<lambda>st. utf8_run st b)"
  by (induction a arbitrary: st) (auto split: bind_splits)

lemma lossy_valid: "utf8_run st cs = Some U0 \<Longrightarrow> lossy st buf cs = buf @ cs \<or> (cs = [] \<and> st = U0)"
proof (induction st buf cs rule: lossy.induct)
  case (1 st buf)
  then show ?case by simp
next
  case (2 st buf c cs)
  then obtain st' where st': "utf8_step st c = Some st'" "utf8_run st' cs = Some U0"
    by (auto split: bind_splits)
  show ?case
  proof (cases "st' = U0")
    case True
    with 2(3) [OF st'(1) True] st' show ?thesis by auto
  next
    case False
    with 2(4) [OF st'(1) False] st' show ?thesis by auto
  qed
qed

lemma from_utf8_lossy_valid [simp]: "utf8_valid s \<Longrightarrow> from_utf8_lossy s = s"
  using lossy_valid [of U0 s "[]"] by (auto simp: from_utf8_lossy_def utf8_valid_def)

lemma utf8_valid_append: "utf8_valid a \<Longrightarrow> utf8_valid (a @ b) = utf8_valid b"
  by (simp add: utf8_valid_def utf8_run_append)

end
