(* ===== verification/MutationLog.thy ===== *)
theory MutationLog
  imports StoreCommit Utf8
begin

section \<open>The mutation log\<close>

text \<open>
  \<open>src/storage/mutation_log.rs\<close>: the JSON form of a mutation (the serde attributes of the enum),
  the records appended to the log, replay from the beginning or after a high-water transaction, and
  compaction. The log is its bytes. The JSON text codec is third-party code: the parameters
  \<open>to_vec\<close> (\<open>serde_json::to_vec\<close>, which \<open>to_writer\<close> writes) and \<open>parse\<close> (\<open>serde_json::from_str\<close>).
\<close>

type_synonym parse = "string \<Rightarrow> json option"

subsection \<open>Errors\<close>

datatype io_error =
    IoFailure
  | NotUtf8
  | InvalidJson
  | HighWaterMissing string
  | SnapshotMissing string
  | LoadedTooLarge nat nat

type_synonym 'a io_result = "(io_error, 'a) result"

subsection \<open>Mutations as JSON\<close>

text \<open>\<open>#[serde(tag = "kind", rename_all = "snake_case")]\<close>.\<close>

definition jobj :: "(string \<times> json) list \<Rightarrow> json" where
  "jobj kvs = JObj (bt_of_list kvs)"

fun mutation_to_json :: "Mutation \<Rightarrow> json" where
  "mutation_to_json (CreateIndex name settings mappings) =
     jobj [(''kind'', JStr ''create_index''), (''name'', JStr name), (''settings'', settings), (''mappings'', mappings)]"
| "mutation_to_json (DeleteIndex name) = jobj [(''kind'', JStr ''delete_index''), (''name'', JStr name)]"
| "mutation_to_json (PutTemplate name patterns template raw) =
     jobj [(''kind'', JStr ''put_template''), (''name'', JStr name), (''index_patterns'', JArr (map JStr patterns)),
           (''template'', template), (''raw'', raw)]"
| "mutation_to_json (DeleteTemplate name) = jobj [(''kind'', JStr ''delete_template''), (''name'', JStr name)]"
| "mutation_to_json (PutRegistryObject namespace name raw) =
     jobj [(''kind'', JStr ''put_registry_object''), (''namespace'', JStr namespace), (''name'', JStr name), (''raw'', raw)]"
| "mutation_to_json (DeleteRegistryObject namespace name) =
     jobj [(''kind'', JStr ''delete_registry_object''), (''namespace'', JStr namespace), (''name'', JStr name)]"
| "mutation_to_json (PutMapping index mappings) =
     jobj [(''kind'', JStr ''put_mapping''), (''index'', JStr index), (''mappings'', mappings)]"
| "mutation_to_json (PutSettings index settings) =
     jobj [(''kind'', JStr ''put_settings''), (''index'', JStr index), (''settings'', settings)]"
| "mutation_to_json (PutAlias index al raw) =
     jobj [(''kind'', JStr ''put_alias''), (''index'', JStr index), (''alias'', JStr al), (''raw'', raw)]"
| "mutation_to_json (DeleteAlias index al) =
     jobj [(''kind'', JStr ''delete_alias''), (''index'', JStr index), (''alias'', JStr al)]"
| "mutation_to_json (IndexDocument index did source) =
     jobj [(''kind'', JStr ''index_document''), (''index'', JStr index), (''id'', JStr did), (''source'', source)]"
| "mutation_to_json (CreateDocument index did source) =
     jobj [(''kind'', JStr ''create_document''), (''index'', JStr index), (''id'', JStr did), (''source'', source)]"
| "mutation_to_json (UpdateDocument index did doc upsert) =
     jobj [(''kind'', JStr ''update_document''), (''index'', JStr index), (''id'', JStr did), (''doc'', doc),
           (''doc_as_upsert'', JBool upsert)]"
| "mutation_to_json (DeleteDocument index did) =
     jobj [(''kind'', JStr ''delete_document''), (''index'', JStr index), (''id'', JStr did)]"
| "mutation_to_json (RenameDocument index old_id new_id) =
     jobj [(''kind'', JStr ''rename_document''), (''index'', JStr index), (''old_id'', JStr old_id), (''new_id'', JStr new_id)]"

definition str_list :: "json \<Rightarrow> string list option" where
  "str_list v = Option.bind (as_array v) (\<lambda>xs.
     if list_all (\<lambda>x. as_str x \<noteq> None) xs then Some (List.map_filter as_str xs) else None)"

definition bool_at :: "json \<Rightarrow> string \<Rightarrow> bool option" where
  "bool_at v k = Option.bind (jget v k) as_bool"

definition jopt1 :: "'a option \<Rightarrow> ('a \<Rightarrow> 'm) \<Rightarrow> 'm option" where
  "jopt1 a f = map_option f a"

definition jopt2 :: "'a option \<Rightarrow> 'b option \<Rightarrow> ('a \<Rightarrow> 'b \<Rightarrow> 'm) \<Rightarrow> 'm option" where
  "jopt2 a b f = Option.bind a (\<lambda>x. map_option (f x) b)"

definition jopt3 :: "'a option \<Rightarrow> 'b option \<Rightarrow> 'c option \<Rightarrow> ('a \<Rightarrow> 'b \<Rightarrow> 'c \<Rightarrow> 'm) \<Rightarrow> 'm option" where
  "jopt3 a b c f = Option.bind a (\<lambda>x. jopt2 b c (f x))"

definition jopt4 :: "'a option \<Rightarrow> 'b option \<Rightarrow> 'c option \<Rightarrow> 'd option \<Rightarrow> ('a \<Rightarrow> 'b \<Rightarrow> 'c \<Rightarrow> 'd \<Rightarrow> 'm) \<Rightarrow> 'm option" where
  "jopt4 a b c d f = Option.bind a (\<lambda>x. jopt3 b c d (f x))"

lemmas jopt_defs = jopt1_def jopt2_def jopt3_def jopt4_def

text \<open>Deserializing: the tag selects the variant, every field is required, others are ignored.\<close>

definition mutation_of_kind :: "string \<Rightarrow> json \<Rightarrow> Mutation option" where
  "mutation_of_kind kind v =
     (let s = jstr_at v; g = jget v in
      if kind = ''create_index'' then jopt3 (s ''name'') (g ''settings'') (g ''mappings'') CreateIndex
      else if kind = ''delete_index'' then jopt1 (s ''name'') DeleteIndex
      else if kind = ''put_template'' then
        jopt4 (s ''name'') (Option.bind (g ''index_patterns'') str_list) (g ''template'') (g ''raw'') PutTemplate
      else if kind = ''delete_template'' then jopt1 (s ''name'') DeleteTemplate
      else if kind = ''put_registry_object'' then jopt3 (s ''namespace'') (s ''name'') (g ''raw'') PutRegistryObject
      else if kind = ''delete_registry_object'' then jopt2 (s ''namespace'') (s ''name'') DeleteRegistryObject
      else if kind = ''put_mapping'' then jopt2 (s ''index'') (g ''mappings'') PutMapping
      else if kind = ''put_settings'' then jopt2 (s ''index'') (g ''settings'') PutSettings
      else if kind = ''put_alias'' then jopt3 (s ''index'') (s ''alias'') (g ''raw'') PutAlias
      else if kind = ''delete_alias'' then jopt2 (s ''index'') (s ''alias'') DeleteAlias
      else if kind = ''index_document'' then jopt3 (s ''index'') (s ''id'') (g ''source'') IndexDocument
      else if kind = ''create_document'' then jopt3 (s ''index'') (s ''id'') (g ''source'') CreateDocument
      else if kind = ''update_document'' then
        jopt4 (s ''index'') (s ''id'') (g ''doc'') (bool_at v ''doc_as_upsert'') UpdateDocument
      else if kind = ''delete_document'' then jopt2 (s ''index'') (s ''id'') DeleteDocument
      else if kind = ''rename_document'' then jopt3 (s ''index'') (s ''old_id'') (s ''new_id'') RenameDocument
      else None)"

definition mutation_of_json :: "json \<Rightarrow> Mutation option" where
  "mutation_of_json v = Option.bind (jstr_at v ''kind'') (\<lambda>kind. mutation_of_kind kind v)"

fun mutations_of_list :: "json list \<Rightarrow> Mutation list option" where
  "mutations_of_list [] = Some []"
| "mutations_of_list (v # vs) = jopt2 (mutation_of_json v) (mutations_of_list vs) (#)"

definition mutations_of_json :: "json \<Rightarrow> Mutation list option" where
  "mutations_of_json v = Option.bind (as_array v) mutations_of_list"

lemma jget_jobj: "jget (jobj kvs) k = map_of (rev kvs) k"
  by (simp add: jobj_def bt_of_list_def bt_get_extend split: option.splits)

lemma str_list_map [simp]: "str_list (JArr (map JStr xs)) = Some xs"
  by (simp add: str_list_def list_all_iff) (induction xs; simp add: map_filter_simps)

lemma mutation_roundtrip: "mutation_of_json (mutation_to_json m) = Some m"
  by (cases m) (simp_all add: mutation_of_json_def mutation_of_kind_def jstr_at_def bool_at_def
      jget_jobj jopt_defs Let_def)

lemma mutations_roundtrip: "mutations_of_json (JArr (map mutation_to_json ms)) = Some ms"
  by (induction ms) (simp_all add: mutations_of_json_def mutation_roundtrip jopt2_def)

subsection \<open>Records\<close>

definition begin_record :: "string \<Rightarrow> Mutation list \<Rightarrow> json" where
  "begin_record tx ms = jobj [(''version'', JNum (PosInt 1)), (''transaction'', JStr ''begin''), (''id'', JStr tx),
     (''mutations'', JArr (map mutation_to_json ms))]"

definition commit_record :: "string \<Rightarrow> json" where
  "commit_record tx = jobj [(''version'', JNum (PosInt 1)), (''transaction'', JStr ''commit''), (''id'', JStr tx)]"

definition marker_record :: "string \<Rightarrow> json" where
  "marker_record tx = jobj [(''version'', JNum (PosInt 1)), (''transaction'', JStr ''compacted_after''), (''id'', JStr tx)]"

text \<open>A record without a transaction, \<open>MutationRecord\<close>: the mutation flattened into the object.\<close>

fun mutation_record :: "Mutation \<Rightarrow> json" where
  "mutation_record m =
     (case mutation_to_json m of JObj kvs \<Rightarrow> JObj (bt_insert ''version'' (JNum (PosInt 1)) kvs) | v \<Rightarrow> v)"

definition record_of_json :: "json \<Rightarrow> Mutation option" where
  "record_of_json v =
     (case Option.bind (jget v ''version'') as_u64 of
        Some n \<Rightarrow> if n < 2 ^ 32 then mutation_of_json v else None
      | None \<Rightarrow> None)"

text \<open>
  \<open>append_json_record\<close> writes the text of the record and then a newline. A write may fail after any
  number of bytes: \<open>io\<close> is the number of bytes that reach the file, or None when all do.
\<close>

definition append_json_record :: "to_vec \<Rightarrow> nat option \<Rightarrow> json \<Rightarrow> string \<Rightarrow> string \<times> unit io_result" where
  "append_json_record tv io record wal =
     (case tv record of
        None \<Rightarrow> (wal, Inl IoFailure)
      | Some text \<Rightarrow>
          (case io of
             None \<Rightarrow> (wal @ text @ [CHR 0x0A], Inr ())
           | Some k \<Rightarrow> (wal @ take k (text @ [CHR 0x0A]), Inl IoFailure)))"

definition append_mutation :: "to_vec \<Rightarrow> nat option \<Rightarrow> Mutation \<Rightarrow> string \<Rightarrow> string \<times> unit io_result" where
  "append_mutation tv io m wal = append_json_record tv io (mutation_record m) wal"

definition append_transaction_begin ::
    "to_vec \<Rightarrow> nat option \<Rightarrow> string \<Rightarrow> Mutation list \<Rightarrow> string \<Rightarrow> string \<times> unit io_result" where
  "append_transaction_begin tv io tx ms wal = append_json_record tv io (begin_record tx ms) wal"

definition append_transaction_commit :: "to_vec \<Rightarrow> nat option \<Rightarrow> string \<Rightarrow> string \<Rightarrow> string \<times> unit io_result" where
  "append_transaction_commit tv io tx wal = append_json_record tv io (commit_record tx) wal"

subsection \<open>Reading lines\<close>

text \<open>\<open>BufRead::read_line\<close>: up to and including the newline; the last line may lack it.\<close>

fun log_lines :: "string \<Rightarrow> string list" where
  "log_lines [] = []"
| "log_lines (c # cs) =
     (if c = CHR 0x0A then [c] # log_lines cs
      else case log_lines cs of [] \<Rightarrow> [[c]] | l # ls \<Rightarrow> (c # l) # ls)"

subsection \<open>Recognizing records\<close>

definition transaction_kind :: "json \<Rightarrow> string option" where
  "transaction_kind v = jstr_at v ''transaction''"

definition record_id :: "json \<Rightarrow> string" where
  "record_id v = (case jstr_at v ''id'' of Some i \<Rightarrow> i | None \<Rightarrow> [])"

definition is_commit_record_for :: "parse \<Rightarrow> string \<Rightarrow> string \<Rightarrow> bool" where
  "is_commit_record_for parse line tx =
     (case parse line of
        Some v \<Rightarrow> transaction_kind v = Some ''commit'' \<and> jstr_at v ''id'' = Some tx
      | None \<Rightarrow> False)"

definition is_compaction_marker_for :: "parse \<Rightarrow> string \<Rightarrow> string \<Rightarrow> bool" where
  "is_compaction_marker_for parse line tx =
     (case parse line of
        Some v \<Rightarrow> transaction_kind v = Some ''compacted_after'' \<and> jstr_at v ''id'' = Some tx
      | None \<Rightarrow> False)"

subsection \<open>Replay\<close>

type_synonym pending = "(string, Mutation list) btree"

text \<open>The mutations of a committed transaction, each followed by the check of the caller; the
  database reached is kept when the check fails.\<close>

fun apply_checked ::
    "to_vec \<Rightarrow> (Database \<Rightarrow> unit io_result) \<Rightarrow> Mutation list \<Rightarrow> Database \<Rightarrow> Database \<times> unit io_result" where
  "apply_checked tv validate [] db = (db, Inr ())"
| "apply_checked tv validate (m # ms) db =
     (let db = apply_to tv m db
      in case validate db of Inl e \<Rightarrow> (db, Inl e) | Inr _ \<Rightarrow> apply_checked tv validate ms db)"

definition replay_begin :: "json \<Rightarrow> pending \<times> Database \<Rightarrow> (pending \<times> Database) \<times> unit io_result" where
  "replay_begin v s =
     (case mutations_of_json (case jget v ''mutations'' of Some ms \<Rightarrow> ms | None \<Rightarrow> JArr []) of
        None \<Rightarrow> (s, Inl InvalidJson)
      | Some ms \<Rightarrow> ((bt_insert (record_id v) ms (fst s), snd s), Inr ()))"

definition replay_commit ::
    "to_vec \<Rightarrow> (Database \<Rightarrow> unit io_result) \<Rightarrow> json \<Rightarrow> pending \<times> Database \<Rightarrow> (pending \<times> Database) \<times> unit io_result" where
  "replay_commit tv validate v s =
     (case bt_get (fst s) (record_id v) of
        None \<Rightarrow> (s, Inr ())
      | Some ms \<Rightarrow>
          (case apply_checked tv validate ms (snd s) of
             (db, r) \<Rightarrow> ((bt_remove (record_id v) (fst s), db), r)))"

definition replay_single ::
    "to_vec \<Rightarrow> (Database \<Rightarrow> unit io_result) \<Rightarrow> json \<Rightarrow> pending \<times> Database \<Rightarrow> (pending \<times> Database) \<times> unit io_result" where
  "replay_single tv validate v s =
     (case record_of_json v of
        None \<Rightarrow> (s, Inl InvalidJson)
      | Some m \<Rightarrow> (case apply_checked tv validate [m] (snd s) of (db, r) \<Rightarrow> ((fst s, db), r)))"

definition replay_record ::
    "to_vec \<Rightarrow> parse \<Rightarrow> (Database \<Rightarrow> unit io_result) \<Rightarrow> string \<Rightarrow> pending \<times> Database
      \<Rightarrow> (pending \<times> Database) \<times> unit io_result" where
  "replay_record tv parse validate line s =
     (case parse line of
        None \<Rightarrow> (s, Inl InvalidJson)
      | Some v \<Rightarrow>
          (case transaction_kind v of
             None \<Rightarrow> replay_single tv validate v s
           | Some kind \<Rightarrow>
               if kind = ''begin'' then replay_begin v s
               else if kind = ''commit'' then replay_commit tv validate v s
               else (s, Inr ())))"

text \<open>\<open>ReplayStart::Beginning\<close> is None, \<open>ReplayStart::After\<close> the transaction whose commit or
  compaction marker the replay waits for.\<close>

record ReplayState =
  rs_pending :: pending
  rs_db :: Database
  rs_waiting :: bool
  rs_found :: bool

definition replay_line ::
    "to_vec \<Rightarrow> parse \<Rightarrow> (Database \<Rightarrow> unit io_result) \<Rightarrow> string option \<Rightarrow> ReplayState \<Rightarrow> string
      \<Rightarrow> ReplayState io_result" where
  "replay_line tv parse validate start s line =
     (if \<not> utf8_valid line then Inl NotUtf8
      else if blank line then Inr s
      else
        let ended_with_newline = ends_with line [CHR 0x0A];
            trimmed = trim_line_end line
        in if start \<noteq> None \<and> rs_waiting s then
             (if is_commit_record_for parse trimmed (the start) \<or> is_compaction_marker_for parse trimmed (the start)
              then Inr (s\<lparr>rs_waiting := False, rs_found := True\<rparr>) else Inr s)
           else
             (case replay_record tv parse validate trimmed (rs_pending s, rs_db s) of
                ((pending, db), Inr _) \<Rightarrow> Inr (s\<lparr>rs_pending := pending, rs_db := db\<rparr>)
              | ((pending, db), Inl e) \<Rightarrow>
                  if \<not> ended_with_newline then Inr (s\<lparr>rs_pending := pending, rs_db := db\<rparr>)
                  else Inl e))"

definition replay_from ::
    "to_vec \<Rightarrow> parse \<Rightarrow> (Database \<Rightarrow> unit io_result) \<Rightarrow> string option \<Rightarrow> string option \<Rightarrow> Database
      \<Rightarrow> Database io_result" where
  "replay_from tv parse validate start wal db =
     (case wal of
        None \<Rightarrow> Inr db
      | Some bytes \<Rightarrow>
          and_then (fold_res (replay_line tv parse validate start)
              \<lparr>rs_pending = [], rs_db = db, rs_waiting = (start \<noteq> None), rs_found = False\<rparr> (log_lines bytes))
            (\<lambda>s. if start \<noteq> None \<and> \<not> rs_found s then Inl (HighWaterMissing (the start)) else Inr (rs_db s)))"

definition replay_validating ::
    "to_vec \<Rightarrow> parse \<Rightarrow> (Database \<Rightarrow> unit io_result) \<Rightarrow> string option \<Rightarrow> Database \<Rightarrow> Database io_result" where
  "replay_validating tv parse validate wal db = replay_from tv parse validate None wal db"

definition replay_after_validating ::
    "to_vec \<Rightarrow> parse \<Rightarrow> (Database \<Rightarrow> unit io_result) \<Rightarrow> string option \<Rightarrow> string option \<Rightarrow> Database
      \<Rightarrow> Database io_result" where
  "replay_after_validating tv parse validate high_water wal db =
     (case high_water of
        Some tx \<Rightarrow> replay_from tv parse validate (Some tx) wal db
      | None \<Rightarrow> replay_validating tv parse validate wal db)"

subsection \<open>Compaction\<close>

text \<open>The bytes after the first commit record of the transaction, if there is one.\<close>

fun cut_after_commit :: "parse \<Rightarrow> string \<Rightarrow> string list \<Rightarrow> string option io_result" where
  "cut_after_commit parse tx [] = Inr None"
| "cut_after_commit parse tx (line # rest) =
     (if \<not> utf8_valid line then Inl NotUtf8
      else if is_commit_record_for parse (trim_line_end line) tx then Inr (Some (concat rest))
      else cut_after_commit parse tx rest)"

text \<open>A file replaced by a rename is either the old or the new one: a write fails before the rename
  or after it (when the directory cannot be synced).\<close>

datatype write_outcome = Written | FailedBefore | FailedAfter

definition atomically :: "write_outcome \<Rightarrow> 'f \<Rightarrow> 'f \<Rightarrow> 'f \<times> unit io_result" where
  "atomically io old new =
     (case io of
        Written \<Rightarrow> (new, Inr ())
      | FailedBefore \<Rightarrow> (old, Inl IoFailure)
      | FailedAfter \<Rightarrow> (new, Inl IoFailure))"

definition write_compacted ::
    "to_vec \<Rightarrow> write_outcome \<Rightarrow> string \<Rightarrow> string \<Rightarrow> string option \<Rightarrow> string option \<times> unit io_result" where
  "write_compacted tv io tx rest wal =
     (case tv (marker_record tx) of
        None \<Rightarrow> (wal, Inl IoFailure)
      | Some text \<Rightarrow> atomically io wal (Some (text @ [CHR 0x0A] @ rest)))"

text \<open>The log after compaction and whether it was compacted.\<close>

definition compact_after ::
    "to_vec \<Rightarrow> parse \<Rightarrow> write_outcome \<Rightarrow> string option \<Rightarrow> string option \<Rightarrow> string option \<times> bool io_result" where
  "compact_after tv parse io high_water wal =
     (case (high_water, wal) of
        (Some tx, Some bytes) \<Rightarrow>
          (case cut_after_commit parse tx (log_lines bytes) of
             Inl e \<Rightarrow> (wal, Inl e)
           | Inr None \<Rightarrow> (wal, Inr False)
           | Inr (Some rest) \<Rightarrow>
               (case write_compacted tv io tx rest wal of
                  (wal, r) \<Rightarrow> (wal, and_then r (\<lambda>_. Inr True))))
      | _ \<Rightarrow> (wal, Inr False))"

end
