(* ===== verification/LogReplay.thy ===== *)
theory LogReplay
  imports MutationLog
begin

section \<open>Replaying a log\<close>

text \<open>
  A log written by the program, as a list of entries instead of bytes: \<open>replay_entry\<close> is the abstract
  replay, and \<open>replay_from\<close> on the bytes of the entries, with or without a torn record at the end,
  implements it. What is assumed of the JSON text codec is \<open>text_ok\<close>, for the records that are
  written: the text is one line of UTF-8 from an opening to a closing brace, it parses back, and no
  proper prefix of it parses.
\<close>

datatype entry = EBegin string "Mutation list" | ECommit string | EMarker string

fun entry_json :: "entry \<Rightarrow> json" where
  "entry_json (EBegin tx ms) = begin_record tx ms"
| "entry_json (ECommit tx) = commit_record tx"
| "entry_json (EMarker tx) = marker_record tx"

definition text_ok :: "parse \<Rightarrow> json \<Rightarrow> string \<Rightarrow> bool" where
  "text_ok parse v t \<longleftrightarrow> t \<noteq> [] \<and> hd t = CHR ''{'' \<and> last t = CHR ''}'' \<and> CHR 0x0A \<notin> set t \<and> utf8_valid t
     \<and> parse t = Some v \<and> list_all (\<lambda>k. parse (take k t) = None) [0..<length t]"

definition codec_ok :: "to_vec \<Rightarrow> parse \<Rightarrow> json \<Rightarrow> bool" where
  "codec_ok tv parse v \<longleftrightarrow> (case tv v of None \<Rightarrow> False | Some t \<Rightarrow> text_ok parse v t)"

definition entry_text :: "to_vec \<Rightarrow> entry \<Rightarrow> string" where
  "entry_text tv e = (case tv (entry_json e) of Some t \<Rightarrow> t | None \<Rightarrow> [])"

definition entries_bytes :: "to_vec \<Rightarrow> entry list \<Rightarrow> string" where
  "entries_bytes tv es = concat (map (\<lambda>e. entry_text tv e @ [CHR 0x0A]) es)"

definition entries_ok :: "to_vec \<Rightarrow> parse \<Rightarrow> entry list \<Rightarrow> bool" where
  "entries_ok tv parse es \<longleftrightarrow> list_all (\<lambda>e. codec_ok tv parse (entry_json e)) es"

lemma entries_bytes_simps [simp]:
  "entries_bytes tv [] = []"
  "entries_bytes tv (e # es) = entry_text tv e @ [CHR 0x0A] @ entries_bytes tv es"
  "entries_bytes tv (es @ fs) = entries_bytes tv es @ entries_bytes tv fs"
  by (simp_all add: entries_bytes_def)

lemma codec_ok_text: "codec_ok tv parse (entry_json e) \<Longrightarrow> text_ok parse (entry_json e) (entry_text tv e)"
  by (simp add: codec_ok_def entry_text_def split: option.splits)

subsection \<open>Lines\<close>

lemma log_lines_line: "CHR 0x0A \<notin> set l \<Longrightarrow> log_lines (l @ CHR 0x0A # rest) = (l @ [CHR 0x0A]) # log_lines rest"
  by (induction l) auto

lemma log_lines_torn: "CHR 0x0A \<notin> set l \<Longrightarrow> log_lines l = (if l = [] then [] else [l])"
  by (induction l) auto

lemma concat_log_lines: "concat (log_lines s) = s"
  by (induction s) (auto split: list.splits)

lemma utf8_valid_line [simp]: "utf8_valid t \<Longrightarrow> utf8_valid (t @ [CHR 0x0A])"
  by (simp add: utf8_valid_def utf8_run_append byte_in_def)

lemma strip_seqs_keeps: "c \<in> set s \<Longrightarrow> \<forall>w \<in> set ws. c \<notin> set w \<Longrightarrow> c \<in> set (strip_seqs ws s)"
proof (induction ws s rule: strip_seqs.induct)
  case (1 ws s)
  show ?case
  proof (cases "find (\<lambda>w. w \<noteq> [] \<and> prefix w s) ws")
    case None
    with 1 show ?thesis by (subst strip_seqs.simps) simp
  next
    case (Some w)
    then have "w \<in> set ws" "prefix w s" by (auto simp: find_Some_iff)
    then have "s = w @ drop (length w) s" by (auto simp: prefix_def)
    with 1 \<open>w \<in> set ws\<close> have "c \<in> set (drop (length w) s)" by (metis Un_iff set_append)
    with 1 Some show ?thesis by (subst strip_seqs.simps) simp
  qed
qed

lemma not_blank: "CHR ''{'' \<in> set s \<Longrightarrow> \<not> blank s"
proof -
  assume "CHR ''{'' \<in> set s"
  moreover have "\<forall>w \<in> set white_space. CHR ''{'' \<notin> set w"
    by (simp add: white_space_def)
  ultimately have "CHR ''{'' \<in> set (trim s)"
    by (simp add: trim_def strip_seqs_keeps)
  then show ?thesis by (auto simp: blank_def)
qed

lemma trim_line_end_take: "\<exists>k \<le> length s. trim_line_end s = take k s"
proof -
  let ?P = "\<lambda>x. x = CHR 0x0D \<or> x = CHR 0x0A"
  have "suffix (dropWhile ?P (rev s)) (rev s)" by (rule suffix_dropWhile)
  then have "prefix (trim_line_end s) s" by (simp add: trim_line_end_def suffix_to_prefix)
  then show ?thesis by (metis prefix_length_le append_eq_conv_conj prefix_def)
qed

lemma trim_line_end_line: "last t = CHR ''}'' \<Longrightarrow> t \<noteq> [] \<Longrightarrow> trim_line_end (t @ [CHR 0x0A]) = t"
  by (cases t rule: rev_cases) (simp_all add: trim_line_end_def)

lemma trim_line_end_id: "last t = CHR ''}'' \<Longrightarrow> t \<noteq> [] \<Longrightarrow> trim_line_end t = t"
  by (cases t rule: rev_cases) (simp_all add: trim_line_end_def)

lemma text_ok_line:
  assumes "text_ok parse v t"
  shows "utf8_valid (t @ [CHR 0x0A])" and "\<not> blank (t @ [CHR 0x0A])" and "\<not> blank t"
    and "trim_line_end (t @ [CHR 0x0A]) = t" and "trim_line_end t = t" and "parse t = Some v" and "CHR 0x0A \<notin> set t"
proof -
  have t: "t \<noteq> []" "last t = CHR ''}''" "hd t = CHR ''{''" using assms by (auto simp: text_ok_def)
  then have "CHR ''{'' \<in> set t" by (metis list.set_sel(1))
  then show "\<not> blank t" "\<not> blank (t @ [CHR 0x0A])" by (auto intro!: not_blank)
  show "utf8_valid (t @ [CHR 0x0A])" "parse t = Some v" "CHR 0x0A \<notin> set t"
    using assms by (auto simp: text_ok_def)
  show "trim_line_end (t @ [CHR 0x0A]) = t" "trim_line_end t = t"
    using t by (simp_all add: trim_line_end_line trim_line_end_id)
qed

text \<open>A proper prefix of a record, as a crash or a failed write leaves it.\<close>

lemma torn_line:
  assumes "text_ok parse v t" and "k < length t" and "0 < k"
  shows "\<not> blank (take k t)" and "parse (trim_line_end (take k t)) = None"
    and "CHR 0x0A \<notin> set (take k t)" and "\<not> ends_with (take k t) [CHR 0x0A]" and "take k t \<noteq> []"
proof -
  obtain c t' where t: "t = c # t'" using assms(1) by (cases t) (auto simp: text_ok_def)
  obtain k' where k: "k = Suc k'" using assms(3) by (cases k) auto
  have "CHR ''{'' \<in> set (take k t)" using assms(1) t k by (auto simp: text_ok_def)
  then show "\<not> blank (take k t)" by (rule not_blank)
  obtain j where "j \<le> length (take k t)" "trim_line_end (take k t) = take j (take k t)"
    using trim_line_end_take by blast
  then have "trim_line_end (take k t) = take j t" "j < length t" using assms(2) by auto
  with assms(1) show "parse (trim_line_end (take k t)) = None" by (auto simp: text_ok_def list_all_iff)
  show nl: "CHR 0x0A \<notin> set (take k t)" using assms(1) by (auto simp: text_ok_def dest: in_set_takeD)
  then show "\<not> ends_with (take k t) [CHR 0x0A]" by (auto simp: ends_with_def suffix_def)
  show "take k t \<noteq> []" using t k by simp
qed

subsection \<open>Replaying entries\<close>

definition commit_entry ::
    "to_vec \<Rightarrow> (Database \<Rightarrow> unit io_result) \<Rightarrow> string \<Rightarrow> ReplayState \<Rightarrow> ReplayState \<times> unit io_result" where
  "commit_entry tv validate tx s =
     (case bt_get (rs_pending s) tx of
        None \<Rightarrow> (s, Inr ())
      | Some ms \<Rightarrow> (case apply_checked tv validate ms (rs_db s) of
          (db, r) \<Rightarrow> (s\<lparr>rs_pending := bt_remove tx (rs_pending s), rs_db := db\<rparr>, r)))"

fun run_entry ::
    "to_vec \<Rightarrow> (Database \<Rightarrow> unit io_result) \<Rightarrow> ReplayState \<Rightarrow> entry \<Rightarrow> ReplayState \<times> unit io_result" where
  "run_entry tv validate s (EBegin tx ms) = (s\<lparr>rs_pending := bt_insert tx ms (rs_pending s)\<rparr>, Inr ())"
| "run_entry tv validate s (ECommit tx) = commit_entry tv validate tx s"
| "run_entry tv validate s (EMarker tx) = (s, Inr ())"

definition replay_entry ::
    "to_vec \<Rightarrow> (Database \<Rightarrow> unit io_result) \<Rightarrow> string option \<Rightarrow> ReplayState \<Rightarrow> entry \<Rightarrow> ReplayState io_result" where
  "replay_entry tv validate start s e =
     (if start \<noteq> None \<and> rs_waiting s then
        (if e = ECommit (the start) \<or> e = EMarker (the start)
         then Inr (s\<lparr>rs_waiting := False, rs_found := True\<rparr>) else Inr s)
      else (case run_entry tv validate s e of (s, r) \<Rightarrow> and_then r (\<lambda>_. Inr s)))"

definition replay_start :: "string option \<Rightarrow> Database \<Rightarrow> ReplayState" where
  "replay_start start db = \<lparr>rs_pending = [], rs_db = db, rs_waiting = (start \<noteq> None), rs_found = False\<rparr>"

definition replay_end :: "string option \<Rightarrow> ReplayState \<Rightarrow> Database io_result" where
  "replay_end start s = (if start \<noteq> None \<and> \<not> rs_found s then Inl (HighWaterMissing (the start)) else Inr (rs_db s))"

definition replay_entries ::
    "to_vec \<Rightarrow> (Database \<Rightarrow> unit io_result) \<Rightarrow> string option \<Rightarrow> entry list \<Rightarrow> Database \<Rightarrow> Database io_result" where
  "replay_entries tv validate start es db =
     and_then (fold_res (replay_entry tv validate start) (replay_start start db) es) (replay_end start)"

lemma record_fields:
  "transaction_kind (begin_record tx ms) = Some ''begin''" "transaction_kind (commit_record tx) = Some ''commit''"
  "transaction_kind (marker_record tx) = Some ''compacted_after''"
  "jstr_at (begin_record tx ms) ''id'' = Some tx" "jstr_at (commit_record tx) ''id'' = Some tx"
  "jstr_at (marker_record tx) ''id'' = Some tx"
  "jget (begin_record tx ms) ''mutations'' = Some (JArr (map mutation_to_json ms))"
  by (simp_all add: transaction_kind_def begin_record_def commit_record_def marker_record_def jstr_at_def jget_jobj)

lemma commit_record_iff:
  assumes "parse t = Some (entry_json e)"
  shows "is_commit_record_for parse t tx \<longleftrightarrow> e = ECommit tx"
    and "is_compaction_marker_for parse t tx \<longleftrightarrow> e = EMarker tx"
  using assms by (cases e; auto simp: is_commit_record_for_def is_compaction_marker_for_def record_fields)+

lemma replay_record_entry:
  assumes "parse t = Some (entry_json e)"
  shows "replay_record tv parse validate t (rs_pending s, rs_db s)
    = (case run_entry tv validate s e of (s', r) \<Rightarrow> ((rs_pending s', rs_db s'), r))"
  using assms
  by (cases e) (auto simp: replay_record_def record_fields replay_begin_def replay_commit_def record_id_def
      mutations_roundtrip commit_entry_def split: option.splits prod.splits)

lemma run_entry_frame:
  "run_entry tv validate s e = (s', r) \<Longrightarrow> s\<lparr>rs_pending := rs_pending s', rs_db := rs_db s'\<rparr> = s'"
  by (cases e) (auto simp: commit_entry_def split: option.splits prod.splits)

text \<open>A complete line, and a record whose newline is missing, are replayed as their entry.\<close>

lemma replay_line_entry:
  assumes "text_ok parse (entry_json e) t"
  shows "replay_line tv parse validate start s (t @ [CHR 0x0A]) = replay_entry tv validate start s e"
proof -
  note line = text_ok_line [OF assms]
  have "ends_with (t @ [CHR 0x0A]) [CHR 0x0A]" by (simp add: ends_with_def)
  then show ?thesis
    using line commit_record_iff [of parse, OF line(6)] replay_record_entry [of parse t e tv validate s]
      run_entry_frame [of tv validate s e]
    by (auto simp: replay_line_def replay_entry_def Let_def split: prod.splits sum.splits)
qed

lemma replay_line_no_newline:
  assumes "text_ok parse (entry_json e) t" and "run_entry tv validate s e = (s', Inr ())"
  shows "replay_line tv parse validate start s t = replay_entry tv validate start s e"
proof -
  note line = text_ok_line [OF assms(1)]
  have "utf8_valid t" using assms(1) by (simp add: text_ok_def)
  then show ?thesis
    using line commit_record_iff [of parse, OF line(6)] replay_record_entry [of parse t e tv validate s]
      run_entry_frame [of tv validate s e] assms(2)
    by (auto simp: replay_line_def replay_entry_def Let_def split: prod.splits sum.splits)
qed

text \<open>A torn record changes nothing.\<close>

lemma replay_line_torn:
  assumes "text_ok parse v t" and "k < length t" and "0 < k" and "utf8_valid (take k t)"
  shows "replay_line tv parse validate start s (take k t) = Inr s"
proof -
  note torn = torn_line [OF assms(1-3)]
  then show ?thesis
    using assms(4)
    by (auto simp: replay_line_def Let_def replay_record_def is_commit_record_for_def is_compaction_marker_for_def)
qed

lemma log_lines_entries:
  assumes "entries_ok tv parse es"
  shows "log_lines (entries_bytes tv es @ tail) = map (\<lambda>e. entry_text tv e @ [CHR 0x0A]) es @ log_lines tail"
  using assms
proof (induction es)
  case (Cons e es)
  then have "CHR 0x0A \<notin> set (entry_text tv e)"
    by (auto simp: entries_ok_def dest!: codec_ok_text text_ok_line(7))
  from log_lines_line [OF this] Cons show ?case by (simp add: entries_ok_def)
qed simp

lemma fold_lines_entries:
  assumes "entries_ok tv parse es"
  shows "fold_res (replay_line tv parse validate start) s (map (\<lambda>e. entry_text tv e @ [CHR 0x0A]) es)
    = fold_res (replay_entry tv validate start) s es"
  using assms
proof (induction es arbitrary: s)
  case (Cons e es)
  then have "text_ok parse (entry_json e) (entry_text tv e)"
    by (auto simp: entries_ok_def intro: codec_ok_text)
  from replay_line_entry [OF this] Cons show ?case by (simp add: entries_ok_def)
qed simp

text \<open>Replay of bytes implements replay of entries, also with the beginning of a record at the end.\<close>

lemma replay_from_entries:
  assumes "entries_ok tv parse es" and "tail = [] \<or> (\<exists>v t k. text_ok parse v t \<and> k < length t \<and> tail = take k t)"
    and "utf8_valid tail"
  shows "replay_from tv parse validate start (Some (entries_bytes tv es @ tail)) db
    = replay_entries tv validate start es db"
proof -
  have tail: "fold_res (replay_line tv parse validate start) s (log_lines tail) = Inr s" for s
  proof (cases "tail = []")
    case False
    with assms(2) obtain v t k where t: "text_ok parse v t" "k < length t" "tail = take k t" by blast
    with False have "0 < k" by (cases k) auto
    with t torn_line(3,5) [OF t(1,2)] replay_line_torn [OF t(1,2) _] assms(3) show ?thesis
      by (simp add: log_lines_torn)
  qed simp
  have "fold_res (replay_line tv parse validate start) s (log_lines (entries_bytes tv es @ tail))
      = fold_res (replay_entry tv validate start) s es" for s
    by (cases "fold_res (replay_entry tv validate start) s es")
      (simp_all add: log_lines_entries [OF assms(1)] fold_res_append fold_lines_entries [OF assms(1)] tail)
  then show ?thesis
    by (simp add: replay_from_def replay_entries_def replay_start_def replay_end_def [abs_def])
qed

text \<open>A last record whose newline is missing counts like a complete one.\<close>

lemma replay_from_no_newline:
  assumes "entries_ok tv parse (es @ [e])"
    and "\<And>s. fold_res (replay_entry tv validate start) (replay_start start db) es = Inr s \<Longrightarrow>
      \<exists>s'. run_entry tv validate s e = (s', Inr ())"
  shows "replay_from tv parse validate start (Some (entries_bytes tv es @ entry_text tv e)) db
    = replay_entries tv validate start (es @ [e]) db"
proof -
  have es: "entries_ok tv parse es" and t: "text_ok parse (entry_json e) (entry_text tv e)"
    using assms(1) by (auto simp: entries_ok_def intro: codec_ok_text)
  have "log_lines (entry_text tv e) = [entry_text tv e]"
    using t text_ok_line(7) [OF t] by (simp add: log_lines_torn text_ok_def)
  then have "fold_res (replay_line tv parse validate start) (replay_start start db) (log_lines (entries_bytes tv es @ entry_text tv e))
      = fold_res (replay_entry tv validate start) (replay_start start db) (es @ [e])"
    using assms(2) replay_line_no_newline [OF t]
    by (cases "fold_res (replay_entry tv validate start) (replay_start start db) es")
      (fastforce simp: log_lines_entries [OF es] fold_res_append fold_lines_entries [OF es])+
  then show ?thesis
    by (simp add: replay_from_def replay_entries_def replay_end_def [abs_def]) (simp add: replay_start_def)
qed

subsection \<open>Extending the log\<close>

definition waits_right :: "string option \<Rightarrow> ReplayState \<Rightarrow> bool" where
  "waits_right start s \<longleftrightarrow> rs_waiting s = (start \<noteq> None \<and> \<not> rs_found s)"

lemma run_entry_waits: "run_entry tv validate s e = (s', r) \<Longrightarrow> waits_right start s' = waits_right start s"
  by (cases e) (auto simp: commit_entry_def waits_right_def split: option.splits prod.splits)

lemma replay_entries_waits:
  assumes "fold_res (replay_entry tv validate start) (replay_start start db) es = Inr s"
  shows "waits_right start s"
proof (rule fold_res_invariant [OF assms])
  show "waits_right start (replay_start start db)" by (simp add: waits_right_def replay_start_def)
next
  fix s e s'
  assume "waits_right start s" and step: "replay_entry tv validate start s e = Inr s'"
  then show "waits_right start s'"
    using run_entry_waits [of tv validate s e _ _ start]
    by (auto simp: replay_entry_def and_then_Inr_iff split: if_splits prod.splits) (auto simp: waits_right_def)
qed

text \<open>Once a replay has succeeded, the entries after it are run and not waited over.\<close>

lemma replay_entries_state:
  assumes "replay_entries tv validate start es db = Inr db1"
  obtains s where "fold_res (replay_entry tv validate start) (replay_start start db) es = Inr s"
    and "rs_db s = db1" and "\<not> rs_waiting s" and "replay_end start s = Inr db1"
proof -
  obtain s where s: "fold_res (replay_entry tv validate start) (replay_start start db) es = Inr s"
    and e: "replay_end start s = Inr db1"
    using assms by (auto simp: replay_entries_def and_then_Inr_iff)
  with replay_entries_waits [OF s] that show thesis
    by (auto simp: replay_end_def waits_right_def split: if_splits)
qed

lemma replay_entry_running:
  "\<not> rs_waiting s \<Longrightarrow> replay_entry tv validate start s e = (case run_entry tv validate s e of (s, r) \<Rightarrow> and_then r (\<lambda>_. Inr s))"
  by (simp add: replay_entry_def)

lemma replay_append_begin:
  assumes "replay_entries tv validate start es db = Inr db1"
  shows "replay_entries tv validate start (es @ [EBegin tx ms]) db = Inr db1"
  using assms
proof (rule replay_entries_state)
  fix s
  assume "fold_res (replay_entry tv validate start) (replay_start start db) es = Inr s"
    and "\<not> rs_waiting s" and "replay_end start s = Inr db1"
  then show ?thesis
    by (auto simp: replay_entries_def fold_res_append replay_entry_running replay_end_def split: if_splits)
qed

lemma replay_append_transaction:
  assumes "replay_entries tv validate start es db = Inr db1" and "apply_checked tv validate ms db1 = (db2, Inr ())"
  shows "replay_entries tv validate start (es @ [EBegin tx ms, ECommit tx]) db = Inr db2"
  using assms(1)
proof (rule replay_entries_state)
  fix s
  assume "fold_res (replay_entry tv validate start) (replay_start start db) es = Inr s"
    and "rs_db s = db1" and "\<not> rs_waiting s" and "replay_end start s = Inr db1"
  with assms(2) show ?thesis
    by (auto simp: replay_entries_def fold_res_append replay_entry_running replay_end_def commit_entry_def
        split: if_splits)
qed

subsection \<open>The high-water transaction\<close>

definition fresh_in :: "string \<Rightarrow> entry list \<Rightarrow> bool" where
  "fresh_in tx es \<longleftrightarrow> list_all (\<lambda>e. e \<noteq> ECommit tx \<and> e \<noteq> EMarker tx) es"

lemma replay_waiting:
  "fresh_in tx es \<Longrightarrow> rs_waiting s \<Longrightarrow> fold_res (replay_entry tv validate (Some tx)) s es = Inr s"
  by (induction es) (auto simp: fresh_in_def replay_entry_def)

lemma replay_after_last:
  assumes "fresh_in tx es" and "e = ECommit tx \<or> e = EMarker tx"
  shows "replay_entries tv validate (Some tx) (es @ [e]) db = Inr db"
  using assms replay_waiting [OF assms(1), of "replay_start (Some tx) db" tv validate]
  by (auto simp: replay_entries_def fold_res_append replay_start_def replay_entry_def replay_end_def)

lemma replay_marker: "replay_entries tv validate None [EMarker tx] db = Inr db"
  by (simp add: replay_entries_def replay_start_def replay_entry_def replay_end_def)

text \<open>The entries after the high-water commit, with a torn record or not at the end.\<close>

lemma cut_after_entries:
  assumes "entries_ok tv parse (es @ ECommit tx # fs)" and "fresh_in tx es"
  shows "cut_after_commit parse tx (log_lines (entries_bytes tv (es @ ECommit tx # fs) @ tail))
    = Inr (Some (entries_bytes tv fs @ tail))"
proof -
  have "cut_after_commit parse tx (map (\<lambda>e. entry_text tv e @ [CHR 0x0A]) (es @ ECommit tx # fs) @ log_lines tail)
      = Inr (Some (entries_bytes tv fs @ tail))"
    using assms
  proof (induction es)
    case Nil
    then have t: "text_ok parse (entry_json (ECommit tx)) (entry_text tv (ECommit tx))"
      using codec_ok_text [of tv parse "ECommit tx"] by (simp add: entries_ok_def)
    note line = text_ok_line [OF t]
    show ?case using line commit_record_iff(1) [of parse, OF line(6), of tx]
      by (simp add: entries_bytes_def concat_log_lines)
  next
    case (Cons e es)
    then have t: "text_ok parse (entry_json e) (entry_text tv e)"
      by (auto simp: entries_ok_def intro: codec_ok_text)
    note line = text_ok_line [OF t]
    have "e \<noteq> ECommit tx" using Cons.prems(2) by (simp add: fresh_in_def)
    with Cons line commit_record_iff(1) [of parse, OF line(6), of tx] show ?case by (simp add: entries_ok_def fresh_in_def)
  qed
  then show ?thesis
    using log_lines_entries [OF assms(1)] by simp
qed

lemma cut_after_last:
  assumes "entries_ok tv parse (es @ [ECommit tx])" and "fresh_in tx es"
  shows "cut_after_commit parse tx (log_lines (entries_bytes tv (es @ [ECommit tx]))) = Inr (Some [])"
  using cut_after_entries [OF assms, of "[]"] by simp

lemma compact_after_last:
  assumes "entries_ok tv parse (es @ [ECommit tx])" and "fresh_in tx es" and "codec_ok tv parse (marker_record tx)"
  shows "compact_after tv parse io (Some tx) (Some (entries_bytes tv (es @ [ECommit tx])))
    = (case atomically io (Some (entries_bytes tv (es @ [ECommit tx]))) (Some (entries_bytes tv [EMarker tx])) of
         (wal, r) \<Rightarrow> (wal, and_then r (\<lambda>_. Inr True)))"
proof -
  obtain t where "tv (marker_record tx) = Some t" using assms(3) by (auto simp: codec_ok_def split: option.splits)
  then show ?thesis
    using cut_after_last [OF assms(1,2)]
    by (simp add: compact_after_def write_compacted_def entry_text_def del: entries_bytes_simps(3))
qed

text \<open>
  Compaction keeps the replay: what is replayed after the high-water transaction of a log is what is
  replayed from the beginning of the compacted log.
\<close>

lemma run_entry_found:
  "run_entry tv validate (s\<lparr>rs_found := f\<rparr>) e = (case run_entry tv validate s e of (s', r) \<Rightarrow> (s'\<lparr>rs_found := f\<rparr>, r))"
  by (cases e) (auto simp: commit_entry_def split: option.splits prod.splits)

lemma run_entry_not_waiting: "run_entry tv validate s e = (s', r) \<Longrightarrow> rs_waiting s' = rs_waiting s"
  by (cases e) (auto simp: commit_entry_def split: option.splits prod.splits)

lemma replay_found:
  "\<not> rs_waiting s \<Longrightarrow> fold_res (replay_entry tv validate start) (s\<lparr>rs_found := f\<rparr>) es
    = and_then (fold_res (replay_entry tv validate None) s es) (\<lambda>s'. Inr (s'\<lparr>rs_found := f\<rparr>))"
proof (induction es arbitrary: s)
  case (Cons e es)
  obtain s' r where run: "run_entry tv validate s e = (s', r)" by (cases "run_entry tv validate s e")
  with Cons.prems have "\<not> rs_waiting s'" by (simp add: run_entry_not_waiting)
  from Cons.IH [OF this] Cons.prems run show ?case
    by (cases r) (simp_all add: replay_entry_running run_entry_found)
qed simp

lemma replay_after_compaction:
  assumes "fresh_in tx es"
  shows "replay_entries tv validate None (EMarker tx # fs) db = replay_entries tv validate (Some tx) (es @ ECommit tx # fs) db"
proof -
  let ?s = "\<lparr>rs_pending = [], rs_db = db, rs_waiting = False, rs_found = False\<rparr>"
  have "fold_res (replay_entry tv validate (Some tx)) (replay_start (Some tx) db) (es @ ECommit tx # fs)
      = fold_res (replay_entry tv validate (Some tx)) (?s\<lparr>rs_found := True\<rparr>) fs"
    using replay_waiting [OF assms, of "replay_start (Some tx) db"]
    by (simp add: fold_res_append replay_start_def replay_entry_def)
  also have "\<dots> = and_then (fold_res (replay_entry tv validate None) ?s fs) (\<lambda>s'. Inr (s'\<lparr>rs_found := True\<rparr>))"
    by (rule replay_found) simp
  finally have "replay_entries tv validate (Some tx) (es @ ECommit tx # fs) db
      = and_then (fold_res (replay_entry tv validate None) ?s fs) (\<lambda>s'. Inr (rs_db s'))"
    by (simp add: replay_entries_def and_then_assoc replay_end_def)
  then show ?thesis
    by (simp add: replay_entries_def replay_start_def replay_entry_def replay_end_def [abs_def])
qed

lemma compact_entries:
  assumes "entries_ok tv parse (es @ ECommit tx # fs)" and "fresh_in tx es" and "codec_ok tv parse (marker_record tx)"
  shows "compact_after tv parse Written (Some tx) (Some (entries_bytes tv (es @ ECommit tx # fs) @ tail))
    = (Some (entries_bytes tv (EMarker tx # fs) @ tail), Inr True)"
proof -
  obtain t where "tv (marker_record tx) = Some t" using assms(3) by (auto simp: codec_ok_def split: option.splits)
  then show ?thesis
    using cut_after_entries [OF assms(1,2), of tail]
    by (simp add: compact_after_def write_compacted_def atomically_def entry_text_def del: entries_bytes_simps(3))
qed

end
