(* ===== verification/RestPath.thy ===== *)
theory RestPath
  imports Utf8
begin

section \<open>Path parameters\<close>

text \<open>
  \<open>src/rest_path.rs\<close>: percent-decoding of a path segment. A percent sign that is not followed by two
  hexadecimal digits stays, and bytes that are not UTF-8 after decoding become U+FFFD.
\<close>

definition hex_digit :: "char \<Rightarrow> nat option" where
  "hex_digit c =
     (if byte_in c 48 57 then Some (of_char c - 48)
      else if byte_in c 97 102 then Some (of_char c - 97 + 10)
      else if byte_in c 65 70 then Some (of_char c - 65 + 10)
      else None)"

text \<open>The loop, with the bytes from the index on.\<close>

fun decode_bytes :: "string \<Rightarrow> string" where
  "decode_bytes (c # h # l # s) =
     (case (hex_digit h, hex_digit l) of
        (Some high, Some low) \<Rightarrow>
          if c = CHR 0x25 then char_of (16 * high + low) # decode_bytes s else c # decode_bytes (h # l # s)
      | _ \<Rightarrow> c # decode_bytes (h # l # s))"
| "decode_bytes (c # s) = c # decode_bytes s"
| "decode_bytes [] = []"

definition decode_path_param :: "string \<Rightarrow> string" where
  "decode_path_param s = from_utf8_lossy (decode_bytes s)"

text \<open>The encoding of every byte, as a client may send any id.\<close>

definition hex_char :: "nat \<Rightarrow> char" where
  "hex_char n = char_of (if n < 10 then 48 + n else 55 + n)"

definition encode_byte :: "char \<Rightarrow> string" where
  "encode_byte c = [CHR 0x25, hex_char (of_char c div 16), hex_char (of_char c mod 16)]"

definition encode_path_param :: "string \<Rightarrow> string" where
  "encode_path_param s = concat (map encode_byte s)"

lemma hex_digit_char: "n < 16 \<Longrightarrow> hex_digit (hex_char n) = Some n"
  by (simp add: hex_digit_def hex_char_def byte_in_def)

lemma decode_encode_bytes: "decode_bytes (encode_path_param s) = s"
proof (induction s)
  case Nil
  then show ?case by (simp add: encode_path_param_def)
next
  case (Cons c s)
  have c: "(of_char c :: nat) < 256" by simp
  have "hex_digit (hex_char (of_char c div 16)) = Some (of_char c div 16)"
    and "hex_digit (hex_char (of_char c mod 16)) = Some (of_char c mod 16)"
    using c by (auto intro!: hex_digit_char simp: less_mult_imp_div_less)
  with Cons show ?case by (simp add: encode_path_param_def encode_byte_def)
qed

lemma decode_bytes_plain: "CHR 0x25 \<notin> set s \<Longrightarrow> decode_bytes s = s"
  by (induction s rule: decode_bytes.induct) (auto split: option.splits)

end
