(* ===== verification/Durable.thy ===== *)
theory Durable
  imports LogReplay RestPath
begin

section \<open>The durable store\<close>

text \<open>
  The store on disk: \<open>src/storage/snapshot.rs\<close> and the parts of \<open>src/storage/mod.rs\<close> that open the
  store, append a committed transaction, and write a snapshot generation. The data directory is
  three kinds of files: the snapshot metadata, the snapshots by file name, and the mutation log,
  each its bytes. Codecs are parameters (\<open>Codec\<close>), and so are the clock, the fresh transaction id
  and what happens to each write (\<open>Env\<close>).
\<close>

subsection \<open>Files\<close>

record SnapshotIndexMetadata =
  sim_name :: string
  sim_document_count :: nat
  sim_tombstone_count :: nat
  sim_alias_count :: nat
  sim_store_size_bytes :: nat

record SnapshotMetadata =
  sm_version :: nat
  sm_generation :: nat
  sm_snapshot_file :: "string option"
  sm_created_at_unix_millis :: nat
  sm_estimated_stored_bytes :: nat
  sm_index_count :: nat
  sm_document_count :: nat
  sm_template_count :: nat
  sm_registry_object_count :: nat
  sm_alias_count :: nat
  sm_seq_no :: nat
  sm_last_transaction_id :: "string option"
  sm_log_compacted :: bool
  sm_indexes :: "SnapshotIndexMetadata list"

record Codec =
  cd_to_vec :: to_vec
  cd_parse :: parse
  cd_enc_db :: "Database \<Rightarrow> string option"
  cd_dec_db :: "string \<Rightarrow> Database option"
  cd_enc_meta :: "SnapshotMetadata \<Rightarrow> string option"
  cd_dec_meta :: "string \<Rightarrow> SnapshotMetadata option"

record Files =
  fl_meta :: "string option"
  fl_snapshots :: "(string, string) btree"
  fl_log :: "string option"

record SnapshotFlushState =
  fs_dirty_writes :: nat
  fs_dirty_since :: "nat option"
  fs_generation :: nat
  fs_last_transaction_id :: "string option"

record SnapshotPolicy =
  write_threshold :: nat
  interval :: nat

record Env =
  en_tx :: string
  en_now :: nat
  en_millis :: nat
  en_begin_io :: "nat option"
  en_commit_io :: "nat option"
  en_flush_io :: "nat \<Rightarrow> write_outcome"

definition SnapshotFlushState_default :: SnapshotFlushState where
  "SnapshotFlushState_default =
     \<lparr>fs_dirty_writes = 0, fs_dirty_since = None, fs_generation = 0, fs_last_transaction_id = None\<rparr>"

definition snapshot_json :: string where
  "snapshot_json = ''snapshot.json''"

definition snapshot_file_name :: "nat \<Rightarrow> string" where
  "snapshot_file_name generation = ''snapshot.'' @ pad_nat 20 generation @ ''.json''"

subsection \<open>Snapshots\<close>

text \<open>\<open>write_file_atomically\<close>: a temporary file, synced and renamed.\<close>

definition write_snapshot ::
    "Codec \<Rightarrow> write_outcome \<Rightarrow> string \<Rightarrow> Database \<Rightarrow> Files \<Rightarrow> Files \<times> unit io_result" where
  "write_snapshot cd io name db files =
     (case cd_enc_db cd db of
        None \<Rightarrow> (files, Inl IoFailure)
      | Some bytes \<Rightarrow> atomically io files (files\<lparr>fl_snapshots := bt_insert name bytes (fl_snapshots files)\<rparr>))"

definition read_snapshot :: "Codec \<Rightarrow> string \<Rightarrow> Files \<Rightarrow> Database option io_result" where
  "read_snapshot cd name files =
     (case bt_get (fl_snapshots files) name of
        None \<Rightarrow> Inr None
      | Some bytes \<Rightarrow> (case cd_dec_db cd bytes of Some db \<Rightarrow> Inr (Some db) | None \<Rightarrow> Inl InvalidJson))"

definition write_metadata ::
    "Codec \<Rightarrow> write_outcome \<Rightarrow> SnapshotMetadata \<Rightarrow> Files \<Rightarrow> Files \<times> unit io_result" where
  "write_metadata cd io metadata files =
     (case cd_enc_meta cd metadata of
        None \<Rightarrow> (files, Inl IoFailure)
      | Some bytes \<Rightarrow> atomically io files (files\<lparr>fl_meta := Some bytes\<rparr>))"

definition read_metadata :: "Codec \<Rightarrow> Files \<Rightarrow> SnapshotMetadata option io_result" where
  "read_metadata cd files =
     (case fl_meta files of
        None \<Rightarrow> Inr None
      | Some bytes \<Rightarrow> (case cd_dec_meta cd bytes of Some m \<Rightarrow> Inr (Some m) | None \<Rightarrow> Inl InvalidJson))"

definition snapshot_metadata ::
    "to_vec \<Rightarrow> nat \<Rightarrow> Database \<Rightarrow> nat \<Rightarrow> string option \<Rightarrow> string option \<Rightarrow> bool \<Rightarrow> SnapshotMetadata" where
  "snapshot_metadata tv now_millis db generation snapshot_file last_transaction_id log_compacted =
     \<lparr>sm_version = 1, sm_generation = generation, sm_snapshot_file = snapshot_file,
      sm_created_at_unix_millis = now_millis, sm_estimated_stored_bytes = estimate_database_bytes tv db,
      sm_index_count = length (db_indexes db), sm_document_count = document_count db,
      sm_template_count = length (db_templates db),
      sm_registry_object_count = sum_list (map length (bt_values (db_registries db))),
      sm_alias_count = length (db_aliases db), sm_seq_no = db_seq_no db,
      sm_last_transaction_id = last_transaction_id, sm_log_compacted = log_compacted,
      sm_indexes = map (\<lambda>im. \<lparr>sim_name = im_name im, sim_document_count = length (im_documents im),
        sim_tombstone_count = length (im_tombstones im), sim_alias_count = length (im_aliases im),
        sim_store_size_bytes = im_store_size_bytes im\<rparr>) (bt_values (db_indexes db))\<rparr>"

text \<open>
  The five writes of a flush, each of which may fail; what was written stays. The function is split
  after the metadata of the new generation and after the compaction of the log.
\<close>

definition flush_after_compaction ::
    "Codec \<Rightarrow> Env \<Rightarrow> Database \<Rightarrow> nat \<Rightarrow> string option \<Rightarrow> bool \<Rightarrow> Files \<Rightarrow> Files \<times> unit io_result" where
  "flush_after_compaction cd env db generation last_tx compacted files =
     (let metadata = snapshot_metadata (cd_to_vec cd) (en_millis env) db generation
            (Some (snapshot_file_name generation)) last_tx True
      in case (if compacted then write_metadata cd (en_flush_io env 3) metadata files else (files, Inr ())) of
           (files, Inl e) \<Rightarrow> (files, Inl e)
         | (files, Inr _) \<Rightarrow> write_snapshot cd (en_flush_io env 4) snapshot_json db files)"

definition flush_after_metadata ::
    "Codec \<Rightarrow> Env \<Rightarrow> Database \<Rightarrow> nat \<Rightarrow> string option \<Rightarrow> Files \<Rightarrow> Files \<times> unit io_result" where
  "flush_after_metadata cd env db generation last_tx files =
     (case compact_after (cd_to_vec cd) (cd_parse cd) (en_flush_io env 2) last_tx (fl_log files) of
        (wal, Inl e) \<Rightarrow> (files\<lparr>fl_log := wal\<rparr>, Inl e)
      | (wal, Inr compacted) \<Rightarrow>
          flush_after_compaction cd env db generation last_tx compacted (files\<lparr>fl_log := wal\<rparr>))"

definition write_snapshot_generation ::
    "Codec \<Rightarrow> Env \<Rightarrow> Database \<Rightarrow> nat \<Rightarrow> string option \<Rightarrow> Files \<Rightarrow> Files \<times> unit io_result" where
  "write_snapshot_generation cd env db generation last_tx files =
     (let snapshot_file = snapshot_file_name generation
      in case write_snapshot cd (en_flush_io env 0) snapshot_file db files of
           (files, Inl e) \<Rightarrow> (files, Inl e)
         | (files, Inr _) \<Rightarrow>
      (let metadata = snapshot_metadata (cd_to_vec cd) (en_millis env) db generation
             (Some snapshot_file) last_tx False
       in case write_metadata cd (en_flush_io env 1) metadata files of
            (files, Inl e) \<Rightarrow> (files, Inl e)
          | (files, Inr _) \<Rightarrow> flush_after_metadata cd env db generation last_tx files))"

subsection \<open>Opening the store\<close>

definition validate_loaded_database_memory :: "to_vec \<Rightarrow> nat \<Rightarrow> Database \<Rightarrow> unit io_result" where
  "validate_loaded_database_memory tv limit db =
     (let bytes = estimate_database_bytes tv db
      in if bytes \<le> limit then Inr () else Inl (LoadedTooLarge bytes limit))"

definition recompute_store_sizes :: "to_vec \<Rightarrow> Database \<Rightarrow> Database" where
  "recompute_store_sizes tv db = db\<lparr>db_indexes := bt_map (recompute_store_size tv) (db_indexes db)\<rparr>"

text \<open>\<open>load_durable_state\<close> up to the repair of document ids.\<close>

definition recover :: "Codec \<Rightarrow> nat \<Rightarrow> Files \<Rightarrow> (Database \<times> SnapshotFlushState) io_result" where
  "recover cd limit files =
     (let tv = cd_to_vec cd; parse = cd_parse cd; check = validate_loaded_database_memory tv limit
      in and_then (read_metadata cd files) (\<lambda>m.
         case m of
           None \<Rightarrow>
             and_then (replay_validating tv parse check (fl_log files) Database_default) (\<lambda>db.
               Inr (db, SnapshotFlushState_default))
         | Some metadata \<Rightarrow>
             let name = (case sm_snapshot_file metadata of Some file \<Rightarrow> file | None \<Rightarrow> snapshot_json)
             in and_then (read_snapshot cd name files) (\<lambda>snapshot.
                and_then (ok_or (SnapshotMissing name) snapshot) (\<lambda>db.
                let db = recompute_store_sizes tv db
                in and_then (check db) (\<lambda>_.
                and_then
                  (if sm_log_compacted metadata then replay_validating tv parse check (fl_log files) db
                   else replay_after_validating tv parse check (sm_last_transaction_id metadata) (fl_log files) db)
                  (\<lambda>db. Inr (db,
                     \<lparr>fs_dirty_writes = 0, fs_dirty_since = None, fs_generation = sm_generation metadata,
                      fs_last_transaction_id = sm_last_transaction_id metadata\<rparr>)))))))"

definition is_dashboards_saved_object_index :: "string \<Rightarrow> bool" where
  "is_dashboards_saved_object_index index \<longleftrightarrow>
     index = ''.kibana'' \<or> starts_with index ''.kibana_'' \<or> starts_with index ''.kibana-''
     \<or> index = ''.opensearch_dashboards'' \<or> starts_with index ''.opensearch_dashboards_''
     \<or> starts_with index ''.opensearch_dashboards-''"

definition is_saved_object_document_id :: "string \<Rightarrow> bool" where
  "is_saved_object_document_id did =
     (case split_once (CHR '':'') did of
        Some (object_type, object_id) \<Rightarrow> object_type \<noteq> [] \<and> object_id \<noteq> []
      | None \<Rightarrow> False)"

fun plan_index_repairs :: "string \<Rightarrow> IndexMetadata \<Rightarrow> string list \<Rightarrow> string list \<Rightarrow> Mutation list" where
  "plan_index_repairs name im planned [] = []"
| "plan_index_repairs name im planned (did # dids) =
     (let decoded = decode_path_param did
      in if decoded = did \<or> \<not> is_saved_object_document_id decoded then plan_index_repairs name im planned dids
         else if bt_has (im_documents im) decoded \<or> decoded \<in> set planned then plan_index_repairs name im planned dids
         else RenameDocument name did decoded # plan_index_repairs name im (bs_insert decoded planned) dids)"

definition plan_dashboards_encoded_document_id_repairs :: "Database \<Rightarrow> Mutation list" where
  "plan_dashboards_encoded_document_id_repairs db =
     concat (map (\<lambda>(name, im). if is_dashboards_saved_object_index name
                              then plan_index_repairs name im [] (bt_keys (im_documents im)) else [])
       (db_indexes db))"

text \<open>An append to the log creates the file.\<close>

definition log_bytes :: "Files \<Rightarrow> string" where
  "log_bytes files = (case fl_log files of Some bytes \<Rightarrow> bytes | None \<Rightarrow> [])"

definition append_begin :: "Codec \<Rightarrow> Env \<Rightarrow> Mutation list \<Rightarrow> Files \<Rightarrow> Files \<times> unit io_result" where
  "append_begin cd env ms files =
     (case append_transaction_begin (cd_to_vec cd) (en_begin_io env) (en_tx env) ms (log_bytes files) of
        (bytes, r) \<Rightarrow> (files\<lparr>fl_log := Some bytes\<rparr>, r))"

definition append_commit :: "Codec \<Rightarrow> Env \<Rightarrow> Files \<Rightarrow> Files \<times> unit io_result" where
  "append_commit cd env files =
     (case append_transaction_commit (cd_to_vec cd) (en_commit_io env) (en_tx env) (log_bytes files) of
        (bytes, r) \<Rightarrow> (files\<lparr>fl_log := Some bytes\<rparr>, r))"

definition repair_dashboards_encoded_document_ids ::
    "Codec \<Rightarrow> Env \<Rightarrow> nat \<Rightarrow> Database \<Rightarrow> SnapshotFlushState \<Rightarrow> Files
      \<Rightarrow> Files \<times> (Database \<times> SnapshotFlushState) io_result" where
  "repair_dashboards_encoded_document_ids cd env limit db st files =
     (let tv = cd_to_vec cd; ms = plan_dashboards_encoded_document_id_repairs db
      in if ms = [] then (files, Inr (db, st))
         else case append_begin cd env ms files of
           (files, Inl e) \<Rightarrow> (files, Inl e)
         | (files, Inr _) \<Rightarrow>
      (case append_commit cd env files of
           (files, Inl e) \<Rightarrow> (files, Inl e)
         | (files, Inr _) \<Rightarrow>
      (case apply_checked tv (validate_loaded_database_memory tv limit) ms db of
           (db, Inl e) \<Rightarrow> (files, Inl e)
         | (db, Inr _) \<Rightarrow>
             (files, Inr (db, st\<lparr>fs_dirty_writes := sat_add (fs_dirty_writes st) (length ms),
                                 fs_dirty_since := Some (en_now env),
                                 fs_last_transaction_id := Some (en_tx env)\<rparr>)))))"

definition load_durable_state ::
    "Codec \<Rightarrow> Env \<Rightarrow> nat \<Rightarrow> Files \<Rightarrow> Files \<times> (Database \<times> SnapshotFlushState) io_result" where
  "load_durable_state cd env limit files =
     (case recover cd limit files of
        Inl e \<Rightarrow> (files, Inl e)
      | Inr (db, st) \<Rightarrow> repair_dashboards_encoded_document_ids cd env limit db st files)"

subsection \<open>The running store\<close>

record Store =
  st_db :: Database
  st_files :: Files
  st_flush :: SnapshotFlushState
  st_ephemeral :: bool

text \<open>What the configuration fixes.\<close>

record Setup =
  su_codec :: Codec
  su_limits :: StoreLimits
  su_policy :: SnapshotPolicy

definition Store_open :: "Setup \<Rightarrow> Env \<Rightarrow> bool \<Rightarrow> Files \<Rightarrow> Files \<times> Store io_result" where
  "Store_open su env ephemeral files =
     (if ephemeral then
        (files, Inr \<lparr>st_db = Database_default, st_files = files, st_flush = SnapshotFlushState_default, st_ephemeral = True\<rparr>)
      else
        let cd = su_codec su; limit = memory_limit_bytes (su_limits su)
        in case load_durable_state cd env limit files of
             (files, Inl e) \<Rightarrow> (files, Inl e)
           | (files, Inr (db, flush)) \<Rightarrow>
               (files, and_then (validate_loaded_database_memory (cd_to_vec cd) limit db) (\<lambda>_.
                  Inr \<lparr>st_db = db, st_files = files, st_flush = flush, st_ephemeral = False\<rparr>)))"

definition log_error :: "string \<Rightarrow> StoreError" where
  "log_error what = StoreError_new 500 ''mutation_log_exception'' (''failed to '' @ what @ '' mutation transaction: '')"

text \<open>The database is replaced between the two records, and put back when the second fails. The
  reason of the error ends with the text of the I/O error, which is left out.\<close>

definition append_committed_transaction ::
    "Codec \<Rightarrow> Env \<Rightarrow> Database \<Rightarrow> Mutation list \<Rightarrow> Store \<Rightarrow> Store \<times> string store_result" where
  "append_committed_transaction cd env candidate ms s =
     (let before = st_db s
      in case append_begin cd env ms (st_files s) of
           (files, Inl _) \<Rightarrow> (s\<lparr>st_files := files\<rparr>, Inl (log_error ''append''))
         | (files, Inr _) \<Rightarrow>
             (let s = s\<lparr>st_files := files, st_db := candidate\<rparr>
              in case append_commit cd env (st_files s) of
                   (files, Inl _) \<Rightarrow> (s\<lparr>st_files := files, st_db := before\<rparr>, Inl (log_error ''commit''))
                 | (files, Inr _) \<Rightarrow> (s\<lparr>st_files := files\<rparr>, Inr (en_tx env))))"

definition mark_dirty :: "nat \<Rightarrow> string option \<Rightarrow> nat \<Rightarrow> SnapshotFlushState \<Rightarrow> SnapshotFlushState" where
  "mark_dirty now tx mutation_count st =
     st\<lparr>fs_dirty_since := (if fs_dirty_since st = None then Some now else fs_dirty_since st),
        fs_dirty_writes := sat_add (fs_dirty_writes st) (max mutation_count 1),
        fs_last_transaction_id := (if tx \<noteq> None then tx else fs_last_transaction_id st)\<rparr>"

text \<open>A clock that went backwards counts as no time elapsed.\<close>

definition flush_due :: "SnapshotPolicy \<Rightarrow> nat \<Rightarrow> SnapshotFlushState \<Rightarrow> bool" where
  "flush_due policy now st \<longleftrightarrow>
     (let dirty_elapsed = (case fs_dirty_since st of Some since \<Rightarrow> now - since | None \<Rightarrow> 0)
      in \<not> (fs_dirty_writes st < write_threshold policy \<and> dirty_elapsed < interval policy))"

definition next_generation :: "SnapshotFlushState \<Rightarrow> nat" where
  "next_generation st = min (fs_generation st + 1) (2 ^ 64 - 1)"

definition after_committed_transaction ::
    "Setup \<Rightarrow> Env \<Rightarrow> Database \<Rightarrow> string option \<Rightarrow> nat \<Rightarrow> Store \<Rightarrow> Store" where
  "after_committed_transaction su env db tx mutation_count s =
     (if st_ephemeral s then s
      else
        let st = mark_dirty (en_now env) tx mutation_count (st_flush s)
        in if \<not> flush_due (su_policy su) (en_now env) st then s\<lparr>st_flush := st\<rparr>
           else
             (case write_snapshot_generation (su_codec su) env db (next_generation st) (fs_last_transaction_id st) (st_files s) of
                (files, Inl _) \<Rightarrow> s\<lparr>st_files := files, st_flush := st\<rparr>
              | (files, Inr _) \<Rightarrow>
                  s\<lparr>st_files := files,
                    st_flush := st\<lparr>fs_generation := next_generation st, fs_dirty_writes := 0, fs_dirty_since := None\<rparr>\<rparr>))"

definition commit_transaction ::
    "Setup \<Rightarrow> Env \<Rightarrow> Database \<Rightarrow> Mutation list \<Rightarrow> Store \<Rightarrow> Store \<times> unit store_result" where
  "commit_transaction su env candidate ms s =
     (if st_ephemeral s then (s\<lparr>st_db := candidate\<rparr>, Inr ())
      else case append_committed_transaction (su_codec su) env candidate ms s of
        (s, Inl e) \<Rightarrow> (s, Inl e)
      | (s, Inr tx) \<Rightarrow> (after_committed_transaction su env candidate (Some tx) (length ms) s, Inr ()))"

definition commit_mutations :: "Setup \<Rightarrow> Env \<Rightarrow> Mutation list \<Rightarrow> Store \<Rightarrow> Store \<times> unit store_result" where
  "commit_mutations su env ms s =
     (if ms = [] then (s, Inr ())
      else case commit_candidate (cd_to_vec (su_codec su)) (su_limits su) ms (st_db s) of
        Inl e \<Rightarrow> (s, Inl e)
      | Inr candidate \<Rightarrow> commit_transaction su env candidate ms s)"

definition apply_write_operations ::
    "Setup \<Rightarrow> Env \<Rightarrow> WriteOperation list \<Rightarrow> Store \<Rightarrow> Store \<times> WriteOutcome store_result list store_result" where
  "apply_write_operations su env ops s =
     (case bulk_candidate (cd_to_vec (su_codec su)) (su_limits su) ops (st_db s) of
        (candidate, committed, results) \<Rightarrow>
          if committed = [] then (s, Inr results)
          else (case commit_transaction su env candidate committed s of
                  (s, r) \<Rightarrow> (s, and_then r (\<lambda>_. Inr results))))"

definition apply_dynamic_write_operations_atomic ::
    "Setup \<Rightarrow> Env \<Rightarrow> (Database \<Rightarrow> (WriteOperation list \<times> 'a) store_result) \<Rightarrow> Store
      \<Rightarrow> Store \<times> (WriteOutcome list \<times> 'a) store_result" where
  "apply_dynamic_write_operations_atomic su env build s =
     (case atomic_candidate (cd_to_vec (su_codec su)) (su_limits su) build (st_db s) of
        Inl e \<Rightarrow> (s, Inl e)
      | Inr (candidate, committed, outcomes, metadata) \<Rightarrow>
          if committed = [] then (s, Inr (outcomes, metadata))
          else (case commit_transaction su env candidate committed s of
                  (s, r) \<Rightarrow> (s, and_then r (\<lambda>_. Inr (outcomes, metadata)))))"

subsection \<open>The operations of the store\<close>

definition commit :: "Setup \<Rightarrow> Env \<Rightarrow> Mutation \<Rightarrow> Store \<Rightarrow> Store \<times> unit store_result" where
  "commit su env m s = commit_mutations su env [m] s"

text \<open>An operation on an index that is first resolved through the aliases.\<close>

definition commit_on_index :: "Setup \<Rightarrow> Env \<Rightarrow> string \<Rightarrow> (string \<Rightarrow> Mutation) \<Rightarrow> Store \<Rightarrow> Store \<times> unit store_result" where
  "commit_on_index su env index mk s =
     (case resolve_index (st_db s) index of
        None \<Rightarrow> (s, Inl (no_such_index index))
      | Some i \<Rightarrow> commit su env (mk i) s)"

definition create_index :: "Setup \<Rightarrow> Env \<Rightarrow> string \<Rightarrow> json \<Rightarrow> Store \<Rightarrow> Store \<times> unit store_result" where
  "create_index su env name body s =
     (let (settings, mappings) = extract_index_config body in commit su env (CreateIndex name settings mappings) s)"

definition ensure_index_for_write :: "Setup \<Rightarrow> Env \<Rightarrow> string \<Rightarrow> Store \<Rightarrow> Store \<times> unit store_result" where
  "ensure_index_for_write su env name s =
     (if resolve_index (st_db s) name \<noteq> None then (s, Inr ())
      else let (settings, mappings) = template_config_for (st_db s) name
           in commit su env (CreateIndex name settings mappings) s)"

definition delete_index :: "Setup \<Rightarrow> Env \<Rightarrow> string \<Rightarrow> Store \<Rightarrow> Store \<times> unit store_result" where
  "delete_index su env name s = commit_on_index su env name DeleteIndex s"

definition put_mapping :: "Setup \<Rightarrow> Env \<Rightarrow> string \<Rightarrow> json \<Rightarrow> Store \<Rightarrow> Store \<times> unit store_result" where
  "put_mapping su env index mappings s = commit_on_index su env index (\<lambda>i. PutMapping i mappings) s"

definition put_settings :: "Setup \<Rightarrow> Env \<Rightarrow> string \<Rightarrow> json \<Rightarrow> Store \<Rightarrow> Store \<times> unit store_result" where
  "put_settings su env index settings s = commit_on_index su env index (\<lambda>i. PutSettings i settings) s"

definition put_template :: "Setup \<Rightarrow> Env \<Rightarrow> string \<Rightarrow> json \<Rightarrow> Store \<Rightarrow> Store \<times> unit store_result" where
  "put_template su env name body s =
     commit su env (PutTemplate name (index_patterns body) (jget_or_object body ''template'') body) s"

definition put_registry_object :: "Setup \<Rightarrow> Env \<Rightarrow> string \<Rightarrow> string \<Rightarrow> json \<Rightarrow> Store \<Rightarrow> Store \<times> unit store_result" where
  "put_registry_object su env namespace name raw s = commit su env (PutRegistryObject namespace name raw) s"

definition delete_registry_object :: "Setup \<Rightarrow> Env \<Rightarrow> string \<Rightarrow> string \<Rightarrow> Store \<Rightarrow> Store \<times> unit store_result" where
  "delete_registry_object su env namespace name s = commit su env (DeleteRegistryObject namespace name) s"

definition put_alias :: "Setup \<Rightarrow> Env \<Rightarrow> string \<Rightarrow> string \<Rightarrow> json \<Rightarrow> Store \<Rightarrow> Store \<times> unit store_result" where
  "put_alias su env index al raw s = commit_on_index su env index (\<lambda>i. PutAlias i al raw) s"

definition delete_alias :: "Setup \<Rightarrow> Env \<Rightarrow> string \<Rightarrow> string \<Rightarrow> Store \<Rightarrow> Store \<times> unit store_result" where
  "delete_alias su env index al s = commit_on_index su env index (\<lambda>i. DeleteAlias i al) s"

definition single_document :: "string \<Rightarrow> WriteOutcome store_result list \<Rightarrow> StoredDocument store_result" where
  "single_document action results =
     and_then (single_write_result results) (\<lambda>outcome.
       case outcome of OutDocument d \<Rightarrow> Inr d | OutDeleted _ \<Rightarrow> Inl (internal_document_error action))"

definition index_document ::
    "Setup \<Rightarrow> Env \<Rightarrow> string \<Rightarrow> string \<Rightarrow> json \<Rightarrow> Store \<Rightarrow> Store \<times> StoredDocument store_result" where
  "index_document su env index did source s =
     (case apply_write_operations su env [OpIndex index did source] s of
        (s, r) \<Rightarrow> (s, and_then r (single_document ''committed'')))"

definition create_document ::
    "Setup \<Rightarrow> Env \<Rightarrow> string \<Rightarrow> string \<Rightarrow> json \<Rightarrow> Store \<Rightarrow> Store \<times> StoredDocument store_result" where
  "create_document su env index did source s =
     (case apply_write_operations su env [OpCreate index did source] s of
        (s, r) \<Rightarrow> (s, and_then r (single_document ''committed'')))"

definition update_document ::
    "Setup \<Rightarrow> Env \<Rightarrow> string \<Rightarrow> string \<Rightarrow> json \<Rightarrow> bool \<Rightarrow> json option \<Rightarrow> Store \<Rightarrow> Store \<times> StoredDocument store_result" where
  "update_document su env index did doc doc_as_upsert upsert s =
     (case apply_write_operations su env [OpUpdate index did doc doc_as_upsert upsert] s of
        (s, r) \<Rightarrow> (s, and_then r (single_document ''updated'')))"

definition delete_document ::
    "Setup \<Rightarrow> Env \<Rightarrow> string \<Rightarrow> string \<Rightarrow> Store \<Rightarrow> Store \<times> bool store_result" where
  "delete_document su env index did s =
     (case apply_write_operations su env [OpDelete index did] s of
        (s, r) \<Rightarrow> (s, and_then r (\<lambda>results.
           and_then (single_write_result results) (\<lambda>outcome.
             case outcome of
               OutDeleted found \<Rightarrow> Inr found
             | OutDocument _ \<Rightarrow>
                 Inl (StoreError_new 500 ''document_exception'' ''delete returned a document outcome'')))))"

definition get_document :: "Store \<Rightarrow> string \<Rightarrow> string \<Rightarrow> StoredDocument option" where
  "get_document s index did =
     Option.bind (resolve_index (st_db s) index) (\<lambda>i. stored_document (st_db s) i did)"

end
