(* ===== verification/Recovery.thy ===== *)
theory Recovery
  imports Durable
begin

section \<open>What is on disk recovers to what is in memory\<close>

text \<open>
  The safety of commits and flushes: whatever happens to the writes of a flush, opening the data
  directory gives the committed database. The files are related to the database by \<open>durable\<close>; the
  reachable states of a store that commits, flushes, crashes and restarts are an inductive relation.
\<close>

abbreviation su_tv :: "Setup \<Rightarrow> to_vec" where "su_tv su \<equiv> cd_to_vec (su_codec su)"
abbreviation su_parse :: "Setup \<Rightarrow> parse" where "su_parse su \<equiv> cd_parse (su_codec su)"
abbreviation su_limit :: "Setup \<Rightarrow> nat" where "su_limit su \<equiv> memory_limit_bytes (su_limits su)"
abbreviation su_check :: "Setup \<Rightarrow> Database \<Rightarrow> unit io_result" where
  "su_check su \<equiv> validate_loaded_database_memory (su_tv su) (su_limit su)"

subsection \<open>Recovery in two parts\<close>

text \<open>The database and the high-water mark the log is replayed from.\<close>

definition recover_base :: "Codec \<Rightarrow> nat \<Rightarrow> Files \<Rightarrow> (Database \<times> string option \<times> SnapshotFlushState) io_result" where
  "recover_base cd limit files =
     and_then (read_metadata cd files) (\<lambda>m.
       case m of
         None \<Rightarrow> Inr (Database_default, None, SnapshotFlushState_default)
       | Some metadata \<Rightarrow>
           let name = (case sm_snapshot_file metadata of Some file \<Rightarrow> file | None \<Rightarrow> snapshot_json)
           in and_then (read_snapshot cd name files) (\<lambda>snapshot.
              and_then (ok_or (SnapshotMissing name) snapshot) (\<lambda>db.
              let db = recompute_store_sizes (cd_to_vec cd) db
              in and_then (validate_loaded_database_memory (cd_to_vec cd) limit db) (\<lambda>_.
              Inr (db, if sm_log_compacted metadata then None else sm_last_transaction_id metadata,
                   \<lparr>fs_dirty_writes = 0, fs_dirty_since = None, fs_generation = sm_generation metadata,
                    fs_last_transaction_id = sm_last_transaction_id metadata\<rparr>)))))"

lemma recover_eq:
  "recover cd limit files =
     and_then (recover_base cd limit files) (\<lambda>(db, start, st).
       and_then (replay_from (cd_to_vec cd) (cd_parse cd) (validate_loaded_database_memory (cd_to_vec cd) limit)
           start (fl_log files) db) (\<lambda>db. Inr (db, st)))"
  by (auto simp: recover_def recover_base_def Let_def and_then_assoc replay_validating_def
      replay_after_validating_def and_then_def split: sum.splits option.splits)

text \<open>The log is the entries \<open>es\<close>; it may be missing only before the first commit.\<close>

definition log_is :: "Codec \<Rightarrow> Files \<Rightarrow> entry list \<Rightarrow> bool" where
  "log_is cd files es \<longleftrightarrow> entries_ok (cd_to_vec cd) (cd_parse cd) es
     \<and> (fl_log files = Some (entries_bytes (cd_to_vec cd) es) \<or> fl_log files = None \<and> fl_meta files = None \<and> es = [])"

lemma replay_from_log:
  assumes "log_is cd files es" and "recover_base cd limit files = Inr (db0, start, st)"
  shows "replay_from (cd_to_vec cd) (cd_parse cd) validate start (fl_log files) db0
    = replay_entries (cd_to_vec cd) validate start es db0"
proof (cases "fl_log files")
  case None
  with assms have "es = []" "start = None" by (auto simp: log_is_def recover_base_def read_metadata_def)
  with None show ?thesis by (simp add: replay_from_def replay_entries_def replay_start_def replay_end_def)
next
  case (Some bytes)
  with assms(1) have "entries_ok (cd_to_vec cd) (cd_parse cd) es" "bytes = entries_bytes (cd_to_vec cd) es @ []"
    by (auto simp: log_is_def)
  with Some show ?thesis
    using replay_from_entries [of "cd_to_vec cd" "cd_parse cd" es "[]"] by (simp add: utf8_valid_def)
qed

text \<open>The files determine the database and the flush state.\<close>

definition durable :: "Codec \<Rightarrow> nat \<Rightarrow> Files \<Rightarrow> entry list \<Rightarrow> Database \<Rightarrow> SnapshotFlushState \<Rightarrow> bool" where
  "durable cd limit files es db st \<longleftrightarrow> log_is cd files es
     \<and> (\<exists>db0 start. recover_base cd limit files = Inr (db0, start, st)
          \<and> replay_entries (cd_to_vec cd) (validate_loaded_database_memory (cd_to_vec cd) limit) start es db0 = Inr db)
     \<and> (\<forall>b m. fl_meta files = Some b \<longrightarrow> cd_dec_meta cd b = Some m
          \<longrightarrow> sm_snapshot_file m = Some (snapshot_file_name (sm_generation m)))"

lemma durable_recover: "durable cd limit files es db st \<Longrightarrow> recover cd limit files = Inr (db, st)"
  by (auto simp: durable_def recover_eq replay_from_log)

lemma recover_base_generation:
  assumes "recover_base cd limit files = Inr (db0, start, st)" and "fl_meta files = Some b" and "cd_dec_meta cd b = Some m"
  shows "fs_generation st = sm_generation m"
  using assms by (auto simp: recover_base_def read_metadata_def Let_def and_then_Inr_iff)

lemma recover_base_cong:
  assumes "fl_meta files' = fl_meta files"
    and "\<And>b m. fl_meta files = Some b \<Longrightarrow> cd_dec_meta cd b = Some m \<Longrightarrow>
      (let name = (case sm_snapshot_file m of Some file \<Rightarrow> file | None \<Rightarrow> snapshot_json)
       in bt_get (fl_snapshots files') name = bt_get (fl_snapshots files) name)"
  shows "recover_base cd limit files' = recover_base cd limit files"
  using assms by (auto simp: recover_base_def read_metadata_def read_snapshot_def Let_def split: option.splits)

text \<open>The base the files give once the metadata points at a snapshot.\<close>

lemma recover_base_snapshot:
  assumes "fl_meta files = Some b" and "cd_dec_meta cd b = Some m" and "sm_snapshot_file m = Some name"
    and "bt_get (fl_snapshots files) name = Some c" and "cd_dec_db cd c = Some db"
    and "recompute_store_sizes (cd_to_vec cd) db = db" and "validate_loaded_database_memory (cd_to_vec cd) limit db = Inr ()"
  shows "recover_base cd limit files = Inr (db, if sm_log_compacted m then None else sm_last_transaction_id m,
    \<lparr>fs_dirty_writes = 0, fs_dirty_since = None, fs_generation = sm_generation m,
     fs_last_transaction_id = sm_last_transaction_id m\<rparr>)"
  using assms by (simp add: recover_base_def read_metadata_def read_snapshot_def)

subsection \<open>A committed transaction on disk\<close>

lemma durable_append:
  assumes "durable cd limit files es db st"
    and "apply_checked (cd_to_vec cd) (validate_loaded_database_memory (cd_to_vec cd) limit) ms db = (db', Inr ())"
    and "entries_ok (cd_to_vec cd) (cd_parse cd) [EBegin tx ms, ECommit tx]"
    and "fl_log files' = Some (log_bytes files @ entries_bytes (cd_to_vec cd) [EBegin tx ms, ECommit tx])"
    and "fl_meta files' = fl_meta files" and "fl_snapshots files' = fl_snapshots files"
  shows "durable cd limit files' (es @ [EBegin tx ms, ECommit tx]) db' st"
proof -
  have base: "recover_base cd limit files' = recover_base cd limit files"
    using assms(5,6) by (intro recover_base_cong) (simp_all add: Let_def)
  have "log_bytes files = entries_bytes (cd_to_vec cd) es"
    using assms(1) by (auto simp: durable_def log_is_def log_bytes_def)
  then have "log_is cd files' (es @ [EBegin tx ms, ECommit tx])"
    using assms(1,3,4) by (auto simp: durable_def log_is_def entries_ok_def)
  with assms(1,2,5) base show ?thesis
    by (auto simp: durable_def intro: replay_append_transaction)
qed

lemma durable_append_begin:
  assumes "durable cd limit files es db st"
    and "entries_ok (cd_to_vec cd) (cd_parse cd) [EBegin tx ms]"
    and "fl_log files' = Some (log_bytes files @ entries_bytes (cd_to_vec cd) [EBegin tx ms])"
    and "fl_meta files' = fl_meta files" and "fl_snapshots files' = fl_snapshots files"
  shows "durable cd limit files' (es @ [EBegin tx ms]) db st"
proof -
  have base: "recover_base cd limit files' = recover_base cd limit files"
    using assms(4,5) by (intro recover_base_cong) (simp_all add: Let_def)
  have "log_bytes files = entries_bytes (cd_to_vec cd) es"
    using assms(1) by (auto simp: durable_def log_is_def log_bytes_def)
  then have "log_is cd files' (es @ [EBegin tx ms])"
    using assms(1,2,3) by (auto simp: durable_def log_is_def entries_ok_def)
  with assms(1,4) base show ?thesis
    by (auto simp: durable_def intro: replay_append_begin)
qed

lemma apply_checked_commit:
  assumes "commit_candidate tv limits ms db = Inr c"
  shows "apply_checked tv (validate_loaded_database_memory tv (memory_limit_bytes limits)) ms db = (c, Inr ())"
  using assms
proof (induction ms arbitrary: db)
  case (Cons m ms)
  then obtain d where "commit_step tv limits db m = Inr d" and rest: "commit_candidate tv limits ms d = Inr c"
    by (auto simp: commit_candidate_def and_then_Inr_iff)
  then have "d = apply_to tv m db" and "estimate_database_bytes tv d \<le> memory_limit_bytes limits"
    by (auto simp: commit_step_def Let_def result_simps validate_memory_def)
  with Cons.IH [OF rest] show ?case by (simp add: validate_loaded_database_memory_def)
qed (simp add: commit_candidate_def)

lemma recompute_id:
  assumes "store_inv tv limits n db"
  shows "recompute_store_sizes tv db = db"
proof -
  have small: "estimate_database_bytes tv db < usize_max" and ok: "db_ok db" and ex: "sizes_exact tv db"
    using assms by (auto simp: store_inv_def)
  have "recompute_store_size tv im = im" if "bt_get (db_indexes db) name = Some im" for name im
  proof -
    have "size_exact tv im" using that ok ex by (auto simp: sizes_exact_def dest: bt_all_get)
    with store_size_less [OF small that] show ?thesis
      by (simp add: recompute_store_size_def size_exact_def estimate_index_bytes_min)
  qed
  then have "bt_map (recompute_store_size tv) (db_indexes db) = db_indexes db"
    using ok by (intro bt_ext) (auto simp: db_ok_def map_option_case split: option.splits)
  then show ?thesis by (simp add: recompute_store_sizes_def)
qed

lemma check_ok: "store_inv tv limits n db \<Longrightarrow> validate_loaded_database_memory tv (memory_limit_bytes limits) db = Inr ()"
  by (simp add: store_inv_def validate_loaded_database_memory_def Let_def)

subsection \<open>A flush\<close>

lemma snapshot_names [simp]:
  "snapshot_file_name m = snapshot_file_name n \<longleftrightarrow> m = n"
  "snapshot_file_name n \<noteq> snapshot_json" "snapshot_json \<noteq> snapshot_file_name n"
proof -
  show "snapshot_file_name m = snapshot_file_name n \<longleftrightarrow> m = n"
    by (simp add: snapshot_file_name_def)
  have "19 < length (snapshot_file_name n)"
    by (simp add: snapshot_file_name_def pad_nat_def Let_def)
  moreover have "length snapshot_json = 13" by (simp add: snapshot_json_def)
  ultimately have "length (snapshot_file_name n) \<noteq> length snapshot_json" by linarith
  then show "snapshot_file_name n \<noteq> snapshot_json" "snapshot_json \<noteq> snapshot_file_name n" by auto
qed

text \<open>What is assumed of the codecs of snapshots and metadata: what they write, they read back.\<close>

definition snapshot_codec_ok :: "Codec \<Rightarrow> Database \<Rightarrow> bool" where
  "snapshot_codec_ok cd db \<longleftrightarrow> (case cd_enc_db cd db of None \<Rightarrow> False | Some b \<Rightarrow> cd_dec_db cd b = Some db)"

definition metadata_codec_ok :: "Codec \<Rightarrow> SnapshotMetadata \<Rightarrow> bool" where
  "metadata_codec_ok cd m \<longleftrightarrow> (case cd_enc_meta cd m of None \<Rightarrow> False | Some b \<Rightarrow> cd_dec_meta cd b = Some m)"

definition flush_metadata :: "Codec \<Rightarrow> Env \<Rightarrow> Database \<Rightarrow> nat \<Rightarrow> string \<Rightarrow> bool \<Rightarrow> SnapshotMetadata" where
  "flush_metadata cd env db generation tx compacted =
     snapshot_metadata (cd_to_vec cd) (en_millis env) db generation (Some (snapshot_file_name generation)) (Some tx) compacted"

definition flush_codec_ok :: "Codec \<Rightarrow> Env \<Rightarrow> Database \<Rightarrow> nat \<Rightarrow> string \<Rightarrow> bool" where
  "flush_codec_ok cd env db generation tx \<longleftrightarrow> snapshot_codec_ok cd db
     \<and> metadata_codec_ok cd (flush_metadata cd env db generation tx False)
     \<and> metadata_codec_ok cd (flush_metadata cd env db generation tx True)
     \<and> codec_ok (cd_to_vec cd) (cd_parse cd) (marker_record tx)"

text \<open>The files once the metadata of the new generation is there.\<close>

definition flushed :: "Codec \<Rightarrow> Env \<Rightarrow> Database \<Rightarrow> nat \<Rightarrow> string \<Rightarrow> bool \<Rightarrow> entry list \<Rightarrow> Files \<Rightarrow> bool" where
  "flushed cd env db generation tx compacted es files \<longleftrightarrow>
     (\<exists>b c. fl_meta files = Some b \<and> cd_dec_meta cd b = Some (flush_metadata cd env db generation tx compacted)
        \<and> bt_get (fl_snapshots files) (snapshot_file_name generation) = Some c \<and> cd_dec_db cd c = Some db
        \<and> fl_log files = Some (entries_bytes (cd_to_vec cd) es) \<and> entries_ok (cd_to_vec cd) (cd_parse cd) es)"

lemma flushed_durable:
  assumes "flushed cd env db generation tx compacted es files"
    and "recompute_store_sizes (cd_to_vec cd) db = db" and "validate_loaded_database_memory (cd_to_vec cd) limit db = Inr ()"
    and "es = es0 @ [ECommit tx] \<and> fresh_in tx es0 \<and> \<not> compacted \<or> es = [EMarker tx]"
  shows "\<exists>st. durable cd limit files es db st \<and> fs_generation st = generation"
proof -
  obtain b c where f: "fl_meta files = Some b" "cd_dec_meta cd b = Some (flush_metadata cd env db generation tx compacted)"
    "bt_get (fl_snapshots files) (snapshot_file_name generation) = Some c" "cd_dec_db cd c = Some db"
    "fl_log files = Some (entries_bytes (cd_to_vec cd) es)" "entries_ok (cd_to_vec cd) (cd_parse cd) es"
    using assms(1) by (auto simp: flushed_def)
  have m: "sm_snapshot_file (flush_metadata cd env db generation tx compacted) = Some (snapshot_file_name generation)"
    "sm_generation (flush_metadata cd env db generation tx compacted) = generation"
    "sm_last_transaction_id (flush_metadata cd env db generation tx compacted) = Some tx"
    "sm_log_compacted (flush_metadata cd env db generation tx compacted) = compacted"
    by (simp_all add: flush_metadata_def snapshot_metadata_def)
  have base: "recover_base cd limit files = Inr (db, if compacted then None else Some tx,
      \<lparr>fs_dirty_writes = 0, fs_dirty_since = None, fs_generation = generation, fs_last_transaction_id = Some tx\<rparr>)"
    using recover_base_snapshot [OF f(1,2) m(1) f(3,4) assms(2,3)] by (simp only: m(2-4))
  have "replay_entries (cd_to_vec cd) (validate_loaded_database_memory (cd_to_vec cd) limit)
      (if compacted then None else Some tx) es db = Inr db"
    using assms(4) replay_after_last [of tx es0 "ECommit tx"] replay_after_last [of tx "[]" "EMarker tx"] replay_marker
    by (auto simp: fresh_in_def)
  with base f m show ?thesis by (auto simp: durable_def log_is_def)
qed

lemma flushed_other_snapshot:
  assumes "flushed cd env db generation tx compacted es files" and "name \<noteq> snapshot_file_name generation"
  shows "flushed cd env db generation tx compacted es (files\<lparr>fl_snapshots := bt_insert name bytes (fl_snapshots files)\<rparr>)"
  using assms by (auto simp: flushed_def)

lemma atomically_cases:
  "atomically io old new = (f, r) \<Longrightarrow> f = old \<and> r = Inl IoFailure \<or> f = new"
  by (cases io) (auto simp: atomically_def)

lemma atomically_ok: "atomically io old new = (f, Inr u) \<Longrightarrow> f = new"
  by (cases io) (auto simp: atomically_def)

lemma write_snapshot_cases:
  assumes "write_snapshot cd io name db files = (files', r)" and "snapshot_codec_ok cd db"
  shows "files' = files \<and> isl r \<or>
    (\<exists>c. files' = files\<lparr>fl_snapshots := bt_insert name c (fl_snapshots files)\<rparr> \<and> cd_dec_db cd c = Some db)"
  using assms by (auto simp: write_snapshot_def snapshot_codec_ok_def dest: atomically_cases split: option.splits)

lemma write_metadata_cases:
  assumes "write_metadata cd io m files = (files', r)" and "metadata_codec_ok cd m"
  shows "files' = files \<and> isl r \<or> (\<exists>b. files' = files\<lparr>fl_meta := Some b\<rparr> \<and> cd_dec_meta cd b = Some m)"
  using assms by (auto simp: write_metadata_def metadata_codec_ok_def dest: atomically_cases split: option.splits)

lemma durable_new_snapshot:
  assumes "durable cd limit files es db st" and "generation \<noteq> fs_generation st"
  shows "durable cd limit (files\<lparr>fl_snapshots := bt_insert (snapshot_file_name generation) c (fl_snapshots files)\<rparr>) es db st"
proof -
  obtain db0 start where base: "recover_base cd limit files = Inr (db0, start, st)"
    using assms(1) by (auto simp: durable_def)
  let ?files = "files\<lparr>fl_snapshots := bt_insert (snapshot_file_name generation) c (fl_snapshots files)\<rparr>"
  have "recover_base cd limit ?files = recover_base cd limit files"
  proof (rule recover_base_cong)
    fix b m
    assume bm: "fl_meta files = Some b" "cd_dec_meta cd b = Some m"
    with assms(1) have "sm_snapshot_file m = Some (snapshot_file_name (sm_generation m))" by (auto simp: durable_def)
    with recover_base_generation [OF base bm] assms(2)
    show "let name = (case sm_snapshot_file m of Some file \<Rightarrow> file | None \<Rightarrow> snapshot_json)
       in bt_get (fl_snapshots ?files) name = bt_get (fl_snapshots files) name" by simp
  qed simp
  with assms(1) show ?thesis by (auto simp: durable_def log_is_def)
qed

text \<open>The stages of a flush after the metadata is written.\<close>

lemma flushed_compaction:
  assumes "flushed cd env db generation tx False (es0 @ [ECommit tx]) files" and "fresh_in tx es0"
    and "codec_ok (cd_to_vec cd) (cd_parse cd) (marker_record tx)"
    and "compact_after (cd_to_vec cd) (cd_parse cd) io (Some tx) (fl_log files) = (wal, r)"
  shows "(flushed cd env db generation tx False (es0 @ [ECommit tx]) (files\<lparr>fl_log := wal\<rparr>) \<and> isl r)
    \<or> (flushed cd env db generation tx False [EMarker tx] (files\<lparr>fl_log := wal\<rparr>) \<and> (isl r \<or> r = Inr True))"
proof -
  have ok: "entries_ok (cd_to_vec cd) (cd_parse cd) (es0 @ [ECommit tx])"
    and bytes: "fl_log files = Some (entries_bytes (cd_to_vec cd) (es0 @ [ECommit tx]))"
    using assms(1) by (auto simp: flushed_def)
  have marker: "entries_ok (cd_to_vec cd) (cd_parse cd) [EMarker tx]"
    using assms(3) by (simp add: entries_ok_def)
  obtain wal' r' where at: "atomically io (fl_log files) (Some (entries_bytes (cd_to_vec cd) [EMarker tx])) = (wal', r')"
    by (cases "atomically io (fl_log files) (Some (entries_bytes (cd_to_vec cd) [EMarker tx]))")
  have res: "wal = wal'" "r = and_then r' (\<lambda>_. Inr True)"
    using assms(4) compact_after_last [OF ok assms(2,3), of io] at unfolding bytes by auto
  have "isl r \<or> r = Inr True" using res(2) by (cases r') auto
  with atomically_cases [OF at] res assms(1) marker show ?thesis
    by (auto simp: flushed_def)
qed

lemma flushed_end:
  assumes "flushed cd env db generation tx False [EMarker tx] files" and "flush_codec_ok cd env db generation tx"
    and "flush_after_compaction cd env db generation (Some tx) True files = (files', r)"
  shows "\<exists>c. flushed cd env db generation tx c [EMarker tx] files'"
proof -
  let ?meta = "flush_metadata cd env db generation tx True"
  obtain f1 r1 where w: "write_metadata cd (en_flush_io env 3) ?meta files = (f1, r1)"
    by (cases "write_metadata cd (en_flush_io env 3) ?meta files")
  have f1: "\<exists>c. flushed cd env db generation tx c [EMarker tx] f1"
    using write_metadata_cases [OF w] assms(1,2) by (auto simp: flush_codec_ok_def flushed_def)
  show ?thesis
  proof (cases r1)
    case (Inl e)
    with assms(3) w f1 show ?thesis by (simp add: flush_after_compaction_def flush_metadata_def)
  next
    case (Inr u)
    with assms(3) w have "write_snapshot cd (en_flush_io env 4) snapshot_json db f1 = (files', r)"
      by (simp add: flush_after_compaction_def flush_metadata_def)
    from write_snapshot_cases [OF this] assms(2) consider "files' = f1"
      | c where "files' = f1\<lparr>fl_snapshots := bt_insert snapshot_json c (fl_snapshots f1)\<rparr>"
      by (auto simp: flush_codec_ok_def)
    then show ?thesis
      using f1 flushed_other_snapshot [where name = snapshot_json] by cases (blast, fastforce)
  qed
qed

lemma flushed_rest:
  assumes "flushed cd env db generation tx False (es0 @ [ECommit tx]) files" and "fresh_in tx es0"
    and "flush_codec_ok cd env db generation tx"
    and "flush_after_metadata cd env db generation (Some tx) files = (files', r)"
  shows "flushed cd env db generation tx False (es0 @ [ECommit tx]) files'
    \<or> (\<exists>c. flushed cd env db generation tx c [EMarker tx] files')"
proof -
  obtain wal r1 where c: "compact_after (cd_to_vec cd) (cd_parse cd) (en_flush_io env 2) (Some tx) (fl_log files) = (wal, r1)"
    by (cases "compact_after (cd_to_vec cd) (cd_parse cd) (en_flush_io env 2) (Some tx) (fl_log files)")
  have "codec_ok (cd_to_vec cd) (cd_parse cd) (marker_record tx)"
    using assms(3) by (simp add: flush_codec_ok_def)
  note compacted = flushed_compaction [OF assms(1,2) this c]
  show ?thesis
  proof (cases "isl r1")
    case True
    with assms(4) c have "files' = files\<lparr>fl_log := wal\<rparr>"
      by (auto simp: flush_after_metadata_def split: sum.splits)
    with compacted show ?thesis by auto
  next
    case False
    with compacted have "flushed cd env db generation tx False [EMarker tx] (files\<lparr>fl_log := wal\<rparr>)" "r1 = Inr True"
      by auto
    with assms(3,4) c flushed_end show ?thesis by (simp add: flush_after_metadata_def)
  qed
qed

lemma flush_safe:
  assumes dur: "durable cd limit files (es0 @ [ECommit tx]) db st" and fresh: "fresh_in tx es0"
    and rec: "recompute_store_sizes (cd_to_vec cd) db = db"
    and chk: "validate_loaded_database_memory (cd_to_vec cd) limit db = Inr ()"
    and gen: "generation \<noteq> fs_generation st" and codec: "flush_codec_ok cd env db generation tx"
    and run: "write_snapshot_generation cd env db generation (Some tx) files = (files', r)"
  shows "\<exists>es st'. durable cd limit files' es db st' \<and> (es = es0 @ [ECommit tx] \<or> es = [EMarker tx])
    \<and> (fs_generation st' = generation \<or> fs_generation st' = fs_generation st \<and> isl r)"
proof -
  let ?es = "es0 @ [ECommit tx]" and ?file = "snapshot_file_name generation"
    and ?meta = "flush_metadata cd env db generation tx False"
  note cod = codec [unfolded flush_codec_ok_def]
  have fin: ?thesis if "flushed cd env db generation tx False ?es files' \<or> (\<exists>c. flushed cd env db generation tx c [EMarker tx] files')"
    using that flushed_durable [OF _ rec chk] fresh by blast
  obtain f1 r1 where w1: "write_snapshot cd (en_flush_io env 0) ?file db files = (f1, r1)"
    by (cases "write_snapshot cd (en_flush_io env 0) ?file db files")
  obtain f2 r2 where w2: "write_metadata cd (en_flush_io env 1) ?meta f1 = (f2, r2)"
    by (cases "write_metadata cd (en_flush_io env 1) ?meta f1")
  have f1: "durable cd limit f1 ?es db st" "\<not> isl r1 \<Longrightarrow>
      \<exists>c. bt_get (fl_snapshots f1) ?file = Some c \<and> cd_dec_db cd c = Some db"
    using write_snapshot_cases [OF w1] cod dur durable_new_snapshot [OF dur gen] by auto
  have f2: "f2 = f1 \<and> isl r2 \<or> flushed cd env db generation tx False ?es f2" if "\<not> isl r1"
    using write_metadata_cases [OF w2] cod f1(1) f1(2) [OF that] by (auto simp: flushed_def durable_def log_is_def)
  show ?thesis
  proof (cases "isl r1")
    case True
    with run w1 f1(1) have "durable cd limit files' ?es db st" "isl r"
      by (auto simp: write_snapshot_generation_def Let_def split: sum.splits)
    then show ?thesis by blast
  next
    case False
    show ?thesis
    proof (cases "isl r2")
      case True
      with run w1 w2 False have "files' = f2" "isl r"
        by (auto simp: write_snapshot_generation_def Let_def flush_metadata_def split: sum.splits)
      with f2 [OF False] f1(1) fin show ?thesis by blast
    next
      case r2: False
      with run w1 w2 False have "flush_after_metadata cd env db generation (Some tx) f2 = (files', r)"
        by (auto simp: write_snapshot_generation_def Let_def flush_metadata_def split: sum.splits)
      with f2 [OF False] r2 flushed_rest [OF _ fresh codec] fin show ?thesis by blast
    qed
  qed
qed

text \<open>A flush whose writes all succeed, and one whose first write fails.\<close>

lemma flush_written:
  assumes "fl_log files = Some (entries_bytes (cd_to_vec cd) (es0 @ [ECommit tx]))"
    and "entries_ok (cd_to_vec cd) (cd_parse cd) (es0 @ [ECommit tx])" and "fresh_in tx es0"
    and "flush_codec_ok cd env db generation tx" and "\<forall>k. en_flush_io env k = Written"
  shows "snd (write_snapshot_generation cd env db generation (Some tx) files) = Inr ()"
proof -
  have cod: "snapshot_codec_ok cd db" "metadata_codec_ok cd (flush_metadata cd env db generation tx False)"
    "metadata_codec_ok cd (flush_metadata cd env db generation tx True)"
    "codec_ok (cd_to_vec cd) (cd_parse cd) (marker_record tx)"
    using assms(4) by (auto simp: flush_codec_ok_def)
  have snap: "\<exists>files'. write_snapshot cd Written name db files = (files', Inr ()) \<and> fl_log files' = fl_log files" for name files
    using cod(1) by (auto simp: write_snapshot_def snapshot_codec_ok_def atomically_def split: option.splits)
  have meta: "\<exists>files'. write_metadata cd Written (flush_metadata cd env db generation tx c) files = (files', Inr ())
      \<and> fl_log files' = fl_log files" for c files
    using cod(2,3) by (cases c) (auto simp: write_metadata_def metadata_codec_ok_def atomically_def split: option.splits)
  have comp: "compact_after (cd_to_vec cd) (cd_parse cd) Written (Some tx) (fl_log files)
      = (Some (entries_bytes (cd_to_vec cd) [EMarker tx]), Inr True)"
    unfolding assms(1) compact_after_last [OF assms(2,3) cod(4)] by (simp add: atomically_def)
  obtain f1 where f1: "write_snapshot cd Written (snapshot_file_name generation) db files = (f1, Inr ())" "fl_log f1 = fl_log files"
    using snap by blast
  obtain f2 where f2: "write_metadata cd Written (flush_metadata cd env db generation tx False) f1 = (f2, Inr ())" "fl_log f2 = fl_log f1"
    using meta by blast
  let ?f3 = "f2\<lparr>fl_log := Some (entries_bytes (cd_to_vec cd) [EMarker tx])\<rparr>"
  obtain f4 where f4: "write_metadata cd Written (flush_metadata cd env db generation tx True) ?f3 = (f4, Inr ())"
    using meta by blast
  obtain f5 where f5: "write_snapshot cd Written snapshot_json db f4 = (f5, Inr ())"
    using snap by blast
  show ?thesis
    using f1 f2 f4 f5 comp assms(5)
    by (simp add: write_snapshot_generation_def flush_after_metadata_def flush_after_compaction_def
        flush_metadata_def Let_def)
qed

lemma flush_first_failed:
  assumes "durable cd limit files es db st" and "generation \<noteq> fs_generation st"
    and "en_flush_io env 0 \<noteq> Written"
    and "write_snapshot_generation cd env db generation tx files = (files', r)"
  shows "durable cd limit files' es db st \<and> isl r"
proof -
  have "\<exists>c. (files' = files \<or> files' = files\<lparr>fl_snapshots := bt_insert (snapshot_file_name generation) c (fl_snapshots files)\<rparr>) \<and> isl r"
    using assms(3,4) by (cases "en_flush_io env 0")
      (auto simp: write_snapshot_generation_def write_snapshot_def atomically_def Let_def split: option.splits)
  with assms(1) durable_new_snapshot [OF assms(1,2)] show ?thesis by auto
qed

subsection \<open>The running store\<close>

definition tx_unused :: "Codec \<Rightarrow> Files \<Rightarrow> string \<Rightarrow> bool" where
  "tx_unused cd files tx \<longleftrightarrow> list_all (\<lambda>l. \<not> is_commit_record_for (cd_parse cd) (trim_line_end l) tx
     \<and> \<not> is_compaction_marker_for (cd_parse cd) (trim_line_end l) tx) (log_lines (log_bytes files))"

text \<open>
  What is assumed of the surroundings of a commit: the codecs round-trip what it writes, the
  transaction id was not used in the log, and the counters are far from their maximum.
\<close>

definition commit_env_ok :: "Setup \<Rightarrow> Env \<Rightarrow> Mutation list \<Rightarrow> Database \<Rightarrow> Store \<Rightarrow> bool" where
  "commit_env_ok su env ms candidate s \<longleftrightarrow>
     entries_ok (su_tv su) (su_parse su) [EBegin (en_tx env) ms, ECommit (en_tx env)]
     \<and> flush_codec_ok (su_codec su) env candidate (fs_generation (st_flush s) + 1) (en_tx env)
     \<and> tx_unused (su_codec su) (st_files s) (en_tx env)
     \<and> fs_generation (st_flush s) + 1 < 2 ^ 64 \<and> db_seq_no (st_db s) + length ms < 2 ^ 64
     \<and> list_all client_mutation ms"

definition running :: "Setup \<Rightarrow> Store \<Rightarrow> bool" where
  "running su s \<longleftrightarrow> \<not> st_ephemeral s \<and> store_inv (su_tv su) (su_limits su) 0 (st_db s)
     \<and> (\<exists>es st. durable (su_codec su) (su_limit su) (st_files s) es (st_db s) st
          \<and> fs_generation st = fs_generation (st_flush s))"

lemma tx_unused_fresh:
  assumes "log_is cd files es" and "tx_unused cd files tx"
  shows "fresh_in tx es"
proof -
  have ok: "entries_ok (cd_to_vec cd) (cd_parse cd) es" and "log_bytes files = entries_bytes (cd_to_vec cd) es"
    using assms(1) by (auto simp: log_is_def log_bytes_def)
  then have "list_all (\<lambda>e. \<not> is_commit_record_for (cd_parse cd) (trim_line_end (entry_text (cd_to_vec cd) e @ [CHR 0x0A])) tx
     \<and> \<not> is_compaction_marker_for (cd_parse cd) (trim_line_end (entry_text (cd_to_vec cd) e @ [CHR 0x0A])) tx) es"
    using assms(2) log_lines_entries [OF ok, of "[]"] by (simp add: tx_unused_def list_all_iff)
  moreover have "is_commit_record_for (cd_parse cd) (trim_line_end (entry_text (cd_to_vec cd) e @ [CHR 0x0A])) tx = (e = ECommit tx)
     \<and> is_compaction_marker_for (cd_parse cd) (trim_line_end (entry_text (cd_to_vec cd) e @ [CHR 0x0A])) tx = (e = EMarker tx)"
    if "e \<in> set es" for e
  proof -
    have "text_ok (cd_parse cd) (entry_json e) (entry_text (cd_to_vec cd) e)"
      using that ok by (auto simp: entries_ok_def list_all_iff intro: codec_ok_text)
    note line = text_ok_line [OF this]
    show ?thesis using commit_record_iff [of "cd_parse cd", OF line(6), of tx] line(4) by simp
  qed
  ultimately show ?thesis by (simp add: fresh_in_def list_all_iff)
qed

lemma fresh_in_append_begin: "fresh_in tx es \<Longrightarrow> fresh_in tx (es @ [EBegin tx ms])"
  by (simp add: fresh_in_def)

lemma store_inv_budget:
  "store_inv tv limits 0 db \<Longrightarrow> db_seq_no db + n < 2 ^ 64 \<Longrightarrow> store_inv tv limits n db"
  by (simp add: store_inv_def)

lemma candidate_inv:
  assumes "running su s" and "commit_env_ok su env ms candidate s"
    and "commit_candidate (su_tv su) (su_limits su) ms (st_db s) = Inr candidate"
  shows "store_inv (su_tv su) (su_limits su) 0 candidate"
proof -
  have "store_inv (su_tv su) (su_limits su) (length ms + 0) (st_db s)"
    using assms(1,2) by (auto simp: running_def commit_env_ok_def intro: store_inv_budget)
  with assms(2,3) show ?thesis
    using committing.run_all_inv unfolding commit_candidate_def commit_step_run1 commit_env_ok_def by blast
qed

text \<open>The log after both records of a transaction, or after the first.\<close>

lemma append_begin_eq:
  assumes "entries_ok (cd_to_vec cd) (cd_parse cd) [EBegin (en_tx env) ms]"
  shows "append_begin cd env ms files = (case en_begin_io env of
      None \<Rightarrow> (files\<lparr>fl_log := Some (log_bytes files @ entries_bytes (cd_to_vec cd) [EBegin (en_tx env) ms])\<rparr>, Inr ())
    | Some k \<Rightarrow> (files\<lparr>fl_log := Some (log_bytes files @ take k (entries_bytes (cd_to_vec cd) [EBegin (en_tx env) ms]))\<rparr>, Inl IoFailure))"
proof -
  obtain t where "cd_to_vec cd (begin_record (en_tx env) ms) = Some t"
    using assms by (auto simp: entries_ok_def codec_ok_def split: option.splits)
  then show ?thesis
    by (simp add: append_begin_def append_transaction_begin_def append_json_record_def entry_text_def split: option.splits)
qed

lemma append_commit_eq:
  assumes "entries_ok (cd_to_vec cd) (cd_parse cd) [ECommit (en_tx env)]"
  shows "append_commit cd env files = (case en_commit_io env of
      None \<Rightarrow> (files\<lparr>fl_log := Some (log_bytes files @ entries_bytes (cd_to_vec cd) [ECommit (en_tx env)])\<rparr>, Inr ())
    | Some k \<Rightarrow> (files\<lparr>fl_log := Some (log_bytes files @ take k (entries_bytes (cd_to_vec cd) [ECommit (en_tx env)]))\<rparr>, Inl IoFailure))"
proof -
  obtain t where "cd_to_vec cd (commit_record (en_tx env)) = Some t"
    using assms by (auto simp: entries_ok_def codec_ok_def split: option.splits)
  then show ?thesis
    by (simp add: append_commit_def append_transaction_commit_def append_json_record_def entry_text_def split: option.splits)
qed

text \<open>A transaction both of whose records are written: the files before the flush.\<close>

lemma committed_files:
  assumes "running su s" and "commit_env_ok su env ms candidate s"
    and "commit_candidate (su_tv su) (su_limits su) ms (st_db s) = Inr candidate"
    and "en_begin_io env = None" and "en_commit_io env = None"
  obtains files es0 st where "append_committed_transaction (su_codec su) env candidate ms s
      = (s\<lparr>st_files := files, st_db := candidate\<rparr>, Inr (en_tx env))"
    and "durable (su_codec su) (su_limit su) files (es0 @ [ECommit (en_tx env)]) candidate st"
    and "fresh_in (en_tx env) es0" and "fs_generation st = fs_generation (st_flush s)"
proof -
  obtain es st where dur: "durable (su_codec su) (su_limit su) (st_files s) es (st_db s) st"
    and gen: "fs_generation st = fs_generation (st_flush s)"
    using assms(1) by (auto simp: running_def)
  have ok: "entries_ok (su_tv su) (su_parse su) [EBegin (en_tx env) ms, ECommit (en_tx env)]"
    and ok1: "entries_ok (su_tv su) (su_parse su) [EBegin (en_tx env) ms]"
    and ok2: "entries_ok (su_tv su) (su_parse su) [ECommit (en_tx env)]"
    using assms(2) by (auto simp: commit_env_ok_def entries_ok_def)
  let ?files = "st_files s\<lparr>fl_log := Some (log_bytes (st_files s)
      @ entries_bytes (su_tv su) [EBegin (en_tx env) ms, ECommit (en_tx env)])\<rparr>"
  have run: "append_committed_transaction (su_codec su) env candidate ms s
      = (s\<lparr>st_files := ?files, st_db := candidate\<rparr>, Inr (en_tx env))"
    using assms(4,5) append_begin_eq [OF ok1] append_commit_eq [OF ok2]
    by (simp add: append_committed_transaction_def Let_def log_bytes_def)
  have "durable (su_codec su) (su_limit su) ?files (es @ [EBegin (en_tx env) ms, ECommit (en_tx env)]) candidate st"
    by (rule durable_append [OF dur apply_checked_commit [OF assms(3)] ok]) simp_all
  then have dur': "durable (su_codec su) (su_limit su) ?files ((es @ [EBegin (en_tx env) ms]) @ [ECommit (en_tx env)]) candidate st"
    by simp
  have "fresh_in (en_tx env) es"
    using dur assms(2) tx_unused_fresh by (auto simp: durable_def commit_env_ok_def)
  from that [OF run dur' fresh_in_append_begin [OF this] gen] show thesis .
qed

text \<open>After the flush that may follow, for any outcome of its writes.\<close>

definition flush_may_continue :: "Env \<Rightarrow> bool" where
  "flush_may_continue env \<longleftrightarrow> (\<forall>k. en_flush_io env k = Written) \<or> en_flush_io env 0 \<noteq> Written"

lemma after_committed_cases:
  assumes "fs_generation (st_flush s) + 1 < 2 ^ 64"
  obtains (kept) "st_files (after_committed_transaction su env db (Some tx) n s) = st_files s"
      "fs_generation (st_flush (after_committed_transaction su env db (Some tx) n s)) = fs_generation (st_flush s)"
  | (flushed) files r where
      "write_snapshot_generation (su_codec su) env db (fs_generation (st_flush s) + 1) (Some tx) (st_files s) = (files, r)"
      "st_files (after_committed_transaction su env db (Some tx) n s) = files"
      "fs_generation (st_flush (after_committed_transaction su env db (Some tx) n s))
        = (if isl r then fs_generation (st_flush s) else fs_generation (st_flush s) + 1)"
proof -
  obtain files r where w:
    "write_snapshot_generation (su_codec su) env db (fs_generation (st_flush s) + 1) (Some tx) (st_files s) = (files, r)"
    by (cases "write_snapshot_generation (su_codec su) env db (fs_generation (st_flush s) + 1) (Some tx) (st_files s)")
  let ?st = "mark_dirty (en_now env) (Some tx) n (st_flush s)"
  have st: "next_generation ?st = fs_generation (st_flush s) + 1" "fs_generation ?st = fs_generation (st_flush s)"
    "fs_last_transaction_id ?st = Some tx"
    using assms by (auto simp: next_generation_def mark_dirty_def)
  show thesis
  proof (cases "st_ephemeral s \<or> \<not> flush_due (su_policy su) (en_now env) ?st")
    case True
    then show thesis by (intro kept) (auto simp: after_committed_transaction_def Let_def st)
  next
    case False
    with w st have "after_committed_transaction su env db (Some tx) n s
        = (case r of Inl _ \<Rightarrow> s\<lparr>st_files := files, st_flush := ?st\<rparr>
           | Inr _ \<Rightarrow> s\<lparr>st_files := files, st_flush := ?st\<lparr>fs_generation := fs_generation (st_flush s) + 1,
                fs_dirty_writes := 0, fs_dirty_since := None\<rparr>\<rparr>)"
      by (simp add: after_committed_transaction_def Let_def split: sum.splits)
    then show thesis by (intro flushed [OF w]; cases r) (simp_all add: st)
  qed
qed

lemma after_committed_db [simp]:
  "st_db (after_committed_transaction su env db tx n s) = st_db s"
  "st_ephemeral (after_committed_transaction su env db tx n s) = st_ephemeral s"
  by (simp_all add: after_committed_transaction_def Let_def split: prod.splits sum.splits)

lemma after_commit_durable:
  assumes "durable (su_codec su) (su_limit su) (st_files s) (es0 @ [ECommit (en_tx env)]) db st"
    and "fresh_in (en_tx env) es0" and "fs_generation st = fs_generation (st_flush s)"
    and "flush_codec_ok (su_codec su) env db (fs_generation (st_flush s) + 1) (en_tx env)"
    and "fs_generation (st_flush s) + 1 < 2 ^ 64" and "store_inv (su_tv su) (su_limits su) 0 db"
    and "after_committed_transaction su env db (Some (en_tx env)) n s = s'"
  shows "(\<exists>es st'. durable (su_codec su) (su_limit su) (st_files s') es db st'
      \<and> (flush_may_continue env \<longrightarrow> fs_generation st' = fs_generation (st_flush s')))
    \<and> st_db s' = st_db s \<and> st_ephemeral s' = st_ephemeral s"
  using assms(5)
proof (cases rule: after_committed_cases [of s su env db "en_tx env" n])
  case kept
  with assms(1,3,7) show ?thesis by auto
next
  case (flushed files r)
  let ?gen = "fs_generation (st_flush s) + 1"
  have s': "st_files s' = files" "st_db s' = st_db s" "st_ephemeral s' = st_ephemeral s"
    "fs_generation (st_flush s') = (if isl r then fs_generation (st_flush s) else ?gen)"
    using assms(7) flushed by auto
  have rec: "recompute_store_sizes (su_tv su) db = db" using assms(6) by (rule recompute_id)
  have chk: "su_check su db = Inr ()" using assms(6) by (rule check_ok)
  have new: "?gen \<noteq> fs_generation st" using assms(3) by simp
  from flush_safe [OF assms(1,2) rec chk new assms(4) flushed(1)]
  obtain es st' where dur: "durable (su_codec su) (su_limit su) files es db st'"
    and gen: "fs_generation st' = ?gen \<or> fs_generation st' = fs_generation st \<and> isl r" by blast
  consider (all) "\<forall>k. en_flush_io env k = Written" | (first) "en_flush_io env 0 \<noteq> Written" | (no) "\<not> flush_may_continue env"
    by (auto simp: flush_may_continue_def)
  then show ?thesis
  proof cases
    case all
    have "\<not> isl r"
      using flush_written [OF _ _ assms(2,4) all, of "st_files s"] assms(1) flushed(1) by (auto simp: durable_def log_is_def)
    with dur gen s' show ?thesis by auto
  next
    case first
    from flush_first_failed [OF assms(1) new first flushed(1)] s' assms(3) show ?thesis by auto
  next
    case no
    with dur s' show ?thesis by auto
  qed
qed

subsection \<open>Commits keep the store recoverable\<close>

lemma commit_success_io:
  assumes "commit_transaction su env candidate ms s = (s', Inr ())" and "\<not> st_ephemeral s"
    and "entries_ok (su_tv su) (su_parse su) [EBegin (en_tx env) ms, ECommit (en_tx env)]"
  shows "en_begin_io env = None" and "en_commit_io env = None"
proof -
  have ok1: "entries_ok (su_tv su) (su_parse su) [EBegin (en_tx env) ms]"
    and ok2: "entries_ok (su_tv su) (su_parse su) [ECommit (en_tx env)]"
    using assms(3) by (auto simp: entries_ok_def)
  show "en_begin_io env = None" "en_commit_io env = None"
    using assms(1,2) append_begin_eq [OF ok1] append_commit_eq [OF ok2]
    by (auto simp: commit_transaction_def append_committed_transaction_def Let_def split: option.splits)
qed

text \<open>A commit that reports success, whatever its flush does.\<close>

lemma commit_durable:
  assumes "running su s" and "commit_env_ok su env ms candidate s"
    and "commit_candidate (su_tv su) (su_limits su) ms (st_db s) = Inr candidate"
    and "commit_transaction su env candidate ms s = (s', Inr ())"
  shows "(\<exists>es st. durable (su_codec su) (su_limit su) (st_files s') es candidate st
      \<and> (flush_may_continue env \<longrightarrow> fs_generation st = fs_generation (st_flush s')))
    \<and> st_db s' = candidate \<and> \<not> st_ephemeral s'"
proof -
  have eph: "\<not> st_ephemeral s" using assms(1) by (simp add: running_def)
  have io: "en_begin_io env = None" "en_commit_io env = None"
    using commit_success_io [OF assms(4) eph] assms(2) by (auto simp: commit_env_ok_def)
  obtain files es0 st where app: "append_committed_transaction (su_codec su) env candidate ms s
      = (s\<lparr>st_files := files, st_db := candidate\<rparr>, Inr (en_tx env))"
    and dur: "durable (su_codec su) (su_limit su) files (es0 @ [ECommit (en_tx env)]) candidate st"
    and fresh: "fresh_in (en_tx env) es0" and gen: "fs_generation st = fs_generation (st_flush s)"
    by (rule committed_files [OF assms(1-3) io])
  let ?s = "s\<lparr>st_files := files, st_db := candidate\<rparr>"
  have s': "after_committed_transaction su env candidate (Some (en_tx env)) (length ms) ?s = s'"
    using assms(4) eph app by (simp add: commit_transaction_def)
  have inv: "store_inv (su_tv su) (su_limits su) 0 candidate"
    by (rule candidate_inv [OF assms(1-3)])
  have fc: "flush_codec_ok (su_codec su) env candidate (fs_generation (st_flush ?s) + 1) (en_tx env)"
    and lt: "fs_generation (st_flush ?s) + 1 < 2 ^ 64"
    using assms(2) by (simp_all add: commit_env_ok_def)
  have dur': "durable (su_codec su) (su_limit su) (st_files ?s) (es0 @ [ECommit (en_tx env)]) candidate st"
    and gen': "fs_generation st = fs_generation (st_flush ?s)"
    using dur gen by simp_all
  from after_commit_durable [OF dur' fresh gen' fc lt inv s'] eph show ?thesis by simp
qed

lemma commit_recoverable:
  assumes "running su s" and "commit_env_ok su env ms candidate s"
    and "commit_candidate (su_tv su) (su_limits su) ms (st_db s) = Inr candidate"
    and "commit_transaction su env candidate ms s = (s', Inr ())"
  shows "st_db s' = candidate \<and> (\<exists>st. recover (su_codec su) (su_limit su) (st_files s') = Inr (candidate, st))
    \<and> (flush_may_continue env \<longrightarrow> running su s')"
proof -
  from commit_durable [OF assms] obtain es st where
    dur: "durable (su_codec su) (su_limit su) (st_files s') es candidate st"
    and rest: "flush_may_continue env \<longrightarrow> fs_generation st = fs_generation (st_flush s')"
      "st_db s' = candidate" "\<not> st_ephemeral s'"
    by blast
  from candidate_inv [OF assms(1-3)] dur rest durable_recover [OF dur] show ?thesis
    unfolding running_def by blast
qed

text \<open>A commit that fails because a record could not be written, no byte of the failing record
  having reached the file.\<close>

lemma commit_refused_running:
  assumes "running su s" and "commit_env_ok su env ms candidate s"
    and "en_begin_io env = Some 0 \<or> en_begin_io env = None \<and> en_commit_io env = Some 0"
    and "commit_transaction su env candidate ms s = (s', r)"
  shows "running su s' \<and> st_db s' = st_db s \<and> isl r"
proof -
  obtain es st where dur: "durable (su_codec su) (su_limit su) (st_files s) es (st_db s) st"
    and gen: "fs_generation st = fs_generation (st_flush s)"
    using assms(1) by (auto simp: running_def)
  have ok1: "entries_ok (su_tv su) (su_parse su) [EBegin (en_tx env) ms]"
    and ok2: "entries_ok (su_tv su) (su_parse su) [ECommit (en_tx env)]"
    using assms(2) by (auto simp: commit_env_ok_def entries_ok_def)
  have log0: "durable (su_codec su) (su_limit su) (st_files s\<lparr>fl_log := Some (log_bytes (st_files s))\<rparr>) es (st_db s) st"
  proof -
    have "recover_base (su_codec su) (su_limit su) (st_files s\<lparr>fl_log := Some (log_bytes (st_files s))\<rparr>)
        = recover_base (su_codec su) (su_limit su) (st_files s)"
      by (rule recover_base_cong) (simp_all add: Let_def)
    with dur show ?thesis by (auto simp: durable_def log_is_def log_bytes_def)
  qed
  have log1: "durable (su_codec su) (su_limit su) (st_files s\<lparr>fl_log := Some (log_bytes (st_files s)
      @ entries_bytes (su_tv su) [EBegin (en_tx env) ms])\<rparr>) (es @ [EBegin (en_tx env) ms]) (st_db s) st"
    by (rule durable_append_begin [OF dur ok1]) simp_all
  have inv: "store_inv (su_tv su) (su_limits su) 0 (st_db s)" and eph: "\<not> st_ephemeral s"
    using assms(1) by (auto simp: running_def)
  from assms(3) consider (begins) "en_begin_io env = Some 0" | (commits) "en_begin_io env = None" "en_commit_io env = Some 0"
    by (elim disjE conjE)
  then show ?thesis
  proof cases
    case begins
    with assms(4) eph append_begin_eq [OF ok1]
    have s': "s' = s\<lparr>st_files := st_files s\<lparr>fl_log := Some (log_bytes (st_files s))\<rparr>\<rparr>" "isl r"
      by (auto simp: commit_transaction_def append_committed_transaction_def Let_def)
    show ?thesis unfolding running_def s'(1) using log0 gen inv eph s'(2) by auto
  next
    case commits
    with assms(4) eph append_begin_eq [OF ok1] append_commit_eq [OF ok2]
    have s': "s' = s\<lparr>st_files := st_files s\<lparr>fl_log := Some (log_bytes (st_files s)
        @ entries_bytes (su_tv su) [EBegin (en_tx env) ms])\<rparr>\<rparr>" "isl r"
      by (auto simp: commit_transaction_def append_committed_transaction_def Let_def log_bytes_def)
    show ?thesis unfolding running_def s'(1) using log1 gen inv eph s'(2) by auto
  qed
qed

end
