(* ===== verification/Reachable.thy ===== *)
theory Reachable
  imports Recovery
begin

section \<open>The states a store reaches\<close>

text \<open>
  The writes of the store, single mutations, bulk requests and atomic writes, are all commits of a
  batch of mutations, so that \<open>commit_durable\<close> covers them. The states that are reached from an
  empty directory by these writes, failed writes, crashes and restarts are an inductive relation, and
  in all of them the data directory recovers to the database in memory.
\<close>

subsection \<open>Bulk and atomic writes are commits\<close>

lemma commit_candidate_append:
  "commit_candidate tv limits ms db = Inr db1 \<Longrightarrow> commit_candidate tv limits (ms @ ms') db = commit_candidate tv limits ms' db1"
  by (simp add: commit_candidate_def fold_res_append)

text \<open>The price of a bulk mutation admits no more than the measure of its result does.\<close>

lemma bulk_guard_commit:
  assumes "store_inv tv limits (Suc n) db" and "client_mutation m" and "bulk_guard tv limits db m = Inr ()"
  shows "commit_step tv limits db m = Inr (apply_to tv m db)"
  using bulk_guard_validate [OF assms(3)] bulk_guard_price [OF assms(1,3)]
  by (simp add: commit_step_def validate_memory_def validate_memory_bytes_def Let_def)

lemma run_mutations_commit:
  assumes "run_mutations tv limits ms db = (db', Inr ())" and "store_inv tv limits (length ms) db"
    and "list_all client_mutation ms"
  shows "commit_candidate tv limits ms db = Inr db'"
  using assms unfolding run_mutations_until
proof (induction ms arbitrary: db)
  case (Cons m ms)
  then have guard: "bulk_guard tv limits db m = Inr ()" and client: "client_mutation m"
    by (auto split: sum.splits)
  from Cons.prems(2) have inv: "store_inv tv limits (Suc (length ms)) db" by simp
  from bulk_guard_commit [OF inv client guard] bulk_guard_step [OF inv client guard] Cons guard
  show ?case by (simp add: commit_candidate_def)
qed (simp add: commit_candidate_def)

lemma bulk_operation_commit:
  assumes "bulk_operation tv limits op db = (db', Inr (ms, outcome))" and "store_inv tv limits 2 db" and "operation_ok op"
  shows "commit_candidate tv limits ms db = Inr db' \<and> list_all client_mutation ms \<and> length ms \<le> 2"
proof -
  obtain p u where p: "prepare_write_operation db op = Inr p" "ms = pw_mutations p"
    and run: "run_mutations tv limits ms db = (db', Inr u)"
    using assms(1) by (auto simp: bulk_operation_def and_then_Inr_iff split: sum.splits prod.splits)
  have "db_ok db" using assms(2) by (simp add: store_inv_def)
  from prepared_mutations [OF this assms(3) p(1)] p(2)
  have ms: "list_all client_mutation ms" "length ms \<le> 2" by auto
  then have "store_inv tv limits (length ms) db"
    using assms(2) bulking.inv_mono [of tv limits "2 - length ms" "length ms" db] by simp
  from run_mutations_commit [OF _ this ms(1)] run ms show ?thesis by simp
qed

lemma bulk_loop_grows:
  "bulk_loop tv limits ops d c res = (db', committed', results') \<Longrightarrow> \<exists>more. results' = res @ more"
  by (induction ops arbitrary: d c res) (auto split: prod.splits sum.splits, metis append_assoc, metis append_assoc)

text \<open>A bulk request in which a failed operation leaves nothing behind.\<close>

definition clean_bulk :: "WriteOperation list \<Rightarrow> Database \<Rightarrow> WriteOutcome store_result list \<Rightarrow> bool" where
  "clean_bulk ops db results \<longleftrightarrow>
     list_all (\<lambda>op. resolve_index db (op_index op) \<noteq> None) ops \<or> list_all (\<lambda>r. \<not> isl r) results"

lemma bulk_loop_commit:
  assumes "bulk_loop tv limits ops db committed results = (db', committed', results')"
    and "commit_candidate tv limits committed before = Inr db" and "list_all client_mutation committed"
    and "store_inv tv limits (2 * length ops) db" and "list_all operation_ok ops" and "clean_bulk ops db results'"
  shows "commit_candidate tv limits committed' before = Inr db' \<and> list_all client_mutation committed'"
  using assms
proof (induction ops arbitrary: db committed results)
  case (Cons op ops)
  obtain db1 r where step: "bulk_operation tv limits op db = (db1, r)" by (cases "bulk_operation tv limits op db")
  have inv: "store_inv tv limits (2 * length ops) db1"
    using bulk_operation_inv [of tv limits "2 * length ops" db op] Cons.prems(4,5) step by simp
  have two: "store_inv tv limits 2 db"
    using Cons.prems(4) bulking.inv_mono [of tv limits "2 * length ops" 2 db] by simp
  have "resolve_index db1 x \<noteq> None" if "resolve_index db x \<noteq> None" for x
    using bulk_operation_resolves [OF that, of tv limits op] step by simp
  with Cons.prems(6) have clean: "clean_bulk ops db1 results'"
    by (auto simp: clean_bulk_def list_all_iff)
  show ?case
  proof (cases r)
    case (Inl e)
    then have rest: "bulk_loop tv limits ops db1 committed (results @ [Inl e]) = (db', committed', results')"
      using Cons.prems(1) step by simp
    from bulk_loop_grows [OF this] Cons.prems(6) have "resolve_index db (op_index op) \<noteq> None"
      by (auto simp: clean_bulk_def)
    moreover have "db_ok db" using two by (simp add: store_inv_def)
    ultimately have "db1 = db" using Inl step Cons.prems(5) by (auto intro: bulk_operation_error)
    with Cons.IH [OF rest] Cons.prems inv clean show ?thesis by simp
  next
    case (Inr mo)
    obtain ms outcome where mo: "mo = (ms, outcome)" by (cases mo)
    from bulk_operation_commit [OF step [unfolded Inr mo] two] Cons.prems(5)
    have ms: "commit_candidate tv limits ms db = Inr db1" "list_all client_mutation ms" by auto
    have "bulk_loop tv limits ops db1 (committed @ ms) (results @ [Inr outcome]) = (db', committed', results')"
      using Cons.prems(1) step Inr mo by simp
    from Cons.IH [OF this] ms commit_candidate_append [OF Cons.prems(2)] Cons.prems inv clean show ?thesis by simp
  qed
qed simp

lemma bulk_commit:
  assumes "bulk_candidate tv limits ops before = (candidate, committed, results)"
    and "store_inv tv limits (2 * length ops) before" and "list_all operation_ok ops" and "clean_bulk ops before results"
  shows "commit_candidate tv limits committed before = Inr candidate"
  using bulk_loop_commit [of tv limits ops before "[]" "[]" candidate committed results before] assms
  by (simp add: bulk_candidate_def commit_candidate_def)

lemma atomic_fold_commit:
  assumes "fold_res (atomic_step tv limits) (db, committed, outs) ops = Inr (db', committed', outs')"
    and "commit_candidate tv limits committed before = Inr db"
  shows "commit_candidate tv limits committed' before = Inr db'"
  using assms
proof (induction ops arbitrary: db committed outs)
  case (Cons op ops)
  from Cons.prems(1) obtain p c out where "prepare_write_operation db op = Inr p"
    and p: "fold_res (commit_step tv limits) db (pw_mutations p) = Inr c"
    and rest: "fold_res (atomic_step tv limits) (c, committed @ pw_mutations p, outs @ [out]) ops = Inr (db', committed', outs')"
    by (rule atomic_fold_Cons)
  from p commit_candidate_append [OF Cons.prems(2)]
  have "commit_candidate tv limits (committed @ pw_mutations p) before = Inr c" by (simp add: commit_candidate_def)
  from Cons.IH [OF rest this] show ?case .
qed simp

lemma atomic_commit:
  "atomic_candidate tv limits build before = Inr (candidate, committed, outcomes, metadata)
    \<Longrightarrow> commit_candidate tv limits committed before = Inr candidate"
  by (auto simp: atomic_candidate_def commit_candidate_def [of tv limits "[]"] and_then_Inr_iff
      dest!: atomic_fold_commit [where before = before] split: prod.splits)

subsection \<open>Writes of a running store\<close>

text \<open>What the environment of a write has to satisfy: the one of the commit it makes.\<close>

definition write_env_ok :: "Setup \<Rightarrow> Env \<Rightarrow> WriteOperation list \<Rightarrow> Store \<Rightarrow> bool" where
  "write_env_ok su env ops s \<longleftrightarrow>
     (case bulk_candidate (su_tv su) (su_limits su) ops (st_db s) of
        (candidate, committed, results) \<Rightarrow>
          list_all operation_ok ops \<and> clean_bulk ops (st_db s) results \<and> db_seq_no (st_db s) + 2 * length ops < 2 ^ 64
          \<and> (committed \<noteq> [] \<longrightarrow> commit_env_ok su env committed candidate s))"

text \<open>A store whose files give back its database; \<open>running\<close> adds that its next generation is new.\<close>

definition settled :: "Setup \<Rightarrow> Store \<Rightarrow> bool" where
  "settled su s \<longleftrightarrow> \<not> st_ephemeral s \<and> store_inv (su_tv su) (su_limits su) 0 (st_db s)
     \<and> (\<exists>es st. durable (su_codec su) (su_limit su) (st_files s) es (st_db s) st)"

lemma running_settled: "running su s \<Longrightarrow> settled su s"
  by (auto simp: running_def settled_def)

lemma settled_recovers:
  "settled su s \<Longrightarrow> \<exists>st. recover (su_codec su) (su_limit su) (st_files s) = Inr (st_db s, st)"
  by (auto simp: settled_def dest: durable_recover)

lemma commit_settled:
  assumes "running su s" and "commit_env_ok su env ms candidate s"
    and "commit_candidate (su_tv su) (su_limits su) ms (st_db s) = Inr candidate"
    and "commit_transaction su env candidate ms s = (s', Inr ())"
  shows "settled su s' \<and> (flush_may_continue env \<longrightarrow> running su s')"
  using commit_durable [OF assms] candidate_inv [OF assms(1-3)] unfolding settled_def running_def by blast

subsection \<open>One write\<close>

definition atomic_commits :: "('e, Database \<times> Mutation list \<times> 'b) result \<Rightarrow> (Database \<times> Mutation list) option" where
  "atomic_commits r = (case r of Inl _ \<Rightarrow> None | Inr (candidate, ms, _) \<Rightarrow> Some (candidate, ms))"

text \<open>A write that reports success, by one of the three entry points of the store.\<close>

inductive write_step :: "Setup \<Rightarrow> Env \<Rightarrow> Store \<Rightarrow> Store \<Rightarrow> bool" for su env s where
  write_mutations:
    "(\<And>c. commit_candidate (su_tv su) (su_limits su) ms (st_db s) = Inr c \<Longrightarrow> ms \<noteq> [] \<Longrightarrow> commit_env_ok su env ms c s) \<Longrightarrow>
     commit_mutations su env ms s = (s', Inr ()) \<Longrightarrow> write_step su env s s'"
| write_operations:
    "write_env_ok su env ops s \<Longrightarrow> apply_write_operations su env ops s = (s', Inr results) \<Longrightarrow> write_step su env s s'"
| write_atomic:
    "(\<And>c ms. atomic_commits (atomic_candidate (su_tv su) (su_limits su) build (st_db s)) = Some (c, ms) \<Longrightarrow> ms \<noteq> [] \<Longrightarrow> commit_env_ok su env ms c s) \<Longrightarrow>
     apply_dynamic_write_operations_atomic su env build s = (s', Inr (outcomes, metadata :: json)) \<Longrightarrow> write_step su env s s'"

inductive_cases write_stepE: "write_step su env s s'"

lemma bulk_request_settled:
  assumes "running su s" and "write_env_ok su env ops s"
    and "apply_write_operations su env ops s = (s', Inr results)"
  shows "settled su s' \<and> (flush_may_continue env \<longrightarrow> running su s')"
proof -
  obtain candidate committed results' where
    b: "bulk_candidate (su_tv su) (su_limits su) ops (st_db s) = (candidate, committed, results')"
    by (cases "bulk_candidate (su_tv su) (su_limits su) ops (st_db s)")
  have ok: "list_all operation_ok ops" "clean_bulk ops (st_db s) results'"
    and env: "committed \<noteq> [] \<Longrightarrow> commit_env_ok su env committed candidate s"
    and inv: "store_inv (su_tv su) (su_limits su) (2 * length ops) (st_db s)"
    using assms(1,2) b by (auto simp: write_env_ok_def running_def intro: store_inv_budget)
  show ?thesis
  proof (cases "committed = []")
    case True
    with assms(3) b have "s' = s" by (simp add: apply_write_operations_def)
    with assms(1) running_settled show ?thesis by simp
  next
    case False
    with assms(3) b have t: "commit_transaction su env candidate committed s = (s', Inr ())"
      by (auto simp: apply_write_operations_def and_then_Inr_iff split: prod.splits)
    from commit_settled [OF assms(1) env [OF False] bulk_commit [OF b inv ok] t] show ?thesis .
  qed
qed

lemma atomic_request_settled:
  assumes "running su s"
    and "\<And>c ms. atomic_commits (atomic_candidate (su_tv su) (su_limits su) build (st_db s)) = Some (c, ms) \<Longrightarrow> ms \<noteq> [] \<Longrightarrow> commit_env_ok su env ms c s"
    and "apply_dynamic_write_operations_atomic su env build s = (s', Inr r)"
  shows "settled su s' \<and> (flush_may_continue env \<longrightarrow> running su s')"
proof (cases "s' = s")
  case True
  with assms(1) running_settled show ?thesis by simp
next
  case False
  with assms(3) obtain candidate committed outcomes metadata where
    a: "atomic_candidate (su_tv su) (su_limits su) build (st_db s) = Inr (candidate, committed, outcomes, metadata)"
    and "committed \<noteq> []" and t: "commit_transaction su env candidate committed s = (s', Inr ())"
    by (auto simp: apply_dynamic_write_operations_atomic_def and_then_Inr_iff split: if_splits prod.splits sum.splits)
  then have "commit_env_ok su env committed candidate s" using assms(2) by (simp add: atomic_commits_def)
  from commit_settled [OF assms(1) this atomic_commit [OF a] t] show ?thesis .
qed

lemma write_settled:
  assumes "write_step su env s s'" and "running su s"
  shows "settled su s' \<and> (flush_may_continue env \<longrightarrow> running su s')"
  using assms(1)
proof cases
  case (write_mutations ms)
  show ?thesis
  proof (cases "ms = []")
    case True
    with write_mutations(2) assms(2) running_settled show ?thesis by (simp add: commit_mutations_def)
  next
    case False
    with write_mutations(2) obtain c where c: "commit_candidate (su_tv su) (su_limits su) ms (st_db s) = Inr c"
      and t: "commit_transaction su env c ms s = (s', Inr ())"
      by (auto simp: commit_mutations_def split: sum.splits)
    from commit_settled [OF assms(2) write_mutations(1) [OF c False] c t] show ?thesis .
  qed
next
  case (write_operations ops results)
  with assms(2) show ?thesis by (intro bulk_request_settled)
next
  case (write_atomic build outcomes metadata)
  from atomic_request_settled [OF assms(2) this(1) this(2)] show ?thesis .
qed

subsection \<open>Reachable states\<close>

text \<open>
  A store that is opened on an empty directory, writes, fails to write, and is opened again on the
  files that a crash in the middle of a flush left. A flush that failed halfway is followed by a
  restart, not by another commit, and a restart finds no Dashboards ids to repair.
\<close>

definition empty_files :: Files where
  "empty_files = \<lparr>fl_meta = None, fl_snapshots = [], fl_log = None\<rparr>"

inductive reachable :: "Setup \<Rightarrow> Store \<Rightarrow> bool" for su where
  reach_open: "store_inv (su_tv su) (su_limits su) 0 Database_default \<Longrightarrow>
     Store_open su env False empty_files = (files, Inr s) \<Longrightarrow> reachable su s"
| reach_write: "reachable su s \<Longrightarrow> write_step su env s s' \<Longrightarrow> flush_may_continue env \<Longrightarrow> reachable su s'"
| reach_refused: "reachable su s \<Longrightarrow> commit_env_ok su env ms candidate s \<Longrightarrow>
     en_begin_io env = Some 0 \<or> en_begin_io env = None \<and> en_commit_io env = Some 0 \<Longrightarrow>
     commit_transaction su env candidate ms s = (s', r) \<Longrightarrow> reachable su s'"
| reach_crash: "reachable su s \<Longrightarrow> write_step su env s s' \<Longrightarrow>
     plan_dashboards_encoded_document_id_repairs (st_db s') = [] \<Longrightarrow>
     Store_open su env' False (st_files s') = (files, Inr s'') \<Longrightarrow> reachable su s''"
| reach_restart: "reachable su s \<Longrightarrow> plan_dashboards_encoded_document_id_repairs (st_db s) = [] \<Longrightarrow>
     Store_open su env False (st_files s) = (files, Inr s') \<Longrightarrow> reachable su s'"

inductive_cases reachableE: "reachable su s"

lemma open_durable:
  assumes "durable (su_codec su) (su_limit su) files es db st" and "store_inv (su_tv su) (su_limits su) 0 db"
    and "plan_dashboards_encoded_document_id_repairs db = []"
    and "Store_open su env False files = (files', Inr s)"
  shows "running su s \<and> st_db s = db"
proof -
  have "s = \<lparr>st_db = db, st_files = files, st_flush = st, st_ephemeral = False\<rparr>"
    using assms(3,4) durable_recover [OF assms(1)] check_ok [OF assms(2)]
    by (auto simp: Store_open_def load_durable_state_def repair_dashboards_encoded_document_ids_def Let_def)
  with assms(1,2) show ?thesis by (auto simp: running_def)
qed

lemma open_settled:
  assumes "settled su s" and "plan_dashboards_encoded_document_id_repairs (st_db s) = []"
    and "Store_open su env False (st_files s) = (files', Inr s')"
  shows "running su s' \<and> st_db s' = st_db s"
  using assms open_durable unfolding settled_def by blast

lemma empty_durable:
  "durable cd limit empty_files [] Database_default SnapshotFlushState_default"
  by (simp add: durable_def log_is_def empty_files_def entries_ok_def recover_base_def read_metadata_def
      replay_entries_def replay_start_def replay_end_def)

lemma reachable_running: "reachable su s \<Longrightarrow> running su s"
proof (induction rule: reachable.induct)
  case (reach_open env files s)
  have "plan_dashboards_encoded_document_id_repairs Database_default = []"
    by (simp add: plan_dashboards_encoded_document_id_repairs_def Database_default_def)
  with open_durable [OF empty_durable] reach_open show ?case by blast
next
  case (reach_write s env s')
  then show ?case using write_settled by blast
next
  case (reach_refused s env ms candidate s' r)
  then show ?case using commit_refused_running by blast
next
  case (reach_crash s env s' env' files s'')
  then show ?case using write_settled open_settled by blast
next
  case (reach_restart s env files s')
  then show ?case using open_settled running_settled by blast
qed

end
