(* ===== verification/TornLog.thy ===== *)
theory TornLog
  imports Reachable
begin

section \<open>A crash in the middle of a commit\<close>

text \<open>
  The two records of a transaction are appended to the log one after the other, and a crash may leave
  any beginning of their bytes. Which database is recovered depends on the number of bytes alone, as
  long as they are UTF-8: the old one until the commit record is there up to its newline, and then
  the new one. The abstract log has one entry list for each of the five ranges. A cut inside a character,
  or a complete line the parser rejects, makes the start fail.
\<close>

subsection \<open>A line that cannot be read\<close>

text \<open>An error in the line after the entries is the result, once the replay is past its high-water transaction.\<close>

lemma replay_from_bad_line:
  assumes ok: "entries_ok tv parse es" and es: "replay_entries tv validate start es db = Inr db1"
    and lines: "log_lines tail = l # ls"
    and bad: "\<And>s. \<not> rs_waiting s \<Longrightarrow> replay_line tv parse validate start s l = Inl e"
  shows "replay_from tv parse validate start (Some (entries_bytes tv es @ tail)) db = Inl e"
  using es
proof (rule replay_entries_state)
  fix s
  assume "fold_res (replay_entry tv validate start) (replay_start start db) es = Inr s" and "\<not> rs_waiting s"
  then show ?thesis
    by (simp add: replay_from_def log_lines_entries [OF ok] lines fold_res_append fold_lines_entries [OF ok]
        replay_start_def bad)
qed

lemma replay_line_not_utf8: "\<not> utf8_valid l \<Longrightarrow> replay_line tv parse validate start s l = Inl NotUtf8"
  by (simp add: replay_line_def)

text \<open>The beginning of a record that ends inside a character.\<close>

lemma replay_from_cut_character:
  assumes "entries_ok tv parse es" and "replay_entries tv validate start es db = Inr db1"
    and "text_ok parse v t" and "\<not> utf8_valid (take k t)"
  shows "replay_from tv parse validate start (Some (entries_bytes tv es @ take k t)) db = Inl NotUtf8"
proof (rule replay_from_bad_line [OF assms(1,2) _ replay_line_not_utf8 [OF assms(4)]])
  have "take k t \<noteq> []" using assms(4) by (metis utf8_run.simps(1) utf8_valid_def)
  moreover have "CHR 0x0A \<notin> set (take k t)" using text_ok_line(7) [OF assms(3)] by (auto dest: in_set_takeD)
  ultimately show "log_lines (take k t) = [take k t]" by (simp add: log_lines_torn)
qed

subsection \<open>The log of a store\<close>

definition with_tail :: "Files \<Rightarrow> string \<Rightarrow> Files" where
  "with_tail files bytes = files\<lparr>fl_log := Some (log_bytes files @ bytes)\<rparr>"

lemma recover_base_log: "recover_base cd limit (files\<lparr>fl_log := wal\<rparr>) = recover_base cd limit files"
  by (intro recover_base_cong) (simp_all add: Let_def)

lemma recover_with_log:
  assumes "recover_base cd limit files = Inr (db0, start, st)"
    and "replay_from (cd_to_vec cd) (cd_parse cd) (validate_loaded_database_memory (cd_to_vec cd) limit) start (Some bytes) db0 = Inr db"
  shows "recover cd limit (files\<lparr>fl_log := Some bytes\<rparr>) = Inr (db, st)"
  using assms by (simp add: recover_eq recover_base_log)

lemma recover_with_log_error:
  assumes "recover_base cd limit files = Inr (db0, start, st)"
    and "replay_from (cd_to_vec cd) (cd_parse cd) (validate_loaded_database_memory (cd_to_vec cd) limit) start (Some bytes) db0 = Inl e"
  shows "recover cd limit (files\<lparr>fl_log := Some bytes\<rparr>) = Inl e"
  using assms by (simp add: recover_eq recover_base_log)

lemma take_within: "k \<le> length a \<Longrightarrow> take k (a @ b) = take k a" "take (length a + k) (a @ b) = a @ take k b"
  by simp_all

text \<open>A record cut before its end, after complete records.\<close>

lemma recover_cut_record:
  assumes base: "recover_base cd limit files = Inr (db0, start, st)"
    and ok: "entries_ok (cd_to_vec cd) (cd_parse cd) (es @ [e])" and k: "k < length (entry_text (cd_to_vec cd) e)"
    and utf8: "utf8_valid (take k (entry_text (cd_to_vec cd) e))"
    and es: "replay_entries (cd_to_vec cd) (validate_loaded_database_memory (cd_to_vec cd) limit) start es db0 = Inr db"
  shows "recover cd limit (files\<lparr>fl_log := Some (entries_bytes (cd_to_vec cd) es @ take k (entry_text (cd_to_vec cd) e))\<rparr>)
    = Inr (db, st)"
proof (rule recover_with_log [OF base])
  have t: "text_ok (cd_parse cd) (entry_json e) (entry_text (cd_to_vec cd) e)" and "entries_ok (cd_to_vec cd) (cd_parse cd) es"
    using ok by (auto simp: entries_ok_def intro: codec_ok_text)
  moreover have "\<exists>v t j. text_ok (cd_parse cd) v t \<and> j < length t \<and> take k (entry_text (cd_to_vec cd) e) = take j t"
    using t k by blast
  ultimately show "replay_from (cd_to_vec cd) (cd_parse cd) (validate_loaded_database_memory (cd_to_vec cd) limit) start
      (Some (entries_bytes (cd_to_vec cd) es @ take k (entry_text (cd_to_vec cd) e))) db0 = Inr db"
    using replay_from_entries [OF _ _ utf8] es by metis
qed

text \<open>Complete records, the last one without its newline.\<close>

lemma recover_no_newline:
  assumes base: "recover_base cd limit files = Inr (db0, start, st)"
    and ok: "entries_ok (cd_to_vec cd) (cd_parse cd) (es @ [e])"
    and es: "replay_entries (cd_to_vec cd) (validate_loaded_database_memory (cd_to_vec cd) limit) start (es @ [e]) db0 = Inr db"
    and run: "fold_res (replay_entry (cd_to_vec cd) (validate_loaded_database_memory (cd_to_vec cd) limit) start)
      (replay_start start db0) es = Inr s0"
    and waits: "\<not> rs_waiting s0"
  shows "recover cd limit (files\<lparr>fl_log := Some (entries_bytes (cd_to_vec cd) es @ entry_text (cd_to_vec cd) e)\<rparr>)
    = Inr (db, st)"
proof (rule recover_with_log [OF base])
  let ?tv = "cd_to_vec cd" and ?check = "validate_loaded_database_memory (cd_to_vec cd) limit"
  obtain s' r where s': "run_entry ?tv ?check s0 e = (s', r)" by (cases "run_entry ?tv ?check s0 e")
  have "r = Inr ()"
    using es run waits s'
    by (cases r) (simp_all add: replay_entries_def fold_res_append replay_entry_running)
  with s' run waits replay_from_no_newline [OF ok, of ?check start db0] es
  show "replay_from ?tv (cd_parse cd) ?check start (Some (entries_bytes ?tv es @ entry_text ?tv e)) db0 = Inr db"
    by simp
qed

lemma recover_last_record:
  assumes base: "recover_base cd limit files = Inr (db0, start, st)"
    and ok: "entries_ok (cd_to_vec cd) (cd_parse cd) (es @ [e])"
    and es: "replay_entries (cd_to_vec cd) (validate_loaded_database_memory (cd_to_vec cd) limit) start es db0 = Inr db"
    and ese: "replay_entries (cd_to_vec cd) (validate_loaded_database_memory (cd_to_vec cd) limit) start (es @ [e]) db0 = Inr db'"
  shows "recover cd limit (files\<lparr>fl_log := Some (entries_bytes (cd_to_vec cd) es @ entry_text (cd_to_vec cd) e)\<rparr>)
    = Inr (db', st)"
  using es
proof (rule replay_entries_state)
  fix s
  assume "fold_res (replay_entry (cd_to_vec cd) (validate_loaded_database_memory (cd_to_vec cd) limit) start)
      (replay_start start db0) es = Inr s" and "\<not> rs_waiting s"
  then show ?thesis by (intro recover_no_newline [OF base ok ese])
qed

text \<open>The records of one transaction, cut after \<open>k\<close> bytes.\<close>

lemma recover_torn_commit:
  assumes dur: "durable cd limit files es db st"
    and commit: "apply_checked (cd_to_vec cd) (validate_loaded_database_memory (cd_to_vec cd) limit) ms db = (db', Inr ())"
    and ok: "entries_ok (cd_to_vec cd) (cd_parse cd) [EBegin tx ms, ECommit tx]"
    and bytes: "bytes = entries_bytes (cd_to_vec cd) [EBegin tx ms, ECommit tx]"
    and k: "k \<le> length bytes" and utf8: "utf8_valid (take k bytes)"
  shows "recover cd limit (with_tail files (take k bytes)) = Inr (if k + 1 < length bytes then db else db', st)"
proof -
  let ?tv = "cd_to_vec cd" and ?check = "validate_loaded_database_memory (cd_to_vec cd) limit"
  let ?b = "entry_text ?tv (EBegin tx ms)" and ?c = "entry_text ?tv (ECommit tx)"
  obtain db0 start where base: "recover_base cd limit files = Inr (db0, start, st)"
    and r0: "replay_entries ?tv ?check start es db0 = Inr db"
    using dur by (auto simp: durable_def)
  have es: "entries_ok ?tv (cd_parse cd) es" and wal: "log_bytes files = entries_bytes ?tv es"
    using dur by (auto simp: durable_def log_is_def log_bytes_def)
  have okb: "entries_ok ?tv (cd_parse cd) (es @ [EBegin tx ms])"
    and okc: "entries_ok ?tv (cd_parse cd) ((es @ [EBegin tx ms]) @ [ECommit tx])"
    using es ok by (auto simp: entries_ok_def)
  have r1: "replay_entries ?tv ?check start (es @ [EBegin tx ms]) db0 = Inr db"
    by (rule replay_append_begin [OF r0])
  have r2: "replay_entries ?tv ?check start ((es @ [EBegin tx ms]) @ [ECommit tx]) db0 = Inr db'"
    using replay_append_transaction [OF r0 commit] by simp
  have tb: "text_ok (cd_parse cd) (begin_record tx ms) ?b"
    using ok codec_ok_text [of ?tv "cd_parse cd" "EBegin tx ms"] by (simp add: entries_ok_def)
  have tc: "text_ok (cd_parse cd) (commit_record tx) ?c"
    using ok codec_ok_text [of ?tv "cd_parse cd" "ECommit tx"] by (simp add: entries_ok_def)
  have vb: "utf8_valid (?b @ [CHR 0x0A])" using text_ok_line(1) [OF tb] .
  have all: "bytes = (?b @ [CHR 0x0A]) @ (?c @ [CHR 0x0A])" using bytes by simp
  consider (a) "k < length ?b" | (b) "k = length ?b"
    | (c) j where "k = length (?b @ [CHR 0x0A]) + j" "j < length ?c"
    | (d) "k = length (?b @ [CHR 0x0A]) + length ?c" | (e) "k = length bytes"
  proof -
    have "k < length ?b \<or> k = length ?b \<or> (\<exists>j < length ?c. k = length (?b @ [CHR 0x0A]) + j)
        \<or> k = length (?b @ [CHR 0x0A]) + length ?c \<or> k = length bytes"
    proof (cases "k \<le> length ?b")
      case False
      then obtain j where "k = length (?b @ [CHR 0x0A]) + j" using le_Suc_ex [of "length (?b @ [CHR 0x0A])" k] by auto
      then show ?thesis using k all by auto
    qed auto
    then show thesis using a b c d e by blast
  qed
  then show ?thesis
  proof cases
    case a
    then have "take k bytes = take k ?b" using all by simp
    with recover_cut_record [OF base okb a _ r0] utf8 a all show ?thesis by (simp add: with_tail_def wal)
  next
    case b
    then have "take k bytes = ?b" using all by simp
    with recover_last_record [OF base okb r0 r1] b all tc show ?thesis by (auto simp: with_tail_def wal text_ok_def)
  next
    case c
    have cut: "take k bytes = (?b @ [CHR 0x0A]) @ take j ?c" using c unfolding all c(1) take_within(2) by simp
    then have "utf8_valid (take j ?c)" using utf8 utf8_valid_append [OF vb] by simp
    from recover_cut_record [OF base okc c(2) this r1] cut c all show ?thesis by (simp add: with_tail_def wal)
  next
    case d
    have "take k bytes = (?b @ [CHR 0x0A]) @ ?c" unfolding all d take_within(2) by simp
    with recover_last_record [OF base okc r1 r2] d all show ?thesis by (simp add: with_tail_def wal)
  next
    case e
    then have "recover cd limit (with_tail files (take k bytes)) = Inr (db', st)"
      using durable_recover [OF durable_append [OF dur commit ok, of "with_tail files bytes"]] bytes
      by (simp add: with_tail_def)
    with e show ?thesis by simp
  qed
qed

text \<open>The same when the cut is inside a character, which is never the end of a record: the store does not open.\<close>

lemma recover_cut_character:
  assumes dur: "durable cd limit files es db st"
    and ok: "entries_ok (cd_to_vec cd) (cd_parse cd) [EBegin tx ms, ECommit tx]"
    and bytes: "bytes = entries_bytes (cd_to_vec cd) [EBegin tx ms, ECommit tx]"
    and utf8: "\<not> utf8_valid (take k bytes)"
  shows "recover cd limit (with_tail files (take k bytes)) = Inl NotUtf8"
proof -
  let ?tv = "cd_to_vec cd" and ?check = "validate_loaded_database_memory (cd_to_vec cd) limit"
  let ?b = "entry_text ?tv (EBegin tx ms)" and ?c = "entry_text ?tv (ECommit tx)"
  obtain db0 start where base: "recover_base cd limit files = Inr (db0, start, st)"
    and r0: "replay_entries ?tv ?check start es db0 = Inr db"
    using dur by (auto simp: durable_def)
  have es: "entries_ok ?tv (cd_parse cd) es" and wal: "log_bytes files = entries_bytes ?tv es"
    using dur by (auto simp: durable_def log_is_def log_bytes_def)
  have tb: "text_ok (cd_parse cd) (begin_record tx ms) ?b" and tc: "text_ok (cd_parse cd) (commit_record tx) ?c"
    using ok codec_ok_text [of ?tv "cd_parse cd" "EBegin tx ms"] codec_ok_text [of ?tv "cd_parse cd" "ECommit tx"]
    by (simp_all add: entries_ok_def)
  have all: "bytes = (?b @ [CHR 0x0A]) @ ?c @ [CHR 0x0A]" using bytes by simp
  have vb: "utf8_valid (?b @ [CHR 0x0A])" and vc: "utf8_valid (?c @ [CHR 0x0A])" using text_ok_line(1) tb tc by blast+
  show ?thesis
  proof (cases "k \<le> length ?b")
    case True
    then have cut: "take k bytes = take k ?b" using all by simp
    from replay_from_cut_character [OF es r0 tb] utf8 cut show ?thesis
      by (simp add: with_tail_def wal recover_with_log_error [OF base])
  next
    case False
    then obtain j where k: "k = length (?b @ [CHR 0x0A]) + j" using le_Suc_ex [of "length (?b @ [CHR 0x0A])" k] by auto
    then have cut: "take k bytes = (?b @ [CHR 0x0A]) @ take j (?c @ [CHR 0x0A])" unfolding all k take_within(2) by simp
    with utf8 have j: "\<not> utf8_valid (take j (?c @ [CHR 0x0A]))" using utf8_valid_append [OF vb] by simp
    with vc have "j \<le> length ?c" by (cases "j \<le> length ?c") auto
    then have "take j (?c @ [CHR 0x0A]) = take j ?c" by simp
    moreover have "entries_ok ?tv (cd_parse cd) (es @ [EBegin tx ms])" using es ok by (simp add: entries_ok_def)
    ultimately show ?thesis
      using replay_from_cut_character [OF _ replay_append_begin [OF r0] tc] j cut
      by (simp add: with_tail_def wal recover_with_log_error [OF base])
  qed
qed

text \<open>Together: what any number of bytes of the two records gives back.\<close>

definition after_cut :: "Database \<Rightarrow> Database \<Rightarrow> SnapshotFlushState \<Rightarrow> string \<Rightarrow> nat \<Rightarrow> (Database \<times> SnapshotFlushState) io_result" where
  "after_cut old new st bytes k =
     (if \<not> utf8_valid (take k bytes) then Inl NotUtf8
      else Inr (if k + 1 < length bytes then old else new, st))"

lemma recover_cut:
  assumes "reachable su s" and "commit_candidate (su_tv su) (su_limits su) ms (st_db s) = Inr candidate"
    and "entries_ok (su_tv su) (su_parse su) [EBegin tx ms, ECommit tx]"
    and "bytes = entries_bytes (su_tv su) [EBegin tx ms, ECommit tx]" and "k \<le> length bytes"
  shows "\<exists>st. recover (su_codec su) (su_limit su) (with_tail (st_files s) (take k bytes)) = after_cut (st_db s) candidate st bytes k"
proof -
  obtain es st where dur: "durable (su_codec su) (su_limit su) (st_files s) es (st_db s) st"
    using reachable_running [OF assms(1)] by (auto simp: running_def)
  from recover_torn_commit [OF dur apply_checked_commit [OF assms(2)] assms(3-5)]
    recover_cut_character [OF dur assms(3,4)] show ?thesis
    by (cases "utf8_valid (take k bytes)") (simp_all add: after_cut_def)
qed

subsection \<open>A commit that is refused\<close>

text \<open>The number of bytes of the two records that reach the log.\<close>

definition bytes_left :: "Env \<Rightarrow> string \<Rightarrow> string \<Rightarrow> nat" where
  "bytes_left env b c =
     (case en_begin_io env of
        Some k \<Rightarrow> min k (length b)
      | None \<Rightarrow> length b + (case en_commit_io env of Some k \<Rightarrow> min k (length c) | None \<Rightarrow> length c))"

lemma refused_commit_files:
  assumes "entries_ok (su_tv su) (su_parse su) [EBegin (en_tx env) ms, ECommit (en_tx env)]"
    and "en_begin_io env \<noteq> None \<or> en_commit_io env \<noteq> None" and "\<not> st_ephemeral s"
    and "commit_transaction su env candidate ms s = (s', r)"
    and "b = entries_bytes (su_tv su) [EBegin (en_tx env) ms]" and "c = entries_bytes (su_tv su) [ECommit (en_tx env)]"
  shows "s' = s\<lparr>st_files := with_tail (st_files s) (take (bytes_left env b c) (b @ c))\<rparr> \<and> isl r"
proof -
  have ok1: "entries_ok (su_tv su) (su_parse su) [EBegin (en_tx env) ms]"
    and ok2: "entries_ok (su_tv su) (su_parse su) [ECommit (en_tx env)]"
    using assms(1) by (auto simp: entries_ok_def)
  show ?thesis
    using assms(2-4) append_begin_eq [OF ok1, folded assms(5)] append_commit_eq [OF ok2, folded assms(6)]
    by (auto simp: commit_transaction_def append_committed_transaction_def with_tail_def bytes_left_def log_bytes_def
        Let_def min_def split: option.splits)
qed

text \<open>A record appended behind the beginning of another one, as long as the parser rejects the glued line.\<close>

lemma recover_glued:
  assumes dur: "durable cd limit files es db st"
    and t1: "text_ok (cd_parse cd) v1 t1" and t2: "text_ok (cd_parse cd) v2 t2" and k: "0 < k"
    and rejected: "cd_parse cd (take k t1 @ t2) = None"
  shows "\<exists>e. recover cd limit (with_tail files (take k t1 @ t2 @ [CHR 0x0A] @ rest)) = Inl e"
proof -
  let ?tv = "cd_to_vec cd" and ?check = "validate_loaded_database_memory (cd_to_vec cd) limit"
  let ?l = "(take k t1 @ t2) @ [CHR 0x0A]"
  obtain db0 start where base: "recover_base cd limit files = Inr (db0, start, st)"
    and r0: "replay_entries ?tv ?check start es db0 = Inr db"
    using dur by (auto simp: durable_def)
  have es: "entries_ok ?tv (cd_parse cd) es" and wal: "log_bytes files = entries_bytes ?tv es"
    using dur by (auto simp: durable_def log_is_def log_bytes_def)
  have "CHR 0x0A \<notin> set (take k t1 @ t2)"
    using text_ok_line(7) [OF t1] text_ok_line(7) [OF t2] by (auto dest: in_set_takeD)
  from log_lines_line [OF this, of rest]
  have lines: "log_lines (take k t1 @ t2 @ [CHR 0x0A] @ rest) = ?l # log_lines rest" by simp
  have "t2 \<noteq> []" "last t2 = CHR ''}''" "hd t2 = CHR ''{''" using t2 by (auto simp: text_ok_def)
  then have "trim_line_end ?l = take k t1 @ t2" and "CHR ''{'' \<in> set ?l"
    using trim_line_end_line [of "take k t1 @ t2"] hd_in_set [of t2] by auto
  moreover have "suffix [CHR 0x0A] (take k t1 @ t2 @ [CHR 0x0A])" by (metis append_assoc suffix_def)
  ultimately have "\<exists>e. \<forall>s. \<not> rs_waiting s \<longrightarrow> replay_line ?tv (cd_parse cd) ?check start s ?l = Inl e"
    using rejected not_blank [of ?l]
    by (cases "utf8_valid ?l") (simp_all add: replay_line_def replay_record_def ends_with_def Let_def)
  then obtain e where "\<And>s. \<not> rs_waiting s \<Longrightarrow> replay_line ?tv (cd_parse cd) ?check start s ?l = Inl e" by blast
  from replay_from_bad_line [OF es r0 lines this] show ?thesis
    by (auto simp: with_tail_def wal recover_with_log_error [OF base])
qed

end
