(* ===== verification/Durability.thy ===== *)
theory Durability
  imports TornLog StoreProperties
begin

section \<open>Properties of the durable store\<close>

text \<open>
  The claims about logs, snapshots and recovery. Their witnesses run on a codec that knows the records
  of two transactions, the databases they commit and the metadata of the first flush.
\<close>

definition demo_mutations :: "Mutation list" where
  "demo_mutations = [CreateIndex ''logs'' empty_object empty_object, IndexDocument ''logs'' ''1'' JNull]"

definition demo_more :: "Mutation list" where
  "demo_more = [IndexDocument ''logs'' ''2'' JNull]"

definition demo_texts :: "(string \<times> json) list" where
  "demo_texts = [(''{b}'', begin_record ''t1'' demo_mutations), (''{c}'', commit_record ''t1''), (''{m}'', marker_record ''t1''),
     (''{B}'', begin_record ''t2'' demo_more), (''{R}'', begin_record ''t2'' demo_mutations), (''{C}'', commit_record ''t2''), (''{M}'', marker_record ''t2'')]"

definition demo_vec :: to_vec where
  "demo_vec v = (case find (\<lambda>(_, w). w = v) demo_texts of Some (t, _) \<Rightarrow> Some t | None \<Rightarrow> Some ''{}'')"

definition demo_index :: "(string \<times> StoredDocument) list \<Rightarrow> nat \<Rightarrow> IndexMetadata" where
  "demo_index docs bytes = \<lparr>im_name = ''logs'', im_settings = empty_object, im_mappings = empty_object, im_aliases = [],
     im_documents = docs, im_tombstones = [], im_store_size_bytes = bytes\<rparr>"

definition demo_doc :: "string \<Rightarrow> nat \<Rightarrow> nat \<Rightarrow> StoredDocument" where
  "demo_doc did version seq_no = \<lparr>doc_id = did, doc_source = JNull, doc_version = version, doc_seq_no = seq_no, doc_primary_term = 1\<rparr>"

definition demo_db :: Database where
  "demo_db = Database_default\<lparr>db_indexes := [(''logs'', demo_index [(''1'', demo_doc ''1'' 1 1)] 75)], db_seq_no := 1\<rparr>"

definition demo_db2 :: Database where
  "demo_db2 = Database_default\<lparr>db_indexes := [(''logs'', demo_index [(''1'', demo_doc ''1'' 1 1), (''2'', demo_doc ''2'' 1 2)] 142)],
     db_seq_no := 2\<rparr>"

definition demo_metadata :: "bool \<Rightarrow> SnapshotMetadata" where
  "demo_metadata compacted =
     \<lparr>sm_version = 1, sm_generation = 1, sm_snapshot_file = Some ''snapshot.00000000000000000001.json'',
      sm_created_at_unix_millis = 7, sm_estimated_stored_bytes = 203, sm_index_count = 1, sm_document_count = 1,
      sm_template_count = 0, sm_registry_object_count = 0, sm_alias_count = 0, sm_seq_no = 1,
      sm_last_transaction_id = Some ''t1'', sm_log_compacted = compacted,
      sm_indexes = [\<lparr>sim_name = ''logs'', sim_document_count = 1, sim_tombstone_count = 0, sim_alias_count = 0,
        sim_store_size_bytes = 75\<rparr>]\<rparr>"

definition demo_parse :: parse where
  "demo_parse t = map_of demo_texts t"

definition demo_enc_db :: "Database \<Rightarrow> string option" where
  "demo_enc_db db = (if db = demo_db then Some ''S'' else if db = demo_db2 then Some ''U'' else None)"

definition demo_dec_db :: "string \<Rightarrow> Database option" where
  "demo_dec_db b = (if b = ''S'' then Some demo_db else if b = ''U'' then Some demo_db2 else None)"

definition demo_enc_meta :: "SnapshotMetadata \<Rightarrow> string option" where
  "demo_enc_meta m = (if m = demo_metadata False then Some ''F'' else if m = demo_metadata True then Some ''T'' else None)"

definition demo_dec_meta :: "string \<Rightarrow> SnapshotMetadata option" where
  "demo_dec_meta b = (if b = ''F'' then Some (demo_metadata False) else if b = ''T'' then Some (demo_metadata True) else None)"

definition demo_codec :: Codec where
  "demo_codec = \<lparr>cd_to_vec = demo_vec, cd_parse = demo_parse, cd_enc_db = demo_enc_db, cd_dec_db = demo_dec_db,
     cd_enc_meta = demo_enc_meta, cd_dec_meta = demo_dec_meta\<rparr>"

definition demo_setup :: Setup where
  "demo_setup = \<lparr>su_codec = demo_codec,
     su_limits = \<lparr>max_indexes = 3, max_documents = 3, memory_limit_bytes = 1000\<rparr>,
     su_policy = \<lparr>write_threshold = 1, interval = 60\<rparr>\<rparr>"

definition demo_env :: "string \<Rightarrow> (nat \<Rightarrow> write_outcome) \<Rightarrow> Env" where
  "demo_env tx io = \<lparr>en_tx = tx, en_now = 0, en_millis = 7, en_begin_io = None, en_commit_io = None, en_flush_io = io\<rparr>"

definition demo_start :: Store where
  "demo_start = \<lparr>st_db = Database_default, st_files = empty_files, st_flush = SnapshotFlushState_default, st_ephemeral = False\<rparr>"

text \<open>After a commit with its flush, and after a crash before the flush compacts the log.\<close>

definition demo_written :: Store where
  "demo_written = \<lparr>st_db = demo_db,
     st_files = \<lparr>fl_meta = Some ''T'', fl_snapshots = [(snapshot_file_name 1, ''S''), (snapshot_json, ''S'')],
       fl_log = Some (''{m}'' @ [CHR 0x0A])\<rparr>,
     st_flush = \<lparr>fs_dirty_writes = 0, fs_dirty_since = None, fs_generation = 1, fs_last_transaction_id = Some ''t1''\<rparr>,
     st_ephemeral = False\<rparr>"

definition demo_crashed :: Store where
  "demo_crashed = \<lparr>st_db = demo_db,
     st_files = \<lparr>fl_meta = Some ''F'', fl_snapshots = [(snapshot_file_name 1, ''S'')],
       fl_log = Some (''{b}'' @ [CHR 0x0A] @ ''{c}'' @ [CHR 0x0A])\<rparr>,
     st_flush = \<lparr>fs_dirty_writes = 2, fs_dirty_since = Some 0, fs_generation = 0, fs_last_transaction_id = Some ''t1''\<rparr>,
     st_ephemeral = False\<rparr>"

definition fails_at :: "nat \<Rightarrow> nat \<Rightarrow> write_outcome" where
  "fails_at n k = (if k = n then FailedBefore else Written)"

definition all_written :: "nat \<Rightarrow> write_outcome" where
  "all_written k = Written"

lemma demo_open: "Store_open demo_setup (demo_env ''t0'' all_written) False empty_files = (empty_files, Inr demo_start)"
  by code_simp

lemma demo_env_ok: "commit_env_ok demo_setup (demo_env ''t1'' io) demo_mutations demo_db demo_start"
  by code_simp

lemma demo_candidate: "commit_candidate (su_tv demo_setup) (su_limits demo_setup) demo_mutations (st_db demo_start) = Inr demo_db"
  by code_simp

lemma demo_commits:
  "commit_mutations demo_setup (demo_env ''t1'' all_written) demo_mutations demo_start = (demo_written, Inr ())"
  "commit_mutations demo_setup (demo_env ''t1'' (fails_at 2)) demo_mutations demo_start
    = (demo_crashed, Inr ())"
  by code_simp+

lemma demo_reachable: "reachable demo_setup demo_start"
  by (rule reach_open [OF _ demo_open]) code_simp

lemma demo_step:
  assumes "commit_mutations demo_setup (demo_env ''t1'' io) demo_mutations demo_start = (s', Inr ())"
  shows "write_step demo_setup (demo_env ''t1'' io) demo_start s'"
  by (rule write_mutations [OF _ assms]) (use demo_candidate demo_env_ok in auto)

lemma demo_written_reachable: "reachable demo_setup demo_written"
  by (rule reach_write [OF demo_reachable demo_step [OF demo_commits(1)]]) (simp add: flush_may_continue_def demo_env_def all_written_def)

subsection \<open>What recovery gives back\<close>

text \<open>C1. In every state reached from an empty data directory by successful writes (mutations, atomic writes, and bulk
  requests whose operations all succeed or all name an index that exists) with their snapshot flushes, by writes refused
  before a byte of a record was written, by crashes in the middle of a flush and by restarts, opening the files that are
  on disk gives back exactly the database in memory, and it keeps the invariant of the store. These are the steps of
  \<open>reachable\<close>; what they leave out is a bulk request that leaves an index it does not log, an append that leaves a
  part of its records, a write after a flush that stopped half-way, and a start that repairs documents.\<close>

theorem reachable_recovers:
  assumes "reachable su s"
  shows "\<exists>st. recover (su_codec su) (memory_limit_bytes (su_limits su)) (st_files s) = Inr (st_db s, st)
    \<and> store_inv (cd_to_vec (su_codec su)) (su_limits su) 0 (st_db s)"
  using reachable_running [OF assms] settled_recovers running_settled unfolding running_def by blast

theorem reachable_recovers_witness:
  "\<exists>st. recover demo_codec 1000 (st_files demo_written) = Inr (demo_db, st)"
  using reachable_recovers [OF demo_written_reachable] by (auto simp: demo_setup_def demo_written_def)

text \<open>C7. A write of a reachable state that reports success is there after a restart whatever becomes of the writes of the
  snapshot flush it triggers: each of the five may have failed before or after the file was replaced,
  with everything after it left out. The states are those of the first property, without an earlier torn append or an
  earlier flush that stopped half-way, and a bulk request is one whose operations all succeed or all name an index that
  exists.\<close>

theorem acknowledged_write_survives:
  assumes "reachable su s" and "write_step su env s s'"
  shows "\<exists>st. recover (su_codec su) (memory_limit_bytes (su_limits su)) (st_files s') = Inr (st_db s', st)"
  using write_settled [OF assms(2) reachable_running [OF assms(1)]] settled_recovers by blast

theorem acknowledged_write_survives_witness:
  "\<exists>st. recover demo_codec 1000 (st_files demo_crashed) = Inr (demo_db, st)"
  using acknowledged_write_survives [OF demo_reachable demo_step [OF demo_commits(2)]]
  by (simp add: demo_setup_def demo_crashed_def)



text \<open>C27. Replaying a log the program wrote, byte by byte and with the beginning of a record at its
  end, implements the replay of its entries: a begin record waits for the commit record with its id,
  the mutations of a transaction are applied when that comes, a transaction without one is ignored,
  and after a high-water transaction only what follows its commit or its compaction marker counts. When the
  record at the end was cut inside a character the replay of a log whose entries replay fails instead.\<close>

theorem replay_refines_entries:
  assumes "entries_ok tv parse es" and "tail = [] \<or> (\<exists>v t k. text_ok parse v t \<and> k < length t \<and> tail = take k t)"
  shows "if utf8_valid tail
    then replay_from tv parse validate start (Some (entries_bytes tv es @ tail)) db = replay_entries tv validate start es db
    else \<not> isl (replay_entries tv validate start es db) \<longrightarrow>
      replay_from tv parse validate start (Some (entries_bytes tv es @ tail)) db = Inl NotUtf8"
proof (cases "utf8_valid tail")
  case True
  with replay_from_entries [OF assms] show ?thesis by simp
next
  case False
  with assms(2) obtain v t k where t: "text_ok parse v t" "tail = take k t" by (auto simp: utf8_valid_def)
  with False replay_from_cut_character [OF assms(1) _ t(1)] show ?thesis
    by (cases "replay_entries tv validate start es db") auto
qed

theorem replay_refines_entries_witness:
  "replay_from demo_vec demo_parse (\<lambda>_. Inr ()) None
      (Some (''{b}'' @ [CHR 0x0A] @ ''{B}'' @ [CHR 0x0A] @ ''{c}'' @ [CHR 0x0A] @ ''{C'')) Database_default = Inr demo_db"
proof -
  let ?es = "[EBegin ''t1'' demo_mutations, EBegin ''t2'' demo_more, ECommit ''t1'']"
  have ok: "entries_ok demo_vec demo_parse ?es" by code_simp
  have b: "entries_bytes demo_vec ?es = ''{b}'' @ [CHR 0x0A] @ ''{B}'' @ [CHR 0x0A] @ ''{c}'' @ [CHR 0x0A]" by code_simp
  have "text_ok demo_parse (commit_record ''t2'') ''{C}''" by code_simp
  then have t: "\<exists>v t k. text_ok demo_parse v t \<and> k < length t \<and> ''{C'' = take k t"
    by (intro exI [of _ "commit_record ''t2''"] exI [of _ "''{C}''"] exI [of _ 2]) simp
  have u: "utf8_valid ''{C''" by code_simp
  have "replay_entries demo_vec (\<lambda>_. Inr ()) None ?es Database_default = Inr demo_db" by code_simp
  with replay_refines_entries [OF ok disjI2 [OF t], of "\<lambda>_. Inr ()" None Database_default, unfolded b]
  show ?thesis using u by simp
qed

text \<open>C26. Compacting the log after a transaction loses nothing: the compacted log, replayed from its
  beginning, gives what the log gave when replayed after that transaction, from any snapshot and
  with any torn record at the end.\<close>

theorem compaction_keeps_replay:
  assumes "entries_ok tv parse (es @ ECommit tx # fs)" and "fresh_in tx es" and "codec_ok tv parse (marker_record tx)"
    and "tail = [] \<or> (\<exists>v t k. text_ok parse v t \<and> k < length t \<and> tail = take k t)" and "utf8_valid tail"
    and "wal = entries_bytes tv (es @ ECommit tx # fs) @ tail"
    and "compact_after tv parse Written (Some tx) (Some wal) = (wal', r)"
  shows "r = Inr True \<and> replay_from tv parse validate None wal' db = replay_from tv parse validate (Some tx) (Some wal) db"
proof -
  have w: "wal' = Some (entries_bytes tv (EMarker tx # fs) @ tail)" "r = Inr True"
    using compact_entries [OF assms(1-3), of tail] assms(6,7) by auto
  have "entries_ok tv parse (EMarker tx # fs)" using assms(1,3) by (simp add: entries_ok_def)
  from replay_from_entries [OF this assms(4,5)] replay_from_entries [OF assms(1,4,5)] w
  show ?thesis unfolding assms(6) by (simp add: replay_after_compaction [OF assms(2)] del: entries_bytes_simps)
qed

theorem compaction_keeps_replay_witness:
  "replay_from demo_vec demo_parse (\<lambda>_. Inr ()) None
      (Some (''{m}'' @ [CHR 0x0A] @ ''{B}'' @ [CHR 0x0A] @ ''{C}'' @ [CHR 0x0A])) demo_db
    = replay_from demo_vec demo_parse (\<lambda>_. Inr ()) (Some ''t1'')
      (Some (entries_bytes demo_vec [EBegin ''t1'' demo_mutations, ECommit ''t1'', EBegin ''t2'' demo_more, ECommit ''t2''])) demo_db"
proof -
  let ?es = "[EBegin ''t1'' demo_mutations]" and ?fs = "[EBegin ''t2'' demo_more, ECommit ''t2'']"
  have ok: "entries_ok demo_vec demo_parse (?es @ ECommit ''t1'' # ?fs)" "fresh_in ''t1'' ?es"
    "codec_ok demo_vec demo_parse (marker_record ''t1'')" "utf8_valid []" by code_simp+
  have c: "compact_after demo_vec demo_parse Written (Some ''t1'') (Some (entries_bytes demo_vec (?es @ ECommit ''t1'' # ?fs) @ []))
      = (Some (''{m}'' @ [CHR 0x0A] @ ''{B}'' @ [CHR 0x0A] @ ''{C}'' @ [CHR 0x0A]), Inr True)" by code_simp
  from compaction_keeps_replay [OF ok(1-3) disjI1 [OF refl] ok(4) refl c] show ?thesis by (simp del: entries_bytes_simps)
qed

text \<open>C30. The JSON form in which the log and the records carry a mutation loses nothing: every
  mutation, of all fifteen kinds, is read back as itself.\<close>

theorem logged_mutation_roundtrip: "mutation_of_json (mutation_to_json m) = Some m"
  by (rule mutation_roundtrip)

text \<open>A path parameter whose bytes are all percent-encoded, as a client may send any id, is decoded
  to itself when it is UTF-8, and so is one without a percent sign.\<close>

lemma path_param_roundtrip:
  assumes "utf8_valid s"
  shows "decode_path_param (encode_path_param s) = s \<and> (CHR 0x25 \<notin> set s \<longrightarrow> decode_path_param s = s)"
  using assms by (simp add: decode_path_param_def decode_encode_bytes decode_bytes_plain)


subsection \<open>What recovery does not give back\<close>

definition demo_lazy :: Setup where
  "demo_lazy = demo_setup\<lparr>su_policy := \<lparr>write_threshold = 100, interval = 60\<rparr>\<rparr>"

text \<open>C32. A record torn by a failed append is not removed from the log, and the next one is appended
  to the same line: when the append of a commit fails after some but not all bytes of its first record the commit is
  reported as failed; a later commit succeeds and is acknowledged; but then, the parser rejecting the line the two
  records share and no snapshot having been flushed, the store does not open any more.\<close>

theorem torn_append_blocks_restart:
  assumes "reachable su s"
    and "entries_ok (cd_to_vec (su_codec su)) (cd_parse (su_codec su))
      [EBegin (en_tx env) ms, ECommit (en_tx env), EBegin (en_tx env') ms', ECommit (en_tx env')]"
    and "en_begin_io env = Some k" and "0 < k" and "k \<le> length torn" and "torn = entry_text (cd_to_vec (su_codec su)) (EBegin (en_tx env) ms)"
    and "commit_transaction su env candidate ms s = (s1, r1)"
    and "en_begin_io env' = None" and "en_commit_io env' = None"
    and "\<not> flush_due (su_policy su) (en_now env') (mark_dirty (en_now env') (Some (en_tx env')) (length ms') (st_flush s1))"
    and "commit_transaction su env' candidate' ms' s1 = (s2, r2)"
    and "cd_parse (su_codec su) (take k torn @ entry_text (cd_to_vec (su_codec su)) (EBegin (en_tx env') ms')) = None"
  shows "isl r1 \<and> r2 = Inr () \<and> st_db s2 = candidate'
    \<and> (\<exists>e. recover (su_codec su) (memory_limit_bytes (su_limits su)) (st_files s2) = Inl e)"
proof -
  let ?tv = "su_tv su" and ?parse = "su_parse su"
  let ?next = "entry_text ?tv (EBegin (en_tx env') ms')"
  have run: "\<not> st_ephemeral s" and "\<exists>es st. durable (su_codec su) (su_limit su) (st_files s) es (st_db s) st"
    using reachable_running [OF assms(1)] by (auto simp: running_def)
  then obtain es st where dur: "durable (su_codec su) (su_limit su) (st_files s) es (st_db s) st" by blast
  have ok: "entries_ok ?tv ?parse [EBegin (en_tx env) ms, ECommit (en_tx env)]"
    and ok1: "entries_ok ?tv ?parse [EBegin (en_tx env') ms']" and ok2: "entries_ok ?tv ?parse [ECommit (en_tx env')]"
    and t1: "text_ok ?parse (begin_record (en_tx env) ms) torn" and t2: "text_ok ?parse (begin_record (en_tx env') ms') ?next"
    using assms(2,6) codec_ok_text [of ?tv ?parse "EBegin (en_tx env) ms"] codec_ok_text [of ?tv ?parse "EBegin (en_tx env') ms'"]
    by (simp_all add: entries_ok_def)
  have "bytes_left env (torn @ [CHR 0x0A]) c = k" for c using assms(3,5) by (simp add: bytes_left_def)
  with refused_commit_files [OF ok _ run assms(7) refl refl] assms(3,5,6)
  have s1: "s1 = s\<lparr>st_files := with_tail (st_files s) (take k torn)\<rparr>" and r1: "isl r1" by simp_all
  have "s2 = s1\<lparr>st_db := candidate', st_files := with_tail (st_files s)
        (take k torn @ ?next @ [CHR 0x0A] @ entries_bytes ?tv [ECommit (en_tx env')]),
      st_flush := mark_dirty (en_now env') (Some (en_tx env')) (length ms') (st_flush s1)\<rparr> \<and> r2 = Inr ()"
    using assms(8-11) run append_begin_eq [OF ok1] append_commit_eq [OF ok2]
    by (simp add: commit_transaction_def append_committed_transaction_def after_committed_transaction_def s1 with_tail_def
        log_bytes_def Let_def)
  with r1 recover_glued [OF dur t1 t2 assms(4,12)] show ?thesis by simp
qed

theorem torn_append_blocks_restart_witness:
  "case commit_transaction demo_lazy ((demo_env ''t1'' all_written)\<lparr>en_begin_io := Some 2\<rparr>) demo_db demo_mutations demo_start of
    (s1, r1) \<Rightarrow> case commit_transaction demo_lazy (demo_env ''t2'' all_written) demo_db demo_mutations s1 of
      (s2, r2) \<Rightarrow> isl r1 \<and> r2 = Inr () \<and> st_db s2 = demo_db \<and> (\<exists>e. recover demo_codec 1000 (st_files s2) = Inl e)"
proof -
  let ?env = "(demo_env ''t1'' all_written)\<lparr>en_begin_io := Some 2\<rparr>" and ?env' = "demo_env ''t2'' all_written"
  obtain s1 r1 where r1: "commit_transaction demo_lazy ?env demo_db demo_mutations demo_start = (s1, r1)" by fastforce
  obtain s2 r2 where r2: "commit_transaction demo_lazy ?env' demo_db demo_mutations s1 = (s2, r2)" by fastforce
  have reach: "reachable demo_lazy demo_start"
    by (rule reach_open [where env = "demo_env ''t0'' all_written" and files = empty_files]) code_simp+
  have ok: "entries_ok (cd_to_vec (su_codec demo_lazy)) (cd_parse (su_codec demo_lazy))
      [EBegin (en_tx ?env) demo_mutations, ECommit (en_tx ?env), EBegin (en_tx ?env') demo_mutations, ECommit (en_tx ?env')]"
    "en_begin_io ?env = Some 2" "(0 :: nat) < 2"
    "2 \<le> length (entry_text (cd_to_vec (su_codec demo_lazy)) (EBegin (en_tx ?env) demo_mutations))"
    "en_begin_io ?env' = None" "en_commit_io ?env' = None"
    "cd_parse (su_codec demo_lazy) (take 2 (entry_text (cd_to_vec (su_codec demo_lazy)) (EBegin (en_tx ?env) demo_mutations))
      @ entry_text (cd_to_vec (su_codec demo_lazy)) (EBegin (en_tx ?env') demo_mutations)) = None"
    by code_simp+
  have "\<not> flush_due (su_policy demo_lazy) (en_now ?env') (mark_dirty (en_now ?env') (Some (en_tx ?env')) (length demo_mutations)
      (st_flush (fst (commit_transaction demo_lazy ?env demo_db demo_mutations demo_start))))"
    by code_simp
  then have flush: "\<not> flush_due (su_policy demo_lazy) (en_now ?env') (mark_dirty (en_now ?env') (Some (en_tx ?env'))
      (length demo_mutations) (st_flush s1))" by (simp add: r1)
  from torn_append_blocks_restart [OF reach ok(1-4) refl r1 ok(5,6) flush r2 ok(7)] r1 r2 show ?thesis
    by (simp add: demo_lazy_def demo_setup_def)
qed

text \<open>C33. What a commit whose append fails leaves behind: whatever number of bytes of its two records reach the log,
  the client is told that it failed and the database in memory is the old one; the next start gives the same, unless
  no more than the newline at the end is missing, when the refused write appears, or the cut is inside a character, when
  the store does not open.\<close>

theorem refused_commit_reappears:
  assumes "reachable su s" and "commit_candidate (cd_to_vec (su_codec su)) (su_limits su) ms (st_db s) = Inr candidate"
    and "entries_ok (cd_to_vec (su_codec su)) (cd_parse (su_codec su)) [EBegin (en_tx env) ms, ECommit (en_tx env)]"
    and "en_begin_io env \<noteq> None \<or> en_commit_io env \<noteq> None"
    and "commit_transaction su env candidate ms s = (s', r)"
    and "b = entries_bytes (cd_to_vec (su_codec su)) [EBegin (en_tx env) ms]"
    and "c = entries_bytes (cd_to_vec (su_codec su)) [ECommit (en_tx env)]"
  shows "isl r \<and> st_db s' = st_db s
    \<and> (\<exists>st. recover (su_codec su) (memory_limit_bytes (su_limits su)) (st_files s') =
         (if \<not> utf8_valid (take (bytes_left env b c) (b @ c)) then Inl NotUtf8
          else Inr (if bytes_left env b c + 1 < length (b @ c) then st_db s else candidate, st)))"
proof -
  have "\<not> st_ephemeral s" using reachable_running [OF assms(1)] by (auto simp: running_def)
  from refused_commit_files [OF assms(3,4) this assms(5-7)]
  have s': "s' = s\<lparr>st_files := with_tail (st_files s) (take (bytes_left env b c) (b @ c))\<rparr>" "isl r" by blast+
  have "b @ c = entries_bytes (su_tv su) [EBegin (en_tx env) ms, ECommit (en_tx env)]" using assms(6,7) by simp
  moreover have "bytes_left env b c \<le> length (b @ c)" by (auto simp: bytes_left_def split: option.splits)
  ultimately show ?thesis using recover_cut [OF assms(1-3)] s' unfolding after_cut_def by simp
qed

theorem refused_commit_reappears_witness:
  "case commit_transaction demo_lazy ((demo_env ''t1'' all_written)\<lparr>en_commit_io := Some 3\<rparr>) demo_db demo_mutations demo_start of
    (s1, r1) \<Rightarrow> isl r1 \<and> st_db s1 = Database_default
      \<and> (\<exists>st. recover demo_codec 1000 (st_files s1) = Inr (demo_db, st))"
proof -
  let ?env = "(demo_env ''t1'' all_written)\<lparr>en_commit_io := Some 3\<rparr>"
  let ?b = "entries_bytes (cd_to_vec (su_codec demo_lazy)) [EBegin (en_tx ?env) demo_mutations]"
  let ?c = "entries_bytes (cd_to_vec (su_codec demo_lazy)) [ECommit (en_tx ?env)]"
  obtain s1 r1 where r1: "commit_transaction demo_lazy ?env demo_db demo_mutations demo_start = (s1, r1)" by fastforce
  have reach: "reachable demo_lazy demo_start"
    by (rule reach_open [where env = "demo_env ''t0'' all_written" and files = empty_files]) code_simp+
  have ok: "commit_candidate (cd_to_vec (su_codec demo_lazy)) (su_limits demo_lazy) demo_mutations (st_db demo_start) = Inr demo_db"
    "entries_ok (cd_to_vec (su_codec demo_lazy)) (cd_parse (su_codec demo_lazy)) [EBegin (en_tx ?env) demo_mutations, ECommit (en_tx ?env)]"
    "en_begin_io ?env \<noteq> None \<or> en_commit_io ?env \<noteq> None"
    by code_simp+
  have left: "bytes_left ?env ?b ?c = 7" "length (?b @ ?c) = 8" "utf8_valid (take 7 (?b @ ?c))" by code_simp+
  from refused_commit_reappears [OF reach ok r1 refl refl] left r1 show ?thesis
    by (simp add: demo_lazy_def demo_setup_def demo_start_def)
qed

text \<open>A flush that fails after it wrote the metadata of its generation leaves the number of the
  generation in memory behind, so that the next flush overwrites the live snapshot: when that flush
  fails before its metadata, the second transaction is contained in the snapshot and applied once
  more at the next start. Here it counts the version of its document and the sequence number twice.\<close>

lemma failed_flush_replays_twice:
  "case commit_mutations demo_setup (demo_env ''t2'' (fails_at 1)) demo_more demo_crashed of
    (s2, r2) \<Rightarrow> r2 = Inr () \<and> st_db s2 = demo_db2
      \<and> (case recover demo_codec 1000 (st_files s2) of
           Inr (db, st) \<Rightarrow> db_seq_no db = 3 \<and> map_option doc_version (stored_document db ''logs'' ''2'') = Some 2
         | Inl _ \<Rightarrow> False)"
  by code_simp

text \<open>A record cut inside a character of more than one byte is not a torn record for the reader,
  which decodes lines as UTF-8 before it looks for the missing newline: the store does not open.\<close>

lemma cut_character_blocks_restart:
  "recover cd limit (with_tail empty_files (''{'' @ [CHR 0xC3])) = Inl NotUtf8
    \<and> utf8_valid (''{'' @ [CHR 0xC3, CHR 0xA9] @ ''}'')"
proof -
  have "\<not> utf8_valid [CHR ''{'', CHR 0xC3]" "utf8_valid [CHR ''{'', CHR 0xC3, CHR 0xA9, CHR ''}'']"
    by code_simp+
  then show ?thesis
    by (simp add: recover_def read_metadata_def with_tail_def empty_files_def log_bytes_def Let_def
        replay_validating_def replay_from_def replay_line_def)
qed

end
