(* ===== verification/Values.thy ===== *)
theory Values
  imports Json
begin

section \<open>Reading numbers and building objects\<close>

text \<open>What handlers share when they read a number from a value or a string, and the \<open>json!\<close> objects they build.\<close>

text \<open>\<open>str::parse::<u64>\<close>: an optional plus sign, then digits, within the range.\<close>

definition is_digit :: "char \<Rightarrow> bool" where
  "is_digit c \<longleftrightarrow> 48 \<le> (of_char c :: nat) \<and> (of_char c :: nat) \<le> 57"

definition parse_u64 :: "string \<Rightarrow> nat option" where
  "parse_u64 s =
     (let digits = (if prefix ''+'' s then drop 1 s else s)
      in if digits \<noteq> [] \<and> list_all is_digit digits \<and> read_nat digits \<le> usize_max then Some (read_nat digits) else None)"

definition u64_at :: "json \<Rightarrow> string \<Rightarrow> nat" where
  "u64_at v k = (case Option.bind (jget v k) as_u64 of Some n \<Rightarrow> n | None \<Rightarrow> 0)"

abbreviation jnat :: "nat \<Rightarrow> json" where
  "jnat n \<equiv> JNum (PosInt n)"

definition jobject :: "(string \<times> json) list \<Rightarrow> json" where
  "jobject kvs = JObj (bt_of_list kvs)"

end
