(* ===== verification/Runtime.thy ===== *)
theory Runtime
  imports StoreModel Values
begin

section \<open>Scrolls, points in time and tasks\<close>

text \<open>
  \<open>src/runtime.rs\<close>: the contexts a search leaves in memory. A scroll holds the hits that were not
  yet returned, a point in time holds a database, a task the response of a finished request. Every
  method takes one lock, so it is one step on the state. \<open>Instant\<close>s and \<open>Duration\<close>s are in
  nanoseconds; every reading of a clock is an argument, in the order of the readings, and the sum
  \<open>Instant::now() + keep_alive\<close> is exact. The serializer of JSON is the parameter \<open>to_vec\<close>, that of
  a database the parameter \<open>db_vec\<close>. Sums of byte counts wrap around as in a release build.
\<close>

definition MAX_SCROLL_CONTEXTS :: nat where "MAX_SCROLL_CONTEXTS = 32"

definition SCROLL_TTL :: nat where "SCROLL_TTL = 15 * 60 * 10 ^ 9"

definition MAX_PIT_CONTEXTS :: nat where "MAX_PIT_CONTEXTS = 16"

definition MAX_PIT_RETAINED_BYTES :: nat where "MAX_PIT_RETAINED_BYTES = 64 * 1024 * 1024"

subsection \<open>State\<close>

record ScrollCursor =
  cur_hits :: "json list"
  cur_position :: nat
  cur_batch_size :: nat
  cur_total :: json
  cur_max_score :: json
  cur_last_accessed :: nat
  cur_bytes :: nat
  cur_terminal :: bool

record ScrollPage =
  pg_scroll_id :: string
  pg_hits :: "json list"
  pg_total :: json
  pg_max_score :: json

record PitContext =
  pit_db :: Database
  pit_created :: nat
  pit_expires_at :: nat
  pit_keep_alive :: nat
  pit_bytes :: nat

record PitCreateResult =
  pcr_id :: string
  pcr_creation_time :: nat
  pcr_total_shards :: nat

record PitInfo =
  pi_id :: string
  pi_creation_time :: nat
  pi_keep_alive_millis :: nat

record PitDeleteResult =
  pd_id :: string
  pd_successful :: bool

record TaskRecord =
  task_id :: string
  task_action :: string
  task_response :: json

record RuntimeError =
  rte_status :: nat
  rte_type :: string
  rte_reason :: string

record RuntimeState =
  rt_scrolls :: "(string, ScrollCursor) btree"
  rt_pits :: "(string, PitContext) btree"
  rt_tasks :: "(string, TaskRecord) btree"
  rt_next_id :: nat

definition RuntimeState_default :: RuntimeState where
  "RuntimeState_default = \<lparr>rt_scrolls = [], rt_pits = [], rt_tasks = [], rt_next_id = 0\<rparr>"

definition RuntimeError_new :: "nat \<Rightarrow> string \<Rightarrow> string \<Rightarrow> RuntimeError" where
  "RuntimeError_new status error_type reason = \<lparr>rte_status = status, rte_type = error_type, rte_reason = reason\<rparr>"

subsection \<open>Measures\<close>

text \<open>\<open>sum::<usize>()\<close> in a release build.\<close>

definition usize_sum :: "nat list \<Rightarrow> nat" where
  "usize_sum xs = sum_list xs mod 2 ^ 64"

definition rt_value_bytes :: "to_vec \<Rightarrow> json \<Rightarrow> nat" where
  "rt_value_bytes tv v = (case tv v of Some bytes \<Rightarrow> length bytes | None \<Rightarrow> usize_max div 4)"

definition rt_database_bytes :: "(Database \<Rightarrow> string option) \<Rightarrow> Database \<Rightarrow> nat" where
  "rt_database_bytes db_vec db = (case db_vec db of Some bytes \<Rightarrow> length bytes | None \<Rightarrow> usize_max div 4)"

definition estimate_scroll_bytes :: "to_vec \<Rightarrow> json list \<Rightarrow> json \<Rightarrow> json \<Rightarrow> nat" where
  "estimate_scroll_bytes tv hits hit_total max_score =
     sat_add (sat_add (usize_sum (map (rt_value_bytes tv) hits)) (rt_value_bytes tv hit_total)) (rt_value_bytes tv max_score)"

definition total_scroll_bytes :: "(string, ScrollCursor) btree \<Rightarrow> nat" where
  "total_scroll_bytes scrolls = usize_sum (map cur_bytes (bt_values scrolls))"

definition total_pit_bytes :: "(string, PitContext) btree \<Rightarrow> nat" where
  "total_pit_bytes pits = usize_sum (map pit_bytes (bt_values pits))"

definition page_hits :: "json list \<Rightarrow> nat \<Rightarrow> nat \<Rightarrow> json list \<times> nat" where
  "page_hits hits position batch_size =
     (let e = min (sat_add position batch_size) (length hits)
      in (drop (min position (length hits)) (take e hits), e))"

definition duration_millis :: "nat \<Rightarrow> nat" where
  "duration_millis d = min (d div 10 ^ 6) (2 ^ 64 - 1)"

definition runtime_id :: "string \<Rightarrow> nat \<Rightarrow> string" where
  "runtime_id p n = ''mainstack-search-'' @ p @ '':'' @ show_nat n"

definition next_runtime_id :: "string \<Rightarrow> RuntimeState \<Rightarrow> string \<times> RuntimeState" where
  "next_runtime_id p st =
     (let n = u64_succ (rt_next_id st) in (runtime_id p n, st\<lparr>rt_next_id := n\<rparr>))"

subsection \<open>Expiry and eviction\<close>

definition purge_expired_scrolls :: "nat \<Rightarrow> RuntimeState \<Rightarrow> RuntimeState" where
  "purge_expired_scrolls now st =
     st\<lparr>rt_scrolls := filter (\<lambda>(_, cur). now - cur_last_accessed cur < SCROLL_TTL) (rt_scrolls st)\<rparr>"

definition purge_expired_pits :: "nat \<Rightarrow> RuntimeState \<Rightarrow> RuntimeState" where
  "purge_expired_pits now st = st\<lparr>rt_pits := filter (\<lambda>(_, pit). pit_expires_at pit > now) (rt_pits st)\<rparr>"

text \<open>\<open>min_by_key\<close>: the first of the entries with the least key.\<close>

fun oldest_entry :: "string \<times> ScrollCursor \<Rightarrow> (string \<times> ScrollCursor) list \<Rightarrow> string" where
  "oldest_entry e [] = fst e"
| "oldest_entry e (f # fs) =
     oldest_entry (if cur_last_accessed (snd f) < cur_last_accessed (snd e) then f else e) fs"

lemma oldest_entry_member: "oldest_entry e fs \<in> fst ` set (e # fs)"
proof (induction fs arbitrary: e)
  case (Cons f fs)
  from Cons.IH [of "if cur_last_accessed (snd f) < cur_last_accessed (snd e) then f else e"] show ?case
    by (auto simp del: split_paired_All split_paired_Ex simp flip: image_iff split: if_splits)
qed simp

definition over_budget :: "nat \<Rightarrow> nat \<Rightarrow> (string, ScrollCursor) btree \<Rightarrow> bool" where
  "over_budget incoming max_bytes scrolls \<longleftrightarrow>
     length scrolls \<ge> MAX_SCROLL_CONTEXTS \<or> sat_add (total_scroll_bytes scrolls) incoming > max_bytes"

function evict_scrolls_for_budget :: "nat \<Rightarrow> nat \<Rightarrow> (string, ScrollCursor) btree \<Rightarrow> (string, ScrollCursor) btree" where
  "evict_scrolls_for_budget incoming max_bytes scrolls =
     (if over_budget incoming max_bytes scrolls
      then case scrolls of
             [] \<Rightarrow> scrolls
           | e # es \<Rightarrow> evict_scrolls_for_budget incoming max_bytes (bt_remove (oldest_entry e es) scrolls)
      else scrolls)"
  by pat_completeness auto
termination
proof (relation "measure (\<lambda>(incoming, max_bytes, scrolls). length scrolls)")
  show "wf (measure (\<lambda>(incoming :: nat, max_bytes :: nat, scrolls :: (string, ScrollCursor) btree). length scrolls))" by simp
next
  fix incoming max_bytes :: nat and scrolls e and es :: "(string \<times> ScrollCursor) list"
  assume "scrolls = e # es"
  moreover obtain v where "(oldest_entry e es, v) \<in> set (e # es)" using oldest_entry_member [of e es] by force
  ultimately have "length (bt_remove (oldest_entry e es) scrolls) < length scrolls"
    unfolding bt_remove_def by (intro length_filter_less [of "(oldest_entry e es, v)"]) auto
  then show "((incoming, max_bytes, bt_remove (oldest_entry e es) scrolls), incoming, max_bytes, scrolls)
      \<in> measure (\<lambda>(incoming, max_bytes, scrolls). length scrolls)" by simp
qed

declare evict_scrolls_for_budget.simps [simp del]

subsection \<open>Scrolls\<close>

text \<open>\<open>stamp\<close> is the reading that dates the cursor, \<open>now\<close> the one that expires the others.\<close>

definition create_scroll ::
  "to_vec \<Rightarrow> nat \<Rightarrow> nat \<Rightarrow> json list \<Rightarrow> json \<Rightarrow> json \<Rightarrow> nat \<Rightarrow> nat \<Rightarrow> RuntimeState
    \<Rightarrow> RuntimeState \<times> (RuntimeError, ScrollPage) result" where
  "create_scroll tv stamp now hits hit_total max_score batch max_bytes st =
     (let (scroll_id, st) = next_runtime_id ''scroll'' st;
          batch_size = max batch 1;
          (page, position) = page_hits hits 0 batch_size;
          remaining = (if position < length hits then drop position hits else []);
          bytes = estimate_scroll_bytes tv remaining hit_total max_score
      in if bytes > max_bytes then
           (st, Inl (RuntimeError_new 429 ''resource_limit_exception''
              (''scroll context would retain '' @ show_nat bytes @ '' bytes, exceeding the local scroll budget'')))
         else
           let cur = \<lparr>cur_hits = remaining, cur_position = 0, cur_batch_size = batch_size, cur_total = hit_total,
                      cur_max_score = max_score, cur_last_accessed = stamp, cur_bytes = bytes,
                      cur_terminal = (remaining = [])\<rparr>;
               st = purge_expired_scrolls now st;
               scrolls = evict_scrolls_for_budget bytes max_bytes (rt_scrolls st)
           in if over_budget bytes max_bytes scrolls then
                (st\<lparr>rt_scrolls := scrolls\<rparr>,
                 Inl (RuntimeError_new 429 ''resource_limit_exception'' ''maximum local scroll contexts reached''))
              else
                (st\<lparr>rt_scrolls := bt_insert scroll_id cur scrolls\<rparr>,
                 Inr \<lparr>pg_scroll_id = scroll_id, pg_hits = page, pg_total = hit_total, pg_max_score = max_score\<rparr>))"

text \<open>The cursor after a page that was not the terminal one, and the hits of the page.\<close>

definition advance_cursor :: "to_vec \<Rightarrow> nat \<Rightarrow> ScrollCursor \<Rightarrow> ScrollCursor \<times> json list" where
  "advance_cursor tv stamp cur =
     (let cur = cur\<lparr>cur_last_accessed := stamp\<rparr>;
          (hits, position) = page_hits (cur_hits cur) (cur_position cur) (cur_batch_size cur)
      in if position \<ge> length (cur_hits cur) then
           (cur\<lparr>cur_terminal := True, cur_hits := [], cur_position := 0,
                cur_bytes := estimate_scroll_bytes tv [] (cur_total cur) (cur_max_score cur)\<rparr>, hits)
         else (cur\<lparr>cur_position := position\<rparr>, hits))"

definition next_scroll :: "to_vec \<Rightarrow> nat \<Rightarrow> nat \<Rightarrow> string \<Rightarrow> RuntimeState \<Rightarrow> RuntimeState \<times> ScrollPage option" where
  "next_scroll tv now stamp scroll_id st =
     (let st = purge_expired_scrolls now st
      in case bt_get (rt_scrolls st) scroll_id of
           None \<Rightarrow> (st, None)
         | Some cur \<Rightarrow>
             if cur_terminal cur then
               (st\<lparr>rt_scrolls := bt_remove scroll_id (rt_scrolls st)\<rparr>,
                Some \<lparr>pg_scroll_id = scroll_id, pg_hits = [], pg_total = cur_total cur, pg_max_score = cur_max_score cur\<rparr>)
             else
               let (cur', hits) = advance_cursor tv stamp cur
               in (st\<lparr>rt_scrolls := bt_insert scroll_id cur' (rt_scrolls st)\<rparr>,
                   Some \<lparr>pg_scroll_id = scroll_id, pg_hits = hits, pg_total = cur_total cur, pg_max_score = cur_max_score cur\<rparr>))"

fun remove_scrolls :: "string list \<Rightarrow> (string, ScrollCursor) btree \<Rightarrow> (string, ScrollCursor) btree \<times> nat" where
  "remove_scrolls [] scrolls = (scrolls, 0)"
| "remove_scrolls (i # ids) scrolls =
     (let (rest, n) = remove_scrolls ids (bt_remove i scrolls)
      in (rest, (if bt_has scrolls i then 1 else 0) + n))"

definition clear_scrolls :: "nat \<Rightarrow> string list \<Rightarrow> RuntimeState \<Rightarrow> RuntimeState \<times> nat" where
  "clear_scrolls now scroll_ids st =
     (let st = purge_expired_scrolls now st;
          (scrolls, n) = remove_scrolls scroll_ids (rt_scrolls st)
      in (st\<lparr>rt_scrolls := scrolls\<rparr>, n))"

subsection \<open>Points in time\<close>

definition create_pit ::
  "(Database \<Rightarrow> string option) \<Rightarrow> nat \<Rightarrow> nat \<Rightarrow> nat \<Rightarrow> Database \<Rightarrow> nat \<Rightarrow> nat \<Rightarrow> nat \<Rightarrow> RuntimeState
    \<Rightarrow> RuntimeState \<times> (RuntimeError, PitCreateResult) result" where
  "create_pit db_vec unix_millis now stamp database keep_alive total_shards max_bytes st =
     (let bytes = rt_database_bytes db_vec database
      in if bytes > max_bytes \<or> bytes > MAX_PIT_RETAINED_BYTES then
           (st, Inl (RuntimeError_new 429 ''resource_limit_exception''
              (''PIT context would retain '' @ show_nat bytes @ '' bytes, exceeding the local PIT budget'')))
         else
           let (pit_id, st) = next_runtime_id ''pit'' st;
               st = purge_expired_pits now st;
               retained = sat_add (total_pit_bytes (rt_pits st)) bytes
           in if length (rt_pits st) \<ge> MAX_PIT_CONTEXTS \<or> retained > max_bytes \<or> retained > MAX_PIT_RETAINED_BYTES then
                (st, Inl (RuntimeError_new 429 ''resource_limit_exception'' ''maximum local PIT contexts reached''))
              else
                (st\<lparr>rt_pits := bt_insert pit_id
                      \<lparr>pit_db = database, pit_created = unix_millis, pit_expires_at = stamp + keep_alive,
                       pit_keep_alive = keep_alive, pit_bytes = bytes\<rparr> (rt_pits st)\<rparr>,
                 Inr \<lparr>pcr_id = pit_id, pcr_creation_time = unix_millis, pcr_total_shards = total_shards\<rparr>))"

definition list_pits :: "nat \<Rightarrow> RuntimeState \<Rightarrow> RuntimeState \<times> PitInfo list" where
  "list_pits now st =
     (let st = purge_expired_pits now st
      in (st, map (\<lambda>(pit_id, pit). \<lparr>pi_id = pit_id, pi_creation_time = pit_created pit,
                                    pi_keep_alive_millis = duration_millis (pit_keep_alive pit)\<rparr>) (rt_pits st)))"

definition deleted_pit :: "string \<Rightarrow> PitDeleteResult" where
  "deleted_pit pid = \<lparr>pd_id = pid, pd_successful = True\<rparr>"

definition delete_pits :: "nat \<Rightarrow> string list \<Rightarrow> RuntimeState \<Rightarrow> RuntimeState \<times> PitDeleteResult list" where
  "delete_pits now pit_ids st =
     (let st = purge_expired_pits now st
      in (st\<lparr>rt_pits := fold bt_remove pit_ids (rt_pits st)\<rparr>, map deleted_pit pit_ids))"

definition delete_all_pits :: "nat \<Rightarrow> RuntimeState \<Rightarrow> RuntimeState \<times> PitDeleteResult list" where
  "delete_all_pits now st =
     (let st = purge_expired_pits now st; pit_ids = bt_keys (rt_pits st)
      in (st\<lparr>rt_pits := fold bt_remove pit_ids (rt_pits st)\<rparr>, map deleted_pit pit_ids))"

definition pit_database :: "nat \<Rightarrow> nat \<Rightarrow> string \<Rightarrow> nat option \<Rightarrow> RuntimeState \<Rightarrow> RuntimeState \<times> Database option" where
  "pit_database now stamp pid keep_alive st =
     (let st = purge_expired_pits now st;
          renew = (\<lambda>pit. case keep_alive of
                     None \<Rightarrow> pit
                   | Some k \<Rightarrow> pit\<lparr>pit_keep_alive := k, pit_expires_at := stamp + k\<rparr>)
      in case bt_get (rt_pits st) pid of
           None \<Rightarrow> (st, None)
         | Some pit \<Rightarrow> (st\<lparr>rt_pits := bt_insert pid (renew pit) (rt_pits st)\<rparr>, Some (pit_db pit)))"

subsection \<open>Tasks\<close>

definition record_completed_task :: "string \<Rightarrow> json \<Rightarrow> RuntimeState \<Rightarrow> RuntimeState \<times> string" where
  "record_completed_task action response st =
     (let (tid, st) = next_runtime_id ''task'' st
      in (st\<lparr>rt_tasks := bt_insert tid \<lparr>task_id = tid, task_action = action, task_response = response\<rparr> (rt_tasks st)\<rparr>,
          tid))"

definition task_of :: "string \<Rightarrow> RuntimeState \<Rightarrow> TaskRecord option" where
  "task_of tid st = bt_get (rt_tasks st) tid"

definition response_body :: "TaskRecord \<Rightarrow> json" where
  "response_body task =
     (let numeric_id = (case parse_u64 (last (split_on (CHR '':'') (task_id task))) of Some n \<Rightarrow> n | None \<Rightarrow> 0);
          counter = (\<lambda>k. (k, jnat (u64_at (task_response task) k)))
      in jobject
        [(''completed'', JBool True),
         (''task'', jobject
           [(''node'', JStr ''mainstack-search''), (''id'', jnat numeric_id), (''type'', JStr ''transport''),
            (''action'', JStr (task_action task)),
            (''status'', jobject [counter ''total'', counter ''updated'', counter ''created'', counter ''deleted''])]),
         (''response'', task_response task)])"

end
