(* ===== verification/RuntimeInv.thy ===== *)
theory RuntimeInv
  imports Runtime
begin

section \<open>Contexts stay within their budgets\<close>

text \<open>
  The methods of the runtime state as events, the budgets the handlers of \<open>src/api/mod.rs\<close> pass
  to them, and the invariant all of them keep: scrolls and points in time are pools of weighed
  entries within a count and a budget. What both pools share is the locale \<open>retained_pool\<close>.
\<close>

subsection \<open>Pools within a budget\<close>

definition pool_ok :: "('c \<Rightarrow> nat) \<Rightarrow> nat \<Rightarrow> nat \<Rightarrow> (string, 'c) btree \<Rightarrow> bool" where
  "pool_ok weigh max_count max_bytes pool \<longleftrightarrow>
     bt_ok pool \<and> length pool \<le> max_count \<and> sum_list (map weigh (bt_values pool)) \<le> max_bytes"

locale retained_pool =
  fixes weigh :: "'c \<Rightarrow> nat" and max_count max_bytes :: nat
  assumes budget: "max_bytes < usize_max"
begin

lemma values_sum: "sum_list (map weigh (bt_values pool)) = sum_list (map (\<lambda>e. weigh (snd e)) pool)"
  by (simp add: bt_values_def comp_def)

lemma total_exact:
  assumes "pool_ok weigh max_count max_bytes pool"
  shows "usize_sum (map weigh (bt_values pool)) = sum_list (map weigh (bt_values pool))"
proof -
  have "sum_list (map weigh (bt_values pool)) < 2 ^ 64"
    using assms budget by (simp add: pool_ok_def usize_max_def)
  then show ?thesis by (simp add: usize_sum_def)
qed

lemma pool_empty: "pool_ok weigh max_count max_bytes []"
  by (simp add: pool_ok_def bt_values_def)

lemma pool_filter:
  assumes "pool_ok weigh max_count max_bytes pool"
  shows "pool_ok weigh max_count max_bytes (filter P pool)"
proof -
  have "sum_list (map (\<lambda>e. weigh (snd e)) (filter P pool)) \<le> sum_list (map (\<lambda>e. weigh (snd e)) pool)"
    by (rule sum_list_filter_le_nat)
  with assms show ?thesis
    unfolding pool_ok_def values_sum by (auto simp: bt_ok_filter intro: le_trans [OF length_filter_le])
qed

lemma pool_remove: "pool_ok weigh max_count max_bytes pool \<Longrightarrow> pool_ok weigh max_count max_bytes (bt_remove k pool)"
  unfolding bt_remove_def by (rule pool_filter)

lemma pool_insert:
  assumes "pool_ok weigh max_count max_bytes pool" and "length pool < max_count"
    and "sat_add (usize_sum (map weigh (bt_values pool))) (weigh c) \<le> max_bytes"
  shows "pool_ok weigh max_count max_bytes (bt_insert k c pool)"
proof -
  have ok: "bt_ok pool" using assms(1) by (simp add: pool_ok_def)
  have "sum_list (map weigh (bt_values pool)) + weigh c \<le> max_bytes"
    using assms(3) budget by (simp add: total_exact [OF assms(1)] sat_add_def)
  with bt_sum_insert [OF ok, of "\<lambda>e. weigh (snd e)" k c]
  have "sum_list (map weigh (bt_values (bt_insert k c pool))) \<le> max_bytes"
    unfolding values_sum by (simp split: option.splits)
  moreover have "length (bt_insert k c pool) \<le> max_count"
    using assms(2) by (simp add: bt_length_insert [OF ok])
  ultimately show ?thesis using ok by (simp add: pool_ok_def)
qed

lemma pool_replace:
  assumes "pool_ok weigh max_count max_bytes pool" and "bt_get pool k = Some c" and "weigh c' \<le> weigh c"
  shows "pool_ok weigh max_count max_bytes (bt_insert k c' pool)"
proof -
  have ok: "bt_ok pool" using assms(1) by (simp add: pool_ok_def)
  with bt_sum_insert [OF ok, of "\<lambda>e. weigh (snd e)" k c'] assms
  have "sum_list (map weigh (bt_values (bt_insert k c' pool))) \<le> max_bytes"
    unfolding values_sum pool_ok_def by simp
  moreover have "length (bt_insert k c' pool) \<le> max_count"
    using assms(1,2) by (simp add: bt_length_insert [OF ok] bt_has_def pool_ok_def)
  ultimately show ?thesis using ok by (simp add: pool_ok_def)
qed

end

subsection \<open>Budgets\<close>

definition MAX_SCROLL_RETAINED_HITS :: nat where "MAX_SCROLL_RETAINED_HITS = 10000"

definition MAX_SCROLL_RETAINED_BYTES :: nat where "MAX_SCROLL_RETAINED_BYTES = 32 * 1024 * 1024"

record RuntimeConfig =
  rc_tv :: to_vec
  rc_db_vec :: "Database \<Rightarrow> string option"
  rc_memory_limit :: nat
  rc_max_result_window :: nat

definition scroll_memory_budget :: "RuntimeConfig \<Rightarrow> nat" where
  "scroll_memory_budget cfg = min (rc_memory_limit cfg) MAX_SCROLL_RETAINED_BYTES"

definition pit_memory_budget :: "RuntimeConfig \<Rightarrow> nat" where
  "pit_memory_budget cfg = min (rc_memory_limit cfg) (64 * 1024 * 1024)"

definition scroll_capture_size :: "RuntimeConfig \<Rightarrow> nat \<Rightarrow> nat" where
  "scroll_capture_size cfg batch_size = max (min (rc_max_result_window cfg) MAX_SCROLL_RETAINED_HITS) (max batch_size 1)"

abbreviation scrolls_ok :: "RuntimeConfig \<Rightarrow> (string, ScrollCursor) btree \<Rightarrow> bool" where
  "scrolls_ok cfg \<equiv> pool_ok cur_bytes MAX_SCROLL_CONTEXTS (scroll_memory_budget cfg)"

abbreviation pits_ok :: "RuntimeConfig \<Rightarrow> (string, PitContext) btree \<Rightarrow> bool" where
  "pits_ok cfg \<equiv> pool_ok pit_bytes MAX_PIT_CONTEXTS (pit_memory_budget cfg)"

interpretation scroll_pool: retained_pool cur_bytes MAX_SCROLL_CONTEXTS "scroll_memory_budget cfg" for cfg
  by unfold_locales (simp add: scroll_memory_budget_def MAX_SCROLL_RETAINED_BYTES_def usize_max_def)

interpretation pit_pool: retained_pool pit_bytes MAX_PIT_CONTEXTS "pit_memory_budget cfg" for cfg
  by unfold_locales (simp add: pit_memory_budget_def usize_max_def)

subsection \<open>Events\<close>

datatype rt_event =
    CreateScroll (ev_stamp: nat) (ev_now: nat) "json list" json json nat
  | NextScroll (ev_now: nat) (ev_stamp: nat) string
  | ClearScrolls (ev_now: nat) "string list"
  | CreatePit nat (ev_now: nat) (ev_stamp: nat) Database nat nat
  | ListPits (ev_now: nat)
  | DeletePits (ev_now: nat) "string list"
  | DeleteAllPits (ev_now: nat)
  | ReadPit (ev_now: nat) (ev_stamp: nat) string "nat option"
  | RecordTask string json
  | GetTask string

datatype rt_reply =
    ScrollReply "(RuntimeError, ScrollPage) result"
  | PageReply "ScrollPage option"
  | CountReply nat
  | PitReply "(RuntimeError, PitCreateResult) result"
  | PitsReply "PitInfo list"
  | DeletedReply "PitDeleteResult list"
  | DatabaseReply "Database option"
  | TaskIdReply string
  | TaskReply "TaskRecord option"

fun rt_exec :: "RuntimeConfig \<Rightarrow> rt_event \<Rightarrow> RuntimeState \<Rightarrow> RuntimeState \<times> rt_reply" where
  "rt_exec cfg (CreateScroll stamp now hits hit_total score batch) st =
     map_prod (\<lambda>s. s) ScrollReply (create_scroll (rc_tv cfg) stamp now hits hit_total score batch (scroll_memory_budget cfg) st)"
| "rt_exec cfg (NextScroll now stamp i) st = map_prod (\<lambda>s. s) PageReply (next_scroll (rc_tv cfg) now stamp i st)"
| "rt_exec cfg (ClearScrolls now ids) st = map_prod (\<lambda>s. s) CountReply (clear_scrolls now ids st)"
| "rt_exec cfg (CreatePit unix now stamp db keep shards) st =
     map_prod (\<lambda>s. s) PitReply (create_pit (rc_db_vec cfg) unix now stamp db keep shards (pit_memory_budget cfg) st)"
| "rt_exec cfg (ListPits now) st = map_prod (\<lambda>s. s) PitsReply (list_pits now st)"
| "rt_exec cfg (DeletePits now ids) st = map_prod (\<lambda>s. s) DeletedReply (delete_pits now ids st)"
| "rt_exec cfg (DeleteAllPits now) st = map_prod (\<lambda>s. s) DeletedReply (delete_all_pits now st)"
| "rt_exec cfg (ReadPit now stamp i keep) st = map_prod (\<lambda>s. s) DatabaseReply (pit_database now stamp i keep st)"
| "rt_exec cfg (RecordTask action response) st = map_prod (\<lambda>s. s) TaskIdReply (record_completed_task action response st)"
| "rt_exec cfg (GetTask i) st = (st, TaskReply (task_of i st))"

fun rt_run :: "RuntimeConfig \<Rightarrow> rt_event list \<Rightarrow> RuntimeState \<Rightarrow> RuntimeState \<times> (rt_event \<times> rt_reply) list" where
  "rt_run cfg [] st = (st, [])"
| "rt_run cfg (e # es) st =
     (let (st1, r) = rt_exec cfg e st; (st2, rs) = rt_run cfg es st1 in (st2, (e, r) # rs))"

subsection \<open>The invariant\<close>

text \<open>A cursor knows its bytes, and only a terminal one has no hits left.\<close>

definition cursor_ok :: "to_vec \<Rightarrow> ScrollCursor \<Rightarrow> bool" where
  "cursor_ok tv cur \<longleftrightarrow>
     cur_bytes cur = estimate_scroll_bytes tv (cur_hits cur) (cur_total cur) (cur_max_score cur)
     \<and> 1 \<le> cur_batch_size cur
     \<and> (if cur_terminal cur then cur_hits cur = [] else cur_position cur < length (cur_hits cur))"

definition pit_ok :: "(Database \<Rightarrow> string option) \<Rightarrow> PitContext \<Rightarrow> bool" where
  "pit_ok db_vec pit \<longleftrightarrow> pit_bytes pit = rt_database_bytes db_vec (pit_db pit)"

definition runtime_inv :: "RuntimeConfig \<Rightarrow> RuntimeState \<Rightarrow> bool" where
  "runtime_inv cfg st \<longleftrightarrow>
     scrolls_ok cfg (rt_scrolls st) \<and> pits_ok cfg (rt_pits st)
     \<and> bt_all (\<lambda>_. cursor_ok (rc_tv cfg)) (rt_scrolls st) \<and> bt_all (\<lambda>_. pit_ok (rc_db_vec cfg)) (rt_pits st)"

lemma runtime_inv_default: "runtime_inv cfg RuntimeState_default"
  by (simp add: runtime_inv_def RuntimeState_default_def scroll_pool.pool_empty pit_pool.pool_empty)

lemma runtime_inv_next_id [simp]: "runtime_inv cfg (st\<lparr>rt_next_id := n\<rparr>) = runtime_inv cfg st"
  by (simp add: runtime_inv_def)

lemma runtime_inv_tasks [simp]: "runtime_inv cfg (st\<lparr>rt_tasks := m\<rparr>) = runtime_inv cfg st"
  by (simp add: runtime_inv_def)

lemma runtime_inv_tasks_next_id [simp]: "runtime_inv cfg (st\<lparr>rt_tasks := m, rt_next_id := n\<rparr>) = runtime_inv cfg st"
  by (simp add: runtime_inv_def)

lemma next_runtime_id_state: "snd (next_runtime_id p st) = st\<lparr>rt_next_id := u64_succ (rt_next_id st)\<rparr>"
  by (simp add: next_runtime_id_def Let_def)

lemma runtime_inv_purge_scrolls: "runtime_inv cfg st \<Longrightarrow> runtime_inv cfg (purge_expired_scrolls now st)"
  by (auto simp: runtime_inv_def purge_expired_scrolls_def scroll_pool.pool_filter)

lemma runtime_inv_purge_pits: "runtime_inv cfg st \<Longrightarrow> runtime_inv cfg (purge_expired_pits now st)"
  by (auto simp: runtime_inv_def purge_expired_pits_def pit_pool.pool_filter)

text \<open>Eviction ends within the budget as soon as the new context alone is.\<close>

lemma evict_scrolls_filter: "\<exists>P. evict_scrolls_for_budget bytes limit scrolls = filter P scrolls"
proof (induction bytes limit scrolls rule: evict_scrolls_for_budget.induct)
  case (1 bytes limit scrolls)
  show ?case
  proof (cases "over_budget bytes limit scrolls \<and> scrolls \<noteq> []")
    case True
    then obtain e es where e: "scrolls = e # es" by (cases scrolls) auto
    with True 1 obtain P where "evict_scrolls_for_budget bytes limit (bt_remove (oldest_entry e es) scrolls)
        = filter P (bt_remove (oldest_entry e es) scrolls)" by blast
    moreover have "evict_scrolls_for_budget bytes limit scrolls
        = evict_scrolls_for_budget bytes limit (bt_remove (oldest_entry e es) scrolls)"
      using True e by (subst evict_scrolls_for_budget.simps) (simp only: list.case if_True)
    ultimately show ?thesis unfolding bt_remove_def filter_filter by metis
  next
    case False
    then have "evict_scrolls_for_budget bytes limit scrolls = filter (\<lambda>_. True) scrolls"
      by (subst evict_scrolls_for_budget.simps) (auto split: list.splits)
    then show ?thesis by blast
  qed
qed

lemma evict_scrolls_pool:
  "scrolls_ok cfg scrolls \<Longrightarrow> scrolls_ok cfg (evict_scrolls_for_budget bytes limit scrolls)"
  using evict_scrolls_filter [of bytes limit scrolls] by (auto intro: scroll_pool.pool_filter)

lemma evict_scrolls_all:
  "bt_all P scrolls \<Longrightarrow> bt_all P (evict_scrolls_for_budget bytes limit scrolls)"
  using evict_scrolls_filter [of bytes limit scrolls] by auto

lemma evict_scrolls_get:
  "bt_ok scrolls \<Longrightarrow> bt_get (evict_scrolls_for_budget bytes limit scrolls) k \<in> {None, bt_get scrolls k}"
  using evict_scrolls_filter [of bytes limit scrolls] by (auto simp: bt_get_filter split: option.splits)

lemma evict_scrolls_enough:
  "bytes \<le> limit \<Longrightarrow> limit < usize_max \<Longrightarrow> \<not> over_budget bytes limit (evict_scrolls_for_budget bytes limit scrolls)"
proof (induction bytes limit scrolls rule: evict_scrolls_for_budget.induct)
  case (1 bytes limit scrolls)
  show ?case
  proof (cases scrolls)
    case Nil
    with 1 show ?thesis
      by (subst evict_scrolls_for_budget.simps)
        (simp add: over_budget_def total_scroll_bytes_def bt_values_def usize_sum_def MAX_SCROLL_CONTEXTS_def sat_add_def)
  next
    case (Cons e es)
    with 1 show ?thesis by (subst evict_scrolls_for_budget.simps) auto
  qed
qed

end
