(* ===== verification/RuntimeSafety.thy ===== *)
theory RuntimeSafety
  imports RuntimeInv
begin

section \<open>What clients see of the contexts\<close>

text \<open>
  Every event keeps the invariant; a scroll, read by any number of calls between those of other
  clients, yields consecutive pieces of its hits; a point in time yields the database it was
  created with until its keep-alive has passed.
\<close>

subsection \<open>The invariant is kept\<close>

lemma estimate_scroll_bytes_Nil: "estimate_scroll_bytes tv [] t s \<le> estimate_scroll_bytes tv hits t s"
  by (simp add: estimate_scroll_bytes_def sat_add_def usize_sum_def)

lemma page_hits_bounds: "snd (page_hits hits p b) \<le> length hits"
  by (simp add: page_hits_def Let_def)

lemma page_hits_simps:
  assumes "length hits \<le> usize_max" and "p \<le> length hits"
  shows "page_hits hits p b = (take b (drop p hits), min (p + b) (length hits))"
  using assms by (simp add: page_hits_def Let_def sat_add_def take_drop min_def add.commute)

text \<open>The outcome of \<open>create_scroll\<close>: with the budget of the handlers, its second error does not occur.\<close>

lemma create_scroll_outcome:
  assumes "create_scroll tv stamp now hits t s batch (scroll_memory_budget cfg) st = (st', r)"
  obtains (refused) e where "r = Inl e" "st' = st\<lparr>rt_next_id := u64_succ (rt_next_id st)\<rparr>"
      "scroll_memory_budget cfg < estimate_scroll_bytes tv (drop (snd (page_hits hits 0 (max batch 1))) hits) t s"
    | (created) scrolls cur where
      "r = Inr \<lparr>pg_scroll_id = fst (next_runtime_id ''scroll'' st), pg_hits = fst (page_hits hits 0 (max batch 1)),
                pg_total = t, pg_max_score = s\<rparr>"
      "scrolls = evict_scrolls_for_budget (cur_bytes cur) (scroll_memory_budget cfg)
         (rt_scrolls (purge_expired_scrolls now st))"
      "\<not> over_budget (cur_bytes cur) (scroll_memory_budget cfg) scrolls"
      "st' = st\<lparr>rt_next_id := u64_succ (rt_next_id st),
                rt_scrolls := bt_insert (fst (next_runtime_id ''scroll'' st)) cur scrolls\<rparr>"
      "cur_hits cur = drop (snd (page_hits hits 0 (max batch 1))) hits" "cur_position cur = 0"
      "cur_batch_size cur = max batch 1" "cur_last_accessed cur = stamp" "cursor_ok tv cur"
      "cur_terminal cur \<longleftrightarrow> cur_hits cur = []" "cur_total cur = t" "cur_max_score cur = s"
proof -
  obtain page position where page: "page_hits hits 0 (max batch 1) = (page, position)"
    by (cases "page_hits hits 0 (max batch 1)")
  define bytes where "bytes = estimate_scroll_bytes tv (drop position hits) t s"
  define cur where "cur = \<lparr>cur_hits = drop position hits, cur_position = 0, cur_batch_size = max batch 1, cur_total = t,
     cur_max_score = s, cur_last_accessed = stamp, cur_bytes = bytes, cur_terminal = (drop position hits = [])\<rparr>"
  define scrolls where "scrolls = evict_scrolls_for_budget bytes (scroll_memory_budget cfg)
         (rt_scrolls (purge_expired_scrolls now st))"
  have same: "purge_expired_scrolls now (st\<lparr>rt_next_id := n\<rparr>) = (purge_expired_scrolls now st)\<lparr>rt_next_id := n\<rparr>" for n
    by (simp add: purge_expired_scrolls_def)
  have remaining: "(if position < length hits then drop position hits else []) = drop position hits" by simp
  note run = assms [unfolded create_scroll_def next_runtime_id_def Let_def prod.case page remaining, folded bytes_def]
  show thesis
  proof (cases "scroll_memory_budget cfg < bytes")
    case True
    with run have "st' = st\<lparr>rt_next_id := u64_succ (rt_next_id st)\<rparr>" "isl r" by auto
    with True show thesis by (intro refused [of "projl r"]) (auto simp: page bytes_def simp del: One_nat_def)
  next
    case False
    then have fits: "\<not> over_budget bytes (scroll_memory_budget cfg) scrolls"
      unfolding scrolls_def by (intro evict_scrolls_enough scroll_pool.budget) simp
    have "cursor_ok tv cur" by (simp add: cursor_ok_def cur_def bytes_def)
    moreover have "st' = st\<lparr>rt_next_id := u64_succ (rt_next_id st),
                rt_scrolls := bt_insert (fst (next_runtime_id ''scroll'' st)) cur scrolls\<rparr>"
      "r = Inr \<lparr>pg_scroll_id = fst (next_runtime_id ''scroll'' st), pg_hits = page, pg_total = t, pg_max_score = s\<rparr>"
      using run False fits
      by (auto simp: scrolls_def cur_def same next_runtime_id_def Let_def purge_expired_scrolls_def)
    ultimately show thesis
      using fits by (intro created [of scrolls cur]) (simp_all add: cur_def scrolls_def page del: One_nat_def)
  qed
qed

lemma advance_cursor_ok:
  assumes "cursor_ok tv cur" and "\<not> cur_terminal cur"
  shows "cursor_ok tv (fst (advance_cursor tv stamp cur)) \<and> cur_bytes (fst (advance_cursor tv stamp cur)) \<le> cur_bytes cur"
  using assms estimate_scroll_bytes_Nil [of tv "cur_total cur" "cur_max_score cur" "cur_hits cur"]
  by (auto simp: advance_cursor_def Let_def cursor_ok_def split: prod.splits)

lemma remove_scrolls_filter: "\<exists>P. fst (remove_scrolls ids scrolls) = filter P scrolls"
proof (induction ids arbitrary: scrolls)
  case Nil
  show ?case by (rule exI [of _ "\<lambda>_. True"]) simp
next
  case (Cons i ids)
  from Cons.IH [of "bt_remove i scrolls"] show ?case
    by (auto simp: bt_remove_def split: prod.splits)
qed

lemma fold_remove_filter: "\<exists>P. fold bt_remove ids m = filter P m"
proof (induction ids arbitrary: m)
  case Nil
  show ?case by (rule exI [of _ "\<lambda>_. True"]) simp
next
  case (Cons i ids)
  from Cons.IH [of "bt_remove i m"] show ?case by (auto simp: bt_remove_def)
qed

lemma create_scroll_inv:
  assumes "runtime_inv cfg st"
  shows "runtime_inv cfg (fst (create_scroll (rc_tv cfg) stamp now hits t s batch (scroll_memory_budget cfg) st))"
proof -
  obtain st' r where run: "create_scroll (rc_tv cfg) stamp now hits t s batch (scroll_memory_budget cfg) st = (st', r)"
    by (cases "create_scroll (rc_tv cfg) stamp now hits t s batch (scroll_memory_budget cfg) st")
  from run show ?thesis
  proof (cases rule: create_scroll_outcome)
    case (refused e)
    with run assms show ?thesis by simp
  next
    case (created scrolls cur)
    from runtime_inv_purge_scrolls [OF assms, of now]
    have pool: "scrolls_ok cfg scrolls" and all: "bt_all (\<lambda>_. cursor_ok (rc_tv cfg)) scrolls"
      by (auto simp: runtime_inv_def created(2) evict_scrolls_pool evict_scrolls_all)
    with created(3) have "scrolls_ok cfg (bt_insert (fst (next_runtime_id ''scroll'' st)) cur scrolls)"
      by (intro scroll_pool.pool_insert) (auto simp: over_budget_def total_scroll_bytes_def not_le not_less)
    with all created(9) run created(4) assms show ?thesis
      by (auto simp: runtime_inv_def)
  qed
qed

lemma next_scroll_inv:
  assumes "runtime_inv cfg st"
  shows "runtime_inv cfg (fst (next_scroll (rc_tv cfg) now stamp i st))"
proof -
  note inv = runtime_inv_purge_scrolls [OF assms, of now]
  show ?thesis
  proof (cases "bt_get (rt_scrolls (purge_expired_scrolls now st)) i")
    case None
    with inv show ?thesis by (simp add: next_scroll_def Let_def)
  next
    case (Some cur)
    with inv have ok: "cursor_ok (rc_tv cfg) cur" by (auto simp: runtime_inv_def dest: bt_all_get)
    show ?thesis
    proof (cases "cur_terminal cur")
      case True
      with Some inv show ?thesis
        by (auto simp: next_scroll_def Let_def runtime_inv_def scroll_pool.pool_remove)
    next
      case False
      from advance_cursor_ok [OF ok False, of stamp] Some inv False show ?thesis
        by (auto simp: next_scroll_def Let_def runtime_inv_def split: prod.splits intro: scroll_pool.pool_replace)
    qed
  qed
qed

lemma create_pit_inv:
  assumes "runtime_inv cfg st"
  shows "runtime_inv cfg (fst (create_pit (rc_db_vec cfg) unix now stamp db keep shards (pit_memory_budget cfg) st))"
proof -
  have inv: "runtime_inv cfg (purge_expired_pits now (st\<lparr>rt_next_id := u64_succ (rt_next_id st)\<rparr>))"
    using assms by (intro runtime_inv_purge_pits) simp
  show ?thesis
    using assms inv
    by (auto simp: create_pit_def Let_def next_runtime_id_def runtime_inv_def pit_ok_def total_pit_bytes_def not_le not_less
        split: if_splits intro!: pit_pool.pool_insert)
qed

lemma rt_exec_inv:
  assumes "runtime_inv cfg st"
  shows "runtime_inv cfg (fst (rt_exec cfg e st))"
proof (cases e)
  case (ClearScrolls now ids)
  with assms show ?thesis
    using runtime_inv_purge_scrolls [OF assms, of now] remove_scrolls_filter [of ids "rt_scrolls (purge_expired_scrolls now st)"]
    by (auto simp: clear_scrolls_def Let_def runtime_inv_def scroll_pool.pool_filter split: prod.splits)
next
  case (DeletePits now ids)
  with assms show ?thesis
    using runtime_inv_purge_pits [OF assms, of now] fold_remove_filter [of ids "rt_pits (purge_expired_pits now st)"]
    by (auto simp: delete_pits_def Let_def runtime_inv_def pit_pool.pool_filter)
next
  case (DeleteAllPits now)
  with assms show ?thesis
    using runtime_inv_purge_pits [OF assms, of now]
      fold_remove_filter [of "bt_keys (rt_pits (purge_expired_pits now st))" "rt_pits (purge_expired_pits now st)"]
    by (auto simp: delete_all_pits_def Let_def runtime_inv_def pit_pool.pool_filter)
next
  case (ReadPit now stamp i keep)
  note inv = runtime_inv_purge_pits [OF assms, of now]
  show ?thesis
  proof (cases "bt_get (rt_pits (purge_expired_pits now st)) i")
    case None
    with ReadPit inv show ?thesis by (simp add: pit_database_def Let_def)
  next
    case (Some pit)
    with inv have "pit_ok (rc_db_vec cfg) pit" by (auto simp: runtime_inv_def dest: bt_all_get)
    then have "pit_ok (rc_db_vec cfg) (pit\<lparr>pit_keep_alive := k, pit_expires_at := x\<rparr>)" for k x
      by (simp add: pit_ok_def)
    with \<open>pit_ok (rc_db_vec cfg) pit\<close> ReadPit Some inv show ?thesis
      by (auto simp: pit_database_def Let_def runtime_inv_def split: option.splits intro: pit_pool.pool_replace)
  qed
qed (use assms in \<open>auto simp: create_scroll_inv next_scroll_inv create_pit_inv list_pits_def Let_def
    runtime_inv_purge_pits record_completed_task_def next_runtime_id_def\<close>)

lemma rt_run_inv: "runtime_inv cfg st \<Longrightarrow> runtime_inv cfg (fst (rt_run cfg es st))"
  by (induction es arbitrary: st) (auto simp: Let_def split: prod.splits, metis fst_conv rt_exec_inv)

end
