(* ===== verification/RuntimeTrace.thy ===== *)
theory RuntimeTrace
  imports RuntimeSafety
begin

section \<open>Reading a context while others use the server\<close>

text \<open>Traces of events with the calls of one client picked out: the ids that were given out, the pages of one scroll
  and the reads of one point in time between the events of all others.\<close>

subsection \<open>Identifiers\<close>

text \<open>The ids in use were given out before, so that a new context does not replace an old one.\<close>

definition issued :: "string \<Rightarrow> string \<Rightarrow> RuntimeState \<Rightarrow> bool" where
  "issued p i st \<longleftrightarrow> (\<exists>n \<le> rt_next_id st. i = runtime_id p n)"

lemma runtime_id_inj [simp]: "runtime_id p m = runtime_id p n \<longleftrightarrow> m = n"
  by (simp add: runtime_id_def)

lemma next_id_fresh: "issued p i st \<Longrightarrow> rt_next_id st < 2 ^ 64 - 1 \<Longrightarrow> fst (next_runtime_id p st) \<noteq> i"
  by (auto simp: issued_def next_runtime_id_def Let_def)

lemma next_id_issued: "rt_next_id st < 2 ^ 64 - 1 \<Longrightarrow> rt_next_id st' = Suc (rt_next_id st) \<Longrightarrow> issued p (fst (next_runtime_id p st)) st'"
  by (auto simp: issued_def next_runtime_id_def Let_def)

lemma purge_next_id [simp]:
  "rt_next_id (purge_expired_scrolls now st) = rt_next_id st" "rt_next_id (purge_expired_pits now st) = rt_next_id st"
  by (simp_all add: purge_expired_scrolls_def purge_expired_pits_def)

lemma rt_exec_next_id: "rt_next_id (fst (rt_exec cfg e st)) \<in> {rt_next_id st, u64_succ (rt_next_id st)}"
proof (cases e)
  case (CreateScroll stamp now hits t s batch)
  obtain st' r where run: "create_scroll (rc_tv cfg) stamp now hits t s batch (scroll_memory_budget cfg) st = (st', r)"
    by (cases "create_scroll (rc_tv cfg) stamp now hits t s batch (scroll_memory_budget cfg) st")
  with CreateScroll show ?thesis by (auto elim: create_scroll_outcome)
qed (auto simp: next_scroll_def clear_scrolls_def create_pit_def list_pits_def delete_pits_def delete_all_pits_def
    pit_database_def record_completed_task_def next_runtime_id_def Let_def split: option.splits prod.splits)

lemma rt_exec_next_id_less:
  "rt_next_id st + length (e # es) < 2 ^ 64 \<Longrightarrow>
    rt_next_id st < 2 ^ 64 - 1 \<and> rt_next_id (fst (rt_exec cfg e st)) + length es < 2 ^ 64"
  using rt_exec_next_id [of cfg e st] by auto

lemma rt_exec_issued:
  assumes "issued p i st" and "rt_next_id st < 2 ^ 64 - 1"
  shows "issued p i (fst (rt_exec cfg e st))"
proof -
  from assms(1) obtain n where "n \<le> rt_next_id st" "i = runtime_id p n" by (auto simp: issued_def)
  moreover have "rt_next_id st \<le> rt_next_id (fst (rt_exec cfg e st))"
    using rt_exec_next_id [of cfg e st] assms(2) by auto
  ultimately show ?thesis unfolding issued_def by (intro exI [of _ n]) simp
qed

subsection \<open>Scrolls\<close>

text \<open>What a cursor will still return.\<close>

definition left_hits :: "ScrollCursor \<Rightarrow> json list" where
  "left_hits cur = (if cur_terminal cur then [] else drop (cur_position cur) (cur_hits cur))"

lemma advance_cursor_left:
  assumes "cursor_ok tv cur" and "\<not> cur_terminal cur" and "length (cur_hits cur) \<le> usize_max"
    and "advance_cursor tv stamp cur = (cur', page)"
  shows "page = take (cur_batch_size cur) (left_hits cur)" and "left_hits cur' = drop (cur_batch_size cur) (left_hits cur)"
    and "page \<noteq> []" and "cur_batch_size cur' = cur_batch_size cur" and "length (cur_hits cur') \<le> usize_max"
    and "cur_last_accessed cur' = stamp" and "cur_terminal cur' \<longleftrightarrow> left_hits cur' = []"
proof -
  have pos: "cur_position cur < length (cur_hits cur)" and b: "1 \<le> cur_batch_size cur"
    using assms(1,2) by (auto simp: cursor_ok_def)
  note page = page_hits_simps [OF assms(3) less_imp_le [OF pos], of "cur_batch_size cur"]
  show "page = take (cur_batch_size cur) (left_hits cur)" "left_hits cur' = drop (cur_batch_size cur) (left_hits cur)"
    "page \<noteq> []" "cur_batch_size cur' = cur_batch_size cur" "length (cur_hits cur') \<le> usize_max"
    "cur_last_accessed cur' = stamp" "cur_terminal cur' \<longleftrightarrow> left_hits cur' = []"
    using assms(2,3,4) pos b
    by (auto simp: advance_cursor_def Let_def page left_hits_def add.commute split: if_splits)
qed

text \<open>The pages of one scroll among the replies of a run.\<close>

fun page_of :: "string \<Rightarrow> rt_event \<times> rt_reply \<Rightarrow> json list list" where
  "page_of i (NextScroll now stamp j, PageReply (Some p)) = (if j = i then [pg_hits p] else [])"
| "page_of i _ = []"

definition pages_of :: "string \<Rightarrow> (rt_event \<times> rt_reply) list \<Rightarrow> json list list" where
  "pages_of i replies = concat (map (page_of i) replies)"

lemma pages_of_simps [simp]: "pages_of i [] = []" "pages_of i (x # replies) = page_of i x @ pages_of i replies"
  by (simp_all add: pages_of_def)

text \<open>The state of a reader: what it has seen and what is left make up the hits; the empty page is last.\<close>

definition reading :: "string \<Rightarrow> json list \<Rightarrow> nat \<Rightarrow> json list list \<Rightarrow> RuntimeState \<Rightarrow> bool" where
  "reading i hits batch pages st \<longleftrightarrow>
     (case bt_get (rt_scrolls st) i of
        None \<Rightarrow> prefix (concat pages) hits \<and> ([] \<in> set (tl pages) \<longrightarrow> concat pages = hits)
      | Some cur \<Rightarrow> concat pages @ left_hits cur = hits \<and> [] \<notin> set (tl pages) \<and> length (cur_hits cur) \<le> usize_max
          \<and> cur_batch_size cur = batch \<and> (cur_terminal cur \<longleftrightarrow> left_hits cur = []))"

lemma purge_scrolls_get:
  "bt_ok (rt_scrolls st) \<Longrightarrow> bt_get (rt_scrolls (purge_expired_scrolls now st)) i \<in> {None, bt_get (rt_scrolls st) i}"
  by (auto simp: purge_expired_scrolls_def bt_get_filter split: option.splits)

lemma inv_bt_ok: "runtime_inv cfg st \<Longrightarrow> bt_ok (rt_scrolls st) \<and> bt_ok (rt_pits st)"
  by (simp add: runtime_inv_def pool_ok_def)

lemma filter_get: "bt_ok m \<Longrightarrow> m' = filter P m \<Longrightarrow> bt_get m' i \<in> {None, bt_get m i}"
  by (auto simp: bt_get_filter split: option.splits)

text \<open>An event that is not a call on the scroll leaves its cursor alone or drops it.\<close>

lemma rt_exec_other_scroll:
  assumes inv: "runtime_inv cfg st" and "issued ''scroll'' i st" and "rt_next_id st < 2 ^ 64 - 1"
    and "\<And>now stamp. e \<noteq> NextScroll now stamp i"
  shows "bt_get (rt_scrolls (fst (rt_exec cfg e st))) i \<in> {None, bt_get (rt_scrolls st) i}"
proof -
  have ok: "bt_ok (rt_scrolls st)" using inv_bt_ok [OF inv] by simp
  have purge: "bt_get (rt_scrolls (purge_expired_scrolls now st)) i \<in> {None, bt_get (rt_scrolls st) i}" for now
    by (rule purge_scrolls_get [OF ok])
  have okp: "bt_ok (rt_scrolls (purge_expired_scrolls now st))" for now
    using inv_bt_ok [OF runtime_inv_purge_scrolls [OF inv, of now]] by simp
  have other: "rt_scrolls (purge_expired_pits now st) = rt_scrolls st" for now
    by (simp add: purge_expired_pits_def)
  show ?thesis
  proof (cases e)
    case (CreateScroll stamp now hits t s batch)
    obtain st' r where run: "create_scroll (rc_tv cfg) stamp now hits t s batch (scroll_memory_budget cfg) st = (st', r)"
      by (cases "create_scroll (rc_tv cfg) stamp now hits t s batch (scroll_memory_budget cfg) st")
    from run show ?thesis
    proof (cases rule: create_scroll_outcome)
      case (refused x)
      with run CreateScroll show ?thesis by simp
    next
      case (created scrolls cur)
      from next_id_fresh [OF assms(2,3)] created(4) have "bt_get (rt_scrolls st') i = bt_get scrolls i" by auto
      moreover have "bt_get scrolls i \<in> {None, bt_get (rt_scrolls (purge_expired_scrolls now st)) i}"
        unfolding created(2) by (rule evict_scrolls_get [OF okp])
      ultimately show ?thesis using purge [of now] run CreateScroll by auto
    qed
  next
    case (NextScroll now stamp j)
    with assms(4) have "j \<noteq> i" by auto
    with purge [of now] NextScroll show ?thesis
      by (auto simp: next_scroll_def Let_def split: option.splits prod.splits)
  next
    case (ClearScrolls now ids)
    obtain P where "fst (remove_scrolls ids (rt_scrolls (purge_expired_scrolls now st)))
        = filter P (rt_scrolls (purge_expired_scrolls now st))" using remove_scrolls_filter by blast
    from filter_get [OF okp this, of i] purge [of now] ClearScrolls show ?thesis
      by (auto simp: clear_scrolls_def Let_def split: prod.splits)
  qed (auto simp: create_pit_def list_pits_def delete_pits_def delete_all_pits_def pit_database_def
      record_completed_task_def next_runtime_id_def Let_def purge_expired_pits_def split: option.splits)
qed

lemma page_of_other: "(\<And>now stamp. e \<noteq> NextScroll now stamp i) \<Longrightarrow> page_of i (e, r) = []"
  by (cases "(i, e, r)" rule: page_of.cases) auto

lemma reading_step:
  assumes inv: "runtime_inv cfg st" and "issued ''scroll'' i st" and "rt_next_id st < 2 ^ 64 - 1"
    and "pages \<noteq> []" and read: "reading i hits batch pages st" and step: "rt_exec cfg e st = (st', r)"
  shows "reading i hits batch (pages @ page_of i (e, r)) st'"
proof (cases "\<exists>now stamp. e = NextScroll now stamp i")
  case False
  with rt_exec_other_scroll [OF inv assms(2,3), of e] step page_of_other [of e i r] read show ?thesis
    by (auto simp: reading_def prefix_def split: option.splits)
next
  case True
  then obtain now stamp where e: "e = NextScroll now stamp i" by blast
  have purge: "bt_get (rt_scrolls (purge_expired_scrolls now st)) i \<in> {None, bt_get (rt_scrolls st) i}"
    using purge_scrolls_get inv_bt_ok [OF inv] by blast
  show ?thesis
  proof (cases "bt_get (rt_scrolls (purge_expired_scrolls now st)) i")
    case None
    then have "st' = purge_expired_scrolls now st" "r = PageReply None"
      using step e by (auto simp: next_scroll_def)
    with None read show ?thesis
      by (auto simp: reading_def prefix_def split: option.splits)
  next
    case (Some cur)
    with purge have cur: "bt_get (rt_scrolls st) i = Some cur" by auto
    with inv have ok: "cursor_ok (rc_tv cfg) cur" by (auto simp: runtime_inv_def dest: bt_all_get)
    from read cur have seen: "concat pages @ left_hits cur = hits" "[] \<notin> set (tl pages)"
      "length (cur_hits cur) \<le> usize_max" "cur_batch_size cur = batch" by (auto simp: reading_def)
    show ?thesis
    proof (cases "cur_terminal cur")
      case True
      then have "bt_get (rt_scrolls st') i = None" "page_of i (e, r) = [[]]" "concat pages = hits"
        using step e Some seen(1) by (auto simp: next_scroll_def left_hits_def Let_def)
      then show ?thesis using assms(4) by (simp add: reading_def)
    next
      case False
      obtain cur' page where adv: "advance_cursor (rc_tv cfg) stamp cur = (cur', page)"
        by (cases "advance_cursor (rc_tv cfg) stamp cur")
      note left = advance_cursor_left [OF ok False seen(3) adv]
      have "bt_get (rt_scrolls st') i = Some cur'" "page_of i (e, r) = [page]"
        using step e Some False adv by (auto simp: next_scroll_def Let_def)
      with left seen assms(4) show ?thesis by (auto simp: reading_def append_assoc)
    qed
  qed
qed

lemma reading_run:
  assumes "runtime_inv cfg st" and "issued ''scroll'' i st" and "rt_next_id st + length es < 2 ^ 64"
    and "pages \<noteq> []" and "reading i hits batch pages st" and "rt_run cfg es st = (st', replies)"
  shows "reading i hits batch (pages @ pages_of i replies) st'"
  using assms
proof (induction es arbitrary: st pages replies)
  case (Cons e es)
  obtain st1 r where step: "rt_exec cfg e st = (st1, r)" by (cases "rt_exec cfg e st")
  obtain rs where run: "rt_run cfg es st1 = (st', rs)" and replies: "replies = (e, r) # rs"
    using Cons.prems(6) step by (auto split: prod.splits)
  from rt_exec_next_id_less [OF Cons.prems(3), of cfg] step
  have small: "rt_next_id st < 2 ^ 64 - 1" "rt_next_id st1 + length es < 2 ^ 64" by simp_all
  have "runtime_inv cfg st1" using rt_exec_inv [OF Cons.prems(1), of e] step by simp
  moreover have "issued ''scroll'' i st1" using rt_exec_issued [OF Cons.prems(2) small(1), of cfg e] step by simp
  moreover have "reading i hits batch (pages @ page_of i (e, r)) st1"
    by (rule reading_step [OF Cons.prems(1,2) small(1) Cons.prems(4,5) step])
  ultimately have "reading i hits batch ((pages @ page_of i (e, r)) @ pages_of i rs) st'"
    using Cons.IH [OF _ _ small(2) _ _ run, of "pages @ page_of i (e, r)"] Cons.prems(4) by (simp del: append_assoc)
  then show ?case by (simp add: replies)
qed simp

lemma create_scroll_reading:
  assumes "runtime_inv cfg st" and "length hits \<le> usize_max" and "rt_next_id st < 2 ^ 64 - 1"
    and "create_scroll (rc_tv cfg) stamp now hits t s batch (scroll_memory_budget cfg) st = (st', Inr page)"
  shows "reading (pg_scroll_id page) hits (max batch 1) [pg_hits page] st'" and "issued ''scroll'' (pg_scroll_id page) st'"
    and "runtime_inv cfg st'" and "rt_next_id st' = Suc (rt_next_id st)"
    and "\<exists>cur. bt_get (rt_scrolls st') (pg_scroll_id page) = Some cur \<and> cur_last_accessed cur = stamp"
proof -
  have "reading (pg_scroll_id page) hits (max batch 1) [pg_hits page] st' \<and> issued ''scroll'' (pg_scroll_id page) st'
    \<and> rt_next_id st' = Suc (rt_next_id st)
    \<and> (\<exists>cur. bt_get (rt_scrolls st') (pg_scroll_id page) = Some cur \<and> cur_last_accessed cur = stamp)"
    using assms(4)
  proof (cases rule: create_scroll_outcome)
    case (refused e)
    then show ?thesis by simp
  next
    case (created scrolls cur)
    have hits: "page_hits hits 0 (max batch 1) = (take (max batch 1) hits, min (max batch 1) (length hits))"
      using page_hits_simps [OF assms(2), of 0 "max batch 1"] by simp
    have "left_hits cur = drop (max batch 1) hits" using created(5,6,10)
      unfolding left_hits_def hits by (auto simp: min_def)
    moreover have "length (cur_hits cur) \<le> usize_max" using created(5) assms(2) by simp
    moreover have "issued ''scroll'' (fst (next_runtime_id ''scroll'' st)) st'"
      using assms(3) created(4) by (intro next_id_issued) simp_all
    ultimately show ?thesis
      using created assms(3) by (auto simp: reading_def hits left_hits_def simp del: One_nat_def)
  qed
  then show "reading (pg_scroll_id page) hits (max batch 1) [pg_hits page] st'"
    "issued ''scroll'' (pg_scroll_id page) st'" "rt_next_id st' = Suc (rt_next_id st)"
    "\<exists>cur. bt_get (rt_scrolls st') (pg_scroll_id page) = Some cur \<and> cur_last_accessed cur = stamp" by auto
  from create_scroll_inv [OF assms(1), of stamp now hits t s batch] assms(4) show "runtime_inv cfg st'" by simp
qed

subsection \<open>Reading to the end\<close>

text \<open>
  A run in which nothing drops the scroll: no call on it comes later than its time to live after the
  one before, nobody clears it, and no new scroll needs its place.
\<close>

fun undisturbed :: "string \<Rightarrow> nat \<Rightarrow> rt_event list \<Rightarrow> bool" where
  "undisturbed i last_access [] = True"
| "undisturbed i last_access (e # es) =
     (case e of
        NextScroll now stamp j \<Rightarrow>
          now - last_access < SCROLL_TTL \<and> undisturbed i (if j = i then stamp else last_access) es
      | ClearScrolls now ids \<Rightarrow> now - last_access < SCROLL_TTL \<and> i \<notin> set ids \<and> undisturbed i last_access es
      | CreateScroll stamp now hits t s batch \<Rightarrow> False
      | _ \<Rightarrow> undisturbed i last_access es)"

fun is_call :: "string \<Rightarrow> rt_event \<Rightarrow> bool" where
  "is_call i (NextScroll now stamp j) = (j = i)"
| "is_call i _ = False"

definition calls :: "string \<Rightarrow> rt_event list \<Rightarrow> nat" where
  "calls i es = length (filter (is_call i) es)"

lemma remove_scrolls_get: "i \<notin> set ids \<Longrightarrow> bt_get (fst (remove_scrolls ids scrolls)) i = bt_get scrolls i"
  by (induction ids arbitrary: scrolls) (auto split: prod.splits, metis bt_get_remove fst_conv)

text \<open>Nobody but the reader touches its cursor.\<close>

lemma undisturbed_step:
  assumes inv: "runtime_inv cfg st" and "bt_get (rt_scrolls st) i = Some cur"
    and "undisturbed i (cur_last_accessed cur) (e # es)" and "\<not> is_call i e"
  shows "bt_get (rt_scrolls (fst (rt_exec cfg e st))) i = Some cur"
proof -
  have ok: "bt_ok (rt_scrolls st)" using inv_bt_ok [OF inv] by simp
  have purge: "bt_get (rt_scrolls (purge_expired_scrolls now st)) i = Some cur" if "now - cur_last_accessed cur < SCROLL_TTL" for now
    using that assms(2) by (simp add: purge_expired_scrolls_def bt_get_filter [OF ok])
  show ?thesis
  proof (cases e)
    case (ClearScrolls now ids)
    with assms(3) purge [of now] remove_scrolls_get [of i ids] show ?thesis
      by (auto simp: clear_scrolls_def Let_def split: prod.splits) (metis fst_conv)
  next
    case (NextScroll now stamp j)
    with assms(3,4) purge [of now] show ?thesis
      by (auto simp: next_scroll_def Let_def split: option.splits prod.splits)
  qed (use assms in \<open>auto simp: create_pit_def list_pits_def delete_pits_def delete_all_pits_def pit_database_def
      record_completed_task_def next_runtime_id_def Let_def purge_expired_pits_def split: option.splits\<close>)
qed

lemma reading_ends:
  assumes "runtime_inv cfg st" and "issued ''scroll'' i st" and "rt_next_id st + length es < 2 ^ 64"
    and "pages \<noteq> []" and "reading i hits batch pages st" and "1 \<le> batch"
    and "bt_get (rt_scrolls st) i = Some cur" and "undisturbed i (cur_last_accessed cur) es"
    and "length (left_hits cur) + batch \<le> calls i es * batch" and "rt_run cfg es st = (st', replies)"
  shows "[] \<in> set (pages_of i replies)"
  using assms
proof (induction es arbitrary: st pages replies cur)
  case (Cons e es)
  obtain st1 r where step: "rt_exec cfg e st = (st1, r)" by (cases "rt_exec cfg e st")
  obtain rs where run: "rt_run cfg es st1 = (st', rs)" and replies: "replies = (e, r) # rs"
    using Cons.prems(10) step by (auto split: prod.splits)
  from rt_exec_next_id_less [OF Cons.prems(3), of cfg] step
  have small: "rt_next_id st < 2 ^ 64 - 1" "rt_next_id st1 + length es < 2 ^ 64" by simp_all
  have inv1: "runtime_inv cfg st1" using rt_exec_inv [OF Cons.prems(1), of e] step by simp
  have issued1: "issued ''scroll'' i st1" using rt_exec_issued [OF Cons.prems(2) small(1), of cfg e] step by simp
  have read1: "reading i hits batch (pages @ page_of i (e, r)) st1"
    by (rule reading_step [OF Cons.prems(1,2) small(1) Cons.prems(4,5) step])
  note IH = Cons.IH [OF inv1 issued1 small(2) _ read1 Cons.prems(6) _ _ _ run]
  have ok: "cursor_ok (rc_tv cfg) cur" using Cons.prems(1,7) by (auto simp: runtime_inv_def dest: bt_all_get)
  have cur: "length (cur_hits cur) \<le> usize_max" "cur_batch_size cur = batch" "cur_terminal cur \<longleftrightarrow> left_hits cur = []"
    using Cons.prems(5,7) by (auto simp: reading_def)
  show ?case
  proof (cases "is_call i e")
    case False
    from undisturbed_step [OF Cons.prems(1,7,8) False] step have "bt_get (rt_scrolls st1) i = Some cur" by simp
    moreover have "undisturbed i (cur_last_accessed cur) es" using Cons.prems(8) False by (cases e) auto
    moreover have "length (left_hits cur) + batch \<le> calls i es * batch" using Cons.prems(9) False by (simp add: calls_def)
    ultimately show ?thesis using IH [of cur] Cons.prems(4) by (simp add: replies)
  next
    case True
    then obtain now stamp where e: "e = NextScroll now stamp i" by (cases e) auto
    have alive: "bt_get (rt_scrolls (purge_expired_scrolls now st)) i = Some cur"
      using Cons.prems(7,8) e inv_bt_ok [OF Cons.prems(1)] by (simp add: purge_expired_scrolls_def bt_get_filter)
    show ?thesis
    proof (cases "cur_terminal cur")
      case True
      with alive step e have "page_of i (e, r) = [[]]" by (auto simp: next_scroll_def Let_def)
      then show ?thesis by (simp add: replies)
    next
      case False
      obtain cur' page where adv: "advance_cursor (rc_tv cfg) stamp cur = (cur', page)"
        by (cases "advance_cursor (rc_tv cfg) stamp cur")
      note left = advance_cursor_left [OF ok False cur(1) adv]
      have "bt_get (rt_scrolls st1) i = Some cur'" using step e alive False adv by (auto simp: next_scroll_def Let_def)
      moreover have "undisturbed i (cur_last_accessed cur') es" using Cons.prems(8) e left(6) by simp
      moreover have "length (left_hits cur') + batch \<le> calls i es * batch"
      proof -
        have "length (left_hits cur) + batch \<le> batch + calls i es * batch" "left_hits cur \<noteq> []"
          using Cons.prems(9) e False cur(3) by (simp_all add: calls_def)
        then have "length (left_hits cur) \<le> calls i es * batch" "0 < calls i es" by (auto intro: gr0I)
        moreover have "batch \<le> calls i es * batch" using \<open>0 < calls i es\<close> by simp
        ultimately show ?thesis unfolding left(2) cur(2) length_drop by linarith
      qed
      ultimately show ?thesis using IH [of cur'] Cons.prems(4) by (simp add: replies)
    qed
  qed
qed (auto simp: calls_def)

subsection \<open>Points in time\<close>

text \<open>
  A run in which a point in time that expires at a given instant is neither deleted nor looked at
  too late; a read may extend it.
\<close>

fun pit_alive :: "string \<Rightarrow> nat \<Rightarrow> rt_event list \<Rightarrow> bool" where
  "pit_alive i expires [] = True"
| "pit_alive i expires (e # es) =
     (case e of
        CreatePit unix now stamp db keep shards \<Rightarrow> now < expires \<and> pit_alive i expires es
      | ListPits now \<Rightarrow> now < expires \<and> pit_alive i expires es
      | DeletePits now ids \<Rightarrow> now < expires \<and> i \<notin> set ids \<and> pit_alive i expires es
      | DeleteAllPits now \<Rightarrow> False
      | ReadPit now stamp j keep \<Rightarrow>
          now < expires \<and> pit_alive i (if j = i then case keep of None \<Rightarrow> expires | Some k \<Rightarrow> stamp + k else expires) es
      | _ \<Rightarrow> pit_alive i expires es)"

fun database_of :: "string \<Rightarrow> rt_event \<times> rt_reply \<Rightarrow> Database option list" where
  "database_of i (ReadPit now stamp j keep, DatabaseReply d) = (if j = i then [d] else [])"
| "database_of i _ = []"

definition databases_of :: "string \<Rightarrow> (rt_event \<times> rt_reply) list \<Rightarrow> Database option list" where
  "databases_of i replies = concat (map (database_of i) replies)"

lemma fold_remove_get: "i \<notin> set ids \<Longrightarrow> bt_get (fold bt_remove ids m) i = bt_get m i"
  by (induction ids arbitrary: m) auto

lemma pit_step:
  assumes inv: "runtime_inv cfg st" and "issued ''pit'' i st" and "rt_next_id st < 2 ^ 64 - 1"
    and get: "bt_get (rt_pits st) i = Some pit" and alive: "pit_alive i (pit_expires_at pit) (e # es)"
    and step: "rt_exec cfg e st = (st', r)"
  shows "\<exists>pit'. bt_get (rt_pits st') i = Some pit' \<and> pit_db pit' = pit_db pit \<and> pit_alive i (pit_expires_at pit') es
    \<and> set (database_of i (e, r)) \<subseteq> {Some (pit_db pit)}"
proof -
  have ok: "bt_ok (rt_pits st)" using inv_bt_ok [OF inv] by simp
  have purge: "bt_get (rt_pits (purge_expired_pits now st)) i = Some pit" if "now < pit_expires_at pit" for now
    using that get by (simp add: purge_expired_pits_def bt_get_filter [OF ok])
  have fresh: "runtime_id ''pit'' (u64_succ (rt_next_id st)) \<noteq> i"
    using next_id_fresh [OF assms(2,3)] by (simp add: next_runtime_id_def Let_def)
  have same: "purge_expired_pits now (st\<lparr>rt_next_id := n\<rparr>) = (purge_expired_pits now st)\<lparr>rt_next_id := n\<rparr>" for now n
    by (simp add: purge_expired_pits_def)
  show ?thesis
  proof (cases e)
    case (CreateScroll stamp now hits t s batch)
    obtain st0 r0 where run: "create_scroll (rc_tv cfg) stamp now hits t s batch (scroll_memory_budget cfg) st = (st0, r0)"
      by (cases "create_scroll (rc_tv cfg) stamp now hits t s batch (scroll_memory_budget cfg) st")
    then have "rt_pits st0 = rt_pits st" by (auto elim: create_scroll_outcome)
    with get alive CreateScroll run step show ?thesis by auto
  next
    case (CreatePit unix now stamp db keep shards)
    have "bt_get (rt_pits st') i = Some pit"
      using step CreatePit fresh get purge [of now] alive
      by (auto simp: create_pit_def Let_def next_runtime_id_def same split: if_splits)
    with alive CreatePit show ?thesis by auto
  next
    case (ListPits now)
    with step purge [of now] alive show ?thesis by (auto simp: list_pits_def Let_def)
  next
    case (DeletePits now ids)
    with step purge [of now] alive show ?thesis by (auto simp: delete_pits_def Let_def fold_remove_get)
  next
    case (ReadPit now stamp j keep)
    with step purge [of now] alive show ?thesis
      by (auto simp: pit_database_def Let_def split: option.splits if_splits)
  qed (use get step alive in \<open>auto simp: next_scroll_def clear_scrolls_def purge_expired_scrolls_def
      record_completed_task_def next_runtime_id_def Let_def split: option.splits prod.splits if_splits\<close>)
qed

lemma pit_run:
  assumes "runtime_inv cfg st" and "issued ''pit'' i st" and "rt_next_id st + length es < 2 ^ 64"
    and "bt_get (rt_pits st) i = Some pit" and "pit_alive i (pit_expires_at pit) es"
    and "rt_run cfg es st = (st', replies)"
  shows "set (databases_of i replies) \<subseteq> {Some (pit_db pit)}"
  using assms
proof (induction es arbitrary: st replies pit)
  case (Cons e es)
  obtain st1 r where step: "rt_exec cfg e st = (st1, r)" by (cases "rt_exec cfg e st")
  obtain rs where run: "rt_run cfg es st1 = (st', rs)" and replies: "replies = (e, r) # rs"
    using Cons.prems(6) step by (auto split: prod.splits)
  from rt_exec_next_id_less [OF Cons.prems(3), of cfg] step
  have small: "rt_next_id st < 2 ^ 64 - 1" "rt_next_id st1 + length es < 2 ^ 64" by simp_all
  have inv1: "runtime_inv cfg st1" using rt_exec_inv [OF Cons.prems(1), of e] step by simp
  have issued1: "issued ''pit'' i st1" using rt_exec_issued [OF Cons.prems(2) small(1), of cfg e] step by simp
  from pit_step [OF Cons.prems(1,2) small(1) Cons.prems(4,5) step] obtain pit'
    where pit': "bt_get (rt_pits st1) i = Some pit'" "pit_db pit' = pit_db pit" "pit_alive i (pit_expires_at pit') es"
      "set (database_of i (e, r)) \<subseteq> {Some (pit_db pit)}" by blast
  from Cons.IH [OF inv1 issued1 small(2) pit'(1,3) run] pit'(2,4) show ?case
    by (simp add: replies databases_of_def)
qed (simp add: databases_of_def)

lemma create_pit_outcome:
  assumes "runtime_inv cfg st" and "rt_next_id st < 2 ^ 64 - 1"
    and "create_pit (rc_db_vec cfg) unix now stamp db keep shards (pit_memory_budget cfg) st = (st', Inr pit)"
  shows "runtime_inv cfg st'" and "issued ''pit'' (pcr_id pit) st'" and "rt_next_id st' = Suc (rt_next_id st)"
    and "\<exists>p. bt_get (rt_pits st') (pcr_id pit) = Some p \<and> pit_db p = db \<and> pit_expires_at p = stamp + keep"
proof -
  show "runtime_inv cfg st'"
    using create_pit_inv [OF assms(1), of unix now stamp db keep shards] assms(3) by simp
  have "issued ''pit'' (pcr_id pit) st' \<and> rt_next_id st' = Suc (rt_next_id st)"
    using assms(2,3) by (auto simp: create_pit_def Let_def next_runtime_id_def issued_def split: if_splits)
  then show "issued ''pit'' (pcr_id pit) st'" "rt_next_id st' = Suc (rt_next_id st)" by simp_all
  show "\<exists>p. bt_get (rt_pits st') (pcr_id pit) = Some p \<and> pit_db p = db \<and> pit_expires_at p = stamp + keep"
    using assms(3) by (auto simp: create_pit_def Let_def next_runtime_id_def split: if_splits)
qed

end
