(* ===== verification/RuntimeProperties.thy ===== *)
theory RuntimeProperties
  imports RuntimeTrace
begin

section \<open>Properties of scrolls and points in time\<close>

text \<open>The claims about the contexts, with witnesses on a run of two clients.\<close>

definition demo_to_vec :: to_vec where
  "demo_to_vec v = Some ''{}''"

definition demo_db_vec :: "Database \<Rightarrow> string option" where
  "demo_db_vec db = Some (replicate (length (db_indexes db)) (CHR ''i''))"

definition demo_runtime :: RuntimeConfig where
  "demo_runtime = \<lparr>rc_tv = demo_to_vec, rc_db_vec = demo_db_vec, rc_memory_limit = 100, rc_max_result_window = 10\<rparr>"

definition demo_hits :: "json list" where
  "demo_hits = [JStr ''a'', JStr ''b'', JStr ''c'', JStr ''d'', JStr ''e'']"

definition demo_scroll :: "RuntimeState \<times> (RuntimeError, ScrollPage) result" where
  "demo_scroll = create_scroll (rc_tv demo_runtime) 0 0 demo_hits JNull JNull 2 (scroll_memory_budget demo_runtime) RuntimeState_default"

definition demo_page :: ScrollPage where
  "demo_page = \<lparr>pg_scroll_id = ''mainstack-search-scroll:1'', pg_hits = [JStr ''a'', JStr ''b''], pg_total = JNull, pg_max_score = JNull\<rparr>"

definition demo_reads :: "rt_event list" where
  "demo_reads = [NextScroll 1 1 ''mainstack-search-scroll:1'', CreatePit 7 2 2 Database_default 100 1,
     NextScroll 3 3 ''mainstack-search-scroll:1'', ListPits 4, NextScroll 5 5 ''mainstack-search-scroll:1'']"

text \<open>C17. Whatever clients do, the contexts stay within their budgets: at most 32 scrolls and 16 points in
  time, and the serialized hits and databases they retain fit the memory limit.\<close>

theorem contexts_stay_within_budget:
  "let st = fst (rt_run cfg es RuntimeState_default)
   in length (rt_scrolls st) \<le> 32
      \<and> (\<Sum>cur\<leftarrow>bt_values (rt_scrolls st). estimate_scroll_bytes (rc_tv cfg) (cur_hits cur) (cur_total cur) (cur_max_score cur))
          \<le> min (rc_memory_limit cfg) (32 * 1024 * 1024)
      \<and> length (rt_pits st) \<le> 16
      \<and> (\<Sum>pit\<leftarrow>bt_values (rt_pits st). rt_database_bytes (rc_db_vec cfg) (pit_db pit))
          \<le> min (rc_memory_limit cfg) (64 * 1024 * 1024)"
proof -
  let ?st = "fst (rt_run cfg es RuntimeState_default)"
  have inv: "runtime_inv cfg ?st" by (rule rt_run_inv [OF runtime_inv_default])
  then have "map cur_bytes (bt_values (rt_scrolls ?st))
      = map (\<lambda>cur. estimate_scroll_bytes (rc_tv cfg) (cur_hits cur) (cur_total cur) (cur_max_score cur)) (bt_values (rt_scrolls ?st))"
    "map pit_bytes (bt_values (rt_pits ?st)) = map (\<lambda>pit. rt_database_bytes (rc_db_vec cfg) (pit_db pit)) (bt_values (rt_pits ?st))"
    by (auto simp: runtime_inv_def bt_all_def bt_values_def list_all_iff cursor_ok_def pit_ok_def)
  with inv show ?thesis
    by (simp add: runtime_inv_def pool_ok_def MAX_SCROLL_CONTEXTS_def MAX_PIT_CONTEXTS_def
        scroll_memory_budget_def pit_memory_budget_def MAX_SCROLL_RETAINED_BYTES_def Let_def)
qed

text \<open>A scroll is refused only when what it would retain, alone, exceeds the budget: older scrolls
  are dropped to make room, so the error about too many contexts never occurs.\<close>

lemma scroll_refused_iff_too_large:
  "isl (snd (create_scroll tv stamp now hits t s batch (scroll_memory_budget cfg) st))
    \<longleftrightarrow> scroll_memory_budget cfg < estimate_scroll_bytes tv (drop (snd (page_hits hits 0 (max batch 1))) hits) t s"
proof -
  obtain st' r where run: "create_scroll tv stamp now hits t s batch (scroll_memory_budget cfg) st = (st', r)"
    by (cases "create_scroll tv stamp now hits t s batch (scroll_memory_budget cfg) st")
  from run show ?thesis
  proof (cases rule: create_scroll_outcome)
    case (created scrolls cur)
    then have "cur_bytes cur \<le> scroll_memory_budget cfg"
      using scroll_pool.budget [of cfg] by (auto simp: over_budget_def sat_add_def)
    with created run show ?thesis by (auto simp: cursor_ok_def simp del: One_nat_def)
  qed (use run in simp)
qed

text \<open>C15. However the calls of other clients, evictions and expiry fall between the calls on a scroll,
  the pages it returns are consecutive pieces of the hits of its search, in their order; and a client
  that reads up to the empty page has seen every hit exactly once.\<close>

theorem scroll_pages_are_the_hits:
  assumes "runtime_inv cfg st" and "length hits \<le> usize_max" and "rt_next_id st + length es < 2 ^ 64 - 1"
    and "create_scroll (rc_tv cfg) stamp now hits t s batch (scroll_memory_budget cfg) st = (st1, Inr page)"
    and "rt_run cfg es st1 = (st2, replies)"
  shows "prefix (pg_hits page @ concat (pages_of (pg_scroll_id page) replies)) hits
    \<and> ([] \<in> set (pages_of (pg_scroll_id page) replies)
        \<longrightarrow> pg_hits page @ concat (pages_of (pg_scroll_id page) replies) = hits)"
proof -
  let ?i = "pg_scroll_id page"
  have small: "rt_next_id st < 2 ^ 64 - 1" using assms(3) by simp
  note new = create_scroll_reading [OF assms(1,2) small assms(4)]
  have "rt_next_id st1 + length es < 2 ^ 64" using new(4) assms(3) by simp
  from reading_run [OF new(3,2) this _ new(1) assms(5)]
  have "reading ?i hits (max batch 1) (pg_hits page # pages_of ?i replies) st2" by simp
  then show ?thesis by (auto simp: reading_def prefix_def split: option.splits)
qed

theorem scroll_pages_are_the_hits_witness:
  "snd demo_scroll = Inr demo_page
    \<and> pages_of (pg_scroll_id demo_page) (snd (rt_run demo_runtime demo_reads (fst demo_scroll)))
        = [[JStr ''c'', JStr ''d''], [JStr ''e''], []]
    \<and> prefix (pg_hits demo_page @ concat [[JStr ''c'', JStr ''d''], [JStr ''e''], []]) demo_hits"
proof -
  have scroll: "create_scroll (rc_tv demo_runtime) 0 0 demo_hits JNull JNull 2 (scroll_memory_budget demo_runtime)
      RuntimeState_default = (fst demo_scroll, Inr demo_page)"
    by code_simp
  have pages: "pages_of (pg_scroll_id demo_page) (snd (rt_run demo_runtime demo_reads (fst demo_scroll)))
      = [[JStr ''c'', JStr ''d''], [JStr ''e''], []]"
    by code_simp
  have "length demo_hits \<le> usize_max" by (simp add: demo_hits_def usize_max_def)
  moreover have "rt_next_id RuntimeState_default + length demo_reads < 2 ^ 64 - 1"
    by (simp add: demo_reads_def RuntimeState_default_def)
  ultimately have "prefix (pg_hits demo_page @ concat (pages_of (pg_scroll_id demo_page)
      (snd (rt_run demo_runtime demo_reads (fst demo_scroll))))) demo_hits"
    using scroll_pages_are_the_hits [OF runtime_inv_default _ _ scroll, of demo_reads] by (metis prod.collapse)
  moreover have "snd demo_scroll = Inr demo_page" by code_simp
  ultimately show ?thesis using pages by simp
qed

text \<open>C34. A scroll can be read to its end: when its calls are not further apart than its time to live,
  nobody clears it and no new scroll takes its place, then as many calls as there are pages reach the
  empty page, and all hits were returned.\<close>

theorem scroll_reading_ends:
  assumes "runtime_inv cfg st" and "length hits \<le> usize_max" and "rt_next_id st + length es < 2 ^ 64 - 1"
    and "create_scroll (rc_tv cfg) stamp now hits t s batch (scroll_memory_budget cfg) st = (st1, Inr page)"
    and "rt_run cfg es st1 = (st2, replies)"
    and "undisturbed (pg_scroll_id page) stamp es" and "1 \<le> calls (pg_scroll_id page) es"
    and "length hits \<le> calls (pg_scroll_id page) es * max batch 1"
  shows "[] \<in> set (pages_of (pg_scroll_id page) replies)
    \<and> pg_hits page @ concat (pages_of (pg_scroll_id page) replies) = hits"
proof -
  let ?i = "pg_scroll_id page"
  have small: "rt_next_id st < 2 ^ 64 - 1" using assms(3) by simp
  note new = create_scroll_reading [OF assms(1,2) small assms(4)]
  obtain cur where cur: "bt_get (rt_scrolls st1) ?i = Some cur" "cur_last_accessed cur = stamp" using new(5) by blast
  have len: "rt_next_id st1 + length es < 2 ^ 64" using new(4) assms(3) by simp
  have batch: "1 \<le> max batch 1" by simp
  have left: "pg_hits page @ left_hits cur = hits" "cur_terminal cur \<longleftrightarrow> left_hits cur = []"
    using new(1) cur(1) by (simp_all add: reading_def)
  have page: "pg_hits page = take (max batch 1) hits"
    using assms(4)
  proof (cases rule: create_scroll_outcome)
    case (created scrolls c)
    then show ?thesis using page_hits_simps [OF assms(2), of 0 "max batch 1"] by (simp del: One_nat_def)
  qed simp
  have "length (left_hits cur) + max batch 1 \<le> calls ?i es * max batch 1"
  proof (cases "length hits \<le> max batch 1")
    case True
    with left(1) page have "left_hits cur = []" by (metis append_self_conv take_all)
    with mult_le_mono1 [OF assms(7), of "max batch 1"] show ?thesis by simp
  next
    case False
    then have "length (pg_hits page) = max batch 1" using page by simp
    with left(1) have "length (left_hits cur) + max batch 1 = length hits" by (metis add.commute length_append)
    with assms(8) show ?thesis by simp
  qed
  with cur assms(6) have "[] \<in> set (pages_of ?i replies)"
    by (intro reading_ends [OF new(3,2) len _ new(1) batch cur(1) _ _ assms(5)]) simp_all
  moreover have "reading ?i hits (max batch 1) ([pg_hits page] @ pages_of ?i replies) st2"
    by (rule reading_run [OF new(3,2) len _ new(1) assms(5)]) simp
  ultimately show ?thesis by (auto simp: reading_def split: option.splits)
qed

theorem scroll_reading_ends_witness:
  "pg_hits demo_page @ concat (pages_of (pg_scroll_id demo_page) (snd (rt_run demo_runtime demo_reads (fst demo_scroll))))
    = demo_hits"
proof -
  have scroll: "create_scroll (rc_tv demo_runtime) 0 0 demo_hits JNull JNull 2 (scroll_memory_budget demo_runtime)
      RuntimeState_default = (fst demo_scroll, Inr demo_page)"
    by code_simp
  have "length demo_hits \<le> usize_max" by (simp add: demo_hits_def usize_max_def)
  moreover have "rt_next_id RuntimeState_default + length demo_reads < 2 ^ 64 - 1"
    by (simp add: demo_reads_def RuntimeState_default_def)
  moreover have "undisturbed (pg_scroll_id demo_page) 0 demo_reads" "1 \<le> calls (pg_scroll_id demo_page) demo_reads"
    "length demo_hits \<le> calls (pg_scroll_id demo_page) demo_reads * max 2 1" by code_simp+
  ultimately show ?thesis
    using scroll_reading_ends [OF runtime_inv_default _ _ scroll, of demo_reads] by (metis prod.collapse)
qed

text \<open>C18. A point in time gives every search the database it was created with, whatever is written
  meanwhile, until its keep-alive, counted from its creation or its last extension, has passed.\<close>

theorem pit_reads_its_database:
  assumes "runtime_inv cfg st" and "rt_next_id st + length es < 2 ^ 64 - 1"
    and "create_pit (rc_db_vec cfg) unix now stamp db keep shards (pit_memory_budget cfg) st = (st1, Inr pit)"
    and "rt_run cfg es st1 = (st2, replies)" and "pit_alive (pcr_id pit) (stamp + keep) es"
  shows "set (databases_of (pcr_id pit) replies) \<subseteq> {Some db}"
proof -
  have small: "rt_next_id st < 2 ^ 64 - 1" using assms(2) by simp
  note new = create_pit_outcome [OF assms(1) small assms(3)]
  obtain p where p: "bt_get (rt_pits st1) (pcr_id pit) = Some p" "pit_db p = db" "pit_expires_at p = stamp + keep"
    using new(4) by blast
  have "rt_next_id st1 + length es < 2 ^ 64" using new(3) assms(2) by simp
  from pit_run [OF new(1,2) this p(1) _ assms(4)] p assms(5) show ?thesis by simp
qed

definition demo_pit_reads :: "rt_event list" where
  "demo_pit_reads = [ReadPit 5 5 ''mainstack-search-pit:1'' (Some 50), ListPits 20,
     DeletePits 30 [''other''], ReadPit 54 54 ''mainstack-search-pit:1'' None]"

definition demo_pit :: "RuntimeState \<times> (RuntimeError, PitCreateResult) result" where
  "demo_pit = create_pit (rc_db_vec demo_runtime) 7 0 0 Database_default 10 1 (pit_memory_budget demo_runtime) RuntimeState_default"

definition demo_pit_result :: PitCreateResult where
  "demo_pit_result = \<lparr>pcr_id = ''mainstack-search-pit:1'', pcr_creation_time = 7, pcr_total_shards = 1\<rparr>"

theorem pit_reads_its_database_witness:
  "set (databases_of (pcr_id demo_pit_result) (snd (rt_run demo_runtime demo_pit_reads (fst demo_pit)))) \<subseteq> {Some Database_default}
    \<and> length (databases_of (pcr_id demo_pit_result) (snd (rt_run demo_runtime demo_pit_reads (fst demo_pit)))) = 2"
proof -
  have pit: "create_pit (rc_db_vec demo_runtime) 7 0 0 Database_default 10 1 (pit_memory_budget demo_runtime)
      RuntimeState_default = (fst demo_pit, Inr demo_pit_result)"
    by code_simp
  have "rt_next_id RuntimeState_default + length demo_pit_reads < 2 ^ 64 - 1"
    by (simp add: demo_pit_reads_def RuntimeState_default_def)
  moreover have "pit_alive (pcr_id demo_pit_result) (0 + 10) demo_pit_reads" by code_simp
  moreover have "length (databases_of (pcr_id demo_pit_result) (snd (rt_run demo_runtime demo_pit_reads (fst demo_pit)))) = 2"
    by code_simp
  ultimately show ?thesis
    using pit_reads_its_database [OF runtime_inv_default _ pit, of demo_pit_reads] by (metis prod.collapse)
qed

end
