(* ===== verification/SourceFilter.thy ===== *)
theory SourceFilter
  imports Json
begin

section \<open>Paths into documents and source filtering\<close>

text \<open>
  \<open>value_at\<close>, \<open>insert_path\<close>, \<open>remove_path\<close> and \<open>filter_source\<close> of \<open>src/search/evaluator.rs\<close>. A field
  is a path of segments between dots; the functions that update a value in place return the new one.
\<close>

text \<open>\<open>get_path\<close> is the fold over the segments; \<open>Value::get\<close> finds nothing in anything but an object.\<close>

fun get_path :: "json \<Rightarrow> string list \<Rightarrow> json option" where
  "get_path v [] = Some v"
| "get_path v (seg # segs) = (case jget v seg of None \<Rightarrow> None | Some w \<Rightarrow> get_path w segs)"

definition value_at :: "json \<Rightarrow> string \<Rightarrow> json option" where
  "value_at source field = get_path source (split_on (CHR ''.'') field)"

fun insert_segments :: "string list \<Rightarrow> json \<Rightarrow> json \<Rightarrow> json" where
  "insert_segments [seg] v (JObj m) = JObj (bt_insert seg v m)"
| "insert_segments (seg # segs) v (JObj m) =
     JObj (bt_insert seg (insert_segments segs v (case bt_get m seg of Some w \<Rightarrow> w | None \<Rightarrow> empty_object)) m)"
| "insert_segments _ v output = output"

definition insert_path :: "json \<Rightarrow> string \<Rightarrow> json \<Rightarrow> json" where
  "insert_path output field v = insert_segments (split_on (CHR ''.'') field) v output"

fun remove_segments :: "string list \<Rightarrow> json \<Rightarrow> json" where
  "remove_segments [seg] (JObj m) = JObj (bt_remove seg m)"
| "remove_segments (seg # segs) (JObj m) = JObj (bt_adjust seg (remove_segments segs) m)"
| "remove_segments _ output = output"

fun remove_wildcard_path :: "string list \<Rightarrow> json \<Rightarrow> json" where
  "remove_wildcard_path [seg] (JObj m) = (if seg = ''*'' then JObj [] else JObj (bt_remove seg m))"
| "remove_wildcard_path (seg # segs) (JObj m) =
     (if seg = ''*'' then JObj (bt_map (remove_wildcard_path segs) m)
      else JObj (bt_adjust seg (remove_wildcard_path segs) m))"
| "remove_wildcard_path _ output = output"

definition remove_path :: "json \<Rightarrow> string \<Rightarrow> json" where
  "remove_path output field =
     (let segments = split_on (CHR ''.'') field
      in if ''*'' \<in> set segments then remove_wildcard_path segments output else remove_segments segments output)"

definition include_fields :: "json \<Rightarrow> string list \<Rightarrow> json" where
  "include_fields source fields =
     fold (\<lambda>field output. case value_at source field of Some v \<Rightarrow> insert_path output field v | None \<Rightarrow> output)
       fields empty_object"

definition exclude_fields :: "json \<Rightarrow> string list \<Rightarrow> json" where
  "exclude_fields output excludes = fold (\<lambda>field output. remove_path output field) excludes output"

definition str_items :: "json list \<Rightarrow> string list" where
  "str_items vs = List.map_filter as_str vs"

fun source_filter_list :: "json \<Rightarrow> string list" where
  "source_filter_list (JStr field) = [field]"
| "source_filter_list (JArr fields) = str_items fields"
| "source_filter_list _ = []"

text \<open>\<open>config.get(k).or_else(|| config.get(k'))\<close>.\<close>

definition get_either :: "(string, json) btree \<Rightarrow> string \<Rightarrow> string \<Rightarrow> json option" where
  "get_either m k k' = (case bt_get m k of Some v \<Rightarrow> Some v | None \<Rightarrow> bt_get m k')"

definition filter_list_at :: "(string, json) btree \<Rightarrow> string \<Rightarrow> string \<Rightarrow> string list" where
  "filter_list_at config k k' = (case get_either config k k' of Some v \<Rightarrow> source_filter_list v | None \<Rightarrow> [])"

fun filter_source :: "json \<Rightarrow> json option \<Rightarrow> json" where
  "filter_source source (Some (JBool b)) = (if b then source else JNull)"
| "filter_source source None = source"
| "filter_source source (Some (JStr field)) = include_fields source [field]"
| "filter_source source (Some (JArr fields)) = include_fields source (str_items fields)"
| "filter_source source (Some (JObj config)) =
     (let includes = filter_list_at config ''includes'' ''include'';
          excludes = filter_list_at config ''excludes'' ''exclude'';
          output = (if includes = [] then source else include_fields source includes)
      in exclude_fields output excludes)"
| "filter_source source _ = source"

subsection \<open>Reading after writing\<close>

lemma get_path_append: "get_path v (p @ q) = (case get_path v p of None \<Rightarrow> None | Some w \<Rightarrow> get_path w q)"
  by (induction p arbitrary: v) (auto split: option.splits)

text \<open>The paths along which an insertion can walk: what exists of them are objects.\<close>

fun walkable :: "string list \<Rightarrow> json \<Rightarrow> bool" where
  "walkable [] v = True"
| "walkable (seg # segs) (JObj m) = (case bt_get m seg of None \<Rightarrow> True | Some w \<Rightarrow> segs = [] \<or> walkable segs w)"
| "walkable (seg # segs) v = False"

lemma get_path_insert_same: "p \<noteq> [] \<Longrightarrow> walkable p out \<Longrightarrow> get_path (insert_segments p v out) p = Some v"
proof (induction p v out rule: insert_segments.induct)
  case (2 seg seg' segs v m)
  have "walkable (seg' # segs) (case bt_get m seg of Some w \<Rightarrow> w | None \<Rightarrow> empty_object)"
    using 2(3) by (auto split: option.splits)
  with 2 show ?case by simp
qed (auto simp: neq_Nil_conv)

text \<open>Only what lies on the path, above or below it, changes.\<close>

lemma get_path_insert_other:
  assumes "\<not> prefix p q" and "\<not> prefix q p"
  shows "get_path (insert_segments p v out) q = get_path out q"
  using assms
proof (induction p v out arbitrary: q rule: insert_segments.induct)
  case (1 seg v m)
  then obtain s qs where "q = s # qs" "s \<noteq> seg" by (cases q) auto
  then show ?case by simp
next
  case (2 seg seg' segs v m)
  obtain s qs where q: "q = s # qs" using 2(3) by (cases q) auto
  show ?case
  proof (cases "s = seg")
    case True
    with 2(2,3) q have rel: "\<not> prefix (seg' # segs) qs" "\<not> prefix qs (seg' # segs)" by auto
    from 2(1) [OF rel] have "get_path (insert_segments (seg' # segs) v w) qs = get_path w qs"
      if "w = (case bt_get m seg of Some w \<Rightarrow> w | None \<Rightarrow> empty_object)" for w using that by simp
    moreover from rel(2) have "qs \<noteq> []" by auto
    ultimately show ?thesis using True q by (cases qs) (auto split: option.splits)
  qed (use q in simp)
qed auto

lemma get_path_insert_below:
  "p \<noteq> [] \<Longrightarrow> walkable p out \<Longrightarrow> get_path (insert_segments p v out) (p @ q) = get_path v q"
  by (simp add: get_path_append get_path_insert_same)

lemma json_ok_insert_segments:
  "json_ok out \<Longrightarrow> json_ok v \<Longrightarrow> json_ok (insert_segments p v out)"
proof (induction p v out rule: insert_segments.induct)
  case (1 seg v m)
  then show ?case using json_ok_bt_insert [of m v seg] by (simp del: json_ok.simps)
next
  case (2 seg seg' segs v m)
  have "json_ok (case bt_get m seg of Some w \<Rightarrow> w | None \<Rightarrow> empty_object)"
    using json_ok_jget [of "JObj m" seg] 2(2) by (auto simp del: json_ok.simps(2) split: option.splits) simp
  from 2(1) [OF this 2(3)] 2(2) show ?case
    using json_ok_bt_insert [of m _ seg] by (simp only: insert_segments.simps)
qed auto

text \<open>Putting a value where it already is changes nothing.\<close>

lemma insert_segments_same: "json_ok out \<Longrightarrow> get_path out p = Some v \<Longrightarrow> p \<noteq> [] \<Longrightarrow> insert_segments p v out = out"
proof (induction p v out rule: insert_segments.induct)
  case (1 seg v m)
  then show ?case by (auto split: option.splits simp: bt.ins_same)
next
  case (2 seg seg' segs v m)
  then obtain w where w: "bt_get m seg = Some w" "get_path w (seg' # segs) = Some v"
    by (auto split: option.splits)
  have "json_ok w" using json_ok_jget [of "JObj m" seg w] 2(2) w(1) by simp
  with 2(1) w have "insert_segments (seg' # segs) v w = w" by simp
  with w 2(2) show ?case by (simp add: bt.ins_same)
qed auto

text \<open>A removed path is gone, and paths beside it are not touched.\<close>

lemma get_path_remove_same:
  "p \<noteq> [] \<Longrightarrow> get_path (remove_segments p out) p = None"
proof (induction p out rule: remove_segments.induct)
  case (2 seg seg' segs m)
  then show ?case by (auto split: option.splits)
qed (auto simp: neq_Nil_conv split: option.splits)

subsection \<open>Parts of a document\<close>

text \<open>At every path of the part the document has the same value, or both have an object.\<close>

definition sub_doc :: "json \<Rightarrow> json \<Rightarrow> bool" where
  "sub_doc out source \<longleftrightarrow>
     (\<forall>q w. get_path out q = Some w \<longrightarrow> (\<exists>s. get_path source q = Some s \<and> (w = s \<or> is_object w \<and> is_object s)))"

lemma sub_docD: "sub_doc out source \<Longrightarrow> get_path out q = Some w \<Longrightarrow>
    \<exists>s. get_path source q = Some s \<and> (w = s \<or> is_object w \<and> is_object s)"
  by (auto simp: sub_doc_def)

lemma sub_doc_refl: "sub_doc v v"
  by (auto simp: sub_doc_def)

lemma sub_doc_trans: "sub_doc a b \<Longrightarrow> sub_doc b c \<Longrightarrow> sub_doc a c"
  unfolding sub_doc_def by metis

lemma is_object_JObj [simp]: "is_object (JObj m)"
  by (simp add: is_object_def)

lemma is_object_iff: "is_object v \<longleftrightarrow> (\<exists>m. v = JObj m)"
  by (cases v) (auto simp: is_object_def)

lemma sub_doc_objects:
  assumes "\<And>k v. bt_get m k = Some v \<Longrightarrow> \<exists>w. bt_get n k = Some w \<and> sub_doc v w"
  shows "sub_doc (JObj m) (JObj n)"
  unfolding sub_doc_def
proof (intro allI impI)
  fix q w
  assume w: "get_path (JObj m) q = Some w"
  show "\<exists>s. get_path (JObj n) q = Some s \<and> (w = s \<or> is_object w \<and> is_object s)"
  proof (cases q)
    case (Cons s qs)
    with w obtain v where "bt_get m s = Some v" "get_path v qs = Some w" by (auto split: option.splits)
    with assms [OF this(1)] Cons show ?thesis by (auto dest: sub_docD)
  qed (use w in auto)
qed

lemma sub_doc_remove: "sub_doc (remove_segments p out) out"
proof (induction p out rule: remove_segments.induct)
  case (1 seg m)
  have "sub_doc (JObj (bt_remove seg m)) (JObj m)" by (rule sub_doc_objects) (auto simp: sub_doc_refl split: if_splits)
  then show ?case by simp
next
  case (2 seg seg' segs m)
  have "sub_doc (JObj (bt_adjust seg (remove_segments (seg' # segs)) m)) (JObj m)"
    by (rule sub_doc_objects) (use 2 in \<open>auto simp: sub_doc_refl split: if_splits\<close>)
  then show ?case by simp
qed (auto simp: sub_doc_refl)

lemma sub_doc_wildcard: "sub_doc (remove_wildcard_path p out) out"
proof (induction p out rule: remove_wildcard_path.induct)
  case (1 seg m)
  have "sub_doc (JObj (bt_remove seg m)) (JObj m)" "sub_doc (JObj []) (JObj m)"
    by (rule sub_doc_objects, auto simp: sub_doc_refl split: if_splits)+
  then show ?case by simp
next
  case (2 seg seg' segs m)
  have "sub_doc (JObj (bt_adjust seg (remove_wildcard_path (seg' # segs)) m)) (JObj m)" if "seg \<noteq> ''*''"
    by (rule sub_doc_objects) (use 2(2) [OF that] in \<open>auto simp: sub_doc_refl split: if_splits\<close>)
  moreover have "sub_doc (JObj (bt_map (remove_wildcard_path (seg' # segs)) m)) (JObj m)" if "seg = ''*''"
    by (rule sub_doc_objects) (use 2(1) [OF that] in auto)
  ultimately show ?case by simp
qed (auto simp: sub_doc_refl)

lemma sub_doc_remove_path: "sub_doc (remove_path out field) out"
  by (simp add: remove_path_def Let_def sub_doc_remove sub_doc_wildcard)

lemma sub_doc_exclude: "sub_doc (exclude_fields out excludes) out"
proof (induction excludes arbitrary: out)
  case (Cons x xs)
  from Cons [of "remove_path out x"] sub_doc_remove_path [of out x] show ?case
    by (auto simp: exclude_fields_def intro: sub_doc_trans)
qed (simp add: exclude_fields_def sub_doc_refl)

text \<open>A pattern covers what lies at or below a path it matches: a segment \<open>*\<close> matches every segment.\<close>

fun covers :: "string list \<Rightarrow> string list \<Rightarrow> bool" where
  "covers [] path = True"
| "covers (p # ps) [] = False"
| "covers (p # ps) (s # path) = ((p = ''*'' \<or> p = s) \<and> covers ps path)"

lemma covers_Cons: "covers (p # ps) q \<longleftrightarrow> (\<exists>s qs. q = s # qs \<and> (p = ''*'' \<or> p = s) \<and> covers ps qs)"
  by (cases q) auto

lemma remove_wildcard_covered:
  "p \<noteq> [] \<Longrightarrow> covers p q \<Longrightarrow> get_path (remove_wildcard_path p out) q = None"
proof (induction p out arbitrary: q rule: remove_wildcard_path.induct)
  case (1 seg m)
  then show ?case by (cases q) auto
next
  case (2 seg seg' segs m)
  then show ?case by (cases q) (auto split: option.splits)
qed (auto simp: covers_Cons neq_Nil_conv)

lemma remove_wildcard_leaf:
  assumes "\<not> is_object v"
  shows "\<not> covers p q \<Longrightarrow> get_path (remove_wildcard_path p out) q = Some v \<longleftrightarrow> get_path out q = Some v"
  using assms
proof (induction p out arbitrary: q rule: remove_wildcard_path.induct)
  case (1 seg m)
  then show ?case by (cases q) (auto split: option.splits)
next
  case (2 seg seg' segs m)
  then show ?case by (cases q) (auto split: option.splits)
qed auto

lemma remove_segments_wildcard: "''*'' \<notin> set p \<Longrightarrow> remove_segments p out = remove_wildcard_path p out"
proof (induction p out rule: remove_segments.induct)
  case (2 seg seg' segs m)
  then have "remove_segments (seg' # segs) = remove_wildcard_path (seg' # segs)" and "seg \<noteq> ''*''" by auto
  then show ?case by simp
qed auto

lemma remove_path_wildcard: "remove_path out f = remove_wildcard_path (split_on (CHR ''.'') f) out"
  by (simp add: remove_path_def Let_def remove_segments_wildcard)

text \<open>What excludes leave: exactly the values no pattern covers, and nothing at a covered path.\<close>

lemma exclude_fields_leaf:
  assumes "\<not> is_object v"
  shows "get_path (exclude_fields out excludes) q = Some v \<longleftrightarrow>
    get_path out q = Some v \<and> \<not> (\<exists>f \<in> set excludes. covers (split_on (CHR ''.'') f) q)"
proof (induction excludes arbitrary: out)
  case (Cons x xs)
  have "get_path (remove_path out x) q = Some v \<longleftrightarrow> get_path out q = Some v \<and> \<not> covers (split_on (CHR ''.'') x) q"
    using remove_wildcard_leaf [OF assms, of "split_on (CHR ''.'') x" q out]
      remove_wildcard_covered [of "split_on (CHR ''.'') x" q out]
    by (cases "covers (split_on (CHR ''.'') x) q") (simp_all add: remove_path_wildcard)
  with Cons.IH [of "remove_path out x"] show ?case by (auto simp: exclude_fields_def)
qed (simp add: exclude_fields_def)

lemma exclude_fields_removes:
  assumes "f \<in> set excludes" and "covers (split_on (CHR ''.'') f) q"
  shows "get_path (exclude_fields out excludes) q = None"
  using assms(1)
proof (induction excludes arbitrary: out)
  case (Cons x xs)
  have none: "get_path (exclude_fields out' xs) q = None" if "get_path out' q = None" for out'
    using sub_doc_exclude [of out' xs] that by (metis not_Some_eq sub_docD)
  show ?case
  proof (cases "f = x")
    case True
    then have "get_path (remove_path out x) q = None"
      using remove_wildcard_covered assms(2) by (simp add: remove_path_wildcard)
    from none [OF this] show ?thesis by (simp add: exclude_fields_def)
  next
    case False
    with Cons show ?thesis by (simp add: exclude_fields_def)
  qed
qed simp

subsection \<open>Included fields\<close>

text \<open>Above a value there are objects only.\<close>

lemma get_path_above: "get_path v (q @ r) = Some w \<Longrightarrow> r \<noteq> [] \<Longrightarrow> \<exists>m. get_path v q = Some (JObj m)"
  by (cases r) (auto simp: get_path_append split: option.splits elim: jget.elims)

lemma walkableI:
  "(\<And>q r w. p = q @ r \<Longrightarrow> r \<noteq> [] \<Longrightarrow> get_path out q = Some w \<Longrightarrow> is_object w) \<Longrightarrow> walkable p out"
proof (induction p arbitrary: out)
  case (Cons seg segs)
  from Cons.prems [of "[]" "seg # segs" out] obtain m where m: "out = JObj m" by (auto simp: is_object_iff)
  show ?case
  proof (cases "bt_get m seg")
    case (Some x)
    have "walkable segs x"
      by (rule Cons.IH) (use Cons.prems [of "seg # _"] m Some in auto)
    with m Some show ?thesis by simp
  qed (use m in simp)
qed simp

lemma walkable_sub_doc:
  assumes "sub_doc out source" and "get_path source p = Some v"
  shows "walkable p out"
proof (rule walkableI)
  fix q r w
  assume "p = q @ r" "r \<noteq> []" "get_path out q = Some w"
  with get_path_above [of source q r v] assms(2) sub_docD [OF assms(1), of q w] show "is_object w" by auto
qed

lemma sub_doc_insert:
  assumes "sub_doc out source" and "get_path source p = Some v" and "p \<noteq> []"
  shows "sub_doc (insert_segments p v out) source"
  unfolding sub_doc_def
proof (intro allI impI)
  note walk = walkable_sub_doc [OF assms(1,2)]
  fix q w
  assume w: "get_path (insert_segments p v out) q = Some w"
  show "\<exists>s. get_path source q = Some s \<and> (w = s \<or> is_object w \<and> is_object s)"
  proof (cases "prefix p q")
    case True
    then obtain r where q: "q = p @ r" by (auto simp: prefix_def)
    with w get_path_insert_below [OF assms(3) walk, of v r] assms(2) have "get_path source q = Some w"
      by (simp add: get_path_append [of source])
    then show ?thesis by simp
  next
    case False
    show ?thesis
    proof (cases "prefix q p")
      case True
      then obtain r where p: "p = q @ r" by (auto simp: prefix_def)
      with False have "r \<noteq> []" by auto
      with p get_path_above [of source q r v] get_path_above [of "insert_segments p v out" q r v] w assms(2,3)
        get_path_insert_same [OF assms(3) walk, of v] show ?thesis by auto
    next
      case unrelated: False
      with w get_path_insert_other [OF False unrelated, of v out] sub_docD [OF assms(1), of q w] show ?thesis by simp
    qed
  qed
qed

text \<open>What an insertion adds is below its path, or an object above it.\<close>

lemma get_path_insert_new:
  assumes "get_path (insert_segments p v out) q = Some w" and "\<not> is_object w"
  shows "prefix p q \<or> get_path out q = Some w"
proof (rule ccontr)
  assume "\<not> ?thesis"
  then have n: "\<not> prefix p q" "get_path out q \<noteq> Some w" by auto
  with get_path_insert_other [OF n(1), of v out] assms(1) have "prefix q p" by auto
  then obtain r where "p = q @ r" by (auto simp: prefix_def)
  with n have "r \<noteq> []" by auto
  from assms \<open>p = q @ r\<close> n(2) have False
  proof (induction q arbitrary: p out)
    case Nil
    with \<open>r \<noteq> []\<close> show ?case by (cases "(r, v, out)" rule: insert_segments.cases) (auto simp: is_object_def)
  next
    case (Cons s q)
    show ?case
    proof (cases out)
      case (JObj m)
      have "q @ r \<noteq> []" using \<open>r \<noteq> []\<close> by simp
      then obtain s' qr where qr: "q @ r = s' # qr" by (cases "q @ r") auto
      let ?w = "case bt_get m s of Some w \<Rightarrow> w | None \<Rightarrow> empty_object"
      have "get_path (insert_segments (q @ r) v ?w) q = Some w" using Cons.prems(1,3) JObj qr by simp
      moreover have "get_path ?w q \<noteq> Some w"
        using Cons.prems(2,4) JObj by (cases q) (auto split: option.splits simp: is_object_def)
      ultimately show False using Cons.IH [of "q @ r" ?w] Cons.prems(2) by blast
    qed (use Cons.prems in auto)
  qed
  then show False .
qed

definition include_step :: "json \<Rightarrow> string \<Rightarrow> json \<Rightarrow> json" where
  "include_step source field output = (case value_at source field of Some v \<Rightarrow> insert_path output field v | None \<Rightarrow> output)"

lemma include_fields_fold: "include_fields source fields = fold (include_step source) fields empty_object"
  by (simp add: include_fields_def include_step_def [abs_def])

lemma include_step_sub_doc:
  "sub_doc out source \<Longrightarrow> json_ok source \<Longrightarrow> json_ok out
    \<Longrightarrow> sub_doc (include_step source f out) source \<and> json_ok (include_step source f out)"
proof -
  assume "sub_doc out source" "json_ok source" "json_ok out"
  moreover have "json_ok v" if "get_path w p = Some v" "json_ok w" for p v w
    using that by (induction p arbitrary: w) (auto split: option.splits dest: json_ok_jget)
  ultimately show ?thesis
    by (auto simp: include_step_def insert_path_def value_at_def sub_doc_insert json_ok_insert_segments split: option.splits)
qed

text \<open>A field keeps its value when others are included, whatever their paths have in common.\<close>

lemma include_step_keeps:
  assumes "sub_doc out source" and "json_ok out" and "value_at source f = Some v" and "value_at out f = Some v"
  shows "value_at (include_step source g out) f = Some v"
proof (cases "value_at source g")
  case (Some u)
  let ?f = "split_on (CHR ''.'') f" and ?g = "split_on (CHR ''.'') g"
  have g: "get_path source ?g = Some u" using Some by (simp add: value_at_def)
  note walk = walkable_sub_doc [OF assms(1) g]
  have "get_path (insert_segments ?g u out) ?f = Some v"
  proof (cases "prefix ?g ?f")
    case True
    then obtain r where "?f = ?g @ r" by (auto simp: prefix_def)
    with get_path_insert_below [OF _ walk, of u r] assms(3) g show ?thesis by (simp add: value_at_def get_path_append [of source])
  next
    case False
    show ?thesis
    proof (cases "prefix ?f ?g")
      case True
      then obtain r where r: "?g = ?f @ r" by (auto simp: prefix_def)
      with assms(3,4) g have "get_path out ?g = Some u" unfolding value_at_def r get_path_append by simp
      from insert_segments_same [OF assms(2) this] assms(4) show ?thesis by (simp add: value_at_def)
    next
      case unrelated: False
      with get_path_insert_other [OF False unrelated] assms(4) show ?thesis by (simp add: value_at_def)
    qed
  qed
  with Some show ?thesis by (simp add: include_step_def insert_path_def value_at_def)
qed (use assms in \<open>simp add: include_step_def\<close>)

lemma include_step_inserts:
  assumes "sub_doc out source" and "value_at source f = Some v"
  shows "value_at (include_step source f out) f = Some v"
  using get_path_insert_same [OF _ walkable_sub_doc [OF assms(1)], of "split_on (CHR ''.'') f" v v] assms(2)
  by (simp add: include_step_def insert_path_def value_at_def)

lemma include_fold_values:
  assumes "sub_doc out source" and "json_ok source" and "json_ok out" and "value_at source f = Some v"
    and "f \<in> set fields \<or> value_at out f = Some v"
  shows "value_at (fold (include_step source) fields out) f = Some v"
  using assms
proof (induction fields arbitrary: out)
  case (Cons g fields)
  note step = include_step_sub_doc [OF Cons.prems(1-3), of g]
  have "f \<in> set fields \<or> value_at (include_step source g out) f = Some v"
    using Cons.prems include_step_keeps [of out source f v g] include_step_inserts [of out source f v] by auto
  with Cons.IH [of "include_step source g out"] step Cons.prems(2,4) show ?case by simp
qed simp

lemma include_fold_only:
  assumes "get_path (fold (include_step source) fields out) q = Some w" and "\<not> is_object w"
  shows "(\<exists>f \<in> set fields. prefix (split_on (CHR ''.'') f) q) \<or> get_path out q = Some w"
  using assms
proof (induction fields arbitrary: out)
  case (Cons g fields)
  from Cons.IH [of "include_step source g out"] Cons.prems
  have "(\<exists>f \<in> set fields. prefix (split_on (CHR ''.'') f) q) \<or> get_path (include_step source g out) q = Some w" by simp
  then show ?case
    using get_path_insert_new [OF _ Cons.prems(2), of "split_on (CHR ''.'') g"]
    by (auto simp: include_step_def insert_path_def split: option.splits)
qed simp

lemma include_fold_sub_doc:
  "sub_doc out source \<Longrightarrow> json_ok source \<Longrightarrow> json_ok out \<Longrightarrow> sub_doc (fold (include_step source) fields out) source"
  by (induction fields arbitrary: out) (auto dest: include_step_sub_doc)

lemma sub_doc_empty: "is_object source \<Longrightarrow> sub_doc empty_object source"
  by (auto simp: is_object_iff intro: sub_doc_objects)

end
