(* ===== verification/Float64.thy ===== *)
theory Float64
  imports Json
begin

section \<open>Double precision numbers\<close>

text \<open>
  The arithmetic on \<open>f64\<close> that searches use. A finite double is the rational it denotes, an
  operation is the exact one followed by rounding to 53 bits, ties to even. The two zeros are one
  value, as they are for every comparison of the program; a number \<open>-0.0\<close> keeps its sign only where it is formatted,
  and there (\<open>fixed6\<close>) the model gives the text of \<open>0.0\<close>. An infinity arises from overflow only and keeps its sign;
  JSON writes it as null.
\<close>

datatype f64 = Fin rat | Inf bool

definition round_half_even :: "rat \<Rightarrow> int" where
  "round_half_even x =
     (let f = \<lfloor>x\<rfloor>; r = x - of_int f
      in if r < 1 / 2 then f else if r > 1 / 2 then f + 1 else if even f then f else f + 1)"

fun bit_length :: "nat \<Rightarrow> nat" where
  "bit_length n = (if n = 0 then 0 else Suc (bit_length (n div 2)))"

declare bit_length.simps [simp del]

definition pow2 :: "int \<Rightarrow> rat" where
  "pow2 k = (if 0 \<le> k then 2 ^ nat k else 1 / 2 ^ nat (- k))"

text \<open>The weight of the last of the 53 bits, at least that of the subnormal numbers.\<close>

definition f64_ulp :: "rat \<Rightarrow> rat" where
  "f64_ulp x =
     (let (n, d) = quotient_of \<bar>x\<bar>;
          k = int (bit_length (nat n)) - int (bit_length (nat d));
          e = (if pow2 k \<le> \<bar>x\<bar> then k else k - 1)
      in pow2 (max (e - 52) (- 1074)))"

definition f64_round :: "rat \<Rightarrow> rat" where
  "f64_round x = (if x = 0 then 0 else of_int (round_half_even (x / f64_ulp x)) * f64_ulp x)"

definition f64_of :: "rat \<Rightarrow> f64" where
  "f64_of x = (let r = f64_round x in if \<bar>r\<bar> \<ge> 2 ^ 1024 then Inf (r < 0) else Fin r)"

fun f64_add :: "f64 \<Rightarrow> f64 \<Rightarrow> f64" where
  "f64_add (Fin a) (Fin b) = f64_of (a + b)"
| "f64_add (Inf s) _ = Inf s"
| "f64_add _ (Inf s) = Inf s"

text \<open>Division by, and multiplication with, a positive number.\<close>

fun f64_div :: "f64 \<Rightarrow> rat \<Rightarrow> f64" where
  "f64_div (Fin a) b = f64_of (a / b)"
| "f64_div (Inf s) b = Inf s"

fun f64_mult :: "f64 \<Rightarrow> rat \<Rightarrow> f64" where
  "f64_mult (Fin a) b = f64_of (a * b)"
| "f64_mult (Inf s) b = Inf s"

fun f64_floor :: "f64 \<Rightarrow> f64" where
  "f64_floor (Fin a) = Fin (of_int \<lfloor>a\<rfloor>)"
| "f64_floor (Inf s) = Inf s"

text \<open>\<open>json!(number)\<close> and \<open>Value::as_f64\<close>.\<close>

fun f64_json :: "f64 \<Rightarrow> json" where
  "f64_json (Fin a) = JNum (Float a)"
| "f64_json (Inf s) = JNull"

fun num_f64 :: "jnum \<Rightarrow> rat" where
  "num_f64 (PosInt n) = f64_round (of_nat n)"
| "num_f64 (NegInt i) = f64_round (of_int i)"
| "num_f64 (Float q) = q"

fun as_f64 :: "json \<Rightarrow> rat option" where
  "as_f64 (JNum n) = Some (num_f64 n)"
| "as_f64 _ = None"

definition F64_EPSILON :: rat where
  "F64_EPSILON = 1 / 2 ^ 52"

definition f64_close :: "rat \<Rightarrow> rat \<Rightarrow> bool" where
  "f64_close a e \<longleftrightarrow> \<bar>f64_round (a - e)\<bar> < F64_EPSILON"

text \<open>\<open>format!("{number:020.6}")\<close>: six decimals, padded with zeros behind the sign to 20 characters. A number below
  zero keeps its sign when it is rounded to zero; \<open>-0.0\<close> itself, which Rust writes with a sign, is \<open>0.0\<close> here.\<close>

definition fixed6 :: "f64 \<Rightarrow> string" where
  "fixed6 x =
     (case x of
        Inf s \<Rightarrow> replicate (if s then 16 else 17) (CHR '' '') @ (if s then ''-inf'' else ''inf'')
      | Fin q \<Rightarrow>
          let n = nat (round_half_even (\<bar>q\<bar> * 10 ^ 6));
              digits = show_nat (n div 10 ^ 6) @ ''.'' @ pad_nat 6 (n mod 10 ^ 6);
              sign = (if q < 0 then ''-'' else [])
          in sign @ replicate (20 - length sign - length digits) (CHR ''0'') @ digits)"

end
