(* ===== verification/Wildcard.thy ===== *)
theory Wildcard
  imports Prelude
begin

section \<open>Wildcard patterns\<close>

text \<open>
  \<open>wildcard_matches\<close> of \<open>src/api/mod.rs\<close> (on index names) and of \<open>src/search/evaluator.rs\<close> (on
  field values, both sides in lower case first): the pieces between the stars are searched from the
  left, the first one at the beginning. \<open>glob\<close> is what a pattern means.
\<close>

text \<open>The loop over the pieces: what is left of the value, or None when a piece is not found.\<close>

fun wildcard_parts :: "bool \<Rightarrow> bool \<Rightarrow> string list \<Rightarrow> string \<Rightarrow> string option" where
  "wildcard_parts star first [] remaining = Some remaining"
| "wildcard_parts star first (part # parts) remaining =
     (if part = [] then wildcard_parts star False parts remaining
      else if first \<and> \<not> star then
        (case strip_prefix part remaining of
           None \<Rightarrow> None
         | Some stripped \<Rightarrow> wildcard_parts star False parts stripped)
      else
        (case find_str part remaining of
           Some position \<Rightarrow> wildcard_parts star False parts (drop (position + length part) remaining)
         | None \<Rightarrow> None))"

definition wildcard_matches :: "string \<Rightarrow> string \<Rightarrow> bool" where
  "wildcard_matches pattern value \<longleftrightarrow>
     pattern = ''*''
     \<or> (case wildcard_parts (starts_with pattern ''*'') True (split_on (CHR ''*'') pattern) value of
          None \<Rightarrow> False
        | Some remaining \<Rightarrow> ends_with pattern ''*'' \<or> remaining = [])"

subsection \<open>What a pattern means\<close>

fun glob :: "string \<Rightarrow> string \<Rightarrow> bool" where
  "glob [] s = (s = [])"
| "glob (c # p) s =
     (if c = CHR ''*'' then list_ex (\<lambda>k. glob p (drop k s)) [0..<Suc (length s)]
      else (case s of [] \<Rightarrow> False | d # ds \<Rightarrow> d = c \<and> glob p ds))"

text \<open>The same over the pieces: each one, then anything.\<close>

fun glob_parts :: "string list \<Rightarrow> string \<Rightarrow> bool" where
  "glob_parts [] s = (s = [])"
| "glob_parts [p] s = (s = p)"
| "glob_parts (p # q # ps) s = (\<exists>r k. s = p @ r \<and> glob_parts (q # ps) (drop k r))"

definition glob_later :: "string list \<Rightarrow> string \<Rightarrow> bool" where
  "glob_later ps s \<longleftrightarrow> (\<exists>k. glob_parts ps (drop k s))"

lemma glob_star: "glob (CHR ''*'' # p) s \<longleftrightarrow> (\<exists>k. glob p (drop k s))"
proof
  assume "\<exists>k. glob p (drop k s)"
  then obtain k where k: "glob p (drop k s)" by blast
  show "glob (CHR ''*'' # p) s"
  proof (cases "k \<le> length s")
    case False
    with k have "glob p (drop (length s) s)" by simp
    then show ?thesis by (auto simp: list_ex_iff simp del: upt_Suc intro!: bexI [of _ "length s"])
  qed (use k in \<open>auto simp: list_ex_iff simp del: upt_Suc intro!: bexI [of _ k]\<close>)
qed (auto simp: list_ex_iff simp del: upt_Suc)

lemma glob_parts_Cons: "ps \<noteq> [] \<Longrightarrow> glob_parts (p # ps) s \<longleftrightarrow> (\<exists>r. s = p @ r \<and> glob_later ps r)"
  by (cases ps) (auto simp: glob_later_def)

lemma glob_eq_parts: "glob p s \<longleftrightarrow> glob_parts (split_on (CHR ''*'') p) s"
proof (induction p arbitrary: s)
  case Nil
  then show ?case by simp
next
  case (Cons c p)
  obtain q qs where split: "split_on (CHR ''*'') p = q # qs" by (cases "split_on (CHR ''*'') p") auto
  show ?case
  proof (cases "c = CHR ''*''")
    case True
    with Cons split show ?thesis by (simp add: glob_star glob_parts_Cons glob_later_def del: glob.simps)
  next
    case False
    then have "glob (c # p) s \<longleftrightarrow> (\<exists>ds. s = c # ds \<and> glob p ds)" by (cases s) auto
    also have "\<dots> \<longleftrightarrow> glob_parts ((c # q) # qs) s"
      using Cons.IH split by (cases qs) auto
    finally show ?thesis using False split by simp
  qed
qed

lemma glob_later_drop: "glob_later ps (drop j s) \<Longrightarrow> glob_later ps s"
  by (auto simp: glob_later_def)

lemma glob_later_append: "glob_later ps s \<Longrightarrow> glob_later ps (r @ s)"
  using glob_later_drop [of ps "length r" "r @ s"] by simp

lemma glob_later_Nil: "glob_later [[]] s"
  unfolding glob_later_def by (rule exI [of _ "length s"]) simp

lemma find_str_least: "find_str p s = Some n \<Longrightarrow> s = a @ p @ b \<Longrightarrow> n \<le> length a"
  using find_str_append [of a p b] by auto

lemma find_str_drop:
  assumes "find_str p s = Some n"
  shows "\<exists>a. s = a @ p @ drop (n + length p) s"
proof -
  from find_str_Some [OF assms] obtain a b where "s = a @ p @ b" "length a = n" by blast
  then show ?thesis by (intro exI [of _ a]) simp
qed

lemma find_str_None: "find_str p s = None \<Longrightarrow> s \<noteq> a @ p @ b"
  using find_str_append [of a p b] by auto

text \<open>Every match of the loop is a match of the pattern.\<close>

lemma wildcard_parts_sound:
  assumes "wildcard_parts star False ps s = Some rest" and "ps \<noteq> []" and "last ps = [] \<or> rest = []"
  shows "glob_later ps s"
  using assms
proof (induction ps arbitrary: s)
  case (Cons p ps)
  show ?case
  proof (cases "p = []")
    case True
    show ?thesis
    proof (cases "ps = []")
      case True
      with \<open>p = []\<close> show ?thesis by (simp add: glob_later_Nil)
    next
      case False
      from Cons True False have "glob_later ps s" by simp
      then have "glob_parts (p # ps) (drop 0 s)" using True by (simp add: glob_parts_Cons [OF False])
      then show ?thesis unfolding glob_later_def by blast
    qed
  next
    case False
    with Cons.prems(1) obtain n where n: "find_str p s = Some n"
      and rest: "wildcard_parts star False ps (drop (n + length p) s) = Some rest" by (auto split: option.splits)
    from find_str_drop [OF n] obtain a where s: "s = a @ p @ drop (n + length p) s" by blast
    let ?b = "drop (n + length p) s"
    have drop: "drop (length a) s = p @ ?b" using s by (metis append_eq_conv_conj)
    show ?thesis
    proof (cases "ps = []")
      case True
      with rest Cons.prems(3) False have "?b = []" by simp
      then have "glob_parts [p] (drop (length a) s)" using drop by simp
      with True show ?thesis by (auto simp: glob_later_def)
    next
      case ps: False
      with Cons.IH [OF rest] Cons.prems(3) have "glob_later ps ?b" by simp
      with drop ps have "glob_parts (p # ps) (drop (length a) s)" by (simp add: glob_parts_Cons)
      then show ?thesis by (auto simp: glob_later_def)
    qed
  qed
qed simp

lemma split_on_star_start: "starts_with p ''*'' \<longleftrightarrow> (\<exists>q. p = CHR ''*'' # q)"
  by (cases p) (auto simp: starts_with_def)

lemma split_on_single: "split_on c p = [q] \<longleftrightarrow> c \<notin> set p \<and> q = p"
proof (induction p arbitrary: q)
  case (Cons x p)
  obtain r rs where "split_on c p = r # rs" by (cases "split_on c p") auto
  with Cons.IH [of r] split_on_no_sep [of c p] show ?case by auto
qed auto

lemma split_on_last: "last (split_on c p) = [] \<longleftrightarrow> p = [] \<or> last p = c"
proof (induction p)
  case (Cons x p)
  obtain q qs where "split_on c p = q # qs" by (cases "split_on c p") auto
  moreover from this have "qs = [] \<Longrightarrow> q = p" using split_on_single [of c p q] by simp
  ultimately show ?case using Cons by (cases "qs = []"; cases "p = []") auto
qed simp

lemma ends_with_star: "ends_with p [c] \<longleftrightarrow> p \<noteq> [] \<and> last p = c"
  by (cases p rule: rev_cases) (auto simp: ends_with_def)

lemma wildcard_sound:
  assumes "wildcard_matches p s"
  shows "glob p s"
proof (cases "p = ''*''")
  case True
  then show ?thesis by (auto simp: glob_star simp del: glob.simps(2) intro!: exI [of _ "length s"])
next
  case False
  obtain q qs where split: "split_on (CHR ''*'') p = q # qs" by (cases "split_on (CHR ''*'') p") auto
  from False assms obtain rest where run: "wildcard_parts (starts_with p ''*'') True (q # qs) s = Some rest"
    and fin: "ends_with p ''*'' \<or> rest = []" by (auto simp: wildcard_matches_def split split: option.splits)
  have fin': "last (q # qs) = [] \<or> rest = []"
    using fin split_on_last [of "CHR ''*''" p] split by (auto simp: ends_with_star)
  show ?thesis
  proof (cases "starts_with p ''*''")
    case True
    then obtain p' where "p = CHR ''*'' # p'" by (auto simp: split_on_star_start)
    with split have "q = []" "qs \<noteq> []" by auto
    with run have "wildcard_parts True False qs s = Some rest" using True by simp
    from wildcard_parts_sound [OF this \<open>qs \<noteq> []\<close>] fin' \<open>q = []\<close> \<open>qs \<noteq> []\<close> have "glob_later qs s" by simp
    with \<open>q = []\<close> \<open>qs \<noteq> []\<close> show ?thesis by (simp add: glob_eq_parts split glob_parts_Cons)
  next
    case False
    have "\<exists>r. s = q @ r \<and> wildcard_parts False False qs r = Some rest"
      using run False by (auto split: if_splits option.splits simp: strip_prefix_Some)
    then obtain r where r: "s = q @ r" "wildcard_parts False False qs r = Some rest" by blast
    show ?thesis
    proof (cases "qs = []")
      case True
      with False r fin split have "rest = r" by simp
      have "\<not> ends_with p ''*''"
        using split True split_on_single [of "CHR ''*''" p q] by (metis ends_with_star last_in_set)
      with fin \<open>rest = r\<close> have "r = []" by simp
      then show ?thesis using r True by (simp add: glob_eq_parts split)
    next
      case ne: False
      from wildcard_parts_sound [OF r(2) ne] fin' ne have "glob_later qs r" by simp
      with r(1) ne show ?thesis by (simp add: glob_eq_parts split glob_parts_Cons)
    qed
  qed
qed

text \<open>The greedy search finds a match when the pattern ends with a star.\<close>

lemma wildcard_parts_complete:
  "glob_later ps s \<Longrightarrow> ps \<noteq> [] \<Longrightarrow> last ps = [] \<Longrightarrow> wildcard_parts star False ps s \<noteq> None"
proof (induction ps arbitrary: s)
  case (Cons p ps)
  show ?case
  proof (cases "ps = []")
    case True
    with Cons.prems show ?thesis by simp
  next
    case False
    from Cons.prems(1) False obtain k r where k: "drop k s = p @ r" "glob_later ps r"
      by (auto simp: glob_later_def [of "p # ps"] glob_parts_Cons)
    show ?thesis
    proof (cases "p = []")
      case True
      with k have "glob_later ps s" using glob_later_drop [of ps k s] by simp
      with Cons False True show ?thesis by simp
    next
      case ne: False
      have s: "s = take k s @ p @ r" using k(1) by (metis append_take_drop_id)
      then obtain n where n: "find_str p s = Some n"
        using find_str_None [of p s "take k s" r] by (cases "find_str p s") auto
      from find_str_least [OF n s] have "n \<le> length (take k s)" .
      then have "drop (n + length p) s = drop (n + length p) (take k s @ p) @ r"
        by (subst s) (simp flip: append_assoc)
      with k(2) have "glob_later ps (drop (n + length p) s)" by (simp add: glob_later_append)
      with Cons.IH Cons.prems(3) False ne n show ?thesis by simp
    qed
  qed
qed simp

lemma wildcard_complete:
  assumes "glob p s" and "ends_with p ''*'' \<or> CHR ''*'' \<notin> set p"
  shows "wildcard_matches p s"
proof (cases "CHR ''*'' \<in> set p")
  case False
  with assms(1) have "s = p" by (simp add: glob_eq_parts split_on_no_sep)
  moreover have "\<not> starts_with p ''*''" using False by (auto simp: split_on_star_start)
  ultimately show ?thesis
    using False by (auto simp: wildcard_matches_def split_on_no_sep strip_prefix_def)
next
  case True
  with assms(2) have fin: "ends_with p ''*''" by simp
  obtain q qs where split: "split_on (CHR ''*'') p = q # qs" by (cases "split_on (CHR ''*'') p") auto
  have "qs \<noteq> []" using True split split_on_single [of "CHR ''*''" p q] by auto
  then have "last qs = []" using fin split_on_last [of "CHR ''*''" p] split by (simp add: ends_with_star)
  from assms(1) split \<open>qs \<noteq> []\<close> obtain r where r: "s = q @ r" "glob_later qs r" by (auto simp: glob_eq_parts glob_parts_Cons)
  from wildcard_parts_complete [OF r(2) \<open>qs \<noteq> []\<close> \<open>last qs = []\<close>]
  have run: "\<exists>rest. wildcard_parts star False qs r = Some rest" for star by blast
  show ?thesis
  proof (cases "q = []")
    case True
    with r run [of "starts_with p ''*''"] fin show ?thesis by (auto simp: wildcard_matches_def split split: option.splits)
  next
    case False
    have "\<not> starts_with p ''*''" using False split by (auto simp: split_on_star_start)
    with False r run [of False] fin show ?thesis
      by (auto simp: wildcard_matches_def split strip_prefix_def split: option.splits)
  qed
qed

lemma wildcard_incomplete: "glob ''*ab'' ''abab'' \<and> \<not> wildcard_matches ''*ab'' ''abab''"
  by code_simp

end
