(* ===== verification/QueryEval.thy ===== *)
theory QueryEval
  imports SourceFilter Float64 Wildcard StoreModel Values
begin

section \<open>Matching a document against a query\<close>

text \<open>
  The query evaluator of \<open>src/search/evaluator.rs\<close>. What it takes from outside is the record
  \<open>TextOps\<close>: the conversion to lower case of Unicode text, the JSON text of a value, the shortest
  decimal text of a double, and the two uses of the \<open>chrono\<close> crate.
\<close>

record TextOps =
  to_lower :: "string \<Rightarrow> string"
  json_text :: "json \<Rightarrow> string"
  f64_text :: "rat \<Rightarrow> string"
  parse_rfc3339 :: "string \<Rightarrow> (int \<times> nat \<times> nat \<times> nat) option"
  utc_instant :: "int \<times> nat \<times> nat \<times> nat \<Rightarrow> (int \<times> string) option"

datatype Ordering = Less | Equal | Greater

definition cmp_of :: "'a::linorder \<Rightarrow> 'a \<Rightarrow> Ordering" where
  "cmp_of a b = (if a < b then Less else if a = b then Equal else Greater)"

fun reverse_ordering :: "Ordering \<Rightarrow> Ordering" where
  "reverse_ordering Less = Greater"
| "reverse_ordering Equal = Equal"
| "reverse_ordering Greater = Less"

subsection \<open>Values\<close>

definition values_equal :: "json \<Rightarrow> json \<Rightarrow> bool" where
  "values_equal actual expected \<longleftrightarrow>
     actual = expected
     \<or> (case (as_str actual, as_str expected) of (Some a, Some e) \<Rightarrow> a = e | _ \<Rightarrow> False)
     \<or> (case (as_f64 actual, as_f64 expected) of (Some a, Some e) \<Rightarrow> f64_close a e | _ \<Rightarrow> False)"

fun value_matches_term :: "json \<Rightarrow> json \<Rightarrow> bool" where
  "value_matches_term (JArr vs) expected = list_ex (\<lambda>actual. values_equal actual expected) vs"
| "value_matches_term actual expected = values_equal actual expected"

fun value_matches_any :: "json \<Rightarrow> json list \<Rightarrow> bool" where
  "value_matches_any (JArr vs) expected = list_ex (\<lambda>actual. list_ex (values_equal actual) expected) vs"
| "value_matches_any actual expected = list_ex (values_equal actual) expected"

definition scalar_for_compare :: "json \<Rightarrow> string option" where
  "scalar_for_compare v = (case as_f64 v of Some number \<Rightarrow> Some (fixed6 (Fin number)) | None \<Rightarrow> as_str v)"

definition compare_values :: "json \<Rightarrow> json \<Rightarrow> Ordering option" where
  "compare_values actual bound =
     (case (as_f64 actual, as_f64 bound) of
        (Some a, Some b) \<Rightarrow> Some (cmp_of a b)
      | _ \<Rightarrow> (case (scalar_for_compare actual, scalar_for_compare bound) of
                (Some a, Some b) \<Rightarrow> Some (cmp_of a b)
              | _ \<Rightarrow> None))"

definition bound_holds :: "string \<Rightarrow> Ordering \<Rightarrow> bool" where
  "bound_holds op found \<longleftrightarrow>
     (if op = ''gt'' then found = Greater
      else if op = ''gte'' then found \<noteq> Less
      else if op = ''lt'' then found = Less
      else if op = ''lte'' then found \<noteq> Greater
      else True)"

fun range_matches :: "json \<Rightarrow> json \<Rightarrow> bool" where
  "range_matches actual (JObj bounds) =
     list_all (\<lambda>(op, bound). case compare_values actual bound of None \<Rightarrow> False | Some found \<Rightarrow> bound_holds op found) bounds"
| "range_matches actual _ = False"

definition wildcard_ignoring_case :: "TextOps \<Rightarrow> string \<Rightarrow> string \<Rightarrow> bool" where
  "wildcard_ignoring_case tx pattern value \<longleftrightarrow>
     pattern = ''*'' \<or> wildcard_matches (to_lower tx pattern) (to_lower tx value)"

definition contains_str :: "string \<Rightarrow> string \<Rightarrow> bool" where
  "contains_str s p \<longleftrightarrow> find_str p s \<noteq> None"

definition single_field :: "json \<Rightarrow> string \<Rightarrow> (string, string \<times> json) result" where
  "single_field v kind =
     (case as_object v of
        None \<Rightarrow> Inl (kind @ '' query must be an object'')
      | Some object \<Rightarrow>
          (case object of
             [entry] \<Rightarrow> Inr entry
           | _ \<Rightarrow> Inl (kind @ '' query must contain exactly one field'')))"

text \<open>\<open>expected.get(k).unwrap_or(expected)\<close>.\<close>

definition unwrapped :: "json \<Rightarrow> string \<Rightarrow> json" where
  "unwrapped expected k = (case jget expected k of Some v \<Rightarrow> v | None \<Rightarrow> expected)"

definition text_clause :: "json \<Rightarrow> string \<Rightarrow> json \<Rightarrow> (string \<Rightarrow> string \<Rightarrow> bool) \<Rightarrow> bool" where
  "text_clause source field expected test =
     (case (Option.bind (value_at source field) as_str, as_str expected) of
        (Some actual, Some e) \<Rightarrow> test actual e
      | _ \<Rightarrow> False)"

fun clauses :: "json option \<Rightarrow> json list" where
  "clauses (Some (JArr vs)) = vs"
| "clauses (Some v) = [v]"
| "clauses None = []"

definition minimum_should_match :: "json \<Rightarrow> nat option" where
  "minimum_should_match q =
     (case jget q ''minimum_should_match'' of
        Some (JNum n) \<Rightarrow> as_u64 (JNum n)
      | Some (JStr s) \<Rightarrow> parse_u64 s
      | _ \<Rightarrow> None)"

subsection \<open>Simple query strings\<close>

fun join_with :: "string \<Rightarrow> string list \<Rightarrow> string" where
  "join_with sep [] = []"
| "join_with sep [s] = s"
| "join_with sep (s # ss) = s @ sep @ join_with sep ss"

fun collect_string_values :: "json \<Rightarrow> string list" where
  "collect_string_values (JStr s) = [s]"
| "collect_string_values (JArr vs) = concat (map collect_string_values vs)"
| "collect_string_values (JObj m) = concat (map (\<lambda>e. collect_string_values (snd e)) m)"
| "collect_string_values _ = []"

definition before_char :: "char \<Rightarrow> string \<Rightarrow> string" where
  "before_char c s = (case split_once c s of Some (a, b) \<Rightarrow> a | None \<Rightarrow> s)"

definition simple_query_fields :: "json option \<Rightarrow> string list" where
  "simple_query_fields field_list =
     (case Option.bind field_list as_array of
        None \<Rightarrow> []
      | Some vs \<Rightarrow>
          map (before_char (CHR ''^''))
            (filter (\<lambda>f. f \<noteq> []) (map trim (concat (map (split_on (CHR '','')) (str_items vs))))))"

fun simple_query_value_string :: "TextOps \<Rightarrow> json \<Rightarrow> string option" where
  "simple_query_value_string tx (JStr s) = Some s"
| "simple_query_value_string tx (JNum n) = Some (json_text tx (JNum n))"
| "simple_query_value_string tx (JBool b) = Some (if b then ''true'' else ''false'')"
| "simple_query_value_string tx (JArr vs) =
     (let strs = concat (map (\<lambda>v. case simple_query_value_string tx v of Some s \<Rightarrow> [s] | None \<Rightarrow> []) vs)
      in if strs = [] then None else Some (join_with '' '' strs))"
| "simple_query_value_string tx _ = None"

definition strip_suffix :: "string \<Rightarrow> string \<Rightarrow> string option" where
  "strip_suffix sx s = (if suffix sx s then Some (take (length s - length sx) s) else None)"

definition without_suffix :: "json \<Rightarrow> string \<Rightarrow> string \<Rightarrow> json option" where
  "without_suffix source field sx = Option.bind (strip_suffix sx field) (value_at source)"

definition simple_query_field_value :: "TextOps \<Rightarrow> json \<Rightarrow> string \<Rightarrow> string option" where
  "simple_query_field_value tx source field =
     Option.bind
       (case value_at source field of
          Some v \<Rightarrow> Some v
        | None \<Rightarrow>
            (case without_suffix source field ''.raw'' of
               Some v \<Rightarrow> Some v
             | None \<Rightarrow> without_suffix source field ''.keyword''))
       (simple_query_value_string tx)"

text \<open>\<open>split_whitespace\<close>: the non-empty pieces between Unicode white space.\<close>

function split_ws :: "string \<Rightarrow> string \<Rightarrow> string list" where
  "split_ws acc s =
     (case s of
        [] \<Rightarrow> [rev acc]
      | c # cs \<Rightarrow>
          (case find (\<lambda>w. w \<noteq> [] \<and> prefix w s) white_space of
             Some w \<Rightarrow> rev acc # split_ws [] (drop (length w) s)
           | None \<Rightarrow> split_ws (c # acc) cs))"
  by pat_completeness auto
termination
proof (relation "measure (\<lambda>(acc, s). length s)")
  fix acc s c w and cs :: string
  assume "s = c # cs" "find (\<lambda>w. w \<noteq> [] \<and> prefix w s) white_space = Some w"
  then have "w \<noteq> []" by (auto simp: find_Some_iff)
  with \<open>s = c # cs\<close> show "(([], drop (length w) s), acc, s) \<in> measure (\<lambda>(acc, s). length s)"
    by (cases w) auto
qed auto

declare split_ws.simps [simp del]

definition trim_term :: "string \<Rightarrow> string" where
  "trim_term term =
     (let stripped = (\<lambda>c. c \<in> set [CHR 0x22, CHR 0x27, CHR ''+'', CHR ''-'', CHR ''('', CHR '')'', CHR ''*''])
      in rev (dropWhile stripped (rev (dropWhile stripped term))))"

definition simple_query_terms :: "TextOps \<Rightarrow> string \<Rightarrow> string list" where
  "simple_query_terms tx query_text =
     map (to_lower tx) (filter (\<lambda>t. t \<noteq> []) (map trim_term (filter (\<lambda>t. t \<noteq> []) (split_ws [] query_text))))"

definition simple_query_haystack :: "TextOps \<Rightarrow> json \<Rightarrow> json \<Rightarrow> string" where
  "simple_query_haystack tx source query =
     (let field_list = simple_query_fields (jget query ''fields'')
      in to_lower tx
           (if field_list = [] \<or> ''*'' \<in> set field_list then join_with '' '' (collect_string_values source)
            else join_with '' '' (List.map_filter (simple_query_field_value tx source) field_list)))"

definition matches_simple_query_string :: "TextOps \<Rightarrow> json \<Rightarrow> json \<Rightarrow> (string, bool) result" where
  "matches_simple_query_string tx source query =
     and_then (ok_or ''simple_query_string requires query'' (jstr_at query ''query'')) (\<lambda>query_text.
       if trim query_text = [] \<or> trim query_text = ''*'' then Inr True
       else
         let haystack = simple_query_haystack tx source query;
             terms = simple_query_terms tx query_text;
             require_all = (case jstr_at query ''default_operator'' of
                              Some operator \<Rightarrow> to_ascii_lowercase operator = ''and''
                            | None \<Rightarrow> False)
         in if terms = [] then Inr False
            else if require_all then Inr (list_all (contains_str haystack) terms)
            else Inr (list_ex (contains_str haystack) terms))"

subsection \<open>Clauses without sub-queries\<close>

definition ids_clause :: "string \<Rightarrow> json \<Rightarrow> (string, bool) result" where
  "ids_clause did ids =
     and_then (ok_or ''ids query requires values'' (Option.bind (jget ids ''values'') as_array))
       (\<lambda>vs. Inr (list_ex (\<lambda>v. as_str v = Some did) vs))"

definition field_clause :: "string \<Rightarrow> json \<Rightarrow> (string \<Rightarrow> json \<Rightarrow> (string, bool) result) \<Rightarrow> (string, bool) result" where
  "field_clause kind clause test = and_then (single_field clause kind) (\<lambda>(field, expected). test field expected)"

definition on_value :: "json \<Rightarrow> string \<Rightarrow> (json \<Rightarrow> bool) \<Rightarrow> bool" where
  "on_value source field test = (case value_at source field of Some actual \<Rightarrow> test actual | None \<Rightarrow> False)"

text \<open>The first key of the list that the query has decides.\<close>

fun first_clause :: "(string, json) btree \<Rightarrow> (string \<times> (json \<Rightarrow> 'r)) list \<Rightarrow> 'r option" where
  "first_clause object [] = None"
| "first_clause object ((k, f) # ks) =
     (case bt_get object k of Some clause \<Rightarrow> Some (f clause) | None \<Rightarrow> first_clause object ks)"

definition leaf_clauses :: "TextOps \<Rightarrow> json \<Rightarrow> string \<Rightarrow> (string \<times> (json \<Rightarrow> (string, bool) result)) list" where
  "leaf_clauses tx source did =
     (let text = (\<lambda>kind key test clause. field_clause kind clause (\<lambda>field expected.
                    Inr (text_clause source field (unwrapped expected key) test)));
          has = (\<lambda>actual expected. contains_str (to_lower tx actual) (to_lower tx expected))
      in [(''match_all'', \<lambda>_. Inr True),
          (''ids'', ids_clause did),
          (''term'', \<lambda>clause. field_clause ''term'' clause (\<lambda>field expected.
             Inr (on_value source field (\<lambda>actual. value_matches_term actual (unwrapped expected ''value''))))),
          (''terms'', \<lambda>clause. field_clause ''terms'' clause (\<lambda>field expected.
             and_then (ok_or ''terms query value must be an array'' (as_array expected))
               (\<lambda>vs. Inr (on_value source field (\<lambda>actual. value_matches_any actual vs))))),
          (''range'', \<lambda>clause. field_clause ''range'' clause (\<lambda>field bounds.
             Inr (on_value source field (\<lambda>actual. range_matches actual bounds)))),
          (''exists'', \<lambda>clause. and_then (ok_or ''exists query requires field'' (jstr_at clause ''field''))
             (\<lambda>field. Inr (value_at source field \<noteq> None))),
          (''match'', text ''match'' ''query'' has),
          (''match_phrase'', text ''match_phrase'' ''query'' has),
          (''match_phrase_prefix'', text ''match_phrase_prefix'' ''query''
             (\<lambda>actual expected. starts_with (to_lower tx actual) (to_lower tx expected))),
          (''simple_query_string'', matches_simple_query_string tx source)])"

definition pattern_clauses :: "TextOps \<Rightarrow> json \<Rightarrow> (string \<times> (json \<Rightarrow> (string, bool) result)) list" where
  "pattern_clauses tx source =
     (let text = (\<lambda>kind test clause. field_clause kind clause (\<lambda>field expected.
                    Inr (text_clause source field (unwrapped expected ''value'') test)))
      in [(''prefix'', text ''prefix'' starts_with),
          (''wildcard'', text ''wildcard'' (\<lambda>actual expected. wildcard_ignoring_case tx expected actual))])"

definition unsupported_query :: "(string, json) btree \<Rightarrow> string" where
  "unsupported_query object =
     ''unsupported query type ['' @ (case object of [] \<Rightarrow> [] | (k, v) # _ \<Rightarrow> k) @ '']''"

subsection \<open>Queries\<close>

text \<open>Loops that stop at the first match, the first mismatch, or an error.\<close>

fun any_res :: "('x \<Rightarrow> ('e, bool) result) \<Rightarrow> 'x list \<Rightarrow> ('e, bool) result" where
  "any_res f [] = Inr False"
| "any_res f (x # xs) = and_then (f x) (\<lambda>b. if b then Inr True else any_res f xs)"

fun all_res :: "('x \<Rightarrow> ('e, bool) result) \<Rightarrow> 'x list \<Rightarrow> ('e, bool) result" where
  "all_res f [] = Inr True"
| "all_res f (x # xs) = and_then (f x) (\<lambda>b. if b then all_res f xs else Inr False)"

lemma any_res_eq: "(\<And>x. x \<in> set xs \<Longrightarrow> f x = g x) \<Longrightarrow> any_res f xs = any_res g xs"
proof (induction xs)
  case (Cons x xs)
  then have "f x = g x" "any_res f xs = any_res g xs" by simp_all
  then show ?case by (simp only: any_res.simps)
qed simp

lemma any_res_cong [fundef_cong]:
  "xs = ys \<Longrightarrow> (\<And>x. x \<in> set ys \<Longrightarrow> f x = g x) \<Longrightarrow> any_res f xs = any_res g ys"
  by (hypsubst, rule any_res_eq)

lemma all_res_eq: "(\<And>x. x \<in> set xs \<Longrightarrow> f x = g x) \<Longrightarrow> all_res f xs = all_res g xs"
proof (induction xs)
  case (Cons x xs)
  then have "f x = g x" "all_res f xs = all_res g xs" by simp_all
  then show ?case by (simp only: all_res.simps)
qed simp

lemma all_res_cong [fundef_cong]:
  "xs = ys \<Longrightarrow> (\<And>x. x \<in> set ys \<Longrightarrow> f x = g x) \<Longrightarrow> all_res f xs = all_res g ys"
  by (hypsubst, rule all_res_eq)

lemma and_then_cong [fundef_cong]:
  "r = r' \<Longrightarrow> (\<And>x. r' = Inr x \<Longrightarrow> f x = g x) \<Longrightarrow> and_then r f = and_then r' g"
  by (cases r') auto

lemma fold_res_eq: "(\<And>x s. x \<in> set xs \<Longrightarrow> f s x = g s x) \<Longrightarrow> fold_res f s xs = fold_res g s xs"
proof (induction xs arbitrary: s)
  case (Cons x xs)
  then have "f s x = g s x" "\<And>t. fold_res f t xs = fold_res g t xs" by simp_all
  then show ?case by (simp only: fold_res.simps)
qed simp

lemma fold_res_cong [fundef_cong]:
  "s = t \<Longrightarrow> xs = ys \<Longrightarrow> (\<And>x s. x \<in> set ys \<Longrightarrow> f s x = g s x) \<Longrightarrow> fold_res f s xs = fold_res g t ys"
  by (hypsubst, rule fold_res_eq)

text \<open>\<open>try_fold\<close> over the objects of an array, or one object.\<close>

definition nested_sources :: "json \<Rightarrow> json list option" where
  "nested_sources v =
     (case v of JArr vs \<Rightarrow> Some (filter is_object vs) | JObj m \<Rightarrow> Some [JObj m] | _ \<Rightarrow> None)"

definition nested_error :: string where
  "nested_error = ''nested query path must resolve to an object or array of objects''"

lemma size_bt_get: "bt_get m k = Some v \<Longrightarrow> size v < size (JObj m)"
proof (induction m)
  case (Cons e m)
  then show ?case by (cases e) (auto split: if_splits)
qed simp

lemma size_jget: "jget v k = Some w \<Longrightarrow> size w < size v"
  by (cases v) (auto dest: size_bt_get)

lemma size_as_object: "as_object v = Some m \<Longrightarrow> e \<in> set m \<Longrightarrow> size (snd e) < size v"
proof (cases v)
  case (JObj n)
  assume "as_object v = Some m" "e \<in> set m"
  with JObj show ?thesis by (induction n arbitrary: m v) (auto split: prod.splits)
qed auto

lemma size_clauses: "c \<in> set (clauses (jget v k)) \<Longrightarrow> size c < size v"
proof (cases "jget v k")
  case (Some w)
  assume "c \<in> set (clauses (jget v k))"
  with Some have "size c \<le> size w" by (cases w) (auto dest: size_list_estimation' [OF _ order_refl, of _ _ size])
  with size_jget [OF Some] show ?thesis by simp
qed simp

function matches_query_source :: "TextOps \<Rightarrow> json \<Rightarrow> string \<Rightarrow> json \<Rightarrow> (string, bool) result"
  and matches_bool :: "TextOps \<Rightarrow> json \<Rightarrow> string \<Rightarrow> json \<Rightarrow> (string, bool) result"
  and matches_nested_query :: "TextOps \<Rightarrow> json \<Rightarrow> string \<Rightarrow> json \<Rightarrow> (string, bool) result" where
  "matches_query_source tx source did query =
     (case as_object query of
        None \<Rightarrow> Inl ''query must be an object''
      | Some object \<Rightarrow>
          (case first_clause object (leaf_clauses tx source did) of
             Some r \<Rightarrow> r
           | None \<Rightarrow>
               (case jget query ''nested'' of
                  Some nested \<Rightarrow> matches_nested_query tx source did nested
                | None \<Rightarrow>
                    (case first_clause object (pattern_clauses tx source) of
                       Some r \<Rightarrow> r
                     | None \<Rightarrow>
                         (case jget query ''bool'' of
                            Some bool_query \<Rightarrow> matches_bool tx source did bool_query
                          | None \<Rightarrow> Inl (unsupported_query object))))))"
| "matches_bool tx source did bool_query =
     (let must = clauses (jget bool_query ''must''); fil = clauses (jget bool_query ''filter'');
          should = clauses (jget bool_query ''should''); must_not = clauses (jget bool_query ''must_not'')
      in and_then (all_res (matches_query_source tx source did) (clauses (jget bool_query ''must''))) (\<lambda>m.
           if \<not> m then Inr False else
         and_then (all_res (matches_query_source tx source did) (clauses (jget bool_query ''filter''))) (\<lambda>f.
           if \<not> f then Inr False else
         and_then (any_res (matches_query_source tx source did) (clauses (jget bool_query ''must_not''))) (\<lambda>n.
           if n then Inr False else
         let dflt = (if should = [] \<or> must \<noteq> [] \<or> fil \<noteq> [] then 0 else 1);
             minimum = (case minimum_should_match bool_query of Some k \<Rightarrow> k | None \<Rightarrow> dflt);
             should_matches = length (filter (\<lambda>c. matches_query_source tx source did c = Inr True)
               (clauses (jget bool_query ''should'')))
         in Inr (minimum \<le> should_matches)))))"
| "matches_nested_query tx source did nested =
     and_then (ok_or ''nested query requires path'' (jstr_at nested ''path'')) (\<lambda>path.
       (case jget nested ''query'' of
          None \<Rightarrow> Inl ''nested query requires query''
        | Some query \<Rightarrow>
            (case value_at source path of
               None \<Rightarrow> Inr False
             | Some v \<Rightarrow>
                 (case nested_sources v of
                    None \<Rightarrow> Inl nested_error
                  | Some vs \<Rightarrow> any_res (\<lambda>w. matches_query_source tx (insert_path w path w) did query) vs))))"
  by pat_completeness auto
termination
  by (relation "measure (\<lambda>x. case x of Inl (tx, source, did, q) \<Rightarrow> size q
      | Inr (Inl (tx, source, did, q)) \<Rightarrow> size q | Inr (Inr (tx, source, did, q)) \<Rightarrow> size q)")
    (auto dest: size_jget size_clauses)

declare matches_query_source.simps [simp del] matches_bool.simps [simp del] matches_nested_query.simps [simp del]

definition matches_query :: "TextOps \<Rightarrow> StoredDocument \<Rightarrow> json \<Rightarrow> (string, bool) result" where
  "matches_query tx d query = matches_query_source tx (doc_source d) (doc_id d) query"

end
