(* ===== verification/SortHits.thy ===== *)
theory SortHits
  imports QueryEval
begin

section \<open>Sorting and paging of hits\<close>

text \<open>
  The sort clauses, the comparison of hits and the cursor of \<open>search_after\<close> in
  \<open>src/search/evaluator.rs\<close>. \<open>sort_by\<close> is a stable sort; for a comparison that is not a total order
  the library promises nothing, and the model's insertion sort is one of the possible results.
\<close>

record MatchedDocument =
  md_index :: string
  md_doc :: StoredDocument
  md_score :: rat

record SortClause =
  so_field :: string
  so_desc :: bool

fun sort_clause :: "json \<Rightarrow> SortClause option" where
  "sort_clause (JStr field) = Some \<lparr>so_field = field, so_desc = (field = ''_score'')\<rparr>"
| "sort_clause (JObj object) =
     (case object of
        [] \<Rightarrow> None
      | (field, config) # _ \<Rightarrow>
          let default_order = (if field = ''_score'' then ''desc'' else ''asc'');
              order = (case jstr_at config ''order'' of Some s \<Rightarrow> s | None \<Rightarrow> default_order)
          in Some \<lparr>so_field = field, so_desc = (order = ''desc'')\<rparr>)"
| "sort_clause _ = None"

definition needs_implicit_tiebreaker :: "SortClause list \<Rightarrow> bool \<Rightarrow> bool" where
  "needs_implicit_tiebreaker cs pit \<longleftrightarrow>
     (if list_ex (\<lambda>c. so_field c = ''_shard_doc'') cs then False
      else pit \<or> (cs \<noteq> [] \<and> \<not> list_ex (\<lambda>c. so_field c = ''_id'') cs))"

definition sort_clauses :: "json option \<Rightarrow> bool \<Rightarrow> SortClause list" where
  "sort_clauses srt pit =
     (let vs = (case srt of None \<Rightarrow> [] | Some (JArr vs) \<Rightarrow> vs | Some v \<Rightarrow> [v]);
          cs = List.map_filter sort_clause vs
      in if needs_implicit_tiebreaker cs pit then cs @ [\<lparr>so_field = ''_shard_doc'', so_desc = False\<rparr>] else cs)"

text \<open>The string that \<open>_shard_doc\<close> stands for.\<close>

definition shard_doc :: "MatchedDocument \<Rightarrow> string" where
  "shard_doc hit = md_index hit @ CHR 0x1F # doc_id (md_doc hit)"

definition sort_value :: "MatchedDocument \<Rightarrow> SortClause \<Rightarrow> json" where
  "sort_value hit c =
     (if so_field c = ''_id'' then JStr (doc_id (md_doc hit))
      else if so_field c = ''_score'' then JNum (Float (md_score hit))
      else if so_field c = ''_shard_doc'' then JStr (shard_doc hit)
      else case value_at (doc_source (md_doc hit)) (so_field c) of Some v \<Rightarrow> v | None \<Rightarrow> JNull)"

fun sort_value_key :: "TextOps \<Rightarrow> json \<Rightarrow> string" where
  "sort_value_key tx (JStr s) = s"
| "sort_value_key tx (JBool b) = (if b then ''true'' else ''false'')"
| "sort_value_key tx JNull = []"
| "sort_value_key tx v = json_text tx v"

fun compare_sort_values :: "TextOps \<Rightarrow> json \<Rightarrow> json \<Rightarrow> Ordering" where
  "compare_sort_values tx JNull JNull = Equal"
| "compare_sort_values tx JNull right = Less"
| "compare_sort_values tx left JNull = Greater"
| "compare_sort_values tx (JNum a) (JNum b) = cmp_of (num_f64 a) (num_f64 b)"
| "compare_sort_values tx (JStr a) (JStr b) = cmp_of a b"
| "compare_sort_values tx (JBool a) (JBool b) = cmp_of a b"
| "compare_sort_values tx left right = cmp_of (sort_value_key tx left) (sort_value_key tx right)"

definition directed :: "SortClause \<Rightarrow> Ordering \<Rightarrow> Ordering" where
  "directed c found = (if so_desc c then reverse_ordering found else found)"

fun compare_hits :: "TextOps \<Rightarrow> SortClause list \<Rightarrow> MatchedDocument \<Rightarrow> MatchedDocument \<Rightarrow> Ordering" where
  "compare_hits tx [] left right = Equal"
| "compare_hits tx (c # cs) left right =
     (let found = directed c (compare_sort_values tx (sort_value left c) (sort_value right c))
      in if found \<noteq> Equal then found else compare_hits tx cs left right)"

fun insert_by :: "('a \<Rightarrow> 'a \<Rightarrow> Ordering) \<Rightarrow> 'a \<Rightarrow> 'a list \<Rightarrow> 'a list" where
  "insert_by cmp x [] = [x]"
| "insert_by cmp x (y # ys) = (if cmp x y = Greater then y # insert_by cmp x ys else x # y # ys)"

definition sort_by :: "('a \<Rightarrow> 'a \<Rightarrow> Ordering) \<Rightarrow> 'a list \<Rightarrow> 'a list" where
  "sort_by cmp xs = foldr (insert_by cmp) xs []"

definition sort_by_clauses :: "TextOps \<Rightarrow> SortClause list \<Rightarrow> MatchedDocument list \<Rightarrow> MatchedDocument list" where
  "sort_by_clauses tx cs hits = (if cs = [] then hits else sort_by (compare_hits tx cs) hits)"

definition apply_sort :: "TextOps \<Rightarrow> json option \<Rightarrow> MatchedDocument list \<Rightarrow> MatchedDocument list" where
  "apply_sort tx srt hits = sort_by_clauses tx (sort_clauses srt False) hits"

definition search_after_values :: "json \<Rightarrow> SortClause list \<Rightarrow> (string, json list option) result" where
  "search_after_values body cs =
     (case jget body ''search_after'' of
        None \<Rightarrow> Inr None
      | Some v \<Rightarrow>
          if cs = [] then Inl ''search_after requires a sort clause''
          else case as_array v of
                 None \<Rightarrow> Inl ''search_after must be an array''
               | Some vs \<Rightarrow>
                   if length vs \<noteq> length cs then
                     Inl (''search_after has '' @ show_nat (length vs) @ '' values but sort has '' @ show_nat (length cs) @ '' clauses'')
                   else Inr (Some vs))"

fun after_cursor :: "TextOps \<Rightarrow> MatchedDocument \<Rightarrow> SortClause list \<Rightarrow> json list \<Rightarrow> bool" where
  "after_cursor tx hit (c # cs) (v # vs) =
     (let found = directed c (compare_sort_values tx (sort_value hit c) v)
      in if found = Greater then True else if found = Less then False else after_cursor tx hit cs vs)"
| "after_cursor tx hit _ _ = False"

definition hit_is_after_search_after :: "TextOps \<Rightarrow> MatchedDocument \<Rightarrow> SortClause list \<Rightarrow> json list option \<Rightarrow> bool" where
  "hit_is_after_search_after tx hit cs cursor =
     (case cursor of None \<Rightarrow> True | Some vs \<Rightarrow> after_cursor tx hit cs vs)"

definition sort_values :: "MatchedDocument \<Rightarrow> SortClause list \<Rightarrow> json list" where
  "sort_values hit cs = map (sort_value hit) cs"

end
