(* ===== verification/Aggregations.thy ===== *)
theory Aggregations
  imports SortHits
begin

section \<open>Aggregations\<close>

text \<open>
  The aggregations of \<open>src/search/evaluator.rs\<close>. A bucket aggregation takes the evaluation of its
  sub-aggregations as an argument, which \<open>evaluate_aggregation\<close> supplies by recursion.
\<close>

definition MAX_BUCKETS :: nat where "MAX_BUCKETS = 10000"

type_synonym sub_eval = "(MatchedDocument list \<Rightarrow> (string, json) result) option"

definition bucket_limit_error :: string where
  "bucket_limit_error = ''aggregation bucket count exceeds local limit of 10000''"

definition ensure_bucket_count :: "nat \<Rightarrow> (string, unit) result" where
  "ensure_bucket_count n = (if n > MAX_BUCKETS then Inl bucket_limit_error else Inr ())"

fun aggregation_values :: "json \<Rightarrow> json list" where
  "aggregation_values (JArr vs) = vs"
| "aggregation_values v = [v]"

definition numeric_aggregation_values :: "json \<Rightarrow> rat list" where
  "numeric_aggregation_values v = List.map_filter as_f64 (aggregation_values v)"

fun aggregation_key :: "TextOps \<Rightarrow> json \<Rightarrow> string" where
  "aggregation_key tx (JStr s) = s"
| "aggregation_key tx (JBool b) = (if b then ''true'' else ''false'')"
| "aggregation_key tx v = json_text tx v"

definition hit_value :: "MatchedDocument \<Rightarrow> string \<Rightarrow> json option" where
  "hit_value hit field = value_at (doc_source (md_doc hit)) field"

definition required_field :: "json \<Rightarrow> string \<Rightarrow> (string, string) result" where
  "required_field config kind = ok_or (kind @ '' aggregation requires field'') (jstr_at config ''field'')"

text \<open>The response of one bucket.\<close>

definition bucket_response :: "sub_eval \<Rightarrow> json \<Rightarrow> MatchedDocument list \<Rightarrow> (string, (string, json) btree) result" where
  "bucket_response sub key docs =
     (let bucket = [(''doc_count'', jnat (length docs))];
          bucket = (if key = JNull then bucket else bt_insert ''key'' key bucket)
      in case sub of
           None \<Rightarrow> Inr bucket
         | Some eval \<Rightarrow>
             and_then (eval docs) (\<lambda>v. Inr (case as_object v of Some m \<Rightarrow> bt_extend bucket m | None \<Rightarrow> bucket)))"

definition buckets_json :: "json list \<Rightarrow> json" where
  "buckets_json buckets = jobject [(''buckets'', JArr buckets)]"

text \<open>\<open>map(f).collect::<Result<Vec<_>, _>>()\<close>.\<close>

fun map_res :: "('x \<Rightarrow> ('e, 'y) result) \<Rightarrow> 'x list \<Rightarrow> ('e, 'y list) result" where
  "map_res f [] = Inr []"
| "map_res f (x # xs) = and_then (f x) (\<lambda>y. and_then (map_res f xs) (\<lambda>ys. Inr (y # ys)))"

text \<open>A hit goes into the bucket of its key, which is opened if the limit allows.\<close>

definition add_to_bucket :: "'k::linorder \<Rightarrow> 'v \<Rightarrow> MatchedDocument \<Rightarrow> ('k, 'v \<times> MatchedDocument list) btree
    \<Rightarrow> (string, ('k, 'v \<times> MatchedDocument list) btree) result" where
  "add_to_bucket key shown hit buckets =
     (case bt_get buckets key of
        Some (v, docs) \<Rightarrow> Inr (bt_insert key (v, docs @ [hit]) buckets)
      | None \<Rightarrow>
          if length buckets \<ge> MAX_BUCKETS then Inl bucket_limit_error
          else Inr (bt_insert key (shown, [hit]) buckets))"

text \<open>The order of the buckets of a terms aggregation: fuller ones first, then the text of the key.\<close>

definition count_rank :: "json option \<Rightarrow> nat" where
  "count_rank v = (case Option.bind v as_u64 of None \<Rightarrow> 0 | Some n \<Rightarrow> Suc n)"

definition key_text :: "TextOps \<Rightarrow> json \<Rightarrow> string" where
  "key_text tx v = json_text tx (case jget v ''key'' of Some k \<Rightarrow> k | None \<Rightarrow> JNull)"

definition compare_buckets :: "TextOps \<Rightarrow> json \<Rightarrow> json \<Rightarrow> Ordering" where
  "compare_buckets tx left right =
     (let found = cmp_of (count_rank (jget right ''doc_count'')) (count_rank (jget left ''doc_count''))
      in if found \<noteq> Equal then found else cmp_of (key_text tx left) (key_text tx right))"

definition size_or :: "json \<Rightarrow> string \<Rightarrow> nat \<Rightarrow> nat" where
  "size_or config k dflt = (case Option.bind (jget config k) as_u64 of Some n \<Rightarrow> n | None \<Rightarrow> dflt)"

definition terms_buckets :: "TextOps \<Rightarrow> string \<Rightarrow> MatchedDocument list \<Rightarrow> (string, (string, json \<times> MatchedDocument list) btree) result" where
  "terms_buckets tx field hits =
     fold_res (\<lambda>buckets hit.
         fold_res (\<lambda>bs v. add_to_bucket (aggregation_key tx v) v hit bs) buckets
           (case hit_value hit field of Some v \<Rightarrow> aggregation_values v | None \<Rightarrow> []))
       [] hits"

definition terms_aggregation :: "TextOps \<Rightarrow> sub_eval \<Rightarrow> MatchedDocument list \<Rightarrow> json \<Rightarrow> (string, json) result" where
  "terms_aggregation tx sub hits terms =
     and_then (required_field terms ''terms'') (\<lambda>field.
     and_then (terms_buckets tx field hits) (\<lambda>buckets.
     and_then (map_res (\<lambda>(key, docs). bucket_response sub key docs) (bt_values buckets)) (\<lambda>bs.
       Inr (jobject [(''doc_count_error_upper_bound'', jnat 0), (''sum_other_doc_count'', jnat 0),
         (''buckets'', JArr (take (size_or terms ''size'' 10) (sort_by (compare_buckets tx) (map JObj bs))))]))))"

definition date_bucket :: "TextOps \<Rightarrow> json \<Rightarrow> string \<Rightarrow> (string, (int \<times> string) option) result" where
  "date_bucket tx v interval =
     (case as_str v of
        None \<Rightarrow> Inr None
      | Some s \<Rightarrow>
          (case parse_rfc3339 tx s of
             None \<Rightarrow> Inl ''date_histogram only supports RFC3339 date strings''
           | Some (year, month, day, hour) \<Rightarrow>
               if interval = ''day'' \<or> interval = ''1d'' then Inr (utc_instant tx (year, month, day, 0))
               else if interval = ''hour'' \<or> interval = ''1h'' then Inr (utc_instant tx (year, month, day, hour))
               else if interval = ''month'' \<or> interval = ''1M'' then Inr (utc_instant tx (year, month, 1, 0))
               else Inl (''date_histogram interval ['' @ interval @ ''] is not supported by mainstack-search'')))"

definition histogram_interval :: "json \<Rightarrow> string" where
  "histogram_interval config =
     (let v = (case jget config ''calendar_interval'' of Some v \<Rightarrow> Some v
               | None \<Rightarrow> (case jget config ''fixed_interval'' of Some v \<Rightarrow> Some v | None \<Rightarrow> jget config ''interval''))
      in case Option.bind v as_str of Some s \<Rightarrow> s | None \<Rightarrow> ''day'')"

definition date_buckets :: "TextOps \<Rightarrow> string \<Rightarrow> string \<Rightarrow> MatchedDocument list
    \<Rightarrow> (string, (int, string \<times> MatchedDocument list) btree) result" where
  "date_buckets tx field interval hits =
     fold_res (\<lambda>buckets hit.
         fold_res (\<lambda>bs v. and_then (date_bucket tx v interval) (\<lambda>b.
               case b of None \<Rightarrow> Inr bs | Some (millis, text) \<Rightarrow> add_to_bucket millis text hit bs)) buckets
           (case hit_value hit field of Some v \<Rightarrow> aggregation_values v | None \<Rightarrow> []))
       [] hits"

definition jint :: "int \<Rightarrow> json" where
  "jint i = (if i < 0 then JNum (NegInt i) else jnat (nat i))"

definition date_histogram_aggregation :: "TextOps \<Rightarrow> sub_eval \<Rightarrow> MatchedDocument list \<Rightarrow> json \<Rightarrow> (string, json) result" where
  "date_histogram_aggregation tx sub hits config =
     and_then (required_field config ''date_histogram'') (\<lambda>field.
     and_then (date_buckets tx field (histogram_interval config) hits) (\<lambda>buckets.
     and_then (map_res (\<lambda>(millis, text, docs). and_then (bucket_response sub (jint millis) docs)
         (\<lambda>b. Inr (JObj (bt_insert ''key_as_string'' (JStr text) b)))) buckets) (\<lambda>bs. Inr (buckets_json bs))))"

definition histogram_buckets :: "string \<Rightarrow> rat \<Rightarrow> MatchedDocument list
    \<Rightarrow> (string, (string, f64 \<times> MatchedDocument list) btree) result" where
  "histogram_buckets field interval hits =
     fold_res (\<lambda>buckets hit.
         case Option.bind (hit_value hit field) as_f64 of
           None \<Rightarrow> Inr buckets
         | Some v \<Rightarrow>
             let key = f64_mult (f64_floor (f64_div (Fin v) interval)) interval
             in add_to_bucket (fixed6 key) key hit buckets)
       [] hits"

definition histogram_aggregation :: "sub_eval \<Rightarrow> MatchedDocument list \<Rightarrow> json \<Rightarrow> (string, json) result" where
  "histogram_aggregation sub hits config =
     and_then (required_field config ''histogram'') (\<lambda>field.
     and_then (ok_or ''histogram aggregation requires numeric interval'' (Option.bind (jget config ''interval'') as_f64)) (\<lambda>interval.
       if interval \<le> 0 then Inl ''histogram interval must be positive''
       else
     and_then (histogram_buckets field interval hits) (\<lambda>buckets.
     and_then (map_res (\<lambda>(key, docs). bucket_response sub (f64_json key) docs) (bt_values buckets)) (\<lambda>bs.
       Inr (buckets_json (map JObj bs))))))"

definition range_key :: "TextOps \<Rightarrow> rat option \<Rightarrow> rat option \<Rightarrow> string" where
  "range_key tx lo hi =
     (case (lo, hi) of
        (Some a, Some b) \<Rightarrow> f64_text tx a @ ''-'' @ f64_text tx b
      | (Some a, None) \<Rightarrow> f64_text tx a @ ''-*''
      | (None, Some b) \<Rightarrow> ''-'' @ f64_text tx b
      | (None, None) \<Rightarrow> ''*'')"

definition in_range :: "rat option \<Rightarrow> rat option \<Rightarrow> rat \<Rightarrow> bool" where
  "in_range lo hi v \<longleftrightarrow> (case lo of Some a \<Rightarrow> v \<ge> a | None \<Rightarrow> True) \<and> (case hi of Some b \<Rightarrow> v < b | None \<Rightarrow> True)"

definition range_bucket :: "TextOps \<Rightarrow> sub_eval \<Rightarrow> MatchedDocument list \<Rightarrow> string \<Rightarrow> json \<Rightarrow> (string, json) result" where
  "range_bucket tx sub hits field rng =
     (let lo = Option.bind (jget rng ''from'') as_f64; hi = Option.bind (jget rng ''to'') as_f64;
          key = (case jstr_at rng ''key'' of Some k \<Rightarrow> k | None \<Rightarrow> range_key tx lo hi);
          docs = filter (\<lambda>hit. case Option.bind (hit_value hit field) as_f64 of Some v \<Rightarrow> in_range lo hi v | None \<Rightarrow> False) hits
      in and_then (bucket_response sub (JStr key) docs) (\<lambda>b.
           let b = (case lo of Some a \<Rightarrow> bt_insert ''from'' (JNum (Float a)) b | None \<Rightarrow> b);
               b = (case hi of Some a \<Rightarrow> bt_insert ''to'' (JNum (Float a)) b | None \<Rightarrow> b)
           in Inr (JObj b)))"

definition range_aggregation :: "TextOps \<Rightarrow> sub_eval \<Rightarrow> MatchedDocument list \<Rightarrow> json \<Rightarrow> (string, json) result" where
  "range_aggregation tx sub hits config =
     and_then (required_field config ''range'') (\<lambda>field.
     and_then (ok_or ''range aggregation requires ranges'' (Option.bind (jget config ''ranges'') as_array)) (\<lambda>ranges.
     and_then (map_res (range_bucket tx sub hits field) ranges) (\<lambda>bs. Inr (buckets_json bs))))"

fun matching_filter_docs :: "TextOps \<Rightarrow> MatchedDocument list \<Rightarrow> json \<Rightarrow> (string, MatchedDocument list) result" where
  "matching_filter_docs tx [] query = Inr []"
| "matching_filter_docs tx (hit # hits) query =
     and_then (matches_query tx (md_doc hit) query) (\<lambda>b.
     and_then (matching_filter_docs tx hits query) (\<lambda>docs. Inr (if b then hit # docs else docs)))"

definition filter_bucket :: "TextOps \<Rightarrow> sub_eval \<Rightarrow> MatchedDocument list \<Rightarrow> json \<Rightarrow> (string, json) result" where
  "filter_bucket tx sub hits query =
     and_then (matching_filter_docs tx hits query) (\<lambda>docs.
     and_then (bucket_response sub JNull docs) (\<lambda>b. Inr (JObj b)))"

definition filters_aggregation :: "TextOps \<Rightarrow> sub_eval \<Rightarrow> MatchedDocument list \<Rightarrow> json \<Rightarrow> (string, json) result" where
  "filters_aggregation tx sub hits config =
     and_then (ok_or ''filters aggregation requires filters'' (jget config ''filters'')) (\<lambda>filters.
       case filters of
         JObj object \<Rightarrow>
           and_then (ensure_bucket_count (length object)) (\<lambda>_.
           and_then (map_res (\<lambda>(key, query). and_then (filter_bucket tx sub hits query) (\<lambda>b. Inr (key, b))) object) (\<lambda>bs.
             Inr (jobject [(''buckets'', jobject bs)])))
       | JArr queries \<Rightarrow>
           and_then (ensure_bucket_count (length queries)) (\<lambda>_.
           and_then (map_res (filter_bucket tx sub hits) queries) (\<lambda>bs. Inr (buckets_json bs)))
       | _ \<Rightarrow> Inl ''filters aggregation filters must be an object or array'')"

definition missing_aggregation :: "sub_eval \<Rightarrow> MatchedDocument list \<Rightarrow> json \<Rightarrow> (string, json) result" where
  "missing_aggregation sub hits config =
     and_then (required_field config ''missing'') (\<lambda>field.
     and_then (bucket_response sub JNull (filter (\<lambda>hit. hit_value hit field = None) hits)) (\<lambda>b. Inr (JObj b)))"

definition top_hit_response :: "MatchedDocument \<Rightarrow> json \<Rightarrow> json" where
  "top_hit_response hit config =
     jobject ([(''_index'', JStr (md_index hit)), (''_id'', JStr (doc_id (md_doc hit))),
       (''_score'', JNum (Float (md_score hit))), (''_version'', jnat (doc_version (md_doc hit)))]
      @ (if jget config ''_source'' \<noteq> Some (JBool False)
         then [(''_source'', filter_source (doc_source (md_doc hit)) (jget config ''_source''))] else []))"

definition total_json :: "nat \<Rightarrow> json" where
  "total_json n = jobject [(''value'', jnat n), (''relation'', JStr ''eq'')]"

definition max_score_json :: "bool \<Rightarrow> json" where
  "max_score_json none = (if none then JNull else JNum (Float 1))"

definition top_hits_aggregation :: "TextOps \<Rightarrow> MatchedDocument list \<Rightarrow> json \<Rightarrow> (string, json) result" where
  "top_hits_aggregation tx hits config =
     (let start = size_or config ''from'' 0; size = size_or config ''size'' 3
      in if sat_add start size > MAX_BUCKETS then
           Inl ''top_hits from + size exceeds local limit of 10000''
         else
           let docs = (if jget config ''sort'' \<noteq> None then apply_sort tx (jget config ''sort'') hits else hits);
               paged = map (\<lambda>hit. top_hit_response hit config) (take size (drop start docs))
           in Inr (jobject [(''hits'', jobject [(''total'', total_json (length hits)),
                (''max_score'', max_score_json (hits = [])), (''hits'', JArr paged)])]))"

subsection \<open>Metrics\<close>

definition value_count :: "MatchedDocument list \<Rightarrow> string \<Rightarrow> nat" where
  "value_count hits field = sum_list (map (\<lambda>v. length (aggregation_values v)) (List.map_filter (\<lambda>h. hit_value h field) hits))"

definition cardinality :: "TextOps \<Rightarrow> MatchedDocument list \<Rightarrow> string \<Rightarrow> nat" where
  "cardinality tx hits field =
     length (bs_of_list (map (aggregation_key tx) (concat (map aggregation_values (List.map_filter (\<lambda>h. hit_value h field) hits)))))"

fun reduce :: "('a \<Rightarrow> 'a \<Rightarrow> 'a) \<Rightarrow> 'a list \<Rightarrow> 'a option" where
  "reduce f [] = None"
| "reduce f (x # xs) = Some (foldl f x xs)"

definition opt_f64 :: "rat option \<Rightarrow> json" where
  "opt_f64 v = (case v of Some x \<Rightarrow> JNum (Float x) | None \<Rightarrow> JNull)"

definition metric_aggregation :: "TextOps \<Rightarrow> MatchedDocument list \<Rightarrow> string \<Rightarrow> string \<Rightarrow> json" where
  "metric_aggregation tx hits field kind =
     (let vs = concat (map numeric_aggregation_values (List.map_filter (\<lambda>h. hit_value h field) hits));
          count = length vs;
          sum = foldl f64_add (Fin 0) (map Fin vs);
          avg = (if count = 0 then JNull else f64_json (f64_div sum (f64_round (of_nat count))))
      in if kind = ''min'' then jobject [(''value'', opt_f64 (reduce min vs))]
         else if kind = ''max'' then jobject [(''value'', opt_f64 (reduce max vs))]
         else if kind = ''sum'' then jobject [(''value'', f64_json sum)]
         else if kind = ''avg'' then jobject [(''value'', avg)]
         else if kind = ''value_count'' then jobject [(''value'', jnat (value_count hits field))]
         else if kind = ''cardinality'' then jobject [(''value'', jnat (cardinality tx hits field))]
         else if kind = ''stats'' then
           jobject [(''count'', jnat count), (''min'', opt_f64 (reduce min vs)), (''max'', opt_f64 (reduce max vs)),
             (''avg'', avg), (''sum'', f64_json sum)]
         else empty_object)"

definition metric_kinds :: "string list" where
  "metric_kinds = [''min'', ''max'', ''sum'', ''avg'', ''value_count'', ''cardinality'', ''stats'']"

definition metric_clause :: "TextOps \<Rightarrow> MatchedDocument list \<Rightarrow> json \<Rightarrow> (string, json) result option" where
  "metric_clause tx hits aggregation =
     (case find (\<lambda>kind. jget aggregation kind \<noteq> None) metric_kinds of
        None \<Rightarrow> None
      | Some kind \<Rightarrow>
          Some (and_then (ok_or (kind @ '' aggregation requires field'')
              (Option.bind (jget aggregation kind) (\<lambda>config. jstr_at config ''field'')))
            (\<lambda>field. Inr (metric_aggregation tx hits field kind))))"

subsection \<open>Evaluation\<close>

definition sub_aggregations :: "json \<Rightarrow> json option" where
  "sub_aggregations aggregation =
     (case jget aggregation ''aggregations'' of Some v \<Rightarrow> Some v | None \<Rightarrow> jget aggregation ''aggs'')"

definition aggregate :: "TextOps \<Rightarrow> sub_eval \<Rightarrow> MatchedDocument list \<Rightarrow> json \<Rightarrow> (string, json) result" where
  "aggregate tx sub hits aggregation =
     (let object = (case as_object aggregation of Some m \<Rightarrow> m | None \<Rightarrow> [])
      in case first_clause object
           [(''terms'', terms_aggregation tx sub hits), (''date_histogram'', date_histogram_aggregation tx sub hits),
            (''histogram'', histogram_aggregation sub hits), (''range'', range_aggregation tx sub hits),
            (''filters'', filters_aggregation tx sub hits), (''missing'', missing_aggregation sub hits),
            (''top_hits'', top_hits_aggregation tx hits)] of
           Some r \<Rightarrow> r
         | None \<Rightarrow>
             (case metric_clause tx hits aggregation of
                Some r \<Rightarrow> r
              | None \<Rightarrow> Inl (''unsupported aggregation type ['' @ (case object of [] \<Rightarrow> [] | (k, v) # _ \<Rightarrow> k) @ '']'')))"

lemma size_sub_aggregations: "sub_aggregations v = Some w \<Longrightarrow> size w < size v"
  by (auto simp: sub_aggregations_def dest: size_jget split: option.splits)

function evaluate_aggregations :: "TextOps \<Rightarrow> MatchedDocument list \<Rightarrow> json \<Rightarrow> (string, json) result"
  and evaluate_aggregation :: "TextOps \<Rightarrow> MatchedDocument list \<Rightarrow> json \<Rightarrow> (string, json) result" where
  "evaluate_aggregations tx hits aggregations =
     (case as_object aggregations of
        None \<Rightarrow> Inl ''aggregations must be an object''
      | Some object \<Rightarrow>
          and_then (fold_res (\<lambda>output entry.
              and_then (evaluate_aggregation tx hits (snd entry)) (\<lambda>v. Inr (bt_insert (fst entry) v output))) [] object)
            (\<lambda>output. Inr (JObj output)))"
| "evaluate_aggregation tx hits aggregation =
     aggregate tx
       (case sub_aggregations aggregation of
          None \<Rightarrow> None
        | Some sub \<Rightarrow> Some (\<lambda>docs. evaluate_aggregations tx docs sub))
       hits aggregation"
  by pat_completeness auto
termination
  by (relation "measure (\<lambda>x. case x of Inl (tx, hits, v) \<Rightarrow> size v | Inr (tx, hits, v) \<Rightarrow> size v)")
    (auto dest: size_as_object size_sub_aggregations)

declare evaluate_aggregations.simps [simp del] evaluate_aggregation.simps [simp del]

end
