(* ===== verification/SearchLimits.thy ===== *)
theory SearchLimits
  imports QueryEval
begin

section \<open>Limits on search requests\<close>

text \<open>
  \<open>src/search/limits.rs\<close>: what a search body is checked for before it is evaluated. The counter of
  clauses and that of buckets are threaded through the checks.
\<close>

definition QUERY_BODY_LIMIT_BYTES :: nat where "QUERY_BODY_LIMIT_BYTES = 10 * 1024 * 1024"

definition MAX_QUERY_DEPTH :: nat where "MAX_QUERY_DEPTH = 32"

definition MAX_QUERY_CLAUSES :: nat where "MAX_QUERY_CLAUSES = 1024"

definition MAX_TERMS_VALUES :: nat where "MAX_TERMS_VALUES = 4096"

definition MAX_AGGREGATION_DEPTH :: nat where "MAX_AGGREGATION_DEPTH = 8"

definition LIMIT_BUCKETS :: nat where "LIMIT_BUCKETS = 10000"

definition validate_body_bytes :: "nat \<Rightarrow> (string, unit) result" where
  "validate_body_bytes len =
     (if len > QUERY_BODY_LIMIT_BYTES then
        Inl (''search body is '' @ show_nat len @ '' bytes, exceeding the local query limit of 10485760 bytes'')
      else Inr ())"

text \<open>The lists of a \<open>terms\<close> query; anything but an array counts as empty.\<close>

definition terms_too_long :: "(string, json) btree \<Rightarrow> bool" where
  "terms_too_long terms \<longleftrightarrow>
     list_ex (\<lambda>v. (case as_array v of Some vs \<Rightarrow> length vs | None \<Rightarrow> 0) > MAX_TERMS_VALUES) (bt_values terms)"

definition check_terms :: "(string, json) btree \<Rightarrow> (string, unit) result" where
  "check_terms object =
     (case bt_get object ''terms'' of
        None \<Rightarrow> Inr ()
      | Some terms \<Rightarrow>
          (case as_object terms of
             None \<Rightarrow> Inl ''terms query must be an object''
           | Some m \<Rightarrow>
               if terms_too_long m then Inl ''terms query value count exceeds local limit of 4096'' else Inr ()))"

definition bool_clauses :: "json option \<Rightarrow> json list" where
  "bool_clauses bool_query =
     (case bool_query of
        None \<Rightarrow> []
      | Some q \<Rightarrow> concat (map (\<lambda>k. clauses (jget q k)) [''must'', ''filter'', ''should'', ''must_not'']))"

lemma size_bool_clauses: "c \<in> set (bool_clauses (jget v ''bool'')) \<Longrightarrow> size c < size v"
proof (cases "jget v ''bool''")
  case (Some q)
  assume "c \<in> set (bool_clauses (jget v ''bool''))"
  with Some have "size c < size q" by (auto simp: bool_clauses_def dest: size_clauses)
  with size_jget [OF Some] show ?thesis by simp
qed (simp add: bool_clauses_def)

lemma size_nested_query: "Option.bind (jget v k) (\<lambda>w. jget w k') = Some q \<Longrightarrow> size q < size v"
  by (cases "jget v k") (auto dest!: size_jget)

function validate_query :: "json \<Rightarrow> nat \<Rightarrow> nat \<Rightarrow> (string, nat) result" where
  "validate_query query depth counter =
     (if depth > MAX_QUERY_DEPTH then Inl ''query depth exceeds local limit of 32''
      else case as_object query of
        None \<Rightarrow> Inl ''query must be an object''
      | Some object \<Rightarrow>
          let counter = sat_add counter 1
          in if counter > MAX_QUERY_CLAUSES then Inl ''query clause count exceeds local limit of 1024''
             else and_then (check_terms object) (\<lambda>_.
               and_then (fold_res (\<lambda>n c. validate_query c (depth + 1) n) counter (bool_clauses (jget query ''bool''))) (\<lambda>counter.
                 case Option.bind (jget query ''nested'') (\<lambda>nested. jget nested ''query'') of
                   None \<Rightarrow> Inr counter
                 | Some q \<Rightarrow> validate_query q (depth + 1) counter)))"
  by pat_completeness auto
termination
  by (relation "measure (\<lambda>(q, d, n). size q)") (auto dest: size_bool_clauses size_nested_query)

declare validate_query.simps [simp del]

definition add_buckets :: "nat \<Rightarrow> nat \<Rightarrow> (string, nat) result" where
  "add_buckets n buckets =
     (let buckets = sat_add buckets n
      in if buckets > LIMIT_BUCKETS then Inl ''aggregation bucket count exceeds local limit of 10000'' else Inr buckets)"

definition u64_or :: "json \<Rightarrow> string \<Rightarrow> nat \<Rightarrow> nat" where
  "u64_or config k dflt = (case Option.bind (jget config k) as_u64 of Some n \<Rightarrow> n | None \<Rightarrow> dflt)"

definition count_of :: "json option \<Rightarrow> nat" where
  "count_of v = (case v of Some (JObj m) \<Rightarrow> length m | Some (JArr vs) \<Rightarrow> length vs | _ \<Rightarrow> 0)"

definition array_count :: "json option \<Rightarrow> nat" where
  "array_count v = (case Option.bind v as_array of Some vs \<Rightarrow> length vs | None \<Rightarrow> 0)"

text \<open>The first of the listed kinds an aggregation has is counted.\<close>

definition check_aggregation :: "nat \<Rightarrow> json \<Rightarrow> nat \<Rightarrow> (string, nat) result" where
  "check_aggregation max_result_window aggregation buckets =
     (case jget aggregation ''terms'' of
        Some config \<Rightarrow> add_buckets (u64_or config ''size'' 10) buckets
      | None \<Rightarrow>
     (case jget aggregation ''filters'' of
        Some config \<Rightarrow> add_buckets (count_of (jget config ''filters'')) buckets
      | None \<Rightarrow>
     (case jget aggregation ''range'' of
        Some config \<Rightarrow> add_buckets (array_count (jget config ''ranges'')) buckets
      | None \<Rightarrow>
     (if jget aggregation ''missing'' \<noteq> None then add_buckets 1 buckets
      else case jget aggregation ''top_hits'' of
        Some config \<Rightarrow>
          if sat_add (u64_or config ''from'' 0) (u64_or config ''size'' 3) > max_result_window
          then Inl ''top_hits from + size exceeds max result window'' else Inr buckets
      | None \<Rightarrow> Inr buckets))))"

definition sub_aggs :: "json \<Rightarrow> json option" where
  "sub_aggs v = (case jget v ''aggregations'' of Some w \<Rightarrow> Some w | None \<Rightarrow> jget v ''aggs'')"

lemma size_sub_aggs: "sub_aggs v = Some w \<Longrightarrow> size w < size v"
  by (auto simp: sub_aggs_def dest: size_jget split: option.splits)

function validate_aggs :: "nat \<Rightarrow> json \<Rightarrow> nat \<Rightarrow> nat \<Rightarrow> (string, nat) result"
  and validate_agg :: "nat \<Rightarrow> json \<Rightarrow> nat \<Rightarrow> nat \<Rightarrow> (string, nat) result" where
  "validate_aggs window aggs depth buckets =
     (if depth > MAX_AGGREGATION_DEPTH then Inl ''aggregation depth exceeds local limit of 8''
      else case as_object aggs of
        None \<Rightarrow> Inl ''aggregations must be an object''
      | Some object \<Rightarrow> fold_res (\<lambda>n entry. validate_agg window (snd entry) depth n) buckets object)"
| "validate_agg window aggregation depth buckets =
     and_then (check_aggregation window aggregation buckets) (\<lambda>n.
       case sub_aggs aggregation of
         None \<Rightarrow> Inr n
       | Some sub \<Rightarrow> validate_aggs window sub (depth + 1) n)"
  by pat_completeness auto
termination
  by (relation "measure (\<lambda>x. case x of Inl (w, v, d, n) \<Rightarrow> size v | Inr (w, v, d, n) \<Rightarrow> size v)")
    (auto dest: size_as_object size_sub_aggs)

declare validate_aggs.simps [simp del] validate_agg.simps [simp del]

definition validate_request :: "json \<Rightarrow> nat \<Rightarrow> nat \<Rightarrow> nat \<Rightarrow> (string, unit) result" where
  "validate_request body start hits max_result_window =
     (if sat_add start hits > max_result_window then Inl ''from + size exceeds max result window''
      else
        and_then (case jget body ''query'' of None \<Rightarrow> Inr 0 | Some query \<Rightarrow> validate_query query 0 0) (\<lambda>_.
        and_then (case sub_aggs body of None \<Rightarrow> Inr 0 | Some aggs \<Rightarrow> validate_aggs max_result_window aggs 0 0) (\<lambda>_.
          Inr ())))"

subsection \<open>What a validated query is bounded by\<close>

text \<open>The clauses of a query, its own included, and how deep they are nested.\<close>

function query_clauses :: "json \<Rightarrow> nat" where
  "query_clauses query =
     Suc (sum_list (map query_clauses (bool_clauses (jget query ''bool'')))
          + (case Option.bind (jget query ''nested'') (\<lambda>nested. jget nested ''query'') of
               None \<Rightarrow> 0 | Some q \<Rightarrow> query_clauses q))"
  by pat_completeness auto
termination
  by (relation "measure size") (auto dest: size_bool_clauses size_nested_query)

function query_depth :: "json \<Rightarrow> nat" where
  "query_depth query =
     fold max (map (\<lambda>c. Suc (query_depth c)) (bool_clauses (jget query ''bool'')))
       (case Option.bind (jget query ''nested'') (\<lambda>nested. jget nested ''query'') of
          None \<Rightarrow> 0 | Some q \<Rightarrow> Suc (query_depth q))"
  by pat_completeness auto
termination
  by (relation "measure size") (auto dest: size_bool_clauses size_nested_query)

declare query_clauses.simps [simp del] query_depth.simps [simp del]

lemma fold_max_le: "d + fold max xs (a::nat) \<le> b \<longleftrightarrow> d + a \<le> b \<and> (\<forall>x \<in> set xs. d + x \<le> b)"
  by (induction xs arbitrary: a) auto

lemma fold_validate:
  assumes "fold_res (\<lambda>n c. validate_query c d n) k cs = Inr k'" and "k \<le> MAX_QUERY_CLAUSES"
    and "\<And>c n n'. c \<in> set cs \<Longrightarrow> validate_query c d n = Inr n' \<Longrightarrow> n \<le> MAX_QUERY_CLAUSES
      \<Longrightarrow> n' = n + query_clauses c \<and> n' \<le> MAX_QUERY_CLAUSES \<and> d + query_depth c \<le> MAX_QUERY_DEPTH"
  shows "k' = k + sum_list (map query_clauses cs) \<and> k' \<le> MAX_QUERY_CLAUSES
    \<and> (\<forall>c \<in> set cs. d + query_depth c \<le> MAX_QUERY_DEPTH)"
  using assms
proof (induction cs arbitrary: k)
  case (Cons c cs)
  then obtain n where n: "validate_query c d k = Inr n" "fold_res (\<lambda>n c. validate_query c d n) n cs = Inr k'"
    by (auto simp: result_simps)
  from Cons.prems(3) [OF _ n(1) Cons.prems(2)]
  have c: "n = k + query_clauses c" "n \<le> MAX_QUERY_CLAUSES" "d + query_depth c \<le> MAX_QUERY_DEPTH" by auto
  have "k' = n + sum_list (map query_clauses cs) \<and> k' \<le> MAX_QUERY_CLAUSES
      \<and> (\<forall>c \<in> set cs. d + query_depth c \<le> MAX_QUERY_DEPTH)"
    by (rule Cons.IH [OF n(2) c(2)]) (rule Cons.prems(3), simp_all)
  with c show ?case by auto
qed simp

lemma validate_query_bounds:
  assumes "validate_query query depth counter = Inr n" and "counter \<le> MAX_QUERY_CLAUSES"
  shows "n = counter + query_clauses query \<and> n \<le> MAX_QUERY_CLAUSES \<and> depth + query_depth query \<le> MAX_QUERY_DEPTH"
  using assms
proof (induction query depth counter arbitrary: n rule: validate_query.induct)
  case (1 query depth counter)
  let ?cs = "bool_clauses (jget query ''bool'')"
  let ?q = "Option.bind (jget query ''nested'') (\<lambda>nested. jget nested ''query'')"
  have shallow: "\<not> depth > MAX_QUERY_DEPTH" using 1(3) by (subst (asm) validate_query.simps) (auto split: if_splits)
  with 1(3) obtain object where object: "as_object query = Some object"
    by (subst (asm) validate_query.simps) (auto split: option.splits)
  have exact: "sat_add counter 1 = counter + 1"
    using 1(4) by (simp add: sat_add_def MAX_QUERY_CLAUSES_def usize_max_def)
  from 1(3) shallow object have few: "\<not> sat_add counter 1 > MAX_QUERY_CLAUSES"
    by (subst (asm) validate_query.simps) (auto simp: Let_def split: if_splits)
  from 1(3) shallow object few obtain k u where terms: "check_terms object = Inr u"
    and k: "fold_res (\<lambda>n c. validate_query c (depth + 1) n) (sat_add counter 1) ?cs = Inr k"
    and rest: "(case ?q of None \<Rightarrow> Inr k | Some q \<Rightarrow> validate_query q (depth + 1) k) = Inr n"
    by (subst (asm) validate_query.simps) (auto simp: Let_def result_simps)
  note IH1 = 1(1) [OF shallow object refl few terms] and IH2 = 1(2) [OF shallow object refl few terms k]
  have bound: "sat_add counter 1 \<le> MAX_QUERY_CLAUSES" using few by simp
  from fold_validate [OF k bound IH1]
  have cs: "k = counter + 1 + sum_list (map query_clauses ?cs)" "k \<le> MAX_QUERY_CLAUSES"
    "\<forall>c \<in> set ?cs. depth + 1 + query_depth c \<le> MAX_QUERY_DEPTH" using exact by auto
  show ?case
  proof (cases ?q)
    case None
    with rest cs shallow show ?thesis
      by (subst query_clauses.simps, subst query_depth.simps) (auto simp: fold_max_le)
  next
    case (Some q)
    with rest have "validate_query q (depth + 1) k = Inr n" by simp
    from IH2 [OF Some this cs(2)] Some cs show ?thesis
      by (subst query_clauses.simps, subst query_depth.simps) (auto simp: fold_max_le)
  qed
qed

end
