(* ===== verification/Search.thy ===== *)
theory Search
  imports Aggregations SearchLimits Validate
begin

section \<open>Searching\<close>

text \<open>
  \<open>search\<close> of \<open>src/search/evaluator.rs\<close>: the indices are expanded, every document of them is matched
  in turn, hits are kept only as far as the page needs them unless they are sorted or aggregated.
\<close>

record SearchRequest =
  sr_indices :: "string list"
  sr_body :: json
  sr_from :: nat
  sr_size :: nat
  sr_pit :: bool

definition expand_indices :: "TextOps \<Rightarrow> Database \<Rightarrow> string list \<Rightarrow> string list" where
  "expand_indices tx db requested =
     (if requested = [] \<or> ''_all'' \<in> set requested \<or> ''*'' \<in> set requested then bt_keys (db_indexes db)
      else bs_of_list (concat (map (\<lambda>r.
             if CHR ''*'' \<in> set r then filter (wildcard_ignoring_case tx r) (bt_keys (db_indexes db))
             else resolve_indices db r) requested)))"

definition search_query :: "json \<Rightarrow> json" where
  "search_query body = (case jget body ''query'' of Some q \<Rightarrow> q | None \<Rightarrow> JObj [(''match_all'', empty_object)])"

text \<open>The candidates in the order of the loops.\<close>

definition candidates :: "TextOps \<Rightarrow> Database \<Rightarrow> string list \<Rightarrow> MatchedDocument list" where
  "candidates tx db requested =
     concat (map (\<lambda>name. case bt_get (db_indexes db) name of
           None \<Rightarrow> []
         | Some im \<Rightarrow> map (\<lambda>d. \<lparr>md_index = name, md_doc = d, md_score = 1\<rparr>) (bt_values (im_documents im)))
       (expand_indices tx db requested))"

definition collect_step :: "TextOps \<Rightarrow> json \<Rightarrow> bool \<Rightarrow> nat \<Rightarrow> nat \<Rightarrow> nat \<times> MatchedDocument list \<Rightarrow> MatchedDocument
    \<Rightarrow> (string, nat \<times> MatchedDocument list) result" where
  "collect_step tx query needs_all start wanted = (\<lambda>(found, hits) hit.
     and_then (matches_query tx (md_doc hit) query) (\<lambda>matched.
       if matched then
         let found = found + 1
         in Inr (found, if needs_all \<or> (found > start \<and> length hits < wanted) then hits @ [hit] else hits)
       else Inr (found, hits)))"

definition hit_response :: "json \<Rightarrow> SortClause list \<Rightarrow> MatchedDocument \<Rightarrow> json" where
  "hit_response body cs hit =
     jobject ([(''_index'', JStr (md_index hit)), (''_id'', JStr (doc_id (md_doc hit))),
       (''_score'', JNum (Float (md_score hit))), (''_version'', jnat (doc_version (md_doc hit))),
       (''_seq_no'', jnat (doc_seq_no (md_doc hit))), (''_primary_term'', jnat (doc_primary_term (md_doc hit)))]
      @ (if jget body ''_source'' \<noteq> Some (JBool False)
         then [(''_source'', filter_source (doc_source (md_doc hit)) (jget body ''_source''))] else [])
      @ (if cs \<noteq> [] then [(''sort'', JArr (sort_values hit cs))] else []))"

text \<open>The hits of the page, the number of matches, and all hits that were kept.\<close>

definition search_hits :: "TextOps \<Rightarrow> Database \<Rightarrow> SearchRequest
    \<Rightarrow> (string, MatchedDocument list \<times> nat \<times> MatchedDocument list) result" where
  "search_hits tx db request =
     (let body = sr_body request; cs = sort_clauses (jget body ''sort'') (sr_pit request)
      in and_then (search_after_values body cs) (\<lambda>cursor.
         let needs_all = (cs \<noteq> [] \<or> sub_aggs body \<noteq> None)
         in and_then (fold_res (collect_step tx (search_query body) needs_all (sr_from request) (sr_size request))
               (0, []) (candidates tx db (sr_indices request))) (\<lambda>(found, hits).
              let hits = sort_by_clauses tx cs hits;
                  offset = (if needs_all then sr_from request else 0)
              in Inr (take (sr_size request) (drop offset
                        (filter (\<lambda>hit. hit_is_after_search_after tx hit cs cursor) hits)), found, hits))))"

definition search :: "TextOps \<Rightarrow> Database \<Rightarrow> SearchRequest \<Rightarrow> (string, json) result" where
  "search tx db request =
     (let body = sr_body request; cs = sort_clauses (jget body ''sort'') (sr_pit request)
      in and_then (search_hits tx db request) (\<lambda>(page, found, hits).
           let response =
             [(''took'', jnat 0), (''timed_out'', JBool False),
              (''_shards'', jobject [(''total'', jnat 1), (''successful'', jnat 1), (''skipped'', jnat 0), (''failed'', jnat 0)]),
              (''hits'', jobject [(''total'', total_json found), (''max_score'', max_score_json (found = 0)),
                (''hits'', JArr (map (hit_response body cs) page))])]
           in case sub_aggs body of
                None \<Rightarrow> Inr (jobject response)
              | Some aggregations \<Rightarrow>
                  and_then (evaluate_aggregations tx hits aggregations) (\<lambda>v.
                    Inr (jobject (response @ [(''aggregations'', v)])))))"

end
