(* ===== verification/SearchSpec.thy ===== *)
theory SearchSpec
  imports Search StoreInv
begin

section \<open>What a search returns\<close>

text \<open>
  The loop with its early exit equals filtering, sorting and cutting; sorting by a comparison is
  sorting when the comparison is a total preorder (the locale \<open>comparison\<close>), which that of hits is as
  long as the values of each sort clause are of one kind; and a cursor continues where a page ended.
\<close>

subsection \<open>Early exit\<close>

lemma take_drop_snoc:
  "take n (drop s (ms @ [m])) =
     (if s \<le> length ms \<and> length (take n (drop s ms)) < n then take n (drop s ms) @ [m] else take n (drop s ms))"
  by (cases "s \<le> length ms") (auto simp: min_def)

lemma collect_fold:
  assumes "hits = (if needs_all then ms else take n (drop s ms))"
  shows "fold_res (collect_step tx q needs_all s n) (length ms, hits) xs
    = and_then (matching_filter_docs tx xs q) (\<lambda>new.
        Inr (length (ms @ new), if needs_all then ms @ new else take n (drop s (ms @ new))))"
  using assms
proof (induction xs arbitrary: ms hits)
  case (Cons x xs)
  show ?case
  proof (cases "matches_query tx (md_doc x) q")
    case (Inr b)
    show ?thesis
    proof (cases b)
      case True
      have "(if needs_all \<or> length ms + 1 > s \<and> length hits < n then hits @ [x] else hits)
          = (if needs_all then ms @ [x] else take n (drop s (ms @ [x])))"
        using Cons.prems by (auto simp: take_drop_snoc less_Suc_eq_le)
      then have "fold_res (collect_step tx q needs_all s n) (length ms, hits) (x # xs)
          = fold_res (collect_step tx q needs_all s n) (length (ms @ [x]), if needs_all then ms @ [x] else take n (drop s (ms @ [x]))) xs"
        using Inr True by (simp add: collect_step_def Let_def)
      with Cons.IH [OF refl, of "ms @ [x]"] Inr True show ?thesis
        by (cases "matching_filter_docs tx xs q") simp_all
    next
      case False
      with Cons Inr show ?thesis by (cases "matching_filter_docs tx xs q") (simp_all add: collect_step_def)
    qed
  qed (simp add: collect_step_def)
qed simp

lemma collect_all:
  "fold_res (collect_step tx q needs_all s n) (0, []) xs
    = and_then (matching_filter_docs tx xs q) (\<lambda>ms. Inr (length ms, if needs_all then ms else take n (drop s ms)))"
  using collect_fold [of "[]" needs_all "[]" n s tx q xs] by (cases needs_all) simp_all

subsection \<open>Sorting\<close>

locale comparison =
  fixes cmp :: "'a \<Rightarrow> 'a \<Rightarrow> Ordering" and dom :: "'a \<Rightarrow> bool"
  assumes flip: "dom x \<Longrightarrow> dom y \<Longrightarrow> cmp y x = reverse_ordering (cmp x y)"
    and trans: "dom x \<Longrightarrow> dom y \<Longrightarrow> dom z \<Longrightarrow> cmp x y \<noteq> Greater \<Longrightarrow> cmp y z \<noteq> Greater \<Longrightarrow> cmp x z \<noteq> Greater"
begin

lemma total: "dom x \<Longrightarrow> dom y \<Longrightarrow> cmp x y = Greater \<Longrightarrow> cmp y x \<noteq> Greater"
  using flip [of x y] by simp

lemma mset_insert_by: "mset (insert_by cmp x ys) = add_mset x (mset ys)"
  by (induction ys) auto

lemma mset_sort_by: "mset (sort_by cmp xs) = mset xs"
  by (induction xs) (auto simp: sort_by_def mset_insert_by)

lemma set_sort_by: "set (sort_by cmp xs) = set xs"
  using mset_sort_by [of xs] by (rule mset_eq_setD)

lemma sorted_insert_by:
  assumes "sorted_wrt (\<lambda>x y. cmp x y \<noteq> Greater) ys" and "dom x" and "\<forall>y \<in> set ys. dom y"
  shows "sorted_wrt (\<lambda>x y. cmp x y \<noteq> Greater) (insert_by cmp x ys)"
  using assms
proof (induction ys)
  case (Cons y ys)
  show ?case
  proof (cases "cmp x y = Greater")
    case True
    have "set (insert_by cmp x ys) = insert x (set ys)"
      using mset_eq_setD [of "insert_by cmp x ys" "x # ys"] by (simp add: mset_insert_by)
    with True Cons total [of x y] show ?thesis by auto
  next
    case False
    have "\<forall>z \<in> set (y # ys). cmp x z \<noteq> Greater"
      using False Cons.prems trans [of x y] by auto
    with False Cons.prems(1) show ?thesis by simp
  qed
qed simp

lemma sorted_sort_by:
  "\<forall>x \<in> set xs. dom x \<Longrightarrow> sorted_wrt (\<lambda>x y. cmp x y \<noteq> Greater) (sort_by cmp xs)"
proof (induction xs)
  case (Cons x xs)
  then have "sorted_wrt (\<lambda>x y. cmp x y \<noteq> Greater) (sort_by cmp xs)" by simp
  from sorted_insert_by [OF this] Cons.prems show ?case by (simp add: sort_by_def set_sort_by [unfolded sort_by_def])
qed (simp add: sort_by_def)

text \<open>When no two elements are equal, what is after the \<open>k\<close>-th is the rest of the list.\<close>

lemma greater_is_rest:
  assumes "sorted_wrt (\<lambda>x y. cmp x y = Less) xs" and "\<forall>x \<in> set xs. dom x" and "k < length xs"
    and "\<And>x. x \<in> set xs \<Longrightarrow> cmp x x = Equal"
  shows "filter (\<lambda>x. cmp x (xs ! k) = Greater) xs = drop (Suc k) xs"
  using assms
proof (induction xs arbitrary: k)
  case (Cons x xs)
  show ?case
  proof (cases k)
    case 0
    have "\<forall>y \<in> set xs. cmp y x = Greater" using Cons.prems flip [of x] by auto
    with 0 Cons.prems(4) show ?thesis by (simp add: filter_True)
  next
    case (Suc j)
    with Cons.prems have "cmp x (xs ! j) = Less" by simp
    with Suc Cons show ?thesis by simp
  qed
qed simp

lemma strict_sort_by:
  assumes "\<forall>x \<in> set xs. dom x" and "distinct xs"
    and "\<And>x y. x \<in> set xs \<Longrightarrow> y \<in> set xs \<Longrightarrow> cmp x y = Equal \<Longrightarrow> x = y"
  shows "sorted_wrt (\<lambda>x y. cmp x y = Less) (sort_by cmp xs)"
proof -
  have d: "distinct (sort_by cmp xs)" using assms(2) mset_sort_by [of xs] by (metis mset_eq_imp_distinct_iff)
  have "sorted_wrt (\<lambda>x y. x \<noteq> y) (sort_by cmp xs)" using d by (simp add: distinct_conv_nth sorted_wrt_iff_nth_less)
  then have "sorted_wrt (\<lambda>x y. cmp x y \<noteq> Greater \<and> x \<noteq> y) (sort_by cmp xs)"
    using sorted_sort_by [OF assms(1)] by (simp add: sorted_wrt_iff_nth_less)
  then show ?thesis
    by (rule sorted_wrt_mono_rel [rotated]) (metis Ordering.exhaust assms(3) set_sort_by)
qed

end

lemma reverse_ordering_simps [simp]:
  "reverse_ordering x = Equal \<longleftrightarrow> x = Equal" "reverse_ordering x = Less \<longleftrightarrow> x = Greater"
  "reverse_ordering x = Greater \<longleftrightarrow> x = Less" "reverse_ordering (reverse_ordering x) = x"
  by (cases x; simp)+

lemma cmp_of_flip: "cmp_of b a = reverse_ordering (cmp_of a b)"
  by (auto simp: cmp_of_def)

lemma cmp_of_Greater [simp]: "cmp_of a b = Greater \<longleftrightarrow> b < a"
  by (auto simp: cmp_of_def)

lemma cmp_of_Equal [simp]: "cmp_of a b = Equal \<longleftrightarrow> a = b"
  by (auto simp: cmp_of_def)

lemma cmp_of_Less [simp]: "cmp_of a b = Less \<longleftrightarrow> a < b"
  by (auto simp: cmp_of_def)

text \<open>The buckets of a terms aggregation are compared by a total preorder.\<close>

interpretation buckets: comparison "compare_buckets tx" "\<lambda>_. True" for tx
  by unfold_locales (auto simp: compare_buckets_def Let_def cmp_of_def split: if_splits)

subsection \<open>Hits\<close>

text \<open>The kinds of values that are compared by one order, missing values first.\<close>

datatype value_kind = Numbers | Strings | Booleans

fun of_kind :: "value_kind \<Rightarrow> json \<Rightarrow> bool" where
  "of_kind k JNull = True"
| "of_kind Numbers (JNum n) = True"
| "of_kind Strings (JStr s) = True"
| "of_kind Booleans (JBool b) = True"
| "of_kind _ _ = False"

lemma of_kind_iff:
  "of_kind Numbers v \<longleftrightarrow> v = JNull \<or> (\<exists>n. v = JNum n)"
  "of_kind Strings v \<longleftrightarrow> v = JNull \<or> (\<exists>s. v = JStr s)"
  "of_kind Booleans v \<longleftrightarrow> v = JNull \<or> (\<exists>b. v = JBool b)"
  by (cases v; simp)+

lemma compare_kind_flip:
  assumes "of_kind k a" and "of_kind k b"
  shows "compare_sort_values tx b a = reverse_ordering (compare_sort_values tx a b)"
  using assms by (cases k) (auto simp: of_kind_iff cmp_of_def)

text \<open>Within a kind, values are compared like the numbers, strings or booleans they hold.\<close>

lemma compare_kind_trans:
  assumes "of_kind k a" and "of_kind k b" and "of_kind k c"
    and "compare_sort_values tx a b \<noteq> Greater" and "compare_sort_values tx b c \<noteq> Greater"
  shows "compare_sort_values tx a c
    = (if compare_sort_values tx a b = Equal then compare_sort_values tx b c
       else if compare_sort_values tx b c = Equal then compare_sort_values tx a b else Less)"
proof (cases k)
  case Numbers
  from assms [unfolded Numbers of_kind_iff] show ?thesis by (elim disjE exE) (auto simp: cmp_of_def split: if_splits)
next
  case Strings
  from assms [unfolded Strings of_kind_iff] show ?thesis by (elim disjE exE) (auto simp: cmp_of_def split: if_splits)
next
  case Booleans
  from assms [unfolded Booleans of_kind_iff] show ?thesis by (elim disjE exE) (auto simp: cmp_of_def split: if_splits)
qed

definition typed_hit :: "(SortClause \<times> value_kind) list \<Rightarrow> MatchedDocument \<Rightarrow> bool" where
  "typed_hit cks hit \<longleftrightarrow> list_all (\<lambda>(c, k). of_kind k (sort_value hit c)) cks"

lemma directed_simps:
  "directed c x = Equal \<longleftrightarrow> x = Equal" "directed c (reverse_ordering x) = reverse_ordering (directed c x)"
  by (cases x; simp add: directed_def)+

lemma compare_hits_flip:
  "typed_hit cks a \<Longrightarrow> typed_hit cks b
    \<Longrightarrow> compare_hits tx (map fst cks) b a = reverse_ordering (compare_hits tx (map fst cks) a b)"
proof (induction cks)
  case (Cons ck cks)
  obtain c k where ck: "ck = (c, k)" by (cases ck)
  with Cons.prems have "of_kind k (sort_value a c)" "of_kind k (sort_value b c)" by (auto simp: typed_hit_def)
  from compare_kind_flip [OF this, of tx] Cons ck show ?case
    by (simp add: Let_def directed_simps typed_hit_def)
qed simp

lemma directed_trans:
  assumes "of_kind k u" and "of_kind k v" and "of_kind k w"
    and "directed c (compare_sort_values tx u v) \<noteq> Greater" and "directed c (compare_sort_values tx v w) \<noteq> Greater"
  shows "directed c (compare_sort_values tx u w)
    = (if compare_sort_values tx u v = Equal then directed c (compare_sort_values tx v w)
       else if compare_sort_values tx v w = Equal then directed c (compare_sort_values tx u v) else Less)"
proof (cases "so_desc c")
  case True
  have "compare_sort_values tx w v \<noteq> Greater" "compare_sort_values tx v u \<noteq> Greater"
    using assms True compare_kind_flip [OF assms(2,3), of tx] compare_kind_flip [OF assms(1,2), of tx]
    by (auto simp: directed_def)
  from compare_kind_trans [OF assms(3,2,1) this] show ?thesis
    using True compare_kind_flip [OF assms(2,3), of tx] compare_kind_flip [OF assms(1,2), of tx]
      compare_kind_flip [OF assms(1,3), of tx] by (auto simp: directed_def split: if_splits)
next
  case False
  with assms compare_kind_trans [OF assms(1-3), of tx] show ?thesis by (simp add: directed_def)
qed

lemma compare_hits_trans:
  "typed_hit cks x \<Longrightarrow> typed_hit cks y \<Longrightarrow> typed_hit cks z
    \<Longrightarrow> compare_hits tx (map fst cks) x y \<noteq> Greater \<Longrightarrow> compare_hits tx (map fst cks) y z \<noteq> Greater
    \<Longrightarrow> compare_hits tx (map fst cks) x z \<noteq> Greater"
proof (induction cks)
  case (Cons ck cks)
  obtain c k where ck: "ck = (c, k)" by (cases ck)
  let ?u = "sort_value x c" and ?v = "sort_value y c" and ?w = "sort_value z c"
  from Cons.prems ck have kinds: "of_kind k ?u" "of_kind k ?v" "of_kind k ?w" by (auto simp: typed_hit_def)
  have "directed c (compare_sort_values tx ?u ?v) \<noteq> Greater" "directed c (compare_sort_values tx ?v ?w) \<noteq> Greater"
    using Cons.prems(4,5) ck by (auto simp: Let_def split: if_splits)
  note step = directed_trans [OF kinds this]
  show ?case
  proof (cases "compare_sort_values tx ?u ?v = Equal \<and> compare_sort_values tx ?v ?w = Equal")
    case True
    with step Cons ck show ?thesis by (auto simp: Let_def directed_simps typed_hit_def split: if_splits)
  next
    case False
    with step Cons.prems(4,5) ck show ?thesis by (auto simp: Let_def directed_simps split: if_splits)
  qed
qed simp

interpretation hits: comparison "compare_hits tx (map fst cks)" "typed_hit cks" for tx cks
  by unfold_locales (auto intro: compare_hits_flip dest: compare_hits_trans)

text \<open>A cursor made of the sort values of a hit compares like the hit.\<close>

lemma after_cursor_compare: "after_cursor tx hit cs (sort_values h cs) \<longleftrightarrow> compare_hits tx cs hit h = Greater"
proof (induction cs)
  case (Cons c cs)
  then show ?case
    by (cases "directed c (compare_sort_values tx (sort_value hit c) (sort_value h c))") (simp_all add: sort_values_def Let_def)
qed (simp add: sort_values_def)

lemma compare_hits_refl: "typed_hit cks h \<Longrightarrow> compare_hits tx (map fst cks) h h = Equal"
  using compare_hits_flip [of cks h h tx] by (cases "compare_hits tx (map fst cks) h h") auto

lemma compare_hits_tiebreak:
  assumes "compare_hits tx cs a b = Equal" and "c \<in> set cs" and "so_field c = ''_shard_doc''"
  shows "shard_doc a = shard_doc b"
  using assms(1,2)
proof (induction cs)
  case (Cons d cs)
  then show ?case
    using assms(3) by (auto simp: Let_def directed_simps sort_value_def split: if_splits)
qed simp

end
