(* ===== verification/SearchProperties.thy ===== *)
theory SearchProperties
  imports SearchSpec
begin

section \<open>Properties of searching\<close>

text \<open>The claims about queries, source filters, sorting and paging, with witnesses on small databases.\<close>

subsection \<open>Candidates are distinct\<close>

lemma matching_filter_docs_filter:
  "matching_filter_docs tx xs q = Inr ms \<Longrightarrow> ms = filter (\<lambda>h. matches_query tx (md_doc h) q = Inr True) xs"
  by (induction xs arbitrary: ms) (auto simp: result_simps split: if_splits)

lemma expand_indices_distinct: "db_ok db \<Longrightarrow> distinct (expand_indices tx db requested)"
proof -
  assume "db_ok db"
  then have "distinct (bt_keys (db_indexes db))" by (simp add: db_ok_def bt_keys_def bt_ok_distinct)
  moreover have "distinct (bs_of_list xs)" for xs :: "string list"
    using bs_ok_of_list [of xs] by (simp add: bs_ok_def strict_sorted_iff)
  ultimately show ?thesis by (simp add: expand_indices_def)
qed

lemma shard_doc_eq:
  assumes "shard_doc a = shard_doc b" and "CHR 0x1F \<notin> set (md_index a)" and "CHR 0x1F \<notin> set (md_index b)"
  shows "md_index a = md_index b \<and> doc_id (md_doc a) = doc_id (md_doc b)"
proof -
  have front: "takeWhile (\<lambda>k. k \<noteq> c) (xs @ c # ys) = xs" if "c \<notin> set xs" for c and xs ys :: string
    using that by (induction xs) auto
  from arg_cong [OF assms(1), of "takeWhile (\<lambda>k. k \<noteq> CHR 0x1F)"] assms(2,3) have "md_index a = md_index b"
    by (simp add: shard_doc_def front)
  with assms(1) show ?thesis by (simp add: shard_doc_def)
qed

definition plain_names :: "Database \<Rightarrow> bool" where
  "plain_names db \<longleftrightarrow> list_all (\<lambda>n. CHR 0x1F \<notin> set n) (bt_keys (db_indexes db))"

lemma candidates_of_index:
  assumes "db_ok db" and "bt_get (db_indexes db) name = Some im"
  shows "distinct (map (\<lambda>d. doc_id d) (bt_values (im_documents im)))"
proof -
  from assms have "index_ok (db_seq_no db) name im" by (auto simp: db_ok_def dest: bt_all_get)
  then have ok: "bt_ok (im_documents im)" "bt_all (doc_ok (db_seq_no db)) (im_documents im)" by (auto simp: index_ok_def)
  have "map doc_id (bt_values (im_documents im)) = map fst (im_documents im)"
    using ok(2) by (auto simp: bt_all_def list_all_iff bt_values_def doc_ok_def)
  with bt_ok_distinct [OF ok(1)] show ?thesis by simp
qed

lemma candidates_distinct:
  assumes "db_ok db" and "plain_names db"
  shows "distinct (map shard_doc (candidates tx db requested))"
proof -
  let ?of = "\<lambda>name. case bt_get (db_indexes db) name of None \<Rightarrow> []
         | Some im \<Rightarrow> map (\<lambda>d. \<lparr>md_index = name, md_doc = d, md_score = 1\<rparr>) (bt_values (im_documents im))"
  have one: "distinct (map shard_doc (?of name))" for name
    using candidates_of_index [OF assms(1), of name]
    by (auto simp: shard_doc_def comp_def distinct_map inj_on_def split: option.splits)
  have plain: "CHR 0x1F \<notin> set (md_index h) \<and> md_index h = name" if "h \<in> set (?of name)" for h name
  proof -
    from that obtain im where im: "bt_get (db_indexes db) name = Some im" "md_index h = name"
      by (cases "bt_get (db_indexes db) name") auto
    have "name \<in> set (bt_keys (db_indexes db))" using map_of_SomeD [OF im(1)] by (auto simp: bt_keys_def rev_image_eqI)
    with assms(2) im(2) show ?thesis by (simp add: plain_names_def list_all_iff)
  qed
  have "distinct (map shard_doc (concat (map ?of names)))" if "distinct names" for names
    using that
  proof (induction names)
    case (Cons name names)
    have "shard_doc a \<noteq> shard_doc b" if "a \<in> set (?of name)" "b \<in> set (?of other)" "other \<in> set names" for a b other
      using plain [OF that(1)] plain [OF that(2)] shard_doc_eq [of a b] that(3) Cons.prems by auto
    then have "set (map shard_doc (?of name)) \<inter> set (map shard_doc (concat (map ?of names))) = {}"
      unfolding set_map set_concat by blast
    moreover have "distinct (map shard_doc (concat (map ?of names)))" using Cons by simp
    ultimately have "distinct (map shard_doc (?of name) @ map shard_doc (concat (map ?of names)))"
      using one [of name] by (simp only: distinct_append)
    then show ?case by (simp only: list.map concat.simps map_append)
  qed simp
  from this [OF expand_indices_distinct [OF assms(1)]] show ?thesis by (simp add: candidates_def)
qed

subsection \<open>Demo text operations\<close>

fun demo_json_text :: "json \<Rightarrow> string" where
  "demo_json_text (JNum (PosInt n)) = show_nat n"
| "demo_json_text (JStr s) = CHR 0x22 # s @ [CHR 0x22]"
| "demo_json_text v = ''null''"

definition demo_f64_text :: "rat \<Rightarrow> string" where "demo_f64_text q = ''0''"

definition demo_parse_date :: "string \<Rightarrow> (int \<times> nat \<times> nat \<times> nat) option" where "demo_parse_date s = None"

definition demo_instant :: "int \<times> nat \<times> nat \<times> nat \<Rightarrow> (int \<times> string) option" where "demo_instant d = None"

definition demo_text :: TextOps where
  "demo_text = \<lparr>to_lower = to_ascii_lowercase, json_text = demo_json_text, f64_text = demo_f64_text,
     parse_rfc3339 = demo_parse_date, utc_instant = demo_instant\<rparr>"

subsection \<open>Queries\<close>

text \<open>C13. A boolean query means what its clauses mean: with clauses that are evaluated without error, it
  matches when all of \<open>must\<close> and \<open>filter\<close> match, none of \<open>must_not\<close> does, and as many of \<open>should\<close> as
  \<open>minimum_should_match\<close> asks for, which is one when nothing else is required.\<close>

theorem bool_query_meaning:
  fixes tx source did q
  defines "M \<equiv> \<lambda>c. matches_query_source tx source did c = Inr True"
  assumes "\<forall>c \<in> set (clauses (jget q ''must'') @ clauses (jget q ''filter'') @ clauses (jget q ''must_not'')).
      \<not> isl (matches_query_source tx source did c)"
  shows "matches_bool tx source did q = Inr
    ((\<forall>c \<in> set (clauses (jget q ''must'')). M c) \<and> (\<forall>c \<in> set (clauses (jget q ''filter'')). M c)
     \<and> \<not> (\<exists>c \<in> set (clauses (jget q ''must_not'')). M c)
     \<and> (case minimum_should_match q of
          Some k \<Rightarrow> k
        | None \<Rightarrow> if clauses (jget q ''should'') = [] \<or> clauses (jget q ''must'') \<noteq> [] \<or> clauses (jget q ''filter'') \<noteq> []
                  then 0 else 1)
       \<le> length (filter M (clauses (jget q ''should''))))"
proof -
  have all: "all_res f xs = Inr (\<forall>c \<in> set xs. f c = Inr True)" if "\<forall>c \<in> set xs. \<not> isl (f c)" for f :: "json \<Rightarrow> (string, bool) result" and xs
    using that
  proof (induction xs)
    case (Cons x xs)
    then obtain b where "f x = Inr b" by (cases "f x") auto
    with Cons show ?case by (cases b) simp_all
  qed simp
  have any: "any_res f xs = Inr (\<exists>c \<in> set xs. f c = Inr True)" if "\<forall>c \<in> set xs. \<not> isl (f c)" for f :: "json \<Rightarrow> (string, bool) result" and xs
    using that
  proof (induction xs)
    case (Cons x xs)
    then obtain b where "f x = Inr b" by (cases "f x") auto
    with Cons show ?case by (cases b) simp_all
  qed simp
  from assms(2) show ?thesis
    by (subst matches_bool.simps) (auto simp: M_def all any Let_def split: option.splits)
qed

definition demo_bool :: json where
  "demo_bool = JObj [(''must_not'', JObj [(''exists'', JObj [(''field'', JStr ''b'')])]),
     (''should'', JArr [JObj [(''term'', JObj [(''a'', JStr ''x'')])], JObj [(''term'', JObj [(''a'', JStr ''y'')])]])]"

theorem bool_query_meaning_witness:
  "matches_bool demo_text (JObj [(''a'', JStr ''x'')]) ''1'' demo_bool = Inr True
    \<and> matches_bool demo_text (JObj [(''a'', JStr ''z'')]) ''1'' demo_bool = Inr False"
proof -
  have m: "clauses (jget demo_bool ''must'') = []" "clauses (jget demo_bool ''filter'') = []"
    "clauses (jget demo_bool ''must_not'') = [JObj [(''exists'', JObj [(''field'', JStr ''b'')])]]"
    "minimum_should_match demo_bool = None"
    "clauses (jget demo_bool ''should'') = [JObj [(''term'', JObj [(''a'', JStr ''x'')])], JObj [(''term'', JObj [(''a'', JStr ''y'')])]]"
    by code_simp+
  have r: "matches_query_source demo_text (JObj [(''a'', JStr ''x'')]) ''1'' (JObj [(''exists'', JObj [(''field'', JStr ''b'')])]) = Inr False"
    "matches_query_source demo_text (JObj [(''a'', JStr ''z'')]) ''1'' (JObj [(''exists'', JObj [(''field'', JStr ''b'')])]) = Inr False"
    "matches_query_source demo_text (JObj [(''a'', JStr ''x'')]) ''1'' (JObj [(''term'', JObj [(''a'', JStr ''x'')])]) = Inr True"
    "matches_query_source demo_text (JObj [(''a'', JStr ''z'')]) ''1'' (JObj [(''term'', JObj [(''a'', JStr ''x'')])]) = Inr False"
    "matches_query_source demo_text (JObj [(''a'', JStr ''z'')]) ''1'' (JObj [(''term'', JObj [(''a'', JStr ''y'')])]) = Inr False"
    by code_simp+
  show ?thesis
    using bool_query_meaning [of demo_bool demo_text "JObj [(''a'', JStr ''x'')]" "''1''"]
      bool_query_meaning [of demo_bool demo_text "JObj [(''a'', JStr ''z'')]" "''1''"]
    by (simp add: m r)
qed

text \<open>C12. A query that passes validation is nested at most 32 deep and has at most 1024 clauses, its own
  included, so the recursion of the evaluator is bounded by what the documents promise, and the page it
  asks for lies inside the result window.\<close>

theorem validated_query_is_bounded:
  assumes "validate_request body start hits window = Inr ()" and "jget body ''query'' = Some query"
  shows "query_depth query \<le> 32 \<and> query_clauses query \<le> 1024
    \<and> (window < usize_max \<longrightarrow> start + hits \<le> window)"
proof -
  from assms obtain n where n: "validate_query query 0 0 = Inr n" and w: "sat_add start hits \<le> window"
    by (auto simp: validate_request_def result_simps not_less split: if_splits)
  from validate_query_bounds [OF n] have "query_clauses query \<le> MAX_QUERY_CLAUSES" "query_depth query \<le> MAX_QUERY_DEPTH"
    by auto
  with w show ?thesis by (auto simp: MAX_QUERY_CLAUSES_def MAX_QUERY_DEPTH_def sat_add_def min_def split: if_splits)
qed

theorem validated_query_is_bounded_witness:
  "query_depth (JObj [(''bool'', demo_bool)]) \<le> 32 \<and> query_clauses (JObj [(''bool'', demo_bool)]) \<le> 1024"
proof -
  have "validate_request (JObj [(''query'', JObj [(''bool'', demo_bool)])]) 0 10 10000 = Inr ()" by code_simp
  moreover have "jget (JObj [(''query'', JObj [(''bool'', demo_bool)])]) ''query'' = Some (JObj [(''bool'', demo_bool)])" by simp
  ultimately show ?thesis using validated_query_is_bounded [of _ 0 10 10000] by (fastforce simp: usize_max_def)
qed

primrec deep_query :: "nat \<Rightarrow> json" where
  "deep_query 0 = JObj [(''match_all'', JObj [])]"
| "deep_query (Suc n) = JObj [(''bool'', JObj [(''must'', deep_query n)])]"

text \<open>The queries inside a \<open>filters\<close> aggregation are not validated: every request that has nothing but
  such an aggregation passes, whatever the depth and the number of clauses of its query.\<close>

lemma filters_query_is_not_validated:
  "validate_request (JObj [(''aggs'', JObj [(''f'', JObj [(''filters'', JObj [(''filters'', JArr [query])])])])]) 0 0 10000 = Inr ()
    \<and> isl (validate_request (JObj [(''query'', deep_query 33)]) 0 0 10000)"
proof
  show "validate_request (JObj [(''aggs'', JObj [(''f'', JObj [(''filters'', JObj [(''filters'', JArr [query])])])])]) 0 0 10000 = Inr ()"
    by (simp add: validate_request_def sub_aggs_def validate_aggs.simps [of _ "JObj _"] validate_agg.simps
        check_aggregation_def count_of_def add_buckets_def MAX_AGGREGATION_DEPTH_def LIMIT_BUCKETS_def sat_add_def usize_max_def)
  show "isl (validate_request (JObj [(''query'', deep_query 33)]) 0 0 10000)" by code_simp
qed

subsection \<open>Source filtering\<close>

text \<open>C11. A source filter decides for every value that is not an object, by its path alone, whether it is shown: it is
  when it lies on an included path, or nothing is included, and no excluded pattern covers its path, where a segment
  \<open>*\<close> matches every segment; then it is shown unchanged, and nothing else is shown. At a covered path nothing is left,
  objects included; and without excludes every included field that the document has is shown with its value, objects
  included, however the paths overlap.\<close>

theorem source_filter_shows_what_it_includes:
  fixes source config incs excs
  defines "incs \<equiv> filter_list_at config ''includes'' ''include''"
    and "excs \<equiv> filter_list_at config ''excludes'' ''exclude''"
    and "output \<equiv> filter_source source (Some (JObj config))"
  assumes "json_ok source" and "is_object source"
  shows "(\<forall>path v. \<not> is_object v \<longrightarrow>
        (get_path output path = Some v \<longleftrightarrow>
           get_path source path = Some v
           \<and> (incs = [] \<or> (\<exists>f \<in> set incs. prefix (split_on (CHR ''.'') f) path))
           \<and> \<not> (\<exists>f \<in> set excs. covers (split_on (CHR ''.'') f) path)))
    \<and> (\<forall>f \<in> set excs. \<forall>path. covers (split_on (CHR ''.'') f) path \<longrightarrow> get_path output path = None)
    \<and> (excs = [] \<longrightarrow> (\<forall>f \<in> set incs. \<forall>v. value_at source f = Some v \<longrightarrow> value_at output f = Some v))"
proof -
  let ?kept = "if incs = [] then source else include_fields source incs"
  have out: "output = exclude_fields ?kept excs"
    by (simp add: output_def incs_def excs_def Let_def)
  have empty: "sub_doc empty_object source" "json_ok empty_object" using assms(5) by (simp_all add: sub_doc_empty)
  note included = include_fold_values [OF empty(1) assms(4) empty(2)]
  have kept: "get_path ?kept path = Some v \<longleftrightarrow>
      get_path source path = Some v \<and> (incs = [] \<or> (\<exists>f \<in> set incs. prefix (split_on (CHR ''.'') f) path))"
    if v: "\<not> is_object v" for path v
  proof
    assume k: "get_path ?kept path = Some v"
    have "sub_doc ?kept source"
      using include_fold_sub_doc [OF empty(1) assms(4) empty(2)] by (simp add: include_fields_fold sub_doc_refl)
    from sub_docD [OF this k] v have "get_path source path = Some v" by auto
    moreover have "\<exists>f \<in> set incs. prefix (split_on (CHR ''.'') f) path" if "incs \<noteq> []"
    proof -
      from k that have "get_path (fold (include_step source) incs empty_object) path = Some v"
        by (simp add: include_fields_fold)
      from include_fold_only [OF this v] v show ?thesis by (cases path) auto
    qed
    ultimately show "get_path source path = Some v \<and> (incs = [] \<or> (\<exists>f \<in> set incs. prefix (split_on (CHR ''.'') f) path))"
      by blast
  next
    assume shown: "get_path source path = Some v \<and> (incs = [] \<or> (\<exists>f \<in> set incs. prefix (split_on (CHR ''.'') f) path))"
    show "get_path ?kept path = Some v"
    proof (cases "incs = []")
      case False
      with shown obtain f q where f: "f \<in> set incs" "path = split_on (CHR ''.'') f @ q" by (auto simp: prefix_def)
      with shown obtain w where w: "value_at source f = Some w" "get_path w q = Some v"
        by (auto simp: value_at_def get_path_append split: option.splits)
      from included [OF w(1)] f(1) False have "value_at ?kept f = Some w" by (simp add: include_fields_fold)
      with f(2) w(2) show ?thesis by (simp add: value_at_def get_path_append)
    qed (use shown in simp)
  qed
  have "value_at output f = Some v" if "excs = []" "f \<in> set incs" "value_at source f = Some v" for f v
    using included [OF that(3)] that by (auto simp: out exclude_fields_def include_fields_fold)
  moreover have "get_path output path = Some v \<longleftrightarrow>
      get_path source path = Some v \<and> (incs = [] \<or> (\<exists>f \<in> set incs. prefix (split_on (CHR ''.'') f) path))
      \<and> \<not> (\<exists>f \<in> set excs. covers (split_on (CHR ''.'') f) path)" if "\<not> is_object v" for path v
    using kept [OF that, of path] exclude_fields_leaf [OF that, of ?kept excs path] unfolding out by blast
  moreover have "get_path output path = None" if "f \<in> set excs" "covers (split_on (CHR ''.'') f) path" for f path
    unfolding out by (rule exclude_fields_removes [OF that])
  ultimately show ?thesis by blast
qed

definition demo_source :: json where
  "demo_source = JObj [(''a'', JObj [(''b'', JNull), (''c'', JBool True)]), (''d'', JStr ''x'')]"

definition demo_filter :: "(string, json) btree" where
  "demo_filter = [(''excludes'', JStr ''*.b''), (''includes'', JArr [JStr ''a'', JStr ''e''])]"

theorem source_filter_shows_what_it_includes_witness:
  "get_path (filter_source demo_source (Some (JObj demo_filter))) [''a'', ''b''] = None
    \<and> get_path (filter_source demo_source (Some (JObj demo_filter))) [''a'', ''c''] = Some (JBool True)
    \<and> get_path (filter_source demo_source (Some (JObj demo_filter))) [''d''] = None"
proof -
  have "json_ok demo_source" "is_object demo_source" by code_simp+
  note filtered = source_filter_shows_what_it_includes [OF this, of demo_filter]
  have lists: "filter_list_at demo_filter ''includes'' ''include'' = [''a'', ''e'']"
    "filter_list_at demo_filter ''excludes'' ''exclude'' = [''*.b'']" by code_simp+
  have segments: "split_on (CHR ''.'') ''a'' = [''a'']" "split_on (CHR ''.'') ''e'' = [''e'']"
    "split_on (CHR ''.'') ''*.b'' = [''*'', ''b'']" by code_simp+
  have "get_path demo_source [''a'', ''c''] = Some (JBool True)" by code_simp
  moreover have "filter_source demo_source (Some (JObj demo_filter)) = JObj [(''a'', JObj [(''c'', JBool True)])]"
    by code_simp
  ultimately show ?thesis using filtered unfolding lists by (simp add: segments)
qed

subsection \<open>Pages\<close>

text \<open>Filtering, sorting, starting after the cursor and cutting, without an early exit.\<close>

definition reference_search :: "TextOps \<Rightarrow> Database \<Rightarrow> SearchRequest \<Rightarrow> (string, MatchedDocument list \<times> nat) result" where
  "reference_search tx db request =
     (let body = sr_body request; cs = sort_clauses (jget body ''sort'') (sr_pit request)
      in and_then (search_after_values body cs) (\<lambda>cursor.
         and_then (matching_filter_docs tx (candidates tx db (sr_indices request)) (search_query body)) (\<lambda>matching.
           Inr (take (sr_size request) (drop (sr_from request)
                  (filter (\<lambda>hit. hit_is_after_search_after tx hit cs cursor) (sort_by_clauses tx cs matching))),
                length matching))))"

text \<open>C10. A search that keeps only the hits its page needs returns the same page and the same number of
  matches, or the same error, as one that keeps all of them.\<close>

theorem search_equals_reference:
  "map_sum (\<lambda>e. e) (\<lambda>(page, found, hits). (page, found)) (search_hits tx db request) = reference_search tx db request"
proof -
  let ?body = "sr_body request"
  let ?cs = "sort_clauses (jget ?body ''sort'') (sr_pit request)"
  show ?thesis
  proof (cases "search_after_values ?body ?cs")
    case (Inl e)
    then show ?thesis by (simp add: search_hits_def reference_search_def Let_def)
  next
    case (Inr cursor)
    have none: "cursor = None" if "?cs = []"
      using Inr that by (auto simp: search_after_values_def split: option.splits)
    show ?thesis
    proof (cases "matching_filter_docs tx (candidates tx db (sr_indices request)) (search_query ?body)")
      case (Inl e)
      with Inr show ?thesis by (simp add: search_hits_def reference_search_def Let_def collect_all)
    next
      case found: (Inr ms)
      with Inr none show ?thesis
        by (cases "?cs = []")
          (auto simp: search_hits_def reference_search_def Let_def collect_all hit_is_after_search_after_def
            sort_by_clauses_def)
    qed
  qed
qed

text \<open>The same request after a hit: with its sort values as \<open>search_after\<close>.\<close>

fun with_cursor :: "json \<Rightarrow> json list \<Rightarrow> json" where
  "with_cursor (JObj m) vs = JObj (bt_insert ''search_after'' (JArr vs) m)"
| "with_cursor v vs = v"

definition request_after :: "SearchRequest \<Rightarrow> MatchedDocument \<Rightarrow> SearchRequest" where
  "request_after request hit =
     request\<lparr>sr_body := with_cursor (sr_body request)
       (sort_values hit (sort_clauses (jget (sr_body request) ''sort'') (sr_pit request)))\<rparr>"

text \<open>C9. Paging with \<open>search_after\<close> neither repeats nor skips a hit: when the values of every sort
  clause are of one kind and the index and id of a document break ties, the request that continues after
  the \<open>k\<close>-th hit returns the hits from the next one on.\<close>

theorem search_after_continues:
  assumes "db_ok db" and "plain_names db"
    and body: "sr_body request = JObj m" "bt_get m ''search_after'' = None" "sr_from request = 0"
    and cs: "cs = sort_clauses (jget (sr_body request) ''sort'') (sr_pit request)"
    and tie: "list_ex (\<lambda>c. so_field c = ''_shard_doc'') cs"
    and found: "search_hits tx db request = Inr (page, found, hits)"
    and typed: "length ks = length cs" "list_all (typed_hit (zip cs ks)) hits" and k: "k < length hits"
  shows "search_hits tx db (request_after request (hits ! k)) = Inr (take (sr_size request) (drop (Suc k) hits), found, hits)"
proof -
  let ?after = "request_after request (hits ! k)"
  have ne: "cs \<noteq> []" using tie by auto
  have none: "search_after_values (sr_body request) cs = Inr None"
    using body by (simp add: search_after_values_def)
  obtain ms where ms: "matching_filter_docs tx (candidates tx db (sr_indices request)) (search_query (sr_body request)) = Inr ms"
    and hits: "hits = sort_by (compare_hits tx cs) ms" "found = length ms"
    using found ne none cs [symmetric]
    by (cases "matching_filter_docs tx (candidates tx db (sr_indices request)) (search_query (sr_body request))")
      (auto simp: search_hits_def Let_def collect_all sort_by_clauses_def)
  have fst_zip: "map fst (zip cs ks) = cs" using typed(1) by simp
  have "set hits = set ms" unfolding hits(1) using hits.set_sort_by [of tx "zip cs ks" ms] by (simp add: fst_zip)
  with typed(2) have dom: "\<forall>h \<in> set ms. typed_hit (zip cs ks) h" by (simp add: list_all_iff)
  have "distinct (map shard_doc ms)"
    using candidates_distinct [OF assms(1,2)] matching_filter_docs_filter [OF ms] by (metis distinct_map_filter)
  then have dist: "x = y" if "x \<in> set ms" "y \<in> set ms" "compare_hits tx cs x y = Equal" for x y
  proof -
    from tie obtain c where "c \<in> set cs" "so_field c = ''_shard_doc''" by (auto simp: list_ex_iff)
    from compare_hits_tiebreak [OF that(3) this] have "shard_doc x = shard_doc y" .
    with \<open>distinct (map shard_doc ms)\<close> that(1,2) show "x = y" by (simp add: distinct_map inj_on_def)
  qed
  have distinct: "distinct ms" using \<open>distinct (map shard_doc ms)\<close> by (simp add: distinct_map)
  have strict: "sorted_wrt (\<lambda>x y. compare_hits tx cs x y = Less) hits"
    using hits.strict_sort_by [OF dom distinct, of tx] dist by (simp add: fst_zip hits(1))
  have refl: "compare_hits tx cs h h = Equal" if "h \<in> set hits" for h
    using that typed(2) compare_hits_refl [of "zip cs ks" h tx] by (simp add: fst_zip list_all_iff)
  have rest: "filter (\<lambda>h. after_cursor tx h cs (sort_values (hits ! k) cs)) hits = drop (Suc k) hits"
    using hits.greater_is_rest [of tx "zip cs ks" hits k] strict typed(2) k refl
    by (simp add: fst_zip list_all_iff after_cursor_compare)
  have same: "jget (sr_body ?after) x = jget (sr_body request) x" if "x \<noteq> ''search_after''" for x
    using that by (simp add: request_after_def body(1))
  have cursor: "jget (sr_body ?after) ''search_after'' = Some (JArr (sort_values (hits ! k) cs))"
    by (simp add: request_after_def body(1) cs)
  have cursor_values: "search_after_values (sr_body ?after) cs = Inr (Some (sort_values (hits ! k) cs))"
    unfolding search_after_values_def cursor using ne by (simp add: sort_values_def)
  have sort: "jget (sr_body ?after) ''sort'' = jget (sr_body request) ''sort''" by (rule same) simp
  have query: "jget (sr_body ?after) ''query'' = jget (sr_body request) ''query''" by (rule same) simp
  have rest_same: "sr_pit ?after = sr_pit request" "sr_indices ?after = sr_indices request"
    "sr_size ?after = sr_size request" "sr_from ?after = 0"
    by (simp_all add: request_after_def body(3))
  have clauses: "sort_clauses (jget (sr_body ?after) ''sort'') (sr_pit request) = cs"
    by (simp only: sort cs)
  have matching: "matching_filter_docs tx (candidates tx db (sr_indices request)) (search_query (sr_body ?after)) = Inr ms"
    by (simp only: search_query_def query ms [unfolded search_query_def])
  show ?thesis
    unfolding search_hits_def Let_def rest_same clauses cursor_values collect_all matching
    using ne rest by (simp add: hits sort_by_clauses_def hit_is_after_search_after_def)
qed

definition demo_document :: "string \<Rightarrow> json \<Rightarrow> StoredDocument" where
  "demo_document did source = \<lparr>doc_id = did, doc_source = source, doc_version = 1, doc_seq_no = 1, doc_primary_term = 1\<rparr>"

definition demo_index :: "string \<Rightarrow> (string, StoredDocument) btree \<Rightarrow> IndexMetadata" where
  "demo_index name docs = \<lparr>im_name = name, im_settings = JObj [], im_mappings = JObj [], im_aliases = [], im_documents = docs,
     im_tombstones = [], im_store_size_bytes = 0\<rparr>"

definition two_indices :: Database where
  "two_indices = \<lparr>db_indexes =
       [(''a'', demo_index ''a'' [(''1'', demo_document ''1'' (JObj [(''n'', JStr ''y'')]))]),
        (''b'', demo_index ''b'' [(''1'', demo_document ''1'' (JObj [(''n'', JStr ''x'')]))])],
     db_templates = [], db_registries = [], db_aliases = [], db_seq_no = 1\<rparr>"

definition sorted_by :: "string \<Rightarrow> SearchRequest" where
  "sorted_by field = \<lparr>sr_indices = [], sr_body = JObj [(''sort'', JArr [JStr field])], sr_from = 0, sr_size = 1, sr_pit = False\<rparr>"

definition hit_in :: "string \<Rightarrow> string \<Rightarrow> MatchedDocument" where
  "hit_in name n = \<lparr>md_index = name, md_doc = demo_document ''1'' (JObj [(''n'', JStr n)]), md_score = 1\<rparr>"

theorem search_after_continues_witness:
  "search_hits demo_text two_indices (sorted_by ''n'') = Inr ([hit_in ''b'' ''x''], 2, [hit_in ''b'' ''x'', hit_in ''a'' ''y''])
    \<and> search_hits demo_text two_indices (request_after (sorted_by ''n'') (hit_in ''b'' ''x''))
        = Inr ([hit_in ''a'' ''y''], 2, [hit_in ''b'' ''x'', hit_in ''a'' ''y''])"
proof -
  have db: "db_ok two_indices" "plain_names two_indices" by code_simp+
  have body: "sr_body (sorted_by ''n'') = JObj [(''sort'', JArr [JStr ''n''])]" "bt_get [(''sort'', JArr [JStr ''n''])] ''search_after'' = None"
    "sr_from (sorted_by ''n'') = 0" by (simp_all add: sorted_by_def)
  have cs: "[\<lparr>so_field = ''n'', so_desc = False\<rparr>, \<lparr>so_field = ''_shard_doc'', so_desc = False\<rparr>]
      = sort_clauses (jget (sr_body (sorted_by ''n'')) ''sort'') (sr_pit (sorted_by ''n''))" by code_simp
  have found: "search_hits demo_text two_indices (sorted_by ''n'')
      = Inr ([hit_in ''b'' ''x''], 2, [hit_in ''b'' ''x'', hit_in ''a'' ''y''])" by code_simp
  have "list_ex (\<lambda>c. so_field c = ''_shard_doc'')
      [\<lparr>so_field = ''n'', so_desc = False\<rparr>, \<lparr>so_field = ''_shard_doc'', so_desc = False\<rparr>]"
    "length [Strings, Strings] = length [\<lparr>so_field = ''n'', so_desc = False\<rparr>, \<lparr>so_field = ''_shard_doc'', so_desc = False\<rparr>]"
    "list_all (typed_hit (zip [\<lparr>so_field = ''n'', so_desc = False\<rparr>, \<lparr>so_field = ''_shard_doc'', so_desc = False\<rparr>] [Strings, Strings]))
      [hit_in ''b'' ''x'', hit_in ''a'' ''y'']"
    "0 < length [hit_in ''b'' ''x'', hit_in ''a'' ''y'']" "sr_size (sorted_by ''n'') = 1" by code_simp+
  with search_after_continues [OF db body cs _ found, of "[Strings, Strings]" 0] found show ?thesis by simp
qed

text \<open>Following the pages of a search: the next cursor is the last hit of the page after the present one.\<close>

inductive continues_to :: "TextOps \<Rightarrow> Database \<Rightarrow> SearchRequest \<Rightarrow> MatchedDocument \<Rightarrow> MatchedDocument \<Rightarrow> bool"
  for tx db request hit where
  continues_here: "continues_to tx db request hit hit"
| continues_page: "continues_to tx db request hit cursor
    \<Longrightarrow> search_hits tx db (request_after request cursor) = Inr (page, found, hits) \<Longrightarrow> page \<noteq> []
    \<Longrightarrow> continues_to tx db request hit (last page)"

text \<open>The order of ids under a sort clause.\<close>

definition id_follows :: "SortClause \<Rightarrow> MatchedDocument \<Rightarrow> MatchedDocument \<Rightarrow> bool" where
  "id_follows c h cursor \<longleftrightarrow>
     (if so_desc c then doc_id (md_doc h) < doc_id (md_doc cursor) else doc_id (md_doc cursor) < doc_id (md_doc h))"

lemma id_follows_trans: "id_follows c x y \<Longrightarrow> id_follows c y z \<Longrightarrow> id_follows c x z"
  by (auto simp: id_follows_def split: if_splits)

lemma after_id_cursor:
  assumes "so_field c = ''_id''"
  shows "after_cursor tx h [c] (sort_values cursor [c]) = id_follows c h cursor"
  using assms by (auto simp: sort_values_def sort_value_def directed_def cmp_of_def id_follows_def Let_def
      split: if_splits)

lemma page_by_id:
  assumes body: "sr_body request = JObj m"
    and cs: "sort_clauses (jget (sr_body request) ''sort'') (sr_pit request) = [c]" "so_field c = ''_id''"
    and first: "search_hits tx db request = Inr (page, n, hits)"
    and after: "search_hits tx db (request_after request cursor) = Inr (page', n', hits')"
  shows "n' = n \<and> hits' = hits
    \<and> page' = take (sr_size request) (drop (sr_from request) (filter (\<lambda>h. id_follows c h cursor) hits))"
proof -
  let ?after = "request_after request cursor"
  have same: "jget (sr_body ?after) x = jget (sr_body request) x" if "x \<noteq> ''search_after''" for x
    using that by (simp add: request_after_def body)
  have sort: "jget (sr_body ?after) ''sort'' = jget (sr_body request) ''sort''" by (rule same) simp
  have query: "search_query (sr_body ?after) = search_query (sr_body request)"
    unfolding search_query_def by (subst same) simp_all
  have rest: "sr_pit ?after = sr_pit request" "sr_indices ?after = sr_indices request"
    "sr_size ?after = sr_size request" "sr_from ?after = sr_from request"
    by (simp_all add: request_after_def)
  have cursor: "jget (sr_body ?after) ''search_after'' = Some (JArr (sort_values cursor [c]))"
    using cs(1) by (simp add: request_after_def body)
  have cursor_values: "search_after_values (sr_body ?after) [c] = Inr (Some (sort_values cursor [c]))"
    unfolding search_after_values_def cursor by (simp add: sort_values_def)
  from first obtain ms where
    ms: "matching_filter_docs tx (candidates tx db (sr_indices request)) (search_query (sr_body request)) = Inr ms"
    and hits: "hits = sort_by_clauses tx [c] ms" "n = length ms"
    by (cases "matching_filter_docs tx (candidates tx db (sr_indices request)) (search_query (sr_body request))";
        cases "search_after_values (sr_body request) [c]")
      (auto simp: search_hits_def Let_def collect_all cs(1))
  show ?thesis
    using after unfolding search_hits_def Let_def rest sort cs(1) query cursor_values collect_all
    by (auto simp: ms hits hit_is_after_search_after_def after_id_cursor [OF cs(2)])
qed

text \<open>C35. Sorted by \<open>_id\<close> alone there is no tie-breaker, and ids are unique in an index only. Paging then loses hits:
  once a page ends with a hit, a document of another index with the same id is on none of the pages that follow, however
  far they are followed, although the search matches and counts it each time.\<close>

theorem id_sort_loses_hits:
  assumes "sr_body request = JObj m"
    and "sort_clauses (jget (sr_body request) ''sort'') (sr_pit request) = [c]" "so_field c = ''_id''"
    and "search_hits tx db request = Inr (page, n, hits)"
    and lost: "lost \<in> set hits" "doc_id (md_doc lost) = doc_id (md_doc (last page))"
    and "continues_to tx db request (last page) cursor"
    and "search_hits tx db (request_after request cursor) = Inr (page', n', hits')"
  shows "lost \<in> set hits' \<and> lost \<notin> set page'"
proof -
  note by_id = page_by_id [OF assms(1-4)]
  have "cursor = last page \<or> id_follows c cursor (last page)"
    using assms(7)
  proof induction
    case (continues_page cursor page' found hits')
    with by_id [OF continues_page(2)] have "last page' \<in> set (filter (\<lambda>h. id_follows c h cursor) hits)"
      by (metis in_set_dropD in_set_takeD last_in_set)
    with continues_page.IH show ?case by (auto intro: id_follows_trans)
  qed simp
  moreover have "id_follows c lost cursor" if "lost \<in> set page'"
    using that by_id [OF assms(8)] by (fastforce dest!: in_set_takeD in_set_dropD)
  ultimately show ?thesis using lost by_id [OF assms(8)] by (auto simp: id_follows_def split: if_splits)
qed

theorem id_sort_loses_hits_witness:
  "search_hits demo_text two_indices (sorted_by ''_id'') = Inr ([hit_in ''a'' ''y''], 2, [hit_in ''a'' ''y'', hit_in ''b'' ''x''])
    \<and> (\<exists>page. search_hits demo_text two_indices (request_after (sorted_by ''_id'') (hit_in ''a'' ''y''))
        = Inr (page, 2, [hit_in ''a'' ''y'', hit_in ''b'' ''x'']) \<and> hit_in ''b'' ''x'' \<notin> set page)"
proof -
  have first: "search_hits demo_text two_indices (sorted_by ''_id'')
      = Inr ([hit_in ''a'' ''y''], 2, [hit_in ''a'' ''y'', hit_in ''b'' ''x''])"
    and second: "search_hits demo_text two_indices (request_after (sorted_by ''_id'') (last [hit_in ''a'' ''y'']))
      = Inr ([], 2, [hit_in ''a'' ''y'', hit_in ''b'' ''x''])" by code_simp+
  have "sr_body (sorted_by ''_id'') = JObj [(''sort'', JArr [JStr ''_id''])]" by (simp add: sorted_by_def)
  moreover have "sort_clauses (jget (sr_body (sorted_by ''_id'')) ''sort'') (sr_pit (sorted_by ''_id''))
      = [\<lparr>so_field = ''_id'', so_desc = False\<rparr>]" by code_simp
  ultimately have "hit_in ''b'' ''x'' \<notin> set ([] :: MatchedDocument list)"
    using id_sort_loses_hits [OF _ _ _ first _ _ continues_here second, of _ "\<lparr>so_field = ''_id'', so_desc = False\<rparr>" "hit_in ''b'' ''x''"]
    by (simp add: hit_in_def demo_document_def)
  with first second show ?thesis by auto
qed

text \<open>Over a field with numbers and strings the comparison of hits is not an order: numbers are compared
  as numbers, but with strings by their text, so that 10 comes before "5", "5" before 9, and 9 before 10.\<close>

lemma sort_order_has_a_cycle:
  "compare_sort_values demo_text (JNum (PosInt 10)) (JStr ''5'') = Less
    \<and> compare_sort_values demo_text (JStr ''5'') (JNum (PosInt 9)) = Less
    \<and> compare_sort_values demo_text (JNum (PosInt 9)) (JNum (PosInt 10)) = Less"
  by code_simp

subsection \<open>Wildcards\<close>

text \<open>C36. What \<open>wildcard_matches\<close> accepts is in the language of the pattern; and it accepts all of the
  language when the pattern ends with a star or has none.\<close>

theorem wildcard_matches_are_globs:
  "(wildcard_matches pattern value \<longrightarrow> glob pattern value)
    \<and> (ends_with pattern ''*'' \<or> CHR ''*'' \<notin> set pattern \<longrightarrow> wildcard_matches pattern value = glob pattern value)"
  using wildcard_sound wildcard_complete by blast

theorem wildcard_matches_are_globs_witness:
  "wildcard_matches ''lo*-20*'' ''logs-2024'' \<and> glob ''lo*-20*'' ''logs-2024''"
proof -
  have "wildcard_matches ''lo*-20*'' ''logs-2024''" by code_simp
  then show ?thesis using wildcard_matches_are_globs [of "''lo*-20*''" "''logs-2024''"] by simp
qed

text \<open>A pattern that ends with text can miss values of its language: the search from the left finds
  the first occurrence of the last piece, and what follows it must then be empty.\<close>

lemma wildcard_misses_later_occurrence:
  "glob ''*ab'' ''abab'' \<and> \<not> wildcard_matches ''*ab'' ''abab''"
  by (rule wildcard_incomplete)

end
