(* ===== verification/ApiSpec.thy ===== *)
theory ApiSpec
  imports RestPath
begin

section \<open>Classifying requests\<close>

text \<open>
  \<open>src/api_spec/mod.rs\<close>: which API a method and a path name, how well the server supports it, and
  which access it takes. The chain of tests in \<open>classify\<close> is cut into groups, each of which returns
  None when it falls through to the next. The inventory of routes is generated at build time, from a
  vendored specification, and a parameter.
\<close>

datatype http_method =
    GET | HEAD | POST | PUT | DELETE | PATCH | OPTIONS | CONNECT | TRACE | Extension string

fun method_str :: "http_method \<Rightarrow> string" where
  "method_str GET = ''GET''"
| "method_str HEAD = ''HEAD''"
| "method_str POST = ''POST''"
| "method_str PUT = ''PUT''"
| "method_str DELETE = ''DELETE''"
| "method_str PATCH = ''PATCH''"
| "method_str OPTIONS = ''OPTIONS''"
| "method_str CONNECT = ''CONNECT''"
| "method_str TRACE = ''TRACE''"
| "method_str (Extension s) = s"

datatype AccessClass = ReadAccess | WriteAccess | AdminAccess

datatype Tier = Implemented | BestEffort | Mocked | AgentRead | AgentWrite | Unsupported | OutsideIdentity

record RouteMatch =
  rm_api_name :: string
  rm_tier :: Tier
  rm_access :: AccessClass

record ApiRoute =
  ar_name :: string
  ar_tier :: Tier
  ar_access :: AccessClass
  ar_methods :: "string list"
  ar_paths :: "string list"

text \<open>The access classes in the order of the roles that have them.\<close>

instantiation AccessClass :: linorder
begin

fun access_rank :: "AccessClass \<Rightarrow> nat" where
  "access_rank ReadAccess = 0"
| "access_rank WriteAccess = 1"
| "access_rank AdminAccess = 2"

definition less_eq_AccessClass :: "AccessClass \<Rightarrow> AccessClass \<Rightarrow> bool" where
  "less_eq_AccessClass a b \<longleftrightarrow> access_rank a \<le> access_rank b"

definition less_AccessClass :: "AccessClass \<Rightarrow> AccessClass \<Rightarrow> bool" where
  "less_AccessClass a b \<longleftrightarrow> access_rank a < access_rank b"

lemma access_rank_inj: "access_rank a = access_rank b \<Longrightarrow> a = b"
  by (cases a; cases b) simp_all

instance
  by standard (auto simp: less_eq_AccessClass_def less_AccessClass_def access_rank_inj)

end

subsection \<open>Patterns over path segments\<close>

text \<open>The slice patterns of the source: a literal, \<open>_\<close>, and \<open>..\<close> at the end.\<close>

datatype seg_pattern = Lit string | AnySeg

fun seg_matches :: "seg_pattern \<Rightarrow> string \<Rightarrow> bool" where
  "seg_matches (Lit s) t = (t = s)"
| "seg_matches AnySeg t = True"

definition is_path :: "seg_pattern list \<Rightarrow> string list \<Rightarrow> bool" where
  "is_path ps segs \<longleftrightarrow> list_all2 seg_matches ps segs"

definition in_path :: "seg_pattern list \<Rightarrow> string list \<Rightarrow> bool" where
  "in_path ps segs \<longleftrightarrow> length ps \<le> length segs \<and> list_all2 seg_matches ps (take (length ps) segs)"

text \<open>\<open>["_x"] | [_, "_x"]\<close>: an API on everything or on one index.\<close>

definition index_or_all :: "string \<Rightarrow> string list \<Rightarrow> bool" where
  "index_or_all s segs \<longleftrightarrow> is_path [Lit s] segs \<or> is_path [AnySeg, Lit s] segs"

definition seg_at :: "nat \<Rightarrow> string list \<Rightarrow> string option" where
  "seg_at n segs = (if n < length segs then Some (segs ! n) else None)"

definition path_parts :: "string \<Rightarrow> string list" where
  "path_parts path = filter (\<lambda>s. s \<noteq> []) (split_on (CHR ''/'') path)"

definition route :: "string \<Rightarrow> Tier \<Rightarrow> AccessClass \<Rightarrow> RouteMatch" where
  "route api_name tier access = \<lparr>rm_api_name = api_name, rm_tier = tier, rm_access = access\<rparr>"

definition unsupported_method :: "string \<Rightarrow> http_method \<Rightarrow> RouteMatch" where
  "unsupported_method api_name meth =
     route api_name Unsupported (if meth = GET \<or> meth = HEAD then ReadAccess else WriteAccess)"

definition get_only :: "http_method \<Rightarrow> string \<Rightarrow> Tier \<Rightarrow> RouteMatch" where
  "get_only meth api_name tier =
     (if meth = GET \<or> meth = HEAD then route api_name tier ReadAccess else unsupported_method api_name meth)"

text \<open>The frequent shape of an arm: an API for some methods and no support for the others.\<close>

definition for_methods :: "http_method list \<Rightarrow> http_method \<Rightarrow> string \<Rightarrow> RouteMatch \<Rightarrow> RouteMatch" where
  "for_methods ms meth api_name r = (if meth \<in> set ms then r else unsupported_method api_name meth)"

subsection \<open>Families of paths\<close>

definition pit_family :: "string list \<Rightarrow> bool" where
  "pit_family segs \<longleftrightarrow> in_path [Lit ''_search'', Lit ''point_in_time''] segs
     \<or> in_path [AnySeg, Lit ''_search'', Lit ''point_in_time''] segs"

definition nodes_info_path :: "string list \<Rightarrow> bool" where
  "nodes_info_path segs \<longleftrightarrow> seg_at 0 segs = Some ''_nodes'' \<and> length segs \<le> 3"

definition nodes_stats_path :: "string list \<Rightarrow> bool" where
  "nodes_stats_path segs \<longleftrightarrow> seg_at 0 segs = Some ''_nodes''
     \<and> (is_path [Lit ''_nodes'', Lit ''stats''] segs \<or> is_path [Lit ''_nodes'', Lit ''stats'', AnySeg] segs
      \<or> is_path [Lit ''_nodes'', Lit ''stats'', AnySeg, AnySeg] segs \<or> is_path [Lit ''_nodes'', AnySeg, Lit ''stats''] segs
      \<or> is_path [Lit ''_nodes'', AnySeg, Lit ''stats'', AnySeg] segs
      \<or> is_path [Lit ''_nodes'', AnySeg, Lit ''stats'', AnySeg, AnySeg] segs)"

definition nodes_stats_family :: "string list \<Rightarrow> bool" where
  "nodes_stats_family segs \<longleftrightarrow> seg_at 0 segs = Some ''_nodes'' \<and> ''stats'' \<in> set (drop 1 segs)"

definition control_namespace :: "string list \<Rightarrow> bool" where
  "control_namespace segs \<longleftrightarrow> in_path [Lit ''_plugins'', Lit ''_security''] segs
     \<or> in_path [Lit ''_opendistro'', Lit ''_security''] segs \<or> in_path [Lit ''_security''] segs
     \<or> in_path [Lit ''_snapshot''] segs \<or> in_path [Lit ''_dangling''] segs \<or> in_path [Lit ''_tasks''] segs
     \<or> in_path [Lit ''_task''] segs"

definition path_matches :: "string \<Rightarrow> string \<Rightarrow> bool" where
  "path_matches pattern path \<longleftrightarrow>
     list_all2 (\<lambda>r actual. if starts_with r ''{'' \<and> ends_with r ''}''
         then actual \<noteq> [] \<and> \<not> starts_with actual ''_'' else r = actual)
       (path_parts pattern) (path_parts path)"

subsection \<open>Snapshots and points in time\<close>

definition classify_snapshot :: "http_method \<Rightarrow> string list \<Rightarrow> RouteMatch" where
  "classify_snapshot meth segs =
     (let implemented = (\<lambda>name. route name Implemented AdminAccess); unsup = (\<lambda>name. route name Unsupported AdminAccess);
          S = Lit ''_snapshot''
      in if ''_status'' \<in> set (drop 1 segs) then unsup ''snapshot.status''
         else if is_path [S] segs then
           (if meth = GET then implemented ''snapshot.get_repository'' else unsup ''snapshot.get_repository'')
         else if is_path [S, AnySeg] segs then
           (if meth = GET then implemented ''snapshot.get_repository''
            else if meth = PUT \<or> meth = POST then implemented ''snapshot.create_repository''
            else if meth = DELETE then implemented ''snapshot.delete_repository''
            else unsup ''snapshot.get_repository'')
         else if is_path [S, AnySeg, Lit ''_verify''] segs then
           (if meth = POST then implemented ''snapshot.verify_repository'' else unsup ''snapshot.verify_repository'')
         else if is_path [S, AnySeg, Lit ''_cleanup''] segs then
           (if meth = POST then implemented ''snapshot.cleanup_repository'' else unsup ''snapshot.cleanup_repository'')
         else if is_path [S, AnySeg, Lit ''_restore''] segs then unsup ''snapshot.restore''
         else if is_path [S, AnySeg, Lit ''_clone''] segs then unsup ''snapshot.clone''
         else if is_path [S, AnySeg, AnySeg, Lit ''_restore''] segs then
           (if meth = POST then implemented ''snapshot.restore'' else unsup ''snapshot.restore'')
         else if in_path [S, AnySeg, AnySeg, Lit ''_clone''] segs then unsup ''snapshot.clone''
         else if is_path [S, AnySeg, AnySeg] segs then
           (if meth = GET then implemented ''snapshot.get''
            else if meth = PUT \<or> meth = POST then implemented ''snapshot.create''
            else if meth = DELETE then implemented ''snapshot.delete''
            else unsup ''snapshot.get'')
         else unsup ''snapshot'')"

definition classify_pit :: "http_method \<Rightarrow> string list \<Rightarrow> RouteMatch" where
  "classify_pit meth segs =
     (let implemented = (\<lambda>name. route name Implemented ReadAccess); unsup = (\<lambda>name. route name Unsupported ReadAccess)
      in if is_path [AnySeg, Lit ''_search'', Lit ''point_in_time''] segs then
           (if meth = POST then implemented ''create_pit'' else unsup ''create_pit'')
         else if is_path [Lit ''_search'', Lit ''point_in_time''] segs then
           (if meth = DELETE then implemented ''delete_pit'' else unsup ''delete_pit'')
         else if is_path [Lit ''_search'', Lit ''point_in_time'', Lit ''_all''] segs then
           (if meth = GET then implemented ''get_all_pits''
            else if meth = DELETE then implemented ''delete_all_pits'' else unsup ''get_all_pits'')
         else if in_path [AnySeg, Lit ''_search'', Lit ''point_in_time''] segs then unsup ''create_pit''
         else if in_path [Lit ''_search'', Lit ''point_in_time''] segs then unsup ''get_all_pits''
         else unsup ''point_in_time'')"

subsection \<open>The groups of tests\<close>

text \<open>Tasks, snapshots, points in time, and the namespaces that control the server.\<close>

definition classify_control :: "http_method \<Rightarrow> string list \<Rightarrow> RouteMatch option" where
  "classify_control meth segs =
     (if is_path [Lit ''_tasks''] segs then Some (route ''security_or_control'' Unsupported AdminAccess)
      else if is_path [Lit ''_tasks'', AnySeg] segs then
        Some (if meth = GET then route ''tasks.get'' Implemented ReadAccess else route ''tasks.get'' Unsupported AdminAccess)
      else if seg_at 0 segs = Some ''_snapshot'' then Some (classify_snapshot meth segs)
      else if pit_family segs then Some (classify_pit meth segs)
      else if is_path [Lit ''_plugins'', Lit ''_security'', Lit ''api'', Lit ''account''] segs then
        Some (if meth = GET then route ''security.account'' Mocked ReadAccess else route ''security.account'' Unsupported AdminAccess)
      else if control_namespace segs then Some (route ''security_or_control'' Unsupported AdminAccess)
      else if is_path [Lit ''_plugins'', Lit ''_query'', Lit ''_datasources''] segs then
        Some (if meth = GET then route ''query.datasources'' Mocked ReadAccess else route ''query.datasources'' Unsupported WriteAccess)
      else if in_path [Lit ''_plugins'', Lit ''_query'', Lit ''_datasources''] segs then
        Some (unsupported_method ''query.datasources'' meth)
      else None)"

definition classify_scroll :: "http_method \<Rightarrow> RouteMatch" where
  "classify_scroll meth =
     (if meth = GET \<or> meth = POST then route ''scroll'' Implemented ReadAccess
      else if meth = DELETE then route ''clear_scroll'' Implemented ReadAccess
      else unsupported_method ''scroll'' meth)"

text \<open>Reindexing, scrolls, the cluster and its nodes. \<open>path\<close> is compared as it was sent.\<close>

definition classify_cluster :: "http_method \<Rightarrow> string \<Rightarrow> string list \<Rightarrow> RouteMatch option" where
  "classify_cluster meth path segs =
     (if path = ''/_reindex'' then Some (for_methods [POST] meth ''reindex'' (route ''reindex'' Implemented WriteAccess))
      else if path = ''/_search/scroll'' \<or> path = ''/_scroll'' then Some (classify_scroll meth)
      else if is_path [Lit ''_search'', Lit ''scroll'', AnySeg] segs \<or> is_path [Lit ''_scroll'', AnySeg] segs then
        Some (classify_scroll meth)
      else if path = ''/_cluster/health'' then Some (get_only meth ''cluster.health'' BestEffort)
      else if nodes_stats_path segs then Some (get_only meth ''nodes.stats'' BestEffort)
      else if nodes_stats_family segs then Some (unsupported_method ''nodes.stats'' meth)
      else if nodes_info_path segs then Some (get_only meth ''nodes.info'' BestEffort)
      else if seg_at 0 segs = Some ''_nodes'' then Some (unsupported_method ''nodes.info'' meth)
      else if path = ''/_cluster/settings'' then
        Some (if meth = GET \<or> meth = HEAD then route ''cluster.get_settings'' BestEffort ReadAccess
              else if meth = PUT then route ''cluster.put_settings'' Mocked AdminAccess
              else unsupported_method ''cluster.get_settings'' meth)
      else if path = ''/_cluster/stats'' then Some (get_only meth ''cluster.stats'' Implemented)
      else None)"

definition classify_read_apis :: "http_method \<Rightarrow> string \<Rightarrow> string list \<Rightarrow> RouteMatch option" where
  "classify_read_apis meth path segs =
     (let at0 = (\<lambda>s. seg_at 0 segs = Some s); at1 = (\<lambda>s. seg_at 1 segs = Some s);
          both = (\<lambda>s. index_or_all s segs);
          read = (\<lambda>ms name. Some (for_methods ms meth name (route name Implemented ReadAccess)))
      in if is_path [Lit ''_resolve'', Lit ''index'', AnySeg] segs then read [GET] ''indices.resolve_index''
         else if at0 ''_resolve'' then Some (unsupported_method ''indices.resolve_index'' meth)
         else if both ''_analyze'' then read [GET, POST] ''indices.analyze''
         else if at0 ''_analyze'' \<or> at1 ''_analyze'' then Some (unsupported_method ''indices.analyze'' meth)
         else if is_path [Lit ''_validate'', Lit ''query''] segs \<or> is_path [AnySeg, Lit ''_validate'', Lit ''query''] segs then
           read [GET, POST] ''indices.validate_query''
         else if at0 ''_validate'' \<or> at1 ''_validate'' then Some (unsupported_method ''indices.validate_query'' meth)
         else if starts_with path ''/_cat/'' then
           Some (if at1 ''plugins'' then get_only meth ''cat.plugins'' Implemented
                 else if at1 ''templates'' then get_only meth ''cat.templates'' Implemented
                 else get_only meth (if at1 ''indices'' then ''cat.indices'' else ''cat'') BestEffort)
         else if both ''_field_caps'' then read [GET, POST] ''field_caps''
         else if at0 ''_field_caps'' \<or> at1 ''_field_caps'' then Some (unsupported_method ''field_caps'' meth)
         else None)"

definition classify_bulk_and_search :: "http_method \<Rightarrow> string list \<Rightarrow> RouteMatch option" where
  "classify_bulk_and_search meth segs =
     (let at0 = (\<lambda>s. seg_at 0 segs = Some s); at1 = (\<lambda>s. seg_at 1 segs = Some s);
          both = (\<lambda>s. index_or_all s segs)
      in if both ''_bulk'' then Some (for_methods [POST, PUT] meth ''bulk'' (route ''bulk'' Implemented WriteAccess))
         else if at0 ''_bulk'' \<or> at1 ''_bulk'' then Some (unsupported_method ''bulk'' meth)
         else if length segs = 3 \<and> at1 ''_source'' then
           Some (for_methods [GET, HEAD] meth ''get_source''
                   (route (if meth = HEAD then ''exists_source'' else ''get_source'') Implemented ReadAccess))
         else if both ''_search'' then Some (for_methods [GET, POST] meth ''search'' (route ''search'' Implemented ReadAccess))
         else if at1 ''_search'' then Some (unsupported_method ''search'' meth)
         else None)"

definition classify_by_query :: "http_method \<Rightarrow> string \<Rightarrow> string \<Rightarrow> string \<Rightarrow> string list \<Rightarrow> RouteMatch option" where
  "classify_by_query meth seg name rethrottle segs =
     (if is_path [Lit seg, AnySeg, Lit ''_rethrottle''] segs then
        Some (for_methods [POST] meth rethrottle (route rethrottle Mocked WriteAccess))
      else if is_path [Lit seg] segs then Some (unsupported_method name meth)
      else if is_path [AnySeg, Lit seg] segs then Some (for_methods [POST] meth name (route name Implemented WriteAccess))
      else if seg_at 0 segs = Some seg \<or> seg_at 1 segs = Some seg then Some (unsupported_method name meth)
      else None)"

definition classify_counts :: "http_method \<Rightarrow> string list \<Rightarrow> RouteMatch option" where
  "classify_counts meth segs =
     (let at0 = (\<lambda>s. seg_at 0 segs = Some s); at1 = (\<lambda>s. seg_at 1 segs = Some s);
          both = (\<lambda>s. index_or_all s segs);
          read = (\<lambda>ms name. Some (for_methods ms meth name (route name Implemented ReadAccess)))
      in if both ''_count'' then read [GET, POST] ''count''
         else if at0 ''_count'' \<or> at1 ''_count'' then Some (unsupported_method ''count'' meth)
         else if both ''_mget'' then read [GET, POST] ''mget''
         else if at0 ''_mget'' \<or> at1 ''_mget'' then Some (unsupported_method ''mget'' meth)
         else if both ''_msearch'' then read [GET, POST] ''msearch''
         else if at0 ''_msearch'' \<or> at1 ''_msearch'' then Some (unsupported_method ''msearch'' meth)
         else if at0 ''_stats'' then
           (if length segs > 2 then Some (unsupported_method ''indices.stats'' meth) else read [GET] ''indices.stats'')
         else if at1 ''_stats'' then
           (if length segs > 3 then Some (unsupported_method ''indices.stats'' meth) else read [GET] ''indices.stats'')
         else if both ''_refresh'' then
           Some (for_methods [GET, POST] meth ''indices.refresh'' (route ''indices.refresh'' Implemented WriteAccess))
         else if at0 ''_refresh'' \<or> at1 ''_refresh'' then Some (unsupported_method ''indices.refresh'' meth)
         else None)"

text \<open>Mappings and settings: read with GET, written with PUT.\<close>

definition get_or_put :: "http_method \<Rightarrow> string \<Rightarrow> string \<Rightarrow> RouteMatch" where
  "get_or_put meth get_name put_name =
     (if meth = PUT then route put_name Implemented WriteAccess
      else if meth = GET then route get_name Implemented ReadAccess
      else unsupported_method get_name meth)"

definition classify_index_meta :: "http_method \<Rightarrow> string list \<Rightarrow> RouteMatch option" where
  "classify_index_meta meth segs =
     (let at = (\<lambda>n s. seg_at n segs = Some s); both = (\<lambda>s. index_or_all s segs);
          field = (\<lambda>n. if length segs \<noteq> n then unsupported_method ''indices.get_field_mapping'' meth
             else for_methods [GET] meth ''indices.get_field_mapping'' (route ''indices.get_field_mapping'' Implemented ReadAccess))
      in if at 0 ''_mapping'' \<and> at 1 ''field'' then Some (field 3)
         else if at 1 ''_mapping'' \<and> at 2 ''field'' then Some (field 4)
         else if both ''_mapping'' then Some (get_or_put meth ''indices.get_mapping'' ''indices.put_mapping'')
         else if at 0 ''_mapping'' \<or> at 1 ''_mapping'' then Some (unsupported_method ''indices.get_mapping'' meth)
         else if both ''_settings'' then Some (get_or_put meth ''indices.get_settings'' ''indices.put_settings'')
         else if at 0 ''_settings'' \<or> at 1 ''_settings'' then Some (unsupported_method ''indices.get_settings'' meth)
         else None)"

text \<open>The three kinds of templates, of which the oldest is stored by the agent.\<close>

definition classify_templates :: "http_method \<Rightarrow> string list \<Rightarrow> RouteMatch option" where
  "classify_templates meth segs =
     (let n = length segs; at0 = (\<lambda>s. seg_at 0 segs = Some s)
      in if at0 ''_index_template'' then
           Some (if meth = GET \<and> n \<le> 2 then route ''indices.get_index_template'' Implemented ReadAccess
                 else if meth = HEAD \<and> n = 2 then route ''indices.exists_index_template'' Implemented ReadAccess
                 else if meth = PUT \<and> n = 2 then route ''indices.put_index_template'' Implemented WriteAccess
                 else if meth = DELETE \<and> n = 2 then route ''indices.delete_index_template'' Implemented WriteAccess
                 else unsupported_method ''indices.put_index_template'' meth)
         else if at0 ''_component_template'' then
           Some (if meth = GET \<and> n \<le> 2 then route ''cluster.get_component_template'' Implemented ReadAccess
                 else if meth = HEAD \<and> n = 2 then route ''cluster.exists_component_template'' Implemented ReadAccess
                 else if meth = PUT \<and> n = 2 then route ''cluster.put_component_template'' Implemented AdminAccess
                 else if meth = DELETE \<and> n = 2 then route ''cluster.delete_component_template'' Implemented AdminAccess
                 else unsupported_method ''cluster.get_component_template'' meth)
         else if at0 ''_template'' then
           Some (if meth = PUT \<and> n = 2 then route ''indices.put_template'' AgentWrite WriteAccess
                 else if meth = GET \<and> n \<le> 2 then route ''indices.get_template'' Implemented ReadAccess
                 else if meth = HEAD \<and> n = 2 then route ''indices.exists_template'' Implemented ReadAccess
                 else if meth = DELETE \<and> n = 2 then route ''indices.delete_template'' Implemented WriteAccess
                 else unsupported_method ''indices.delete_template'' meth)
         else None)"

definition classify_pipeline :: "http_method \<Rightarrow> nat \<Rightarrow> string \<Rightarrow> string \<Rightarrow> string \<Rightarrow> RouteMatch" where
  "classify_pipeline meth n get_name put_name delete_name =
     (if meth = GET \<and> n \<le> 3 then route get_name Implemented ReadAccess
      else if meth = PUT \<and> n = 3 then route put_name Implemented WriteAccess
      else if meth = DELETE \<and> n = 3 then route delete_name Implemented WriteAccess
      else unsupported_method get_name meth)"

definition classify_pipelines :: "http_method \<Rightarrow> string list \<Rightarrow> RouteMatch option" where
  "classify_pipelines meth segs =
     (let n = length segs; at = (\<lambda>n s. seg_at n segs = Some s)
      in if at 0 ''_ingest'' \<and> at 1 ''pipeline'' then
           Some (classify_pipeline meth n ''ingest.get_pipeline'' ''ingest.put_pipeline'' ''ingest.delete_pipeline'')
         else if at 0 ''_search'' \<and> at 1 ''pipeline'' then
           Some (classify_pipeline meth n ''search_pipeline.get'' ''search_pipeline.put'' ''search_pipeline.delete'')
         else if is_path [Lit ''_scripts'', Lit ''painless'', Lit ''_execute''] segs then
           Some (unsupported_method ''scripts_painless_execute'' meth)
         else if at 0 ''_scripts'' then
           Some (if meth = GET \<and> n = 2 then route ''get_script'' Implemented ReadAccess
                 else if (meth = PUT \<or> meth = POST) \<and> (n = 2 \<or> n = 3) then route ''put_script'' Implemented WriteAccess
                 else if meth = DELETE \<and> n = 2 then route ''delete_script'' Implemented WriteAccess
                 else unsupported_method ''get_script'' meth)
         else None)"

definition classify_aliases :: "http_method \<Rightarrow> string list \<Rightarrow> RouteMatch option" where
  "classify_aliases meth segs =
     (let implemented = (\<lambda>name access. Some (route name Implemented access));
          one = (\<lambda>s. is_path [AnySeg, Lit s] segs); named = (\<lambda>s. is_path [AnySeg, Lit s, AnySeg] segs);
          at = (\<lambda>n s. seg_at n segs = Some s)
      in if is_path [Lit ''_alias''] segs \<or> is_path [Lit ''_aliases''] segs then
           (if meth = GET then implemented ''indices.get_alias'' ReadAccess
            else if meth = POST then implemented ''indices.update_aliases'' WriteAccess
            else Some (unsupported_method ''indices.get_alias'' meth))
         else if is_path [Lit ''_alias'', AnySeg] segs then
           (if meth = GET then implemented ''indices.get_alias'' ReadAccess
            else if meth = HEAD then implemented ''indices.exists_alias'' ReadAccess
            else Some (unsupported_method ''indices.get_alias'' meth))
         else if one ''_alias'' \<or> one ''_aliases'' \<or> named ''_alias'' \<or> named ''_aliases'' then
           (if meth = PUT \<and> named ''_alias'' then implemented ''indices.put_alias'' WriteAccess
            else if meth = GET then implemented ''indices.get_alias'' ReadAccess
            else if meth = HEAD \<and> (named ''_alias'' \<or> named ''_aliases'') then implemented ''indices.exists_alias'' ReadAccess
            else if meth = DELETE \<and> named ''_alias'' then implemented ''indices.delete_alias'' WriteAccess
            else Some (unsupported_method ''indices.put_alias'' meth))
         else if at 0 ''_alias'' \<or> at 0 ''_aliases'' \<or> at 1 ''_alias'' \<or> at 1 ''_aliases'' then
           Some (unsupported_method ''indices.put_alias'' meth)
         else None)"

text \<open>Documents, \<open>_explain\<close>, and paths of one segment that does not begin with an underscore.\<close>

definition read_or_write :: "http_method \<Rightarrow> AccessClass" where
  "read_or_write meth = (if meth = GET \<or> meth = HEAD then ReadAccess else WriteAccess)"

definition classify_documents :: "http_method \<Rightarrow> string list \<Rightarrow> RouteMatch option" where
  "classify_documents meth segs =
     (let two = (\<lambda>s. is_path [AnySeg, Lit s] segs); three = (\<lambda>s. is_path [AnySeg, Lit s, AnySeg] segs)
      in if length segs \<ge> 2 \<and> segs ! 1 \<in> {''_doc'', ''_create'', ''_update''} then
           (let api_name = (if segs ! 1 = ''_update'' then ''update'' else if segs ! 1 = ''_create'' then ''create'' else ''index'');
                implemented =
                  (if two ''_doc'' then meth = POST
                   else if three ''_doc'' then meth \<in> {PUT, POST, GET, HEAD, DELETE}
                   else if three ''_create'' then meth \<in> {PUT, POST}
                   else if three ''_update'' then meth = POST
                   else False)
            in Some (if implemented then route api_name Implemented (read_or_write meth) else unsupported_method api_name meth))
         else if three ''_explain'' then
           Some (for_methods [GET, POST] meth ''explain'' (route ''explain'' Implemented ReadAccess))
         else if length segs = 1 \<and> \<not> starts_with (segs ! 0) ''_'' then
           Some (if meth = PUT then route ''indices.create'' Implemented WriteAccess
                 else if meth = DELETE then route ''indices.delete'' Implemented WriteAccess
                 else if meth = GET then route ''indices.get'' Implemented ReadAccess
                 else if meth = HEAD then route ''indices.exists'' Implemented ReadAccess
                 else unsupported_method ''indices'' meth)
         else None)"

text \<open>The inventory: the first route with the method and the path, else the first with the path.\<close>

definition classify_inventory :: "ApiRoute list \<Rightarrow> http_method \<Rightarrow> string \<Rightarrow> RouteMatch" where
  "classify_inventory inventory meth path =
     (let has_path = (\<lambda>r. list_ex (\<lambda>p. path_matches p path) (ar_paths r))
      in case find (\<lambda>r. method_str meth \<in> set (ar_methods r) \<and> has_path r) inventory of
           Some r \<Rightarrow> route (ar_name r) (ar_tier r) (ar_access r)
         | None \<Rightarrow>
             (case find has_path inventory of
                Some r \<Rightarrow> unsupported_method (ar_name r) meth
              | None \<Rightarrow> if meth = GET then route ''agent.read'' AgentRead ReadAccess else unsupported_method ''unsupported'' meth))"

fun first_some :: "'a option list \<Rightarrow> 'a \<Rightarrow> 'a" where
  "first_some [] d = d"
| "first_some (None # xs) d = first_some xs d"
| "first_some (Some x # xs) d = x"

definition classify_groups :: "http_method \<Rightarrow> string \<Rightarrow> string list \<Rightarrow> RouteMatch option list" where
  "classify_groups meth path segs =
     [classify_control meth segs, classify_cluster meth path segs, classify_read_apis meth path segs,
      classify_bulk_and_search meth segs,
      classify_by_query meth ''_delete_by_query'' ''delete_by_query'' ''delete_by_query_rethrottle'' segs,
      classify_by_query meth ''_update_by_query'' ''update_by_query'' ''update_by_query_rethrottle'' segs,
      classify_counts meth segs, classify_index_meta meth segs, classify_templates meth segs,
      classify_pipelines meth segs, classify_aliases meth segs, classify_documents meth segs]"

definition classify :: "ApiRoute list \<Rightarrow> http_method \<Rightarrow> string \<Rightarrow> RouteMatch" where
  "classify inventory meth sent =
     (let path = trim_end_char (CHR ''/'') sent; segs = map decode_path_param (path_parts path)
      in if path = [] \<or> path = ''/'' then
           (if meth = GET \<or> meth = HEAD then route ''info'' Implemented ReadAccess else unsupported_method ''info'' meth)
         else first_some (classify_groups meth path segs) (classify_inventory inventory meth path))"

end
