(* ===== verification/Security.thy ===== *)
theory Security
  imports ApiSpec
begin

section \<open>Roles and authorization\<close>

text \<open>
  \<open>src/security/context.rs\<close> and \<open>src/security/authz.rs\<close>: the roles of a principal, what a security
  context permits, and the check of a classified request.
\<close>

datatype SecurityMode = DisabledLoopback | InsecureNonLoopback | Secured

datatype Role = Admin | ReadWrite | ReadOnly

record Principal =
  pr_username :: string
  pr_roles :: "Role list"

record SecurityContext =
  sc_mode :: SecurityMode
  sc_principal :: "Principal option"
  sc_client_cert_verified :: bool

definition has_role :: "Principal \<Rightarrow> Role \<Rightarrow> bool" where
  "has_role p r \<longleftrightarrow> r \<in> set (pr_roles p)"

definition allows_all :: "SecurityContext \<Rightarrow> bool" where
  "allows_all sc \<longleftrightarrow> sc_mode sc = DisabledLoopback \<or> sc_mode sc = InsecureNonLoopback"

definition is_admin :: "SecurityContext \<Rightarrow> bool" where
  "is_admin sc = (case sc_principal sc of Some p \<Rightarrow> has_role p Admin | None \<Rightarrow> False)"

definition can_write :: "SecurityContext \<Rightarrow> bool" where
  "can_write sc = (case sc_principal sc of Some p \<Rightarrow> has_role p Admin \<or> has_role p ReadWrite | None \<Rightarrow> False)"

definition can_read :: "SecurityContext \<Rightarrow> bool" where
  "can_read sc \<longleftrightarrow> allows_all sc
     \<or> (case sc_principal sc of Some p \<Rightarrow> has_role p Admin \<or> has_role p ReadWrite \<or> has_role p ReadOnly | None \<Rightarrow> False)"

text \<open>An error response: status, type and reason; the hint for the user is left out.\<close>

record ApiError =
  ae_status :: nat
  ae_type :: string
  ae_reason :: string

definition api_error :: "nat \<Rightarrow> string \<Rightarrow> string \<Rightarrow> ApiError" where
  "api_error status error_type reason = \<lparr>ae_status = status, ae_type = error_type, ae_reason = reason\<rparr>"

definition unsupported_api :: "string \<Rightarrow> ApiError" where
  "unsupported_api api_name = api_error 501 ''mainstack_search_unsupported_api_exception''
     (''mainstack-search does not implement ['' @ api_name @ ''] yet'')"

fun access_str :: "AccessClass \<Rightarrow> string" where
  "access_str ReadAccess = ''read''"
| "access_str WriteAccess = ''write''"
| "access_str AdminAccess = ''admin''"

definition control_like_path :: "string \<Rightarrow> bool" where
  "control_like_path path =
     (let segs = map decode_path_param (path_parts path)
      in in_path [Lit ''_plugins'', Lit ''_security''] segs \<or> in_path [Lit ''_opendistro'', Lit ''_security''] segs
         \<or> in_path [Lit ''_security''] segs \<or> in_path [Lit ''_snapshot''] segs \<or> in_path [Lit ''_tasks''] segs
         \<or> in_path [Lit ''_task''] segs)"

fun permitted :: "SecurityContext \<Rightarrow> AccessClass \<Rightarrow> bool" where
  "permitted sc ReadAccess = can_read sc"
| "permitted sc WriteAccess = can_write sc"
| "permitted sc AdminAccess = is_admin sc"

definition authorize :: "SecurityContext \<Rightarrow> string \<Rightarrow> RouteMatch \<Rightarrow> (ApiError, unit) result" where
  "authorize sc path r =
     (if allows_all sc then Inr ()
      else if rm_tier r = AgentRead \<and> control_like_path path then Inl (unsupported_api (rm_api_name r))
      else if permitted sc (rm_access r) then Inr ()
      else Inl (api_error 403 ''mainstack_search_authorization_exception''
        (''role does not permit ['' @ access_str (rm_access r) @ ''] access to ['' @ rm_api_name r @ '']'')))"

text \<open>The roles are ordered like the access classes.\<close>

lemma permitted_mono: "a \<le> b \<Longrightarrow> permitted sc b \<Longrightarrow> permitted sc a"
  by (cases a; cases b)
    (auto simp: less_eq_AccessClass_def can_read_def can_write_def is_admin_def split: option.splits)

lemma authorize_ok:
  assumes "authorize sc path r = Inr ()"
  shows "allows_all sc \<or> permitted sc (rm_access r)"
  using assms by (auto simp: authorize_def split: if_splits)

end
