(* ===== verification/Dispatch.thy ===== *)
theory Dispatch
  imports Security
begin

section \<open>Dispatching requests\<close>

text \<open>
  \<open>handle_request\<close>, \<open>handle_classified_request\<close> and \<open>handle_implemented\<close> of \<open>src/api/mod.rs\<close>: the
  handler a request reaches. A handler is a value that carries its arguments; what it does to the
  store by its method is \<open>handler_writes\<close>. Unlike \<open>classify\<close>, the dispatch looks at the path as it
  was sent: segments are not percent-decoded and a slash at the end is not removed before the
  comparisons with whole paths.
\<close>

datatype Handler =
    RootInfo
  | TaskGet string
  | Reindex
  | ClearScroll "string option"
  | Scroll "string option"
  | Pit "string list"
  | Snapshot "string list"
  | Bulk "string option"
  | SourceOf string string
  | Search "string option"
  | DeleteByQuery "string option"
  | UpdateByQuery "string option"
  | Count "string option"
  | Mget "string option"
  | Msearch "string option"
  | FieldCaps "string option"
  | ClusterStats
  | ResolveIndex string
  | Analyze
  | ValidateQuery "string option"
  | CatNothing
  | IndexStats "string list"
  | Refresh "string option"
  | FieldMapping "string list"
  | MappingH "string option"
  | SettingsH "string option"
  | TemplateH "string option"
  | ComponentTemplate "string option"
  | LegacyTemplate "string option"
  | RegistryNamespace string "string option" string
  | ScriptRegistry string
  | AliasH "string list"
  | Explain string string
  | DocumentH "string list"
  | IndexH string
  | NoHandler string
  | BestEffortH string
  | MockedH string
  | AgentReadH string
  | AgentWriteH string
  | Refused ApiError

definition pit_path :: "string list \<Rightarrow> bool" where
  "pit_path parts \<longleftrightarrow> in_path [Lit ''_search'', Lit ''point_in_time''] parts
     \<or> in_path [AnySeg, Lit ''_search'', Lit ''point_in_time''] parts"

definition handle_scroll_path :: "http_method \<Rightarrow> string option \<Rightarrow> Handler" where
  "handle_scroll_path meth scroll_id = (if meth = DELETE then ClearScroll scroll_id else Scroll scroll_id)"

text \<open>The chain of tests, cut into three: what is found first, the data APIs, and the rest.\<close>

definition handle_control :: "http_method \<Rightarrow> string \<Rightarrow> string list \<Rightarrow> Handler option" where
  "handle_control meth path parts =
     (if path = ''/'' then Some RootInfo
      else if seg_at 0 parts = Some ''_tasks'' \<and> length parts = 2 then Some (TaskGet (decode_path_param (parts ! 1)))
      else if path = ''/_reindex'' then Some Reindex
      else if path = ''/_search/scroll'' \<or> path = ''/_scroll'' then Some (handle_scroll_path meth None)
      else if is_path [Lit ''_search'', Lit ''scroll'', AnySeg] parts \<or> is_path [Lit ''_scroll'', AnySeg] parts then
        Some (handle_scroll_path meth (Some (last parts)))
      else if pit_path parts then Some (Pit parts)
      else if map_option decode_path_param (seg_at 0 parts) = Some ''_snapshot'' then Some (Snapshot parts)
      else None)"

definition handle_data :: "string \<Rightarrow> string list \<Rightarrow> Handler option" where
  "handle_data path parts =
     (let both = (\<lambda>s. index_or_all s parts); first = seg_at 0 parts
      in if both ''_bulk'' then Some (Bulk (if parts = [''_bulk''] then None else first))
         else if length parts = 3 \<and> seg_at 1 parts = Some ''_source'' then
           Some (SourceOf (parts ! 0) (decode_path_param (parts ! 2)))
         else if both ''_search'' then Some (Search first)
         else if is_path [AnySeg, Lit ''_delete_by_query''] parts then Some (DeleteByQuery first)
         else if is_path [AnySeg, Lit ''_update_by_query''] parts then Some (UpdateByQuery first)
         else if both ''_count'' then Some (Count first)
         else if both ''_mget'' then Some (Mget first)
         else if both ''_msearch'' then Some (Msearch first)
         else if both ''_field_caps'' then Some (FieldCaps first)
         else if path = ''/_cluster/stats'' then Some ClusterStats
         else if is_path [Lit ''_resolve'', Lit ''index'', AnySeg] parts then Some (ResolveIndex (decode_path_param (parts ! 2)))
         else if both ''_analyze'' then Some Analyze
         else if is_path [Lit ''_validate'', Lit ''query''] parts \<or> is_path [AnySeg, Lit ''_validate'', Lit ''query''] parts then
           Some (ValidateQuery first)
         else if first = Some ''_cat'' \<and> (seg_at 1 parts = Some ''plugins'' \<or> seg_at 1 parts = Some ''templates'') then
           Some CatNothing
         else if first = Some ''_stats'' \<or> seg_at 1 parts = Some ''_stats'' then Some (IndexStats parts)
         else if both ''_refresh'' then Some (Refresh first)
         else None)"

definition handle_metadata :: "string \<Rightarrow> string list \<Rightarrow> Handler" where
  "handle_metadata api_name parts =
     (let both = (\<lambda>s. index_or_all s parts); at = (\<lambda>n s. seg_at n parts = Some s)
      in if (at 0 ''_mapping'' \<and> at 1 ''field'' \<and> length parts = 3) \<or> (at 1 ''_mapping'' \<and> at 2 ''field'' \<and> length parts = 4)
         then FieldMapping parts
         else if both ''_mapping'' then MappingH (seg_at 0 parts)
         else if both ''_settings'' then SettingsH (seg_at 0 parts)
         else if at 0 ''_index_template'' then TemplateH (seg_at 1 parts)
         else if at 0 ''_component_template'' then ComponentTemplate (seg_at 1 parts)
         else if at 0 ''_template'' then LegacyTemplate (seg_at 1 parts)
         else if is_path [Lit ''_ingest'', Lit ''pipeline''] parts \<or> is_path [Lit ''_ingest'', Lit ''pipeline'', AnySeg] parts then
           RegistryNamespace ''ingest_pipeline'' (seg_at 2 parts) ''ingest.get_pipeline''
         else if is_path [Lit ''_search'', Lit ''pipeline''] parts \<or> is_path [Lit ''_search'', Lit ''pipeline'', AnySeg] parts then
           RegistryNamespace ''search_pipeline'' (seg_at 2 parts) ''search_pipeline.get''
         else if is_path [Lit ''_scripts'', AnySeg] parts \<or> is_path [Lit ''_scripts'', AnySeg, AnySeg] parts then
           ScriptRegistry (parts ! 1)
         else if at 0 ''_alias'' \<or> at 0 ''_aliases'' \<or> at 1 ''_alias'' \<or> at 1 ''_aliases'' then AliasH parts
         else if is_path [AnySeg, Lit ''_explain'', AnySeg] parts then Explain (parts ! 0) (decode_path_param (parts ! 2))
         else if length parts \<ge> 2 \<and> parts ! 1 \<in> {''_doc'', ''_create'', ''_update''} then DocumentH parts
         else if length parts = 1 then IndexH (parts ! 0)
         else NoHandler api_name)"

definition handle_implemented :: "http_method \<Rightarrow> string \<Rightarrow> string \<Rightarrow> Handler" where
  "handle_implemented meth path api_name =
     (let parts = path_parts path
      in first_some [handle_control meth path parts, handle_data path parts] (handle_metadata api_name parts))"

text \<open>Strict compatibility: only implemented routes, and those on a list.\<close>

record DispatchConfig =
  dc_strict :: bool
  dc_allowlist :: "string list"

fun tier_str :: "Tier \<Rightarrow> string" where
  "tier_str Implemented = ''implemented''"
| "tier_str BestEffort = ''best_effort''"
| "tier_str Mocked = ''mocked''"
| "tier_str AgentRead = ''agent_fallback_eligible''"
| "tier_str AgentWrite = ''agent_write_fallback_eligible''"
| "tier_str Unsupported = ''unsupported''"
| "tier_str OutsideIdentity = ''outside_product_identity''"

definition strict_guard :: "DispatchConfig \<Rightarrow> RouteMatch \<Rightarrow> ApiError option" where
  "strict_guard cfg r =
     (if \<not> dc_strict cfg then None
      else if rm_tier r = Implemented \<or> rm_api_name r \<in> set (dc_allowlist cfg) \<or> ''*'' \<in> set (dc_allowlist cfg) then None
      else Some (api_error 501 ''mainstack_search_strict_compatibility_exception''
        (''route ['' @ rm_api_name r @ ''] is tier ['' @ tier_str (rm_tier r) @ ''] and strict compatibility mode is enabled'')))"

definition handle_classified_request :: "DispatchConfig \<Rightarrow> http_method \<Rightarrow> string \<Rightarrow> RouteMatch \<Rightarrow> Handler" where
  "handle_classified_request cfg meth path r =
     (case strict_guard cfg r of
        Some e \<Rightarrow> Refused e
      | None \<Rightarrow>
          (case rm_tier r of
             Implemented \<Rightarrow> handle_implemented meth path (rm_api_name r)
           | BestEffort \<Rightarrow> BestEffortH (rm_api_name r)
           | Mocked \<Rightarrow> MockedH (rm_api_name r)
           | AgentRead \<Rightarrow> AgentReadH (rm_api_name r)
           | AgentWrite \<Rightarrow> AgentWriteH (rm_api_name r)
           | Unsupported \<Rightarrow> Refused (unsupported_api (rm_api_name r))
           | OutsideIdentity \<Rightarrow> Refused (unsupported_api (rm_api_name r))))"

definition handle_request :: "ApiRoute list \<Rightarrow> DispatchConfig \<Rightarrow> SecurityContext \<Rightarrow> http_method \<Rightarrow> string \<Rightarrow> Handler" where
  "handle_request inventory cfg sc meth path =
     (let r = classify inventory meth path
      in case authorize sc path r of
           Inl e \<Rightarrow> Refused e
         | Inr _ \<Rightarrow> handle_classified_request cfg meth path r)"

subsection \<open>What a handler may write\<close>

text \<open>
  Whether a handler changes the store, a snapshot repository or a registry when it is reached with a
  method: the arms of its match on the method. A bulk request, a request by query and a reindex do
  not look at the method.
\<close>

fun handler_writes :: "http_method \<Rightarrow> Handler \<Rightarrow> bool" where
  "handler_writes meth (Bulk _) = True"
| "handler_writes meth (DeleteByQuery _) = True"
| "handler_writes meth (UpdateByQuery _) = True"
| "handler_writes meth Reindex = True"
| "handler_writes meth (MappingH _) = (meth = PUT)"
| "handler_writes meth (SettingsH _) = (meth = PUT)"
| "handler_writes meth (TemplateH _) = (meth = PUT \<or> meth = DELETE)"
| "handler_writes meth (ComponentTemplate _) = (meth = PUT \<or> meth = DELETE)"
| "handler_writes meth (LegacyTemplate _) = (meth = PUT \<or> meth = DELETE)"
| "handler_writes meth (RegistryNamespace _ _ _) = (meth = PUT \<or> meth = DELETE)"
| "handler_writes meth (ScriptRegistry _) = (meth = PUT \<or> meth = POST \<or> meth = DELETE)"
| "handler_writes meth (AliasH parts) = (meth = PUT \<or> meth = POST \<or> meth = DELETE)"
| "handler_writes meth (DocumentH parts) = (meth = PUT \<or> meth = POST \<or> meth = DELETE)"
| "handler_writes meth (IndexH _) = (meth = PUT \<or> meth = DELETE)"
| "handler_writes meth (Snapshot _) = (meth = PUT \<or> meth = POST \<or> meth = DELETE)"
| "handler_writes meth (AgentWriteH _) = True"
| "handler_writes meth _ = False"

end
