(* ===== verification/Http.thy ===== *)
theory Http
  imports Values Dispatch Durable
begin

section \<open>Requests and responses\<close>

text \<open>
  \<open>Request\<close> of \<open>src/http/request.rs\<close> after the query string is decoded, and \<open>Response\<close> of
  \<open>src/responses/mod.rs\<close> before it is handed to the server library. Parsing JSON is third-party code: the
  parameter \<open>json_parse\<close> gives the value or the text of the error. The hints of error responses are left out.
\<close>

type_synonym json_parse = "string \<Rightarrow> (string, json) result"

record Request =
  rq_method :: http_method
  rq_path :: string
  rq_query :: "(string \<times> string) list"
  rq_body :: string

record Response =
  rs_status :: nat
  rs_headers :: "(string, string) btree"
  rs_body :: "json option"

definition body_json :: "json_parse \<Rightarrow> Request \<Rightarrow> (string, json) result" where
  "body_json parse request =
     (if rq_body request = [] then Inr empty_object
      else case parse (rq_body request) of
        Inl e \<Rightarrow> Inl (''malformed JSON body: '' @ e)
      | Inr v \<Rightarrow> Inr v)"

definition query_param :: "Request \<Rightarrow> string \<Rightarrow> string option" where
  "query_param request name = map_option snd (find (\<lambda>(key, _). key = name) (rq_query request))"

text \<open>\<open>Option::or\<close> and \<open>or_else\<close>.\<close>

definition or_else :: "'a option \<Rightarrow> 'a option \<Rightarrow> 'a option" where
  "or_else a b = (case a of Some x \<Rightarrow> Some x | None \<Rightarrow> b)"

lemma or_else_simps [simp]: "or_else (Some x) b = Some x" "or_else None b = b"
  by (simp_all add: or_else_def)

subsection \<open>Responses\<close>

definition json_response :: "nat \<Rightarrow> json \<Rightarrow> Response" where
  "json_response status body =
     \<lparr>rs_status = status, rs_headers = [(''content-type'', ''application/json'')], rs_body = Some body\<rparr>"

definition empty_response :: "nat \<Rightarrow> Response" where
  "empty_response status = \<lparr>rs_status = status, rs_headers = [], rs_body = None\<rparr>"

definition with_header :: "string \<Rightarrow> string \<Rightarrow> Response \<Rightarrow> Response" where
  "with_header name val response = response\<lparr>rs_headers := bt_insert name val (rs_headers response)\<rparr>"

definition compatibility_signal :: "string \<Rightarrow> string \<Rightarrow> Response \<Rightarrow> Response" where
  "compatibility_signal api_name tier response =
     with_header ''x-mainstack-search-tier'' tier (with_header ''x-mainstack-search-api'' api_name response)"

definition open_search_error :: "nat \<Rightarrow> string \<Rightarrow> string \<Rightarrow> Response" where
  "open_search_error status error_type reason =
     json_response status (jobject
       [(''error'', jobject
          [(''root_cause'', JArr [jobject [(''type'', JStr error_type), (''reason'', JStr reason)]]),
           (''type'', JStr error_type), (''reason'', JStr reason)]),
        (''status'', jnat status)])"

definition acknowledged :: "bool \<Rightarrow> Response" where
  "acknowledged b = json_response 200 (jobject [(''acknowledged'', JBool b)])"

definition unsupported :: "string \<Rightarrow> Response" where
  "unsupported api_name =
     open_search_error 501 ''mainstack_search_unsupported_api_exception''
       (''mainstack-search does not implement ['' @ api_name @ ''] yet'')"

definition parse_error :: "string \<Rightarrow> Response" where
  "parse_error e = open_search_error 400 ''parse_exception'' e"

definition store_error :: "StoreError \<Rightarrow> Response" where
  "store_error e = open_search_error (se_status e) (se_type e) (se_reason e)"

text \<open>\<open>match result { Ok(v) => ok(v), Err(error) => store_error(error) }\<close>.\<close>

definition respond :: "('a \<Rightarrow> Response) \<Rightarrow> 'a store_result \<Rightarrow> Response" where
  "respond ok r = (case r of Inl e \<Rightarrow> store_error e | Inr v \<Rightarrow> ok v)"

definition success :: "Response \<Rightarrow> bool" where
  "success response \<longleftrightarrow> 200 \<le> rs_status response \<and> rs_status response < 300"

lemma rs_status_simps [simp]:
  "rs_status (json_response status body) = status"
  "rs_status (empty_response status) = status"
  "rs_status (with_header n v r) = rs_status r"
  "rs_status (compatibility_signal a t r) = rs_status r"
  "rs_status (open_search_error status ty reason) = status"
  "rs_status (acknowledged b) = 200"
  "rs_status (unsupported api) = 501"
  "rs_status (parse_error e) = 400"
  "rs_status (store_error err) = se_status err"
  by (simp_all add: json_response_def empty_response_def with_header_def compatibility_signal_def open_search_error_def
      acknowledged_def unsupported_def parse_error_def store_error_def)

lemma respond_simps [simp]: "respond ok (Inl e) = store_error e" "respond ok (Inr v) = ok v"
  by (simp_all add: respond_def)

end
