(* ===== verification/MetadataHandlers.thy ===== *)
theory MetadataHandlers
  imports Http QueryEval
begin

section \<open>Handlers of indexes, templates, registries and aliases\<close>

text \<open>
  The handlers of \<open>src/api/mod.rs\<close> that read and write metadata, and \<open>src/catalog/registry.rs\<close>. A handler
  takes the store and the request and gives the store afterwards with the response; \<open>run_store\<close> runs its
  operation on another thread and adds nothing to it.
\<close>

definition reply :: "('a \<Rightarrow> Response) \<Rightarrow> Store \<times> 'a store_result \<Rightarrow> Store \<times> Response" where
  "reply ok r = (case r of (s, v) \<Rightarrow> (s, respond ok v))"

lemma fst_reply [simp]: "fst (reply ok r) = fst r"
  by (simp add: reply_def split: prod.splits)

text \<open>\<open>match request.body_json() { Ok(body) => f(body), Err(error) => parse_error(error) }\<close>.\<close>

definition with_body :: "json_parse \<Rightarrow> Request \<Rightarrow> Store \<Rightarrow> (json \<Rightarrow> Store \<times> Response) \<Rightarrow> Store \<times> Response" where
  "with_body parse request s f = (case body_json parse request of Inl e \<Rightarrow> (s, parse_error e) | Inr body \<Rightarrow> f body)"

definition with_name :: "string \<Rightarrow> string option \<Rightarrow> Store \<Rightarrow> (string \<Rightarrow> Store \<times> Response) \<Rightarrow> Store \<times> Response" where
  "with_name label name s f = (case name of None \<Rightarrow> (s, parse_error (label @ '' name is required'')) | Some n \<Rightarrow> f n)"

definition exists_response :: "bool \<Rightarrow> Response" where
  "exists_response b = empty_response (if b then 200 else 404)"

subsection \<open>Indexes\<close>

definition index_body :: "string \<Rightarrow> IndexMetadata \<Rightarrow> json" where
  "index_body name im =
     jobject [(name, jobject [(''aliases'', jobject (map (\<lambda>a. (a, empty_object)) (im_aliases im))),
       (''mappings'', im_mappings im), (''settings'', im_settings im)])]"

definition handle_index :: "Setup \<Rightarrow> Env \<Rightarrow> json_parse \<Rightarrow> Request \<Rightarrow> string \<Rightarrow> Store \<Rightarrow> Store \<times> Response" where
  "handle_index su env parse request index s =
     (let db = st_db s
      in case rq_method request of
           PUT \<Rightarrow>
             with_body parse request s (\<lambda>body.
               reply (\<lambda>_. json_response 200 (jobject
                   [(''acknowledged'', JBool True), (''shards_acknowledged'', JBool True), (''index'', JStr index)]))
                 (create_index su env index body s))
         | GET \<Rightarrow>
             (s, case Option.bind (resolve_index db index) (\<lambda>name. map_option (Pair name) (bt_get (db_indexes db) name)) of
                   None \<Rightarrow> store_error (no_such_index index)
                 | Some (name, im) \<Rightarrow> json_response 200 (index_body name im))
         | HEAD \<Rightarrow> (s, exists_response (resolve_index db index \<noteq> None))
         | DELETE \<Rightarrow> reply (\<lambda>_. acknowledged True) (delete_index su env index s)
         | _ \<Rightarrow> (s, unsupported ''indices''))"

subsection \<open>Settings of a template\<close>

fun stringify_value :: "TextOps \<Rightarrow> json \<Rightarrow> json" where
  "stringify_value tx (JNum n) = JStr (json_text tx (JNum n))"
| "stringify_value tx (JBool b) = JStr (if b then ''true'' else ''false'')"
| "stringify_value tx v = v"

fun stringify_object_values :: "TextOps \<Rightarrow> json \<Rightarrow> json" where
  "stringify_object_values tx (JObj m) = JObj (map (\<lambda>(k, v). (k, stringify_value tx v)) m)"
| "stringify_object_values tx v = v"

fun normalize_settings_response :: "TextOps \<Rightarrow> json \<Rightarrow> json" where
  "normalize_settings_response tx (JObj m) =
     (if bt_has m ''index'' then JObj (bt_adjust ''index'' (stringify_object_values tx) m)
      else jobject [(''index'', stringify_object_values tx (JObj m))])"
| "normalize_settings_response tx v = v"

text \<open>An alias keeps its routing under two names.\<close>

definition insert_if_absent :: "string \<Rightarrow> json \<Rightarrow> (string, json) btree \<Rightarrow> (string, json) btree" where
  "insert_if_absent k v m = (if bt_has m k then m else bt_insert k v m)"

fun normalize_alias_metadata :: "json \<Rightarrow> json" where
  "normalize_alias_metadata (JObj m) =
     (let object = fold bt_remove [''index'', ''indices'', ''alias'', ''aliases''] m
      in JObj (case bt_get object ''routing'' of
           None \<Rightarrow> object
         | Some routing \<Rightarrow>
             insert_if_absent ''search_routing'' routing (insert_if_absent ''index_routing'' routing (bt_remove ''routing'' object))))"
| "normalize_alias_metadata v = empty_object"

text \<open>\<open>get_mut\<close> of a key of an object.\<close>

fun jmodify :: "string \<Rightarrow> (json \<Rightarrow> json) \<Rightarrow> json \<Rightarrow> json" where
  "jmodify k f (JObj m) = JObj (bt_adjust k f m)"
| "jmodify k f v = v"

fun map_values :: "(json \<Rightarrow> json) \<Rightarrow> json \<Rightarrow> json" where
  "map_values f (JObj m) = JObj (map (\<lambda>(k, v). (k, f v)) m)"
| "map_values f v = v"

definition normalize_index_template_response :: "TextOps \<Rightarrow> json \<Rightarrow> json" where
  "normalize_index_template_response tx raw =
     jmodify ''template'' (jmodify ''aliases'' (map_values normalize_alias_metadata))
       (jmodify ''template'' (jmodify ''settings'' (normalize_settings_response tx))
         (jmodify ''index_patterns'' (\<lambda>v. case v of JStr pattern \<Rightarrow> JArr [JStr pattern] | _ \<Rightarrow> v) raw))"

subsection \<open>Index templates\<close>

definition template_missing :: "string \<Rightarrow> StoreError" where
  "template_missing name =
     StoreError_new 404 ''index_template_missing_exception'' (''index template ['' @ name @ ''] missing'')"

definition get_templates :: "TextOps \<Rightarrow> Database \<Rightarrow> string option \<Rightarrow> Response" where
  "get_templates tx db name =
     (let listing = json_response 200 (jobject [(''index_templates'',
            JArr (map (\<lambda>(n, t). jobject [(''name'', JStr n), (''index_template'', normalize_index_template_response tx (it_raw t))])
              (filter (\<lambda>(n, _). name = None \<or> name = Some n) (db_templates db))))])
      in case name of
           None \<Rightarrow> listing
         | Some n \<Rightarrow> if bt_has (db_templates db) n then listing else store_error (template_missing n))"

definition handle_template ::
    "Setup \<Rightarrow> Env \<Rightarrow> TextOps \<Rightarrow> json_parse \<Rightarrow> Request \<Rightarrow> string option \<Rightarrow> Store \<Rightarrow> Store \<times> Response" where
  "handle_template su env tx parse request name s =
     (let db = st_db s
      in case rq_method request of
           PUT \<Rightarrow>
             with_name ''template'' name s (\<lambda>n.
               if query_param request ''create'' = Some ''true'' \<and> bt_has (db_templates db) n then
                 (s, store_error (StoreError_new 400 ''resource_already_exists_exception''
                        (''index template ['' @ n @ ''] already exists'')))
               else with_body parse request s (\<lambda>body. reply (\<lambda>_. acknowledged True) (put_template su env n body s)))
         | GET \<Rightarrow> (s, get_templates tx db name)
         | HEAD \<Rightarrow>
             (s, case name of None \<Rightarrow> empty_response 400 | Some n \<Rightarrow> exists_response (bt_has (db_templates db) n))
         | DELETE \<Rightarrow>
             with_name ''template'' name s (\<lambda>n. reply (\<lambda>_. acknowledged True) (commit su env (DeleteTemplate n) s))
         | _ \<Rightarrow> (s, unsupported ''indices.put_index_template''))"

subsection \<open>Registries\<close>

definition registry_exists :: "Database \<Rightarrow> string \<Rightarrow> string \<Rightarrow> bool" where
  "registry_exists db namespace name =
     (case bt_get (db_registries db) namespace of None \<Rightarrow> False | Some registry \<Rightarrow> bt_has registry name)"

definition registry_objects :: "Database \<Rightarrow> string \<Rightarrow> string option \<Rightarrow> (string \<times> json) list" where
  "registry_objects db namespace name =
     filter (\<lambda>(n, _). name = None \<or> name = Some n)
       (case bt_get (db_registries db) namespace of None \<Rightarrow> [] | Some registry \<Rightarrow> registry)"

definition registry_missing :: "string \<Rightarrow> string \<Rightarrow> string \<Rightarrow> Response" where
  "registry_missing error_type label name = open_search_error 404 error_type (label @ '' ['' @ name @ ''] missing'')"

definition named_or_missing :: "string \<Rightarrow> string \<Rightarrow> string option \<Rightarrow> (string \<times> json) list \<Rightarrow> json \<Rightarrow> Response" where
  "named_or_missing missing_type label name objects body =
     (case name of
        Some n \<Rightarrow> if objects = [] then registry_missing missing_type label n else json_response 200 body
      | None \<Rightarrow> json_response 200 body)"

definition get_component_templates :: "Database \<Rightarrow> string option \<Rightarrow> Response" where
  "get_component_templates db name =
     (let objects = registry_objects db ''component_template'' name
      in named_or_missing ''component_template_missing_exception'' ''component template'' name objects
           (jobject [(''component_templates'',
              JArr (map (\<lambda>(n, raw). jobject [(''name'', JStr n), (''component_template'', raw)]) objects))]))"

definition get_named_object :: "Database \<Rightarrow> string \<Rightarrow> string option \<Rightarrow> string \<Rightarrow> string \<Rightarrow> Response" where
  "get_named_object db namespace name missing_type label =
     (let objects = registry_objects db namespace name
      in named_or_missing missing_type label name objects (jobject objects))"

definition get_script :: "Database \<Rightarrow> string \<Rightarrow> Response" where
  "get_script db name =
     (case Option.bind (bt_get (db_registries db) ''script'') (\<lambda>registry. bt_get registry name) of
        None \<Rightarrow> open_search_error 404 ''resource_not_found_exception'' (''stored script ['' @ name @ ''] not found'')
      | Some raw \<Rightarrow>
          json_response 200 (jobject [(''_id'', JStr name), (''found'', JBool True), (''script'', unwrapped raw ''script'')]))"

text \<open>What the handlers of component templates, legacy templates, pipelines and scripts share.\<close>

definition put_registry ::
    "Setup \<Rightarrow> Env \<Rightarrow> json_parse \<Rightarrow> Request \<Rightarrow> string \<Rightarrow> string \<Rightarrow> Store \<Rightarrow> Store \<times> Response" where
  "put_registry su env parse request namespace n s =
     with_body parse request s (\<lambda>body. reply (\<lambda>_. acknowledged True) (put_registry_object su env namespace n body s))"

definition delete_registry :: "Setup \<Rightarrow> Env \<Rightarrow> string \<Rightarrow> string \<Rightarrow> Store \<Rightarrow> Store \<times> Response" where
  "delete_registry su env namespace n s = reply (\<lambda>_. acknowledged True) (delete_registry_object su env namespace n s)"

definition handle_component_template ::
    "Setup \<Rightarrow> Env \<Rightarrow> json_parse \<Rightarrow> Request \<Rightarrow> string option \<Rightarrow> Store \<Rightarrow> Store \<times> Response" where
  "handle_component_template su env parse request name s =
     (case rq_method request of
        PUT \<Rightarrow> with_name ''component template'' name s (\<lambda>n. put_registry su env parse request ''component_template'' n s)
      | GET \<Rightarrow> (s, get_component_templates (st_db s) name)
      | HEAD \<Rightarrow>
          (s, case name of None \<Rightarrow> empty_response 400
              | Some n \<Rightarrow> exists_response (registry_exists (st_db s) ''component_template'' n))
      | DELETE \<Rightarrow> with_name ''component template'' name s (\<lambda>n. delete_registry su env ''component_template'' n s)
      | _ \<Rightarrow> (s, unsupported ''cluster.put_component_template''))"

definition handle_legacy_template ::
    "Setup \<Rightarrow> Env \<Rightarrow> json_parse \<Rightarrow> Request \<Rightarrow> string option \<Rightarrow> Store \<Rightarrow> Store \<times> Response" where
  "handle_legacy_template su env parse request name s =
     (let known = registry_exists (st_db s) ''legacy_template''
      in case rq_method request of
           PUT \<Rightarrow> with_name ''template'' name s (\<lambda>n. put_registry su env parse request ''legacy_template'' n s)
         | GET \<Rightarrow>
             (s, get_named_object (st_db s) ''legacy_template'' name ''index_template_missing_exception'' ''legacy template'')
         | HEAD \<Rightarrow> (s, case name of None \<Rightarrow> empty_response 400 | Some n \<Rightarrow> exists_response (known n))
         | DELETE \<Rightarrow>
             with_name ''template'' name s (\<lambda>n.
               if \<not> known n then (s, store_error (template_missing n)) else delete_registry su env ''legacy_template'' n s)
         | _ \<Rightarrow> (s, unsupported ''indices.delete_template''))"

definition namespace_label :: "string \<Rightarrow> string" where
  "namespace_label namespace =
     (if namespace = ''ingest_pipeline'' then ''ingest pipeline''
      else if namespace = ''search_pipeline'' then ''search pipeline'' else ''registry object'')"

definition handle_registry_namespace ::
    "Setup \<Rightarrow> Env \<Rightarrow> json_parse \<Rightarrow> Request \<Rightarrow> string \<Rightarrow> string option \<Rightarrow> string \<Rightarrow> Store \<Rightarrow> Store \<times> Response" where
  "handle_registry_namespace su env parse request namespace name read_api_name s =
     (case rq_method request of
        PUT \<Rightarrow> with_name ''registry object'' name s (\<lambda>n. put_registry su env parse request namespace n s)
      | GET \<Rightarrow>
          (s, get_named_object (st_db s) namespace name ''resource_not_found_exception'' (namespace_label namespace))
      | DELETE \<Rightarrow> with_name ''registry object'' name s (\<lambda>n. delete_registry su env namespace n s)
      | _ \<Rightarrow> (s, unsupported read_api_name))"

definition handle_script_registry ::
    "Setup \<Rightarrow> Env \<Rightarrow> json_parse \<Rightarrow> Request \<Rightarrow> string \<Rightarrow> Store \<Rightarrow> Store \<times> Response" where
  "handle_script_registry su env parse request name s =
     (case rq_method request of
        PUT \<Rightarrow> put_registry su env parse request ''script'' name s
      | POST \<Rightarrow> put_registry su env parse request ''script'' name s
      | GET \<Rightarrow> (s, get_script (st_db s) name)
      | DELETE \<Rightarrow> delete_registry su env ''script'' name s
      | _ \<Rightarrow> (s, unsupported ''put_script''))"

end
