(* ===== verification/CatalogHandlers.thy ===== *)
theory CatalogHandlers
  imports MetadataHandlers
begin

section \<open>Handlers of mappings, settings and aliases\<close>

text \<open>The second half of the metadata handlers of \<open>src/api/mod.rs\<close>.\<close>

subsection \<open>Mappings and settings\<close>

fun catalog_entries :: "Database \<Rightarrow> string \<Rightarrow> string list \<Rightarrow> (string, json) btree \<Rightarrow> (string, json) btree store_result" where
  "catalog_entries db key [] output = Inr output"
| "catalog_entries db key (requested # names) output =
     (case resolve_index db requested of
        None \<Rightarrow> Inl (no_such_index requested)
      | Some name \<Rightarrow>
          (case bt_get (db_indexes db) name of
             None \<Rightarrow> catalog_entries db key names output
           | Some im \<Rightarrow>
               catalog_entries db key names
                 (bt_insert name (jobject [(key, if key = ''mappings'' then im_mappings im
                      else if key = ''settings'' then im_settings im else empty_object)]) output)))"

definition catalog_subset :: "Database \<Rightarrow> string option \<Rightarrow> string \<Rightarrow> Response" where
  "catalog_subset db path_index key =
     respond (\<lambda>output. json_response 200 (JObj output))
       (catalog_entries db key
          (case path_index of Some index \<Rightarrow> split_on (CHR '','') index | None \<Rightarrow> bt_keys (db_indexes db)) [])"

text \<open>\<open>first.filter(|index| *index != suffix)\<close>.\<close>

definition index_unless :: "string \<Rightarrow> string option \<Rightarrow> string option" where
  "index_unless ending first = (if first = Some ending then None else first)"

definition handle_mapping ::
    "Setup \<Rightarrow> Env \<Rightarrow> json_parse \<Rightarrow> Request \<Rightarrow> string option \<Rightarrow> Store \<Rightarrow> Store \<times> Response" where
  "handle_mapping su env parse request first s =
     (let path_index = index_unless ''_mapping'' first
      in case rq_method request of
           GET \<Rightarrow> (s, catalog_subset (st_db s) path_index ''mappings'')
         | PUT \<Rightarrow>
             (case path_index of
                None \<Rightarrow> (s, parse_error ''put mapping requires an index path'')
              | Some index \<Rightarrow>
                  with_body parse request s (\<lambda>body. reply (\<lambda>_. acknowledged True) (put_mapping su env index body s)))
         | _ \<Rightarrow> (s, unsupported ''indices.put_mapping''))"

definition handle_settings ::
    "Setup \<Rightarrow> Env \<Rightarrow> json_parse \<Rightarrow> Request \<Rightarrow> string option \<Rightarrow> Store \<Rightarrow> Store \<times> Response" where
  "handle_settings su env parse request first s =
     (let path_index = index_unless ''_settings'' first
      in case rq_method request of
           GET \<Rightarrow> (s, catalog_subset (st_db s) path_index ''settings'')
         | PUT \<Rightarrow>
             (case path_index of
                None \<Rightarrow> (s, parse_error ''put settings requires an index path'')
              | Some index \<Rightarrow>
                  with_body parse request s (\<lambda>body.
                    reply (\<lambda>_. acknowledged True) (put_settings su env index (unwrapped body ''settings'') s)))
         | _ \<Rightarrow> (s, unsupported ''indices.put_settings''))"

subsection \<open>Reading aliases\<close>

definition output_alias_index_entry :: "string \<Rightarrow> (string, json) btree \<Rightarrow> (string, json) btree" where
  "output_alias_index_entry index output =
     insert_if_absent index (jobject [(''aliases'', empty_object)]) output"

definition add_alias :: "string \<Rightarrow> AliasMetadata \<Rightarrow> (string, json) btree \<Rightarrow> (string, json) btree" where
  "add_alias alias_name meta output =
     bt_adjust (am_index meta)
       (jmodify ''aliases'' (\<lambda>v. case v of JObj m \<Rightarrow> JObj (bt_insert alias_name (am_raw meta) m) | _ \<Rightarrow> v))
       (output_alias_index_entry (am_index meta) output)"

definition alias_entries :: "Database \<Rightarrow> string option \<Rightarrow> string option \<Rightarrow> (string, json) btree" where
  "alias_entries db requested_index al =
     fold (\<lambda>(alias_name, meta). add_alias alias_name meta)
       (filter (\<lambda>(alias_name, meta). (al = None \<or> al = Some alias_name)
           \<and> (requested_index = None \<or> requested_index = Some (am_index meta))) (db_aliases db))
       (if al = None then
          fold output_alias_index_entry
            (case requested_index of Some index \<Rightarrow> [index] | None \<Rightarrow> bt_keys (db_indexes db)) []
        else [])"

definition alias_response :: "Database \<Rightarrow> string option \<Rightarrow> string option \<Rightarrow> Response" where
  "alias_response db index al =
     respond id
       (and_then (case index of
            None \<Rightarrow> Inr None
          | Some i \<Rightarrow> (case resolve_index db i of None \<Rightarrow> Inl (no_such_index i) | Some name \<Rightarrow> Inr (Some name)))
          (\<lambda>requested_index.
             let output = alias_entries db requested_index al
             in if output = [] \<and> al \<noteq> None then
                  Inl (StoreError_new 404 ''aliases_not_found_exception'' (''alias ['' @ the al @ ''] missing''))
                else Inr (json_response 200 (JObj output))))"

definition alias_exists_response :: "Database \<Rightarrow> string option \<Rightarrow> string \<Rightarrow> Response" where
  "alias_exists_response db index al =
     exists_response
       (case index of
          None \<Rightarrow> bt_has (db_aliases db) al
        | Some i \<Rightarrow>
            (case resolve_index db i of
               None \<Rightarrow> False
             | Some name \<Rightarrow> map_option am_index (bt_get (db_aliases db) al) = Some name))"

subsection \<open>Alias actions\<close>

definition action_values :: "json option \<Rightarrow> json option \<Rightarrow> string list" where
  "action_values one many =
     (case or_else (map_option (\<lambda>v. [v]) (Option.bind one as_str))
            (map_option (List.map_filter as_str) (Option.bind many as_array)) of
        Some vs \<Rightarrow> vs
      | None \<Rightarrow> [])"

definition pairs :: "'a list \<Rightarrow> 'b list \<Rightarrow> ('a \<times> 'b) list" where
  "pairs xs ys = concat (map (\<lambda>x. map (Pair x) ys) xs)"

definition alias_action ::
    "string \<Rightarrow> (string, json) btree \<Rightarrow> (Response, Mutation list \<times> string list) result" where
  "alias_action kind meta =
     (let indices = action_values (bt_get meta ''index'') (bt_get meta ''indices'');
          aliases = action_values (bt_get meta ''alias'') (bt_get meta ''aliases'')
      in if kind = ''add'' then
           (if indices = [] \<or> aliases = [] then Inl (parse_error ''alias add action requires index and alias'')
            else Inr (map (\<lambda>(i, a). PutAlias i a (normalize_alias_metadata (JObj meta))) (pairs indices aliases), []))
         else if kind = ''remove'' then
           (if indices = [] \<or> aliases = [] then Inl (parse_error ''alias remove action requires index and alias'')
            else Inr (map (\<lambda>(i, a). DeleteAlias i a) (pairs indices aliases), []))
         else if kind = ''remove_index'' then
           (if indices = [] then Inl (parse_error ''alias remove_index action requires index'')
            else Inr (map DeleteIndex indices, indices))
         else Inl (store_error (StoreError_new 400 ''illegal_argument_exception'' (''unsupported alias action ['' @ kind @ '']''))))"

text \<open>The mutations of all actions, and the indexes they remove.\<close>

fun alias_actions :: "json list \<Rightarrow> Mutation list \<Rightarrow> string list \<Rightarrow> (Response, Mutation list \<times> string list) result" where
  "alias_actions [] ms removed = Inr (ms, removed)"
| "alias_actions (v # vs) ms removed =
     and_then (ok_or (parse_error ''alias action must be an object'') (as_object v)) (\<lambda>action.
       case action of
         [(kind, meta)] \<Rightarrow>
           and_then (ok_or (parse_error ''alias action metadata must be an object'') (as_object meta)) (\<lambda>m.
           and_then (alias_action kind m) (\<lambda>(more, names).
             alias_actions vs (ms @ more) (fold bs_insert names removed)))
       | _ \<Rightarrow> Inl (parse_error ''alias action must contain exactly one add, remove, or remove_index operation''))"

text \<open>
  An index that is removed and whose name becomes an alias is removed first, and every index once.
\<close>

fun order_alias_mutations :: "Mutation list \<Rightarrow> string list \<Rightarrow> string list \<Rightarrow> Mutation list" where
  "order_alias_mutations [] removed emitted = []"
| "order_alias_mutations (PutAlias i a raw # ms) removed emitted =
     (if a \<in> set removed then
        (if a \<in> set emitted then PutAlias i a raw # order_alias_mutations ms removed emitted
         else DeleteIndex a # PutAlias i a raw # order_alias_mutations ms removed (bs_insert a emitted))
      else PutAlias i a raw # order_alias_mutations ms removed emitted)"
| "order_alias_mutations (DeleteIndex name # ms) removed emitted =
     (if name \<in> set emitted then order_alias_mutations ms removed emitted
      else DeleteIndex name # order_alias_mutations ms removed (bs_insert name emitted))"
| "order_alias_mutations (m # ms) removed emitted = m # order_alias_mutations ms removed emitted"

definition handle_alias_actions :: "Setup \<Rightarrow> Env \<Rightarrow> json_parse \<Rightarrow> Request \<Rightarrow> Store \<Rightarrow> Store \<times> Response" where
  "handle_alias_actions su env parse request s =
     with_body parse request s (\<lambda>body.
       case Option.bind (jget body ''actions'') as_array of
         None \<Rightarrow> (s, parse_error ''alias actions must be an array'')
       | Some actions \<Rightarrow>
           (case alias_actions actions [] [] of
              Inl response \<Rightarrow> (s, response)
            | Inr (ms, removed) \<Rightarrow>
                reply (\<lambda>_. acknowledged True) (commit_mutations su env (order_alias_mutations ms removed []) s)))"

definition json_scalar_string :: "TextOps \<Rightarrow> json \<Rightarrow> string option" where
  "json_scalar_string tx v = as_str (stringify_value tx v)"

definition scalar_or :: "TextOps \<Rightarrow> json \<Rightarrow> string \<Rightarrow> string \<Rightarrow> string" where
  "scalar_or tx body k dflt = (case Option.bind (jget body k) (json_scalar_string tx) of Some v \<Rightarrow> v | None \<Rightarrow> dflt)"

definition handle_alias ::
    "Setup \<Rightarrow> Env \<Rightarrow> TextOps \<Rightarrow> json_parse \<Rightarrow> Request \<Rightarrow> string list \<Rightarrow> Store \<Rightarrow> Store \<times> Response" where
  "handle_alias su env tx parse request parts s =
     (let db = st_db s; meth = rq_method request; p = (\<lambda>n. parts ! n);
          one = is_path [AnySeg, Lit ''_alias'', AnySeg] parts; many = is_path [AnySeg, Lit ''_aliases'', AnySeg] parts
      in if meth = PUT \<and> one then
           with_body parse request s (\<lambda>body.
             reply (\<lambda>_. acknowledged True)
               (put_alias su env (scalar_or tx body ''index'' (p 0)) (scalar_or tx body ''alias'' (p 2))
                  (normalize_alias_metadata body) s))
         else if meth = POST \<and> (parts = [''_alias''] \<or> parts = [''_aliases'']) then handle_alias_actions su env parse request s
         else if meth = HEAD \<and> is_path [Lit ''_alias'', AnySeg] parts then (s, alias_exists_response db None (p 1))
         else if meth = HEAD \<and> (one \<or> many) then (s, alias_exists_response db (Some (p 0)) (p 2))
         else if meth = GET \<and> parts = [''_alias''] then (s, alias_response db None None)
         else if meth = GET \<and> is_path [Lit ''_alias'', AnySeg] parts then (s, alias_response db None (Some (p 1)))
         else if meth = GET \<and> parts = [''_aliases''] then (s, alias_response db None None)
         else if meth = GET \<and> (one \<or> many) then (s, alias_response db (Some (p 0)) (Some (p 2)))
         else if meth = GET \<and> (is_path [AnySeg, Lit ''_alias''] parts \<or> is_path [AnySeg, Lit ''_aliases''] parts) then
           (s, alias_response db (Some (p 0)) None)
         else if meth = DELETE \<and> one then reply (\<lambda>_. acknowledged True) (delete_alias su env (p 0) (p 2) s)
         else (s, unsupported ''indices.put_alias''))"

end
