(* ===== verification/DocumentHandlers.thy ===== *)
theory DocumentHandlers
  imports CatalogHandlers SourceFilter
begin

section \<open>Handlers of single documents\<close>

text \<open>
  \<open>handle_document\<close>, \<open>handle_source\<close> and \<open>handle_mget\<close> of \<open>src/api/mod.rs\<close> with what they share: the body
  of an update, the source filter of a query string, the bodies of responses. A reading of the clock that
  names a new document is an argument.
\<close>

subsection \<open>Generated ids\<close>

definition hex_char :: "nat \<Rightarrow> char" where
  "hex_char n = char_of (if n < 10 then n + 48 else n + 87)"

fun show_hex :: "nat \<Rightarrow> string" where
  "show_hex n = (if n < 16 then [hex_char n] else show_hex (n div 16) @ [hex_char (n mod 16)])"

declare show_hex.simps [simp del]

definition generated_id :: "nat \<Rightarrow> string" where
  "generated_id nanos = ''lite-'' @ show_hex nanos"

subsection \<open>Bodies of responses\<close>

definition one_shard :: json where
  "one_shard = jobject [(''total'', jnat 1), (''successful'', jnat 1), (''failed'', jnat 0)]"

definition doc_write_body :: "string \<Rightarrow> string \<Rightarrow> StoredDocument \<Rightarrow> string \<Rightarrow> (string \<times> json) list" where
  "doc_write_body index did d result =
     [(''_index'', JStr index), (''_id'', JStr did), (''_version'', jnat (doc_version d)), (''result'', JStr result),
      (''_shards'', one_shard), (''_seq_no'', jnat (doc_seq_no d)), (''_primary_term'', jnat (doc_primary_term d))]"

definition doc_write_response :: "string \<Rightarrow> string \<Rightarrow> StoredDocument \<Rightarrow> nat \<Rightarrow> string \<Rightarrow> Response" where
  "doc_write_response index did d status result = json_response status (jobject (doc_write_body index did d result))"

definition doc_fields :: "StoredDocument \<Rightarrow> (string \<times> json) list" where
  "doc_fields d = [(''_version'', jnat (doc_version d)), (''_seq_no'', jnat (doc_seq_no d)),
     (''_primary_term'', jnat (doc_primary_term d))]"

subsection \<open>Source filters of a query string\<close>

definition source_filter_fields :: "string \<Rightarrow> json list" where
  "source_filter_fields s = map (\<lambda>f. JStr (trim f)) (filter (\<lambda>f. trim f \<noteq> []) (split_on (CHR '','') s))"

definition query_get :: "(string \<times> string) list \<Rightarrow> string \<Rightarrow> string option" where
  "query_get query k = map_option snd (find (\<lambda>(key, _). key = k) query)"

definition source_filter_from_query :: "(string \<times> string) list \<Rightarrow> json option" where
  "source_filter_from_query query =
     (case query_get query ''_source'' of
        Some source \<Rightarrow>
          Some (if source = ''true'' \<or> source = [] then JBool True
                else if source = ''false'' then JBool False else JArr (source_filter_fields source))
      | None \<Rightarrow>
          (case (query_get query ''_source_includes'', query_get query ''_source_excludes'') of
             (None, None) \<Rightarrow> None
           | (incs, excs) \<Rightarrow>
               Some (jobject
                 ((case incs of Some i \<Rightarrow> [(''includes'', JArr (source_filter_fields i))] | None \<Rightarrow> [])
                  @ (case excs of Some e \<Rightarrow> [(''excludes'', JArr (source_filter_fields e))] | None \<Rightarrow> [])))))"

subsection \<open>The body of an update\<close>

record ParsedUpdateBody =
  up_doc :: json
  up_doc_as_upsert :: bool
  up_upsert :: "json option"
  up_source_filter :: "json option"

definition update_parse_error :: "string \<Rightarrow> StoreError" where
  "update_parse_error reason = StoreError_new 400 ''parse_exception'' reason"

definition update_keys :: "string list" where
  "update_keys = [''doc'', ''upsert'', ''doc_as_upsert'', ''_source'', ''detect_noop'', ''script'']"

definition object_field :: "string \<Rightarrow> json option \<Rightarrow> json option store_result" where
  "object_field k v =
     (case v of
        Some (JObj m) \<Rightarrow> Inr (Some (JObj m))
      | Some _ \<Rightarrow> Inl (update_parse_error (''update ['' @ k @ ''] must be a JSON object''))
      | None \<Rightarrow> Inr None)"

definition bool_field :: "string \<Rightarrow> json option \<Rightarrow> bool store_result" where
  "bool_field k v =
     (case v of
        Some (JBool b) \<Rightarrow> Inr b
      | Some _ \<Rightarrow> Inl (update_parse_error (''update ['' @ k @ ''] must be a boolean''))
      | None \<Rightarrow> Inr False)"

definition parse_update_body :: "json \<Rightarrow> ParsedUpdateBody store_result" where
  "parse_update_body body =
     and_then (ok_or (update_parse_error ''update body must be a JSON object'') (as_object body)) (\<lambda>object.
       case find (\<lambda>k. k \<notin> set update_keys) (bt_keys object) of
         Some key \<Rightarrow> Inl (update_parse_error (''unknown update body field ['' @ key @ '']''))
       | None \<Rightarrow>
           if bt_has object ''script'' then
             Inl (StoreError_new 501 ''mainstack_search_unsupported_api_exception''
               ''mainstack-search does not implement [update.script] yet'')
           else
             and_then (ok_or (update_parse_error ''update body must include a [doc] object'') (bt_get object ''doc'')) (\<lambda>doc.
             and_then (object_field ''doc'' (Some doc)) (\<lambda>_.
             and_then (object_field ''upsert'' (bt_get object ''upsert'')) (\<lambda>upsert.
             and_then (bool_field ''doc_as_upsert'' (bt_get object ''doc_as_upsert'')) (\<lambda>doc_as_upsert.
             and_then (bool_field ''detect_noop'' (bt_get object ''detect_noop'')) (\<lambda>_.
               Inr \<lparr>up_doc = doc, up_doc_as_upsert = doc_as_upsert, up_upsert = upsert,
                    up_source_filter = bt_get object ''_source''\<rparr>))))))"

subsection \<open>Documents\<close>

definition put_doc ::
    "Setup \<Rightarrow> Env \<Rightarrow> json_parse \<Rightarrow> Request \<Rightarrow> string \<Rightarrow> string \<Rightarrow> Store \<Rightarrow> Store \<times> Response" where
  "put_doc su env parse request index did s =
     (let created = (get_document s index did = None)
      in with_body parse request s (\<lambda>source.
           reply (\<lambda>d. doc_write_response index did d (if created then 201 else 200) (if created then ''created'' else ''updated''))
             (index_document su env index did source s)))"

definition create_doc ::
    "Setup \<Rightarrow> Env \<Rightarrow> json_parse \<Rightarrow> Request \<Rightarrow> string \<Rightarrow> string \<Rightarrow> Store \<Rightarrow> Store \<times> Response" where
  "create_doc su env parse request index did s =
     with_body parse request s (\<lambda>source.
       reply (\<lambda>d. doc_write_response index did d 201 ''created'') (create_document su env index did source s))"

definition get_doc :: "Store \<Rightarrow> string \<Rightarrow> string \<Rightarrow> Response" where
  "get_doc s index did =
     (if resolve_index (st_db s) index = None then store_error (no_such_index index)
      else case get_document s index did of
        Some d \<Rightarrow>
          json_response 200 (jobject ([(''_index'', JStr index), (''_id'', JStr did)] @ doc_fields d
            @ [(''found'', JBool True), (''_source'', doc_source d)]))
      | None \<Rightarrow>
          json_response 404 (jobject [(''_index'', JStr index), (''_id'', JStr did), (''found'', JBool False)]))"

definition head_doc :: "Store \<Rightarrow> string \<Rightarrow> string \<Rightarrow> Response" where
  "head_doc s index did =
     exists_response (resolve_index (st_db s) index \<noteq> None \<and> get_document s index did \<noteq> None)"

definition delete_doc :: "Setup \<Rightarrow> Env \<Rightarrow> string \<Rightarrow> string \<Rightarrow> Store \<Rightarrow> Store \<times> Response" where
  "delete_doc su env index did s =
     (let deleted_version = map_option (\<lambda>d. sat_add (doc_version d) 1) (get_document s index did)
      in reply (\<lambda>found. json_response (if found then 200 else 404) (jobject
             ([(''_index'', JStr index), (''_id'', JStr did),
               (''result'', JStr (if found then ''deleted'' else ''not_found'')), (''_shards'', one_shard)]
              @ (case deleted_version of
                   Some v \<Rightarrow> if found then [(''_version'', jnat v)] else []
                 | None \<Rightarrow> []))))
           (delete_document su env index did s))"

definition update_response :: "string \<Rightarrow> string \<Rightarrow> json option \<Rightarrow> StoredDocument \<Rightarrow> Response" where
  "update_response index did source_filter d =
     (let result = (if doc_version d = 1 then ''created'' else ''updated'')
      in json_response (if result = ''created'' then 201 else 200) (jobject
           (doc_write_body index did d result
            @ (case source_filter of
                 Some f \<Rightarrow>
                   if f \<noteq> JBool False then [(''get'', jobject [(''_source'', filter_source (doc_source d) (Some f))])] else []
               | None \<Rightarrow> []))))"

definition update_doc ::
    "Setup \<Rightarrow> Env \<Rightarrow> json_parse \<Rightarrow> Request \<Rightarrow> string \<Rightarrow> string \<Rightarrow> Store \<Rightarrow> Store \<times> Response" where
  "update_doc su env parse request index did s =
     with_body parse request s (\<lambda>body.
       case parse_update_body body of
         Inl e \<Rightarrow> (s, if se_status e = 501 then unsupported ''update.script'' else store_error e)
       | Inr update \<Rightarrow>
           reply (update_response index did (or_else (source_filter_from_query (rq_query request)) (up_source_filter update)))
             (update_document su env index did (up_doc update) (up_doc_as_upsert update) (up_upsert update) s))"

definition handle_document ::
    "Setup \<Rightarrow> Env \<Rightarrow> nat \<Rightarrow> json_parse \<Rightarrow> Request \<Rightarrow> string list \<Rightarrow> Store \<Rightarrow> Store \<times> Response" where
  "handle_document su env nanos parse request parts s =
     (let index = parts ! 0; action = parts ! 1; meth = rq_method request; n = length parts;
          did = map_option decode_path_param (seg_at 2 parts)
      in if \<not> (if action = ''_doc'' then (n = 2 \<and> meth = POST) \<or> n = 3
              else (action = ''_create'' \<or> action = ''_update'') \<and> n = 3)
         then (s, unsupported ''document'')
         else if action = ''_doc'' then
           (case meth of
              PUT \<Rightarrow> put_doc su env parse request index (case did of Some d \<Rightarrow> d | None \<Rightarrow> generated_id nanos) s
            | POST \<Rightarrow> put_doc su env parse request index (case did of Some d \<Rightarrow> d | None \<Rightarrow> generated_id nanos) s
            | GET \<Rightarrow> (s, case did of None \<Rightarrow> parse_error ''document id is required'' | Some d \<Rightarrow> get_doc s index d)
            | HEAD \<Rightarrow> (s, case did of None \<Rightarrow> empty_response 400 | Some d \<Rightarrow> head_doc s index d)
            | DELETE \<Rightarrow>
                (case did of
                   None \<Rightarrow> (s, parse_error ''document id is required'')
                 | Some d \<Rightarrow> delete_doc su env index d s)
            | _ \<Rightarrow> (s, unsupported ''document''))
         else if action = ''_create'' \<and> (meth = PUT \<or> meth = POST) then
           (case did of
              None \<Rightarrow> (s, parse_error ''_create requires an explicit document id'')
            | Some d \<Rightarrow> create_doc su env parse request index d s)
         else if action = ''_update'' \<and> meth = POST then
           (case did of
              None \<Rightarrow> (s, parse_error ''document id is required'')
            | Some d \<Rightarrow> update_doc su env parse request index d s)
         else (s, unsupported ''document''))"

subsection \<open>Sources\<close>

datatype SourceLookup = MissingIndex | MissingSource | FoundSource json

definition source_disabled :: "json \<Rightarrow> bool" where
  "source_disabled mappings \<longleftrightarrow>
     Option.bind (Option.bind (jget mappings ''_source'') (\<lambda>v. jget v ''enabled'')) as_bool = Some False"

definition lookup_source :: "Database \<Rightarrow> string \<Rightarrow> string \<Rightarrow> SourceLookup" where
  "lookup_source db index did =
     (case Option.bind (resolve_index db index) (bt_get (db_indexes db)) of
        None \<Rightarrow> MissingIndex
      | Some im \<Rightarrow>
          if source_disabled (im_mappings im) then MissingSource
          else case bt_get (im_documents im) did of Some d \<Rightarrow> FoundSource (doc_source d) | None \<Rightarrow> MissingSource)"

definition handle_source :: "Request \<Rightarrow> string \<Rightarrow> string \<Rightarrow> Store \<Rightarrow> Response" where
  "handle_source request index did s =
     (let head = (rq_method request = HEAD)
      in case lookup_source (st_db s) index did of
           MissingIndex \<Rightarrow> if head then empty_response 404 else store_error (no_such_index index)
         | MissingSource \<Rightarrow> if head then empty_response 404 else store_error (document_missing did)
         | FoundSource source \<Rightarrow>
             if head then empty_response 200
             else json_response 200 (filter_source source (source_filter_from_query (rq_query request))))"

subsection \<open>Several documents\<close>

record MgetItem =
  mg_index :: "string option"
  mg_id :: string
  mg_source_filter :: "json option"

definition mget_items :: "TextOps \<Rightarrow> json \<Rightarrow> string option \<Rightarrow> json option \<Rightarrow> MgetItem list" where
  "mget_items tx body path_index query_source_filter =
     (let shared = or_else (jget body ''_source'') query_source_filter
      in case Option.bind (jget body ''ids'') as_array of
           Some ids \<Rightarrow>
             map (\<lambda>did. \<lparr>mg_index = path_index, mg_id = did, mg_source_filter = shared\<rparr>)
               (List.map_filter (json_scalar_string tx) ids)
         | None \<Rightarrow>
             (case Option.bind (jget body ''docs'') as_array of
                None \<Rightarrow> []
              | Some docs \<Rightarrow>
                  List.map_filter (\<lambda>d. map_option
                    (\<lambda>did. \<lparr>mg_index = or_else (Option.bind (jget d ''_index'') as_str) path_index, mg_id = did,
                            mg_source_filter = or_else (jget d ''_source'') shared\<rparr>)
                    (Option.bind (jget d ''_id'') (json_scalar_string tx))) docs))"

definition mget_doc_response :: "Database \<Rightarrow> MgetItem \<Rightarrow> json" where
  "mget_doc_response db item =
     (case mg_index item of
        None \<Rightarrow>
          jobject [(''_id'', JStr (mg_id item)), (''found'', JBool False),
            (''error'', jobject [(''type'', JStr ''index_missing_exception''),
              (''reason'', JStr ''_mget item requires _index or a path index'')])]
      | Some index \<Rightarrow>
          (case resolve_index db index of
             None \<Rightarrow> jobject [(''_index'', JStr index), (''_id'', JStr (mg_id item)), (''found'', JBool False)]
           | Some name \<Rightarrow>
               (case stored_document db name (mg_id item) of
                  Some d \<Rightarrow>
                    jobject ([(''_index'', JStr name), (''_id'', JStr (mg_id item))] @ doc_fields d
                      @ [(''found'', JBool True)]
                      @ (if mg_source_filter item \<noteq> Some (JBool False)
                         then [(''_source'', filter_source (doc_source d) (mg_source_filter item))] else []))
                | None \<Rightarrow>
                    jobject [(''_index'', JStr name), (''_id'', JStr (mg_id item)), (''found'', JBool False)])))"

end
