(* ===== verification/Snapshots.thy ===== *)
theory Snapshots
  imports DocumentHandlers "HOL-Library.Word"
begin

section \<open>Snapshot repositories\<close>

text \<open>
  \<open>src/snapshots/service.rs\<close>: repositories under the directory \<open>repositories\<close> of the data directory. A
  repository is a directory with a file per generation of its catalog, the file \<open>index.latest\<close> that names the
  current generation, and a directory \<open>blobs\<close> with a file per snapshotted database. The encoders of the catalog
  and of a database are parameters, and so are the clock and what happens to each access to the disk.
\<close>

unbundle bit_operations_syntax

subsection \<open>Catalogs\<close>

record RepositoryDefinition =
  rd_name :: string
  rd_type :: string
  rd_settings :: json
  rd_created_at_unix_millis :: nat

record SnapshotManifest =
  sn_name :: string
  sn_uuid :: string
  sn_state :: string
  sn_indices :: "string list"
  sn_database_blob :: string
  sn_started_at_unix_millis :: nat
  sn_completed_at_unix_millis :: nat
  sn_index_count :: nat
  sn_document_count :: nat
  sn_total_shards :: nat
  sn_successful_shards :: nat
  sn_failed_shards :: nat
  sn_failures :: "json list"

record RepositoryData =
  rp_version :: nat
  rp_generation :: nat
  rp_repository :: RepositoryDefinition
  rp_snapshots :: "(string, SnapshotManifest) btree"

record RepositoryCodec =
  rc_enc :: "RepositoryData \<Rightarrow> string option"
  rc_dec :: "string \<Rightarrow> RepositoryData option"
  rc_database :: "Database \<Rightarrow> string option"

subsection \<open>Files\<close>

record RepositoryDir =
  dir_latest :: "string option"
  dir_generations :: "(string, string) btree"
  dir_blobs :: "(string, string) btree option"

type_synonym Repositories = "(string, RepositoryDir) btree"

text \<open>
  \<open>re_write n\<close> is what happens to the \<open>n\<close>th write, \<open>re_unreadable\<close> says which file of which repository cannot
  be read, \<open>re_temporary\<close> is what an unfinished write leaves in its temporary file, and \<open>re_torn\<close> what an
  unfinished removal leaves of a directory.
\<close>

record RepositoryEnv =
  re_now_millis :: nat
  re_write :: "nat \<Rightarrow> write_outcome"
  re_unreadable :: "string \<Rightarrow> string \<Rightarrow> bool"
  re_temporary :: "string option"
  re_torn :: "RepositoryDir \<Rightarrow> RepositoryDir"

definition empty_dir :: RepositoryDir where
  "empty_dir = \<lparr>dir_latest = None, dir_generations = [], dir_blobs = None\<rparr>"

definition index_latest :: string where
  "index_latest = ''index.latest''"

definition generation_file_name :: "nat \<Rightarrow> string" where
  "generation_file_name generation = ''index-'' @ pad_nat 6 generation @ ''.json''"

definition fnv1a64 :: "string \<Rightarrow> 64 word" where
  "fnv1a64 bytes = fold (\<lambda>byte hash. (hash XOR of_char byte) * 0x100000001b3) bytes 0xcbf29ce484222325"

definition hex16 :: "64 word \<Rightarrow> string" where
  "hex16 w = (let digits = show_hex (unat w) in replicate (16 - length digits) (CHR ''0'') @ digits)"

subsection \<open>Errors\<close>

definition invalid_repository :: "string \<Rightarrow> StoreError" where
  "invalid_repository reason = StoreError_new 400 ''repository_exception'' reason"

definition invalid_snapshot_name :: "string \<Rightarrow> StoreError" where
  "invalid_snapshot_name raw =
     StoreError_new 400 ''invalid_snapshot_name_exception'' (''invalid snapshot name ['' @ raw @ '']'')"

definition repository_missing :: "string \<Rightarrow> StoreError" where
  "repository_missing repository =
     not_found ''repository_missing_exception'' (''repository ['' @ repository @ ''] missing'')"

definition snapshot_missing :: "string \<Rightarrow> string \<Rightarrow> StoreError" where
  "snapshot_missing repository snapshot =
     not_found ''snapshot_missing_exception''
       (if repository = [] then ''snapshot ['' @ snapshot @ ''] missing''
        else ''snapshot ['' @ snapshot @ ''] missing in repository ['' @ repository @ '']'')"

definition repository_io_error :: StoreError where
  "repository_io_error = StoreError_new 500 ''repository_exception'' ''repository filesystem operation failed''"

definition corrupt :: "string \<Rightarrow> string \<Rightarrow> StoreError" where
  "corrupt repository what =
     StoreError_new 500 ''repository_exception'' (''repository ['' @ repository @ ''] has corrupt '' @ what)"

subsection \<open>Names\<close>

definition all_names :: "string list" where
  "all_names = [''_all'', ''*'', ''all'']"

datatype NameKind = RepositoryName | SnapshotName

definition name_char :: "char \<Rightarrow> bool" where
  "name_char c \<longleftrightarrow>
     (let n = (of_char c :: nat)
      in 48 \<le> n \<and> n \<le> 57 \<or> 65 \<le> n \<and> n \<le> 90 \<or> 97 \<le> n \<and> n \<le> 122
         \<or> c = CHR ''_'' \<or> c = CHR ''-'' \<or> c = CHR ''.'')"

definition invalid_name :: "NameKind \<Rightarrow> string \<Rightarrow> StoreError" where
  "invalid_name kind raw =
     (case kind of
        RepositoryName \<Rightarrow> invalid_repository (''invalid repository name ['' @ raw @ '']'')
      | SnapshotName \<Rightarrow> invalid_snapshot_name raw)"

definition validate_name :: "string \<Rightarrow> NameKind \<Rightarrow> string store_result" where
  "validate_name raw kind =
     (let name = trim raw
      in if name = [] \<or> name \<in> {''.'', ''..''} \<or> name \<in> {''_all'', ''all''}
            \<or> (kind = SnapshotName \<and> starts_with name ''_'')
            \<or> CHR ''/'' \<in> set name \<or> CHR 0x5C \<in> set name \<or> CHR '','' \<in> set name \<or> CHR ''*'' \<in> set name
            \<or> \<not> list_all name_char name
         then Inl (invalid_name kind raw)
         else Inr name)"

definition missing_name :: "NameKind \<Rightarrow> string \<Rightarrow> StoreError" where
  "missing_name kind name =
     (case kind of RepositoryName \<Rightarrow> repository_missing name | SnapshotName \<Rightarrow> snapshot_missing [] name)"

definition requested_names :: "string \<Rightarrow> string list" where
  "requested_names raw = filter (\<lambda>name. name \<noteq> []) (map trim (split_on (CHR '','') raw))"

definition known_names :: "string list \<Rightarrow> string list \<Rightarrow> NameKind \<Rightarrow> string list store_result" where
  "known_names requested available kind =
     and_then (fold_res (\<lambda>names raw. and_then (validate_name raw kind) (\<lambda>name.
                 if name \<in> set available then Inr (names @ [name]) else Inl (missing_name kind name)))
               [] requested)
       (\<lambda>names. Inr (bs_of_list names))"

definition expand_names :: "string \<Rightarrow> string list \<Rightarrow> NameKind \<Rightarrow> string list store_result" where
  "expand_names raw available kind =
     (let requested = requested_names raw
      in if requested = [] \<or> list_ex (\<lambda>name. name \<in> set all_names) requested then Inr available
         else known_names requested available kind)"

definition exact_names :: "string \<Rightarrow> string list \<Rightarrow> NameKind \<Rightarrow> string list store_result" where
  "exact_names raw available kind =
     (let requested = requested_names raw
      in if requested = [] then Inl (invalid_name kind raw) else known_names requested available kind)"

subsection \<open>Settings of a repository\<close>

definition repository_type :: "json \<Rightarrow> string store_result" where
  "repository_type body =
     (case jget body ''type'' of
        None \<Rightarrow> Inr ''fs''
      | Some raw \<Rightarrow>
          (case as_str raw of
             None \<Rightarrow> Inl (invalid_repository ''repository type must be a string'')
           | Some s \<Rightarrow>
               (let s = trim s
                in if s = [] then Inl (invalid_repository ''repository type must not be empty'')
                   else if s \<notin> {''fs'', ''mainstack_search''} then
                     Inl (invalid_repository (''repository type ['' @ s @ ''] is not supported by mainstack-search''))
                   else Inr s)))"

definition validate_repository_settings :: "json \<Rightarrow> unit store_result" where
  "validate_repository_settings settings =
     (case jget settings ''location'' of
        None \<Rightarrow> Inr ()
      | Some v \<Rightarrow>
          (case as_str v of
             None \<Rightarrow> Inl (invalid_repository ''repository settings.location must be a string'')
           | Some location \<Rightarrow>
               if trim location = [] \<or> starts_with location ''/'' \<or> CHR 0x5C \<in> set location
                  \<or> list_ex (\<lambda>part. part \<in> {[], ''.'', ''..''}) (split_on (CHR ''/'') location)
               then Inl (invalid_repository
                      (''repository settings.location ['' @ location @ ''] must be a safe relative path''))
               else Inr ()))"

subsection \<open>What a snapshot holds\<close>

definition snapshot_wildcard_matches :: "string \<Rightarrow> string \<Rightarrow> bool" where
  "snapshot_wildcard_matches pattern val =
     (if pattern = ''*'' then True
      else case split_once (CHR ''*'') pattern of
        Some (beginning, ending) \<Rightarrow> starts_with val beginning \<and> ends_with val ending
      | None \<Rightarrow> pattern = val)"

definition indices_option :: "json \<Rightarrow> string list store_result" where
  "indices_option body =
     (case jget body ''indices'' of
        Some (JStr s) \<Rightarrow> Inr (requested_names s)
      | Some (JArr values) \<Rightarrow> Inr (List.map_filter as_str values)
      | Some _ \<Rightarrow> Inl (StoreError_new 400 ''parse_exception'' ''snapshot indices must be a string or array of strings'')
      | None \<Rightarrow> Inr [''_all''])"

definition select_index :: "Database \<Rightarrow> string list \<Rightarrow> string \<Rightarrow> string list store_result" where
  "select_index db names requested =
     (if requested \<in> set all_names then Inr (names @ bt_keys (db_indexes db))
      else if CHR ''*'' \<in> set requested then
        Inr (names @ filter (snapshot_wildcard_matches requested) (bt_keys (db_indexes db)))
      else if bt_has (db_indexes db) requested then Inr (names @ [requested])
      else Inl (no_such_index requested))"

definition selected_indices :: "Database \<Rightarrow> json \<Rightarrow> string list store_result" where
  "selected_indices db body =
     and_then (indices_option body) (\<lambda>raw.
     and_then (fold_res (select_index db) [] raw) (\<lambda>names. Inr (bs_of_list names)))"

definition database_subset :: "Database \<Rightarrow> string list \<Rightarrow> Database" where
  "database_subset db indices =
     (let kept = filter (\<lambda>(name, _). name \<in> set indices) (db_indexes db)
      in db\<lparr>db_indexes := kept, db_aliases := filter (\<lambda>(_, a). bt_has kept (am_index a)) (db_aliases db)\<rparr>)"

definition snapshot_index_shards :: "IndexMetadata \<Rightarrow> nat" where
  "snapshot_index_shards im =
     (case Option.bind (Option.bind (jget (im_settings im) ''index'') (\<lambda>v. jget v ''number_of_shards'')) as_u64 of
        Some n \<Rightarrow> n
      | None \<Rightarrow> 1)"

definition snapshot_shards :: "Database \<Rightarrow> nat" where
  "snapshot_shards db = sum_list (map snapshot_index_shards (bt_values (db_indexes db))) mod 2 ^ 64"

definition manifest_body :: "string \<Rightarrow> SnapshotManifest \<Rightarrow> json" where
  "manifest_body repository m =
     jobject [(''snapshot'', JStr (sn_name m)), (''repository'', JStr repository), (''uuid'', JStr (sn_uuid m)),
       (''state'', JStr (sn_state m)), (''include_global_state'', JBool False),
       (''indices'', JArr (map JStr (sn_indices m))),
       (''start_time_in_millis'', jnat (sn_started_at_unix_millis m)),
       (''end_time_in_millis'', jnat (sn_completed_at_unix_millis m)),
       (''duration_in_millis'', jnat (sn_completed_at_unix_millis m - sn_started_at_unix_millis m)),
       (''failures'', JArr (sn_failures m)),
       (''shards'', jobject [(''total'', jnat (sn_total_shards m)), (''failed'', jnat (sn_failed_shards m)),
          (''successful'', jnat (sn_successful_shards m))])]"

end
