(* ===== verification/SnapshotService.thy ===== *)
theory SnapshotService
  imports Snapshots
begin

section \<open>Operations on snapshot repositories\<close>

text \<open>
  The methods of \<open>SnapshotService\<close>. Each takes the repositories on disk and gives them as they are when it
  returns, an error included: what was written before a failure stays. The lock of the catalog makes them
  sequential.
\<close>

subsection \<open>Reading and writing a catalog\<close>

definition repository_names :: "Repositories \<Rightarrow> string list" where
  "repository_names repos = bt_keys repos"

definition get_dir :: "Repositories \<Rightarrow> string \<Rightarrow> RepositoryDir" where
  "get_dir repos name = (case bt_get repos name of Some d \<Rightarrow> d | None \<Rightarrow> empty_dir)"

definition read_generation ::
    "RepositoryCodec \<Rightarrow> RepositoryEnv \<Rightarrow> string \<Rightarrow> RepositoryDir \<Rightarrow> nat \<Rightarrow> RepositoryData store_result" where
  "read_generation rc env name d generation =
     (let file = generation_file_name generation
      in case (if re_unreadable env name file then None else bt_get (dir_generations d) file) of
           None \<Rightarrow> Inl repository_io_error
         | Some contents \<Rightarrow> ok_or (corrupt name (''generation ['' @ file @ '']'')) (rc_dec rc contents))"

definition read_latest_optional ::
    "RepositoryCodec \<Rightarrow> RepositoryEnv \<Rightarrow> string \<Rightarrow> RepositoryDir \<Rightarrow> RepositoryData option store_result" where
  "read_latest_optional rc env name d =
     (case dir_latest d of
        None \<Rightarrow> Inr None
      | Some raw \<Rightarrow>
          if re_unreadable env name index_latest \<or> \<not> utf8_valid raw then Inl repository_io_error
          else case parse_u64 (trim raw) of
            None \<Rightarrow> Inl (corrupt name index_latest)
          | Some generation \<Rightarrow> and_then (read_generation rc env name d generation) (\<lambda>data. Inr (Some data)))"

definition read_latest ::
    "RepositoryCodec \<Rightarrow> RepositoryEnv \<Rightarrow> Repositories \<Rightarrow> string \<Rightarrow> RepositoryData store_result" where
  "read_latest rc env repos name =
     and_then (read_latest_optional rc env name (get_dir repos name)) (ok_or (repository_missing name))"

text \<open>\<open>create_dir_all\<close>: the directory is there afterwards unless it could not be made.\<close>

definition make_dir :: "write_outcome \<Rightarrow> string \<Rightarrow> Repositories \<Rightarrow> Repositories \<times> unit io_result" where
  "make_dir io name repos = atomically io repos (bt_insert name (get_dir repos name) repos)"

definition on_dir :: "string \<Rightarrow> (RepositoryDir \<Rightarrow> RepositoryDir) \<Rightarrow> Repositories \<Rightarrow> Repositories" where
  "on_dir name f repos = bt_insert name (f (get_dir repos name)) repos"

definition write_generation_file :: "write_outcome \<Rightarrow> string \<Rightarrow> nat \<Rightarrow> string \<Rightarrow> Repositories \<Rightarrow> Repositories \<times> unit io_result" where
  "write_generation_file io name generation bytes repos =
     atomically io repos
       (on_dir name (\<lambda>d. d\<lparr>dir_generations := bt_insert (generation_file_name generation) bytes (dir_generations d)\<rparr>) repos)"

definition write_latest :: "write_outcome \<Rightarrow> string \<Rightarrow> nat \<Rightarrow> Repositories \<Rightarrow> Repositories \<times> unit io_result" where
  "write_latest io name generation repos =
     atomically io repos (on_dir name (\<lambda>d. d\<lparr>dir_latest := Some (show_nat generation @ [CHR 0x0A])\<rparr>) repos)"

text \<open>\<open>f().map_err(io_error)?; g()\<close>.\<close>

definition then_do :: "'s \<times> unit io_result \<Rightarrow> ('s \<Rightarrow> 's \<times> 'a store_result) \<Rightarrow> 's \<times> 'a store_result" where
  "then_do step rest = (case step of (s, Inl _) \<Rightarrow> (s, Inl repository_io_error) | (s, Inr _) \<Rightarrow> rest s)"

definition write_next_generation ::
    "RepositoryCodec \<Rightarrow> RepositoryEnv \<Rightarrow> nat \<Rightarrow> string \<Rightarrow> RepositoryData \<Rightarrow> Repositories \<Rightarrow> Repositories \<times> unit store_result" where
  "write_next_generation rc env n name data repos =
     (let data = data\<lparr>rp_generation := u64_succ (rp_generation data)\<rparr>
      in then_do (make_dir (re_write env n) name repos) (\<lambda>repos.
         case rc_enc rc data of
           None \<Rightarrow> (repos, Inl (StoreError_new 500 ''repository_exception''
                     (''failed to serialize repository ['' @ name @ '']'')))
         | Some bytes \<Rightarrow>
             then_do (write_generation_file (re_write env (n + 1)) name (rp_generation data) bytes repos) (\<lambda>repos.
             then_do (write_latest (re_write env (n + 2)) name (rp_generation data) repos) (\<lambda>repos. (repos, Inr ())))))"

subsection \<open>Repositories\<close>

definition ensure_persistent :: "bool \<Rightarrow> unit store_result" where
  "ensure_persistent ephemeral =
     (if ephemeral then Inl (StoreError_new 501 ''mainstack_search_unsupported_api_exception''
        ''snapshot repositories are unavailable in --ephemeral mode'')
      else Inr ())"

definition repository_acknowledged :: "'s \<times> unit store_result \<Rightarrow> 's \<times> json store_result" where
  "repository_acknowledged sr = (fst sr, and_then (snd sr) (\<lambda>_. Inr (jobject [(''acknowledged'', JBool True)])))"

definition put_repository_request :: "bool \<Rightarrow> string \<Rightarrow> json \<Rightarrow> (string \<times> string \<times> json) store_result" where
  "put_repository_request ephemeral raw body =
     and_then (ensure_persistent ephemeral) (\<lambda>_.
     and_then (validate_name raw RepositoryName) (\<lambda>name.
     and_then (repository_type body) (\<lambda>ty.
     (let settings = jget_or_object body ''settings''
      in if \<not> is_object settings then Inl (invalid_repository ''repository settings must be an object'')
         else and_then (validate_repository_settings settings) (\<lambda>_. Inr (name, ty, settings))))))"

definition new_repository :: "nat \<Rightarrow> string \<Rightarrow> string \<Rightarrow> json \<Rightarrow> RepositoryData" where
  "new_repository now name ty settings =
     \<lparr>rp_version = 1, rp_generation = 0,
      rp_repository = \<lparr>rd_name = name, rd_type = ty, rd_settings = settings, rd_created_at_unix_millis = now\<rparr>,
      rp_snapshots = []\<rparr>"

definition put_repository ::
    "RepositoryCodec \<Rightarrow> RepositoryEnv \<Rightarrow> bool \<Rightarrow> string \<Rightarrow> json \<Rightarrow> Repositories \<Rightarrow> Repositories \<times> json store_result" where
  "put_repository rc env ephemeral raw body repos =
     (case put_repository_request ephemeral raw body of
        Inl e \<Rightarrow> (repos, Inl e)
      | Inr (name, ty, settings) \<Rightarrow>
          (case read_latest_optional rc env name (get_dir repos name) of
             Inl e \<Rightarrow> (repos, Inl e)
           | Inr found \<Rightarrow>
               (let data = (case found of Some data \<Rightarrow> data
                            | None \<Rightarrow> new_repository (re_now_millis env) name ty settings);
                    data = data\<lparr>rp_repository := (rp_repository data)\<lparr>rd_type := ty, rd_settings := settings\<rparr>\<rparr>
                in repository_acknowledged (write_next_generation rc env 0 name data repos))))"

definition repository_body :: "RepositoryData \<Rightarrow> json" where
  "repository_body data =
     jobject [(''type'', JStr (rd_type (rp_repository data))), (''settings'', rd_settings (rp_repository data))]"

definition get_repositories ::
    "RepositoryCodec \<Rightarrow> RepositoryEnv \<Rightarrow> bool \<Rightarrow> string option \<Rightarrow> Repositories \<Rightarrow> json store_result" where
  "get_repositories rc env ephemeral names repos =
     and_then (ensure_persistent ephemeral) (\<lambda>_.
     and_then (case names of
                 Some raw \<Rightarrow> expand_names raw (repository_names repos) RepositoryName
               | None \<Rightarrow> Inr (repository_names repos)) (\<lambda>names.
     and_then (fold_res (\<lambda>output name. and_then (read_latest rc env repos name) (\<lambda>data.
                 Inr (bt_insert name (repository_body data) output))) [] names)
       (\<lambda>output. Inr (JObj output))))"

fun delete_directories :: "RepositoryEnv \<Rightarrow> nat \<Rightarrow> string list \<Rightarrow> Repositories \<Rightarrow> Repositories \<times> unit store_result" where
  "delete_directories env n [] repos = (repos, Inr ())"
| "delete_directories env n (name # names) repos =
     (if \<not> bt_has repos name then (repos, Inl (repository_missing name))
      else case re_write env n of
        FailedBefore \<Rightarrow> (on_dir name (re_torn env) repos, Inl repository_io_error)
      | FailedAfter \<Rightarrow> (bt_remove name repos, Inl repository_io_error)
      | Written \<Rightarrow> delete_directories env (n + 1) names (bt_remove name repos))"

definition delete_repository ::
    "RepositoryEnv \<Rightarrow> bool \<Rightarrow> string \<Rightarrow> Repositories \<Rightarrow> Repositories \<times> json store_result" where
  "delete_repository env ephemeral raw repos =
     (case and_then (ensure_persistent ephemeral) (\<lambda>_. exact_names raw (repository_names repos) RepositoryName) of
        Inl e \<Rightarrow> (repos, Inl e)
      | Inr names \<Rightarrow> repository_acknowledged (delete_directories env 0 names repos))"

definition verify_repository ::
    "RepositoryCodec \<Rightarrow> RepositoryEnv \<Rightarrow> bool \<Rightarrow> string \<Rightarrow> Repositories \<Rightarrow> json store_result" where
  "verify_repository rc env ephemeral raw repos =
     and_then (ensure_persistent ephemeral) (\<lambda>_.
     and_then (validate_name raw RepositoryName) (\<lambda>name.
     and_then (read_latest rc env repos name) (\<lambda>_.
     Inr (jobject [(''nodes'', jobject [(''mainstack-search-local'',
       jobject [(''name'', JStr ''mainstack-search-local'')])])]))))"

text \<open>The loop of \<open>cleanup_repository\<close> over the files of \<open>blobs\<close>, with the bytes and the files deleted, and the call
  after it that syncs the directory, which may fail as well.\<close>

fun remove_unreferenced ::
    "RepositoryEnv \<Rightarrow> string list \<Rightarrow> nat \<Rightarrow> (string \<times> string) list \<Rightarrow> (string, string) btree \<Rightarrow> nat \<times> nat
      \<Rightarrow> (string, string) btree \<times> (nat \<times> nat) io_result" where
  "remove_unreferenced env referenced n [] blobs counts =
     (blobs, if re_write env n = Written then Inr counts else Inl IoFailure)"
| "remove_unreferenced env referenced n ((file, bytes) # entries) blobs counts =
     (if file \<in> set referenced then remove_unreferenced env referenced n entries blobs counts
      else case re_write env n of
        FailedBefore \<Rightarrow> (blobs, Inl IoFailure)
      | FailedAfter \<Rightarrow> (bt_remove file blobs, Inl IoFailure)
      | Written \<Rightarrow> remove_unreferenced env referenced (n + 1) entries (bt_remove file blobs)
                    (fst counts + length bytes, snd counts + 1))"

definition referenced_blobs :: "RepositoryData \<Rightarrow> string list" where
  "referenced_blobs data = bs_of_list (map sn_database_blob (bt_values (rp_snapshots data)))"

definition cleanup_body :: "nat \<times> nat \<Rightarrow> json" where
  "cleanup_body counts =
     jobject [(''results'', jobject [(''deleted_bytes'', jnat (fst counts)), (''deleted_blobs'', jnat (snd counts))])]"

definition cleanup_repository ::
    "RepositoryCodec \<Rightarrow> RepositoryEnv \<Rightarrow> bool \<Rightarrow> string \<Rightarrow> Repositories \<Rightarrow> Repositories \<times> json store_result" where
  "cleanup_repository rc env ephemeral raw repos =
     (case and_then (ensure_persistent ephemeral) (\<lambda>_.
           and_then (validate_name raw RepositoryName) (\<lambda>name.
           and_then (read_latest rc env repos name) (\<lambda>data. Inr (name, data)))) of
        Inl e \<Rightarrow> (repos, Inl e)
      | Inr (name, data) \<Rightarrow>
          (case dir_blobs (get_dir repos name) of
             None \<Rightarrow> (repos, Inr (cleanup_body (0, 0)))
           | Some blobs \<Rightarrow>
               (case remove_unreferenced env (referenced_blobs data) 0 blobs blobs (0, 0) of
                  (blobs, r) \<Rightarrow>
                    (on_dir name (\<lambda>d. d\<lparr>dir_blobs := Some blobs\<rparr>) repos,
                     case r of Inl _ \<Rightarrow> Inl repository_io_error | Inr counts \<Rightarrow> Inr (cleanup_body counts)))))"

subsection \<open>Snapshots\<close>

definition blob_name_of :: "string \<Rightarrow> string" where
  "blob_name_of bytes = ''database-'' @ hex16 (fnv1a64 bytes) @ ''.json''"

definition blobs_of :: "RepositoryDir \<Rightarrow> (string, string) btree" where
  "blobs_of d = (case dir_blobs d of Some blobs \<Rightarrow> blobs | None \<Rightarrow> [])"

definition make_blobs_dir :: "write_outcome \<Rightarrow> string \<Rightarrow> Repositories \<Rightarrow> Repositories \<times> unit io_result" where
  "make_blobs_dir io name repos = atomically io repos (on_dir name (\<lambda>d. d\<lparr>dir_blobs := Some (blobs_of d)\<rparr>) repos)"

definition put_blob :: "string \<Rightarrow> string \<Rightarrow> string \<Rightarrow> Repositories \<Rightarrow> Repositories" where
  "put_blob name file bytes = on_dir name (\<lambda>d. d\<lparr>dir_blobs := Some (bt_insert file bytes (blobs_of d))\<rparr>)"

text \<open>
  The bytes go to the temporary file \<open>database-*.json.tmp\<close>, which is then renamed. A write that fails before the
  rename may leave it.
\<close>

definition temporary_of :: "string \<Rightarrow> string" where
  "temporary_of file = file @ ''.tmp''"

definition take_temporary :: "string \<Rightarrow> string \<Rightarrow> Repositories \<Rightarrow> Repositories" where
  "take_temporary name file = on_dir name (\<lambda>d. d\<lparr>dir_blobs := Some (bt_remove (temporary_of file) (blobs_of d))\<rparr>)"

definition write_blob ::
    "RepositoryEnv \<Rightarrow> write_outcome \<Rightarrow> string \<Rightarrow> string \<Rightarrow> string \<Rightarrow> Repositories \<Rightarrow> Repositories \<times> unit io_result" where
  "write_blob env io name file bytes repos =
     atomically io
       (case re_temporary env of
          Some part \<Rightarrow> put_blob name (temporary_of file) part repos
        | None \<Rightarrow> repos)
       (put_blob name file bytes (take_temporary name file repos))"

definition write_missing_blob ::
    "RepositoryEnv \<Rightarrow> write_outcome \<Rightarrow> string \<Rightarrow> string \<Rightarrow> string \<Rightarrow> Repositories \<Rightarrow> Repositories \<times> unit io_result" where
  "write_missing_blob env io name file bytes repos =
     (if bt_has (blobs_of (get_dir repos name)) file then (repos, Inr ())
      else write_blob env io name file bytes repos)"

definition snapshot_manifest ::
    "nat \<Rightarrow> string \<Rightarrow> string list \<Rightarrow> string \<Rightarrow> Database \<Rightarrow> SnapshotManifest" where
  "snapshot_manifest now snapshot indices blob db =
     \<lparr>sn_name = snapshot,
      sn_uuid = ''mainstack-search-'' @ show_nat now @ ''-'' @ hex16 (fnv1a64 snapshot),
      sn_state = ''SUCCESS'', sn_indices = indices, sn_database_blob = blob,
      sn_started_at_unix_millis = now, sn_completed_at_unix_millis = now,
      sn_index_count = length (db_indexes db), sn_document_count = document_count db,
      sn_total_shards = snapshot_shards db, sn_successful_shards = snapshot_shards db,
      sn_failed_shards = 0, sn_failures = []\<rparr>"

definition snapshot_exists :: "string \<Rightarrow> string \<Rightarrow> StoreError" where
  "snapshot_exists repository snapshot =
     StoreError_new 409 ''snapshot_already_exists_exception''
       (''snapshot ['' @ snapshot @ ''] already exists in repository ['' @ repository @ '']'')"

text \<open>What is decided before the lock is taken: names, indexes, the database and its bytes.\<close>

definition snapshot_request ::
    "RepositoryCodec \<Rightarrow> bool \<Rightarrow> string \<Rightarrow> string \<Rightarrow> Database \<Rightarrow> json
      \<Rightarrow> (string \<times> string \<times> string list \<times> string) store_result" where
  "snapshot_request rc ephemeral raw_repository raw_snapshot db body =
     and_then (ensure_persistent ephemeral) (\<lambda>_.
     and_then (validate_name raw_repository RepositoryName) (\<lambda>repository.
     and_then (validate_name raw_snapshot SnapshotName) (\<lambda>snapshot.
     and_then (selected_indices db body) (\<lambda>indices.
     and_then (ok_or (StoreError_new 500 ''snapshot_exception'' ''failed to serialize snapshot'')
                 (rc_database rc (database_subset db indices))) (\<lambda>bytes.
     Inr (repository, snapshot, indices, bytes))))))"

definition create_snapshot ::
    "RepositoryCodec \<Rightarrow> RepositoryEnv \<Rightarrow> bool \<Rightarrow> string \<Rightarrow> string \<Rightarrow> Database \<Rightarrow> json \<Rightarrow> Repositories
      \<Rightarrow> Repositories \<times> json store_result" where
  "create_snapshot rc env ephemeral raw_repository raw_snapshot db body repos =
     (case snapshot_request rc ephemeral raw_repository raw_snapshot db body of
        Inl e \<Rightarrow> (repos, Inl e)
      | Inr (repository, snapshot, indices, bytes) \<Rightarrow>
     (case read_latest rc env repos repository of
        Inl e \<Rightarrow> (repos, Inl e)
      | Inr data \<Rightarrow>
          if bt_has (rp_snapshots data) snapshot then (repos, Inl (snapshot_exists repository snapshot))
          else
            (let blob = blob_name_of bytes;
                 manifest = snapshot_manifest (re_now_millis env) snapshot indices blob (database_subset db indices)
             in then_do (make_blobs_dir (re_write env 0) repository repos) (\<lambda>repos.
                then_do (write_missing_blob env (re_write env 1) repository blob bytes repos) (\<lambda>repos.
                case write_next_generation rc env 2 repository
                       (data\<lparr>rp_snapshots := bt_insert snapshot manifest (rp_snapshots data)\<rparr>) repos of
                  (repos, Inl e) \<Rightarrow> (repos, Inl e)
                | (repos, Inr _) \<Rightarrow>
                    (repos, Inr (jobject [(''accepted'', JBool True), (''snapshot'', manifest_body repository manifest)])))))))"

definition get_snapshots ::
    "RepositoryCodec \<Rightarrow> RepositoryEnv \<Rightarrow> bool \<Rightarrow> string \<Rightarrow> string \<Rightarrow> Repositories \<Rightarrow> json store_result" where
  "get_snapshots rc env ephemeral raw names repos =
     and_then (ensure_persistent ephemeral) (\<lambda>_.
     and_then (validate_name raw RepositoryName) (\<lambda>repository.
     and_then (read_latest rc env repos repository) (\<lambda>data.
     and_then (expand_names names (bt_keys (rp_snapshots data)) SnapshotName) (\<lambda>names.
     and_then (fold_res (\<lambda>bodies name. and_then (ok_or (snapshot_missing repository name) (bt_get (rp_snapshots data) name))
                 (\<lambda>m. Inr (bodies @ [manifest_body repository m]))) [] names) (\<lambda>bodies.
     Inr (jobject [(''snapshots'', JArr bodies)]))))))"

definition delete_snapshot ::
    "RepositoryCodec \<Rightarrow> RepositoryEnv \<Rightarrow> bool \<Rightarrow> string \<Rightarrow> string \<Rightarrow> Repositories \<Rightarrow> Repositories \<times> json store_result" where
  "delete_snapshot rc env ephemeral raw names repos =
     (case and_then (ensure_persistent ephemeral) (\<lambda>_.
           and_then (validate_name raw RepositoryName) (\<lambda>repository.
           and_then (read_latest rc env repos repository) (\<lambda>data.
           and_then (exact_names names (bt_keys (rp_snapshots data)) SnapshotName) (\<lambda>names.
           and_then (fold_res (\<lambda>snapshots name. if bt_has snapshots name then Inr (bt_remove name snapshots)
                        else Inl (snapshot_missing repository name)) (rp_snapshots data) names) (\<lambda>snapshots.
           Inr (repository, data\<lparr>rp_snapshots := snapshots\<rparr>)))))) of
        Inl e \<Rightarrow> (repos, Inl e)
      | Inr (repository, data) \<Rightarrow> repository_acknowledged (write_next_generation rc env 0 repository data repos))"

end
