(* ===== verification/SnapshotSafety.thy ===== *)
theory SnapshotSafety
  imports SnapshotService
begin

section \<open>What repositories guarantee\<close>

text \<open>
  The catalog a directory holds, what makes a directory intact, and lemmas for each operation: what it leaves
  of the directory it works on, whichever of its writes fails.
\<close>

subsection \<open>Reading back the number of a generation\<close>

lemma digit_char_digit: "n < 10 \<Longrightarrow> is_digit (digit_char n)"
  by (simp add: is_digit_def digit_char_def)

lemma show_nat_digits: "list_all is_digit (show_nat n)"
proof (induction n rule: show_nat.induct)
  case (1 n)
  then show ?case by (subst show_nat.simps) (auto simp: digit_char_digit)
qed

lemma show_nat_not_Nil [simp]: "show_nat n \<noteq> []"
  by (subst show_nat.simps) auto

lemma white_space_no_digit: "list_all (list_all (\<lambda>c. \<not> is_digit c)) white_space"
  by code_simp

lemma strip_seqs_no_prefix:
  assumes "\<forall>w \<in> set ws. w \<noteq> [] \<longrightarrow> \<not> prefix w s"
  shows "strip_seqs ws s = s"
proof -
  from assms have "find (\<lambda>w. w \<noteq> [] \<and> prefix w s) ws = None" by (auto simp: find_None_iff)
  then show ?thesis by (subst strip_seqs.simps) simp
qed

lemma strip_seqs_digit:
  assumes "is_digit c" and "ws = white_space \<or> ws = map rev white_space"
  shows "strip_seqs ws (c # s) = c # s"
proof (rule strip_seqs_no_prefix, intro ballI impI notI)
  fix w assume w: "w \<in> set ws" "w \<noteq> []" "prefix w (c # s)"
  from w(2,3) have "c \<in> set w" by (auto simp: prefix_def Cons_eq_append_conv)
  moreover from w assms(2) have "w \<in> set white_space \<or> rev w \<in> set white_space" by (elim disjE) auto
  ultimately obtain v where "v \<in> set white_space" "c \<in> set v" by (metis set_rev)
  with white_space_no_digit assms(1) show False unfolding list_all_iff by blast
qed

lemma find_line_end: "find (\<lambda>w. w \<noteq> [] \<and> prefix w (CHR 0x0A # s)) (map rev white_space) = Some [CHR 0x0A]"
  by (simp add: white_space_def)

lemma strip_seqs_line: "is_digit c \<Longrightarrow> strip_seqs (map rev white_space) (CHR 0x0A # c # s) = c # s"
  by (subst strip_seqs.simps) (simp only: find_line_end option.case, simp add: strip_seqs_digit)

lemma trim_number_line: "trim (show_nat n @ [CHR 0x0A]) = show_nat n"
proof -
  from show_nat_digits [of n] have all: "\<forall>c \<in> set (show_nat n). is_digit c" by (simp add: list_all_iff)
  obtain a t where fwd: "show_nat n = a # t" by (cases "show_nat n") auto
  obtain b u where bwd: "rev (show_nat n) = b # u" by (cases "rev (show_nat n)") auto
  then have "b \<in> set (show_nat n)" by (metis list.set_intros(1) set_rev)
  with all fwd have dig: "is_digit a" "is_digit b" by auto
  have "strip_seqs white_space (show_nat n @ [CHR 0x0A]) = show_nat n @ [CHR 0x0A]"
    using dig(1) by (simp add: fwd strip_seqs_digit)
  then show ?thesis
    using dig(2) by (simp add: trim_def bwd strip_seqs_line) (metis bwd rev_rev_ident rev.simps(2))
qed

lemma digits_no_plus: "list_all is_digit s \<Longrightarrow> \<not> prefix ''+'' s"
  by (cases s) (auto simp: is_digit_def)

lemma parse_u64_show [simp]: "n \<le> usize_max \<Longrightarrow> parse_u64 (show_nat n) = Some n"
  using show_nat_digits [of n] digits_no_plus [OF show_nat_digits [of n]] by (simp add: parse_u64_def)

lemma utf8_digit: "is_digit c \<Longrightarrow> utf8_valid (c # s) = utf8_valid s"
  by (simp add: utf8_valid_def is_digit_def byte_in_def)

lemma utf8_number_line [simp]: "utf8_valid (show_nat n @ [CHR 0x0A])"
proof -
  have "list_all is_digit s \<Longrightarrow> utf8_valid s" for s
    by (induction s) (simp add: utf8_valid_def, simp add: utf8_digit)
  with show_nat_digits show ?thesis by simp
qed

subsection \<open>The catalog of a directory\<close>

definition catalog :: "RepositoryCodec \<Rightarrow> RepositoryDir \<Rightarrow> RepositoryData option" where
  "catalog rc d =
     (case dir_latest d of
        None \<Rightarrow> None
      | Some raw \<Rightarrow>
          if utf8_valid raw then
            Option.bind (parse_u64 (trim raw)) (\<lambda>g.
              Option.bind (bt_get (dir_generations d) (generation_file_name g)) (rc_dec rc))
          else None)"

lemma read_latest_optional_catalog:
  "read_latest_optional rc env name d = Inr (Some data) \<Longrightarrow> catalog rc d = Some data"
  "read_latest_optional rc env name d = Inr None \<Longrightarrow> dir_latest d = None"
  by (auto simp: read_latest_optional_def catalog_def read_generation_def result_simps Let_def
      split: option.splits if_splits)

lemma read_latest_catalog: "read_latest rc env repos name = Inr data \<Longrightarrow> catalog rc (get_dir repos name) = Some data"
  by (auto simp: read_latest_def result_simps intro: read_latest_optional_catalog)

text \<open>A blob is named by its bytes, and every snapshot of the catalog has its blob.\<close>

definition blob_ok :: "string \<Rightarrow> string \<Rightarrow> bool" where
  "blob_ok file bytes \<longleftrightarrow> ends_with file ''.tmp'' \<or> file = blob_name_of bytes"

definition backed :: "RepositoryDir \<Rightarrow> RepositoryData \<Rightarrow> bool" where
  "backed d data \<longleftrightarrow>
     list_all (\<lambda>m. bt_has (blobs_of d) (sn_database_blob m) \<and> \<not> ends_with (sn_database_blob m) ''.tmp'')
       (bt_values (rp_snapshots data))"

definition catalog_ok :: "RepositoryDir \<Rightarrow> RepositoryData \<Rightarrow> bool" where
  "catalog_ok d data \<longleftrightarrow>
     dir_latest d = Some (show_nat (rp_generation data) @ [CHR 0x0A]) \<and> rp_generation data \<le> usize_max
     \<and> bt_ok (rp_snapshots data) \<and> backed d data"

definition dir_ok :: "RepositoryCodec \<Rightarrow> RepositoryDir \<Rightarrow> bool" where
  "dir_ok rc d \<longleftrightarrow>
     bt_ok (dir_generations d) \<and> bt_ok (blobs_of d) \<and> bt_all blob_ok (blobs_of d)
     \<and> (dir_latest d = None \<or> (case catalog rc d of None \<Rightarrow> False | Some data \<Rightarrow> catalog_ok d data))"

definition repositories_ok :: "RepositoryCodec \<Rightarrow> Repositories \<Rightarrow> bool" where
  "repositories_ok rc repos \<longleftrightarrow> bt_ok repos \<and> bt_all (\<lambda>_. dir_ok rc) repos"

text \<open>What the encoder of a catalog writes, its decoder reads.\<close>

definition repository_codec_ok :: "RepositoryCodec \<Rightarrow> bool" where
  "repository_codec_ok rc \<longleftrightarrow> (\<forall>data bytes. rc_enc rc data = Some bytes \<longrightarrow> rc_dec rc bytes = Some data)"

lemma dir_ok_empty [simp]: "dir_ok rc empty_dir"
  by (simp add: dir_ok_def empty_dir_def blobs_of_def)

lemma repositories_ok_get: "repositories_ok rc repos \<Longrightarrow> dir_ok rc (get_dir repos name)"
  by (auto simp: repositories_ok_def get_dir_def split: option.splits dest: bt_all_get)

lemma dir_ok_catalog: "dir_ok rc d \<Longrightarrow> catalog rc d = Some data \<Longrightarrow> catalog_ok d data"
  by (auto simp: dir_ok_def catalog_def split: option.splits if_splits)

lemma get_dir_on_dir [simp]: "get_dir (on_dir name f repos) other = (if other = name then f (get_dir repos name) else get_dir repos other)"
  by (simp add: get_dir_def on_dir_def)

lemma repositories_ok_on_dir:
  "repositories_ok rc repos \<Longrightarrow> dir_ok rc (f (get_dir repos name)) \<Longrightarrow> repositories_ok rc (on_dir name f repos)"
  by (auto simp: repositories_ok_def on_dir_def)

lemma repositories_ok_remove: "repositories_ok rc repos \<Longrightarrow> repositories_ok rc (bt_remove name repos)"
  by (auto simp: repositories_ok_def)

subsection \<open>Writing the next generation\<close>

definition with_generation :: "nat \<Rightarrow> string \<Rightarrow> RepositoryDir \<Rightarrow> RepositoryDir" where
  "with_generation g bytes d = d\<lparr>dir_generations := bt_insert (generation_file_name g) bytes (dir_generations d)\<rparr>"

definition with_latest :: "nat \<Rightarrow> RepositoryDir \<Rightarrow> RepositoryDir" where
  "with_latest g d = d\<lparr>dir_latest := Some (show_nat g @ [CHR 0x0A])\<rparr>"

lemma generation_file_name_inj [simp]: "generation_file_name m = generation_file_name n \<longleftrightarrow> m = n"
  by (simp add: generation_file_name_def)

lemma blobs_of_with [simp]:
  "blobs_of (with_generation g bytes d) = blobs_of d"
  "blobs_of (with_latest g d) = blobs_of d"
  by (simp_all add: blobs_of_def with_generation_def with_latest_def)

lemma backed_blobs: "blobs_of d = blobs_of d' \<Longrightarrow> backed d data \<longleftrightarrow> backed d' data"
  by (simp add: backed_def)

lemma u64_succ_le [simp]: "u64_succ g \<le> usize_max"
proof -
  have "(g + 1) mod 2 ^ 64 < 2 ^ 64" by (rule mod_less_divisor) simp
  then show ?thesis by (simp add: u64_succ_def usize_max_def)
qed

lemma u64_succ_neq: "g \<le> usize_max \<Longrightarrow> u64_succ g \<noteq> g"
  by (cases "g = usize_max") (simp add: u64_succ_def usize_max_def, simp add: usize_max_def)

lemma catalog_with_generation:
  assumes "dir_ok rc d" and "catalog rc d = Some data"
  shows "catalog rc (with_generation (u64_succ (rp_generation data)) bytes d) = catalog rc d"
proof -
  from dir_ok_catalog [OF assms] have "dir_latest d = Some (show_nat (rp_generation data) @ [CHR 0x0A])"
    and g: "rp_generation data \<le> usize_max"
    by (auto simp: catalog_ok_def)
  then show ?thesis using u64_succ_neq [OF g]
    by (auto simp: catalog_def with_generation_def trim_number_line)
qed

lemma catalog_with_latest:
  "g \<le> usize_max \<Longrightarrow> catalog rc (with_latest g (with_generation g bytes d)) = rc_dec rc bytes"
  by (simp add: catalog_def with_latest_def with_generation_def trim_number_line)

lemma on_dir_on_dir: "bt_ok repos \<Longrightarrow> on_dir name f (on_dir name g repos) = on_dir name (\<lambda>d. f (g d)) repos"
  by (simp add: on_dir_def get_dir_def bt.ins_ins_same)

lemma bt_ok_on_dir [simp]: "bt_ok repos \<Longrightarrow> bt_ok (on_dir name f repos)"
  by (simp add: on_dir_def)

lemma generation_writes:
  "make_dir io name repos = atomically io repos (on_dir name (\<lambda>d. d) repos)"
  "write_generation_file io name g bytes repos = atomically io repos (on_dir name (with_generation g bytes) repos)"
  "write_latest io name g repos = atomically io repos (on_dir name (with_latest g) repos)"
  by (simp_all add: make_dir_def write_generation_file_def write_latest_def on_dir_def with_generation_def with_latest_def)

lemma then_do_atomically:
  "then_do (atomically io s t) rest =
     (case io of Written \<Rightarrow> rest t | FailedBefore \<Rightarrow> (s, Inl repository_io_error) | FailedAfter \<Rightarrow> (t, Inl repository_io_error))"
  by (simp add: then_do_def atomically_def split: write_outcome.splits)

lemma write_next_generation_cases:
  assumes "write_next_generation rc env n name data repos = (repos', r)" and "bt_ok repos"
  obtains (early) "r \<noteq> Inr ()" "repos' = repos \<or> repos' = on_dir name (\<lambda>d. d) repos"
  | (unlinked) bytes where "r \<noteq> Inr ()" "rc_enc rc (data\<lparr>rp_generation := u64_succ (rp_generation data)\<rparr>) = Some bytes"
      "repos' = on_dir name (with_generation (u64_succ (rp_generation data)) bytes) repos"
  | (published) bytes where "rc_enc rc (data\<lparr>rp_generation := u64_succ (rp_generation data)\<rparr>) = Some bytes"
      "repos' = on_dir name (\<lambda>d. with_latest (u64_succ (rp_generation data))
         (with_generation (u64_succ (rp_generation data)) bytes d)) repos"
  using assms(1)
  by (auto simp: write_next_generation_def generation_writes then_do_atomically on_dir_on_dir [OF assms(2)] Let_def
      assms(2) split: option.splits write_outcome.splits)

definition next_of :: "RepositoryData \<Rightarrow> RepositoryData" where
  "next_of data = data\<lparr>rp_generation := u64_succ (rp_generation data)\<rparr>"

definition succeeds :: "RepositoryCodec \<Rightarrow> RepositoryDir \<Rightarrow> RepositoryData \<Rightarrow> bool" where
  "succeeds rc d data \<longleftrightarrow>
     (dir_latest d = None \<or> (case catalog rc d of None \<Rightarrow> False | Some old \<Rightarrow> rp_generation data = rp_generation old))
     \<and> bt_ok (rp_snapshots data) \<and> backed d data"

lemma dir_ok_with_generation:
  "dir_ok rc d \<Longrightarrow> succeeds rc d data \<Longrightarrow>
     dir_ok rc (with_generation (u64_succ (rp_generation data)) bytes d)
     \<and> catalog rc (with_generation (u64_succ (rp_generation data)) bytes d) = catalog rc d"
proof -
  assume d: "dir_ok rc d" and s: "succeeds rc d data"
  let ?d = "with_generation (u64_succ (rp_generation data)) bytes d"
  have lat: "dir_latest ?d = dir_latest d" and gens: "bt_ok (dir_generations ?d)"
    using d by (auto simp: with_generation_def dir_ok_def)
  have cat: "catalog rc ?d = catalog rc d"
  proof (cases "dir_latest d")
    case None
    with lat show ?thesis by (simp add: catalog_def)
  next
    case (Some raw)
    with s obtain old where "catalog rc d = Some old" "rp_generation data = rp_generation old"
      by (auto simp: succeeds_def split: option.splits)
    with catalog_with_generation [OF d this(1)] show ?thesis by simp
  qed
  have "catalog_ok ?d x = catalog_ok d x" for x
    by (simp add: catalog_ok_def lat backed_blobs [of ?d d])
  with d cat lat gens show ?thesis by (auto simp: dir_ok_def split: option.splits)
qed

lemma dir_ok_published:
  assumes "dir_ok rc d" and "succeeds rc d data" and "rc_dec rc bytes = Some (next_of data)"
  shows "dir_ok rc (with_latest (u64_succ (rp_generation data)) (with_generation (u64_succ (rp_generation data)) bytes d))"
    and "catalog rc (with_latest (u64_succ (rp_generation data)) (with_generation (u64_succ (rp_generation data)) bytes d))
         = Some (next_of data)"
proof -
  let ?d = "with_latest (u64_succ (rp_generation data)) (with_generation (u64_succ (rp_generation data)) bytes d)"
  show cat: "catalog rc ?d = Some (next_of data)"
    using assms(3) by (simp add: catalog_with_latest)
  have "backed ?d (next_of data)"
    using assms(2) by (simp add: succeeds_def backed_def next_of_def)
  moreover have "dir_latest ?d = Some (show_nat (rp_generation (next_of data)) @ [CHR 0x0A])" "bt_ok (dir_generations ?d)"
    using assms(1) by (auto simp: with_latest_def with_generation_def next_of_def dir_ok_def)
  ultimately have "catalog_ok ?d (next_of data)"
    using assms(2) by (simp add: catalog_ok_def succeeds_def next_of_def)
  with cat assms(1) \<open>bt_ok (dir_generations ?d)\<close> show "dir_ok rc ?d" by (simp add: dir_ok_def)
qed

lemma write_next_generation_ok:
  assumes wr: "write_next_generation rc env n name data repos = (repos', r)"
    and ok: "repositories_ok rc repos" and codec: "repository_codec_ok rc"
    and nxt: "succeeds rc (get_dir repos name) data"
  shows "repositories_ok rc repos'"
    and "blobs_of (get_dir repos' other) = blobs_of (get_dir repos other)"
    and "other \<noteq> name \<Longrightarrow> get_dir repos' other = get_dir repos other"
    and "catalog rc (get_dir repos' name) \<in> {catalog rc (get_dir repos name), Some (next_of data)}"
    and "r = Inr () \<Longrightarrow> catalog rc (get_dir repos' name) = Some (next_of data)"
proof -
  let ?d = "get_dir repos name" and ?g = "u64_succ (rp_generation data)"
  have d: "dir_ok rc ?d" using ok by (rule repositories_ok_get)
  have bt: "bt_ok repos" using ok by (simp add: repositories_ok_def)
  have dec: "rc_dec rc bytes = Some (next_of data)"
    if "rc_enc rc (data\<lparr>rp_generation := ?g\<rparr>) = Some bytes" for bytes
    using that codec by (simp add: repository_codec_ok_def next_of_def)
  have main: "repositories_ok rc repos'
      \<and> (\<forall>other. blobs_of (get_dir repos' other) = blobs_of (get_dir repos other))
      \<and> (\<forall>other. other \<noteq> name \<longrightarrow> get_dir repos' other = get_dir repos other)
      \<and> (catalog rc (get_dir repos' name) = catalog rc ?d \<and> r \<noteq> Inr () \<or> catalog rc (get_dir repos' name) = Some (next_of data))"
    using wr bt
  proof (cases rule: write_next_generation_cases)
    case early
    then show ?thesis using ok d by (auto intro: repositories_ok_on_dir)
  next
    case (unlinked bytes)
    with dir_ok_with_generation [OF d nxt] ok show ?thesis by (auto intro: repositories_ok_on_dir)
  next
    case (published bytes)
    with dir_ok_published [OF d nxt dec] ok show ?thesis by (auto intro: repositories_ok_on_dir)
  qed
  then show "repositories_ok rc repos'"
    and "blobs_of (get_dir repos' other) = blobs_of (get_dir repos other)"
    and "other \<noteq> name \<Longrightarrow> get_dir repos' other = get_dir repos other"
    and "catalog rc (get_dir repos' name) \<in> {catalog rc (get_dir repos name), Some (next_of data)}"
    and "r = Inr () \<Longrightarrow> catalog rc (get_dir repos' name) = Some (next_of data)"
    by auto
qed

subsection \<open>Removing blobs\<close>

lemma remove_unreferenced_subset:
  "remove_unreferenced env referenced n entries blobs counts = (blobs', r) \<Longrightarrow> bt_ok blobs \<Longrightarrow>
     bt_ok blobs' \<and> (\<forall>k. bt_get blobs' k = bt_get blobs k \<or> (k \<notin> set referenced \<and> bt_get blobs' k = None))"
proof (induction env referenced n entries blobs counts rule: remove_unreferenced.induct)
  case (1 env referenced n blobs counts)
  then show ?case by simp
next
  case (2 env referenced n name bytes entries blobs counts)
  show ?case
  proof (cases "name \<in> set referenced")
    case True
    with 2 show ?thesis by simp
  next
    case False
    with 2 show ?thesis
      by (fastforce split: write_outcome.splits if_splits)
  qed
qed

lemma bt_all_sub:
  "bt_ok m \<Longrightarrow> bt_ok m' \<Longrightarrow> bt_all P m \<Longrightarrow> (\<And>k v. bt_get m' k = Some v \<Longrightarrow> bt_get m k = Some v) \<Longrightarrow> bt_all P m'"
  by (simp add: bt_all_iff)

end
