(* ===== verification/SnapshotCalls.thy ===== *)
theory SnapshotCalls
  imports SnapshotSafety
begin

section \<open>Calls of the snapshot service\<close>

text \<open>
  The calls that write to repositories, as one transition function over the repositories on disk, and what each
  leaves: the directory stays intact, and a snapshot is lost only to a call that deletes.
\<close>

datatype SnapshotCall =
    PutRepository string json
  | DeleteRepository string
  | CleanupRepository string
  | CreateSnapshot string string Database json
  | DeleteSnapshot string string

definition snapshot_call ::
    "RepositoryCodec \<Rightarrow> bool \<Rightarrow> RepositoryEnv \<Rightarrow> SnapshotCall \<Rightarrow> Repositories \<Rightarrow> Repositories \<times> json store_result" where
  "snapshot_call rc ephemeral env call repos =
     (case call of
        PutRepository name body \<Rightarrow> put_repository rc env ephemeral name body repos
      | DeleteRepository names \<Rightarrow> delete_repository env ephemeral names repos
      | CleanupRepository name \<Rightarrow> cleanup_repository rc env ephemeral name repos
      | CreateSnapshot repository name db body \<Rightarrow> create_snapshot rc env ephemeral repository name db body repos
      | DeleteSnapshot repository names \<Rightarrow> delete_snapshot rc env ephemeral repository names repos)"

fun snapshot_run ::
    "RepositoryCodec \<Rightarrow> bool \<Rightarrow> (RepositoryEnv \<times> SnapshotCall) list \<Rightarrow> Repositories \<Rightarrow> Repositories" where
  "snapshot_run rc ephemeral [] repos = repos"
| "snapshot_run rc ephemeral ((env, call) # calls) repos =
     snapshot_run rc ephemeral calls (fst (snapshot_call rc ephemeral env call repos))"

definition deletes :: "SnapshotCall \<Rightarrow> bool" where
  "deletes call =
     (case call of DeleteRepository _ \<Rightarrow> True | DeleteSnapshot _ _ \<Rightarrow> True | _ \<Rightarrow> False)"

text \<open>A removal of a directory that is cut short leaves an arbitrary part of it.\<close>

definition removes_whole :: "RepositoryEnv \<times> SnapshotCall \<Rightarrow> bool" where
  "removes_whole ec \<longleftrightarrow>
     (case snd ec of DeleteRepository _ \<Rightarrow> (\<forall>n. re_write (fst ec) n \<noteq> FailedBefore) | _ \<Rightarrow> True)"

text \<open>A snapshot by its name: its manifest and the bytes of its blob.\<close>

definition snapshot_of ::
    "RepositoryCodec \<Rightarrow> Repositories \<Rightarrow> string \<Rightarrow> string \<Rightarrow> (SnapshotManifest \<times> string) option" where
  "snapshot_of rc repos repository name =
     (let d = get_dir repos repository
      in Option.bind (catalog rc d) (\<lambda>data.
         Option.bind (bt_get (rp_snapshots data) name) (\<lambda>m.
         Option.bind (bt_get (blobs_of d) (sn_database_blob m)) (\<lambda>bytes. Some (m, bytes)))))"

subsection \<open>Blobs that are added\<close>

definition grows :: "RepositoryDir \<Rightarrow> RepositoryDir \<Rightarrow> bool" where
  "grows d d' \<longleftrightarrow>
     dir_latest d' = dir_latest d \<and> dir_generations d' = dir_generations d
     \<and> bt_ok (blobs_of d') \<and> bt_all blob_ok (blobs_of d')
     \<and> (\<forall>file. \<not> ends_with file ''.tmp'' \<longrightarrow> bt_has (blobs_of d) file \<longrightarrow>
          bt_get (blobs_of d') file = bt_get (blobs_of d) file)"

lemma grows_refl: "dir_ok rc d \<Longrightarrow> grows d d"
  by (simp add: grows_def dir_ok_def)

lemma grows_trans: "grows d d' \<Longrightarrow> grows d' d'' \<Longrightarrow> grows d d''"
  by (simp add: grows_def bt_has_def)

lemma catalog_cong: "dir_latest d' = dir_latest d \<Longrightarrow> dir_generations d' = dir_generations d \<Longrightarrow> catalog rc d' = catalog rc d"
  unfolding catalog_def by (simp only:)

lemma grows_catalog: "grows d d' \<Longrightarrow> catalog rc d' = catalog rc d"
  unfolding grows_def by (elim conjE) (rule catalog_cong)

lemma grows_backed: "grows d d' \<Longrightarrow> backed d data \<Longrightarrow> backed d' data"
  by (auto simp: grows_def backed_def list_all_iff bt_has_def)

lemma grows_ok:
  assumes "grows d d'" and "dir_ok rc d"
  shows "dir_ok rc d'"
proof -
  have "catalog_ok d data \<Longrightarrow> catalog_ok d' data" for data
    using grows_backed [OF assms(1)] assms(1) by (simp add: catalog_ok_def grows_def)
  with assms show ?thesis
    by (auto simp: dir_ok_def grows_catalog [OF assms(1)] grows_def split: option.splits)
qed

lemma blob_name_not_tmp [simp]: "\<not> ends_with (blob_name_of bytes) ''.tmp''"
  by (simp add: blob_name_of_def ends_with_def suffix_def)

lemma temporary_tmp [simp]: "ends_with (temporary_of file) ''.tmp''"
  by (simp add: temporary_of_def ends_with_def suffix_def)

lemma blobs_of_set [simp]: "blobs_of (d\<lparr>dir_blobs := Some blobs\<rparr>) = blobs"
  by (simp add: blobs_of_def)

lemma grows_make_dir: "dir_ok rc d \<Longrightarrow> grows d (d\<lparr>dir_blobs := Some (blobs_of d)\<rparr>)"
  by (simp add: grows_def dir_ok_def)

lemma grows_temporary:
  "dir_ok rc d \<Longrightarrow> grows d (d\<lparr>dir_blobs := Some (bt_insert (temporary_of file) part (blobs_of d))\<rparr>)"
  by (auto simp: grows_def dir_ok_def blob_ok_def intro!: bt_all_insert)

lemma grows_blob:
  "dir_ok rc d \<Longrightarrow> \<not> bt_has (blobs_of d) (blob_name_of bytes) \<Longrightarrow>
     grows d (d\<lparr>dir_blobs := Some (bt_insert (blob_name_of bytes) bytes
        (bt_remove (temporary_of (blob_name_of bytes)) (blobs_of d)))\<rparr>)"
  by (auto simp: grows_def dir_ok_def blob_ok_def intro!: bt_all_insert bt_all_remove)

definition grown :: "RepositoryCodec \<Rightarrow> string \<Rightarrow> Repositories \<Rightarrow> Repositories \<Rightarrow> bool" where
  "grown rc name repos repos' \<longleftrightarrow>
     repositories_ok rc repos' \<and> (\<forall>other. other \<noteq> name \<longrightarrow> get_dir repos' other = get_dir repos other)
     \<and> grows (get_dir repos name) (get_dir repos' name)"

lemma grown_refl: "repositories_ok rc repos \<Longrightarrow> grown rc name repos repos"
  by (auto simp: grown_def intro: grows_refl repositories_ok_get)

lemma grown_trans: "grown rc name repos repos' \<Longrightarrow> grown rc name repos' repos'' \<Longrightarrow> grown rc name repos repos''"
  by (auto simp: grown_def intro: grows_trans)

lemma grown_on_dir:
  "repositories_ok rc repos \<Longrightarrow> grows (get_dir repos name) (f (get_dir repos name)) \<Longrightarrow> grown rc name repos (on_dir name f repos)"
  by (auto simp: grown_def intro: repositories_ok_on_dir grows_ok repositories_ok_get)

lemma make_blobs_dir_grown:
  "repositories_ok rc repos \<Longrightarrow> grown rc name repos (fst (make_blobs_dir io name repos))"
  by (auto simp: make_blobs_dir_def atomically_def split: write_outcome.splits
      intro: grown_refl grown_on_dir grows_make_dir repositories_ok_get)

lemma put_blob_taken:
  "bt_ok repos \<Longrightarrow> put_blob name file bytes (take_temporary name file repos)
     = on_dir name (\<lambda>d. d\<lparr>dir_blobs := Some (bt_insert file bytes (bt_remove (temporary_of file) (blobs_of d)))\<rparr>) repos"
  by (simp add: put_blob_def take_temporary_def on_dir_on_dir)

lemma put_blob_temporary:
  "put_blob name (temporary_of file) part repos
     = on_dir name (\<lambda>d. d\<lparr>dir_blobs := Some (bt_insert (temporary_of file) part (blobs_of d))\<rparr>) repos"
  by (simp add: put_blob_def)

lemma write_missing_blob_grown:
  assumes "repositories_ok rc repos"
    and "write_missing_blob env io name (blob_name_of bytes) bytes repos = (repos', r)"
  shows "grown rc name repos repos'"
    and "r = Inr () \<Longrightarrow> \<exists>stored. bt_get (blobs_of (get_dir repos' name)) (blob_name_of bytes) = Some stored
           \<and> (stored = bytes \<or> bt_get (blobs_of (get_dir repos name)) (blob_name_of bytes) = Some stored)"
proof -
  have bt: "bt_ok repos" using assms(1) by (simp add: repositories_ok_def)
  have d: "dir_ok rc (get_dir repos name)" using assms(1) by (rule repositories_ok_get)
  show "grown rc name repos repos'"
    using assms d bt
    by (auto simp: write_missing_blob_def write_blob_def atomically_def put_blob_taken put_blob_temporary
        split: if_splits write_outcome.splits option.splits
        intro!: grown_refl grown_on_dir grows_temporary grows_blob)
  show "\<exists>stored. bt_get (blobs_of (get_dir repos' name)) (blob_name_of bytes) = Some stored
           \<and> (stored = bytes \<or> bt_get (blobs_of (get_dir repos name)) (blob_name_of bytes) = Some stored)"
    if "r = Inr ()"
    using assms(2) that
    by (auto simp: write_missing_blob_def write_blob_def atomically_def put_blob_taken [OF bt] bt_has_def
        split: if_splits write_outcome.splits option.splits)
qed

subsection \<open>A snapshot that is there stays there\<close>

definition keeps :: "RepositoryCodec \<Rightarrow> Repositories \<Rightarrow> Repositories \<Rightarrow> bool" where
  "keeps rc repos repos' \<longleftrightarrow>
     (\<forall>repository name s. snapshot_of rc repos repository name = Some s \<longrightarrow> snapshot_of rc repos' repository name = Some s)"

lemma keeps_refl [simp]: "keeps rc repos repos"
  by (simp add: keeps_def)

lemma keeps_trans: "keeps rc repos repos' \<Longrightarrow> keeps rc repos' repos'' \<Longrightarrow> keeps rc repos repos''"
  by (simp add: keeps_def)

text \<open>The snapshots of the new catalog include those of the old, and their blobs are where they were.\<close>

definition extends :: "RepositoryData option \<Rightarrow> RepositoryData option \<Rightarrow> bool" where
  "extends old new \<longleftrightarrow>
     (\<forall>data. old = Some data \<longrightarrow> (\<exists>data'. new = Some data' \<and>
        (\<forall>name m. bt_get (rp_snapshots data) name = Some m \<longrightarrow> bt_get (rp_snapshots data') name = Some m)))"

lemma keeps_dir:
  assumes "repositories_ok rc repos"
    and "\<And>other. other \<noteq> name \<Longrightarrow> get_dir repos' other = get_dir repos other"
    and "extends (catalog rc (get_dir repos name)) (catalog rc (get_dir repos' name))"
    and "\<And>data m. catalog rc (get_dir repos name) = Some data \<Longrightarrow> m \<in> set (bt_values (rp_snapshots data)) \<Longrightarrow>
           bt_has (blobs_of (get_dir repos name)) (sn_database_blob m) \<Longrightarrow> \<not> ends_with (sn_database_blob m) ''.tmp'' \<Longrightarrow>
           bt_get (blobs_of (get_dir repos' name)) (sn_database_blob m) = bt_get (blobs_of (get_dir repos name)) (sn_database_blob m)"
  shows "keeps rc repos repos'"
  unfolding keeps_def
proof (intro allI impI)
  fix repository s x assume x: "snapshot_of rc repos repository s = Some x"
  show "snapshot_of rc repos' repository s = Some x"
  proof (cases "repository = name")
    case False
    with x assms(2) show ?thesis by (simp add: snapshot_of_def)
  next
    case True
    let ?d = "get_dir repos name" and ?d' = "get_dir repos' name"
    from x True obtain data m bytes where c: "catalog rc ?d = Some data" and m: "bt_get (rp_snapshots data) s = Some m"
      and b: "bt_get (blobs_of ?d) (sn_database_blob m) = Some bytes" and x: "x = (m, bytes)"
      by (auto simp: snapshot_of_def Let_def bind_eq_Some_conv)
    from assms(3) c m obtain data' where c': "catalog rc ?d' = Some data'" and m': "bt_get (rp_snapshots data') s = Some m"
      by (auto simp: extends_def)
    have mem: "m \<in> set (bt_values (rp_snapshots data))"
      using m by (auto simp: bt_values_def dest!: map_of_SomeD intro: rev_image_eqI)
    with dir_ok_catalog [OF repositories_ok_get [OF assms(1)] c]
    have "\<not> ends_with (sn_database_blob m) ''.tmp''" by (auto simp: catalog_ok_def backed_def list_all_iff)
    with assms(4) [OF c mem] b have "bt_get (blobs_of ?d') (sn_database_blob m) = Some bytes" by (simp add: bt_has_def)
    with c' m' x True show ?thesis by (simp add: snapshot_of_def)
  qed
qed

lemma extends_refl [simp]: "extends c c"
  by (simp add: extends_def)

lemma grown_keeps:
  assumes "repositories_ok rc repos" and "grown rc name repos repos'"
  shows "keeps rc repos repos'"
  using assms(1)
proof (rule keeps_dir)
  show "get_dir repos' other = get_dir repos other" if "other \<noteq> name" for other
    using assms(2) that by (simp add: grown_def)
  show "extends (catalog rc (get_dir repos name)) (catalog rc (get_dir repos' name))"
    using assms(2) grows_catalog [of "get_dir repos name" "get_dir repos' name" rc] by (simp add: grown_def)
qed (use assms(2) in \<open>simp add: grown_def grows_def\<close>)

subsection \<open>What each call leaves\<close>

lemma bt_values_insert: "set (bt_values (bt_insert k v m)) \<subseteq> insert v (set (bt_values m))"
  by (induction m rule: bt_insert.induct) (auto simp: bt_values_def)

lemma bt_values_remove: "set (bt_values (bt_remove k m)) \<subseteq> set (bt_values m)"
  by (auto simp: bt_values_def bt_remove_def)

lemma succeeds_catalog:
  "dir_ok rc d \<Longrightarrow> catalog rc d = Some old \<Longrightarrow> rp_generation data = rp_generation old \<Longrightarrow>
     bt_ok (rp_snapshots data) \<Longrightarrow> backed d data \<Longrightarrow> succeeds rc d data"
  by (simp add: succeeds_def)

lemma next_of_snapshots [simp]: "rp_snapshots (next_of data) = rp_snapshots data"
  by (simp add: next_of_def)

lemma write_next_generation_keeps:
  assumes "write_next_generation rc env n name data repos = (repos', r)"
    and "repositories_ok rc repos" and "repository_codec_ok rc" and "succeeds rc (get_dir repos name) data"
    and "extends (catalog rc (get_dir repos name)) (Some data)"
  shows "keeps rc repos repos'"
  using assms(2)
proof (rule keeps_dir)
  note w = write_next_generation_ok [OF assms(1-4)]
  show "get_dir repos' other = get_dir repos other" if "other \<noteq> name" for other
    using w(3) that .
  show "extends (catalog rc (get_dir repos name)) (catalog rc (get_dir repos' name))"
    using w(4) assms(5) by (auto simp: extends_def)
qed (simp add: write_next_generation_ok(2) [OF assms(1-4)])

lemma fst_repository_acknowledged [simp]: "fst (repository_acknowledged sr) = fst sr"
  by (simp add: repository_acknowledged_def)

lemma put_repository_safe:
  assumes ok: "repositories_ok rc repos" and codec: "repository_codec_ok rc"
  shows "repositories_ok rc (fst (put_repository rc env ephemeral raw body repos))
       \<and> keeps rc repos (fst (put_repository rc env ephemeral raw body repos))"
proof (cases "put_repository_request ephemeral raw body")
  case (Inl e)
  with ok show ?thesis by (simp add: put_repository_def)
next
  case (Inr req)
  obtain name ty settings where req: "req = (name, ty, settings)" by (cases req)
  let ?d = "get_dir repos name"
  have d: "dir_ok rc ?d" using ok by (rule repositories_ok_get)
  show ?thesis
  proof (cases "read_latest_optional rc env name ?d")
    case Inl: (Inl e)
    with Inr req ok show ?thesis by (simp add: put_repository_def)
  next
    case found: (Inr found)
    define base where "base = (case found of Some data \<Rightarrow> data | None \<Rightarrow> new_repository (re_now_millis env) name ty settings)"
    define data where "data = base\<lparr>rp_repository := (rp_repository base)\<lparr>rd_type := ty, rd_settings := settings\<rparr>\<rparr>"
    have snaps: "rp_snapshots data = rp_snapshots base" "rp_generation data = rp_generation base"
      by (simp_all add: data_def)
    have fits: "succeeds rc ?d data \<and> extends (catalog rc ?d) (Some data)"
    proof (cases found)
      case None
      with found have "dir_latest ?d = None" by (simp add: read_latest_optional_catalog)
      with None show ?thesis
        by (simp add: succeeds_def extends_def snaps base_def new_repository_def backed_def bt_values_def catalog_def)
    next
      case (Some old)
      with found have c: "catalog rc ?d = Some old" by (simp add: read_latest_optional_catalog)
      with dir_ok_catalog [OF d c] Some show ?thesis
        by (auto simp: succeeds_def extends_def snaps base_def catalog_ok_def backed_def)
    qed
    obtain repos' r where w: "write_next_generation rc env 0 name data repos = (repos', r)" by fastforce
    have "fst (put_repository rc env ephemeral raw body repos) = repos'"
      using Inr req found w by (simp add: put_repository_def base_def data_def)
    with write_next_generation_ok(1) [OF w ok codec] write_next_generation_keeps [OF w ok codec] fits
    show ?thesis by simp
  qed
qed

lemma cleanup_repository_safe:
  assumes ok: "repositories_ok rc repos"
  shows "repositories_ok rc (fst (cleanup_repository rc env ephemeral raw repos))
       \<and> keeps rc repos (fst (cleanup_repository rc env ephemeral raw repos))"
proof (cases "and_then (ensure_persistent ephemeral) (\<lambda>_. and_then (validate_name raw RepositoryName) (\<lambda>name.
           and_then (read_latest rc env repos name) (\<lambda>data. Inr (name, data))))")
  case (Inl e)
  with ok show ?thesis by (simp add: cleanup_repository_def)
next
  case (Inr nd)
  then obtain name data where nd: "nd = (name, data)" and rd: "read_latest rc env repos name = Inr data"
    by (auto simp: result_simps)
  let ?d = "get_dir repos name"
  have d: "dir_ok rc ?d" using ok by (rule repositories_ok_get)
  have c: "catalog rc ?d = Some data" using rd by (rule read_latest_catalog)
  show ?thesis
  proof (cases "dir_blobs ?d")
    case None
    with Inr nd ok show ?thesis by (simp add: cleanup_repository_def)
  next
    case (Some blobs)
    obtain blobs' r where rem: "remove_unreferenced env (referenced_blobs data) 0 blobs blobs (0, 0) = (blobs', r)" by fastforce
    let ?f = "\<lambda>d. d\<lparr>dir_blobs := Some blobs'\<rparr>"
    have res: "fst (cleanup_repository rc env ephemeral raw repos) = on_dir name ?f repos"
      using Inr nd Some rem by (simp add: cleanup_repository_def)
    have b: "blobs_of ?d = blobs" using Some by (simp add: blobs_of_def)
    with d have "bt_ok blobs" by (simp add: dir_ok_def)
    note sub = remove_unreferenced_subset [OF rem this]
    have kept: "bt_get blobs' (sn_database_blob m) = bt_get blobs (sn_database_blob m)"
      if "m \<in> set (bt_values (rp_snapshots data))" for m
      using sub that by (auto simp: referenced_blobs_def)
    have cat: "catalog rc (?f ?d) = catalog rc ?d" by (rule catalog_cong) simp_all
    have "catalog_ok (?f ?d) data"
      using dir_ok_catalog [OF d c] kept by (auto simp: catalog_ok_def backed_def list_all_iff b bt_has_def)
    moreover have "bt_all blob_ok blobs'"
    proof (rule bt_all_sub [of blobs])
      show "bt_get blobs k = Some v" if "bt_get blobs' k = Some v" for k v
        using sub that by (metis option.distinct(1))
    qed (use d sub in \<open>simp_all add: dir_ok_def b\<close>)
    ultimately have fd: "dir_ok rc (?f ?d)"
      using d sub cat c by (simp add: dir_ok_def)
    moreover have "keeps rc repos (on_dir name ?f repos)"
      using ok by (rule keeps_dir [where name = name]) (use cat kept c b in auto)
    ultimately show ?thesis using ok by (simp add: res repositories_ok_on_dir)
  qed
qed

lemma delete_directories_ok:
  "repositories_ok rc repos \<Longrightarrow> \<forall>n. re_write env n \<noteq> FailedBefore \<Longrightarrow>
     repositories_ok rc (fst (delete_directories env n names repos))"
  by (induction env n names repos rule: delete_directories.induct)
    (auto split: write_outcome.splits intro: repositories_ok_remove)

lemma delete_repository_ok:
  "repositories_ok rc repos \<Longrightarrow> \<forall>n. re_write env n \<noteq> FailedBefore \<Longrightarrow>
     repositories_ok rc (fst (delete_repository env ephemeral raw repos))"
  by (auto simp: delete_repository_def split: sum.splits intro: delete_directories_ok)

lemma fold_res_delete:
  assumes "fold_res (\<lambda>snapshots name. if bt_has snapshots name then Inr (bt_remove name snapshots)
                      else Inl (err name)) m names = Inr m'" and "bt_ok m"
  shows "bt_ok m' \<and> set (bt_values m') \<subseteq> set (bt_values m)"
  using assms(1)
proof (rule fold_res_invariant)
  show "bt_ok m \<and> set (bt_values m) \<subseteq> set (bt_values m)" using assms(2) by simp
next
  fix s x s'
  assume "bt_ok s \<and> set (bt_values s) \<subseteq> set (bt_values m)"
    "(if bt_has s x then Inr (bt_remove x s) else Inl (err x)) = Inr s'"
  then show "bt_ok s' \<and> set (bt_values s') \<subseteq> set (bt_values m)"
    using bt_values_remove [of x s] by (auto split: if_splits)
qed

lemma delete_snapshot_ok:
  assumes ok: "repositories_ok rc repos" and codec: "repository_codec_ok rc"
  shows "repositories_ok rc (fst (delete_snapshot rc env ephemeral raw names repos))"
proof (cases "and_then (ensure_persistent ephemeral) (\<lambda>_.
           and_then (validate_name raw RepositoryName) (\<lambda>repository.
           and_then (read_latest rc env repos repository) (\<lambda>data.
           and_then (exact_names names (bt_keys (rp_snapshots data)) SnapshotName) (\<lambda>names.
           and_then (fold_res (\<lambda>snapshots name. if bt_has snapshots name then Inr (bt_remove name snapshots)
                        else Inl (snapshot_missing repository name)) (rp_snapshots data) names) (\<lambda>snapshots.
           Inr (repository, data\<lparr>rp_snapshots := snapshots\<rparr>))))))")
  case (Inl e)
  with ok show ?thesis by (simp add: delete_snapshot_def)
next
  case (Inr rd)
  then obtain name old kept requested where rd: "rd = (name, old\<lparr>rp_snapshots := kept\<rparr>)"
    and c: "catalog rc (get_dir repos name) = Some old"
    and f: "fold_res (\<lambda>snapshots n. if bt_has snapshots n then Inr (bt_remove n snapshots)
                else Inl (snapshot_missing name n)) (rp_snapshots old) requested = Inr kept"
    by (auto simp: result_simps dest!: read_latest_catalog)
  have d: "dir_ok rc (get_dir repos name)" using ok by (rule repositories_ok_get)
  note old = dir_ok_catalog [OF d c]
  from fold_res_delete [OF f] old have "bt_ok kept" "set (bt_values kept) \<subseteq> set (bt_values (rp_snapshots old))"
    by (auto simp: catalog_ok_def)
  with old have "succeeds rc (get_dir repos name) (old\<lparr>rp_snapshots := kept\<rparr>)"
    by (intro succeeds_catalog [OF d c]) (auto simp: catalog_ok_def backed_def list_all_iff)
  moreover obtain repos' r where w: "write_next_generation rc env 0 name (old\<lparr>rp_snapshots := kept\<rparr>) repos = (repos', r)" by fastforce
  moreover have "fst (delete_snapshot rc env ephemeral raw names repos) = repos'"
    using Inr rd w by (simp add: delete_snapshot_def)
  ultimately show ?thesis using write_next_generation_ok(1) [OF w ok codec] by simp
qed

text \<open>With the blob in place, the catalog that has one more snapshot.\<close>

lemma add_snapshot:
  assumes ok: "repositories_ok rc repos" and codec: "repository_codec_ok rc"
    and c: "catalog rc (get_dir repos repository) = Some data" and fresh: "\<not> bt_has (rp_snapshots data) name"
    and blob: "bt_get (blobs_of (get_dir repos repository)) (sn_database_blob m) = Some stored"
      "\<not> ends_with (sn_database_blob m) ''.tmp''"
    and w: "write_next_generation rc env n repository (data\<lparr>rp_snapshots := bt_insert name m (rp_snapshots data)\<rparr>) repos
              = (repos', r)"
  shows "repositories_ok rc repos'" and "keeps rc repos repos'"
    and "r = Inr () \<Longrightarrow> snapshot_of rc repos' repository name = Some (m, stored)"
proof -
  let ?data = "data\<lparr>rp_snapshots := bt_insert name m (rp_snapshots data)\<rparr>"
  have d: "dir_ok rc (get_dir repos repository)" using ok by (rule repositories_ok_get)
  note old = dir_ok_catalog [OF d c]
  have "backed (get_dir repos repository) ?data"
    using old blob bt_values_insert [of name m "rp_snapshots data"]
    by (auto simp: catalog_ok_def backed_def list_all_iff bt_has_def)
  with old have s: "succeeds rc (get_dir repos repository) ?data"
    by (intro succeeds_catalog [OF d c]) (auto simp: catalog_ok_def)
  have e: "extends (catalog rc (get_dir repos repository)) (Some ?data)"
    using fresh by (auto simp: extends_def c bt_has_def)
  show "repositories_ok rc repos'" by (rule write_next_generation_ok(1) [OF w ok codec s])
  show "keeps rc repos repos'" by (rule write_next_generation_keeps [OF w ok codec s e])
  show "snapshot_of rc repos' repository name = Some (m, stored)" if "r = Inr ()"
    using write_next_generation_ok(2,5) [OF w ok codec s] that blob by (simp add: snapshot_of_def)
qed

lemma create_snapshot_steps:
  assumes ok: "repositories_ok rc repos" and codec: "repository_codec_ok rc"
    and run: "create_snapshot rc env ephemeral raw_repository raw_snapshot db body repos = (repos', r)"
  shows "repositories_ok rc repos'" and "keeps rc repos repos'"
    and "r = Inr answer \<Longrightarrow> \<exists>repository name indices bytes stored.
           snapshot_request rc ephemeral raw_repository raw_snapshot db body = Inr (repository, name, indices, bytes)
         \<and> snapshot_of rc repos' repository name = Some (snapshot_manifest (re_now_millis env) name indices
              (blob_name_of bytes) (database_subset db indices), stored)
         \<and> blob_name_of stored = blob_name_of bytes
         \<and> (stored = bytes \<or> bt_get (blobs_of (get_dir repos repository)) (blob_name_of bytes) = Some stored)"
proof -
  have "repositories_ok rc repos' \<and> keeps rc repos repos' \<and>
    (\<forall>answer. r = Inr answer \<longrightarrow> (\<exists>repository name indices bytes stored.
       snapshot_request rc ephemeral raw_repository raw_snapshot db body = Inr (repository, name, indices, bytes)
     \<and> snapshot_of rc repos' repository name = Some (snapshot_manifest (re_now_millis env) name indices
          (blob_name_of bytes) (database_subset db indices), stored)
     \<and> blob_name_of stored = blob_name_of bytes
     \<and> (stored = bytes \<or> bt_get (blobs_of (get_dir repos repository)) (blob_name_of bytes) = Some stored)))"
  proof (cases "snapshot_request rc ephemeral raw_repository raw_snapshot db body")
    case (Inl e)
    with ok run show ?thesis by (auto simp: create_snapshot_def)
  next
    case (Inr req)
    obtain repository name indices bytes where req: "req = (repository, name, indices, bytes)" by (cases req)
    show ?thesis
    proof (cases "read_latest rc env repos repository")
      case Inl: (Inl e)
      with Inr req ok run show ?thesis by (auto simp: create_snapshot_def)
    next
      case latest: (Inr data)
      show ?thesis
      proof (cases "bt_has (rp_snapshots data) name")
        case True
        with Inr req latest ok run show ?thesis by (auto simp: create_snapshot_def)
      next
        case False
        let ?blob = "blob_name_of bytes"
        let ?m = "snapshot_manifest (re_now_millis env) name indices ?blob (database_subset db indices)"
        let ?data = "data\<lparr>rp_snapshots := bt_insert name ?m (rp_snapshots data)\<rparr>"
        obtain repos1 r1 where s1: "make_blobs_dir (re_write env 0) repository repos = (repos1, r1)" by fastforce
        obtain repos2 r2 where s2: "write_missing_blob env (re_write env 1) repository ?blob bytes repos1 = (repos2, r2)"
          by fastforce
        from make_blobs_dir_grown [OF ok] s1 have g1: "grown rc repository repos repos1" by (metis fst_conv)
        then have ok1: "repositories_ok rc repos1" by (simp add: grown_def)
        note s2' = write_missing_blob_grown [OF ok1 s2]
        have g2: "grown rc repository repos repos2" using g1 s2'(1) by (rule grown_trans)
        then have ok2: "repositories_ok rc repos2" by (simp add: grown_def)
        have k1: "keeps rc repos repos1" and k2: "keeps rc repos repos2"
          using grown_keeps [OF ok g1] grown_keeps [OF ok g2] .
        show ?thesis
        proof (cases "r1 = Inr () \<and> r2 = Inr ()")
          case False
          then have "repos' = repos1 \<and> r = Inl repository_io_error \<or> repos' = repos2 \<and> r = Inl repository_io_error"
            using run Inr req latest \<open>\<not> bt_has (rp_snapshots data) name\<close> s1 s2
            by (auto simp: create_snapshot_def then_do_def Let_def split: sum.splits)
          with ok1 ok2 k1 k2 show ?thesis by auto
        next
          case True
          obtain repos3 r3 where s3: "write_next_generation rc env 2 repository ?data repos2 = (repos3, r3)" by fastforce
          have res: "repos' = repos3" "r = Inr answer \<Longrightarrow> r3 = Inr ()" for answer
            using run Inr req latest \<open>\<not> bt_has (rp_snapshots data) name\<close> s1 s2 s3 True
            by (auto simp: create_snapshot_def then_do_def Let_def split: sum.splits)
          obtain stored where st: "bt_get (blobs_of (get_dir repos2 repository)) ?blob = Some stored"
            and or: "stored = bytes \<or> bt_get (blobs_of (get_dir repos1 repository)) ?blob = Some stored"
            using s2'(2) True by auto
          have named: "sn_database_blob ?m = ?blob" by (simp add: snapshot_manifest_def)
          have c: "catalog rc (get_dir repos2 repository) = Some data"
            using g2 grows_catalog read_latest_catalog [OF latest] by (auto simp: grown_def)
          note a = add_snapshot [OF ok2 codec c False _ _ s3, unfolded named, OF st blob_name_not_tmp]
          have "blob_name_of stored = ?blob"
            using repositories_ok_get [OF ok2, of repository] st by (auto simp: dir_ok_def blob_ok_def dest: bt_all_get)
          moreover have "stored = bytes \<or> bt_get (blobs_of (get_dir repos repository)) ?blob = Some stored"
            using or s1 by (auto simp: make_blobs_dir_def atomically_def split: write_outcome.splits)
          ultimately show ?thesis
            using a keeps_trans [OF k2 a(2)] res Inr req by blast
        qed
      qed
    qed
  qed
  then show "repositories_ok rc repos'" and "keeps rc repos repos'"
    and "r = Inr answer \<Longrightarrow> \<exists>repository name indices bytes stored.
           snapshot_request rc ephemeral raw_repository raw_snapshot db body = Inr (repository, name, indices, bytes)
         \<and> snapshot_of rc repos' repository name = Some (snapshot_manifest (re_now_millis env) name indices
              (blob_name_of bytes) (database_subset db indices), stored)
         \<and> blob_name_of stored = blob_name_of bytes
         \<and> (stored = bytes \<or> bt_get (blobs_of (get_dir repos repository)) (blob_name_of bytes) = Some stored)"
    by blast+
qed

end
