(* ===== verification/Restore.thy ===== *)
theory Restore
  imports Snapshots
begin

section \<open>Requests to restore a snapshot\<close>

text \<open>
  \<open>src/snapshots/restore.rs\<close>: a restore request is parsed and checked in full; its execution is not implemented,
  so the handler answers 501 afterwards.
\<close>

datatype RestoreIndices = AllIndices | NamedIndices "string list"

record RestoreRequest =
  rr_indices :: RestoreIndices
  rr_ignore_unavailable :: bool
  rr_include_aliases :: bool
  rr_rename_pattern :: "string option"
  rr_rename_replacement :: "string option"
  rr_index_settings :: "json option"
  rr_ignore_index_settings :: "string list"
  rr_wait_for_completion :: bool

definition parse_exception :: "string \<Rightarrow> StoreError" where
  "parse_exception reason = StoreError_new 400 ''parse_exception'' reason"

definition unsupported_restore_option :: "string \<Rightarrow> StoreError" where
  "unsupported_restore_option reason = StoreError_new 501 ''mainstack_search_unsupported_api_exception'' reason"

definition duplicate_query_parameter :: "string \<Rightarrow> StoreError" where
  "duplicate_query_parameter key = parse_exception (''duplicate query parameter ['' @ key @ '']'')"

definition KNOWN_RESTORE_BODY_FIELDS :: "string list" where
  "KNOWN_RESTORE_BODY_FIELDS =
     [''ignore_index_settings'', ''ignore_unavailable'', ''include_aliases'', ''include_global_state'',
      ''index_settings'', ''indices'', ''partial'', ''rename_pattern'', ''rename_replacement'',
      ''source_remote_store_repository'', ''source_remote_translog_repository'', ''storage_type'',
      ''rename_alias_pattern'', ''rename_alias_replacement'']"

subsection \<open>Fields of the body\<close>

definition parse_bool :: "json \<Rightarrow> string \<Rightarrow> bool \<Rightarrow> bool store_result" where
  "parse_bool body key dflt =
     (case jget body key of
        Some (JBool b) \<Rightarrow> Inr b
      | Some _ \<Rightarrow> Inl (parse_exception (''snapshot restore ['' @ key @ ''] must be a boolean''))
      | None \<Rightarrow> Inr dflt)"

definition parse_optional_string :: "json \<Rightarrow> string \<Rightarrow> string option store_result" where
  "parse_optional_string body key =
     (case jget body key of
        Some (JStr s) \<Rightarrow> Inr (Some s)
      | Some _ \<Rightarrow> Inl (parse_exception (''snapshot restore ['' @ key @ ''] must be a string''))
      | None \<Rightarrow> Inr None)"

definition split_csv :: "string \<Rightarrow> string list" where
  "split_csv raw = bs_of_list (requested_names raw)"

definition csv_values :: "StoreError \<Rightarrow> json list \<Rightarrow> string list store_result" where
  "csv_values err values =
     fold_res (\<lambda>names v. case as_str v of None \<Rightarrow> Inl err | Some s \<Rightarrow> Inr (names @ split_csv s)) [] values"

definition parse_string_list :: "json \<Rightarrow> string \<Rightarrow> string list store_result" where
  "parse_string_list body key =
     (case jget body key of
        None \<Rightarrow> Inr []
      | Some (JStr raw) \<Rightarrow> Inr (split_csv raw)
      | Some (JArr values) \<Rightarrow>
          and_then (csv_values (parse_exception (''snapshot restore ['' @ key @ ''] array must contain only strings'')) values)
            (\<lambda>parsed. Inr (bs_of_list parsed))
      | Some _ \<Rightarrow> Inl (parse_exception (''snapshot restore ['' @ key @ ''] must be a string or array of strings'')))"

definition empty_indices_error :: StoreError where
  "empty_indices_error = parse_exception ''snapshot restore indices must name at least one index or use _all/*''"

definition named_indices :: "string list \<Rightarrow> RestoreIndices store_result" where
  "named_indices names =
     (if names = [] then Inl empty_indices_error
      else if list_ex (\<lambda>name. name \<in> set all_names) names then Inr AllIndices
      else Inr (NamedIndices (bs_of_list names)))"

definition parse_indices :: "json \<Rightarrow> RestoreIndices store_result" where
  "parse_indices body =
     (case jget body ''indices'' of
        None \<Rightarrow> Inr AllIndices
      | Some (JStr raw) \<Rightarrow> named_indices (split_csv raw)
      | Some (JArr values) \<Rightarrow>
          if values = [] then Inl empty_indices_error
          else and_then (csv_values (parse_exception ''snapshot restore indices array must contain only strings'') values)
                 named_indices
      | Some _ \<Rightarrow> Inl (parse_exception ''snapshot restore indices must be a string or array of strings''))"

definition parse_index_settings :: "json \<Rightarrow> json option store_result" where
  "parse_index_settings body =
     (case jget body ''index_settings'' of
        None \<Rightarrow> Inr None
      | Some v \<Rightarrow> if is_object v then Inr (Some v)
                  else Inl (parse_exception ''snapshot restore index_settings must be an object''))"

definition not_supported :: "string \<Rightarrow> StoreError" where
  "not_supported key =
     unsupported_restore_option (''snapshot restore option ['' @ key @ ''] is not supported by mainstack-search'')"

definition check_storage_type :: "json \<Rightarrow> unit store_result" where
  "check_storage_type body =
     (case jget body ''storage_type'' of
        None \<Rightarrow> Inr ()
      | Some v \<Rightarrow>
          (case as_str v of
             None \<Rightarrow> Inl (parse_exception ''snapshot restore storage_type must be a string'')
           | Some s \<Rightarrow>
               if s = ''local'' then Inr ()
               else Inl (unsupported_restore_option
                      (''snapshot restore storage_type ['' @ s @ ''] is not supported by mainstack-search''))))"

definition reject_unsupported_restore_options :: "json \<Rightarrow> unit store_result" where
  "reject_unsupported_restore_options body =
     (case as_object body of
        None \<Rightarrow> Inr ()
      | Some object \<Rightarrow>
          (case find (\<lambda>key. key \<notin> set KNOWN_RESTORE_BODY_FIELDS) (bt_keys object) of
             Some key \<Rightarrow> Inl (not_supported key)
           | None \<Rightarrow>
          and_then (parse_bool body ''include_global_state'' False) (\<lambda>global.
          if global then Inl (unsupported_restore_option
            ''include_global_state=true is not supported by mainstack-search snapshot restore'')
          else and_then (parse_bool body ''partial'' False) (\<lambda>partial.
          if partial then Inl (unsupported_restore_option
            ''partial snapshot restore is not supported by mainstack-search'')
          else and_then (check_storage_type body) (\<lambda>_.
          case find (\<lambda>key. jget body key \<noteq> None)
                 [''source_remote_store_repository'', ''source_remote_translog_repository'',
                  ''rename_alias_pattern'', ''rename_alias_replacement''] of
            Some key \<Rightarrow> Inl (not_supported key)
          | None \<Rightarrow> Inr ())))))"

subsection \<open>Parameters of the query\<close>

definition parse_query_bool :: "string \<Rightarrow> string \<Rightarrow> bool store_result" where
  "parse_query_bool val key =
     (if val = ''true'' then Inr True
      else if val = ''false'' then Inr False
      else Inl (parse_exception (''query parameter ['' @ key @ ''] must be true or false, got ['' @ val @ '']'')))"

definition parse_common_query_bool :: "string \<Rightarrow> string \<Rightarrow> bool store_result" where
  "parse_common_query_bool val key = (if val = [] then Inr True else parse_query_bool val key)"

definition time_units :: "string list" where
  "time_units = [[], ''nanos'', ''micros'', ''ms'', ''s'', ''m'', ''h'', ''d'']"

definition validate_time_query :: "string \<Rightarrow> string \<Rightarrow> unit store_result" where
  "validate_time_query val key =
     (let raw = trim val; digits = takeWhile is_digit raw; unit_name = drop (length digits) raw;
          invalid = parse_exception (''invalid time value ['' @ raw @ ''] for query parameter ['' @ key @ '']'')
      in if raw = [] then Inl (parse_exception (''query parameter ['' @ key @ ''] must not be empty''))
         else if raw = ''0'' \<or> raw = ''-1'' then Inr ()
         else if digits = [] then Inl invalid
         else case parse_u64 digits of
           None \<Rightarrow> Inl invalid
         | Some n \<Rightarrow>
             if n = 0 then Inl (parse_exception (''query parameter ['' @ key @ ''] must be positive or exactly [0]''))
             else if unit_name \<in> set time_units then Inr ()
             else Inl (parse_exception (''unsupported time unit ['' @ unit_name @ ''] for query parameter ['' @ key @ '']'')))"

text \<open>The value of \<open>wait_for_completion\<close> so far, and the parameters seen: each may occur once.\<close>

type_synonym restore_query = "bool option \<times> string list"

definition once :: "restore_query \<Rightarrow> string \<Rightarrow> 'a store_result \<Rightarrow> restore_query store_result" where
  "once st key checked =
     (if key \<in> set (snd st) then Inl (duplicate_query_parameter key)
      else and_then checked (\<lambda>_. Inr (fst st, key # snd st)))"

definition restore_query_step :: "restore_query \<Rightarrow> string \<times> string \<Rightarrow> restore_query store_result" where
  "restore_query_step st kv =
     (let key = fst kv; val = snd kv
      in if key = ''wait_for_completion'' then
           (if fst st \<noteq> None then Inl (duplicate_query_parameter key)
            else and_then (parse_query_bool val key) (\<lambda>b. Inr (Some b, snd st)))
         else if key \<in> {''master_timeout'', ''cluster_manager_timeout''} then once st key (validate_time_query val key)
         else if key \<in> {''pretty'', ''human'', ''error_trace''} then once st key (parse_common_query_bool val key)
         else if key = ''filter_path'' then once st key (Inr ())
         else if key \<in> {''source'', ''source_remote_store_repository''} then
           Inl (unsupported_restore_option
             (''snapshot restore query parameter ['' @ key @ ''] is not supported by mainstack-search''))
         else Inl (parse_exception
             (''snapshot restore query parameter ['' @ key @ ''] is not supported by mainstack-search'')))"

definition parse_restore_query :: "(string \<times> string) list \<Rightarrow> bool store_result" where
  "parse_restore_query query =
     and_then (fold_res restore_query_step (None, []) query)
       (\<lambda>st. Inr (case fst st of Some b \<Rightarrow> b | None \<Rightarrow> False))"

definition parse_restore_request :: "json \<Rightarrow> (string \<times> string) list \<Rightarrow> RestoreRequest store_result" where
  "parse_restore_request body query =
     (if \<not> is_object body then Inl (parse_exception ''snapshot restore body must be a JSON object'')
      else
        and_then (parse_restore_query query) (\<lambda>wait_for_completion.
        and_then (reject_unsupported_restore_options body) (\<lambda>_.
        and_then (parse_indices body) (\<lambda>indices.
        and_then (parse_bool body ''ignore_unavailable'' False) (\<lambda>ignore_unavailable.
        and_then (parse_bool body ''include_aliases'' True) (\<lambda>include_aliases.
        and_then (parse_optional_string body ''rename_pattern'') (\<lambda>rename_pattern.
        and_then (parse_optional_string body ''rename_replacement'') (\<lambda>rename_replacement.
        and_then (parse_index_settings body) (\<lambda>index_settings.
        and_then (parse_string_list body ''ignore_index_settings'') (\<lambda>ignore_index_settings.
        Inr \<lparr>rr_indices = indices, rr_ignore_unavailable = ignore_unavailable, rr_include_aliases = include_aliases,
             rr_rename_pattern = rename_pattern, rr_rename_replacement = rename_replacement,
             rr_index_settings = index_settings, rr_ignore_index_settings = ignore_index_settings,
             rr_wait_for_completion = wait_for_completion\<rparr>))))))))))"

end
