(* ===== verification/SnapshotHandlers.thy ===== *)
theory SnapshotHandlers
  imports SnapshotCalls Restore
begin

section \<open>The handler of snapshot requests\<close>

text \<open>
  \<open>handle_snapshot\<close> of \<open>src/api/mod.rs\<close>. The database is that of the store when the request is handled, an error
  when it cannot be read.
\<close>

definition snapshot_reply :: "json store_result \<Rightarrow> Response" where
  "snapshot_reply r = respond (json_response 200) r"

definition snapshot_write :: "Repositories \<times> json store_result \<Rightarrow> Repositories \<times> Response" where
  "snapshot_write sr = (fst sr, snapshot_reply (snd sr))"

definition restore_response :: "json_parse \<Rightarrow> Request \<Rightarrow> string \<Rightarrow> string \<Rightarrow> Response" where
  "restore_response parse request repository snapshot =
     (case and_then (validate_name repository RepositoryName) (\<lambda>_. validate_name snapshot SnapshotName) of
        Inl e \<Rightarrow> store_error e
      | Inr _ \<Rightarrow>
          (case body_json parse request of
             Inl e \<Rightarrow> parse_error e
           | Inr body \<Rightarrow> respond (\<lambda>_. unsupported ''snapshot.restore'') (parse_restore_request body (rq_query request))))"

definition handle_snapshot ::
    "RepositoryCodec \<Rightarrow> json_parse \<Rightarrow> bool \<Rightarrow> RepositoryEnv \<Rightarrow> Database store_result \<Rightarrow> Request \<Rightarrow> string list
      \<Rightarrow> Repositories \<Rightarrow> Repositories \<times> Response" where
  "handle_snapshot rc parse ephemeral env db request parts repos =
     (let meth = rq_method request; writes = meth = PUT \<or> meth = POST; dec = decode_path_param
      in case parts of
        [_] \<Rightarrow>
          if meth = GET then (repos, snapshot_reply (get_repositories rc env ephemeral None repos))
          else (repos, unsupported ''snapshot'')
      | [_, repository] \<Rightarrow>
          if meth = GET then (repos, snapshot_reply (get_repositories rc env ephemeral (Some (dec repository)) repos))
          else if writes then
            (case body_json parse request of
               Inl e \<Rightarrow> (repos, parse_error e)
             | Inr body \<Rightarrow> snapshot_write (put_repository rc env ephemeral (dec repository) body repos))
          else if meth = DELETE then snapshot_write (delete_repository env ephemeral (dec repository) repos)
          else (repos, unsupported ''snapshot'')
      | [_, repository, snapshot] \<Rightarrow>
          if meth = POST \<and> dec snapshot = ''_verify'' then
            (repos, snapshot_reply (verify_repository rc env ephemeral (dec repository) repos))
          else if meth = POST \<and> dec snapshot = ''_cleanup'' then
            snapshot_write (cleanup_repository rc env ephemeral (dec repository) repos)
          else if meth = GET then
            (repos, snapshot_reply (get_snapshots rc env ephemeral (dec repository) (dec snapshot) repos))
          else if writes then
            (case body_json parse request of
               Inl e \<Rightarrow> (repos, parse_error e)
             | Inr body \<Rightarrow>
                 (case db of
                    Inl e \<Rightarrow> (repos, store_error e)
                  | Inr db \<Rightarrow>
                      snapshot_write (create_snapshot rc env ephemeral (dec repository) (dec snapshot) db body repos)))
          else if meth = DELETE then
            snapshot_write (delete_snapshot rc env ephemeral (dec repository) (dec snapshot) repos)
          else (repos, unsupported ''snapshot'')
      | [_, repository, snapshot, operation] \<Rightarrow>
          if meth = POST \<and> dec operation = ''_restore'' then
            (repos, restore_response parse request (dec repository) (dec snapshot))
          else (repos, unsupported ''snapshot'')
      | _ \<Rightarrow> (repos, unsupported ''snapshot''))"

end
