(* ===== verification/SnapshotProperties.thy ===== *)
theory SnapshotProperties
  imports SnapshotHandlers
begin

section \<open>Properties of snapshot repositories\<close>

text \<open>The claims about repositories under calls whose writes fail, with witnesses on a repository of one snapshot.\<close>

subsection \<open>A repository to apply them to\<close>

definition demo_rio :: RepositoryEnv where
  "demo_rio = \<lparr>re_now_millis = 5, re_write = (\<lambda>_. Written), re_unreadable = (\<lambda>_ _. False), re_temporary = None,
     re_torn = (\<lambda>d. d)\<rparr>"

text \<open>The second write fails.\<close>

definition failing_rio :: RepositoryEnv where
  "failing_rio = demo_rio\<lparr>re_write := (\<lambda>n. if n = 1 then FailedBefore else Written)\<rparr>"

definition demo_repository :: RepositoryData where
  "demo_repository = next_of (new_repository 5 ''r'' ''fs'' (JObj []))"

definition demo_manifest :: SnapshotManifest where
  "demo_manifest = snapshot_manifest 5 ''s'' [] (blob_name_of ''D'') (database_subset Database_default [])"

definition demo_catalog :: RepositoryData where
  "demo_catalog = next_of (demo_repository\<lparr>rp_snapshots := [(''s'', demo_manifest)]\<rparr>)"

definition demo_codec :: RepositoryCodec where
  "demo_codec = \<lparr>
     rc_enc = (\<lambda>d. if d = demo_repository then Some ''1'' else if d = demo_catalog then Some ''2'' else None),
     rc_dec = (\<lambda>s. if s = ''1'' then Some demo_repository else if s = ''2'' then Some demo_catalog else None),
     rc_database = (\<lambda>_. Some ''D'')\<rparr>"

definition demo_repositories :: Repositories where
  "demo_repositories = [(''r'',
     \<lparr>dir_latest = Some [CHR ''2'', CHR 0x0A],
      dir_generations = [(''index-000001.json'', ''1''), (''index-000002.json'', ''2'')],
      dir_blobs = Some [(blob_name_of ''D'', ''D'')]\<rparr>)]"

lemma demo_codec_ok: "repository_codec_ok demo_codec"
  by (simp add: repository_codec_ok_def demo_codec_def)

lemma demo_catalog_latest: "catalog demo_codec (get_dir demo_repositories ''r'') = Some demo_catalog"
proof -
  have "utf8_valid [CHR ''2'', CHR 0x0A] \<and> parse_u64 (trim [CHR ''2'', CHR 0x0A]) = Some 2
        \<and> generation_file_name 2 = ''index-000002.json''" by code_simp
  then show ?thesis by (simp add: catalog_def get_dir_def demo_repositories_def demo_codec_def)
qed

lemma demo_repositories_ok: "repositories_ok demo_codec demo_repositories"
proof -
  have gens: "bt_ok [(''index-000001.json'', ''1''), (''index-000002.json'', ''2'')]"
    "show_nat 2 = ''2''" by code_simp+
  have "rp_generation demo_catalog = 2" "rp_snapshots demo_catalog = [(''s'', demo_manifest)]"
    "sn_database_blob demo_manifest = blob_name_of ''D''"
    by (simp_all add: demo_catalog_def demo_repository_def next_of_def new_repository_def demo_manifest_def
        snapshot_manifest_def)
  with gens demo_catalog_latest show ?thesis
    by (simp add: repositories_ok_def dir_ok_def get_dir_def demo_repositories_def catalog_ok_def backed_def
        bt_values_def blobs_of_def blob_ok_def bt_ok_Cons bt_has_def usize_max_def)
qed

lemma demo_snapshot: "snapshot_of demo_codec demo_repositories ''r'' ''s'' = Some (demo_manifest, ''D'')"
proof -
  have "rp_snapshots demo_catalog = [(''s'', demo_manifest)]" "sn_database_blob demo_manifest = blob_name_of ''D''"
    by (simp_all add: demo_catalog_def next_of_def demo_manifest_def snapshot_manifest_def)
  with demo_catalog_latest show ?thesis
    by (simp add: snapshot_of_def blobs_of_def get_dir_def demo_repositories_def)
qed

subsection \<open>Repositories stay intact\<close>

lemma snapshot_call_ok:
  assumes "repository_codec_ok rc" and "repositories_ok rc repos" and "removes_whole (env, call)"
  shows "repositories_ok rc (fst (snapshot_call rc ephemeral env call repos))"
proof (cases call)
  case (CreateSnapshot repository name db body)
  with create_snapshot_steps(1) [OF assms(2,1)] show ?thesis by (metis snapshot_call_def SnapshotCall.case(4) prod.collapse)
qed (use assms in \<open>simp_all add: snapshot_call_def put_repository_safe cleanup_repository_safe delete_snapshot_ok
      delete_repository_ok removes_whole_def\<close>)

text \<open>C6. Whatever calls are made, and whichever of their writes fail, every repository stays intact: a reader
  finds no catalog or the one \<open>index.latest\<close> names, every snapshot of it has its blob, and every blob is named by the
  hash of its bytes. The one exception is a removal of a whole repository that is cut short.\<close>

theorem repositories_stay_intact:
  assumes "repository_codec_ok rc" and "repositories_ok rc repos" and "list_all removes_whole calls"
  shows "repositories_ok rc (snapshot_run rc ephemeral calls repos)"
  using assms(2,3)
proof (induction calls arbitrary: repos)
  case (Cons ec calls)
  then show ?case using snapshot_call_ok [OF assms(1) Cons.prems(1)] by (cases ec) simp
qed simp

theorem repositories_stay_intact_witness:
  "repositories_ok demo_codec (snapshot_run demo_codec False
      [(failing_rio, PutRepository ''r'' empty_object), (demo_rio, CreateSnapshot ''r'' ''t'' Database_default empty_object),
       (demo_rio, DeleteSnapshot ''r'' ''s''), (failing_rio, CleanupRepository ''r'')] demo_repositories)"
  by (rule repositories_stay_intact [OF demo_codec_ok demo_repositories_ok]) (simp add: removes_whole_def)

lemma snapshot_call_keeps:
  assumes "repository_codec_ok rc" and "repositories_ok rc repos" and "\<not> deletes call"
  shows "keeps rc repos (fst (snapshot_call rc ephemeral env call repos))"
proof (cases call)
  case (CreateSnapshot repository name db body)
  with create_snapshot_steps(2) [OF assms(2,1)] show ?thesis by (metis snapshot_call_def SnapshotCall.case(4) prod.collapse)
qed (use assms in \<open>simp_all add: snapshot_call_def put_repository_safe cleanup_repository_safe deletes_def\<close>)

lemma not_deletes_whole: "\<not> deletes call \<Longrightarrow> removes_whole (env, call)"
  by (cases call) (simp_all add: deletes_def removes_whole_def)

text \<open>C19. A snapshot outlives every sequence of calls that deletes nothing: puts of its repository, other snapshots,
  clean-ups, each with any of its writes failing. Its manifest and the bytes of its blob stay the same.\<close>

theorem snapshots_survive:
  assumes "repository_codec_ok rc" and "repositories_ok rc repos" and "list_all (\<lambda>(env, call). \<not> deletes call) calls"
    and "snapshot_of rc repos repository name = Some s"
  shows "snapshot_of rc (snapshot_run rc ephemeral calls repos) repository name = Some s"
  using assms(2-4)
proof (induction calls arbitrary: repos)
  case (Cons ec calls)
  obtain env call where ec: "ec = (env, call)" by (cases ec)
  from Cons.prems ec have nd: "\<not> deletes call" by simp
  have "repositories_ok rc (fst (snapshot_call rc ephemeral env call repos))"
    by (rule snapshot_call_ok [OF assms(1) Cons.prems(1) not_deletes_whole [OF nd]])
  moreover have "snapshot_of rc (fst (snapshot_call rc ephemeral env call repos)) repository name = Some s"
    using snapshot_call_keeps [OF assms(1) Cons.prems(1) nd, of ephemeral env] Cons.prems(3) unfolding keeps_def by blast
  ultimately show ?case using Cons.IH Cons.prems(2) ec by simp
qed simp

theorem snapshots_survive_witness:
  "snapshot_of demo_codec (snapshot_run demo_codec False
      [(failing_rio, PutRepository ''r'' empty_object), (demo_rio, CreateSnapshot ''r'' ''t'' Database_default empty_object),
       (failing_rio, CleanupRepository ''r'')] demo_repositories) ''r'' ''s'' = Some (demo_manifest, ''D'')"
  using snapshots_survive [OF demo_codec_ok demo_repositories_ok _ demo_snapshot, of
      "[(failing_rio, PutRepository ''r'' empty_object), (demo_rio, CreateSnapshot ''r'' ''t'' Database_default empty_object),
       (failing_rio, CleanupRepository ''r'')]" False]
  by (simp add: deletes_def)

subsection \<open>Creating a snapshot\<close>

text \<open>C20. A snapshot that is acknowledged is stored: under its name the catalog has its manifest, and the blob of the
  manifest holds the encoded subset of the database. The bytes are those of an earlier blob only where that blob has
  the same 64-bit hash: the blob of a snapshot is named by the hash and never rewritten.\<close>

theorem created_snapshot_is_stored:
  assumes "repository_codec_ok rc" and "repositories_ok rc repos"
    and "create_snapshot rc env ephemeral raw_repository raw_snapshot db body repos = (repos', Inr answer)"
  shows "\<exists>repository name indices bytes stored.
      validate_name raw_repository RepositoryName = Inr repository
    \<and> validate_name raw_snapshot SnapshotName = Inr name
    \<and> selected_indices db body = Inr indices
    \<and> rc_database rc (database_subset db indices) = Some bytes
    \<and> snapshot_of rc repos' repository name = Some (snapshot_manifest (re_now_millis env) name indices
         (blob_name_of bytes) (database_subset db indices), stored)
    \<and> blob_name_of stored = blob_name_of bytes
    \<and> (stored = bytes \<or> bt_get (blobs_of (get_dir repos repository)) (blob_name_of bytes) = Some stored)"
proof -
  from create_snapshot_steps(3) [OF assms(2,1,3)] obtain repository name indices bytes stored where
    req: "snapshot_request rc ephemeral raw_repository raw_snapshot db body = Inr (repository, name, indices, bytes)"
    and st: "snapshot_of rc repos' repository name = Some (snapshot_manifest (re_now_millis env) name indices
         (blob_name_of bytes) (database_subset db indices), stored)"
      "blob_name_of stored = blob_name_of bytes"
      "stored = bytes \<or> bt_get (blobs_of (get_dir repos repository)) (blob_name_of bytes) = Some stored"
    by blast
  from req have "validate_name raw_repository RepositoryName = Inr repository"
    "validate_name raw_snapshot SnapshotName = Inr name" "selected_indices db body = Inr indices"
    "rc_database rc (database_subset db indices) = Some bytes"
    by (auto simp: snapshot_request_def result_simps)
  with st show ?thesis by blast
qed

text \<open>The repository before its snapshot.\<close>

definition demo_before :: Repositories where
  "demo_before = [(''r'',
     \<lparr>dir_latest = Some [CHR ''1'', CHR 0x0A], dir_generations = [(''index-000001.json'', ''1'')], dir_blobs = None\<rparr>)]"

lemma demo_names: "validate_name ''r'' RepositoryName = Inr ''r'' \<and> validate_name ''s'' SnapshotName = Inr ''s''
    \<and> selected_indices Database_default empty_object = Inr []"
  by code_simp

lemma demo_numbers: "utf8_valid [CHR ''1'', CHR 0x0A]" "parse_u64 (trim [CHR ''1'', CHR 0x0A]) = Some 1"
  "generation_file_name 1 = ''index-000001.json''" "generation_file_name 2 = ''index-000002.json''"
  "u64_succ 1 = 2" "show_nat 2 = ''2''" "show_nat 1 = ''1''"
  by code_simp+

lemma demo_read: "read_latest demo_codec demo_rio demo_before ''r'' = Inr demo_repository"
  by (simp add: read_latest_def read_latest_optional_def read_generation_def get_dir_def demo_before_def demo_numbers
      demo_rio_def demo_codec_def demo_numbers [simplified])

lemma demo_request:
  "snapshot_request demo_codec False ''r'' ''s'' Database_default empty_object = Inr (''r'', ''s'', [], ''D'')"
  using demo_names by (simp add: snapshot_request_def ensure_persistent_def, simp add: demo_codec_def)

definition demo_with_blob :: Repositories where
  "demo_with_blob = [(''r'',
     \<lparr>dir_latest = Some [CHR ''1'', CHR 0x0A], dir_generations = [(''index-000001.json'', ''1'')],
      dir_blobs = Some [(blob_name_of ''D'', ''D'')]\<rparr>)]"

lemma demo_blob:
  "make_blobs_dir Written ''r'' demo_before =
     ([(''r'', \<lparr>dir_latest = Some [CHR ''1'', CHR 0x0A], dir_generations = [(''index-000001.json'', ''1'')],
        dir_blobs = Some []\<rparr>)], Inr ())"
  "write_missing_blob demo_rio Written ''r'' (blob_name_of ''D'') ''D''
     [(''r'', \<lparr>dir_latest = Some [CHR ''1'', CHR 0x0A], dir_generations = [(''index-000001.json'', ''1'')],
        dir_blobs = Some []\<rparr>)] = (demo_with_blob, Inr ())"
  by (simp_all add: make_blobs_dir_def write_missing_blob_def write_blob_def atomically_def on_dir_def get_dir_def
      put_blob_def take_temporary_def blobs_of_def bt_remove_def demo_before_def demo_with_blob_def)

lemma demo_fields:
  "rp_snapshots demo_repository = []" "rp_generation demo_repository = 1" "demo_catalog \<noteq> demo_repository"
  by (simp_all add: demo_catalog_def demo_repository_def next_of_def new_repository_def u64_succ_def)

lemma demo_succ [simp]: "u64_succ (Suc 0) = 2"
  by (simp add: u64_succ_def)

lemma demo_next:
  "write_next_generation demo_codec demo_rio 2 ''r'' (demo_repository\<lparr>rp_snapshots := [(''s'', demo_manifest)]\<rparr>)
     demo_with_blob = (demo_repositories, Inr ())"
proof -
  have "rc_enc demo_codec (demo_repository\<lparr>rp_snapshots := [(''s'', demo_manifest)], rp_generation := 2\<rparr>) = Some ''2''"
    using demo_fields(3) by (simp add: demo_codec_def demo_catalog_def next_of_def demo_fields)
  then show ?thesis
    by (simp add: write_next_generation_def generation_writes then_do_atomically demo_fields demo_numbers [simplified]
        demo_rio_def on_dir_def get_dir_def with_generation_def with_latest_def demo_with_blob_def demo_repositories_def)
qed

lemma demo_create:
  "create_snapshot demo_codec demo_rio False ''r'' ''s'' Database_default empty_object demo_before
     = (demo_repositories, Inr (jobject [(''accepted'', JBool True), (''snapshot'', manifest_body ''r'' demo_manifest)]))"
proof -
  have "re_write demo_rio n = Written" "re_now_millis demo_rio = 5" for n by (simp_all add: demo_rio_def)
  then show ?thesis
    using demo_next unfolding demo_manifest_def
    by (simp add: create_snapshot_def demo_request demo_read demo_fields demo_blob then_do_def Let_def)
qed

lemma demo_before_ok: "repositories_ok demo_codec demo_before"
  by (simp add: repositories_ok_def demo_before_def dir_ok_def catalog_def demo_numbers [simplified] demo_codec_def
      catalog_ok_def demo_fields backed_def blobs_of_def bt_ok_Cons bt_values_def usize_max_def)

theorem created_snapshot_is_stored_witness:
  "\<exists>m stored. snapshot_of demo_codec demo_repositories ''r'' ''s'' = Some (m, stored) \<and> blob_name_of stored = blob_name_of ''D''"
  using created_snapshot_is_stored [OF demo_codec_ok demo_before_ok demo_create] demo_names
  by (auto simp: demo_codec_def)

subsection \<open>Cleaning up\<close>

lemma remove_unreferenced_written:
  assumes "\<And>n. re_write env n = Written"
  shows "remove_unreferenced env referenced n entries blobs (a, b) =
    (filter (\<lambda>(file, _). file \<in> set referenced \<or> file \<notin> fst ` set entries) blobs,
     Inr (a + sum_list (map (\<lambda>(_, bytes). length bytes) (filter (\<lambda>(file, _). file \<notin> set referenced) entries)),
          b + length (filter (\<lambda>(file, _). file \<notin> set referenced) entries)))"
proof (induction entries arbitrary: n blobs a b)
  case Nil
  then show ?case using assms by (simp add: filter_id_conv)
next
  case (Cons e entries)
  obtain fname bytes where e: "e = (fname, bytes)" by (cases e)
  show ?case
  proof (cases "fname \<in> set referenced")
    case True
    then have "filter (\<lambda>(f, _). f \<in> set referenced \<or> f \<notin> fst ` set entries) blobs
       = filter (\<lambda>(f, _). f \<in> set referenced \<or> f \<notin> fst ` set (e # entries)) blobs"
      by (intro filter_cong) (auto simp: e)
    with True show ?thesis by (simp add: e Cons.IH)
  next
    case False
    then show ?thesis
      by (auto simp: e Cons.IH assms bt_remove_def intro!: filter_cong)
  qed
qed

text \<open>C22. A clean-up whose deletions succeed removes exactly the files no snapshot refers to, temporary files of
  interrupted writes included, and reports how many there were and how many bytes they held.\<close>

theorem cleanup_removes_what_is_unreferenced:
  assumes "\<And>n. re_write env n = Written" and "validate_name raw RepositoryName = Inr name"
    and "bt_ok repos" and "read_latest rc env repos name = Inr data" and "dir_blobs (get_dir repos name) = Some blobs"
  shows "\<exists>repos'. cleanup_repository rc env False raw repos =
      (repos', Inr (cleanup_body
         (sum_list (map (\<lambda>(_, bytes). length bytes) (filter (\<lambda>(file, _). file \<notin> set (referenced_blobs data)) blobs)),
          length (filter (\<lambda>(file, _). file \<notin> set (referenced_blobs data)) blobs))))
    \<and> blobs_of (get_dir repos' name) = filter (\<lambda>(file, _). file \<in> set (referenced_blobs data)) blobs
    \<and> (\<forall>other. other \<noteq> name \<longrightarrow> get_dir repos' other = get_dir repos other)"
proof -
  have "filter (\<lambda>(file, _). file \<in> set (referenced_blobs data) \<or> file \<notin> fst ` set blobs) blobs
      = filter (\<lambda>(file, _). file \<in> set (referenced_blobs data)) blobs"
    by (intro filter_cong) (auto intro: rev_image_eqI)
  with assms show ?thesis
    by (simp add: cleanup_repository_def ensure_persistent_def remove_unreferenced_written [OF assms(1)])
qed

text \<open>The repository with the temporary file of an interrupted write.\<close>

definition demo_littered :: Repositories where
  "demo_littered = [(''r'',
     \<lparr>dir_latest = Some [CHR ''1'', CHR 0x0A], dir_generations = [(''index-000001.json'', ''1'')],
      dir_blobs = Some [(''database-0.json.tmp'', ''D'')]\<rparr>)]"

lemma demo_littered_read: "read_latest demo_codec demo_rio demo_littered ''r'' = Inr demo_repository"
  by (simp add: read_latest_def read_latest_optional_def read_generation_def get_dir_def demo_littered_def
      demo_rio_def demo_codec_def demo_numbers [simplified])

theorem cleanup_removes_what_is_unreferenced_witness:
  "\<exists>repos'. cleanup_repository demo_codec demo_rio False ''r'' demo_littered = (repos', Inr (cleanup_body (1, 1)))
     \<and> blobs_of (get_dir repos' ''r'') = []"
proof -
  have "\<And>n. re_write demo_rio n = Written" "bt_ok demo_littered"
    "dir_blobs (get_dir demo_littered ''r'') = Some [(''database-0.json.tmp'', ''D'')]"
    by (simp_all add: demo_rio_def demo_littered_def bt_ok_Cons get_dir_def)
  moreover have "referenced_blobs demo_repository = []"
    by (simp add: referenced_blobs_def demo_fields bt_values_def bs_of_list_def)
  ultimately show ?thesis
    using cleanup_removes_what_is_unreferenced [of demo_rio "''r''" "''r''" demo_littered demo_codec demo_repository]
      demo_names demo_littered_read
    by auto
qed

subsection \<open>An interrupted request to create a repository\<close>

lemma fold_res_all_Inr:
  "\<forall>x \<in> set xs. \<forall>s. \<exists>s'. f s x = Inr s' \<Longrightarrow> \<exists>s'. fold_res f s xs = Inr s'"
  by (induction xs arbitrary: s) (auto, metis and_then_simps(2))

lemma fold_res_Inr_all:
  "fold_res f s xs = Inr s' \<Longrightarrow> x \<in> set xs \<Longrightarrow> \<exists>t t'. f t x = Inr t'"
  by (induction xs arbitrary: s) (auto simp: result_simps)

lemma bt_keys_insert_split:
  "k \<notin> fst ` set m \<Longrightarrow> \<exists>xs ys. bt_keys (bt_insert k v m) = xs @ k # ys \<and> set xs \<subseteq> fst ` set m"
proof (induction m)
  case Nil
  show ?case by (rule exI [of _ "[]"], rule exI [of _ "[]"]) (simp add: bt_keys_def)
next
  case (Cons e m)
  obtain j w where e: "e = (j, w)" by (cases e)
  show ?case
  proof (cases "k < j")
    case True
    then have "bt_keys (bt_insert k v (e # m)) = [] @ k # bt_keys (e # m)" by (simp add: bt_keys_def e)
    then show ?thesis by (metis empty_set empty_subsetI)
  next
    case False
    from Cons obtain xs ys where "bt_keys (bt_insert k v m) = xs @ k # ys" "set xs \<subseteq> fst ` set m" by auto
    with False Cons.prems have "bt_keys (bt_insert k v (e # m)) = (j # xs) @ k # ys \<and> set (j # xs) \<subseteq> fst ` set (e # m)"
      by (auto simp: bt_keys_def e)
    then show ?thesis by blast
  qed
qed

lemma bt_insert_twice: "bt_insert k v (bt_insert k w m) = bt_insert k v m"
  by (induction m) auto

text \<open>The first of the three writes of a put that fails leaves the directory, but \<open>index.latest\<close> not in place.\<close>

definition put_interrupted :: "RepositoryEnv \<Rightarrow> bool" where
  "put_interrupted env \<longleftrightarrow>
     re_write env 0 = FailedAfter
     \<or> re_write env 0 = Written \<and> (re_write env 1 \<noteq> Written \<or> re_write env 2 = FailedBefore)"

lemma interrupted_put_leaves:
  assumes "put_repository_request False raw body = Inr (name, ty, settings)" and "\<not> bt_has repos name"
    and "put_repository rc env False raw body repos = (repos', r)" and "put_interrupted env"
  shows "(\<exists>d. repos' = bt_insert name d repos \<and> dir_latest d = None) \<and> (\<exists>e. r = Inl e \<and> se_status e = 500)"
proof -
  have d: "get_dir repos name = empty_dir" "dir_latest empty_dir = None"
    using assms(2) by (simp_all add: get_dir_def bt_has_def empty_dir_def)
  have get: "get_dir (bt_insert name x repos) name = x" for x by (simp add: get_dir_def)
  note unfolded = put_repository_def read_latest_optional_def write_next_generation_def
        make_dir_def write_generation_file_def write_latest_def then_do_def atomically_def on_dir_def Let_def
        repository_acknowledged_def repository_io_error_def StoreError_new_def
  consider "re_write env 0 = FailedAfter" | "re_write env 0 = Written" "re_write env (Suc 0) = FailedBefore"
    | "re_write env 0 = Written" "re_write env (Suc 0) = FailedAfter"
    | "re_write env 0 = Written" "re_write env (Suc 0) = Written" "re_write env (Suc (Suc 0)) = FailedBefore"
    using assms(4) by (auto simp: put_interrupted_def numeral_2_eq_2 intro: write_outcome.exhaust)
  then show ?thesis
    using assms(1,3) by cases (auto simp: unfolded d get bt_insert_twice split: option.splits)
qed

text \<open>C37. When a put of a new repository fails after its directory is made and before \<open>index.latest\<close> is in place, at
  whichever of its three writes and whether or not that write took effect, the directory that stays behind counts as a
  repository without a catalog: from then on the listing of all repositories fails with 404, however many healthy ones
  there are, until the name is put or deleted. A put whose directory cannot be made changes nothing.\<close>

theorem interrupted_put_blocks_listing:
  assumes "put_repository_request False raw body = Inr (name, ty, settings)" and "\<not> bt_has repos name"
    and "get_repositories rc env' False None repos = Inr listing"
    and "put_repository rc env False raw body repos = (repos', r)"
  shows "(put_interrupted env \<longrightarrow> (\<exists>e. r = Inl e \<and> se_status e = 500)
        \<and> get_repositories rc env' False None repos' = Inl (repository_missing name))
    \<and> (re_write env 0 = FailedBefore \<longrightarrow> (\<exists>e. r = Inl e \<and> se_status e = 500) \<and> repos' = repos)"
proof (intro conjI impI)
  assume "re_write env 0 = FailedBefore"
  moreover have "get_dir repos name = empty_dir" "dir_latest empty_dir = None"
    using assms(2) by (simp_all add: get_dir_def bt_has_def empty_dir_def)
  ultimately show "\<exists>e. r = Inl e \<and> se_status e = 500" and "repos' = repos"
    using assms(1,4)
    by (auto simp: put_repository_def read_latest_optional_def write_next_generation_def make_dir_def then_do_def
        atomically_def Let_def repository_acknowledged_def repository_io_error_def StoreError_new_def)
next
  assume "put_interrupted env"
  from interrupted_put_leaves [OF assms(1,2,4) this] obtain d
    where put: "repos' = bt_insert name d repos" "dir_latest d = None" and r: "\<exists>e. r = Inl e \<and> se_status e = 500" by blast
  from r show "\<exists>e. r = Inl e \<and> se_status e = 500" .
  obtain xs ys where keys: "bt_keys repos' = xs @ name # ys" and sub: "set xs \<subseteq> fst ` set repos"
    using bt_keys_insert_split assms(2) put unfolding bt_has_keys by (metis set_map)
  let ?f = "\<lambda>output n. and_then (read_latest rc env' repos' n) (\<lambda>data. Inr (bt_insert n (repository_body data) output))"
  have "\<exists>data. read_latest rc env' repos' n = Inr data" if "n \<in> set xs" for n
  proof -
    have "n \<in> set (repository_names repos)" using that sub by (auto simp: repository_names_def bt_keys_def)
    with assms(3) obtain data where "read_latest rc env' repos n = Inr data"
      by (auto simp: get_repositories_def ensure_persistent_def result_simps dest!: fold_res_Inr_all)
    moreover have "n \<noteq> name" using that sub assms(2) by (auto simp: bt_has_keys)
    ultimately show ?thesis using put by (simp add: read_latest_def get_dir_def)
  qed
  then have "\<exists>out. fold_res ?f [] xs = Inr out" by (intro fold_res_all_Inr) (fastforce simp: result_simps)
  moreover have "read_latest rc env' repos' name = Inl (repository_missing name)"
    using put by (simp add: read_latest_def read_latest_optional_def get_dir_def)
  ultimately have "fold_res ?f [] (bt_keys repos') = Inl (repository_missing name)"
    by (auto simp: keys fold_res_append)
  then show "get_repositories rc env' False None repos' = Inl (repository_missing name)"
    by (simp add: get_repositories_def ensure_persistent_def repository_names_def)
qed

lemma demo_put_request: "put_repository_request False ''a'' empty_object = Inr (''a'', ''fs'', empty_object)"
  by code_simp

lemma demo_listing:
  "get_repositories demo_codec demo_rio False None demo_before
     = Inr (JObj [(''r'', repository_body demo_repository)])"
  by (simp add: get_repositories_def ensure_persistent_def repository_names_def bt_keys_def demo_read [unfolded demo_before_def]
      demo_before_def)

theorem interrupted_put_blocks_listing_witness:
  "get_repositories demo_codec demo_rio False None
     (fst (put_repository demo_codec failing_rio False ''a'' empty_object demo_before)) = Inl (repository_missing ''a'')"
proof -
  have "\<not> bt_has demo_before ''a''" and interrupted: "put_interrupted failing_rio"
    by (simp_all add: demo_before_def bt_has_def put_interrupted_def failing_rio_def demo_rio_def)
  with interrupted_put_blocks_listing [OF demo_put_request _ demo_listing, of failing_rio
      "fst (put_repository demo_codec failing_rio False ''a'' empty_object demo_before)"
      "snd (put_repository demo_codec failing_rio False ''a'' empty_object demo_before)"]
  show ?thesis by simp
qed

end
