(* ===== verification/RouteSafety.thy ===== *)
theory RouteSafety
  imports Dispatch
begin

section \<open>Classification against dispatch\<close>

text \<open>
  Authorization looks at the classification of a request, and the handler is found by a second chain
  of tests. For plain paths, without percent signs and without a slash at the end, the two agree: a
  handler that writes is reached only by a request classified as a write. The proof goes over the
  groups of tests: what each of them can classify as an implemented read, and what the dispatch does
  with such a path.
\<close>

lemma is_path_simps [simp]:
  "is_path [] [] = True" "is_path [] (s # ss) = False" "is_path (p # ps) [] = False"
  "is_path (p # ps) (s # ss) = (seg_matches p s \<and> is_path ps ss)"
  by (simp_all add: is_path_def)

lemma in_path_simps [simp]:
  "in_path [] ss = True" "in_path (p # ps) [] = False"
  "in_path (p # ps) (s # ss) = (seg_matches p s \<and> in_path ps ss)"
  by (auto simp: in_path_def)

lemma seg_at_simps [simp]:
  "seg_at n [] = None" "seg_at 0 (s # ss) = Some s" "seg_at (Suc n) (s # ss) = seg_at n ss"
  "seg_at 1 (s # ss) = seg_at 0 ss"
  by (simp_all add: seg_at_def)

lemma index_or_all_simps [simp]:
  "index_or_all s [] = False" "index_or_all s [a] = (a = s)" "index_or_all s [a, b] = (b = s)"
  "index_or_all s (a # b # c # cs) = False"
  by (auto simp: index_or_all_def)

lemma index_or_all_iff: "index_or_all s segs \<longleftrightarrow> segs = [s] \<or> (\<exists>x. segs = [x, s])"
  by (auto simp: index_or_all_def is_path_def list_all2_Cons1)

lemma is_path_shapes:
  "is_path [Lit a] segs \<longleftrightarrow> segs = [a]"
  "is_path [AnySeg, Lit a] segs \<longleftrightarrow> (\<exists>x. segs = [x, a])"
  "is_path [Lit a, AnySeg] segs \<longleftrightarrow> (\<exists>x. segs = [a, x])"
  "is_path [Lit a, Lit b] segs \<longleftrightarrow> segs = [a, b]"
  "is_path [Lit a, Lit b, AnySeg] segs \<longleftrightarrow> (\<exists>x. segs = [a, b, x])"
  "is_path [AnySeg, Lit a, Lit b] segs \<longleftrightarrow> (\<exists>x. segs = [x, a, b])"
  "is_path [AnySeg, Lit a, AnySeg] segs \<longleftrightarrow> (\<exists>x y. segs = [x, a, y])"
  by (auto simp: is_path_def list_all2_Cons1)

lemma route_simps [simp]:
  "rm_tier (route n t a) = t" "rm_access (route n t a) = a" "rm_api_name (route n t a) = n"
  "rm_tier (unsupported_method n meth) = Unsupported"
  by (simp_all add: route_def unsupported_method_def)

text \<open>A read that reaches an implemented handler.\<close>

definition implemented_read :: "RouteMatch \<Rightarrow> bool" where
  "implemented_read r \<longleftrightarrow> rm_tier r = Implemented \<and> rm_access r = ReadAccess"

lemma implemented_read_simps [simp]:
  "implemented_read (route n t a) \<longleftrightarrow> t = Implemented \<and> a = ReadAccess"
  "\<not> implemented_read (unsupported_method n meth)"
  "implemented_read (if b then r else r') \<longleftrightarrow> (if b then implemented_read r else implemented_read r')"
  by (simp_all add: implemented_read_def)

lemma for_methods_read [simp]:
  "implemented_read (for_methods ms meth n r) \<longleftrightarrow> meth \<in> set ms \<and> implemented_read r"
  by (simp add: for_methods_def)

lemma get_only_read [simp]:
  "implemented_read (get_only meth n t) \<longleftrightarrow> (meth = GET \<or> meth = HEAD) \<and> t = Implemented"
  by (simp add: get_only_def)

lemma classify_pit_read: "implemented_read (classify_pit meth segs) \<Longrightarrow> meth \<noteq> PUT"
  by (auto simp: classify_pit_def Let_def split: if_splits)

lemma classify_snapshot_admin [simp]: "rm_access (classify_snapshot meth segs) = AdminAccess"
  by (simp add: classify_snapshot_def Let_def)

lemma classify_snapshot_read [simp]: "\<not> implemented_read (classify_snapshot meth segs)"
  by (simp add: implemented_read_def)

subsection \<open>Plain paths\<close>

definition plain_path :: "string \<Rightarrow> bool" where
  "plain_path path \<longleftrightarrow> path = ''/'' \<or>
     CHR 0x25 \<notin> set path \<and> trim_end_char (CHR ''/'') path = path \<and> list_all utf8_valid (path_parts path)"

lemma plain_parts: "plain_path path \<Longrightarrow> path \<noteq> ''/'' \<Longrightarrow> map decode_path_param (path_parts path) = path_parts path"
proof -
  assume plain: "plain_path path" and root: "path \<noteq> ''/''"
  have "set p \<subseteq> set s" if "p \<in> set (split_on c s)" for p c s
    using that by (induction c s arbitrary: p rule: split_on.induct) (auto split: list.splits if_splits, blast)
  then have "CHR 0x25 \<notin> set p" if "p \<in> set (path_parts path)" for p
    using that plain root by (auto simp: path_parts_def plain_path_def)
  with plain root have "decode_path_param p = p" if "p \<in> set (path_parts path)" for p
    using that by (auto simp: plain_path_def list_all_iff decode_path_param_def decode_bytes_plain)
  then show ?thesis by (simp add: map_idI)
qed

text \<open>The whole paths that are compared as strings.\<close>

lemma parts_of_literals:
  "path_parts ''/_reindex'' = [''_reindex'']" "path_parts ''/_search/scroll'' = [''_search'', ''scroll'']"
  "path_parts ''/_scroll'' = [''_scroll'']" "path_parts ''/_cluster/health'' = [''_cluster'', ''health'']"
  "path_parts ''/_cluster/settings'' = [''_cluster'', ''settings'']" "path_parts ''/_cluster/stats'' = [''_cluster'', ''stats'']"
  "path_parts ''/'' = []"
  by (simp_all add: path_parts_def)

subsection \<open>Reads by other methods than GET and HEAD\<close>

text \<open>What the groups classify as an implemented read of a POST or DELETE request, and what the dispatch
  makes of it.\<close>

definition read_apis :: "string list" where
  "read_apis = [''_analyze'', ''_field_caps'', ''_search'', ''_count'', ''_mget'', ''_msearch'']"

definition read_shape :: "string \<Rightarrow> string list \<Rightarrow> bool" where
  "read_shape path segs \<longleftrightarrow> path = ''/_search/scroll'' \<or> path = ''/_scroll''
     \<or> is_path [Lit ''_search'', Lit ''scroll'', AnySeg] segs \<or> is_path [Lit ''_scroll'', AnySeg] segs \<or> pit_family segs
     \<or> (\<exists>s \<in> set read_apis. index_or_all s segs)
     \<or> is_path [Lit ''_validate'', Lit ''query''] segs \<or> is_path [AnySeg, Lit ''_validate'', Lit ''query''] segs
     \<or> is_path [AnySeg, Lit ''_explain'', AnySeg] segs
        \<and> (\<forall>s \<in> {''_index_template'', ''_component_template'', ''_template'', ''_scripts'', ''_alias'', ''_aliases''}. hd segs \<noteq> s)"

lemma classify_control_read:
  "classify_control meth segs = Some r \<Longrightarrow> implemented_read r \<Longrightarrow> meth \<noteq> GET \<Longrightarrow> meth \<noteq> HEAD
    \<Longrightarrow> meth \<noteq> PUT \<and> pit_family segs"
  by (auto simp: classify_control_def dest: classify_pit_read split: if_splits)

lemma classify_cluster_read:
  "classify_cluster meth path segs = Some r \<Longrightarrow> implemented_read r \<Longrightarrow> meth \<noteq> GET \<Longrightarrow> meth \<noteq> HEAD
    \<Longrightarrow> meth \<noteq> PUT \<and> read_shape path segs"
  by (auto simp: classify_cluster_def classify_scroll_def read_shape_def split: if_splits)

lemma classify_read_apis_read:
  "classify_read_apis meth path segs = Some r \<Longrightarrow> implemented_read r \<Longrightarrow> meth \<noteq> GET \<Longrightarrow> meth \<noteq> HEAD
    \<Longrightarrow> meth \<noteq> PUT \<and> read_shape path segs"
  by (auto simp: classify_read_apis_def read_shape_def read_apis_def Let_def split: if_splits)

lemma classify_bulk_and_search_read:
  "classify_bulk_and_search meth segs = Some r \<Longrightarrow> implemented_read r \<Longrightarrow> meth \<noteq> GET \<Longrightarrow> meth \<noteq> HEAD
    \<Longrightarrow> meth \<noteq> PUT \<and> read_shape path segs"
  by (auto simp: classify_bulk_and_search_def read_shape_def read_apis_def Let_def split: if_splits)

lemma classify_by_query_read:
  "classify_by_query meth seg name rethrottle segs = Some r \<Longrightarrow> \<not> implemented_read r"
  by (auto simp: classify_by_query_def split: if_splits)

lemma classify_counts_read:
  "classify_counts meth segs = Some r \<Longrightarrow> implemented_read r \<Longrightarrow> meth \<noteq> GET \<Longrightarrow> meth \<noteq> HEAD
    \<Longrightarrow> meth \<noteq> PUT \<and> read_shape path segs"
  by (auto simp: classify_counts_def read_shape_def read_apis_def Let_def split: if_splits)

lemma classify_index_meta_read:
  "classify_index_meta meth segs = Some r \<Longrightarrow> implemented_read r \<Longrightarrow> meth = GET"
  by (auto simp: classify_index_meta_def get_or_put_def Let_def split: if_splits)

lemma classify_templates_read:
  "classify_templates meth segs = Some r \<Longrightarrow> implemented_read r \<Longrightarrow> meth = GET \<or> meth = HEAD"
  by (auto simp: classify_templates_def Let_def split: if_splits)

lemma classify_pipelines_read:
  "classify_pipelines meth segs = Some r \<Longrightarrow> implemented_read r \<Longrightarrow> meth = GET"
  by (auto simp: classify_pipelines_def classify_pipeline_def Let_def split: if_splits)

lemma classify_aliases_read:
  "classify_aliases meth segs = Some r \<Longrightarrow> implemented_read r \<Longrightarrow> meth = GET \<or> meth = HEAD"
  by (auto simp: classify_aliases_def Let_def split: if_splits)

lemma classify_documents_read:
  "classify_documents meth segs = Some r \<Longrightarrow> implemented_read r \<Longrightarrow> meth \<noteq> GET \<Longrightarrow> meth \<noteq> HEAD
    \<Longrightarrow> meth = POST \<and> is_path [AnySeg, Lit ''_explain'', AnySeg] segs"
  by (auto simp: classify_documents_def read_or_write_def Let_def split: if_splits)

lemma groups_fall_through:
  assumes "classify_templates meth segs = None" and "classify_pipelines meth segs = None" and "classify_aliases meth segs = None"
    and "is_path [AnySeg, Lit ''_explain'', AnySeg] segs"
  shows "\<forall>s \<in> {''_index_template'', ''_component_template'', ''_template'', ''_scripts'', ''_alias'', ''_aliases''}. hd segs \<noteq> s"
  using assms by (auto simp: is_path_shapes classify_templates_def classify_pipelines_def classify_aliases_def Let_def split: if_splits)

subsection \<open>What the dispatch does with them\<close>

lemma first_some_Cons [simp]: "first_some (x # xs) d = (case x of Some r \<Rightarrow> r | None \<Rightarrow> first_some xs d)"
  by (cases x) simp_all

lemma first_some_hit:
  "(\<And>x r. x \<in> set xs \<Longrightarrow> x = Some r \<Longrightarrow> P r) \<Longrightarrow> \<exists>x \<in> set xs. x \<noteq> None \<Longrightarrow> P (first_some (xs @ ys) d)"
  by (induction xs) (auto split: option.splits)

lemma path_not_literal:
  assumes "path_parts path = segs"
  shows "segs \<noteq> [''_reindex''] \<Longrightarrow> path \<noteq> ''/_reindex''"
    and "segs \<noteq> [''_search'', ''scroll''] \<Longrightarrow> path \<noteq> ''/_search/scroll''" and "segs \<noteq> [''_scroll''] \<Longrightarrow> path \<noteq> ''/_scroll''"
    and "segs \<noteq> [''_cluster'', ''health''] \<Longrightarrow> path \<noteq> ''/_cluster/health''"
    and "segs \<noteq> [''_cluster'', ''settings''] \<Longrightarrow> path \<noteq> ''/_cluster/settings''"
    and "segs \<noteq> [''_cluster'', ''stats''] \<Longrightarrow> path \<noteq> ''/_cluster/stats''" and "segs \<noteq> [] \<Longrightarrow> path \<noteq> ''/''"
  using assms parts_of_literals by metis+

text \<open>Each part of the dispatch, by what it takes to reach a handler that writes.\<close>

lemma handle_scroll_path_reads [simp]: "\<not> handler_writes meth (handle_scroll_path meth i)"
  by (simp add: handle_scroll_path_def)

lemma handle_control_writes:
  "handle_control meth path parts = Some h \<Longrightarrow> handler_writes meth h \<Longrightarrow>
    path = ''/_reindex'' \<or> map_option decode_path_param (seg_at 0 parts) = Some ''_snapshot''"
  by (auto simp: handle_control_def split: if_splits)

definition writes_data :: "string list \<Rightarrow> bool" where
  "writes_data parts \<longleftrightarrow> index_or_all ''_bulk'' parts
     \<or> (\<exists>x. parts = [x, ''_delete_by_query''] \<or> parts = [x, ''_update_by_query''])"

lemma handle_data_writes:
  "handle_data path parts = Some h \<Longrightarrow> handler_writes meth h \<Longrightarrow> writes_data parts"
  by (auto simp: handle_data_def writes_data_def is_path_shapes Let_def split: if_splits)

lemma handle_metadata_writes:
  "handler_writes meth (handle_metadata name parts) \<Longrightarrow> meth \<in> {PUT, POST, DELETE}"
  by (auto simp: handle_metadata_def Let_def split: if_splits)

lemma dispatch_writes:
  assumes "handler_writes meth (handle_implemented meth path name)"
  obtains (control) "path = ''/_reindex'' \<or> map_option decode_path_param (seg_at 0 (path_parts path)) = Some ''_snapshot''"
  | (data) "writes_data (path_parts path)" "handle_control meth path (path_parts path) = None"
  | (metadata) "handler_writes meth (handle_metadata name (path_parts path))" "handle_control meth path (path_parts path) = None"
      "handle_data path (path_parts path) = None"
proof (cases "handle_control meth path (path_parts path)")
  case (Some h)
  with assms handle_control_writes [OF Some] control show ?thesis by (simp add: handle_implemented_def)
next
  case None
  then show ?thesis
  proof (cases "handle_data path (path_parts path)")
    case (Some h)
    with assms None handle_data_writes [OF Some] data show ?thesis by (simp add: handle_implemented_def)
  next
    case None
    with assms \<open>handle_control meth path (path_parts path) = None\<close> metadata show ?thesis
      by (simp add: handle_implemented_def)
  qed
qed

lemma handle_data_read:
  "s \<in> set read_apis \<Longrightarrow> handle_data path [s] \<noteq> None" "s \<in> set read_apis \<Longrightarrow> handle_data path [x, s] \<noteq> None"
  unfolding read_apis_def set_simps insert_iff empty_iff
  by (elim disjE FalseE; hypsubst; simp add: handle_data_def Let_def)+

lemma writes_data_simps [simp]:
  "writes_data [s] \<longleftrightarrow> s = ''_bulk''"
  "writes_data [x, s] \<longleftrightarrow> s = ''_bulk'' \<or> s = ''_delete_by_query'' \<or> s = ''_update_by_query''"
  "\<not> writes_data []" "\<not> writes_data (a # b # c # cs)"
  by (auto simp: writes_data_def)

lemma read_shape_data:
  assumes "index_or_all s segs" and "s \<in> set read_apis"
  shows "handle_data path segs \<noteq> None \<and> \<not> writes_data segs \<and> segs \<noteq> [''_reindex'']"
proof -
  have "s \<noteq> ''_bulk''" "s \<noteq> ''_delete_by_query''" "s \<noteq> ''_update_by_query''" "s \<noteq> ''_reindex''"
    using assms(2) unfolding read_apis_def by auto
  moreover obtain x where "segs = [s] \<or> segs = [x, s]" using assms(1) by (auto simp: index_or_all_iff)
  ultimately show ?thesis using handle_data_read [OF assms(2)] by auto
qed

lemma handle_metadata_explain:
  assumes "x \<noteq> ''_index_template''" and "x \<noteq> ''_component_template''" and "x \<noteq> ''_template''" and "x \<noteq> ''_scripts''"
    and "x \<noteq> ''_alias''" and "x \<noteq> ''_aliases''"
  shows "handle_metadata name [x, ''_explain'', y] = Explain x (decode_path_param y)"
  using assms by (simp add: handle_metadata_def Let_def)

lemma read_shape_dispatch:
  assumes "read_shape path segs" and "path_parts path = segs"
    and "map_option decode_path_param (seg_at 0 segs) \<noteq> Some ''_snapshot''"
  shows "\<not> handler_writes meth (handle_implemented meth path name)"
proof
  assume writes: "handler_writes meth (handle_implemented meth path name)"
  consider (scroll) "path = ''/_search/scroll'' \<or> path = ''/_scroll''"
    | (scroll_id) x where "segs = [''_search'', ''scroll'', x] \<or> segs = [''_scroll'', x]"
    | (pit) "pit_family segs" | (api) s where "s \<in> set read_apis" "index_or_all s segs"
    | (validate) x where "segs = [''_validate'', ''query''] \<or> segs = [x, ''_validate'', ''query'']"
    | (explain) x y where "segs = [x, ''_explain'', y]"
        "\<forall>s \<in> {''_index_template'', ''_component_template'', ''_template'', ''_scripts'', ''_alias'', ''_aliases''}. x \<noteq> s"
    using assms(1) unfolding read_shape_def by (auto simp: is_path_shapes)
  note cases = this
  have reindex: "path \<noteq> ''/_reindex''"
    using cases assms(2) parts_of_literals(1)
    by cases (auto simp: pit_family_def index_or_all_iff read_apis_def)
  from writes show False
  proof (cases rule: dispatch_writes)
    case control
    with reindex assms(2,3) show False by auto
  next
    case data
    from cases show False
    proof cases
      case scroll
      with data(2) show False by (auto simp: handle_control_def split: if_splits)
    next
      case scroll_id
      with data(1) assms(2) data(2) show False by (auto simp: writes_data_def handle_control_def split: if_splits)
    next
      case pit
      with data(2) assms(2) show False by (auto simp: handle_control_def pit_path_def pit_family_def split: if_splits)
    next
      case (api s)
      with read_shape_data data(1) assms(2) show False by blast
    qed (use data(1) assms(2) in \<open>auto simp: writes_data_def\<close>)
  next
    case metadata
    from cases show False
    proof cases
      case scroll
      with metadata(2) show False by (auto simp: handle_control_def split: if_splits)
    next
      case scroll_id
      with metadata(2) assms(2) show False by (auto simp: handle_control_def split: if_splits)
    next
      case pit
      with metadata(2) assms(2) show False by (auto simp: handle_control_def pit_path_def pit_family_def split: if_splits)
    next
      case (api s)
      with read_shape_data metadata(3) assms(2) show False by blast
    next
      case validate
      with metadata(3) assms(2) show False by (auto simp: handle_data_def Let_def split: if_splits)
    next
      case explain
      have "handle_metadata name [x, ''_explain'', y] = Explain x (decode_path_param y)"
        by (rule handle_metadata_explain) (use explain(2) in simp_all)
      with metadata(1) explain(1) assms(2) show False by simp
    qed
  qed
qed

subsection \<open>Bulk requests and requests by query\<close>

text \<open>Their handlers do not look at the method. A path that reaches them is not classified as a read.\<close>

lemma handle_control_two:
  assumes "handle_control meth path [x, s] = None"
  shows "x \<noteq> ''_tasks'' \<and> x \<noteq> ''_scroll'' \<and> x \<noteq> ''_snapshot''"
proof -
  have "decode_path_param ''_snapshot'' = ''_snapshot''" by code_simp
  then have "handle_control meth path [''_tasks'', s] \<noteq> None" "handle_control meth path [''_scroll'', s] \<noteq> None"
    "handle_control meth path [''_snapshot'', s] \<noteq> None"
    by (simp_all add: handle_control_def)
  with assms show ?thesis by blast
qed

lemma writing_data_not_read:
  assumes "writes_data segs" and "path_parts path = segs" and "handle_control meth path segs = None"
  shows "\<not> implemented_read (first_some (classify_groups meth path segs) d)"
proof -
  obtain x where shapes: "segs = [''_bulk''] \<or> segs = [x, ''_bulk''] \<or> segs = [x, ''_delete_by_query''] \<or> segs = [x, ''_update_by_query'']"
    using assms(1) by (auto simp: writes_data_def index_or_all_iff)
  have lits: "path \<noteq> ''/_reindex''" "path \<noteq> ''/_search/scroll''" "path \<noteq> ''/_scroll''" "path \<noteq> ''/_cluster/health''"
    "path \<noteq> ''/_cluster/settings''" "path \<noteq> ''/_cluster/stats''"
    using shapes by (elim disjE; intro path_not_literal [OF assms(2)]; simp)+
  have x: "segs = [''_bulk''] \<or> x \<noteq> ''_tasks'' \<and> x \<noteq> ''_scroll''"
    using shapes assms(3) by (blast dest: handle_control_two)
  let ?P = "\<lambda>r. \<not> implemented_read r"
  let ?groups = "[classify_control meth segs, classify_cluster meth path segs, classify_read_apis meth path segs,
      classify_bulk_and_search meth segs,
      classify_by_query meth ''_delete_by_query'' ''delete_by_query'' ''delete_by_query_rethrottle'' segs,
      classify_by_query meth ''_update_by_query'' ''update_by_query'' ''update_by_query_rethrottle'' segs]"
  have control: "?P r" if "classify_control meth segs = Some r" for r
    using shapes that x by (elim disjE) (auto simp: classify_control_def pit_family_def split: if_splits)
  have cluster: "?P r" if "classify_cluster meth path segs = Some r" for r
    using shapes that lits x by (elim disjE) (auto simp: classify_cluster_def nodes_stats_path_def split: if_splits)
  have reads: "?P r" if "classify_read_apis meth path segs = Some r" for r
    using shapes that by (elim disjE) (auto simp: classify_read_apis_def Let_def split: if_splits)
  have search: "?P r" if "classify_bulk_and_search meth segs = Some r" for r
    using shapes that by (elim disjE) (auto simp: classify_bulk_and_search_def Let_def split: if_splits)
  have "?P r" if "g \<in> set ?groups" and "g = Some r" for g r
    using that control cluster reads search classify_by_query_read by auto
  moreover have "\<exists>g \<in> set ?groups. g \<noteq> None"
    using shapes by (elim disjE) (simp_all add: classify_bulk_and_search_def classify_by_query_def Let_def)
  ultimately have "?P (first_some (?groups @ drop 6 (classify_groups meth path segs)) d)" by (rule first_some_hit)
  moreover have "classify_groups meth path segs = ?groups @ drop 6 (classify_groups meth path segs)"
    by (simp add: classify_groups_def)
  ultimately show ?thesis by (rule ssubst [rotated, where P = "\<lambda>gs. ?P (first_some gs d)"])
qed

subsection \<open>Paths that no test recognizes\<close>

lemma unrecognized_dispatch:
  assumes none: "\<forall>g \<in> set (classify_groups meth path segs). g = None" and parts: "path_parts path = segs"
    and plain: "map decode_path_param segs = segs" and "handler_writes meth (handle_implemented meth path name)"
  shows "length segs = 1 \<and> (meth = PUT \<or> meth = DELETE)"
proof -
  have groups: "classify_control meth segs = None" "classify_cluster meth path segs = None"
    "classify_bulk_and_search meth segs = None"
    "classify_by_query meth ''_delete_by_query'' ''delete_by_query'' ''delete_by_query_rethrottle'' segs = None"
    "classify_by_query meth ''_update_by_query'' ''update_by_query'' ''update_by_query_rethrottle'' segs = None"
    "classify_index_meta meth segs = None" "classify_templates meth segs = None" "classify_pipelines meth segs = None"
    "classify_aliases meth segs = None" "classify_documents meth segs = None"
    using none by (simp_all add: classify_groups_def)
  from assms(4) show ?thesis
  proof (cases rule: dispatch_writes)
    case control
    have "decode_path_param s = s" if "seg_at 0 segs = Some s" for s
      using plain that by (cases segs) auto
    with control parts groups(1,2) show ?thesis
      by (auto simp: classify_cluster_def classify_control_def split: if_splits)
  next
    case data
    with groups(3-5) parts show ?thesis
      by (auto simp: writes_data_def classify_bulk_and_search_def classify_by_query_def Let_def split: if_splits)
  next
    case metadata
    have "\<not> index_or_all ''_mapping'' segs" "\<not> index_or_all ''_settings'' segs"
      using groups(6) by (auto simp: classify_index_meta_def Let_def split: if_splits)
    moreover have "seg_at 0 segs \<noteq> Some ''_index_template''" "seg_at 0 segs \<noteq> Some ''_component_template''"
      "seg_at 0 segs \<noteq> Some ''_template''"
      using groups(7) by (auto simp: classify_templates_def Let_def split: if_splits)
    moreover have "\<not> is_path (Lit ''_ingest'' # Lit ''pipeline'' # ps) segs" "\<not> is_path (Lit ''_search'' # Lit ''pipeline'' # ps) segs"
      "\<not> is_path (Lit ''_scripts'' # ps) segs" for ps
      using groups(8) by (cases segs; cases "tl segs"; auto simp: classify_pipelines_def Let_def split: if_splits)+
    moreover have "seg_at 0 segs \<noteq> Some ''_alias''" "seg_at 0 segs \<noteq> Some ''_aliases''"
      "seg_at 1 segs \<noteq> Some ''_alias''" "seg_at 1 segs \<noteq> Some ''_aliases''"
      using groups(9) by (auto simp: classify_aliases_def Let_def split: if_splits)
    moreover have "\<not> (length segs \<ge> 2 \<and> segs ! 1 \<in> {''_doc'', ''_create'', ''_update''})"
      using groups(10) by (auto simp: classify_documents_def Let_def split: if_splits)
    ultimately show ?thesis
      using metadata(1) parts
      by (simp add: handle_metadata_def Let_def split: if_splits)
  qed
qed

subsection \<open>Reads do not write\<close>

text \<open>What is assumed of the generated inventory: no implemented read of it is a PUT or DELETE on a path
  of one segment.\<close>

definition inventory_ok :: "ApiRoute list \<Rightarrow> bool" where
  "inventory_ok inventory \<longleftrightarrow> list_all (\<lambda>r. ar_access r = ReadAccess \<longrightarrow>
     ar_tier r \<noteq> AgentWrite
     \<and> (ar_tier r = Implemented \<longrightarrow> list_all (\<lambda>p. length (path_parts p) = 1 \<longrightarrow> ''PUT'' \<notin> set (ar_methods r) \<and> ''DELETE'' \<notin> set (ar_methods r))
          (ar_paths r))) inventory"

lemma classify_inventory_read:
  assumes "inventory_ok inventory" and "implemented_read (classify_inventory inventory meth path)"
    and "length (path_parts path) = 1"
  shows "meth \<noteq> PUT \<and> meth \<noteq> DELETE"
proof -
  let ?has = "\<lambda>r. list_ex (\<lambda>p. path_matches p path) (ar_paths r)"
  obtain r where r: "find (\<lambda>r. method_str meth \<in> set (ar_methods r) \<and> ?has r) inventory = Some r"
    and read: "ar_tier r = Implemented" "ar_access r = ReadAccess"
    using assms(2) by (auto simp: classify_inventory_def Let_def split: option.splits if_splits)
  then obtain p where "r \<in> set inventory" "method_str meth \<in> set (ar_methods r)" "p \<in> set (ar_paths r)" "path_matches p path"
    by (auto simp: find_Some_iff list_ex_iff)
  moreover from this(4) assms(3) have "length (path_parts p) = 1"
    by (auto simp: path_matches_def dest: list_all2_lengthD)
  ultimately show ?thesis
    using assms(1) read by (auto simp: inventory_ok_def list_all_iff)
qed

lemma groups_read_shape:
  assumes "implemented_read (first_some (classify_groups meth path segs) d)" and "meth \<noteq> GET" and "meth \<noteq> HEAD"
  shows "read_shape path segs \<or> (\<forall>g \<in> set (classify_groups meth path segs). g = None)"
proof (rule ccontr)
  assume no: "\<not> (read_shape path segs \<or> (\<forall>g \<in> set (classify_groups meth path segs). g = None))"
  have docs: "\<not> implemented_read r"
    if "classify_documents meth segs = Some r" "classify_templates meth segs = None" "classify_pipelines meth segs = None"
      "classify_aliases meth segs = None" for r
    using classify_documents_read [OF that(1)] groups_fall_through [OF that(2-4)] assms(2,3) no
    by (auto simp: read_shape_def)
  have pit: "pit_family segs \<Longrightarrow> read_shape path segs" by (simp add: read_shape_def)
  have r1: "classify_control meth segs \<noteq> Some r" if "implemented_read r" for r
    using classify_control_read [OF _ that assms(2,3)] pit no by blast
  have r2: "classify_cluster meth path segs \<noteq> Some r" if "implemented_read r" for r
    using classify_cluster_read [OF _ that assms(2,3)] no by blast
  have r3: "classify_read_apis meth path segs \<noteq> Some r" if "implemented_read r" for r
    using classify_read_apis_read [OF _ that assms(2,3)] no by blast
  have r4: "classify_bulk_and_search meth segs \<noteq> Some r" if "implemented_read r" for r
    using classify_bulk_and_search_read [OF _ that assms(2,3)] no by blast
  have r5: "classify_by_query meth a b c segs \<noteq> Some r" if "implemented_read r" for a b c r
    using classify_by_query_read that by blast
  have r6: "classify_counts meth segs \<noteq> Some r" if "implemented_read r" for r
    using classify_counts_read [OF _ that assms(2,3)] no by blast
  have r7: "classify_index_meta meth segs \<noteq> Some r" "classify_templates meth segs \<noteq> Some r"
    "classify_pipelines meth segs \<noteq> Some r" "classify_aliases meth segs \<noteq> Some r" if "implemented_read r" for r
    using classify_index_meta_read [OF _ that] classify_templates_read [OF _ that] classify_pipelines_read [OF _ that]
      classify_aliases_read [OF _ that] assms(2,3) by blast+
  have others: "\<not> implemented_read r"
    if "g \<in> set (take 11 (classify_groups meth path segs))" "g = Some r" for g r
  proof
    assume r: "implemented_read r"
    from that have "Some r \<in> set (take 11 (classify_groups meth path segs))" by simp
    with r1 [OF r] r2 [OF r] r3 [OF r] r4 [OF r] r5 [OF r] r6 [OF r] r7 [OF r] show False
      by (simp add: classify_groups_def eq_commute [of "Some r"])
  qed
  show False
  proof (cases "\<exists>g \<in> set (take 11 (classify_groups meth path segs)). g \<noteq> None")
    case True
    have "\<not> implemented_read (first_some (take 11 (classify_groups meth path segs) @ drop 11 (classify_groups meth path segs)) d)"
      by (rule first_some_hit [OF others True])
    with assms(1) show False unfolding append_take_drop_id by blast
  next
    case False
    then have none: "classify_templates meth segs = None" "classify_pipelines meth segs = None" "classify_aliases meth segs = None"
      and first: "first_some (classify_groups meth path segs) d = first_some [classify_documents meth segs] d"
      by (simp_all add: classify_groups_def)
    moreover have "classify_documents meth segs \<noteq> None" using False no by (auto simp: classify_groups_def)
    ultimately show False using docs assms(1) by auto
  qed
qed

lemma plain_read_does_not_write:
  assumes "plain_path path" and "inventory_ok inventory" and "implemented_read (classify inventory meth path)"
  shows "\<not> handler_writes meth (handle_implemented meth path name)"
proof (cases "path = ''/'' \<or> path = []")
  case True
  have "path_parts [] = []" by (simp add: path_parts_def)
  then have "handle_implemented meth [] name = NoHandler name"
    by (simp add: handle_implemented_def handle_control_def handle_data_def handle_metadata_def pit_path_def Let_def is_path_shapes)
  moreover have "handle_implemented meth ''/'' name = RootInfo"
    by (simp add: handle_implemented_def handle_control_def Let_def)
  ultimately show ?thesis using True by auto
next
  case False
  let ?segs = "path_parts path"
  have plain: "map decode_path_param ?segs = ?segs" "trim_end_char (CHR ''/'') path = path"
    using plain_parts [OF assms(1)] False assms(1) by (auto simp: plain_path_def)
  have first: "decode_path_param s = s" if "seg_at 0 ?segs = Some s" for s
    using plain(1) that by (cases ?segs) auto
  let ?d = "classify_inventory inventory meth path"
  have read: "implemented_read (first_some (classify_groups meth path ?segs) ?d)"
    using assms(3) False plain by (simp add: classify_def Let_def)
  have control: "map_option decode_path_param (seg_at 0 ?segs) \<noteq> Some ''_snapshot''"
  proof
    assume "map_option decode_path_param (seg_at 0 ?segs) = Some ''_snapshot''"
    with first have snap: "seg_at 0 ?segs = Some ''_snapshot''" by auto
    then have "\<exists>r. classify_control meth ?segs = Some r \<and> \<not> implemented_read r"
      by (cases ?segs; cases "tl ?segs") (auto simp: classify_control_def)
    with read show False by (auto simp: classify_groups_def)
  qed
  have reindex: "path \<noteq> ''/_reindex''"
  proof
    assume "path = ''/_reindex''"
    with read show False
      by (simp add: classify_groups_def classify_control_def pit_family_def control_namespace_def classify_cluster_def parts_of_literals)
  qed
  show ?thesis
  proof
    assume writes: "handler_writes meth (handle_implemented meth path name)"
    then show False
    proof (cases rule: dispatch_writes)
      case control
      with reindex \<open>map_option decode_path_param (seg_at 0 ?segs) \<noteq> Some ''_snapshot''\<close> show False by blast
    next
      case data
      from writing_data_not_read [OF data(1) refl data(2)] read show False by blast
    next
      case metadata
      from handle_metadata_writes [OF metadata(1)] have meth: "meth \<noteq> GET" "meth \<noteq> HEAD" by auto
      from groups_read_shape [OF read this] show False
      proof
        assume "read_shape path ?segs"
        from read_shape_dispatch [OF this refl control] writes show False by blast
      next
        assume none: "\<forall>g \<in> set (classify_groups meth path ?segs). g = None"
        have "first_some (classify_groups meth path ?segs) ?d = ?d"
          using none by (simp add: classify_groups_def)
        with read have "implemented_read ?d" by simp
        with unrecognized_dispatch [OF none refl plain(1) writes] classify_inventory_read [OF assms(2)] show False by blast
      qed
    qed
  qed
qed

subsection \<open>Writes that are left to the agent\<close>

definition no_agent_read :: "RouteMatch \<Rightarrow> bool" where
  "no_agent_read r \<longleftrightarrow> rm_tier r = AgentWrite \<longrightarrow> rm_access r \<noteq> ReadAccess"

lemma no_agent_read_simps [simp]:
  "no_agent_read (route n t a) = (t = AgentWrite \<longrightarrow> a \<noteq> ReadAccess)" "no_agent_read (unsupported_method n meth)"
  "no_agent_read (if b then r else r') = (if b then no_agent_read r else no_agent_read r')"
  by (simp_all add: no_agent_read_def)

text \<open>Whatever the tests are, every outcome of a group is one.\<close>

lemma outcome_intros:
  "pred_option P x \<Longrightarrow> pred_option P y \<Longrightarrow> pred_option P (if b then x else y)"
  "P r \<Longrightarrow> pred_option P (Some r)" "pred_option P None"
  "no_agent_read r \<Longrightarrow> no_agent_read r' \<Longrightarrow> no_agent_read (if b then r else r')"
  by simp_all

lemma no_agent_read_parts [simp]:
  "no_agent_read (classify_snapshot meth segs)" "no_agent_read (classify_pit meth segs)" "no_agent_read (classify_scroll meth)"
  "no_agent_read (get_only meth n BestEffort)" "no_agent_read (get_only meth n Implemented)"
  "no_agent_read (get_or_put meth n n')" "no_agent_read (classify_pipeline meth k n n' n'')"
  "no_agent_read (for_methods l meth n (route n' Implemented a))" "no_agent_read (for_methods l meth n (route n' Mocked a))"
  by (simp_all add: no_agent_read_def [of "classify_snapshot meth segs"] classify_pit_def classify_scroll_def get_only_def
      get_or_put_def classify_pipeline_def for_methods_def Let_def)

lemma no_agent_read_groups: "list_all (pred_option no_agent_read) (classify_groups meth path segs)"
  unfolding classify_groups_def list.pred_inject classify_control_def classify_cluster_def classify_read_apis_def
    classify_bulk_and_search_def classify_by_query_def classify_counts_def classify_index_meta_def
    classify_templates_def classify_pipelines_def classify_aliases_def classify_documents_def Let_def
  by (intro conjI TrueI outcome_intros) simp_all

lemma first_some_list_all: "list_all (pred_option P) xs \<Longrightarrow> P d \<Longrightarrow> P (first_some xs d)"
  by (induction xs) (auto split: option.splits)

lemma classify_agent_write:
  assumes "inventory_ok inventory"
  shows "no_agent_read (classify inventory meth path)"
proof -
  have "no_agent_read (classify_inventory inventory meth p)" for p
    using assms by (auto simp: classify_inventory_def inventory_ok_def list_all_iff find_Some_iff Let_def split: option.splits)
  then show ?thesis
    by (simp add: classify_def Let_def first_some_list_all [OF no_agent_read_groups])
qed

subsection \<open>Slashes at the end\<close>

lemma split_on_snoc: "split_on c (s @ [c]) = split_on c s @ [[]]"
  by (induction c s rule: split_on.induct) (auto split: list.splits)

lemma path_parts_trim [simp]: "path_parts (trim_end_char (CHR ''/'') p) = path_parts p"
proof (induction p rule: rev_induct)
  case (snoc c p)
  then show ?case
    by (cases "c = CHR ''/''") (simp_all add: trim_end_char_def path_parts_def split_on_snoc)
qed (simp add: trim_end_char_def)

text \<open>Snapshot repositories are decoded in both chains, so that this holds of every path.\<close>

lemma snapshot_needs_admin:
  assumes "handle_implemented meth path name = Snapshot parts"
  shows "rm_access (classify inventory meth path) = AdminAccess"
proof -
  let ?segs = "map decode_path_param (path_parts path)"
  have data: "handle_data path (path_parts path) \<noteq> Some (Snapshot parts)"
    by (simp add: handle_data_def Let_def)
  have meta: "handle_metadata name (path_parts path) \<noteq> Snapshot parts"
    by (simp add: handle_metadata_def Let_def)
  from assms data meta have control: "handle_control meth path (path_parts path) = Some (Snapshot parts)"
    by (auto simp: handle_implemented_def Let_def split: option.splits)
  then have first: "map_option decode_path_param (seg_at 0 (path_parts path)) = Some ''_snapshot''" and "path \<noteq> ''/''"
    by (auto simp: handle_control_def handle_scroll_path_def split: if_splits)
  then obtain s ss where segs: "path_parts path = s # ss" "decode_path_param s = ''_snapshot''"
    by (cases "path_parts path") auto
  have path: "trim_end_char (CHR ''/'') path \<noteq> []" "trim_end_char (CHR ''/'') path \<noteq> ''/''"
    using segs(1) path_parts_trim [of path] by (auto simp: path_parts_def)
  have "classify_control meth ?segs = Some (classify_snapshot meth ?segs)"
    using segs by (cases ss) (simp_all add: classify_control_def)
  then show ?thesis
    using path by (simp add: classify_def classify_groups_def Let_def)
qed

end
