(* ===== verification/AgentFallback.thy ===== *)
theory AgentFallback
  imports Http Dispatch Durable
begin

section \<open>The agent fallback\<close>

text \<open>
  \<open>src/agent\<close> and the fallback handlers of \<open>src/api/mod.rs\<close>: a language model answers a request that no
  handler implements, with a wrapper that is validated before its response is used; its only way to
  write is one call of the tool \<open>commit_mutations\<close>, whose mutations are checked against the scope of the
  request. The HTTP exchange with the model and the derived deserializer of the wrapper are parameters;
  error hints are left out.
\<close>

record AgentToolCall =
  tc_name :: string
  tc_arguments :: json

record AgentResponseWrapper =
  aw_status :: nat
  aw_headers :: "(string, string) btree"
  aw_body :: json
  aw_confidence :: nat
  aw_failure_reason :: "string option"
  aw_read_only :: bool
  aw_tool_calls :: "AgentToolCall list"

record AgentConfig =
  ac_endpoint :: "string option"
  ac_model :: "string option"
  ac_bearer_token_env :: "string option"
  ac_bearer_token_file :: "string option"
  ac_timeout_millis :: nat
  ac_context_limit_bytes :: nat
  ac_response_limit_bytes :: nat
  ac_allow_insecure_endpoint :: bool
  ac_confidence_threshold :: nat
  ac_write_enabled :: bool
  ac_write_allowlist :: "string list"

record AgentRequestContext =
  cx_method :: string
  cx_path :: string
  cx_query :: json
  cx_body :: json
  cx_api_name :: string
  cx_route_tier :: string
  cx_catalog :: json
  cx_tools :: json

datatype AgentError = AgentError string

datatype ToolExecutionError = ToolAgent AgentError | ToolStore StoreError

definition write_enabled_for :: "AgentConfig \<Rightarrow> string \<Rightarrow> bool" where
  "write_enabled_for cfg api_name \<longleftrightarrow>
     ac_write_enabled cfg \<and> ac_endpoint cfg \<noteq> None \<and> api_name \<in> set (ac_write_allowlist cfg)"

subsection \<open>Wrappers\<close>

definition in_statuses :: "nat \<Rightarrow> nat \<Rightarrow> nat \<Rightarrow> bool" where
  "in_statuses a b status \<longleftrightarrow> a \<le> status \<and> status < b"

definition parse_wrapper ::
    "(string \<Rightarrow> (string, AgentResponseWrapper) result) \<Rightarrow> string \<Rightarrow> nat \<Rightarrow> (AgentError, AgentResponseWrapper) result" where
  "parse_wrapper decode raw response_limit_bytes =
     (if length raw > response_limit_bytes then Inl (AgentError ''agent response exceeded configured size limit'')
      else case decode raw of
        Inl e \<Rightarrow> Inl (AgentError (''agent response was not a valid wrapper JSON object: '' @ e))
      | Inr wrapper \<Rightarrow> Inr wrapper)"

definition validate_confidence_and_status :: "AgentResponseWrapper \<Rightarrow> nat \<Rightarrow> (AgentError, unit) result" where
  "validate_confidence_and_status wrapper confidence_threshold =
     (if aw_confidence wrapper < confidence_threshold then
        Inl (AgentError (case aw_failure_reason wrapper of Some r \<Rightarrow> r | None \<Rightarrow> ''agent confidence was below threshold''))
      else if \<not> in_statuses 200 600 (aw_status wrapper) then
        Inl (AgentError ''agent wrapper status was outside HTTP status range'')
      else Inr ())"

definition validate_write_wrapper_before_tools :: "AgentResponseWrapper \<Rightarrow> nat \<Rightarrow> (AgentError, unit) result" where
  "validate_write_wrapper_before_tools wrapper confidence_threshold =
     and_then (validate_confidence_and_status wrapper confidence_threshold) (\<lambda>_.
       if aw_read_only wrapper \<and> in_statuses 200 300 (aw_status wrapper) then
         Inl (AgentError ''write fallback success response declared read_only=true'')
       else if \<not> in_statuses 200 300 (aw_status wrapper) \<and> aw_tool_calls wrapper \<noteq> [] then
         Inl (AgentError ''agent write response included tool calls on a non-success response'')
       else Inr ())"

datatype ValidationMode = ReadOnlyMode | WriteMode bool

definition allowed_agent_header :: "string \<Rightarrow> bool" where
  "allowed_agent_header name \<longleftrightarrow> to_ascii_lowercase name = ''warning''"

definition check_mode :: "AgentResponseWrapper \<Rightarrow> ValidationMode \<Rightarrow> (AgentError, unit) result" where
  "check_mode wrapper mode =
     (case mode of
        ReadOnlyMode \<Rightarrow>
          if \<not> aw_read_only wrapper then Inl (AgentError ''agent response declared write intent'') else Inr ()
      | WriteMode commit_performed \<Rightarrow>
          if aw_read_only wrapper \<and> in_statuses 200 300 (aw_status wrapper) then
            Inl (AgentError ''write fallback success response declared read_only=true'')
          else if \<not> commit_performed \<and> \<not> aw_read_only wrapper \<and> in_statuses 200 300 (aw_status wrapper) then
            Inl (AgentError ''agent write response claimed side effects without a successful commit'')
          else Inr ())"

definition validate_wrapper_value :: "AgentResponseWrapper \<Rightarrow> nat \<Rightarrow> ValidationMode \<Rightarrow> (AgentError, Response) result" where
  "validate_wrapper_value wrapper confidence_threshold mode =
     and_then (check_mode wrapper mode) (\<lambda>_.
     and_then (validate_confidence_and_status wrapper confidence_threshold) (\<lambda>_.
       let response = fold (\<lambda>(name, val) r. if allowed_agent_header name then with_header (to_ascii_lowercase name) val r else r)
             (aw_headers wrapper) (json_response (aw_status wrapper) (aw_body wrapper))
       in Inr (case mode of
            ReadOnlyMode \<Rightarrow> compatibility_signal ''agent.read'' ''agent_fallback_eligible'' response
          | WriteMode _ \<Rightarrow> compatibility_signal ''agent.write'' ''agent_write_fallback_eligible'' response)))"

fun failure_response :: "AgentError \<Rightarrow> Response" where
  "failure_response (AgentError reason) = open_search_error 501 ''mainstack_search_agent_fallback_exception'' reason"

subsection \<open>Tools\<close>

fun normalize_tool_arguments :: "json_parse \<Rightarrow> json \<Rightarrow> json" where
  "normalize_tool_arguments parse (JStr raw) = (case parse raw of Inr v \<Rightarrow> v | Inl _ \<Rightarrow> JStr raw)"
| "normalize_tool_arguments parse v = v"

text \<open>\<open>AgentToolCall::deserialize\<close>: flat, or inside a \<open>function\<close> object.\<close>

definition tool_call_of_json :: "json_parse \<Rightarrow> json \<Rightarrow> AgentToolCall option" where
  "tool_call_of_json parse v =
     (let nested = (\<lambda>k. Option.bind (jget v ''function'') (\<lambda>f. jget f k))
      in Option.bind (or_else (Option.bind (jget v ''name'') as_str)
           (Option.bind (nested ''name'') as_str)) (\<lambda>name.
         Some \<lparr>tc_name = name,
               tc_arguments = (case or_else (jget v ''arguments'') (nested ''arguments'') of
                  Some a \<Rightarrow> normalize_tool_arguments parse a
                | None \<Rightarrow> empty_object)\<rparr>))"

record AgentWriteScope =
  sp_api_name :: string
  sp_target_name :: "string option"
  sp_request_body :: "json option"

definition legacy_template :: "string \<Rightarrow> json \<Rightarrow> AgentWriteScope" where
  "legacy_template name request_body =
     \<lparr>sp_api_name = ''indices.put_template'', sp_target_name = Some name, sp_request_body = Some request_body\<rparr>"

definition parse_mutations :: "json \<Rightarrow> (AgentError, Mutation list) result" where
  "parse_mutations arguments =
     and_then (ok_or (AgentError ''commit_mutations was missing arguments.mutations'') (jget arguments ''mutations'')) (\<lambda>raw.
     and_then (ok_or (AgentError ''commit_mutations arguments were invalid'') (mutations_of_json raw)) (\<lambda>mutations.
       if mutations = [] then Inl (AgentError ''commit_mutations cannot commit an empty mutation list'') else Inr mutations))"

definition scope_error :: "AgentWriteScope \<Rightarrow> AgentError" where
  "scope_error scope =
     AgentError (''mutation kind or target is not allowed for write fallback route ['' @ sp_api_name scope @ '']'')"

definition validate_mutation_scope :: "AgentWriteScope \<Rightarrow> nat \<Rightarrow> Mutation list \<Rightarrow> (AgentError, unit) result" where
  "validate_mutation_scope scope commit_call_count mutations =
     (if mutations = [] then Inr ()
      else if commit_call_count \<noteq> 1 then Inl (AgentError ''write fallback requires exactly one commit_mutations call'')
      else if sp_api_name scope = ''indices.put_template'' then
        (if length mutations \<noteq> 1 then
           Inl (AgentError ''indices.put_template write fallback accepts exactly one registry mutation'')
         else case sp_target_name scope of
           None \<Rightarrow> Inl (AgentError ''indices.put_template write fallback was missing a request target'')
         | Some expected_name \<Rightarrow>
             (case sp_request_body scope of
                None \<Rightarrow> Inl (AgentError ''indices.put_template write fallback was missing the request body'')
              | Some expected_raw \<Rightarrow>
                  if mutations = [PutRegistryObject ''legacy_template'' expected_name expected_raw] then Inr ()
                  else Inl (scope_error scope)))
      else Inl (scope_error scope))"

fun collect_tool_calls :: "AgentToolCall list \<Rightarrow> nat \<Rightarrow> Mutation list \<Rightarrow> (AgentError, nat \<times> Mutation list) result" where
  "collect_tool_calls [] n ms = Inr (n, ms)"
| "collect_tool_calls (call # calls) n ms =
     (if tc_name call = ''commit_mutations'' then
        and_then (parse_mutations (tc_arguments call)) (\<lambda>more. collect_tool_calls calls (sat_add n 1) (ms @ more))
      else if tc_name call \<in> {''inspect_catalog'', ''construct_error'', ''validate_query'', ''analyze_text'', ''explain_match''}
      then collect_tool_calls calls n ms
      else Inl (AgentError (''unsupported agent tool ['' @ tc_name call @ '']'')))"

text \<open>Whether something was committed, and how many mutations.\<close>

definition apply_tool_calls ::
    "Setup \<Rightarrow> Env \<Rightarrow> AgentWriteScope \<Rightarrow> AgentToolCall list \<Rightarrow> Store \<Rightarrow> Store \<times> (ToolExecutionError, bool \<times> nat) result" where
  "apply_tool_calls su env scope calls s =
     (case and_then (collect_tool_calls calls 0 []) (\<lambda>(n, ms).
          and_then (validate_mutation_scope scope n ms) (\<lambda>_. Inr ms)) of
        Inl e \<Rightarrow> (s, Inl (ToolAgent e))
      | Inr ms \<Rightarrow>
          if ms = [] then (s, Inr (False, 0))
          else (case commit_mutations su env ms s of
                  (s, Inl e) \<Rightarrow> (s, Inl (ToolStore e))
                | (s, Inr _) \<Rightarrow> (s, Inr (True, length ms))))"

end
