(* ===== verification/AgentHandlers.thy ===== *)
theory AgentHandlers
  imports AgentFallback
begin

section \<open>The fallback handlers\<close>

text \<open>
  What the model is shown: the request with secrets replaced, and a catalog of the database. Then
  \<open>handle_agent_read\<close> and \<open>handle_agent_write\<close> of \<open>src/api/mod.rs\<close>.
\<close>

subsection \<open>Redaction\<close>

definition has_text :: "string \<Rightarrow> string \<Rightarrow> bool" where
  "has_text s p \<longleftrightarrow> find_str p s \<noteq> None"

definition secret_like_key :: "string \<Rightarrow> bool" where
  "secret_like_key key =
     (let key = to_ascii_lowercase key
      in has_text key ''password'' \<or> has_text key ''passwd'' \<or> has_text key ''token'' \<or> has_text key ''secret''
         \<or> has_text key ''authorization'' \<or> key = ''api_key'' \<or> key = ''apikey'')"

fun redact_secret_values :: "json \<Rightarrow> json" where
  "redact_secret_values (JObj m) =
     JObj (map (\<lambda>e. (fst e, if secret_like_key (fst e) then JStr ''[REDACTED]'' else redact_secret_values (snd e))) m)"
| "redact_secret_values (JArr vs) = JArr (map redact_secret_values vs)"
| "redact_secret_values v = v"

text \<open>A query parameter given several times becomes an array.\<close>

definition add_query_value :: "(string, json) btree \<Rightarrow> string \<times> string \<Rightarrow> (string, json) btree" where
  "add_query_value object kv =
     (let (key, val) = kv
      in bt_insert key
           (case bt_get object key of
              Some (JArr vs) \<Rightarrow> JArr (vs @ [JStr val])
            | Some v \<Rightarrow> JArr [v, JStr val]
            | None \<Rightarrow> JStr val) object)"

definition query_value :: "(string \<times> string) list \<Rightarrow> json" where
  "query_value query = JObj (foldl add_query_value [] query)"

subsection \<open>The catalog\<close>

definition requested_indices :: "Request \<Rightarrow> string list" where
  "requested_indices request =
     filter (\<lambda>name. trim name \<noteq> [])
       ((case path_parts (rq_path request) of
           [] \<Rightarrow> []
         | part # _ \<Rightarrow> if starts_with part ''_'' then [] else split_on (CHR '','') part)
        @ concat (map (\<lambda>(key, val). if key = ''index'' \<or> key = ''indices'' then split_on (CHR '','') val else [])
            (rq_query request)))"

definition DOCUMENT_LIMIT_PER_INDEX :: nat where "DOCUMENT_LIMIT_PER_INDEX = 100"

definition catalog_document :: "StoredDocument \<Rightarrow> json" where
  "catalog_document d =
     jobject [(''_id'', JStr (doc_id d)), (''_version'', jnat (doc_version d)), (''_seq_no'', jnat (doc_seq_no d)),
       (''_source'', doc_source d)]"

definition catalog_index :: "IndexMetadata \<Rightarrow> json" where
  "catalog_index im =
     jobject [(''settings'', im_settings im), (''mappings'', im_mappings im), (''aliases'', JArr (map JStr (im_aliases im))),
       (''document_count'', jnat (length (im_documents im))),
       (''documents'', JArr (map catalog_document (take DOCUMENT_LIMIT_PER_INDEX (bt_values (im_documents im)))))]"

definition metadata_index :: "IndexMetadata \<Rightarrow> json" where
  "metadata_index im =
     jobject [(''name'', JStr (im_name im)), (''document_count'', jnat (length (im_documents im))),
       (''aliases'', JArr (map JStr (im_aliases im)))]"

definition add_requested ::
    "Database \<Rightarrow> (string, json) btree \<times> string list \<times> nat \<times> nat \<Rightarrow> string
      \<Rightarrow> (string, json) btree \<times> string list \<times> nat \<times> nat" where
  "add_requested db s name =
     (case s of (indexes, absent, included, omitted) \<Rightarrow>
        case Option.bind (resolve_index db name) (\<lambda>i. map_option (Pair i) (bt_get (db_indexes db) i)) of
          None \<Rightarrow> (indexes, absent @ [name], included, omitted)
        | Some (i, im) \<Rightarrow>
            let n = length (im_documents im)
            in (bt_insert i (catalog_index im) indexes, absent, included + min DOCUMENT_LIMIT_PER_INDEX n,
                omitted + (n - DOCUMENT_LIMIT_PER_INDEX)))"

definition agent_catalog_context :: "Database \<Rightarrow> Request \<Rightarrow> string \<Rightarrow> json" where
  "agent_catalog_context db request api_name =
     (let requested = (if api_name = ''agent.read'' then [] else bs_of_list (requested_indices request))
      in if requested = [] then
           jobject [(''scope'', JStr ''metadata_only''), (''reason'', JStr ''request did not identify target indices''),
             (''indexes'', JArr (map metadata_index (bt_values (db_indexes db)))),
             (''documents_included'', jnat 0), (''documents_omitted'', jnat (document_count db))]
         else
           let (indexes, absent, included, omitted) = foldl (add_requested db) ([], [], 0, 0) requested
           in jobject [(''scope'', JStr ''targeted''),
                (''requested_indices'', JArr (map JStr (absent @ bt_keys indexes))),
                (''missing_indices'', JArr (map JStr absent)), (''indexes'', JObj indexes),
                (''documents_included'', jnat included), (''documents_omitted'', jnat omitted)])"

subsection \<open>The tools the model is told of\<close>

definition tool_entry :: "string \<Rightarrow> string \<Rightarrow> string \<Rightarrow> (string \<times> json) list \<Rightarrow> json" where
  "tool_entry name mode description extra =
     jobject ([(''name'', JStr name), (''mode'', JStr mode), (''description'', JStr description)] @ extra)"

definition commit_mutations_tool :: "string \<Rightarrow> json" where
  "commit_mutations_tool api_name =
     tool_entry ''commit_mutations'' ''write''
       (''Commit server-validated storage mutations. This is the only durable write boundary available to the fallback ''
        @ ''model. Mutations must match the current request target exactly.'')
       [(''allowed_for_api'', JStr api_name),
        (''arguments_schema'', jobject
          [(''type'', JStr ''object''), (''required'', JArr [JStr ''mutations'']),
           (''properties'', jobject [(''mutations'', jobject
              [(''type'', JStr ''array''), (''items'', jobject
                 [(''type'', JStr ''object''),
                  (''description'', JStr ''A storage mutation_log::Mutation JSON object using its snake_case kind tag.'')])])])]),
        (''example_for_indices.put_template'', jobject [(''mutations'', JArr [jobject
          [(''kind'', JStr ''put_registry_object''), (''namespace'', JStr ''legacy_template''),
           (''name'', JStr ''<template name from request path>''), (''raw'', JStr ''<exact JSON request body, unchanged>'')]])])]"

definition tool_catalog :: "string \<Rightarrow> bool \<Rightarrow> json" where
  "tool_catalog api_name write_enabled = JArr
     ([tool_entry ''inspect_catalog'' ''read''
         ''Inspect the bounded catalog and document summaries included in this fallback context.'' [],
       tool_entry ''construct_error'' ''read''
         ''Return an OpenSearch-shaped error when the request cannot be handled safely.'' [],
       tool_entry ''validate_query'' ''read''
         (''Validate a bounded OpenSearch query using the same local guardrails as search, count, explain, ''
          @ ''and by-query APIs.'') [],
       tool_entry ''analyze_text'' ''read''
         (''Tokenize text with mainstack-search's development-scale standard, simple, whitespace, ''
          @ ''or keyword analyzer behavior.'') [],
       tool_entry ''explain_match'' ''read''
         ''Explain whether a stored document matches a supported local query shape.'' []]
      @ (if write_enabled then [commit_mutations_tool api_name] else []))"

subsection \<open>The client\<close>

datatype AgentClient = ClientDisabled | ClientHttp | ClientStatic AgentResponseWrapper

text \<open>
  What the fallback uses of its surroundings: the serializer of the context, the exchange with the
  endpoint (the content of the answer) and the deserializer of the wrapper.
\<close>

record AgentLink =
  al_encode :: "AgentRequestContext \<Rightarrow> string option"
  al_chat :: "AgentRequestContext \<Rightarrow> (AgentError, string) result"
  al_decode :: "string \<Rightarrow> (string, AgentResponseWrapper) result"

definition http_complete_raw :: "AgentLink \<Rightarrow> AgentConfig \<Rightarrow> AgentRequestContext \<Rightarrow> (AgentError, AgentResponseWrapper) result" where
  "http_complete_raw al cfg ctx =
     and_then (ok_or (AgentError ''agent endpoint missing'') (ac_endpoint cfg)) (\<lambda>_.
     and_then (ok_or (AgentError ''failed to encode fallback context'') (al_encode al ctx)) (\<lambda>bytes.
       if length bytes > ac_context_limit_bytes cfg then
         Inl (AgentError ''fallback context exceeded configured size limit'')
       else and_then (al_chat al ctx) (\<lambda>content. parse_wrapper (al_decode al) content (ac_response_limit_bytes cfg))))"

definition complete_raw :: "AgentLink \<Rightarrow> AgentConfig \<Rightarrow> AgentClient \<Rightarrow> AgentRequestContext
    \<Rightarrow> (AgentError, AgentResponseWrapper) result" where
  "complete_raw al cfg client ctx =
     (case client of
        ClientDisabled \<Rightarrow> Inl (AgentError ''agent fallback is disabled because no endpoint is configured'')
      | ClientStatic wrapper \<Rightarrow> Inr wrapper
      | ClientHttp \<Rightarrow> http_complete_raw al cfg ctx)"

definition complete :: "AgentLink \<Rightarrow> AgentConfig \<Rightarrow> AgentClient \<Rightarrow> AgentRequestContext \<Rightarrow> (AgentError, Response) result" where
  "complete al cfg client ctx =
     and_then (complete_raw al cfg client ctx) (\<lambda>wrapper.
       let threshold = (case client of ClientHttp \<Rightarrow> ac_confidence_threshold cfg | _ \<Rightarrow> 1)
       in validate_wrapper_value wrapper threshold ReadOnlyMode)"

subsection \<open>The handlers\<close>

definition agent_context :: "AgentLink \<Rightarrow> Database \<Rightarrow> Request \<Rightarrow> string \<Rightarrow> bool \<Rightarrow> json \<Rightarrow> AgentRequestContext" where
  "agent_context al db request api_name writing body =
     \<lparr>cx_method = method_str (rq_method request), cx_path = rq_path request,
      cx_query = redact_secret_values (query_value (rq_query request)), cx_body = body, cx_api_name = api_name,
      cx_route_tier = (if writing then ''agent_write_fallback_eligible'' else ''agent_fallback_eligible''),
      cx_catalog = agent_catalog_context db request api_name, cx_tools = tool_catalog api_name writing\<rparr>"

definition read_body :: "json_parse \<Rightarrow> Request \<Rightarrow> json" where
  "read_body parse request =
     (if rq_body request = [] then JNull
      else case parse (rq_body request) of
        Inr v \<Rightarrow> redact_secret_values v
      | Inl _ \<Rightarrow> jobject [(''unparsed_body_omitted'', JBool True)])"

definition handle_agent_read ::
    "AgentLink \<Rightarrow> AgentConfig \<Rightarrow> AgentClient \<Rightarrow> json_parse \<Rightarrow> Database \<Rightarrow> Request \<Rightarrow> string \<Rightarrow> Response" where
  "handle_agent_read al cfg client parse db request api_name =
     (case complete al cfg client (agent_context al db request api_name False (read_body parse request)) of
        Inr response \<Rightarrow> response
      | Inl e \<Rightarrow> failure_response e)"

definition agent_write_scope :: "string \<Rightarrow> Request \<Rightarrow> json \<Rightarrow> (Response, AgentWriteScope) result" where
  "agent_write_scope api_name request body =
     (if api_name = ''indices.put_template'' then
        (case path_parts (rq_path request) of
           [a, name] \<Rightarrow> if a = ''_template'' then Inr (legacy_template name body) else Inl (unsupported api_name)
         | _ \<Rightarrow> Inl (unsupported api_name))
      else Inl (unsupported api_name))"

definition write_fallback_disabled :: "string \<Rightarrow> Response" where
  "write_fallback_disabled api_name =
     open_search_error 501 ''mainstack_search_agent_write_fallback_disabled_exception''
       (''mainstack-search can only handle ['' @ api_name @ ''] through write-enabled agent fallback, which is not enabled'')"

text \<open>What precedes the tools: the scope of the request and the wrapper of the model.\<close>

definition agent_write_plan ::
    "AgentLink \<Rightarrow> AgentConfig \<Rightarrow> AgentClient \<Rightarrow> json_parse \<Rightarrow> Database \<Rightarrow> Request \<Rightarrow> string
      \<Rightarrow> (Response, AgentWriteScope \<times> AgentResponseWrapper) result" where
  "agent_write_plan al cfg client parse db request api_name =
     (if \<not> write_enabled_for cfg api_name then Inl (write_fallback_disabled api_name)
      else case (if rq_body request = [] then Inr JNull else parse (rq_body request)) of
        Inl e \<Rightarrow> Inl (parse_error e)
      | Inr body \<Rightarrow>
          and_then (agent_write_scope api_name request body) (\<lambda>scope.
            case and_then (complete_raw al cfg client (agent_context al db request api_name True (redact_secret_values body)))
                (\<lambda>wrapper. and_then (validate_write_wrapper_before_tools wrapper (ac_confidence_threshold cfg)) (\<lambda>_. Inr wrapper)) of
              Inl e \<Rightarrow> Inl (failure_response e)
            | Inr wrapper \<Rightarrow> Inr (scope, wrapper)))"

definition handle_agent_write ::
    "Setup \<Rightarrow> Env \<Rightarrow> AgentLink \<Rightarrow> AgentConfig \<Rightarrow> AgentClient \<Rightarrow> json_parse \<Rightarrow> Request \<Rightarrow> string \<Rightarrow> Store \<Rightarrow> Store \<times> Response" where
  "handle_agent_write su env al cfg client parse request api_name s =
     (case agent_write_plan al cfg client parse (st_db s) request api_name of
        Inl response \<Rightarrow> (s, response)
      | Inr (scope, wrapper) \<Rightarrow>
          (case apply_tool_calls su env scope (aw_tool_calls wrapper) s of
             (s, Inl (ToolAgent e)) \<Rightarrow> (s, failure_response e)
           | (s, Inl (ToolStore e)) \<Rightarrow> (s, store_error e)
           | (s, Inr (committed, n)) \<Rightarrow>
               (s, case validate_wrapper_value wrapper (ac_confidence_threshold cfg) (WriteMode committed) of
                     Inr response \<Rightarrow> response
                   | Inl e \<Rightarrow> failure_response e)))"

end
