(* ===== verification/ByQuery.thy ===== *)
theory ByQuery
  imports DocumentHandlers SearchLimits Wildcard Runtime
begin

section \<open>Delete by query, update by query, reindex\<close>

text \<open>
  The handlers of \<open>src/api/mod.rs\<close> that find the documents a query matches and write all of their changes
  in one transaction, with the parsing of their requests and scripts.
\<close>

subsection \<open>Names of indexes\<close>

definition path_indices :: "string option \<Rightarrow> string \<Rightarrow> string list" where
  "path_indices path_index ending =
     (case index_unless ending path_index of Some index \<Rightarrow> split_on (CHR '','') index | None \<Rightarrow> [])"

fun resolve_patterns :: "Database \<Rightarrow> string list \<Rightarrow> string list \<Rightarrow> string list store_result" where
  "resolve_patterns db [] names = Inr names"
| "resolve_patterns db (requested # rest) names =
     (if CHR ''*'' \<in> set requested then
        resolve_patterns db rest (names @ filter (wildcard_matches requested) (bt_keys (db_indexes db)))
      else
        let resolved = resolve_indices db requested
        in if resolved = [] then Inl (no_such_index requested) else resolve_patterns db rest (names @ resolved))"

definition resolve_index_patterns :: "Database \<Rightarrow> string list \<Rightarrow> string list store_result" where
  "resolve_index_patterns db requested =
     (if requested = [] \<or> ''_all'' \<in> set requested \<or> ''*'' \<in> set requested then Inr (bt_keys (db_indexes db))
      else and_then (resolve_patterns db requested []) (\<lambda>names. Inr (bs_of_list names)))"

subsection \<open>Matching documents\<close>

record MatchedDoc =
  mt_index :: string
  mt_id :: string
  mt_source :: json

definition document_matches :: "TextOps \<Rightarrow> json \<Rightarrow> StoredDocument \<Rightarrow> bool store_result" where
  "document_matches tx query d =
     (case matches_query tx d query of
        Inl e \<Rightarrow> Inl (StoreError_new 400 ''x_content_parse_exception'' e)
      | Inr b \<Rightarrow> Inr b)"

fun matching_in :: "TextOps \<Rightarrow> json \<Rightarrow> string \<Rightarrow> StoredDocument list \<Rightarrow> MatchedDoc list store_result" where
  "matching_in tx query name [] = Inr []"
| "matching_in tx query name (d # ds) =
     and_then (document_matches tx query d) (\<lambda>matched.
     and_then (matching_in tx query name ds) (\<lambda>ms.
       Inr (if matched then \<lparr>mt_index = name, mt_id = doc_id d, mt_source = doc_source d\<rparr> # ms else ms)))"

fun matching_indexes :: "TextOps \<Rightarrow> Database \<Rightarrow> json \<Rightarrow> string list \<Rightarrow> MatchedDoc list store_result" where
  "matching_indexes tx db query [] = Inr []"
| "matching_indexes tx db query (name # names) =
     and_then (case bt_get (db_indexes db) name of
          None \<Rightarrow> Inr []
        | Some im \<Rightarrow> matching_in tx query name (bt_values (im_documents im))) (\<lambda>ms.
     and_then (matching_indexes tx db query names) (\<lambda>more. Inr (ms @ more)))"

definition matching_documents :: "TextOps \<Rightarrow> Database \<Rightarrow> string list \<Rightarrow> json \<Rightarrow> MatchedDoc list store_result" where
  "matching_documents tx db requested query =
     and_then (resolve_index_patterns db requested) (matching_indexes tx db query)"

subsection \<open>Requests\<close>

definition search_validation_error_type :: "string \<Rightarrow> string" where
  "search_validation_error_type reason =
     (if contains_str reason ''from + size'' then ''illegal_argument_exception'' else ''x_content_parse_exception'')"

definition too_long :: "string \<Rightarrow> Response" where
  "too_long e = open_search_error 413 ''content_too_long_exception'' e"

definition validate_query_only :: "nat \<Rightarrow> nat \<Rightarrow> json \<Rightarrow> (Response, unit) result" where
  "validate_query_only max_result_window body_len query =
     (case validate_body_bytes body_len of
        Inl e \<Rightarrow> Inl (too_long e)
      | Inr _ \<Rightarrow>
          (case validate_request (jobject [(''query'', query)]) 0 0 max_result_window of
             Inl e \<Rightarrow> Inl (open_search_error 400 (search_validation_error_type e) e)
           | Inr _ \<Rightarrow> Inr ()))"

datatype ByQueryQueryMode = RequireQuery | DefaultMatchAll

definition parse_by_query_request ::
    "json_parse \<Rightarrow> nat \<Rightarrow> Request \<Rightarrow> ByQueryQueryMode \<Rightarrow> (Response, json \<times> json) result" where
  "parse_by_query_request parse max_result_window request mode =
     (case validate_body_bytes (length (rq_body request)) of
        Inl e \<Rightarrow> Inl (too_long e)
      | Inr _ \<Rightarrow>
          (case body_json parse request of
             Inl e \<Rightarrow> Inl (parse_error e)
           | Inr body \<Rightarrow>
               and_then
                 (case jget body ''query'' of
                    Some query \<Rightarrow> Inr query
                  | None \<Rightarrow>
                      if mode = DefaultMatchAll then Inr (jobject [(''match_all'', empty_object)])
                      else Inl (open_search_error 400 ''action_request_validation_exception''
                        ''Validation Failed: 1: query is missing;''))
                 (\<lambda>query. and_then (validate_query_only max_result_window (length (rq_body request)) query)
                    (\<lambda>_. Inr (body, query)))))"

subsection \<open>Plans and outcomes\<close>

record ByQueryPlan =
  bq_total :: nat
  bq_noops :: nat
  bq_version_conflicts :: nat

record BulkByQueryOutcome =
  bo_created :: nat
  bo_updated :: nat
  bo_deleted :: nat
  bo_version_conflicts :: nat

definition BulkByQueryOutcome_default :: BulkByQueryOutcome where
  "BulkByQueryOutcome_default = \<lparr>bo_created = 0, bo_updated = 0, bo_deleted = 0, bo_version_conflicts = 0\<rparr>"

definition count_outcome :: "WriteOutcome \<Rightarrow> BulkByQueryOutcome \<Rightarrow> BulkByQueryOutcome" where
  "count_outcome result outcome =
     (case result of
        OutDocument d \<Rightarrow>
          if doc_version d = 1 then outcome\<lparr>bo_created := bo_created outcome + 1\<rparr>
          else outcome\<lparr>bo_updated := bo_updated outcome + 1\<rparr>
      | OutDeleted found \<Rightarrow> if found then outcome\<lparr>bo_deleted := bo_deleted outcome + 1\<rparr> else outcome)"

type_synonym 'p builder = "Database \<Rightarrow> (WriteOperation list \<times> 'p) store_result"

definition apply_dynamic_bulk_by_query_operations ::
    "Setup \<Rightarrow> Env \<Rightarrow> 'p builder \<Rightarrow> Store \<Rightarrow> Store \<times> (BulkByQueryOutcome \<times> 'p) store_result" where
  "apply_dynamic_bulk_by_query_operations su env build s =
     (case apply_dynamic_write_operations_atomic su env build s of
        (s, r) \<Rightarrow> (s, and_then r (\<lambda>(results, plan). Inr (fold count_outcome results BulkByQueryOutcome_default, plan))))"

definition bulk_by_query_response :: "nat \<Rightarrow> nat \<Rightarrow> nat \<Rightarrow> nat \<Rightarrow> nat \<Rightarrow> nat \<Rightarrow> json" where
  "bulk_by_query_response all_matches updated created deleted noops version_conflicts =
     jobject [(''took'', jnat 0), (''timed_out'', JBool False), (''total'', jnat all_matches), (''updated'', jnat updated),
       (''created'', jnat created), (''deleted'', jnat deleted), (''batches'', jnat (if all_matches = 0 then 0 else 1)),
       (''version_conflicts'', jnat version_conflicts), (''noops'', jnat noops),
       (''retries'', jobject [(''bulk'', jnat 0), (''search'', jnat 0)]), (''throttled_millis'', jnat 0),
       (''requests_per_second'', JNum (Float (- 1))), (''throttled_until_millis'', jnat 0), (''failures'', JArr []),
       (''_shards'', one_shard)]"

subsection \<open>Delete by query\<close>

definition delete_by_query_operations :: "TextOps \<Rightarrow> string list \<Rightarrow> json \<Rightarrow> ByQueryPlan builder" where
  "delete_by_query_operations tx indices query db =
     and_then (matching_documents tx db indices query) (\<lambda>matched.
       Inr (map (\<lambda>d. OpDelete (mt_index d) (mt_id d)) matched,
            \<lparr>bq_total = length matched, bq_noops = 0, bq_version_conflicts = 0\<rparr>))"

definition handle_delete_by_query ::
    "Setup \<Rightarrow> Env \<Rightarrow> TextOps \<Rightarrow> json_parse \<Rightarrow> nat \<Rightarrow> Request \<Rightarrow> string option \<Rightarrow> Store \<Rightarrow> Store \<times> Response" where
  "handle_delete_by_query su env tx parse max_result_window request path_index s =
     (case parse_by_query_request parse max_result_window request RequireQuery of
        Inl response \<Rightarrow> (s, response)
      | Inr (body, query) \<Rightarrow>
          reply (\<lambda>(outcome, plan). json_response 200
              (bulk_by_query_response (bq_total plan) 0 0 (bo_deleted outcome) 0 (bo_version_conflicts outcome)))
            (apply_dynamic_bulk_by_query_operations su env
              (delete_by_query_operations tx (path_indices path_index ''_delete_by_query'') query) s))"

subsection \<open>Update by query\<close>

datatype SavedObjectListRemoval = RemoveNamespace string | RemoveWorkspace string

datatype UpdateByQueryAction = DeleteAction | IndexAction json | NoopAction

fun without_whitespace :: "string \<Rightarrow> string" where
  "without_whitespace [] = []"
| "without_whitespace (c # cs) =
     (case find (\<lambda>w. w \<noteq> [] \<and> prefix w (c # cs)) white_space of
        Some w \<Rightarrow> without_whitespace (drop (length w - 1) cs)
      | None \<Rightarrow> c # without_whitespace cs)"

definition normalize_script_source :: "string \<Rightarrow> string" where
  "normalize_script_source script_source =
     map (\<lambda>c. if c = CHR 0x22 then CHR 0x27 else c) (without_whitespace script_source)"

definition quoted :: "string \<Rightarrow> string" where
  "quoted s = [CHR 0x27] @ s @ [CHR 0x27]"

definition saved_object_removal_script :: "string \<Rightarrow> string \<Rightarrow> string" where
  "saved_object_removal_script field param =
     ''if(!ctx._source.containsKey('' @ quoted field @ '')){ctx.op='' @ quoted ''delete''
     @ '';}else{ctx._source['' @ quoted field @ ''].removeAll(Collections.singleton(params['' @ quoted param
     @ '']));if(ctx._source['' @ quoted field @ ''].empty){ctx.op='' @ quoted ''delete'' @ '';}}''"

definition script_error :: "string \<Rightarrow> StoreError" where
  "script_error reason = StoreError_new 400 ''script_exception'' reason"

definition script_param :: "json \<Rightarrow> string \<Rightarrow> string store_result" where
  "script_param script name =
     (case Option.bind (Option.bind (jget script ''params'') (\<lambda>params. jget params name)) as_str of
        Some v \<Rightarrow> if v \<noteq> [] then Inr v
                  else Inl (script_error (''saved-object removal script requires params.'' @ name))
      | None \<Rightarrow> Inl (script_error (''saved-object removal script requires params.'' @ name)))"

definition parse_saved_object_update_script :: "json \<Rightarrow> SavedObjectListRemoval store_result" where
  "parse_saved_object_update_script script =
     and_then (ok_or (script_error ''script.source is required'') (jstr_at script ''source'')) (\<lambda>script_source.
       if jstr_at script ''lang'' \<noteq> None \<and> jstr_at script ''lang'' \<noteq> Some ''painless'' then
         Inl (script_error ''saved-object update_by_query scripts must use painless'')
       else
         let normalized = normalize_script_source script_source
         in if normalized = saved_object_removal_script ''namespaces'' ''namespace'' then
              and_then (script_param script ''namespace'') (\<lambda>v. Inr (RemoveNamespace v))
            else if normalized = saved_object_removal_script ''workspaces'' ''workspace'' then
              and_then (script_param script ''workspace'') (\<lambda>v. Inr (RemoveWorkspace v))
            else Inl (script_error ''unsupported update_by_query script for mainstack-search''))"

definition remove_saved_object_list_value :: "json \<Rightarrow> string \<Rightarrow> string \<Rightarrow> UpdateByQueryAction store_result" where
  "remove_saved_object_list_value source field target =
     and_then (ok_or (script_error ''saved-object update script requires an object source'') (as_object source)) (\<lambda>object.
       case bt_get object field of
         None \<Rightarrow> Inr DeleteAction
       | Some v \<Rightarrow>
           and_then (ok_or (script_error (''saved-object field ['' @ field @ ''] must be an array'')) (as_array v)) (\<lambda>vs.
             let retained = filter (\<lambda>v. as_str v \<noteq> Some target) vs
             in if length retained = length vs then Inr NoopAction
                else if retained = [] then Inr DeleteAction
                else Inr (IndexAction (JObj (bt_insert field (JArr retained) object)))))"

fun apply_saved_object_update_script :: "json \<Rightarrow> SavedObjectListRemoval \<Rightarrow> UpdateByQueryAction store_result" where
  "apply_saved_object_update_script source (RemoveNamespace namespace) =
     remove_saved_object_list_value source ''namespaces'' namespace"
| "apply_saved_object_update_script source (RemoveWorkspace workspace) =
     remove_saved_object_list_value source ''workspaces'' workspace"

text \<open>The operations and the number of documents that stay as they are.\<close>

fun update_plan :: "SavedObjectListRemoval \<Rightarrow> MatchedDoc list \<Rightarrow> (WriteOperation list \<times> nat) store_result" where
  "update_plan script [] = Inr ([], 0)"
| "update_plan script (d # ds) =
     and_then (apply_saved_object_update_script (mt_source d) script) (\<lambda>action.
     and_then (update_plan script ds) (\<lambda>(ops, noops).
       Inr (case action of
              DeleteAction \<Rightarrow> (OpDelete (mt_index d) (mt_id d) # ops, noops)
            | IndexAction source \<Rightarrow> (OpIndex (mt_index d) (mt_id d) source # ops, noops)
            | NoopAction \<Rightarrow> (ops, noops + 1))))"

definition update_by_query_operations ::
    "TextOps \<Rightarrow> string list \<Rightarrow> json \<Rightarrow> SavedObjectListRemoval \<Rightarrow> ByQueryPlan builder" where
  "update_by_query_operations tx indices query script db =
     and_then (matching_documents tx db indices query) (\<lambda>matched.
     and_then (update_plan script matched) (\<lambda>(ops, noops).
       Inr (ops, \<lparr>bq_total = length matched, bq_noops = noops, bq_version_conflicts = 0\<rparr>)))"

definition handle_update_by_query ::
    "Setup \<Rightarrow> Env \<Rightarrow> TextOps \<Rightarrow> json_parse \<Rightarrow> nat \<Rightarrow> Request \<Rightarrow> string option \<Rightarrow> Store \<Rightarrow> Store \<times> Response" where
  "handle_update_by_query su env tx parse max_result_window request path_index s =
     (case parse_by_query_request parse max_result_window request DefaultMatchAll of
        Inl response \<Rightarrow> (s, response)
      | Inr (body, query) \<Rightarrow>
          (case jget body ''script'' of
             None \<Rightarrow> (s, open_search_error 400 ''script_exception'' ''update_by_query requires a supported script in mainstack-search'')
           | Some script \<Rightarrow>
               (case parse_saved_object_update_script script of
                  Inl e \<Rightarrow> (s, store_error e)
                | Inr script \<Rightarrow>
                    reply (\<lambda>(outcome, plan). json_response 200
                        (bulk_by_query_response (bq_total plan) (bo_updated outcome) 0 (bo_deleted outcome) (bq_noops plan)
                          (bo_version_conflicts outcome)))
                      (apply_dynamic_bulk_by_query_operations su env
                        (update_by_query_operations tx (path_indices path_index ''_update_by_query'') query script) s))))"

end
