(* ===== verification/Reindex.thy ===== *)
theory Reindex
  imports ByQuery
begin

section \<open>Reindex\<close>

text \<open>\<open>handle_reindex\<close> of \<open>src/api/mod.rs\<close>, the only handler that writes to the store and records a task.\<close>

datatype ReindexOpType = ReindexIndex | ReindexCreate

definition illegal_argument :: "string \<Rightarrow> StoreError" where
  "illegal_argument reason = StoreError_new 400 ''illegal_argument_exception'' reason"

definition reindex_source_indices :: "json \<Rightarrow> string list store_result" where
  "reindex_source_indices body =
     (case jget body ''source'' of
        None \<Rightarrow> Inl (illegal_argument ''reindex requires source.index'')
      | Some source \<Rightarrow>
          (case jget source ''index'' of
             Some (JStr index) \<Rightarrow>
               if blank index then Inl (illegal_argument ''reindex requires source.index'')
               else Inr (split_on (CHR '','') index)
           | Some (JArr vs) \<Rightarrow>
               let indices = filter (\<lambda>i. \<not> blank i) (List.map_filter as_str vs)
               in if indices = [] then Inl (illegal_argument ''reindex source.index must not be empty'') else Inr indices
           | _ \<Rightarrow> Inl (illegal_argument ''reindex requires source.index'')))"

definition jstr_at2 :: "json \<Rightarrow> string \<Rightarrow> string \<Rightarrow> string option" where
  "jstr_at2 v k k' = Option.bind (jget v k) (\<lambda>w. jstr_at w k')"

definition reindex_op_type :: "json \<Rightarrow> ReindexOpType store_result" where
  "reindex_op_type body =
     (case jstr_at2 body ''dest'' ''op_type'' of
        None \<Rightarrow> Inr ReindexIndex
      | Some op_type \<Rightarrow>
          if op_type = ''index'' then Inr ReindexIndex
          else if op_type = ''create'' then Inr ReindexCreate
          else Inl (illegal_argument (''unsupported reindex dest.op_type ['' @ op_type @ '']'')))"

definition reindex_dest_index :: "json \<Rightarrow> string store_result" where
  "reindex_dest_index body =
     (case jstr_at2 body ''dest'' ''index'' of
        Some index \<Rightarrow> if blank index then Inl (illegal_argument ''reindex requires dest.index'') else Inr index
      | None \<Rightarrow> Inl (illegal_argument ''reindex requires dest.index''))"

definition doc_present :: "Database \<Rightarrow> string \<Rightarrow> string \<Rightarrow> bool" where
  "doc_present db index_or_alias did \<longleftrightarrow>
     Option.bind (resolve_index db index_or_alias) (\<lambda>index. stored_document db index did) \<noteq> None"

definition id_rewrite_script :: string where
  "id_rewrite_script = ''ctx._id = ctx._source.type + '' @ quoted '':'' @ '' + ctx._id''"

definition reindex_document_id :: "MatchedDoc \<Rightarrow> json option \<Rightarrow> string store_result" where
  "reindex_document_id d script =
     (case script of
        None \<Rightarrow> Inr (mt_id d)
      | Some sc \<Rightarrow>
          and_then (ok_or (script_error ''script.source is required'') (jstr_at sc ''source'')) (\<lambda>script_source.
            if trim script_source = id_rewrite_script then
              and_then (ok_or (script_error ''reindex id rewrite script requires _source.type'') (jstr_at (mt_source d) ''type''))
                (\<lambda>doc_type. Inr (doc_type @ '':'' @ mt_id d))
            else Inl (script_error ''unsupported reindex script for mainstack-search'')))"

text \<open>The operations and the number of conflicts; \<open>planned\<close> are the ids of earlier creates.\<close>

fun reindex_plan ::
    "Database \<Rightarrow> string \<Rightarrow> ReindexOpType \<Rightarrow> bool \<Rightarrow> json option \<Rightarrow> MatchedDoc list \<Rightarrow> string list
      \<Rightarrow> (WriteOperation list \<times> nat) store_result" where
  "reindex_plan db dest op_type conflicts_proceed script [] planned = Inr ([], 0)"
| "reindex_plan db dest op_type conflicts_proceed script (d # ds) planned =
     and_then (reindex_document_id d script) (\<lambda>did.
       if op_type = ReindexCreate then
         (if doc_present db dest did \<or> did \<in> set planned then
            (if conflicts_proceed then
               and_then (reindex_plan db dest op_type conflicts_proceed script ds planned) (\<lambda>(ops, n). Inr (ops, n + 1))
             else Inl (document_exists did))
          else
            and_then (reindex_plan db dest op_type conflicts_proceed script ds (bs_insert did planned))
              (\<lambda>(ops, n). Inr (OpCreate dest did (mt_source d) # ops, n)))
       else
         and_then (reindex_plan db dest op_type conflicts_proceed script ds planned)
           (\<lambda>(ops, n). Inr (OpIndex dest did (mt_source d) # ops, n)))"

definition reindex_operations ::
    "TextOps \<Rightarrow> string list \<Rightarrow> json \<Rightarrow> string \<Rightarrow> ReindexOpType \<Rightarrow> bool \<Rightarrow> json option \<Rightarrow> ByQueryPlan builder" where
  "reindex_operations tx source_indices query dest op_type conflicts_proceed script db =
     and_then (matching_documents tx db source_indices query) (\<lambda>matched.
     and_then (reindex_plan db dest op_type conflicts_proceed script matched []) (\<lambda>(ops, n).
       Inr (ops, \<lparr>bq_total = length matched, bq_noops = 0, bq_version_conflicts = n\<rparr>)))"

text \<open>What the request asks for: source indexes, destination, kind of operation, conflicts, query, script.\<close>

definition parse_reindex_request ::
    "json_parse \<Rightarrow> nat \<Rightarrow> Request
      \<Rightarrow> (Response, string list \<times> string \<times> ReindexOpType \<times> bool \<times> json \<times> json option) result" where
  "parse_reindex_request parse max_result_window request =
     (case validate_body_bytes (length (rq_body request)) of
        Inl e \<Rightarrow> Inl (too_long e)
      | Inr _ \<Rightarrow>
          (case body_json parse request of
             Inl e \<Rightarrow> Inl (parse_error e)
           | Inr body \<Rightarrow>
               (case and_then (reindex_source_indices body) (\<lambda>indices.
                     and_then (reindex_dest_index body) (\<lambda>dest.
                     and_then (reindex_op_type body) (\<lambda>op_type. Inr (indices, dest, op_type)))) of
                  Inl e \<Rightarrow> Inl (store_error e)
                | Inr (indices, dest, op_type) \<Rightarrow>
                    let conflicts_proceed = (query_param request ''conflicts'' = Some ''proceed''
                          \<or> jstr_at body ''conflicts'' = Some ''proceed'');
                        query = (case Option.bind (jget body ''source'') (\<lambda>source. jget source ''query'') of
                                   Some q \<Rightarrow> q | None \<Rightarrow> jobject [(''match_all'', empty_object)])
                    in and_then (validate_query_only max_result_window (length (rq_body request)) query)
                         (\<lambda>_. Inr (indices, dest, op_type, conflicts_proceed, query, jget body ''script'')))))"

definition handle_reindex ::
    "Setup \<Rightarrow> Env \<Rightarrow> TextOps \<Rightarrow> json_parse \<Rightarrow> nat \<Rightarrow> Request \<Rightarrow> Store \<times> RuntimeState \<Rightarrow> (Store \<times> RuntimeState) \<times> Response" where
  "handle_reindex su env tx parse max_result_window request st =
     (case parse_reindex_request parse max_result_window request of
        Inl response \<Rightarrow> (st, response)
      | Inr (indices, dest, op_type, conflicts_proceed, query, script) \<Rightarrow>
          (case apply_dynamic_bulk_by_query_operations su env
              (reindex_operations tx indices query dest op_type conflicts_proceed script) (fst st) of
             (s, Inl e) \<Rightarrow> ((s, snd st), store_error e)
           | (s, Inr (outcome, plan)) \<Rightarrow>
               let response = bulk_by_query_response (bq_total plan) (bo_updated outcome) (bo_created outcome) 0 0
                     (bo_version_conflicts outcome + bq_version_conflicts plan)
               in if query_param request ''wait_for_completion'' = Some ''false'' then
                    (let (rt, task) = record_completed_task ''indices:data/write/reindex'' response (snd st)
                     in ((s, rt), json_response 200 (jobject [(''task'', JStr task)])))
                  else ((s, snd st), json_response 200 response)))"

end
