(* ===== verification/SearchHandlers.thy ===== *)
theory SearchHandlers
  imports ByQuery Search RuntimeInv
begin

section \<open>Handlers of searches, scrolls and points in time\<close>

text \<open>
  The handlers of \<open>src/api/mod.rs\<close> that search: what they read of the request, the limits they check, the
  contexts they leave in the runtime. A handler that panics gives None. The readings of clocks are a record.
\<close>

record Clock =
  ck_now :: nat
  ck_stamp :: nat
  ck_millis :: nat

record SearchConfig =
  sg_text :: TextOps
  sg_parse :: json_parse
  sg_runtime :: RuntimeConfig

subsection \<open>Values\<close>

text \<open>\<open>value[key]\<close>, and \<open>value[key] = v\<close>, which panics on anything but an object or null.\<close>

definition jat :: "json \<Rightarrow> string \<Rightarrow> json" where
  "jat v k = (case jget v k of Some w \<Rightarrow> w | None \<Rightarrow> JNull)"

fun index_set :: "string \<Rightarrow> json \<Rightarrow> json \<Rightarrow> json option" where
  "index_set k v (JObj m) = Some (JObj (bt_insert k v m))"
| "index_set k v JNull = Some (JObj [(k, v)])"
| "index_set k v _ = None"

fun jput :: "string \<Rightarrow> json \<Rightarrow> json \<Rightarrow> json" where
  "jput k v (JObj m) = JObj (bt_insert k v m)"
| "jput k v w = w"

definition numeric_param :: "json \<Rightarrow> (string \<times> string) list \<Rightarrow> string \<Rightarrow> nat \<Rightarrow> nat" where
  "numeric_param body query k dflt =
     (case List.map_filter (\<lambda>(name, s). if name = k then parse_u64 s else None) query of
        n # _ \<Rightarrow> n
      | [] \<Rightarrow> (case Option.bind (jget body k) as_u64 of Some n \<Rightarrow> n | None \<Rightarrow> dflt))"

subsection \<open>Indexes\<close>

definition index_setting_u64 :: "IndexMetadata \<Rightarrow> string \<Rightarrow> nat \<Rightarrow> nat" where
  "index_setting_u64 im k dflt =
     (case or_else (Option.bind (jget (im_settings im) ''index'') (\<lambda>settings. jget settings k)) (jget (im_settings im) k) of
        None \<Rightarrow> dflt
      | Some v \<Rightarrow> (case or_else (as_u64 v) (Option.bind (as_str v) parse_u64) of Some n \<Rightarrow> n | None \<Rightarrow> dflt))"

definition index_total_shards :: "IndexMetadata \<Rightarrow> nat" where
  "index_total_shards im =
     min (index_setting_u64 im ''number_of_shards'' 1 * sat_add (index_setting_u64 im ''number_of_replicas'' 0) 1) usize_max"

definition validate_search_indices :: "Database \<Rightarrow> string list \<Rightarrow> unit store_result" where
  "validate_search_indices db indices =
     (case find (\<lambda>i. CHR ''*'' \<notin> set i \<and> i \<noteq> ''_all'' \<and> resolve_indices db i = []) indices of
        Some i \<Rightarrow> Inl (no_such_index i)
      | None \<Rightarrow> Inr ())"

definition resolve_pit_indices :: "Database \<Rightarrow> string list \<Rightarrow> string list" where
  "resolve_pit_indices db indices =
     (if indices = [] \<or> ''_all'' \<in> set indices \<or> ''*'' \<in> set indices then bt_keys (db_indexes db)
      else bs_of_list (concat (map (\<lambda>i.
        if CHR ''*'' \<in> set i then filter (wildcard_matches i) (bt_keys (db_indexes db)) else resolve_indices db i) indices)))"

text \<open>The database with some of its indexes and the aliases of these.\<close>

definition keep_indexes :: "string list \<Rightarrow> Database \<Rightarrow> Database" where
  "keep_indexes keep db =
     (let indexes = filter (\<lambda>(name, _). name \<in> set keep) (db_indexes db)
      in db\<lparr>db_indexes := indexes, db_aliases := filter (\<lambda>(_, a). bt_has indexes (am_index a)) (db_aliases db)\<rparr>)"

definition pit_snapshot :: "Database \<Rightarrow> string list \<Rightarrow> (Database \<times> nat) store_result" where
  "pit_snapshot db indices =
     and_then (validate_search_indices db indices) (\<lambda>_.
       let snapshot = keep_indexes (resolve_pit_indices db indices) db
       in Inr (snapshot, usize_sum (map index_total_shards (bt_values (db_indexes snapshot)))))"

subsection \<open>Requests\<close>

definition time_unit_millis :: "string \<Rightarrow> nat option" where
  "time_unit_millis u =
     (if u = [] \<or> u = ''ms'' then Some 1 else if u = ''s'' then Some 1000 else if u = ''m'' then Some 60000
      else if u = ''h'' then Some 3600000 else if u = ''d'' then Some 86400000 else None)"

definition parse_keep_alive :: "string \<Rightarrow> (string, nat) result" where
  "parse_keep_alive raw =
     (let raw = trim raw; digits = takeWhile is_digit raw; u = dropWhile is_digit raw
      in if raw = [] then Inl ''keep_alive must not be empty''
         else if digits = [] then Inl (''invalid keep_alive ['' @ raw @ '']'')
         else case parse_u64 digits of
           None \<Rightarrow> Inl (''invalid keep_alive ['' @ raw @ '']'')
         | Some n \<Rightarrow>
             if n = 0 then Inl ''keep_alive must be positive''
             else (case time_unit_millis u of
                     None \<Rightarrow> Inl (''unsupported keep_alive unit ['' @ u @ '']'')
                   | Some k \<Rightarrow> Inr (min (n * k) usize_max * 1000000)))"

definition or_parse_error :: "(string, 'a) result \<Rightarrow> (Response, 'a) result" where
  "or_parse_error r = (case r of Inl e \<Rightarrow> Inl (parse_error e) | Inr v \<Rightarrow> Inr v)"

fun body_remove :: "string \<Rightarrow> json \<Rightarrow> json" where
  "body_remove k (JObj m) = JObj (bt_remove k m)"
| "body_remove k v = v"

text \<open>The point in time of a search, and the body without it.\<close>

definition pit_search_from_body :: "json \<Rightarrow> (Response, json \<times> (string \<times> nat option) option) result" where
  "pit_search_from_body body =
     (case jget body ''pit'' of
        None \<Rightarrow> Inr (body, None)
      | Some pit \<Rightarrow>
          and_then (ok_or (parse_error ''search [pit] must be an object'') (as_object pit)) (\<lambda>_.
          and_then (ok_or (parse_error ''search [pit.id] is required'') (jstr_at pit ''id'')) (\<lambda>pid.
            if blank pid then Inl (parse_error ''search [pit.id] must not be empty'')
            else and_then
              (case jget pit ''keep_alive'' of
                 None \<Rightarrow> Inr None
               | Some v \<Rightarrow>
                   (case as_str v of
                      None \<Rightarrow> Inl (parse_error ''search [pit.keep_alive] must be a string'')
                    | Some raw \<Rightarrow> or_parse_error (and_then (parse_keep_alive raw) (\<lambda>k. Inr (Some k)))))
              (\<lambda>keep_alive. Inr (body_remove ''pit'' body, Some (pid, keep_alive))))))"

definition keep_alive_from_request :: "Request \<Rightarrow> (Response, nat) result" where
  "keep_alive_from_request request =
     (case query_param request ''keep_alive'' of
        None \<Rightarrow> Inl (parse_error ''create PIT requires a [keep_alive] query parameter'')
      | Some raw \<Rightarrow> or_parse_error (parse_keep_alive raw))"

definition trimmed_names :: "string list \<Rightarrow> string list" where
  "trimmed_names ss = filter (\<lambda>s. s \<noteq> []) (map trim ss)"

definition pit_ids_from_request :: "json_parse \<Rightarrow> Request \<Rightarrow> (Response, string list) result" where
  "pit_ids_from_request parse request =
     and_then (or_parse_error (body_json parse request)) (\<lambda>body.
     and_then (ok_or (parse_error ''delete PIT requires [pit_id]'') (or_else (jget body ''pit_id'') (jget body ''pitId''))) (\<lambda>v.
     and_then
       (case v of
          JStr s \<Rightarrow> Inr (trimmed_names (split_on (CHR '','') s))
        | JArr vs \<Rightarrow> Inr (trimmed_names (List.map_filter as_str vs))
        | _ \<Rightarrow> Inl (parse_error ''delete PIT [pit_id] must be a string or array of strings''))
       (\<lambda>ids. if ids = [] then Inl (parse_error ''delete PIT requires non-empty [pit_id]'') else Inr (bs_of_list ids))))"

definition scroll_id_value :: "json_parse \<Rightarrow> Request \<Rightarrow> json option" where
  "scroll_id_value parse request =
     (case body_json parse request of
        Inl _ \<Rightarrow> None
      | Inr body \<Rightarrow> or_else (jget body ''scroll_id'') (jget body ''scrollId''))"

definition scroll_id_from_request :: "json_parse \<Rightarrow> Request \<Rightarrow> string option" where
  "scroll_id_from_request parse request =
     or_else (query_param request ''scroll_id'')
       (case scroll_id_value parse request of
          Some (JStr s) \<Rightarrow> Some s
        | Some (JArr (v # vs)) \<Rightarrow> as_str v
        | _ \<Rightarrow> None)"

definition scroll_ids_from_request :: "json_parse \<Rightarrow> Request \<Rightarrow> string list" where
  "scroll_ids_from_request parse request =
     map snd (filter (\<lambda>(key, _). key = ''scroll_id'') (rq_query request))
     @ (case scroll_id_value parse request of
          Some (JStr s) \<Rightarrow> [s]
        | Some (JArr vs) \<Rightarrow> List.map_filter as_str vs
        | _ \<Rightarrow> [])"

subsection \<open>Search\<close>

record SearchPlan =
  pl_body :: json
  pl_from :: nat
  pl_size :: nat
  pl_scroll :: bool
  pl_pit :: "(string \<times> nat option) option"

text \<open>The checks of a search whose body and point in time are read.\<close>

definition check_plan :: "SearchConfig \<Rightarrow> SearchPlan \<Rightarrow> (Response, SearchPlan) result" where
  "check_plan cfg plan =
     (if pl_pit plan \<noteq> None \<and> pl_scroll plan then
        Inl (open_search_error 400 ''illegal_argument_exception'' ''search with a PIT cannot also use scroll'')
      else case validate_request (pl_body plan) (pl_from plan) (pl_size plan) (rc_max_result_window (sg_runtime cfg)) of
        Inl e \<Rightarrow> Inl (open_search_error 400 (search_validation_error_type e) e)
      | Inr _ \<Rightarrow>
          if pl_scroll plan \<and> pl_size plan > MAX_SCROLL_RETAINED_HITS then
            Inl (open_search_error 400 ''resource_limit_exception''
              (''scroll page size ['' @ show_nat (pl_size plan) @ ''] exceeds the local scroll page limit [10000]''))
          else Inr plan)"

definition make_plan :: "Request \<Rightarrow> json \<Rightarrow> (string \<times> nat option) option \<Rightarrow> SearchPlan" where
  "make_plan request body pit =
     \<lparr>pl_body = body, pl_from = numeric_param body (rq_query request) ''from'' 0,
      pl_size = numeric_param body (rq_query request) ''size'' 10,
      pl_scroll = (query_param request ''scroll'' \<noteq> None \<or> jget body ''scroll'' \<noteq> None), pl_pit = pit\<rparr>"

text \<open>\<open>body["_source"] = source_filter\<close> panics when the body is neither an object nor null.\<close>

definition search_plan :: "SearchConfig \<Rightarrow> Request \<Rightarrow> string option \<Rightarrow> (Response, SearchPlan) result option" where
  "search_plan cfg request path_index =
     (case validate_body_bytes (length (rq_body request)) of
        Inl e \<Rightarrow> Some (Inl (too_long e))
      | Inr _ \<Rightarrow>
          (case and_then (or_parse_error (body_json (sg_parse cfg) request)) pit_search_from_body of
             Inl response \<Rightarrow> Some (Inl response)
           | Inr (body, pit) \<Rightarrow>
               if pit \<noteq> None \<and> index_unless ''_search'' path_index \<noteq> None then
                 Some (Inl (open_search_error 400 ''illegal_argument_exception'' ''search with a PIT must not include a path index''))
               else
                 map_option (\<lambda>body. check_plan cfg (make_plan request body pit))
                   (case source_filter_from_query (rq_query request) of
                      None \<Rightarrow> Some body
                    | Some source_filter \<Rightarrow> index_set ''_source'' source_filter body)))"

definition search_request :: "string list \<Rightarrow> json \<Rightarrow> nat \<Rightarrow> nat \<Rightarrow> bool \<Rightarrow> SearchRequest" where
  "search_request indices body start hits pit =
     \<lparr>sr_indices = indices, sr_body = body, sr_from = start, sr_size = hits, sr_pit = pit\<rparr>"

definition search_store :: "TextOps \<Rightarrow> Database \<Rightarrow> SearchRequest \<Rightarrow> json store_result" where
  "search_store tx db request =
     (case search tx db request of
        Inl e \<Rightarrow> Inl (StoreError_new 400 ''x_content_parse_exception'' e)
      | Inr v \<Rightarrow> Inr v)"

text \<open>What is searched: the point in time, whose keep-alive is renewed, or the indexes of the store.\<close>

definition run_search ::
    "SearchConfig \<Rightarrow> Clock \<Rightarrow> SearchPlan \<Rightarrow> string list \<Rightarrow> Database \<Rightarrow> RuntimeState \<Rightarrow> RuntimeState \<times> (Response, json) result" where
  "run_search cfg ck plan indices db rt =
     (let tx = sg_text cfg;
          hits = (if pl_scroll plan then scroll_capture_size (sg_runtime cfg) (pl_size plan) else pl_size plan)
      in case pl_pit plan of
           Some (pid, keep_alive) \<Rightarrow>
             (case pit_database (ck_now ck) (ck_stamp ck) pid keep_alive rt of
                (rt, None) \<Rightarrow>
                  (rt, Inl (open_search_error 404 ''search_context_missing_exception''
                         (''No point in time context found for id ['' @ pid @ '']'')))
              | (rt, Some database) \<Rightarrow>
                  (rt, case search_store tx database (search_request [] (pl_body plan) (pl_from plan) hits True) of
                         Inl e \<Rightarrow> Inl (store_error e)
                       | Inr body \<Rightarrow> Inr (jput ''pit_id'' (JStr pid) body)))
         | None \<Rightarrow>
             (rt, case and_then (validate_search_indices db indices) (\<lambda>_.
                     search_store tx db (search_request indices (pl_body plan) (pl_from plan) hits False)) of
                    Inl e \<Rightarrow> Inl (store_error e)
                  | Inr body \<Rightarrow> Inr body))"

definition scroll_response ::
    "SearchConfig \<Rightarrow> Clock \<Rightarrow> json \<Rightarrow> nat \<Rightarrow> RuntimeState \<Rightarrow> RuntimeState \<times> (Response, json) result" where
  "scroll_response cfg ck body batch_size rt =
     (let h = jat body ''hits'';
          hits = (case as_array (jat h ''hits'') of Some vs \<Rightarrow> vs | None \<Rightarrow> [])
      in case create_scroll (rc_tv (sg_runtime cfg)) (ck_stamp ck) (ck_now ck) hits (jat h ''total'') (jat h ''max_score'') batch_size
             (scroll_memory_budget (sg_runtime cfg)) rt of
           (rt, Inl e) \<Rightarrow> (rt, Inl (open_search_error (rte_status e) (rte_type e) (rte_reason e)))
         | (rt, Inr page) \<Rightarrow>
             (rt, Inr (jmodify ''hits'' (\<lambda>h. jput ''hits'' (JArr (pg_hits page))
                    (jput ''max_score'' (pg_max_score page) (jput ''total'' (pg_total page) h)))
                  (jput ''_scroll_id'' (JStr (pg_scroll_id page)) body))))"

definition totals_as_int :: "Request \<Rightarrow> json \<Rightarrow> json" where
  "totals_as_int request body =
     (if query_param request ''rest_total_hits_as_int'' = Some ''true'' then
        (case as_u64 (jat (jat (jat body ''hits'') ''total'') ''value'') of
           Some n \<Rightarrow> jmodify ''hits'' (jput ''total'' (jnat n)) body
         | None \<Rightarrow> body)
      else body)"

definition handle_search ::
    "SearchConfig \<Rightarrow> Clock \<Rightarrow> Request \<Rightarrow> string option \<Rightarrow> Database \<Rightarrow> RuntimeState \<Rightarrow> (RuntimeState \<times> Response) option" where
  "handle_search cfg ck request path_index db rt =
     map_option (\<lambda>r.
       case r of
         Inl response \<Rightarrow> (rt, response)
       | Inr plan \<Rightarrow>
           (case run_search cfg ck plan (path_indices path_index ''_search'') db rt of
              (rt, Inl response) \<Rightarrow> (rt, response)
            | (rt, Inr body) \<Rightarrow>
                (case (if pl_scroll plan then scroll_response cfg ck body (pl_size plan) rt else (rt, Inr body)) of
                   (rt, Inl response) \<Rightarrow> (rt, response)
                 | (rt, Inr body) \<Rightarrow> (rt, json_response 200 (totals_as_int request body)))))
       (search_plan cfg request path_index)"

subsection \<open>Scrolls\<close>

definition handle_scroll ::
    "SearchConfig \<Rightarrow> Clock \<Rightarrow> Request \<Rightarrow> string option \<Rightarrow> RuntimeState \<Rightarrow> RuntimeState \<times> Response" where
  "handle_scroll cfg ck request path_scroll_id rt =
     (case or_else (map_option decode_path_param path_scroll_id) (scroll_id_from_request (sg_parse cfg) request) of
        None \<Rightarrow> (rt, parse_error ''scroll request requires [scroll_id]'')
      | Some scroll_id \<Rightarrow>
          (case next_scroll (rc_tv (sg_runtime cfg)) (ck_now ck) (ck_stamp ck) scroll_id rt of
             (rt, Some page) \<Rightarrow>
               (rt, json_response 200 (jobject
                 [(''_scroll_id'', JStr (pg_scroll_id page)), (''took'', jnat 0), (''timed_out'', JBool False),
                  (''_shards'', jobject [(''total'', jnat 1), (''successful'', jnat 1), (''skipped'', jnat 0), (''failed'', jnat 0)]),
                  (''hits'', jobject [(''total'', pg_total page), (''max_score'', pg_max_score page),
                     (''hits'', JArr (pg_hits page))])]))
           | (rt, None) \<Rightarrow>
               (rt, open_search_error 404 ''search_context_missing_exception''
                 (''No search context found for id ['' @ scroll_id @ '']''))))"

definition handle_clear_scroll ::
    "SearchConfig \<Rightarrow> Clock \<Rightarrow> Request \<Rightarrow> string option \<Rightarrow> RuntimeState \<Rightarrow> RuntimeState \<times> Response" where
  "handle_clear_scroll cfg ck request path_scroll_id rt =
     (let ids = (case path_scroll_id of Some i \<Rightarrow> [decode_path_param i] | None \<Rightarrow> [])
            @ scroll_ids_from_request (sg_parse cfg) request
      in if ids = [] then (rt, parse_error ''clear scroll requires [scroll_id]'')
         else let (rt, n) = clear_scrolls (ck_now ck) ids rt
              in (rt, json_response 200 (jobject [(''succeeded'', JBool True), (''num_freed'', jnat n)])))"

definition handle_task_get :: "string \<Rightarrow> RuntimeState \<Rightarrow> Response" where
  "handle_task_get tid rt =
     (case task_of tid rt of
        Some task \<Rightarrow> json_response 200 (response_body task)
      | None \<Rightarrow> open_search_error 404 ''resource_not_found_exception'' (''task ['' @ tid @ ''] is missing''))"

subsection \<open>Points in time\<close>

definition pit_delete_body :: "PitDeleteResult list \<Rightarrow> json" where
  "pit_delete_body results =
     jobject [(''pits'', JArr (map (\<lambda>r. jobject [(''successful'', JBool (pd_successful r)), (''pit_id'', JStr (pd_id r))]) results))]"

definition open_pit ::
    "SearchConfig \<Rightarrow> Clock \<Rightarrow> Request \<Rightarrow> string \<Rightarrow> Database \<Rightarrow> RuntimeState \<Rightarrow> RuntimeState \<times> Response" where
  "open_pit cfg ck request index db rt =
     (case keep_alive_from_request request of
        Inl response \<Rightarrow> (rt, response)
      | Inr keep_alive \<Rightarrow>
          (case pit_snapshot db (path_indices (Some index) ''_search'') of
             Inl e \<Rightarrow> (rt, store_error e)
           | Inr (database, total_shards) \<Rightarrow>
               (case create_pit (rc_db_vec (sg_runtime cfg)) (ck_millis ck) (ck_now ck) (ck_stamp ck) database keep_alive total_shards
                   (pit_memory_budget (sg_runtime cfg)) rt of
                  (rt, Inl e) \<Rightarrow> (rt, open_search_error (rte_status e) (rte_type e) (rte_reason e))
                | (rt, Inr pit) \<Rightarrow>
                    (rt, json_response 200 (jobject
                      [(''pit_id'', JStr (pcr_id pit)),
                       (''_shards'', jobject [(''total'', jnat (pcr_total_shards pit)), (''successful'', jnat (pcr_total_shards pit)),
                          (''skipped'', jnat 0), (''failed'', jnat 0)]),
                       (''creation_time'', jnat (pcr_creation_time pit))])))))"

definition handle_pit ::
    "SearchConfig \<Rightarrow> Clock \<Rightarrow> Request \<Rightarrow> string list \<Rightarrow> Database \<Rightarrow> RuntimeState \<Rightarrow> RuntimeState \<times> Response" where
  "handle_pit cfg ck request parts db rt =
     (let meth = rq_method request; every = (parts = [''_search'', ''point_in_time'', ''_all''])
      in if meth = POST \<and> is_path [AnySeg, Lit ''_search'', Lit ''point_in_time''] parts then
           open_pit cfg ck request (parts ! 0) db rt
         else if meth = GET \<and> every then
           (let (rt, pits) = list_pits (ck_now ck) rt
            in (rt, json_response 200 (jobject [(''pits'', JArr (map (\<lambda>p. jobject
                 [(''pit_id'', JStr (pi_id p)), (''creation_time'', jnat (pi_creation_time p)),
                  (''keep_alive'', jnat (pi_keep_alive_millis p))]) pits))])))
         else if meth = DELETE \<and> every then
           (let (rt, results) = delete_all_pits (ck_now ck) rt in (rt, json_response 200 (pit_delete_body results)))
         else if meth = DELETE \<and> parts = [''_search'', ''point_in_time''] then
           (case pit_ids_from_request (sg_parse cfg) request of
              Inl response \<Rightarrow> (rt, response)
            | Inr ids \<Rightarrow>
                (let (rt, results) = delete_pits (ck_now ck) ids rt in (rt, json_response 200 (pit_delete_body results))))
         else (rt, unsupported ''point_in_time''))"

end
