(* ===== verification/BulkHandler.thy ===== *)
theory BulkHandler
  imports DocumentHandlers
begin

section \<open>Bulk requests\<close>

text \<open>
  \<open>handle_bulk\<close> of \<open>src/api/mod.rs\<close>: the lines of the body become plans, the operations of the plans are
  applied together, and every plan gives one item of the response. The reading of the clock that names the
  document of the \<open>n\<close>-th action without an id is \<open>clock n\<close>.
\<close>

subsection \<open>Lines\<close>

text \<open>\<open>str::lines\<close>: a carriage return before the line feed goes with it.\<close>

definition strip_cr :: "string \<Rightarrow> string" where
  "strip_cr line = (if ends_with line [CHR 0x0D] then butlast line else line)"

function str_lines :: "string \<Rightarrow> string list" where
  "str_lines s =
     (case split_once (CHR 0x0A) s of
        Some (line, rest) \<Rightarrow> strip_cr line # str_lines rest
      | None \<Rightarrow> if s = [] then [] else [s])"
  by pat_completeness auto
termination
  by (relation "measure length") (auto dest!: split_once_Some)

declare str_lines.simps [simp del]

subsection \<open>Plans\<close>

record BulkStorePlan =
  bp_action :: string
  bp_index :: string
  bp_id :: string
  bp_operation :: WriteOperation

datatype BulkPlan = Immediate json | StorePlan BulkStorePlan

definition bulk_error :: "StoreError \<Rightarrow> json" where
  "bulk_error e =
     jobject [(''status'', jnat (se_status e)),
       (''error'', jobject [(''type'', JStr (se_type e)), (''reason'', JStr (se_reason e))])]"

definition bulk_parse_error :: "string \<Rightarrow> json" where
  "bulk_parse_error reason = bulk_error (StoreError_new 400 ''parse_exception'' reason)"

definition parse_bulk_source :: "json_parse \<Rightarrow> string option \<Rightarrow> json store_result" where
  "parse_bulk_source parse line =
     (case line of
        None \<Rightarrow> Inl (StoreError_new 400 ''parse_exception'' ''bulk action requires a source line'')
      | Some l \<Rightarrow>
          if blank l then Inl (StoreError_new 400 ''parse_exception'' ''bulk source line must not be empty'')
          else (case parse l of Inl e \<Rightarrow> Inl (StoreError_new 400 ''parse_exception'' e) | Inr v \<Rightarrow> Inr v))"

definition action_entry :: "json \<Rightarrow> (string \<times> json) store_result" where
  "action_entry v =
     and_then (ok_or (StoreError_new 400 ''parse_exception'' ''bulk action line must be a JSON object'') (as_object v)) (\<lambda>object.
       case object of
         [(key, meta)] \<Rightarrow>
           if is_object meta then Inr (key, meta)
           else Inl (StoreError_new 400 ''parse_exception'' ''bulk action metadata must be an object'')
       | _ \<Rightarrow> Inl (StoreError_new 400 ''parse_exception'' ''bulk action must contain one operation''))"

definition index_required :: StoreError where
  "index_required = StoreError_new 400 ''index_missing_exception'' ''bulk item requires _index or a path index''"

definition takes_source :: "string \<Rightarrow> bool" where
  "takes_source action \<longleftrightarrow> action = ''index'' \<or> action = ''create'' \<or> action = ''update''"

definition bulk_operation_of :: "string \<Rightarrow> string \<Rightarrow> string \<Rightarrow> json \<Rightarrow> WriteOperation store_result" where
  "bulk_operation_of action index did source =
     (if action = ''index'' then Inr (OpIndex index did source)
      else if action = ''create'' then Inr (OpCreate index did source)
      else and_then (parse_update_body source) (\<lambda>update.
        Inr (OpUpdate index did (up_doc update) (up_doc_as_upsert update) (up_upsert update))))"

definition bulk_plan ::
    "json_parse \<Rightarrow> string option \<Rightarrow> nat \<Rightarrow> string \<Rightarrow> json \<Rightarrow> string option \<Rightarrow> BulkPlan" where
  "bulk_plan parse path_index nanos action meta line =
     (let index = (case or_else (Option.bind (jget meta ''_index'') as_str) path_index of Some i \<Rightarrow> i | None \<Rightarrow> []);
          did = (case Option.bind (jget meta ''_id'') as_str of Some d \<Rightarrow> d | None \<Rightarrow> generated_id nanos);
          refused = (\<lambda>e. Immediate (jobject [(action, bulk_error e)]));
          planned = (\<lambda>operation. StorePlan \<lparr>bp_action = action, bp_index = index, bp_id = did, bp_operation = operation\<rparr>)
      in if takes_source action then
           (if blank index then refused index_required
            else case and_then (parse_bulk_source parse line) (bulk_operation_of action index did) of
              Inl e \<Rightarrow> refused e
            | Inr operation \<Rightarrow> planned operation)
         else if action = ''delete'' then
           (if blank index then refused index_required else planned (OpDelete index did))
         else
           Immediate (jobject [(action, jobject [(''status'', jnat 400),
             (''error'', jobject [(''type'', JStr ''illegal_argument_exception''), (''reason'', JStr ''unsupported bulk action'')])])]))"

definition bulk_too_large :: Response where
  "bulk_too_large =
     open_search_error 413 ''bulk_too_large_exception'' ''bulk action count exceeded configured limit''"

text \<open>The loop over the lines; \<open>n\<close> actions came before.\<close>

fun bulk_plans ::
    "json_parse \<Rightarrow> string option \<Rightarrow> (nat \<Rightarrow> nat) \<Rightarrow> nat \<Rightarrow> nat \<Rightarrow> string list \<Rightarrow> (Response, BulkPlan list) result" where
  "bulk_plans parse path_index clock max_actions n [] = Inr []"
| "bulk_plans parse path_index clock max_actions n (line # rest) =
     (if blank line then
        and_then (bulk_plans parse path_index clock max_actions n rest) (\<lambda>plans.
          Inr (Immediate (jobject [(''index'', bulk_parse_error ''bulk action line must not be empty'')]) # plans))
      else if n + 1 > max_actions then Inl bulk_too_large
      else case parse line of
        Inl e \<Rightarrow> Inl (parse_error (''bulk action line is not valid JSON: '' @ e))
      | Inr v \<Rightarrow>
          (case action_entry v of
             Inl e \<Rightarrow> Inl (parse_error (se_reason e))
           | Inr (action, meta) \<Rightarrow>
               and_then
                 (bulk_plans parse path_index clock max_actions (n + 1) (if takes_source action then drop 1 rest else rest))
                 (\<lambda>plans. Inr (bulk_plan parse path_index (clock n) action meta (if rest = [] then None else Some (hd rest)) # plans))))"

subsection \<open>Items\<close>

definition bulk_doc_result :: "string \<Rightarrow> string \<Rightarrow> StoredDocument \<Rightarrow> nat \<Rightarrow> string \<Rightarrow> json" where
  "bulk_doc_result index did d status result =
     jobject [(''_index'', JStr index), (''_id'', JStr did), (''_version'', jnat (doc_version d)), (''result'', JStr result),
       (''status'', jnat status), (''_seq_no'', jnat (doc_seq_no d)), (''_primary_term'', jnat (doc_primary_term d))]"

definition bulk_item :: "BulkStorePlan \<Rightarrow> WriteOutcome store_result \<Rightarrow> json" where
  "bulk_item plan outcome =
     (case outcome of
        Inr (OutDocument d) \<Rightarrow>
          let created = (bp_action plan = ''create'' \<or> doc_version d = 1)
          in jobject [(bp_action plan, bulk_doc_result (bp_index plan) (bp_id plan) d
               (if created then 201 else 200) (if created then ''created'' else ''updated''))]
      | Inr (OutDeleted found) \<Rightarrow>
          jobject [(''delete'', jobject [(''_index'', JStr (bp_index plan)), (''_id'', JStr (bp_id plan)),
            (''status'', jnat (if found then 200 else 404)), (''result'', JStr (if found then ''deleted'' else ''not_found''))])]
      | Inl e \<Rightarrow> jobject [(bp_action plan, bulk_error e)])"

text \<open>\<open>outcomes.next().expect(...)\<close> panics when the outcomes run out: None.\<close>

fun bulk_items :: "BulkPlan list \<Rightarrow> WriteOutcome store_result list \<Rightarrow> json list option" where
  "bulk_items [] outcomes = Some []"
| "bulk_items (Immediate v # plans) outcomes = map_option ((#) v) (bulk_items plans outcomes)"
| "bulk_items (StorePlan plan # plans) [] = None"
| "bulk_items (StorePlan plan # plans) (r # outcomes) = map_option ((#) (bulk_item plan r)) (bulk_items plans outcomes)"

fun plan_operations :: "BulkPlan list \<Rightarrow> WriteOperation list" where
  "plan_operations [] = []"
| "plan_operations (Immediate v # plans) = plan_operations plans"
| "plan_operations (StorePlan plan # plans) = bp_operation plan # plan_operations plans"

definition item_failed :: "json \<Rightarrow> bool" where
  "item_failed item =
     (case as_object item of
        Some ((k, v) # m) \<Rightarrow> (case Option.bind (jget v ''status'') as_u64 of Some status \<Rightarrow> status \<ge> 400 | None \<Rightarrow> False)
      | _ \<Rightarrow> False)"

definition bulk_response :: "json list \<Rightarrow> Response" where
  "bulk_response items =
     json_response 200 (jobject [(''took'', jnat 0), (''errors'', JBool (list_ex item_failed items)), (''items'', JArr items)])"

text \<open>The text of a UTF-8 error is left out. None is a panic.\<close>

definition handle_bulk ::
    "Setup \<Rightarrow> Env \<Rightarrow> (nat \<Rightarrow> nat) \<Rightarrow> nat \<Rightarrow> json_parse \<Rightarrow> Request \<Rightarrow> string option \<Rightarrow> Store \<Rightarrow> (Store \<times> Response) option" where
  "handle_bulk su env clock max_actions parse request path_index s =
     (if \<not> utf8_valid (rq_body request) then Some (s, parse_error ''bulk body must be UTF-8 NDJSON'')
      else case bulk_plans parse path_index clock max_actions 0 (str_lines (rq_body request)) of
        Inl response \<Rightarrow> Some (s, response)
      | Inr plans \<Rightarrow>
          let operations = plan_operations plans
          in if operations = [] then map_option (\<lambda>items. (s, bulk_response items)) (bulk_items plans [])
             else (case apply_write_operations su env operations s of
                     (s, Inl e) \<Rightarrow> Some (s, store_error e)
                   | (s, Inr outcomes) \<Rightarrow> map_option (\<lambda>items. (s, bulk_response items)) (bulk_items plans outcomes)))"

end
