(* ===== verification/ReadHandlers.thy ===== *)
theory ReadHandlers
  imports SearchHandlers BulkHandler
begin

section \<open>Handlers that only read\<close>

text \<open>
  The remaining handlers of \<open>src/api/mod.rs\<close> that read the database: count, mget, msearch, refresh,
  validate, explain, analyze, stats, field mappings.
\<close>

subsection \<open>Counts\<close>

definition total_value :: "json \<Rightarrow> nat" where
  "total_value body = (case as_u64 (jat (jat (jat body ''hits'') ''total'') ''value'') of Some n \<Rightarrow> n | None \<Rightarrow> 0)"

definition handle_count :: "SearchConfig \<Rightarrow> Request \<Rightarrow> string option \<Rightarrow> Database \<Rightarrow> Response" where
  "handle_count cfg request path_index db =
     (case validate_body_bytes (length (rq_body request)) of
        Inl e \<Rightarrow> too_long e
      | Inr _ \<Rightarrow>
          (case body_json (sg_parse cfg) request of
             Inl e \<Rightarrow> parse_error e
           | Inr body \<Rightarrow>
               (case validate_request body 0 0 (rc_max_result_window (sg_runtime cfg)) of
                  Inl e \<Rightarrow> open_search_error 400 (search_validation_error_type e) e
                | Inr _ \<Rightarrow>
                    let indices = path_indices path_index ''_count''
                    in respond (\<lambda>v. json_response 200 (jobject
                           [(''count'', jnat (total_value v)), (''_shards'', jat v ''_shards'')]))
                         (and_then (validate_search_indices db indices) (\<lambda>_.
                            search_store (sg_text cfg) db (search_request indices body 0 0 False))))))"

subsection \<open>Several documents\<close>

definition handle_mget :: "SearchConfig \<Rightarrow> Request \<Rightarrow> string option \<Rightarrow> Database \<Rightarrow> Response" where
  "handle_mget cfg request path_index db =
     (case body_json (sg_parse cfg) request of
        Inl e \<Rightarrow> parse_error e
      | Inr body \<Rightarrow>
          json_response 200 (jobject [(''docs'', JArr (map (mget_doc_response db)
            (mget_items (sg_text cfg) body (index_unless ''_mget'' path_index) (source_filter_from_query (rq_query request)))))]))"

subsection \<open>Several searches\<close>

definition str_values :: "json option \<Rightarrow> string list option" where
  "str_values v = map_option (List.map_filter as_str) (Option.bind v as_array)"

definition msearch_indices :: "json \<Rightarrow> string option \<Rightarrow> string list" where
  "msearch_indices header path_index =
     (case jstr_at header ''index'' of
        Some index \<Rightarrow> split_on (CHR '','') index
      | None \<Rightarrow>
          (case or_else (str_values (jget header ''index'')) (str_values (jget header ''indices'')) of
             Some indices \<Rightarrow> indices
           | None \<Rightarrow> path_indices path_index ''_msearch''))"

definition u64_or_at :: "json \<Rightarrow> string \<Rightarrow> nat \<Rightarrow> nat" where
  "u64_or_at v k dflt = (case Option.bind (jget v k) as_u64 of Some n \<Rightarrow> n | None \<Rightarrow> dflt)"

definition error_item :: "StoreError \<Rightarrow> json" where
  "error_item e =
     jobject [(''error'', jobject [(''type'', JStr (se_type e)), (''reason'', JStr (se_reason e))]), (''status'', jnat (se_status e))]"

definition msearch_item :: "SearchConfig \<Rightarrow> Database \<Rightarrow> string option \<Rightarrow> json \<Rightarrow> json \<Rightarrow> json" where
  "msearch_item cfg db path_index header body =
     (if jget body ''pit'' \<noteq> None \<or> jget body ''search_after'' \<noteq> None then
        error_item (StoreError_new 501 ''mainstack_search_unsupported_api_exception''
          ''msearch with PIT or search_after is not implemented by mainstack-search yet'')
      else
        let start = u64_or_at body ''from'' 0; hits = u64_or_at body ''size'' 10; indices = msearch_indices header path_index
        in case validate_request body start hits (rc_max_result_window (sg_runtime cfg)) of
             Inl e \<Rightarrow> error_item (StoreError_new 400 (search_validation_error_type e) e)
           | Inr _ \<Rightarrow>
               (case and_then (validate_search_indices db indices) (\<lambda>_.
                   search_store (sg_text cfg) db (search_request indices body start hits False)) of
                  Inl e \<Rightarrow> error_item e
                | Inr v \<Rightarrow> v))"

fun msearch_items :: "SearchConfig \<Rightarrow> Database \<Rightarrow> string option \<Rightarrow> string list \<Rightarrow> (Response, json list) result" where
  "msearch_items cfg db path_index [] = Inr []"
| "msearch_items cfg db path_index [header_line] =
     (case sg_parse cfg header_line of
        Inl e \<Rightarrow> Inl (parse_error (''msearch header is not valid JSON: '' @ e))
      | Inr _ \<Rightarrow> Inl (parse_error ''msearch header requires a body line''))"
| "msearch_items cfg db path_index (header_line # body_line # lines) =
     (case sg_parse cfg header_line of
        Inl e \<Rightarrow> Inl (parse_error (''msearch header is not valid JSON: '' @ e))
      | Inr header \<Rightarrow>
          (case sg_parse cfg body_line of
             Inl e \<Rightarrow> Inl (parse_error (''msearch body is not valid JSON: '' @ e))
           | Inr body \<Rightarrow>
               and_then (msearch_items cfg db path_index lines) (\<lambda>items.
                 Inr (msearch_item cfg db path_index header body # items))))"

definition handle_msearch :: "SearchConfig \<Rightarrow> Request \<Rightarrow> string option \<Rightarrow> Database \<Rightarrow> Response" where
  "handle_msearch cfg request path_index db =
     (case validate_body_bytes (length (rq_body request)) of
        Inl e \<Rightarrow> too_long e
      | Inr _ \<Rightarrow>
          if \<not> utf8_valid (rq_body request) then parse_error ''msearch body must be UTF-8 NDJSON''
          else case msearch_items cfg db path_index (filter (\<lambda>l. \<not> blank l) (str_lines (rq_body request))) of
            Inl response \<Rightarrow> response
          | Inr items \<Rightarrow> json_response 200 (jobject [(''responses'', JArr items)]))"

subsection \<open>Shards, validation, explanation\<close>

definition shards_of :: "Database \<Rightarrow> string list \<Rightarrow> nat" where
  "shards_of db names = usize_sum (map index_total_shards (List.map_filter (bt_get (db_indexes db)) names))"

definition shards_json :: "nat \<Rightarrow> json" where
  "shards_json n = jobject [(''total'', jnat n), (''successful'', jnat n), (''failed'', jnat 0)]"

definition handle_refresh :: "string option \<Rightarrow> Database \<Rightarrow> Response" where
  "handle_refresh path_index db =
     respond (\<lambda>names. json_response 200 (jobject [(''_shards'', shards_json (shards_of db names))]))
       (resolve_index_patterns db (path_indices path_index ''_refresh''))"

text \<open>The query of a body that may be missing, when it passes the limits.\<close>

definition body_query :: "SearchConfig \<Rightarrow> Request \<Rightarrow> (Response, json) result" where
  "body_query cfg request =
     and_then (if rq_body request = [] then Inr empty_object else or_parse_error (body_json (sg_parse cfg) request)) (\<lambda>body.
       let query = (case jget body ''query'' of Some q \<Rightarrow> q | None \<Rightarrow> jobject [(''match_all'', empty_object)])
       in and_then (validate_query_only (rc_max_result_window (sg_runtime cfg)) (length (rq_body request)) query)
            (\<lambda>_. Inr query))"

definition handle_validate_query :: "SearchConfig \<Rightarrow> Request \<Rightarrow> string option \<Rightarrow> Database \<Rightarrow> Response" where
  "handle_validate_query cfg request first db =
     (case body_query cfg request of
        Inl response \<Rightarrow> response
      | Inr _ \<Rightarrow>
          let indices = path_indices first ''_validate''
          in respond (\<lambda>names. json_response 200 (jobject
                 ([(''_shards'', shards_json (max (shards_of db names) 1)), (''valid'', JBool True)]
                  @ (if query_param request ''explain'' = Some ''true'' then
                       [(''explanations'', JArr [jobject
                          [(''index'', JStr (case indices of [] \<Rightarrow> ''_all'' | i # _ \<Rightarrow> i)), (''valid'', JBool True),
                           (''explanation'', JStr (''query is valid for mainstack-search'' @ [CHR 0x27] @ ''s local evaluator''))]])]
                     else []))))
               (resolve_index_patterns db indices))"

definition handle_explain :: "SearchConfig \<Rightarrow> Request \<Rightarrow> string \<Rightarrow> string \<Rightarrow> Database \<Rightarrow> Response" where
  "handle_explain cfg request index did db =
     (case body_query cfg request of
        Inl response \<Rightarrow> response
      | Inr query \<Rightarrow>
          respond (\<lambda>(name, matched). json_response 200 (jobject
              [(''_index'', JStr name), (''_id'', JStr did), (''matched'', JBool matched),
               (''explanation'', jobject
                  [(''value'', JNum (Float (if matched then 1 else 0))),
                   (''description'', JStr ''mainstack-search local evaluator match result''), (''details'', JArr [])])]))
            (and_then (ok_or (no_such_index index) (resolve_index db index)) (\<lambda>name.
             and_then (ok_or (document_missing did) (stored_document db name did)) (\<lambda>d.
             and_then (document_matches (sg_text cfg) query d) (\<lambda>matched. Inr (name, matched))))))"

subsection \<open>Statistics\<close>

datatype StatsMetric = DocsMetric | StoreMetric | IndexingMetric | SearchMetric | GetMetric

definition all_stats_metrics :: "StatsMetric list" where
  "all_stats_metrics = [DocsMetric, StoreMetric, IndexingMetric, SearchMetric, GetMetric]"

definition metric_of :: "string \<Rightarrow> StatsMetric option" where
  "metric_of s = map_of [(''docs'', DocsMetric), (''store'', StoreMetric), (''indexing'', IndexingMetric),
     (''search'', SearchMetric), (''get'', GetMetric)] s"

definition unknown_metric :: "string \<Rightarrow> StoreError" where
  "unknown_metric s =
     StoreError_new 400 ''illegal_argument_exception''
       (''request [/_stats/'' @ s @ ''] contains unrecognized metric: ['' @ s @ '']''
        @ (if s = ''fieldata'' then '' -> did you mean [fielddata]?'' else ''''))"

fun collect_metrics :: "string list \<Rightarrow> StatsMetric list \<Rightarrow> StatsMetric list store_result" where
  "collect_metrics [] metrics = Inr metrics"
| "collect_metrics (s # ss) metrics =
     (if s = ''_all'' then collect_metrics ss (metrics @ all_stats_metrics)
      else case metric_of s of
        None \<Rightarrow> Inl (unknown_metric s)
      | Some m \<Rightarrow> collect_metrics ss (if m \<in> set metrics then metrics else metrics @ [m]))"

definition parse_stats_metrics :: "string option \<Rightarrow> StatsMetric list store_result" where
  "parse_stats_metrics metric_path =
     (case metric_path of
        None \<Rightarrow> Inr all_stats_metrics
      | Some path \<Rightarrow>
          and_then (collect_metrics (filter (\<lambda>s. s \<noteq> []) (split_on (CHR '','') path)) []) (\<lambda>metrics.
            Inr (if metrics = [] then all_stats_metrics else metrics)))"

definition aggregate_stats_block :: "nat \<Rightarrow> nat \<Rightarrow> nat \<Rightarrow> StatsMetric list \<Rightarrow> json" where
  "aggregate_stats_block docs deleted store_bytes metrics =
     jobject (concat (map (\<lambda>(m, k, v). if m \<in> set metrics then [(k, jobject v)] else [])
       [(DocsMetric, ''docs'', [(''count'', jnat docs), (''deleted'', jnat deleted)]),
        (StoreMetric, ''store'', [(''size_in_bytes'', jnat store_bytes), (''reserved_in_bytes'', jnat 0)]),
        (IndexingMetric, ''indexing'', [(''index_total'', jnat docs), (''index_time_in_millis'', jnat 0)]),
        (SearchMetric, ''search'', [(''query_total'', jnat 0), (''query_time_in_millis'', jnat 0)]),
        (GetMetric, ''get'', [(''total'', jnat 0), (''time_in_millis'', jnat 0)])]))"

definition stats_block :: "IndexMetadata \<Rightarrow> StatsMetric list \<Rightarrow> json" where
  "stats_block im metrics =
     aggregate_stats_block (length (im_documents im)) (length (im_tombstones im)) (im_store_size_bytes im) metrics"

definition index_stats :: "Database \<Rightarrow> string list \<Rightarrow> StatsMetric list \<Rightarrow> json store_result" where
  "index_stats db requested metrics =
     and_then (resolve_index_patterns db requested) (\<lambda>names.
       let found = List.map_filter (\<lambda>name. map_option (Pair name) (bt_get (db_indexes db) name)) names;
           ims = map snd found;
           every = aggregate_stats_block (usize_sum (map (\<lambda>im. length (im_documents im)) ims))
             (usize_sum (map (\<lambda>im. length (im_tombstones im)) ims)) (usize_sum (map im_store_size_bytes ims)) metrics
       in Inr (jobject
         [(''_shards'', shards_json (usize_sum (map index_total_shards ims))),
          (''_all'', jobject [(''primaries'', every), (''total'', every)]),
          (''indices'', jobject (map (\<lambda>(name, im). (name, jobject
             [(''uuid'', JStr (''mainstack-search-'' @ name)), (''health'', JStr ''green''), (''status'', JStr ''open''),
              (''primaries'', stats_block im metrics), (''total'', stats_block im metrics)])) found))]))"

definition handle_stats :: "string list \<Rightarrow> Database \<Rightarrow> Response" where
  "handle_stats parts db =
     (let (path_index, metric_path) =
            (if seg_at 0 parts = Some ''_stats'' then (None, seg_at 1 parts) else (seg_at 0 parts, seg_at 2 parts))
      in respond (json_response 200)
           (and_then (parse_stats_metrics metric_path) (index_stats db (path_indices path_index ''_stats''))))"

end
