(* ===== verification/FieldCaps.thy ===== *)
theory FieldCaps
  imports ByQuery
begin

section \<open>Field capabilities\<close>

text \<open>
  \<open>src/catalog/field_caps.rs\<close>: the fields of the indexes named, those of the mappings and those observed in
  documents, with the types each has and where.
\<close>

record FieldCapsRequest =
  fc_indices :: "string list"
  fc_fields :: "string list"
  fc_ignore_unavailable :: bool
  fc_allow_no_indices :: bool

record FieldTypeCaps =
  ft_indices :: "string list"
  ft_searchable :: bool
  ft_aggregatable :: bool

definition joined_name :: "string \<Rightarrow> string \<Rightarrow> string" where
  "joined_name pre name = (if pre = [] then name else pre @ ''.'' @ name)"

subsection \<open>Fields of a mapping and of a document\<close>

definition mapping_type :: "json \<Rightarrow> string option" where
  "mapping_type mapping =
     or_else (jstr_at mapping ''type'') (if jget mapping ''properties'' \<noteq> None then Some ''object'' else None)"

definition properties_of :: "json \<Rightarrow> (string \<times> json) list" where
  "properties_of mappings =
     (case Option.bind (jget mappings ''properties'') as_object of Some props \<Rightarrow> props | None \<Rightarrow> [])"

lemma json_member_size: "e \<in> set m \<Longrightarrow> size (snd e) < size (JObj m)"
  by (induction m) (auto split: prod.splits)

lemma properties_of_size [termination_simp]:
  assumes "e \<in> set (properties_of v)"
  shows "size (snd e) < size v"
proof (cases v)
  case (JObj m)
  with assms obtain props where p: "bt_get m ''properties'' = Some (JObj props)" and e: "e \<in> set props"
    by (cases "bt_get m ''properties''"; cases "the (bt_get m ''properties'')") (auto simp: properties_of_def)
  from json_member_size [OF map_of_SomeD [OF p]] json_member_size [OF e] JObj show ?thesis by simp
qed (use assms in \<open>simp_all add: properties_of_def\<close>)

fun collect_mapped_fields :: "json \<Rightarrow> string \<Rightarrow> (string \<times> string) list" where
  "collect_mapped_fields mappings pre =
     concat (map (\<lambda>e.
       let full_name = joined_name pre (fst e)
       in (case mapping_type (snd e) of Some ty \<Rightarrow> [(full_name, ty)] | None \<Rightarrow> [])
          @ collect_mapped_fields (snd e) full_name) (properties_of mappings))"

declare collect_mapped_fields.simps [simp del]

definition mapped_fields :: "json \<Rightarrow> (string \<times> string) list" where
  "mapped_fields mappings = collect_mapped_fields mappings []"

fun observed_scalar_type :: "json \<Rightarrow> string option" where
  "observed_scalar_type (JBool _) = Some ''boolean''"
| "observed_scalar_type (JNum (Float _)) = Some ''double''"
| "observed_scalar_type (JNum _) = Some ''long''"
| "observed_scalar_type (JStr _) = Some ''keyword''"
| "observed_scalar_type _ = None"

fun is_container :: "json \<Rightarrow> bool" where
  "is_container (JObj _) = True"
| "is_container (JArr _) = True"
| "is_container _ = False"

fun collect_observed_fields :: "json \<Rightarrow> string \<Rightarrow> (string \<times> string) list" where
  "collect_observed_fields (JObj m) pre =
     (if pre \<noteq> [] then [(pre, ''object'')] else [])
     @ concat (map (\<lambda>e. collect_observed_fields (snd e) (joined_name pre (fst e))) m)"
| "collect_observed_fields (JArr values) pre =
     concat (map (\<lambda>v. if is_container v then collect_observed_fields v pre else []) values)
     @ map (\<lambda>ty. (pre, ty)) (bs_of_list (List.map_filter observed_scalar_type values))"
| "collect_observed_fields v pre = (case observed_scalar_type v of Some ty \<Rightarrow> [(pre, ty)] | None \<Rightarrow> [])"

definition observed_fields :: "json \<Rightarrow> (string \<times> string) list" where
  "observed_fields source = collect_observed_fields source []"

subsection \<open>The response\<close>

definition no_index :: "string \<Rightarrow> StoreError" where
  "no_index reason = not_found ''index_not_found_exception'' reason"

fun field_caps_names :: "Database \<Rightarrow> FieldCapsRequest \<Rightarrow> string list \<Rightarrow> string list \<Rightarrow> string list store_result" where
  "field_caps_names db request [] names = Inr (bs_of_list names)"
| "field_caps_names db request (requested # rest) names =
     (if CHR ''*'' \<in> set requested then
        (let matches = filter (wildcard_matches requested) (bt_keys (db_indexes db))
         in if matches = [] \<and> \<not> fc_allow_no_indices request \<and> \<not> fc_ignore_unavailable request
            then Inl (no_such_index requested)
            else field_caps_names db request rest (names @ matches))
      else
        (let resolved = resolve_indices db requested
         in if resolved = [] then
              (if fc_ignore_unavailable request then field_caps_names db request rest names
               else Inl (no_such_index requested))
            else field_caps_names db request rest (names @ resolved)))"

definition field_caps_resolve :: "Database \<Rightarrow> FieldCapsRequest \<Rightarrow> string list store_result" where
  "field_caps_resolve db request =
     field_caps_names db request
       (if fc_indices request = [] \<or> list_ex (\<lambda>i. i = ''_all'' \<or> i = ''*'') (fc_indices request)
        then bt_keys (db_indexes db) else fc_indices request) []"

definition caps_for_type :: "string \<Rightarrow> FieldTypeCaps" where
  "caps_for_type ty =
     \<lparr>ft_indices = [], ft_searchable = ty \<notin> {''object'', ''nested''},
      ft_aggregatable = ty \<notin> {''text'', ''object'', ''nested''}\<rparr>"

type_synonym field_caps = "(string, (string, FieldTypeCaps) btree) btree"

definition insert_field_caps :: "string \<Rightarrow> string \<times> string \<Rightarrow> field_caps \<Rightarrow> field_caps" where
  "insert_field_caps index ft m =
     (let types = (case bt_get m (fst ft) of Some t \<Rightarrow> t | None \<Rightarrow> []);
          caps = (case bt_get types (snd ft) of Some c \<Rightarrow> c | None \<Rightarrow> caps_for_type (snd ft))
      in bt_insert (fst ft) (bt_insert (snd ft) (caps\<lparr>ft_indices := bs_insert index (ft_indices caps)\<rparr>) types) m)"

definition index_fields :: "IndexMetadata \<Rightarrow> (string \<times> string) list" where
  "index_fields im =
     (let mapped = mapped_fields (im_mappings im)
      in mapped @ concat (map (\<lambda>d. filter (\<lambda>ft. fst ft \<notin> fst ` set mapped) (observed_fields (doc_source d)))
           (bt_values (im_documents im))))"

definition collect_field_caps :: "Database \<Rightarrow> string list \<Rightarrow> field_caps" where
  "collect_field_caps db names =
     fold (\<lambda>name m. case bt_get (db_indexes db) name of
         None \<Rightarrow> m
       | Some im \<Rightarrow> fold (insert_field_caps name) (index_fields im) m) names []"

definition caps_json :: "string \<times> FieldTypeCaps \<Rightarrow> string \<times> json" where
  "caps_json tc =
     (fst tc, jobject [(''type'', JStr (fst tc)), (''metadata_field'', JBool False),
       (''searchable'', JBool (ft_searchable (snd tc))), (''aggregatable'', JBool (ft_aggregatable (snd tc))),
       (''indices'', JArr (map JStr (ft_indices (snd tc))))])"

definition field_matches_any :: "string \<Rightarrow> string list \<Rightarrow> bool" where
  "field_matches_any field patterns = list_ex (\<lambda>p. p = ''*'' \<or> wildcard_matches p field) patterns"

definition field_caps_response :: "Database \<Rightarrow> FieldCapsRequest \<Rightarrow> json store_result" where
  "field_caps_response db request =
     (if fc_fields request = [] then
        Inl (StoreError_new 400 ''illegal_argument_exception'' ''field_caps requires at least one field pattern'')
      else and_then (field_caps_resolve db request) (\<lambda>names.
        if names = [] then
          (if fc_allow_no_indices request \<or> fc_ignore_unavailable request
           then Inr (jobject [(''indices'', JArr []), (''fields'', empty_object)])
           else Inl (no_index ''no such index''))
        else
          Inr (jobject [(''indices'', JArr (map JStr names)),
            (''fields'', JObj (map (\<lambda>(field, types). (field, JObj (map caps_json types)))
               (filter (\<lambda>(field, _). field_matches_any field (fc_fields request)) (collect_field_caps db names))))])))"

subsection \<open>The handler\<close>

definition comma_query_values :: "string option \<Rightarrow> string list option" where
  "comma_query_values v =
     map_option (\<lambda>s. filter (\<lambda>p. p \<noteq> []) (map trim (split_on (CHR '','') s))) v"

definition bool_query :: "string option \<Rightarrow> bool" where
  "bool_query v \<longleftrightarrow> v = Some ''true'' \<or> v = Some []"

definition field_caps_body_error :: Response where
  "field_caps_body_error = open_search_error 400 ''x_content_parse_exception''
     ''field_caps request body is not supported by mainstack-search yet''"

definition handle_field_caps :: "json_parse \<Rightarrow> Request \<Rightarrow> string option \<Rightarrow> Database \<Rightarrow> Response" where
  "handle_field_caps parse request path db =
     (let respond_to = (case comma_query_values (query_param request ''fields'') of
            Some (f # fs) \<Rightarrow>
              respond (json_response 200) (field_caps_response db
                \<lparr>fc_indices = path_indices (index_unless ''_field_caps'' path) ''_field_caps'', fc_fields = f # fs,
                 fc_ignore_unavailable = bool_query (query_param request ''ignore_unavailable''),
                 fc_allow_no_indices = bool_query (query_param request ''allow_no_indices'')\<rparr>)
          | _ \<Rightarrow> parse_error ''field_caps requires non-empty [fields]'')
      in if rq_body request = [] then respond_to
         else case body_json parse request of
           Inl e \<Rightarrow> parse_error e
         | Inr body \<Rightarrow> if as_object body = Some [] then respond_to else field_caps_body_error)"

end
