(* ===== verification/InfoHandlers.thy ===== *)
theory InfoHandlers
  imports ReadHandlers FieldCaps AgentHandlers
begin

section \<open>Handlers that describe the node and its indexes\<close>

text \<open>
  The last readers of \<open>src/api/mod.rs\<close>, the mocked and best-effort APIs, and
  \<open>src/responses/{best_effort,info}.rs\<close>. What the configuration says of the node is a record.
\<close>

record NodeInfo =
  ni_advertised_version :: string
  ni_ip :: string
  ni_publish_address :: string

subsection \<open>Filtering a response by path\<close>

fun filter_value :: "json \<Rightarrow> string list \<Rightarrow> json option" where
  "filter_value v [] = Some v"
| "filter_value v (part # parts) =
     (case as_object v of
        None \<Rightarrow> None
      | Some m \<Rightarrow>
          if part = ''*'' then
            (let output = List.map_filter (\<lambda>e. map_option (Pair (fst e)) (filter_value (snd e) parts)) m
             in if output = [] then None else Some (JObj output))
          else
            Option.bind (bt_get m part) (\<lambda>w. map_option (\<lambda>f. JObj [(part, f)]) (filter_value w parts)))"

text \<open>\<open>source\<close> is taken by value and walked: each of its keys is merged into the target or inserted.\<close>

fun merge_value :: "json \<Rightarrow> json \<Rightarrow> json" where
  "merge_value target (JObj m) =
     (case target of
        JObj t \<Rightarrow>
          JObj (bt_extend t (map (\<lambda>e. (fst e, case bt_get t (fst e) of
             Some old \<Rightarrow> merge_value old (snd e) | None \<Rightarrow> snd e)) m))
      | _ \<Rightarrow> JObj m)"
| "merge_value target source = source"

definition apply_filter_path :: "json \<Rightarrow> string option \<Rightarrow> json" where
  "apply_filter_path body filter_path =
     (case filter_path of
        None \<Rightarrow> body
      | Some paths \<Rightarrow>
          fold (\<lambda>pattern output.
              case filter_value body (filter (\<lambda>p. p \<noteq> []) (split_on (CHR ''.'') pattern)) of
                Some filtered \<Rightarrow> merge_value output filtered
              | None \<Rightarrow> output)
            (filter (\<lambda>p. p \<noteq> []) (map trim (split_on (CHR '','') paths))) empty_object)"

subsection \<open>The node\<close>

definition best_effort_reply :: "string \<Rightarrow> json \<Rightarrow> Response" where
  "best_effort_reply api_name body = compatibility_signal api_name ''best_effort'' (json_response 200 body)"

definition root_info :: "NodeInfo \<Rightarrow> Response" where
  "root_info ni = json_response 200 (jobject
     [(''name'', JStr ''mainstack-search''), (''cluster_name'', JStr ''mainstack-search''),
      (''cluster_uuid'', JStr ''mainstack-search-local''),
      (''version'', jobject
         [(''distribution'', JStr ''opensearch''), (''number'', JStr (ni_advertised_version ni)),
          (''build_type'', JStr ''local''), (''build_hash'', JStr ''mainstack-search''),
          (''build_date'', JStr ''2026-04-29T00:00:00Z''), (''build_snapshot'', JBool False),
          (''lucene_version'', JStr ''local''), (''minimum_wire_compatibility_version'', JStr ''2.0.0''),
          (''minimum_index_compatibility_version'', JStr ''2.0.0'')]),
      (''tagline'', JStr ''The OpenSearch Project: https://opensearch.org/'')])"

definition cluster_health :: "string \<Rightarrow> Response" where
  "cluster_health api_name = best_effort_reply api_name (jobject
     [(''cluster_name'', JStr ''mainstack-search''), (''status'', JStr ''green''), (''timed_out'', JBool False),
      (''number_of_nodes'', jnat 1), (''number_of_data_nodes'', jnat 1), (''discovered_master'', JBool True),
      (''active_primary_shards'', jnat 0), (''active_shards'', jnat 0), (''relocating_shards'', jnat 0),
      (''initializing_shards'', jnat 0), (''unassigned_shards'', jnat 0), (''delayed_unassigned_shards'', jnat 0),
      (''number_of_pending_tasks'', jnat 0), (''number_of_in_flight_fetch'', jnat 0),
      (''task_max_waiting_in_queue_millis'', jnat 0), (''active_shards_percent_as_number'', JNum (Float 100))])"

definition one_node :: "json \<Rightarrow> json" where
  "one_node node =
     jobject [(''cluster_name'', JStr ''mainstack-search''), (''nodes'', jobject [(''mainstack-search-local-node'', node)])]"

definition nodes_info :: "string \<Rightarrow> NodeInfo \<Rightarrow> string option \<Rightarrow> Response" where
  "nodes_info api_name ni filter_path = best_effort_reply api_name (apply_filter_path (one_node (jobject
     [(''name'', JStr ''mainstack-search''), (''version'', JStr (ni_advertised_version ni)), (''ip'', JStr (ni_ip ni)),
      (''http'', jobject [(''publish_address'', JStr (ni_publish_address ni))])])) filter_path)"

definition nodes_stats :: "string \<Rightarrow> NodeInfo \<Rightarrow> nat \<Rightarrow> nat \<Rightarrow> nat \<Rightarrow> string option \<Rightarrow> Response" where
  "nodes_stats api_name ni docs deleted store_bytes filter_path =
     best_effort_reply api_name (apply_filter_path (one_node (jobject
       [(''name'', JStr ''mainstack-search''), (''version'', JStr (ni_advertised_version ni)),
        (''host'', JStr (ni_ip ni)), (''ip'', JStr (ni_ip ni)),
        (''http'', jobject [(''current_open'', jnat 0), (''total_opened'', jnat 0),
           (''publish_address'', JStr (ni_publish_address ni))]),
        (''indices'', jobject
           [(''docs'', jobject [(''count'', jnat docs), (''deleted'', jnat deleted)]),
            (''store'', jobject [(''size_in_bytes'', jnat store_bytes), (''reserved_in_bytes'', jnat 0)])])])) filter_path)"

definition deleted_count :: "Database \<Rightarrow> nat" where
  "deleted_count db = usize_sum (map (\<lambda>im. length (im_tombstones im)) (bt_values (db_indexes db)))"

definition stored_bytes :: "Database \<Rightarrow> nat" where
  "stored_bytes db = usize_sum (map im_store_size_bytes (bt_values (db_indexes db)))"

definition handle_nodes_stats :: "NodeInfo \<Rightarrow> Request \<Rightarrow> string \<Rightarrow> Database \<Rightarrow> Response" where
  "handle_nodes_stats ni request api_name db =
     nodes_stats api_name ni (document_count db) (deleted_count db) (stored_bytes db) (query_param request ''filter_path'')"

definition cluster_stats_response :: "Database \<Rightarrow> json" where
  "cluster_stats_response db =
     (let bytes = jnat (stored_bytes db); indexes = length (db_indexes db)
      in jobject
       [(''cluster_name'', JStr ''mainstack-search''), (''cluster_uuid'', JStr (''mainstack-search-'' @ show_hex indexes)),
        (''timestamp'', jnat 0), (''status'', JStr ''green''),
        (''indices'', jobject
           [(''count'', jnat indexes),
            (''shards'', jobject
               [(''total'', jnat (usize_sum (map index_total_shards (bt_values (db_indexes db))))), (''primaries'', jnat indexes)]),
            (''docs'', jobject [(''count'', jnat (document_count db)), (''deleted'', jnat (deleted_count db))]),
            (''store'', jobject [(''size_in_bytes'', bytes), (''reserved_in_bytes'', jnat 0)])]),
        (''nodes'', jobject
           [(''count'', jobject [(''total'', jnat 1), (''cluster_manager'', jnat 1), (''data'', jnat 1), (''ingest'', jnat 1)]),
            (''versions'', JArr [JStr ''mainstack-search'']), (''os'', empty_object), (''process'', empty_object),
            (''jvm'', empty_object),
            (''fs'', jobject [(''total_in_bytes'', bytes), (''free_in_bytes'', jnat 0), (''available_in_bytes'', jnat 0)])])])"

definition handle_cluster_stats :: "Database \<Rightarrow> Response" where
  "handle_cluster_stats db = json_response 200 (cluster_stats_response db)"

subsection \<open>Resolving names of indexes\<close>

definition resolve_visible_index :: "string \<Rightarrow> bool \<Rightarrow> bool" where
  "resolve_visible_index index_name include_hidden \<longleftrightarrow> include_hidden \<or> \<not> starts_with index_name ''.''"

definition resolve_index_attributes :: "string \<Rightarrow> string list" where
  "resolve_index_attributes index_name = (if starts_with index_name ''.'' then [''open'', ''hidden''] else [''open''])"

type_synonym alias_targets = "(string, string list) btree"

definition add_alias_target :: "string \<Rightarrow> string \<Rightarrow> alias_targets \<Rightarrow> alias_targets" where
  "add_alias_target target index m =
     bt_insert target (bs_insert index (case bt_get m target of Some s \<Rightarrow> s | None \<Rightarrow> [])) m"

definition collect_matching_alias_targets ::
    "Database \<Rightarrow> string \<Rightarrow> bool \<Rightarrow> bool \<Rightarrow> alias_targets \<Rightarrow> alias_targets" where
  "collect_matching_alias_targets db pattern include_hidden wildcard targets =
     fold (\<lambda>im m.
         if \<not> resolve_visible_index (im_name im) include_hidden then m
         else fold (\<lambda>a m. if (if wildcard then wildcard_matches pattern a else a = pattern)
                         then add_alias_target a (im_name im) m else m) (im_aliases im) m)
       (bt_values (db_indexes db)) targets"

definition resolve_pattern ::
    "Database \<Rightarrow> bool \<Rightarrow> bool \<Rightarrow> string \<Rightarrow> string list \<times> alias_targets \<Rightarrow> string list \<times> alias_targets" where
  "resolve_pattern db expand_none include_hidden pattern st =
     (let allows_hidden = include_hidden \<or> starts_with pattern ''.''
      in if CHR ''*'' \<in> set pattern then
           (if expand_none then st
            else
              (fold bs_insert (filter (\<lambda>n. wildcard_matches pattern n \<and> resolve_visible_index n allows_hidden)
                 (bt_keys (db_indexes db))) (fst st),
               collect_matching_alias_targets db pattern allows_hidden True (snd st)))
         else
           (if bt_has (db_indexes db) pattern \<and> resolve_visible_index pattern allows_hidden
            then bs_insert pattern (fst st) else fst st,
            collect_matching_alias_targets db pattern allows_hidden False (snd st)))"

definition resolve_index_response :: "Database \<Rightarrow> Request \<Rightarrow> string \<Rightarrow> json" where
  "resolve_index_response db request name =
     (let expand_values = (case comma_query_values (query_param request ''expand_wildcards'') of
            Some vs \<Rightarrow> vs | None \<Rightarrow> [''open'']);
          include_hidden = list_ex (\<lambda>v. v = ''all'' \<or> v = ''hidden'') expand_values;
          patterns = map (\<lambda>p. if p = ''_all'' then ''*'' else p)
            (filter (\<lambda>p. p \<noteq> []) (map trim (split_on (CHR '','') name)));
          found = fold (resolve_pattern db (''none'' \<in> set expand_values) include_hidden) patterns ([], [])
      in jobject
        [(''indices'', JArr (map (\<lambda>im. jobject
            [(''name'', JStr (im_name im)), (''aliases'', JArr (map JStr (im_aliases im))),
             (''attributes'', JArr (map JStr (resolve_index_attributes (im_name im))))])
            (List.map_filter (bt_get (db_indexes db)) (fst found)))),
         (''aliases'', JArr (map (\<lambda>(a, indices). jobject [(''name'', JStr a), (''indices'', JArr (map JStr indices))]) (snd found))),
         (''data_streams'', JArr [])])"

definition handle_resolve_index :: "Request \<Rightarrow> string \<Rightarrow> Database \<Rightarrow> Response" where
  "handle_resolve_index request name db = json_response 200 (resolve_index_response db request name)"

definition cat_row :: "IndexMetadata \<Rightarrow> json" where
  "cat_row im =
     (let size_text = JStr (show_nat (im_store_size_bytes im) @ ''b'')
      in jobject
       [(''health'', JStr ''green''), (''status'', JStr ''open''), (''index'', JStr (im_name im)),
        (''uuid'', JStr (''mainstack-search-'' @ im_name im)),
        (''pri'', JStr (show_nat (index_setting_u64 im ''number_of_shards'' 1))),
        (''rep'', JStr (show_nat (index_setting_u64 im ''number_of_replicas'' 0))),
        (''docs.count'', JStr (show_nat (length (im_documents im)))),
        (''docs.deleted'', JStr (show_nat (length (im_tombstones im)))),
        (''store.size'', size_text), (''pri.store.size'', size_text)])"

definition cat_indices :: "Request \<Rightarrow> string \<Rightarrow> Database \<Rightarrow> Response" where
  "cat_indices request api_name db =
     respond (best_effort_reply api_name)
       (and_then (resolve_index_patterns db (path_indices (seg_at 2 (path_parts (rq_path request))) ''_cat/indices''))
          (\<lambda>names. Inr (JArr (map cat_row (List.map_filter (bt_get (db_indexes db)) names)))))"

subsection \<open>Mappings of fields\<close>

fun collect_mapping_fields :: "json \<Rightarrow> string \<Rightarrow> (string \<times> json) list" where
  "collect_mapping_fields mappings pre =
     concat (map (\<lambda>e.
       let full_name = joined_name pre (fst e)
       in (if jget (snd e) ''type'' \<noteq> None \<or> jget (snd e) ''properties'' = None then [(full_name, snd e)] else [])
          @ collect_mapping_fields (snd e) full_name) (properties_of mappings))"

declare collect_mapping_fields.simps [simp del]

fun mapping_at :: "json \<Rightarrow> string list \<Rightarrow> json option" where
  "mapping_at properties [] = None"
| "mapping_at properties [segment] = jget properties segment"
| "mapping_at properties (segment # rest) =
     Option.bind (jget properties segment) (\<lambda>mapping.
     Option.bind (jget mapping ''properties'') (\<lambda>properties. mapping_at properties rest))"

definition mapping_for_field :: "json \<Rightarrow> string \<Rightarrow> json option" where
  "mapping_for_field mappings field =
     Option.bind (jget mappings ''properties'') (\<lambda>properties. mapping_at properties (split_on (CHR ''.'') field))"

definition field_mappings_for_request :: "json \<Rightarrow> string \<Rightarrow> (string \<times> json) list" where
  "field_mappings_for_request mappings field =
     (if CHR ''*'' \<in> set field then filter (\<lambda>(name, _). wildcard_matches field name) (collect_mapping_fields mappings [])
      else case mapping_for_field mappings field of Some mapping \<Rightarrow> [(field, mapping)] | None \<Rightarrow> [])"

definition add_mapping_defaults :: "json \<Rightarrow> json" where
  "add_mapping_defaults mapping =
     (if jstr_at mapping ''type'' = Some ''text'' \<and> jget mapping ''analyzer'' = None
      then jput ''analyzer'' (JStr ''default'') mapping else mapping)"

definition field_mapping_response :: "Database \<Rightarrow> string list \<Rightarrow> string list \<Rightarrow> bool \<Rightarrow> json store_result" where
  "field_mapping_response db requested field_names include_defaults =
     and_then (resolve_index_patterns db requested) (\<lambda>names.
       Inr (jobject (List.map_filter (\<lambda>name.
         map_option (\<lambda>im. (name, jobject [(''mappings'', jobject (concat (map (\<lambda>field.
             map (\<lambda>(field_name, mapping).
               (field_name, jobject [(''full_name'', JStr field_name), (''mapping'', jobject
                  [(field_name, if include_defaults then add_mapping_defaults mapping else mapping)])]))
               (field_mappings_for_request (im_mappings im) field)) field_names)))]))
           (bt_get (db_indexes db) name)) names)))"

definition handle_field_mapping :: "Request \<Rightarrow> string list \<Rightarrow> Database \<Rightarrow> Response" where
  "handle_field_mapping request parts db =
     (let (path_index, field_names) =
            (if seg_at 0 parts = Some ''_mapping'' then (None, seg_at 2 parts) else (seg_at 0 parts, seg_at 3 parts))
      in case comma_query_values field_names of
           None \<Rightarrow> parse_error ''field mapping requires field names''
         | Some names \<Rightarrow>
             respond (json_response 200) (field_mapping_response db (path_indices path_index ''_mapping'') names
               (query_param request ''include_defaults'' = Some ''true'')))"

subsection \<open>Analysis of text\<close>

definition char_len :: "char \<Rightarrow> nat" where
  "char_len c = (let n = (of_char c :: nat) in if n < 128 then 1 else if n < 224 then 2 else if n < 240 then 3 else 4)"

text \<open>\<open>str::chars\<close>: each character as its bytes.\<close>

fun utf8_chars :: "string \<Rightarrow> string list" where
  "utf8_chars [] = []"
| "utf8_chars (c # cs) = (c # take (char_len c - 1) cs) # utf8_chars (drop (char_len c - 1) cs)"

definition text_token :: "string \<Rightarrow> nat \<Rightarrow> nat \<Rightarrow> string \<times> nat \<times> nat" where
  "text_token text start end_offset =
     (to_ascii_lowercase (take (end_offset - start) (drop start text)), start, end_offset)"

text \<open>The loop of \<open>analyze_text\<close>: the start of the token that is open, the offset, the characters left.\<close>

fun analyze_loop :: "(string \<Rightarrow> bool) \<Rightarrow> string \<Rightarrow> nat option \<Rightarrow> nat \<Rightarrow> string list \<Rightarrow> (string \<times> nat \<times> nat) list" where
  "analyze_loop boundary text start offset [] =
     (case start of Some st \<Rightarrow> [text_token text st (length text)] | None \<Rightarrow> [])"
| "analyze_loop boundary text start offset (ch # chs) =
     (if boundary ch then
        (case start of Some st \<Rightarrow> [text_token text st offset] | None \<Rightarrow> [])
        @ analyze_loop boundary text None (offset + length ch) chs
      else analyze_loop boundary text (Some (case start of Some st \<Rightarrow> st | None \<Rightarrow> offset)) (offset + length ch) chs)"

text \<open>Which characters are alphanumeric is a table of the standard library.\<close>

definition analyze_text :: "(string \<Rightarrow> bool) \<Rightarrow> string \<Rightarrow> string \<Rightarrow> (string \<times> nat \<times> nat) list" where
  "analyze_text alphanumeric text analyzer =
     (if analyzer = ''keyword'' then (if text = [] then [] else [(text, 0, length text)])
      else analyze_loop
        (\<lambda>ch. if analyzer = ''whitespace'' then ch \<in> set white_space else \<not> alphanumeric ch)
        text None 0 (utf8_chars text))"

definition analyze_texts :: "json \<Rightarrow> string list option" where
  "analyze_texts body =
     (case jget body ''text'' of
        Some (JStr text) \<Rightarrow> Some [text]
      | Some (JArr values) \<Rightarrow> Some (List.map_filter as_str values)
      | _ \<Rightarrow> None)"

definition token_json :: "(string \<times> nat \<times> nat) \<times> nat \<Rightarrow> json" where
  "token_json tp =
     (case tp of ((token, start_offset, end_offset), position) \<Rightarrow>
        jobject [(''token'', JStr token), (''start_offset'', jnat start_offset), (''end_offset'', jnat end_offset),
          (''type'', JStr ''word''), (''position'', jnat position)])"

definition handle_analyze :: "(string \<Rightarrow> bool) \<Rightarrow> json_parse \<Rightarrow> Request \<Rightarrow> Response" where
  "handle_analyze alphanumeric parse request =
     (case body_json parse request of
        Inl e \<Rightarrow> parse_error e
      | Inr body \<Rightarrow>
          (let analyzer = (case Option.bind (or_else (jget body ''analyzer'') (jget body ''tokenizer'')) as_str of
                 Some a \<Rightarrow> a | None \<Rightarrow> ''standard'')
           in if analyzer \<notin> {''standard'', ''default'', ''simple'', ''whitespace'', ''keyword''} then
                open_search_error 400 ''illegal_argument_exception''
                  (''analyzer ['' @ analyzer @ ''] is not supported by mainstack-search'')
              else case analyze_texts body of
                None \<Rightarrow> open_search_error 400 ''action_request_validation_exception'' ''analyze requires text''
              | Some texts \<Rightarrow>
                  (let tokens = concat (map (\<lambda>text. analyze_text alphanumeric text analyzer) texts)
                   in json_response 200 (jobject [(''tokens'', JArr (map token_json (zip tokens [0..<length tokens])))]))))"

subsection \<open>Best-effort and mocked APIs\<close>

definition handle_best_effort :: "NodeInfo \<Rightarrow> Request \<Rightarrow> string \<Rightarrow> Database \<Rightarrow> Response" where
  "handle_best_effort ni request api_name db =
     (let parts = path_parts (rq_path request)
      in if api_name = ''nodes.info'' then nodes_info api_name ni (query_param request ''filter_path'')
         else if api_name = ''nodes.stats'' then handle_nodes_stats ni request api_name db
         else if rq_path request = ''/_cluster/health'' then cluster_health api_name
         else if rq_path request = ''/_cluster/settings'' then
           best_effort_reply api_name (jobject
             [(''persistent'', empty_object), (''transient'', empty_object), (''defaults'', empty_object)])
         else if seg_at 0 parts = Some ''_cat'' \<and> seg_at 1 parts = Some ''indices'' then cat_indices request api_name db
         else if starts_with (rq_path request) ''/_cat/health'' then
           best_effort_reply api_name (JArr [jobject
             [(''epoch'', JStr ''0''), (''timestamp'', JStr ''00:00:00''), (''cluster'', JStr ''mainstack-search''),
              (''status'', JStr ''green''), (''node.total'', JStr ''1''), (''node.data'', JStr ''1'')]])
         else best_effort_reply api_name empty_object)"

definition mocked_note :: "string \<Rightarrow> json" where
  "mocked_note api_name = jobject
     [(''tier'', JStr ''mocked''), (''api'', JStr api_name),
      (''reason'', JStr ''This API is a benign local no-op in mainstack-search's single-node development runtime.''),
      (''next_step'', JStr (''If this behavior matters for your application, test against full OpenSearch locally, ''
         @ ''server-hosted OpenSearch, or cloud-hosted OpenSearch.''))]"

definition mocked_reply :: "string \<Rightarrow> json \<Rightarrow> Response" where
  "mocked_reply api_name body = compatibility_signal api_name ''mocked'' (json_response 200 body)"

fun role_name :: "Role \<Rightarrow> string" where
  "role_name Admin = ''admin''"
| "role_name ReadWrite = ''read_write''"
| "role_name ReadOnly = ''read_only''"

definition security_account :: "Principal option \<Rightarrow> json" where
  "security_account user =
     (let user_name = JStr (case user of Some p \<Rightarrow> pr_username p | None \<Rightarrow> ''mainstack_search_local'');
          roles = JArr (map JStr (case user of Some p \<Rightarrow> map role_name (pr_roles p) | None \<Rightarrow> [''admin'']))
      in jobject
       [(''user_name'', user_name), (''user_id'', user_name), (''user_requested_tenant'', JNull),
        (''backend_roles'', roles), (''roles'', roles), (''security_roles'', roles),
        (''tenants'', jobject [(''global_tenant'', JBool True)]), (''custom_attribute_names'', JArr []),
        (''is_reserved'', JBool False), (''is_hidden'', JBool False), (''is_internal_user'', JBool (user = None))])"

definition allocation_explain :: "string \<Rightarrow> json" where
  "allocation_explain api_name = jobject
     [(''index'', JNull), (''shard'', JNull), (''primary'', JNull), (''current_state'', JStr ''started''),
      (''can_remain_on_current_node'', JStr ''yes''), (''can_rebalance_cluster'', JStr ''no''),
      (''rebalance_explanation'', JStr (''mainstack-search runs as a single local node; shard ''
         @ ''allocation is not modeled.'')), (''mainstack_search'', mocked_note api_name)]"

definition settings_part :: "json \<Rightarrow> string \<Rightarrow> (Response, json) result" where
  "settings_part body key =
     (case jget body key of
        None \<Rightarrow> Inr empty_object
      | Some v \<Rightarrow>
          if is_object v then Inr v
          else Inl (parse_error (''cluster settings ['' @ key @ ''] must be a JSON object'')))"

definition put_cluster_settings :: "json_parse \<Rightarrow> Request \<Rightarrow> string \<Rightarrow> Response" where
  "put_cluster_settings parse request api_name =
     (case body_json parse request of
        Inl e \<Rightarrow> parse_error e
      | Inr raw \<Rightarrow>
          (let body = redact_secret_values raw
           in if \<not> is_object body then parse_error ''cluster settings body must be a JSON object''
              else case and_then (settings_part body ''persistent'') (\<lambda>persistent.
                     and_then (settings_part body ''transient'') (\<lambda>transient. Inr (persistent, transient))) of
                Inl response \<Rightarrow> response
              | Inr (persistent, transient) \<Rightarrow> mocked_reply api_name (jobject
                  [(''acknowledged'', JBool True), (''persistent'', persistent), (''transient'', transient),
                   (''mainstack_search'', mocked_note api_name)])))"

definition handle_mocked :: "json_parse \<Rightarrow> Principal option \<Rightarrow> Request \<Rightarrow> string \<Rightarrow> Response" where
  "handle_mocked parse user request api_name =
     (if api_name = ''security.account'' then mocked_reply api_name (security_account user)
      else if api_name = ''query.datasources'' then mocked_reply api_name (JArr [])
      else if api_name = ''cluster.allocation_explain'' then mocked_reply api_name (allocation_explain api_name)
      else if api_name = ''cluster.put_settings'' then put_cluster_settings parse request api_name
      else if api_name \<in> {''indices.clear_cache'', ''indices.flush'', ''indices.forcemerge'', ''indices.open'', ''indices.upgrade''} then
        mocked_reply api_name (jobject
          [(''_shards'', one_shard), (''acknowledged'', JBool True), (''shards_acknowledged'', JBool True),
           (''mainstack_search'', mocked_note api_name)])
      else if api_name \<in> {''delete_by_query_rethrottle'', ''reindex_rethrottle'', ''update_by_query_rethrottle''} then
        mocked_reply api_name (jobject [(''nodes'', empty_object), (''mainstack_search'', mocked_note api_name)])
      else mocked_reply api_name (jobject [(''acknowledged'', JBool True), (''mainstack_search'', mocked_note api_name)]))"

end
