(* ===== verification/Server.thy ===== *)
theory Server
  imports RouteSafety AgentHandlers Reindex SnapshotHandlers InfoHandlers
begin

section \<open>The server\<close>

text \<open>
  The handlers put together: \<open>run_handler\<close> runs the handler a request is dispatched to on the state of the
  server, which is the store, the runtime contexts and the snapshot repositories, and \<open>serve\<close> is
  \<open>handle_request\<close> of \<open>src/api/mod.rs\<close>. None stands for a handler that panics.
\<close>

record Server =
  sv_store :: Store
  sv_runtime :: RuntimeState
  sv_repositories :: Repositories

text \<open>What is fixed while the server runs.\<close>

record Services =
  ss_setup :: Setup
  ss_search :: SearchConfig
  ss_max_bulk_actions :: nat
  ss_ephemeral :: bool
  ss_repository_codec :: RepositoryCodec
  ss_node :: NodeInfo
  ss_alphanumeric :: "string \<Rightarrow> bool"
  ss_agent_link :: AgentLink
  ss_agent_config :: AgentConfig
  ss_agent_client :: AgentClient
  ss_dispatch :: DispatchConfig
  ss_inventory :: "ApiRoute list"

text \<open>What a request meets: clocks, fresh ids, and what happens to each write.\<close>

record Moment =
  mo_env :: Env
  mo_clock :: Clock
  mo_nanos :: "nat \<Rightarrow> nat"
  mo_repository_env :: RepositoryEnv

definition error_response :: "ApiError \<Rightarrow> Response" where
  "error_response e = open_search_error (ae_status e) (ae_type e) (ae_reason e)"

definition no_handler :: "string \<Rightarrow> Response" where
  "no_handler api_name = open_search_error 404 ''mainstack_search_route_exception''
     (''implemented route ['' @ api_name @ ''] did not match a handler'')"

definition on_store :: "Server \<Rightarrow> Store \<times> Response \<Rightarrow> (Server \<times> Response) option" where
  "on_store sv r = Some (sv\<lparr>sv_store := fst r\<rparr>, snd r)"

definition on_runtime :: "Server \<Rightarrow> RuntimeState \<times> Response \<Rightarrow> (Server \<times> Response) option" where
  "on_runtime sv r = Some (sv\<lparr>sv_runtime := fst r\<rparr>, snd r)"

definition on_repositories :: "Server \<Rightarrow> Repositories \<times> Response \<Rightarrow> (Server \<times> Response) option" where
  "on_repositories sv r = Some (sv\<lparr>sv_repositories := fst r\<rparr>, snd r)"

definition only_reads :: "Server \<Rightarrow> Response \<Rightarrow> (Server \<times> Response) option" where
  "only_reads sv r = Some (sv, r)"

fun run_handler ::
    "Services \<Rightarrow> Moment \<Rightarrow> Principal option \<Rightarrow> Request \<Rightarrow> Handler \<Rightarrow> Server \<Rightarrow> (Server \<times> Response) option" where
  "run_handler ss mo user request RootInfo sv =
     only_reads sv (if rq_method request = HEAD then empty_response 200 else root_info (ss_node ss))"
| "run_handler ss mo user request (TaskGet tid) sv = only_reads sv (handle_task_get tid (sv_runtime sv))"
| "run_handler ss mo user request Handler.Reindex sv =
     (case handle_reindex (ss_setup ss) (mo_env mo) (sg_text (ss_search ss)) (sg_parse (ss_search ss))
             (rc_max_result_window (sg_runtime (ss_search ss))) request (sv_store sv, sv_runtime sv) of
        ((s, rt), r) \<Rightarrow> Some (sv\<lparr>sv_store := s, sv_runtime := rt\<rparr>, r))"
| "run_handler ss mo user request (ClearScroll i) sv =
     on_runtime sv (handle_clear_scroll (ss_search ss) (mo_clock mo) request i (sv_runtime sv))"
| "run_handler ss mo user request (Scroll i) sv =
     on_runtime sv (handle_scroll (ss_search ss) (mo_clock mo) request i (sv_runtime sv))"
| "run_handler ss mo user request (Pit parts) sv =
     on_runtime sv (handle_pit (ss_search ss) (mo_clock mo) request parts (st_db (sv_store sv)) (sv_runtime sv))"
| "run_handler ss mo user request (Snapshot parts) sv =
     on_repositories sv (handle_snapshot (ss_repository_codec ss) (sg_parse (ss_search ss)) (ss_ephemeral ss)
       (mo_repository_env mo) (Inr (st_db (sv_store sv))) request parts (sv_repositories sv))"
| "run_handler ss mo user request (Bulk index) sv =
     Option.bind (handle_bulk (ss_setup ss) (mo_env mo) (mo_nanos mo) (ss_max_bulk_actions ss)
       (sg_parse (ss_search ss)) request index (sv_store sv)) (on_store sv)"
| "run_handler ss mo user request (SourceOf index did) sv = only_reads sv (handle_source request index did (sv_store sv))"
| "run_handler ss mo user request (Handler.Search index) sv =
     Option.bind (handle_search (ss_search ss) (mo_clock mo) request index (st_db (sv_store sv)) (sv_runtime sv)) (on_runtime sv)"
| "run_handler ss mo user request (DeleteByQuery index) sv =
     on_store sv (handle_delete_by_query (ss_setup ss) (mo_env mo) (sg_text (ss_search ss)) (sg_parse (ss_search ss))
       (rc_max_result_window (sg_runtime (ss_search ss))) request index (sv_store sv))"
| "run_handler ss mo user request (UpdateByQuery index) sv =
     on_store sv (handle_update_by_query (ss_setup ss) (mo_env mo) (sg_text (ss_search ss)) (sg_parse (ss_search ss))
       (rc_max_result_window (sg_runtime (ss_search ss))) request index (sv_store sv))"
| "run_handler ss mo user request (Count index) sv = only_reads sv (handle_count (ss_search ss) request index (st_db (sv_store sv)))"
| "run_handler ss mo user request (Mget index) sv = only_reads sv (handle_mget (ss_search ss) request index (st_db (sv_store sv)))"
| "run_handler ss mo user request (Msearch index) sv =
     only_reads sv (handle_msearch (ss_search ss) request index (st_db (sv_store sv)))"
| "run_handler ss mo user request (Handler.FieldCaps index) sv =
     only_reads sv (handle_field_caps (sg_parse (ss_search ss)) request index (st_db (sv_store sv)))"
| "run_handler ss mo user request ClusterStats sv = only_reads sv (handle_cluster_stats (st_db (sv_store sv)))"
| "run_handler ss mo user request (ResolveIndex name) sv =
     only_reads sv (handle_resolve_index request name (st_db (sv_store sv)))"
| "run_handler ss mo user request Analyze sv =
     only_reads sv (handle_analyze (ss_alphanumeric ss) (sg_parse (ss_search ss)) request)"
| "run_handler ss mo user request (ValidateQuery index) sv =
     only_reads sv (handle_validate_query (ss_search ss) request index (st_db (sv_store sv)))"
| "run_handler ss mo user request CatNothing sv = only_reads sv (json_response 200 (JArr []))"
| "run_handler ss mo user request (IndexStats parts) sv = only_reads sv (handle_stats parts (st_db (sv_store sv)))"
| "run_handler ss mo user request (Refresh index) sv = only_reads sv (handle_refresh index (st_db (sv_store sv)))"
| "run_handler ss mo user request (FieldMapping parts) sv =
     only_reads sv (handle_field_mapping request parts (st_db (sv_store sv)))"
| "run_handler ss mo user request (MappingH index) sv =
     on_store sv (handle_mapping (ss_setup ss) (mo_env mo) (sg_parse (ss_search ss)) request index (sv_store sv))"
| "run_handler ss mo user request (SettingsH index) sv =
     on_store sv (handle_settings (ss_setup ss) (mo_env mo) (sg_parse (ss_search ss)) request index (sv_store sv))"
| "run_handler ss mo user request (TemplateH name) sv =
     on_store sv (handle_template (ss_setup ss) (mo_env mo) (sg_text (ss_search ss)) (sg_parse (ss_search ss)) request name (sv_store sv))"
| "run_handler ss mo user request (ComponentTemplate name) sv =
     on_store sv (handle_component_template (ss_setup ss) (mo_env mo) (sg_parse (ss_search ss)) request name (sv_store sv))"
| "run_handler ss mo user request (LegacyTemplate name) sv =
     on_store sv (handle_legacy_template (ss_setup ss) (mo_env mo) (sg_parse (ss_search ss)) request name (sv_store sv))"
| "run_handler ss mo user request (RegistryNamespace namespace name api) sv =
     on_store sv (handle_registry_namespace (ss_setup ss) (mo_env mo) (sg_parse (ss_search ss)) request namespace name api (sv_store sv))"
| "run_handler ss mo user request (ScriptRegistry name) sv =
     on_store sv (handle_script_registry (ss_setup ss) (mo_env mo) (sg_parse (ss_search ss)) request name (sv_store sv))"
| "run_handler ss mo user request (AliasH parts) sv =
     on_store sv (handle_alias (ss_setup ss) (mo_env mo) (sg_text (ss_search ss)) (sg_parse (ss_search ss)) request parts (sv_store sv))"
| "run_handler ss mo user request (Explain index did) sv =
     only_reads sv (handle_explain (ss_search ss) request index did (st_db (sv_store sv)))"
| "run_handler ss mo user request (DocumentH parts) sv =
     on_store sv (handle_document (ss_setup ss) (mo_env mo) (mo_nanos mo 0) (sg_parse (ss_search ss)) request parts (sv_store sv))"
| "run_handler ss mo user request (IndexH index) sv =
     on_store sv (handle_index (ss_setup ss) (mo_env mo) (sg_parse (ss_search ss)) request index (sv_store sv))"
| "run_handler ss mo user request (NoHandler api) sv = only_reads sv (no_handler api)"
| "run_handler ss mo user request (BestEffortH api) sv =
     only_reads sv (handle_best_effort (ss_node ss) request api (st_db (sv_store sv)))"
| "run_handler ss mo user request (MockedH api) sv =
     only_reads sv (handle_mocked (sg_parse (ss_search ss)) user request api)"
| "run_handler ss mo user request (AgentReadH api) sv =
     only_reads sv (handle_agent_read (ss_agent_link ss) (ss_agent_config ss) (ss_agent_client ss)
       (sg_parse (ss_search ss)) (st_db (sv_store sv)) request api)"
| "run_handler ss mo user request (AgentWriteH api) sv =
     on_store sv (handle_agent_write (ss_setup ss) (mo_env mo) (ss_agent_link ss) (ss_agent_config ss) (ss_agent_client ss)
       (sg_parse (ss_search ss)) request api (sv_store sv))"
| "run_handler ss mo user request (Refused e) sv = only_reads sv (error_response e)"

definition serve :: "Services \<Rightarrow> Moment \<Rightarrow> SecurityContext \<Rightarrow> Request \<Rightarrow> Server \<Rightarrow> (Server \<times> Response) option" where
  "serve ss mo sc request sv =
     run_handler ss mo (sc_principal sc) request
       (handle_request (ss_inventory ss) (ss_dispatch ss) sc (rq_method request) (rq_path request)) sv"

end
