(* ===== verification/Authorization.thy ===== *)
theory Authorization
  imports RouteSafety
begin

section \<open>Who reaches which handler\<close>

text \<open>
  Which handler a principal reaches: the two facts the properties of the server rest on, and the paths on which
  classification and dispatch disagree.
\<close>

definition demo_inventory :: "ApiRoute list" where
  "demo_inventory = [\<lparr>ar_name = ''search_template'', ar_tier = AgentRead, ar_access = ReadAccess,
     ar_methods = [''GET'', ''POST''], ar_paths = [''/_search/template'']\<rparr>]"

definition demo_config :: DispatchConfig where
  "demo_config = \<lparr>dc_strict = False, dc_allowlist = []\<rparr>"

definition secured_as :: "Role list \<Rightarrow> SecurityContext" where
  "secured_as roles = \<lparr>sc_mode = Secured, sc_principal = Some \<lparr>pr_username = ''u'', pr_roles = roles\<rparr>, sc_client_cert_verified = False\<rparr>"

lemma handle_request_authorized:
  assumes "handle_request inventory cfg sc meth path = h" and "\<And>e. h \<noteq> Refused e"
  shows "allows_all sc \<or> permitted sc (rm_access (classify inventory meth path))"
    and "handle_classified_request cfg meth path (classify inventory meth path) = h"
  using assms authorize_ok [of sc path "classify inventory meth path"]
  by (auto simp: handle_request_def Let_def split: sum.splits)

text \<open>
  On a plain path, without percent signs and without a slash at the end, the chain of tests that classifies a
  request for authorization agrees with the chain that finds its handler.
\<close>

lemma writing_needs_write_role:
  assumes "plain_path path" and "inventory_ok inventory"
    and "handler_writes meth (handle_request inventory cfg sc meth path)"
  shows "allows_all sc \<or> can_write sc"
proof -
  let ?r = "classify inventory meth path"
  have "\<And>e. handle_request inventory cfg sc meth path \<noteq> Refused e" using assms(3) by auto
  from handle_request_authorized [OF refl this] assms(3)
  have h: "allows_all sc \<or> permitted sc (rm_access ?r)"
    "handler_writes meth (handle_classified_request cfg meth path ?r)" by simp_all
  have "rm_access ?r \<noteq> ReadAccess"
  proof
    assume read: "rm_access ?r = ReadAccess"
    have "rm_tier ?r = Implemented \<or> rm_tier ?r = AgentWrite"
      using h(2) by (auto simp: handle_classified_request_def split: option.splits Tier.splits)
    then show False
    proof
      assume "rm_tier ?r = Implemented"
      with plain_read_does_not_write [OF assms(1,2), of meth "rm_api_name ?r"] read h(2) show False
        by (auto simp: handle_classified_request_def implemented_read_def split: option.splits)
    next
      assume "rm_tier ?r = AgentWrite"
      with classify_agent_write [OF assms(2), of meth path] read show False by (simp add: no_agent_read_def)
    qed
  qed
  then have "WriteAccess \<le> rm_access ?r" by (cases "rm_access ?r") (simp_all add: less_eq_AccessClass_def)
  with h(1) permitted_mono [OF this, of sc] show ?thesis by auto
qed

lemma snapshots_need_admin:
  assumes "handle_request inventory cfg sc meth path = Snapshot parts"
  shows "allows_all sc \<or> is_admin sc"
proof -
  let ?r = "classify inventory meth path"
  from handle_request_authorized [OF assms] have auth: "allows_all sc \<or> permitted sc (rm_access ?r)"
    and h: "handle_classified_request cfg meth path ?r = Snapshot parts" by auto
  then have "handle_implemented meth path (rm_api_name ?r) = Snapshot parts"
    by (auto simp: handle_classified_request_def split: option.splits Tier.splits)
  from snapshot_needs_admin [OF this, of inventory] auth show ?thesis by simp
qed

text \<open>With percent signs the chains disagree, and a principal that may only read writes: the first
  segment of the path is decoded before the request is classified as a scroll, a read, but not before
  the bulk handler is found. The method does not matter to that handler either.\<close>

lemma encoded_path_bypasses_authorization:
  "handle_request demo_inventory demo_config (secured_as [ReadOnly]) POST ''/%5fscroll/_bulk'' = Bulk (Some ''%5fscroll'')
    \<and> handle_request demo_inventory demo_config (secured_as [ReadOnly]) GET ''/%5fscroll/_bulk'' = Bulk (Some ''%5fscroll'')
    \<and> \<not> can_write (secured_as [ReadOnly])"
  by code_simp

text \<open>With a slash at the end they disagree as well: the path is classified as the release of a
  scroll, a read, but dispatched as the deletion of an index of that name.\<close>

lemma trailing_slash_bypasses_authorization:
  "handle_request demo_inventory demo_config (secured_as [ReadOnly]) DELETE ''/_scroll/'' = IndexH ''_scroll''
    \<and> handle_request demo_inventory demo_config (secured_as [ReadOnly]) DELETE ''/_scroll'' = ClearScroll None
    \<and> handler_writes DELETE (IndexH ''_scroll'') \<and> \<not> can_write (secured_as [ReadOnly])"
  by code_simp

end
