(* ===== verification/NetAddr.thy ===== *)
theory NetAddr
  imports Values
begin

section \<open>Network addresses\<close>

text \<open>
  What the program uses of \<open>std::net\<close>: reading an address, with or without a port, and \<open>is_loopback\<close>. A parser takes
  the rest of the text and gives a value and what is left, or nothing without consuming anything.
\<close>

type_synonym 'a parser = "string \<Rightarrow> ('a \<times> string) option"

datatype IpAddr = V4 "nat list" | V6 "nat list"

record SocketAddr =
  sa_ip :: IpAddr
  sa_port :: nat

definition digit_value :: "nat \<Rightarrow> char \<Rightarrow> nat option" where
  "digit_value radix c =
     (let n = of_char c :: nat;
          v = (if 48 \<le> n \<and> n \<le> 57 then n - 48
               else if 97 \<le> n \<and> n \<le> 122 then n - 87
               else if 65 \<le> n \<and> n \<le> 90 then n - 55 else radix)
      in if v < radix then Some v else None)"

definition read_number :: "nat \<Rightarrow> nat option \<Rightarrow> bool \<Rightarrow> nat \<Rightarrow> nat parser" where
  "read_number radix max_digits allow_zero_prefix largest s =
     (let digits = takeWhile (\<lambda>c. digit_value radix c \<noteq> None) s;
          n = foldl (\<lambda>n c. n * radix + the (digit_value radix c)) 0 digits
      in if digits = [] \<or> (case max_digits of Some m \<Rightarrow> length digits > m | None \<Rightarrow> False)
            \<or> (\<not> allow_zero_prefix \<and> hd digits = CHR ''0'' \<and> length digits > 1) \<or> n > largest
         then None else Some (n, drop (length digits) s))"

definition given_char :: "char \<Rightarrow> unit parser" where
  "given_char c s = (case s of [] \<Rightarrow> None | x # xs \<Rightarrow> if x = c then Some ((), xs) else None)"

definition read_separator :: "char \<Rightarrow> nat \<Rightarrow> 'a parser \<Rightarrow> 'a parser" where
  "read_separator sep i inner s =
     (if i = 0 then inner s else Option.bind (given_char sep s) (\<lambda>(_, rest). inner rest))"

fun read_fields :: "nat \<Rightarrow> nat \<Rightarrow> nat list parser" where
  "read_fields i 0 s = Some ([], s)"
| "read_fields i (Suc n) s =
     Option.bind (read_separator (CHR ''.'') i (read_number 10 (Some 3) False 255) s) (\<lambda>(x, rest).
     Option.bind (read_fields (i + 1) n rest) (\<lambda>(xs, rest). Some (x # xs, rest)))"

definition read_ipv4_addr :: "nat list parser" where
  "read_ipv4_addr s = read_fields 0 4 s"

text \<open>The groups of one side of an IPv6 address, and whether an IPv4 address ended them.\<close>

fun read_groups :: "nat \<Rightarrow> nat \<Rightarrow> string \<Rightarrow> nat list \<times> bool \<times> string" where
  "read_groups i 0 s = ([], False, s)"
| "read_groups i (Suc n) s =
     (case (if n = 0 then None else read_separator (CHR '':'') i read_ipv4_addr s) of
        Some (v4, rest) \<Rightarrow> ([v4 ! 0 * 256 + v4 ! 1, v4 ! 2 * 256 + v4 ! 3], True, rest)
      | None \<Rightarrow>
          (case read_separator (CHR '':'') i (read_number 16 (Some 4) True 65535) s of
             None \<Rightarrow> ([], False, s)
           | Some (g, rest) \<Rightarrow> (case read_groups (i + 1) n rest of (gs, ended, rest) \<Rightarrow> (g # gs, ended, rest))))"

definition read_ipv6_addr :: "nat list parser" where
  "read_ipv6_addr s =
     (case read_groups 0 8 s of
        (front, ended, rest) \<Rightarrow>
          if length front = 8 then Some (front, rest)
          else if ended then None
          else Option.bind (given_char (CHR '':'') rest) (\<lambda>(_, rest).
               Option.bind (given_char (CHR '':'') rest) (\<lambda>(_, rest).
               (case read_groups 0 (8 - (length front + 1)) rest of
                  (back, _, rest) \<Rightarrow> Some (front @ replicate (8 - length front - length back) 0 @ back, rest)))))"

definition read_ip_addr :: "IpAddr parser" where
  "read_ip_addr s =
     (case read_ipv4_addr s of
        Some (v4, rest) \<Rightarrow> Some (V4 v4, rest)
      | None \<Rightarrow> map_option (\<lambda>(v6, rest). (V6 v6, rest)) (read_ipv6_addr s))"

text \<open>\<open>str::parse\<close>: the whole text is consumed.\<close>

definition parse_with :: "'a parser \<Rightarrow> string \<Rightarrow> 'a option" where
  "parse_with p s = (case p s of Some (x, []) \<Rightarrow> Some x | _ \<Rightarrow> None)"

definition parse_ip_addr :: "string \<Rightarrow> IpAddr option" where
  "parse_ip_addr s = parse_with read_ip_addr s"

definition read_port :: "nat parser" where
  "read_port s = Option.bind (given_char (CHR '':'') s) (\<lambda>(_, rest). read_number 10 None True 65535 rest)"

definition read_scope_id :: "nat parser" where
  "read_scope_id s = Option.bind (given_char (CHR ''%'') s) (\<lambda>(_, rest). read_number 10 None True (2 ^ 32 - 1) rest)"

definition read_socket_addr_v4 :: "SocketAddr parser" where
  "read_socket_addr_v4 s =
     Option.bind (read_ipv4_addr s) (\<lambda>(ip, rest).
     Option.bind (read_port rest) (\<lambda>(port, rest). Some (\<lparr>sa_ip = V4 ip, sa_port = port\<rparr>, rest)))"

definition read_socket_addr_v6 :: "SocketAddr parser" where
  "read_socket_addr_v6 s =
     Option.bind (given_char (CHR ''['') s) (\<lambda>(_, rest).
     Option.bind (read_ipv6_addr rest) (\<lambda>(ip, rest).
     let rest = (case read_scope_id rest of Some (_, r) \<Rightarrow> r | None \<Rightarrow> rest)
     in Option.bind (given_char (CHR '']'') rest) (\<lambda>(_, rest).
        Option.bind (read_port rest) (\<lambda>(port, rest). Some (\<lparr>sa_ip = V6 ip, sa_port = port\<rparr>, rest)))))"

definition parse_socket_addr :: "string \<Rightarrow> SocketAddr option" where
  "parse_socket_addr s =
     parse_with (\<lambda>s. case read_socket_addr_v4 s of Some r \<Rightarrow> Some r | None \<Rightarrow> read_socket_addr_v6 s) s"

fun is_loopback :: "IpAddr \<Rightarrow> bool" where
  "is_loopback (V4 octets) \<longleftrightarrow> hd octets = 127"
| "is_loopback (V6 groups) \<longleftrightarrow> groups = [0, 0, 0, 0, 0, 0, 0, 1]"

text \<open>\<open>host_is_loopback\<close> of the router and \<open>is_loopback_host\<close> of the configuration.\<close>

definition host_is_loopback :: "string \<Rightarrow> bool" where
  "host_is_loopback host \<longleftrightarrow>
     host = ''localhost'' \<or> (case parse_ip_addr host of Some ip \<Rightarrow> is_loopback ip | None \<Rightarrow> False)"

lemma read_fields_length: "read_fields i n s = Some (xs, rest) \<Longrightarrow> length xs = n"
  by (induction n arbitrary: i s xs rest) (auto split: bind_split_asm)

lemma loopback_hosts:
  "host_is_loopback ''127.0.0.1''" "host_is_loopback ''127.1.2.3''" "host_is_loopback ''::1''" "host_is_loopback ''0:0::0001''"
  "\<not> host_is_loopback ''127.0.0.1.example.test''" "\<not> host_is_loopback ''::ffff:127.0.0.1''" "\<not> host_is_loopback ''0127.0.0.1''"
  "\<not> host_is_loopback ''127.1''" "\<not> host_is_loopback ''10.0.0.1''"
  by code_simp+

end
