(* ===== verification/Config.thy ===== *)
theory Config
  imports AgentFallback NetAddr Utf8
begin

section \<open>Configuration\<close>

text \<open>
  \<open>src/config.rs\<close> and \<open>src/security/config.rs\<close>: the configuration, its defaults, the command line and the checks it
  has to pass. A path is its text and a duration its number of milliseconds or seconds. The parser of URLs is
  third-party code and a parameter; the text of the help and the error texts of the standard library are left out.
\<close>

record TlsConfig =
  tls_cert_file :: string
  tls_key_file :: string
  tls_server_ca_file :: "string option"

record SecurityConfig =
  sy_tls :: "TlsConfig option"
  sy_users_file :: "string option"
  sy_allow_insecure_non_loopback :: bool
  sy_require_client_cert :: bool
  sy_client_cert_ca_file :: "string option"
  sy_auth_failure_delay_millis :: nat
  sy_validate_only :: bool

record Config =
  cf_listen :: SocketAddr
  cf_advertised_version :: string
  cf_data_dir :: string
  cf_ephemeral :: bool
  cf_memory_limit_bytes :: nat
  cf_max_body_bytes :: nat
  cf_max_bulk_actions :: nat
  cf_max_result_window :: nat
  cf_max_indexes :: nat
  cf_max_documents :: nat
  cf_snapshot_write_threshold :: nat
  cf_snapshot_interval_secs :: nat
  cf_connection_limit :: nat
  cf_allow_nonlocal_listen :: bool
  cf_strict_compatibility :: bool
  cf_strict_allowlist :: "string list"
  cf_agent :: AgentConfig
  cf_security :: SecurityConfig

definition AgentConfig_default :: AgentConfig where
  "AgentConfig_default = \<lparr>ac_endpoint = None, ac_model = None, ac_bearer_token_env = None, ac_bearer_token_file = None,
     ac_timeout_millis = 10000, ac_context_limit_bytes = 1024 * 1024, ac_response_limit_bytes = 1024 * 1024,
     ac_allow_insecure_endpoint = False, ac_confidence_threshold = 75, ac_write_enabled = False, ac_write_allowlist = []\<rparr>"

definition SecurityConfig_default :: SecurityConfig where
  "SecurityConfig_default = \<lparr>sy_tls = None, sy_users_file = None, sy_allow_insecure_non_loopback = False,
     sy_require_client_cert = False, sy_client_cert_ca_file = None, sy_auth_failure_delay_millis = 25, sy_validate_only = False\<rparr>"

definition Config_default :: Config where
  "Config_default = \<lparr>cf_listen = \<lparr>sa_ip = V4 [127, 0, 0, 1], sa_port = 9200\<rparr>, cf_advertised_version = ''3.6.0'',
     cf_data_dir = ''./data'', cf_ephemeral = False, cf_memory_limit_bytes = 512 * 1024 * 1024,
     cf_max_body_bytes = 16 * 1024 * 1024, cf_max_bulk_actions = 10000, cf_max_result_window = 10000, cf_max_indexes = 1024,
     cf_max_documents = 1000000, cf_snapshot_write_threshold = 1000, cf_snapshot_interval_secs = 600,
     cf_connection_limit = 128, cf_allow_nonlocal_listen = False, cf_strict_compatibility = False, cf_strict_allowlist = [],
     cf_agent = AgentConfig_default, cf_security = SecurityConfig_default\<rparr>"

datatype ConfigError = Usage | UnknownArgument string | Rejected string

type_synonym 'a config_result = "(ConfigError, 'a) result"

text \<open>\<open>Url::parse\<close>: the scheme and, if it has one, the host.\<close>

type_synonym url_parser = "string \<Rightarrow> (string \<times> string option) option"

subsection \<open>Values\<close>

definition byte_units :: "(string \<times> nat) list" where
  "byte_units = [(''kib'', 1024), (''kb'', 1024), (''k'', 1024), (''mib'', 1024 * 1024), (''mb'', 1024 * 1024),
     (''m'', 1024 * 1024), (''gib'', 1024 * 1024 * 1024), (''gb'', 1024 * 1024 * 1024), (''g'', 1024 * 1024 * 1024)]"

definition strip_unit :: "string \<Rightarrow> string \<times> nat" where
  "strip_unit lower =
     (case find (\<lambda>(unit, _). ends_with lower unit) byte_units of
        Some (unit, multiplier) \<Rightarrow> (take (length lower - length unit) lower, multiplier)
      | None \<Rightarrow> (lower, 1))"

definition parse_bytes :: "string \<Rightarrow> nat config_result" where
  "parse_bytes val =
     (let trimmed = trim val
      in if trimmed = [] then Inl (Rejected ''byte value cannot be empty'')
         else case strip_unit (to_ascii_lowercase trimmed) of (number, multiplier) \<Rightarrow>
           (case parse_u64 number of
              None \<Rightarrow> Inl (Rejected ''invalid byte value'')
            | Some parsed \<Rightarrow>
                if parsed * multiplier > usize_max then Inl (Rejected ''byte value is too large'')
                else Inr (parsed * multiplier)))"

definition parse_positive :: "string \<Rightarrow> string \<Rightarrow> nat config_result" where
  "parse_positive flag val =
     (case parse_u64 val of
        None \<Rightarrow> Inl (Rejected (''invalid '' @ flag @ '' value''))
      | Some n \<Rightarrow> if n = 0 then Inl (Rejected (flag @ '' must be positive'')) else Inr n)"

definition parse_allowlist :: "string \<Rightarrow> string list" where
  "parse_allowlist val = map trim (filter (\<lambda>entry. trim entry \<noteq> []) (split_on (CHR '','') val))"

definition split_flag_value :: "string \<Rightarrow> string \<times> string option" where
  "split_flag_value arg = (case split_once (CHR ''='') arg of Some (flag, val) \<Rightarrow> (flag, Some val) | None \<Rightarrow> (arg, None))"

definition reject_inline_value :: "string \<Rightarrow> string option \<Rightarrow> unit config_result" where
  "reject_inline_value flag val =
     (if val \<noteq> None then Inl (Rejected (flag @ '' does not accept a value'')) else Inr ())"

subsection \<open>Checks\<close>

definition validate_agent_endpoint :: "url_parser \<Rightarrow> string \<Rightarrow> bool \<Rightarrow> unit config_result" where
  "validate_agent_endpoint parse_url endpoint allow_insecure =
     (case parse_url endpoint of
        None \<Rightarrow> Inl (Rejected ''--agent-endpoint must include http:// or https://'')
      | Some (scheme, host) \<Rightarrow>
          if scheme = ''https'' then Inr ()
          else if scheme = ''http'' then
            (case host of
               None \<Rightarrow> Inl (Rejected ''--agent-endpoint must include a host'')
             | Some host \<Rightarrow>
                 if host_is_loopback host \<or> allow_insecure then Inr ()
                 else Inl (Rejected ''--agent-endpoint http:// is only allowed for loopback hosts unless --agent-allow-insecure-endpoint is set''))
          else Inl (Rejected ''--agent-endpoint must use http:// or https://''))"

definition AgentConfig_validate :: "url_parser \<Rightarrow> AgentConfig \<Rightarrow> unit config_result" where
  "AgentConfig_validate parse_url cfg =
     (if ac_context_limit_bytes cfg = 0 then Inl (Rejected ''--agent-context-limit must be positive'')
      else if ac_response_limit_bytes cfg = 0 then Inl (Rejected ''--agent-response-limit must be positive'')
      else case ac_endpoint cfg of
        None \<Rightarrow> Inr ()
      | Some endpoint \<Rightarrow> validate_agent_endpoint parse_url endpoint (ac_allow_insecure_endpoint cfg))"

definition validate_posture :: "SecurityConfig \<Rightarrow> SocketAddr \<Rightarrow> bool \<Rightarrow> unit config_result" where
  "validate_posture sy listen allow_nonlocal_listen =
     (if sy_require_client_cert sy \<and> sy_tls sy = None then
        Inl (Rejected ''--require-client-cert requires TLS to be configured'')
      else if sy_require_client_cert sy \<and> sy_client_cert_ca_file sy = None then
        Inl (Rejected ''--require-client-cert requires --client-cert-ca-file'')
      else if sy_client_cert_ca_file sy \<noteq> None \<and> sy_tls sy = None then
        Inl (Rejected ''--client-cert-ca-file requires TLS to be configured'')
      else if \<not> allow_nonlocal_listen \<or> is_loopback (sa_ip listen) then Inr ()
      else if sy_allow_insecure_non_loopback sy then Inr ()
      else case (sy_tls sy \<noteq> None, sy_users_file sy \<noteq> None) of
        (True, True) \<Rightarrow> Inr ()
      | (True, False) \<Rightarrow> Inl (Rejected ''--listen is non-loopback; configure --users-file with TLS or pass --allow-insecure-non-loopback for an explicit insecure development exception'')
      | (False, True) \<Rightarrow> Inl (Rejected ''--listen is non-loopback; configure TLS with --tls-cert-file and --tls-key-file or pass --allow-insecure-non-loopback for an explicit insecure development exception'')
      | (False, False) \<Rightarrow> Inl (Rejected ''--listen is non-loopback; configure TLS and --users-file, or pass --allow-insecure-non-loopback for an explicit insecure development exception''))"

definition Config_validate :: "url_parser \<Rightarrow> Config \<Rightarrow> unit config_result" where
  "Config_validate parse_url cf =
     (if cf_memory_limit_bytes cf = 0 then Inl (Rejected ''--memory-limit must be positive'')
      else if cf_max_body_bytes cf = 0 then Inl (Rejected ''--max-body-size must be positive'')
      else if cf_max_body_bytes cf > cf_memory_limit_bytes cf then
        Inl (Rejected ''--max-body-size cannot exceed --memory-limit'')
      else if cf_max_bulk_actions cf = 0 \<or> cf_max_result_window cf = 0 \<or> cf_max_indexes cf = 0 \<or> cf_max_documents cf = 0
          \<or> cf_snapshot_write_threshold cf = 0 \<or> cf_snapshot_interval_secs cf = 0 \<or> cf_connection_limit cf = 0 then
        Inl (Rejected ''count limits must be positive'')
      else if \<not> cf_allow_nonlocal_listen cf \<and> \<not> is_loopback (sa_ip (cf_listen cf)) then
        Inl (Rejected ''--listen is not loopback; pass --allow-nonlocal-listen and configure TLS/auth for workgroup use'')
      else and_then (AgentConfig_validate parse_url (cf_agent cf)) (\<lambda>_.
           validate_posture (cf_security cf) (cf_listen cf) (cf_allow_nonlocal_listen cf)))"

subsection \<open>The command line\<close>

text \<open>What the loop over the arguments keeps besides the configuration.\<close>

record Arguments =
  ag_config :: Config
  ag_tls_cert_file :: "string option"
  ag_tls_key_file :: "string option"
  ag_tls_ca_file :: "string option"

definition update_agent :: "(AgentConfig \<Rightarrow> AgentConfig) \<Rightarrow> Config \<Rightarrow> Config" where
  "update_agent f cf = cf\<lparr>cf_agent := f (cf_agent cf)\<rparr>"

definition update_security :: "(SecurityConfig \<Rightarrow> SecurityConfig) \<Rightarrow> Config \<Rightarrow> Config" where
  "update_security f cf = cf\<lparr>cf_security := f (cf_security cf)\<rparr>"

text \<open>The flags without a value.\<close>

definition switches :: "(string \<times> (Config \<Rightarrow> Config)) list" where
  "switches =
     [(''--ephemeral'', \<lambda>cf. cf\<lparr>cf_ephemeral := True\<rparr>),
      (''--allow-nonlocal-listen'', \<lambda>cf. cf\<lparr>cf_allow_nonlocal_listen := True\<rparr>),
      (''--strict-compatibility'', \<lambda>cf. cf\<lparr>cf_strict_compatibility := True\<rparr>),
      (''--agent-allow-insecure-endpoint'', update_agent (\<lambda>a. a\<lparr>ac_allow_insecure_endpoint := True\<rparr>)),
      (''--agent-enable-write-fallback'', update_agent (\<lambda>a. a\<lparr>ac_write_enabled := True\<rparr>)),
      (''--allow-insecure-non-loopback'', update_security (\<lambda>s. s\<lparr>sy_allow_insecure_non_loopback := True\<rparr>)),
      (''--require-client-cert'', update_security (\<lambda>s. s\<lparr>sy_require_client_cert := True\<rparr>)),
      (''--validate-config'', update_security (\<lambda>s. s\<lparr>sy_validate_only := True\<rparr>))]"

text \<open>The flags with a value. The first argument of a setter is the flag, for its error texts.\<close>

type_synonym setter = "string \<Rightarrow> string \<Rightarrow> Config \<Rightarrow> Config config_result"

definition set_listen :: setter where
  "set_listen flag val cf =
     (case parse_socket_addr val of
        None \<Rightarrow> Inl (Rejected ''invalid --listen value'')
      | Some listen \<Rightarrow> Inr (cf\<lparr>cf_listen := listen\<rparr>))"

definition set_bytes :: "(nat \<Rightarrow> Config \<Rightarrow> Config) \<Rightarrow> setter" where
  "set_bytes update flag val cf = and_then (parse_bytes val) (\<lambda>n. Inr (update n cf))"

definition set_positive :: "(nat \<Rightarrow> Config \<Rightarrow> Config) \<Rightarrow> setter" where
  "set_positive update flag val cf = and_then (parse_positive flag val) (\<lambda>n. Inr (update n cf))"

definition set_text :: "(string \<Rightarrow> Config \<Rightarrow> Config) \<Rightarrow> setter" where
  "set_text update flag val cf = Inr (update val cf)"

definition set_confidence :: setter where
  "set_confidence flag val cf =
     and_then (parse_positive flag val) (\<lambda>threshold.
       if threshold > 100 then Inl (Rejected ''--agent-confidence-threshold must be between 1 and 100'')
       else Inr (update_agent (\<lambda>a. a\<lparr>ac_confidence_threshold := threshold\<rparr>) cf))"

definition setters :: "(string \<times> setter) list" where
  "setters =
     [(''--listen'', set_listen),
      (''--advertised-version'', set_text (\<lambda>v cf. cf\<lparr>cf_advertised_version := v\<rparr>)),
      (''--data-dir'', set_text (\<lambda>v cf. cf\<lparr>cf_data_dir := v\<rparr>)),
      (''--memory-limit'', set_bytes (\<lambda>n cf. cf\<lparr>cf_memory_limit_bytes := n\<rparr>)),
      (''--max-body-size'', set_bytes (\<lambda>n cf. cf\<lparr>cf_max_body_bytes := n\<rparr>)),
      (''--max-bulk-actions'', set_positive (\<lambda>n cf. cf\<lparr>cf_max_bulk_actions := n\<rparr>)),
      (''--max-result-window'', set_positive (\<lambda>n cf. cf\<lparr>cf_max_result_window := n\<rparr>)),
      (''--max-indexes'', set_positive (\<lambda>n cf. cf\<lparr>cf_max_indexes := n\<rparr>)),
      (''--max-documents'', set_positive (\<lambda>n cf. cf\<lparr>cf_max_documents := n\<rparr>)),
      (''--snapshot-write-threshold'', set_positive (\<lambda>n cf. cf\<lparr>cf_snapshot_write_threshold := n\<rparr>)),
      (''--snapshot-interval-secs'', set_positive (\<lambda>n cf. cf\<lparr>cf_snapshot_interval_secs := n\<rparr>)),
      (''--connection-limit'', set_positive (\<lambda>n cf. cf\<lparr>cf_connection_limit := n\<rparr>)),
      (''--strict-allowlist'', set_text (\<lambda>v cf. cf\<lparr>cf_strict_allowlist := parse_allowlist v\<rparr>)),
      (''--agent-endpoint'', set_text (\<lambda>v. update_agent (\<lambda>a. a\<lparr>ac_endpoint := Some v\<rparr>))),
      (''--agent-model'', set_text (\<lambda>v. update_agent (\<lambda>a. a\<lparr>ac_model := Some v\<rparr>))),
      (''--agent-token-env'', set_text (\<lambda>v. update_agent (\<lambda>a. a\<lparr>ac_bearer_token_env := Some v\<rparr>))),
      (''--agent-token-file'', set_text (\<lambda>v. update_agent (\<lambda>a. a\<lparr>ac_bearer_token_file := Some v\<rparr>))),
      (''--agent-timeout-ms'', set_positive (\<lambda>n. update_agent (\<lambda>a. a\<lparr>ac_timeout_millis := n\<rparr>))),
      (''--agent-context-limit'', set_bytes (\<lambda>n. update_agent (\<lambda>a. a\<lparr>ac_context_limit_bytes := n\<rparr>))),
      (''--agent-response-limit'', set_bytes (\<lambda>n. update_agent (\<lambda>a. a\<lparr>ac_response_limit_bytes := n\<rparr>))),
      (''--agent-confidence-threshold'', set_confidence),
      (''--agent-write-allowlist'', set_text (\<lambda>v. update_agent (\<lambda>a. a\<lparr>ac_write_allowlist := parse_allowlist v\<rparr>))),
      (''--users-file'', set_text (\<lambda>v. update_security (\<lambda>s. s\<lparr>sy_users_file := Some v\<rparr>))),
      (''--client-cert-ca-file'', set_text (\<lambda>v. update_security (\<lambda>s. s\<lparr>sy_client_cert_ca_file := Some v\<rparr>))),
      (''--auth-failure-delay-ms'', set_positive (\<lambda>n. update_security (\<lambda>s. s\<lparr>sy_auth_failure_delay_millis := n\<rparr>)))]"

definition tls_flags :: "string list" where
  "tls_flags = [''--tls-cert-file'', ''--tls-key-file'', ''--tls-ca-file'']"

definition takes_value :: "string \<Rightarrow> bool" where
  "takes_value flag \<longleftrightarrow> map_of setters flag \<noteq> None \<or> flag \<in> set tls_flags"

definition set_value :: "string \<Rightarrow> string \<Rightarrow> Arguments \<Rightarrow> Arguments config_result" where
  "set_value flag val a =
     (if flag = ''--tls-cert-file'' then Inr (a\<lparr>ag_tls_cert_file := Some val\<rparr>)
      else if flag = ''--tls-key-file'' then Inr (a\<lparr>ag_tls_key_file := Some val\<rparr>)
      else if flag = ''--tls-ca-file'' then Inr (a\<lparr>ag_tls_ca_file := Some val\<rparr>)
      else case map_of setters flag of
        None \<Rightarrow> Inr a
      | Some set_flag \<Rightarrow> and_then (set_flag flag val (ag_config a)) (\<lambda>cf. Inr (a\<lparr>ag_config := cf\<rparr>)))"

fun parse_args :: "string list \<Rightarrow> Arguments \<Rightarrow> Arguments config_result" where
  "parse_args [] a = Inr a"
| "parse_args (arg # rest) a =
     (if \<not> utf8_valid arg then Inl (Rejected ''arguments must be valid UTF-8'')
      else if arg = ''--help'' \<or> arg = ''-h'' then Inl Usage
      else case split_flag_value arg of (flag, inline) \<Rightarrow>
        (case map_of switches flag of
           Some switch \<Rightarrow>
             and_then (reject_inline_value flag inline) (\<lambda>_. parse_args rest (a\<lparr>ag_config := switch (ag_config a)\<rparr>))
         | None \<Rightarrow>
             if \<not> takes_value flag then Inl (UnknownArgument flag)
             else (case inline of
               Some val \<Rightarrow> and_then (set_value flag val a) (parse_args rest)
             | None \<Rightarrow>
                 (case rest of
                    [] \<Rightarrow> Inl (Rejected (''missing value for '' @ flag))
                  | val # rest \<Rightarrow>
                      if \<not> utf8_valid val then Inl (Rejected (flag @ '' value must be valid UTF-8''))
                      else and_then (set_value flag val a) (parse_args rest)))))"

definition tls_arguments :: "Arguments \<Rightarrow> Config config_result" where
  "tls_arguments a =
     (if ag_tls_cert_file a = None \<and> ag_tls_key_file a = None \<and> ag_tls_ca_file a = None then Inr (ag_config a)
      else and_then (ok_or (Rejected ''--tls-key-file requires --tls-cert-file'') (ag_tls_cert_file a)) (\<lambda>cert.
           and_then (ok_or (Rejected ''--tls-cert-file requires --tls-key-file'') (ag_tls_key_file a)) (\<lambda>key.
             Inr (update_security (\<lambda>s. s\<lparr>sy_tls := Some \<lparr>tls_cert_file = cert, tls_key_file = key,
               tls_server_ca_file = ag_tls_ca_file a\<rparr>\<rparr>) (ag_config a)))))"

text \<open>The first argument is the name of the program.\<close>

definition from_args :: "url_parser \<Rightarrow> string list \<Rightarrow> Config config_result" where
  "from_args parse_url args =
     and_then (parse_args (drop 1 args)
         \<lparr>ag_config = Config_default, ag_tls_cert_file = None, ag_tls_key_file = None, ag_tls_ca_file = None\<rparr>) (\<lambda>a.
     and_then (tls_arguments a) (\<lambda>cf.
     and_then (Config_validate parse_url cf) (\<lambda>_. Inr cf)))"

end
