(* ===== verification/Samples.thy ===== *)
theory Samples
  imports Server Authorization Config
begin

section \<open>A server to try things on\<close>

text \<open>A small server in memory with one index, on which the properties of the handlers and of the front end are applied.
  Its JSON texts are single characters.\<close>

definition sample_texts :: "(string \<times> json) list" where
  "sample_texts =
     [(''A'', JObj [(''index'', JObj [(''_id'', JStr ''1''), (''_index'', JStr ''logs'')])]),
      (''N'', JObj [(''index'', JObj [(''_index'', JStr ''logs'')])]),
      (''D'', JObj [(''delete'', JObj [(''_id'', JStr ''9''), (''_index'', JStr ''logs'')])]),
      (''S'', JObj [(''msg'', JStr ''a'')]), (''T'', JObj [(''msg'', JStr ''b'')]), (''X'', JArr [])]"

definition sample_parse :: json_parse where
  "sample_parse text = (case map_of sample_texts text of Some v \<Rightarrow> Inr v | None \<Rightarrow> Inl ''invalid'')"

definition sample_vec :: to_vec where
  "sample_vec v = Some ''{}''"

definition sample_log_parse :: parse where
  "sample_log_parse t = None"

definition sample_codec :: Codec where
  "sample_codec = \<lparr>cd_to_vec = sample_vec, cd_parse = sample_log_parse, cd_enc_db = (\<lambda>_. None), cd_dec_db = (\<lambda>_. None),
     cd_enc_meta = (\<lambda>_. None), cd_dec_meta = (\<lambda>_. None)\<rparr>"

definition sample_setup :: Setup where
  "sample_setup = \<lparr>su_codec = sample_codec,
     su_limits = \<lparr>max_indexes = 3, max_documents = 9, memory_limit_bytes = 9000\<rparr>,
     su_policy = \<lparr>write_threshold = 9, interval = 60\<rparr>\<rparr>"

definition sample_env :: Env where
  "sample_env = \<lparr>en_tx = ''t'', en_now = 0, en_millis = 7, en_begin_io = None, en_commit_io = None,
     en_flush_io = (\<lambda>_. Written)\<rparr>"

definition sample_index :: IndexMetadata where
  "sample_index = \<lparr>im_name = ''logs'', im_settings = empty_object, im_mappings = empty_object, im_aliases = [],
     im_documents = [], im_tombstones = [], im_store_size_bytes = 0\<rparr>"

text \<open>A store in memory, with an index \<open>logs\<close>.\<close>

definition sample_store :: Store where
  "sample_store = \<lparr>st_db = Database_default\<lparr>db_indexes := [(''logs'', sample_index)]\<rparr>,
     st_files = \<lparr>fl_meta = None, fl_snapshots = [], fl_log = None\<rparr>, st_flush = SnapshotFlushState_default, st_ephemeral = True\<rparr>"

definition line_end :: string where
  "line_end = [CHR 0x0A]"

definition sample_nanos :: "nat \<Rightarrow> nat" where
  "sample_nanos n = 5"

definition sample_text :: TextOps where
  "sample_text = \<lparr>to_lower = to_ascii_lowercase, json_text = (\<lambda>_. []), f64_text = (\<lambda>_. []),
     parse_rfc3339 = (\<lambda>_. None), utc_instant = (\<lambda>_. None)\<rparr>"

definition sample_search :: SearchConfig where
  "sample_search = \<lparr>sg_text = sample_text, sg_parse = sample_parse,
     sg_runtime = \<lparr>rc_tv = sample_vec, rc_db_vec = (\<lambda>_. None), rc_memory_limit = 9000, rc_max_result_window = 100\<rparr>\<rparr>"

definition sample_services :: Services where
  "sample_services = \<lparr>ss_setup = sample_setup, ss_search = sample_search, ss_max_bulk_actions = 10, ss_ephemeral = True,
     ss_repository_codec = \<lparr>rc_enc = (\<lambda>_. None), rc_dec = (\<lambda>_. None), rc_database = (\<lambda>_. None)\<rparr>,
     ss_node = \<lparr>ni_advertised_version = ''2'', ni_ip = ''127.0.0.1'', ni_publish_address = ''127.0.0.1:9200''\<rparr>,
     ss_alphanumeric = (\<lambda>_. False),
     ss_agent_link = \<lparr>al_encode = (\<lambda>_. None), al_chat = (\<lambda>_. Inl (AgentError [])), al_decode = (\<lambda>_. Inl [])\<rparr>,
     ss_agent_config = AgentConfig_default,
     ss_agent_client = ClientDisabled,
     ss_dispatch = demo_config, ss_inventory = demo_inventory\<rparr>"

definition sample_repository_env :: RepositoryEnv where
  "sample_repository_env = \<lparr>re_now_millis = 5, re_write = (\<lambda>_. Written), re_unreadable = (\<lambda>_ _. False),
     re_temporary = None, re_torn = (\<lambda>d. d)\<rparr>"

definition sample_moment :: Moment where
  "sample_moment = \<lparr>mo_env = sample_env, mo_clock = \<lparr>ck_now = 0, ck_stamp = 0, ck_millis = 0\<rparr>, mo_nanos = sample_nanos,
     mo_repository_env = sample_repository_env\<rparr>"

definition sample_server :: Server where
  "sample_server = \<lparr>sv_store = sample_store, sv_runtime = RuntimeState_default, sv_repositories = []\<rparr>"

text \<open>The sources of the documents of an index.\<close>

definition sources_of :: "Store \<Rightarrow> string \<Rightarrow> (string \<times> json) list" where
  "sources_of s index =
     (case bt_get (db_indexes (st_db s)) index of
        None \<Rightarrow> []
      | Some im \<Rightarrow> map (\<lambda>(did, d). (did, doc_source d)) (im_documents im))"

end
