(* ===== verification/ServerSafety.thy ===== *)
theory ServerSafety
  imports Server
begin

section \<open>What requests leave unchanged\<close>

text \<open>
  For each handler, the methods under which it leaves the store alone, and from these: a handler that is not
  one of the writers of \<open>handler_writes\<close> changes neither the store nor a snapshot repository.
\<close>

subsection \<open>Handler by handler\<close>

lemma fst_with_body: "(\<And>body. fst (f body) = s) \<Longrightarrow> fst (with_body parse request s f) = s"
  by (simp add: with_body_def split: sum.splits)

lemma fst_with_name: "(\<And>n. fst (f n) = s) \<Longrightarrow> fst (with_name label name s f) = s"
  by (simp add: with_name_def split: option.splits)

named_theorems reads \<open>handlers that leave the store alone, with the method\<close>

lemma handle_index_reads [reads]:
  "rq_method request \<noteq> PUT \<Longrightarrow> rq_method request \<noteq> DELETE \<Longrightarrow> fst (handle_index su env parse request index s) = s"
  by (simp add: handle_index_def Let_def split: http_method.splits)

lemma handle_template_reads [reads]:
  "rq_method request \<noteq> PUT \<Longrightarrow> rq_method request \<noteq> DELETE \<Longrightarrow> fst (handle_template su env tx parse request name s) = s"
  by (auto simp: handle_template_def Let_def intro: fst_with_name split: http_method.splits option.splits)

lemma handle_component_template_reads [reads]:
  "rq_method request \<noteq> PUT \<Longrightarrow> rq_method request \<noteq> DELETE \<Longrightarrow> fst (handle_component_template su env parse request name s) = s"
  by (auto simp: handle_component_template_def Let_def intro: fst_with_name split: http_method.splits option.splits)

lemma handle_legacy_template_reads [reads]:
  "rq_method request \<noteq> PUT \<Longrightarrow> rq_method request \<noteq> DELETE \<Longrightarrow> fst (handle_legacy_template su env parse request name s) = s"
  by (auto simp: handle_legacy_template_def Let_def intro: fst_with_name split: http_method.splits option.splits)

lemma handle_registry_namespace_reads [reads]:
  "rq_method request \<noteq> PUT \<Longrightarrow> rq_method request \<noteq> DELETE \<Longrightarrow>
     fst (handle_registry_namespace su env parse request namespace name api s) = s"
  by (auto simp: handle_registry_namespace_def Let_def intro: fst_with_name split: http_method.splits option.splits)

lemma handle_script_registry_reads [reads]:
  "rq_method request \<noteq> PUT \<Longrightarrow> rq_method request \<noteq> POST \<Longrightarrow> rq_method request \<noteq> DELETE \<Longrightarrow>
     fst (handle_script_registry su env parse request name s) = s"
  by (auto simp: handle_script_registry_def Let_def intro: fst_with_name split: http_method.splits option.splits)

lemma handle_mapping_reads [reads]:
  "rq_method request \<noteq> PUT \<Longrightarrow> fst (handle_mapping su env parse request first s) = s"
  by (auto simp: handle_mapping_def Let_def intro: fst_with_name split: http_method.splits option.splits)

lemma handle_settings_reads [reads]:
  "rq_method request \<noteq> PUT \<Longrightarrow> fst (handle_settings su env parse request first s) = s"
  by (auto simp: handle_settings_def Let_def intro: fst_with_name split: http_method.splits option.splits)

lemma handle_alias_reads [reads]:
  "rq_method request \<noteq> PUT \<Longrightarrow> rq_method request \<noteq> POST \<Longrightarrow> rq_method request \<noteq> DELETE \<Longrightarrow>
     fst (handle_alias su env tx parse request parts s) = s"
  by (auto simp: handle_alias_def Let_def)

lemma handle_document_reads [reads]:
  "rq_method request \<noteq> PUT \<Longrightarrow> rq_method request \<noteq> POST \<Longrightarrow> rq_method request \<noteq> DELETE \<Longrightarrow>
     fst (handle_document su env nanos parse request parts s) = s"
  by (auto simp: handle_document_def Let_def split: http_method.splits)

lemma handle_snapshot_reads [reads]:
  "rq_method request \<noteq> PUT \<Longrightarrow> rq_method request \<noteq> POST \<Longrightarrow> rq_method request \<noteq> DELETE \<Longrightarrow>
     fst (handle_snapshot rc parse ephemeral env db request parts repos) = repos"
  by (auto simp: handle_snapshot_def Let_def split: list.splits)

subsection \<open>The whole dispatch\<close>

lemma state_update_simps [simp]:
  "on_store sv r = Some (sv', response) \<longleftrightarrow> sv' = sv\<lparr>sv_store := fst r\<rparr> \<and> response = snd r"
  "on_runtime sv t = Some (sv', response) \<longleftrightarrow> sv' = sv\<lparr>sv_runtime := fst t\<rparr> \<and> response = snd t"
  "on_repositories sv u = Some (sv', response) \<longleftrightarrow> sv' = sv\<lparr>sv_repositories := fst u\<rparr> \<and> response = snd u"
  "only_reads sv response = Some (sv', response') \<longleftrightarrow> sv' = sv \<and> response' = response"
  by (auto simp: on_store_def on_runtime_def on_repositories_def only_reads_def)

lemma reader_keeps_state:
  assumes "run_handler ss mo user request h sv = Some (sv', response)" and "\<not> handler_writes (rq_method request) h"
  shows "sv_store sv' = sv_store sv \<and> sv_repositories sv' = sv_repositories sv"
  using assms by (cases h) (auto simp: reads bind_eq_Some_conv)

text \<open>No handler but that of snapshots touches the repositories, and a snapshot request never touches the store.\<close>

lemma repositories_by_snapshot:
  assumes "run_handler ss mo user request h sv = Some (sv', response)" and "\<And>parts. h \<noteq> Snapshot parts"
  shows "sv_repositories sv' = sv_repositories sv"
  using assms by (cases h) (auto simp: bind_eq_Some_conv split: prod.splits)

lemma snapshot_keeps_store:
  "run_handler ss mo user request (Snapshot parts) sv = Some (sv', response) \<Longrightarrow> sv_store sv' = sv_store sv"
  by simp

end
