(* ===== verification/ServerProperties.thy ===== *)
theory ServerProperties
  imports Samples ServerSafety SnapshotProperties StoreWrites Recovery
begin

section \<open>Properties of the server\<close>


subsection \<open>Who changes what\<close>

text \<open>C3. On a plain path, without percent signs and without a slash at the end, a request of a principal that may only
  read leaves the store and the snapshot repositories exactly as they were, whatever its method, its body and the
  handler it reaches.\<close>

theorem readers_change_nothing:
  assumes "plain_path (rq_path request)" and "inventory_ok (ss_inventory ss)"
    and "\<not> allows_all sc" and "\<not> can_write sc"
    and "serve ss mo sc request sv = Some (sv', response)"
  shows "sv_store sv' = sv_store sv \<and> sv_repositories sv' = sv_repositories sv"
proof (rule reader_keeps_state)
  show "run_handler ss mo (sc_principal sc) request
      (handle_request (ss_inventory ss) (ss_dispatch ss) sc (rq_method request) (rq_path request)) sv = Some (sv', response)"
    using assms(5) by (simp add: serve_def)
  show "\<not> handler_writes (rq_method request)
      (handle_request (ss_inventory ss) (ss_dispatch ss) sc (rq_method request) (rq_path request))"
    using writing_needs_write_role [OF assms(1,2)] assms(3,4) by blast
qed

definition sample_stats :: Request where
  "sample_stats = \<lparr>rq_method = GET, rq_path = ''/logs/_stats'', rq_query = [], rq_body = []\<rparr>"

theorem readers_change_nothing_witness:
  "\<exists>sv response. serve sample_services sample_moment (secured_as [ReadOnly]) sample_stats sample_server = Some (sv, response)
     \<and> success response \<and> sv_store sv = sample_store \<and> sv_repositories sv = []"
proof -
  have "handle_request demo_inventory demo_config (secured_as [ReadOnly]) GET ''/logs/_stats'' = IndexStats [''logs'', ''_stats'']"
    "success (handle_stats [''logs'', ''_stats''] (st_db sample_store))" by code_simp+
  then have run: "case serve sample_services sample_moment (secured_as [ReadOnly]) sample_stats sample_server of
      None \<Rightarrow> False | Some (sv, response) \<Rightarrow> success response"
    by (simp add: serve_def sample_services_def sample_stats_def only_reads_def sample_server_def)
  have "plain_path (rq_path sample_stats)" "inventory_ok (ss_inventory sample_services)"
    "\<not> allows_all (secured_as [ReadOnly])" "\<not> can_write (secured_as [ReadOnly])" by code_simp+
  note keep = readers_change_nothing [OF this]
  have "sv_store sample_server = sample_store" "sv_repositories sample_server = []" by (simp_all add: sample_server_def)
  with run keep show ?thesis by (fastforce split: option.splits prod.splits)
qed

text \<open>C21. The snapshot repositories are changed only by requests of an administrator, when security is on. This
  holds of every path: both chains percent-decode the first segment.\<close>

theorem repositories_change_by_admin:
  assumes "serve ss mo sc request sv = Some (sv', response)" and "sv_repositories sv' \<noteq> sv_repositories sv"
  shows "allows_all sc \<or> is_admin sc"
proof -
  let ?h = "handle_request (ss_inventory ss) (ss_dispatch ss) sc (rq_method request) (rq_path request)"
  from assms repositories_by_snapshot [of ss mo "sc_principal sc" request ?h sv sv' response] obtain parts
    where "?h = Snapshot parts" by (auto simp: serve_def)
  then show ?thesis by (rule snapshots_need_admin)
qed

definition admin_services :: Services where
  "admin_services = sample_services\<lparr>ss_ephemeral := False, ss_repository_codec := demo_codec\<rparr>"

definition sample_put_repository :: Request where
  "sample_put_repository = \<lparr>rq_method = PUT, rq_path = ''/_snapshot/r'', rq_query = [], rq_body = []\<rparr>"

theorem repositories_change_by_admin_witness:
  "\<exists>sv response. serve admin_services sample_moment (secured_as [Admin]) sample_put_repository sample_server = Some (sv, response)
     \<and> success response \<and> bt_keys (sv_repositories sv) = [''r''] \<and> is_admin (secured_as [Admin])"
proof -
  have "handle_request demo_inventory demo_config (secured_as [Admin]) PUT ''/_snapshot/r'' = Snapshot [''_snapshot'', ''r'']"
    "case handle_snapshot demo_codec sample_parse False sample_repository_env (Inr (st_db sample_store)) sample_put_repository
       [''_snapshot'', ''r''] [] of (repos, response) \<Rightarrow> success response \<and> bt_keys repos = [''r'']" by code_simp+
  then have run: "case serve admin_services sample_moment (secured_as [Admin]) sample_put_repository sample_server of
      None \<Rightarrow> False | Some (sv, response) \<Rightarrow> success response \<and> bt_keys (sv_repositories sv) = [''r'']"
    by (simp add: serve_def admin_services_def sample_services_def sample_put_repository_def on_repositories_def
        sample_server_def sample_search_def sample_moment_def split: prod.splits)
  then obtain sv response where r: "serve admin_services sample_moment (secured_as [Admin]) sample_put_repository sample_server = Some (sv, response)"
    "success response" "bt_keys (sv_repositories sv) = [''r'']" by (auto split: option.splits)
  then have "sv_repositories sv \<noteq> sv_repositories sample_server" by (auto simp: sample_server_def bt_keys_def)
  from repositories_change_by_admin [OF r(1) this] have "is_admin (secured_as [Admin])" by (simp add: allows_all_def secured_as_def)
  with r show ?thesis by blast
qed




subsection \<open>Generated ids\<close>

text \<open>The plan of an index action without an id.\<close>

lemma unnamed_plan:
  assumes "bulk_plan parse path_index nanos ''index'' meta line = StorePlan plan"
    and "Option.bind (jget meta ''_id'') as_str = None"
  obtains source where "parse_bulk_source parse line = Inr source" and "bp_id plan = generated_id nanos"
    and "bp_operation plan = OpIndex (bp_index plan) (generated_id nanos) source"
  using assms by (cases "parse_bulk_source parse line")
    (auto simp: bulk_plan_def Let_def takes_source_def bulk_operation_of_def split: if_splits)

text \<open>An index operation does not change what a name stands for once its index exists.\<close>

lemma index_operation_resolves:
  assumes "bulk_operation tv limits (OpIndex index did source) db = (db', Inr r)" and "resolve_index db index = Some i"
  shows "resolve_index db' index = Some i"
proof -
  have "db' = apply_to tv (IndexDocument i did source) db" and "bt_has (db_indexes db) i"
    using assms document_write_exists [of _ db "IndexDocument i did source" i]
    by (auto simp: bulk_operation_def prepare_put_def resolve_or_create_index_def bulk_guard_def result_simps
        split: sum.splits)
  with assms(2) show ?thesis by (auto simp: resolve_index_def apply_defs Let_def split: if_splits)
qed

lemma not_isl: "\<not> isl r \<longleftrightarrow> (\<exists>x. r = Inr x)"
  by (cases r) simp_all

lemma successful_writes_database:
  assumes "apply_write_operations su env ops s = (s', Inr results)" and "list_all (\<lambda>r. \<not> isl r) results"
  shows "\<exists>committed. bulk_candidate (cd_to_vec (su_codec su)) (su_limits su) ops (st_db s) = (st_db s', committed, results)"
proof -
  obtain candidate committed results' where
    bulk: "bulk_candidate (cd_to_vec (su_codec su)) (su_limits su) ops (st_db s) = (candidate, committed, results')"
    by (cases "bulk_candidate (cd_to_vec (su_codec su)) (su_limits su) ops (st_db s)")
  have results: "results' = results"
    using assms(1) by (auto simp: apply_write_operations_def bulk result_simps split: if_splits prod.splits sum.splits)
  show ?thesis
  proof (cases "committed = []")
    case True
    have "candidate = apply_all (cd_to_vec (su_codec su)) committed (st_db s)"
      using bulk_loop_all_ok [of _ _ ops "st_db s" "[]" "[]" candidate committed results "st_db s"] bulk assms(2) results
      by (simp add: bulk_candidate_def)
    with True bulk results assms(1) show ?thesis by (simp add: apply_write_operations_def)
  next
    case False
    with assms(1) bulk have "\<exists>u. commit_transaction su env candidate committed s = (s', Inr u)"
      by (auto simp: apply_write_operations_def result_simps split: prod.splits sum.splits)
    then have "st_db s' = candidate"
      by (auto simp: commit_transaction_def append_committed_transaction_def Let_def
          split: if_splits prod.splits sum.splits option.splits)
    with bulk results show ?thesis by simp
  qed
qed

text \<open>C39. The id of a document without one is the clock reading, in nanoseconds, alone. When the clock does not advance
  between two index actions of a bulk request on one index, both get the same id: when both succeed, they are two
  versions of one document, only the source of the second one is kept, and the first one is in no entry of the store.\<close>

theorem generated_ids_collide:
  assumes "bulk_plan parse path_index nanos ''index'' meta1 line1 = StorePlan plan1"
    and "bulk_plan parse path_index nanos ''index'' meta2 line2 = StorePlan plan2"
    and "Option.bind (jget meta1 ''_id'') as_str = None" and "Option.bind (jget meta2 ''_id'') as_str = None"
    and "bp_index plan2 = bp_index plan1" and "resolve_index (st_db s) (bp_index plan1) = Some i"
    and "apply_write_operations su env [bp_operation plan1, bp_operation plan2] s = (s', Inr [Inr out1, Inr out2])"
  shows "bp_id plan1 = bp_id plan2
    \<and> (\<exists>d1 d2 source. out1 = OutDocument d1 \<and> out2 = OutDocument d2 \<and> doc_version d2 = u64_succ (doc_version d1)
         \<and> parse_bulk_source parse line2 = Inr source
         \<and> sources (st_db s') = (sources (st_db s))((i, generated_id nanos) := Some source))"
proof -
  let ?bulk = "bulk_operation (cd_to_vec (su_codec su)) (su_limits su)"
  obtain source1 where p1: "bp_id plan1 = generated_id nanos"
    "bp_operation plan1 = OpIndex (bp_index plan1) (generated_id nanos) source1"
    using unnamed_plan [OF assms(1,3)] by metis
  obtain source2 where p2: "parse_bulk_source parse line2 = Inr source2" "bp_id plan2 = generated_id nanos"
    "bp_operation plan2 = OpIndex (bp_index plan1) (generated_id nanos) source2"
    using unnamed_plan [OF assms(2,4)] assms(5) by metis
  obtain committed where
    "bulk_candidate (cd_to_vec (su_codec su)) (su_limits su) [bp_operation plan1, bp_operation plan2] (st_db s)
      = (st_db s', committed, [Inr out1, Inr out2])"
    using successful_writes_database [OF assms(7)] by auto
  then obtain db1 ms1 ms2 where step1: "?bulk (bp_operation plan1) (st_db s) = (db1, Inr (ms1, out1))"
    and step2: "?bulk (bp_operation plan2) db1 = (st_db s', Inr (ms2, out2))"
    by (auto simp: bulk_candidate_def split: prod.splits sum.splits)
  have target: "op_target (st_db s) (bp_operation plan1) = i" "op_target db1 (bp_operation plan2) = i"
    using assms(6) index_operation_resolves [OF step1 [unfolded p1] assms(6)] by (simp_all add: op_target_def p1 p2)
  from bulk_operation_writes [OF step1] bulk_operation_writes [OF step2] p1 p2 target show ?thesis
    by (auto simp: writes_def Let_def version_after_def)
qed

definition unnamed_meta :: json where
  "unnamed_meta = JObj [(''_index'', JStr ''logs'')]"

definition unnamed_plan_of :: "string \<Rightarrow> BulkStorePlan" where
  "unnamed_plan_of text = \<lparr>bp_action = ''index'', bp_index = ''logs'', bp_id = ''lite-5'',
     bp_operation = OpIndex ''logs'' ''lite-5'' (JObj [(''msg'', JStr text)])\<rparr>"

theorem generated_ids_collide_witness:
  "\<exists>s outcomes. apply_write_operations sample_setup sample_env
      (plan_operations [bulk_plan sample_parse None (sample_nanos 0) ''index'' unnamed_meta (Some ''S''),
         bulk_plan sample_parse None (sample_nanos 1) ''index'' unnamed_meta (Some ''T'')]) sample_store = (s, Inr outcomes)
    \<and> list_all (\<lambda>r. \<not> isl r) outcomes
    \<and> sources (st_db s) = (sources (st_db sample_store))((''logs'', ''lite-5'') := Some (JObj [(''msg'', JStr ''b'')]))"
proof -
  have plans: "bulk_plan sample_parse None 5 ''index'' unnamed_meta (Some ''S'') = StorePlan (unnamed_plan_of ''a'')"
    "bulk_plan sample_parse None 5 ''index'' unnamed_meta (Some ''T'') = StorePlan (unnamed_plan_of ''b'')" by code_simp+
  have unnamed: "Option.bind (jget unnamed_meta ''_id'') as_str = None" by code_simp
  have same: "bp_index (unnamed_plan_of ''b'') = bp_index (unnamed_plan_of ''a'')" by (simp add: unnamed_plan_of_def)
  have found: "resolve_index (st_db sample_store) (bp_index (unnamed_plan_of ''a'')) = Some ''logs''" by code_simp
  have parsed: "parse_bulk_source sample_parse (Some ''T'') = Inr (JObj [(''msg'', JStr ''b'')])" "generated_id 5 = ''lite-5''"
    by code_simp+
  have "case apply_write_operations sample_setup sample_env
      [bp_operation (unnamed_plan_of ''a''), bp_operation (unnamed_plan_of ''b'')] sample_store of
    (s, Inr outcomes) \<Rightarrow> length outcomes = 2 \<and> list_all (\<lambda>r. \<not> isl r) outcomes
  | (s, Inl e) \<Rightarrow> False" by code_simp
  then obtain s out1 out2 where run: "apply_write_operations sample_setup sample_env
      [bp_operation (unnamed_plan_of ''a''), bp_operation (unnamed_plan_of ''b'')] sample_store = (s, Inr [Inr out1, Inr out2])"
    by (auto simp: numeral_2_eq_2 length_Suc_conv not_isl split: prod.splits sum.splits)
  from generated_ids_collide [OF plans unnamed unnamed same found run] run show ?thesis
    by (auto simp: plans parsed sample_nanos_def)
qed

end
