(* ===== verification/RouteInventory.thy ===== *)
theory RouteInventory
  imports ApiSpec Json
begin

section \<open>The inventory of routes\<close>

text \<open>
  \<open>build.rs\<close>: the inventory \<open>classify\<close> falls back to is generated from the vendored REST specification, one
  JSON file per API. Reading the files is left out: a file is its name and its value. The tiers and access classes
  the generator writes as source text are the values themselves.
\<close>

definition ascii_upper_char :: "char \<Rightarrow> char" where
  "ascii_upper_char c =
     (if 97 \<le> (of_char c :: nat) \<and> (of_char c :: nat) \<le> 122 then char_of (of_char c - 32 :: nat) else c)"

definition to_ascii_uppercase :: "string \<Rightarrow> string" where
  "to_ascii_uppercase s = map ascii_upper_char s"

subsection \<open>Access classes\<close>

definition is_admin_api :: "string \<Rightarrow> bool" where
  "is_admin_api name \<longleftrightarrow>
     starts_with name ''security.'' \<or> starts_with name ''snapshot.''
     \<or> (starts_with name ''tasks.'' \<and> name \<noteq> ''tasks.get'')
     \<or> starts_with name ''cluster.put_'' \<or> starts_with name ''cluster.delete_''
     \<or> name \<in> set [''cluster.allocation_explain'', ''cluster.post_voting_config_exclusions'', ''cluster.reroute'']"

definition read_api_names :: "string list" where
  "read_api_names =
   [''info'', ''ping'', ''get'', ''get_source'', ''exists'', ''exists_source'', ''search'', ''explain'',
    ''count'', ''field_caps'', ''mget'', ''msearch'', ''scroll'', ''clear_scroll'', ''create_pit'',
    ''delete_pit'', ''delete_all_pits'', ''get_all_pits'', ''indices.get'', ''indices.exists'',
    ''indices.get_mapping'', ''indices.get_field_mapping'', ''indices.get_settings'', ''indices.analyze'',
    ''indices.validate_query'', ''indices.resolve_index'', ''indices.stats'', ''indices.exists_index_template'',
    ''indices.get_index_template'', ''indices.exists_alias'', ''indices.get_alias'', ''cluster.health'',
    ''cluster.get_settings'', ''nodes.info'', ''nodes.stats'', ''tasks.get'', ''cat.indices'',
    ''ingest.simulate'']"

definition is_read_api :: "string \<Rightarrow> bool" where
  "is_read_api name \<longleftrightarrow> name \<in> set read_api_names \<or> starts_with name ''cat.''"

definition only_reads_methods :: "string list \<Rightarrow> bool" where
  "only_reads_methods methods \<longleftrightarrow> list_all (\<lambda>m. m = ''GET'' \<or> m = ''HEAD'') methods"

definition access_for :: "string \<Rightarrow> string list \<Rightarrow> AccessClass" where
  "access_for name methods =
     (if is_admin_api name then AdminAccess
      else if is_read_api name \<or> only_reads_methods methods then ReadAccess
      else WriteAccess)"

subsection \<open>Tiers\<close>

definition implemented_api_names :: "string list" where
  "implemented_api_names =
   [''info'', ''ping'', ''bulk'', ''index'', ''create'', ''get'', ''delete'', ''update'', ''search'', ''count'',
    ''mget'', ''msearch'', ''scroll'', ''clear_scroll'', ''create_pit'', ''delete_pit'', ''delete_all_pits'',
    ''get_all_pits'', ''get_source'', ''exists_source'', ''delete_by_query'', ''update_by_query'', ''reindex'',
    ''indices.create'', ''indices.get'', ''indices.delete'', ''indices.exists'', ''indices.get_mapping'',
    ''indices.put_mapping'', ''indices.get_field_mapping'', ''indices.get_settings'', ''indices.put_settings'',
    ''indices.analyze'', ''indices.validate_query'', ''indices.stats'', ''indices.refresh'',
    ''indices.resolve_index'', ''indices.delete_template'', ''indices.get_template'',
    ''indices.exists_template'', ''indices.put_index_template'', ''indices.get_index_template'',
    ''indices.delete_index_template'', ''indices.put_alias'', ''indices.get_alias'', ''indices.delete_alias'',
    ''indices.update_aliases'', ''field_caps'', ''cluster.stats'', ''cluster.put_component_template'',
    ''cluster.get_component_template'', ''cluster.exists_component_template'',
    ''cluster.delete_component_template'', ''ingest.put_pipeline'', ''ingest.get_pipeline'',
    ''ingest.delete_pipeline'', ''search_pipeline.put'', ''search_pipeline.get'', ''search_pipeline.delete'',
    ''snapshot.cleanup_repository'', ''snapshot.create'', ''snapshot.create_repository'', ''snapshot.delete'',
    ''snapshot.delete_repository'', ''snapshot.get'', ''snapshot.get_repository'', ''snapshot.restore'',
    ''snapshot.verify_repository'', ''put_script'', ''get_script'', ''delete_script'', ''tasks.get'',
    ''cat.plugins'', ''cat.templates'']"

definition is_mocked_api :: "string \<Rightarrow> bool" where
  "is_mocked_api name \<longleftrightarrow> name \<in> set
   [''cluster.allocation_explain'', ''cluster.delete_decommission_awareness'',
    ''cluster.delete_voting_config_exclusions'', ''cluster.delete_weighted_routing'',
    ''cluster.post_voting_config_exclusions'', ''cluster.put_decommission_awareness'', ''cluster.put_settings'',
    ''cluster.put_weighted_routing'', ''cluster.reroute'', ''delete_by_query_rethrottle'',
    ''indices.clear_cache'', ''indices.flush'', ''indices.forcemerge'', ''indices.open'', ''indices.upgrade'',
    ''reindex_rethrottle'', ''update_by_query_rethrottle'']"

definition is_write_fallback_api :: "string \<Rightarrow> bool" where
  "is_write_fallback_api name \<longleftrightarrow> name = ''indices.put_template''"

definition read_fallback_names :: "string list" where
  "read_fallback_names =
   [''count'', ''explain'', ''field_caps'', ''indices.analyze'', ''indices.validate_query'', ''ingest.simulate'',
    ''mget'', ''msearch'', ''msearch_template'', ''mtermvectors'', ''rank_eval'', ''render_search_template'',
    ''search_shards'', ''search_template'', ''termvectors'']"

definition tier_for :: "string \<Rightarrow> string list \<Rightarrow> Tier" where
  "tier_for name methods =
     (if name \<in> set implemented_api_names then Implemented
      else if starts_with name ''cat.''
        \<or> name \<in> set [''cluster.health'', ''cluster.get_settings'', ''nodes.info'', ''nodes.stats''] then BestEffort
      else if is_mocked_api name then Mocked
      else if starts_with name ''snapshot.'' then Unsupported
      else if is_write_fallback_api name then AgentWrite
      else if only_reads_methods methods \<or> name \<in> set read_fallback_names then AgentRead
      else Unsupported)"

subsection \<open>The routes of a file\<close>

definition manual_routes :: "ApiRoute list" where
  "manual_routes =
     [\<lparr>ar_name = ''query.datasources'', ar_tier = Mocked, ar_access = ReadAccess, ar_methods = [''GET''],
       ar_paths = [''/_plugins/_query/_datasources'']\<rparr>,
      \<lparr>ar_name = ''security.account'', ar_tier = Mocked, ar_access = ReadAccess, ar_methods = [''GET''],
       ar_paths = [''/_plugins/_security/api/account'']\<rparr>]"

definition add_method :: "json \<Rightarrow> string list \<Rightarrow> string list" where
  "add_method v methods =
     (case as_str v of
        None \<Rightarrow> methods
      | Some m \<Rightarrow> let m = to_ascii_uppercase m in if m \<in> set methods then methods else methods @ [m])"

definition route_methods :: "json \<Rightarrow> string list" where
  "route_methods r =
     (case Option.bind (jget r ''methods'') as_array of
        None \<Rightarrow> []
      | Some vs \<Rightarrow> sort (fold add_method vs []))"

definition route_of :: "string \<Rightarrow> json \<Rightarrow> ApiRoute option" where
  "route_of name r =
     map_option (\<lambda>path.
       let methods = route_methods r
       in \<lparr>ar_name = name, ar_tier = tier_for name methods, ar_access = access_for name methods,
           ar_methods = methods, ar_paths = [path]\<rparr>)
       (Option.bind (jget r ''path'') as_str)"

definition routes_for_file :: "json \<Rightarrow> ApiRoute list" where
  "routes_for_file v =
     (case v of
        JObj ((name, body) # _) \<Rightarrow>
          (case Option.bind (Option.bind (jget body ''url'') (\<lambda>u. jget u ''paths'')) as_array of
             None \<Rightarrow> []
           | Some paths \<Rightarrow> List.map_filter (route_of name) paths)
      | _ \<Rightarrow> [])"

definition is_spec_file :: "string \<Rightarrow> bool" where
  "is_spec_file name \<longleftrightarrow> ends_with name ''.json'' \<and> length name > 5 \<and> name \<noteq> ''_common.json''"

text \<open>The stable sort by name, then by paths.\<close>

definition route_order :: "ApiRoute \<Rightarrow> string list list" where
  "route_order r = [[ar_name r], ar_paths r]"

definition generated_inventory :: "(string \<times> json) list \<Rightarrow> ApiRoute list" where
  "generated_inventory spec_files =
     sort_key route_order
       (concat (map (\<lambda>(name, v). if is_spec_file name then routes_for_file v else []) spec_files) @ manual_routes)"

end
