(* ===== verification/MethodSafety.thy ===== *)
theory MethodSafety
  imports RouteSafety RouteInventory
begin

section \<open>Which methods reach a handler that writes\<close>

text \<open>
  On a plain path a handler that writes is reached by PUT, POST and DELETE only: the handlers that do not look at the
  method are behind routes that are not implemented for the others. And what is assumed of the inventory follows from
  two facts about the specification it is generated from.
\<close>

definition writing_methods :: "http_method set" where
  "writing_methods = {PUT, POST, DELETE}"

definition needs_writing_method :: "http_method \<Rightarrow> RouteMatch \<Rightarrow> bool" where
  "needs_writing_method meth r \<longleftrightarrow> rm_tier r = Implemented \<longrightarrow> meth \<in> writing_methods"

lemma needs_writing_method_simps [simp]:
  "needs_writing_method meth (route name tier access) \<longleftrightarrow> tier = Implemented \<longrightarrow> meth \<in> writing_methods"
  "needs_writing_method meth (unsupported_method name meth')"
  by (simp_all add: needs_writing_method_def route_def unsupported_method_def)

lemma needs_writing_method_for_methods [simp]:
  "needs_writing_method meth (for_methods ms meth name r) \<longleftrightarrow> meth \<in> set ms \<longrightarrow> needs_writing_method meth r"
  by (simp add: for_methods_def)

lemma classify_by_query_writing:
  "classify_by_query meth seg name rethrottle segs = Some r \<Longrightarrow> needs_writing_method meth r"
  by (auto simp: classify_by_query_def writing_methods_def split: if_splits)

lemma writing_data_needs_method:
  assumes "writes_data segs" and "path_parts path = segs" and "handle_control meth path segs = None"
  shows "needs_writing_method meth (first_some (classify_groups meth path segs) d)"
proof -
  obtain x where shapes: "segs = [''_bulk''] \<or> segs = [x, ''_bulk''] \<or> segs = [x, ''_delete_by_query''] \<or> segs = [x, ''_update_by_query'']"
    using assms(1) by (auto simp: writes_data_def index_or_all_iff)
  have lits: "path \<noteq> ''/_reindex''" "path \<noteq> ''/_search/scroll''" "path \<noteq> ''/_scroll''" "path \<noteq> ''/_cluster/health''"
    "path \<noteq> ''/_cluster/settings''" "path \<noteq> ''/_cluster/stats''"
    using shapes by (elim disjE; intro path_not_literal [OF assms(2)]; simp)+
  have x: "segs = [''_bulk''] \<or> x \<noteq> ''_tasks'' \<and> x \<noteq> ''_scroll'' \<and> x \<noteq> ''_snapshot''"
    using shapes assms(3) by (blast dest: handle_control_two)
  let ?P = "needs_writing_method meth"
  let ?groups = "[classify_control meth segs, classify_cluster meth path segs, classify_read_apis meth path segs,
      classify_bulk_and_search meth segs,
      classify_by_query meth ''_delete_by_query'' ''delete_by_query'' ''delete_by_query_rethrottle'' segs,
      classify_by_query meth ''_update_by_query'' ''update_by_query'' ''update_by_query_rethrottle'' segs]"
  have control: "?P r" if "classify_control meth segs = Some r" for r
    using shapes that x by (elim disjE) (auto simp: classify_control_def pit_family_def split: if_splits)
  have cluster: "?P r" if "classify_cluster meth path segs = Some r" for r
    using shapes that lits x by (elim disjE) (auto simp: classify_cluster_def nodes_stats_path_def get_only_def split: if_splits)
  have reads: "?P r" if "classify_read_apis meth path segs = Some r" for r
    using shapes that by (elim disjE) (auto simp: classify_read_apis_def get_only_def Let_def split: if_splits)
  have search: "?P r" if "classify_bulk_and_search meth segs = Some r" for r
    using shapes that by (elim disjE) (auto simp: classify_bulk_and_search_def writing_methods_def Let_def split: if_splits)
  have "?P r" if "g \<in> set ?groups" and "g = Some r" for g r
    using that control cluster reads search classify_by_query_writing by auto
  moreover have "\<exists>g \<in> set ?groups. g \<noteq> None"
    using shapes by (elim disjE) (simp_all add: classify_bulk_and_search_def classify_by_query_def Let_def)
  ultimately have "?P (first_some (?groups @ drop 6 (classify_groups meth path segs)) d)" by (rule first_some_hit)
  moreover have "classify_groups meth path segs = ?groups @ drop 6 (classify_groups meth path segs)"
    by (simp add: classify_groups_def)
  ultimately show ?thesis by (rule ssubst [rotated, where P = "\<lambda>gs. ?P (first_some gs d)"])
qed

lemma reindex_needs_method:
  "needs_writing_method meth (first_some (classify_groups meth ''/_reindex'' [''_reindex'']) d)"
  by (simp add: classify_groups_def classify_control_def pit_family_def control_namespace_def classify_cluster_def
      writing_methods_def)

lemma handle_control_writes_method:
  "handle_control meth path parts = Some h \<Longrightarrow> handler_writes meth h \<Longrightarrow> path = ''/_reindex'' \<or> meth \<in> writing_methods"
  by (auto simp: handle_control_def writing_methods_def split: if_splits)

text \<open>The paths on which a handler that writes answers every method are behind routes that do not.\<close>

lemma implemented_writes_need_method:
  assumes "plain_path path" and "rm_tier (classify inventory meth path) = Implemented"
    and "handler_writes meth (handle_implemented meth path name)"
  shows "meth \<in> writing_methods"
proof (cases "path = ''/'' \<or> path = []")
  case True
  have "path_parts [] = []" by (simp add: path_parts_def)
  then have "handle_implemented meth [] name = NoHandler name"
    by (simp add: handle_implemented_def handle_control_def handle_data_def handle_metadata_def pit_path_def Let_def is_path_shapes)
  moreover have "handle_implemented meth ''/'' name = RootInfo"
    by (simp add: handle_implemented_def handle_control_def Let_def)
  ultimately show ?thesis using True assms(3) by auto
next
  case False
  let ?segs = "path_parts path"
  have plain: "map decode_path_param ?segs = ?segs" "trim_end_char (CHR ''/'') path = path"
    using plain_parts [OF assms(1)] False assms(1) by (auto simp: plain_path_def)
  have implemented: "rm_tier (first_some (classify_groups meth path ?segs) (classify_inventory inventory meth path)) = Implemented"
    using assms(2) False plain by (simp add: classify_def Let_def)
  from assms(3) show ?thesis
  proof (cases rule: dispatch_writes)
    case control
    then show ?thesis
    proof
      assume "path = ''/_reindex''"
      with implemented reindex_needs_method show ?thesis
        by (simp add: needs_writing_method_def parts_of_literals)
    next
      assume snap: "map_option decode_path_param (seg_at 0 ?segs) = Some ''_snapshot''"
      then have "handle_control meth path ?segs \<noteq> None" by (simp add: handle_control_def)
      then obtain h where h: "handle_control meth path ?segs = Some h" by blast
      with assms(3) have "handler_writes meth h" by (simp add: handle_implemented_def)
      from handle_control_writes_method [OF h this] show ?thesis
      proof
        assume "path = ''/_reindex''"
        with snap show ?thesis by (simp add: parts_of_literals) code_simp
      qed
    qed
  next
    case data
    from writing_data_needs_method [OF data(1) refl data(2)] implemented show ?thesis by (simp add: needs_writing_method_def)
  next
    case metadata
    from handle_metadata_writes [OF metadata(1)] show ?thesis by (simp add: writing_methods_def)
  qed
qed

text \<open>And the agent writes for the methods its routes in the inventory have.\<close>

definition agent_routes_ok :: "ApiRoute list \<Rightarrow> bool" where
  "agent_routes_ok inventory \<longleftrightarrow>
     list_all (\<lambda>r. ar_tier r = AgentWrite \<longrightarrow> set (ar_methods r) \<subseteq> {''PUT'', ''POST'', ''DELETE''}) inventory"

definition agent_method :: "http_method \<Rightarrow> RouteMatch \<Rightarrow> bool" where
  "agent_method meth r \<longleftrightarrow> rm_tier r = AgentWrite \<longrightarrow> method_str meth \<in> {''PUT'', ''POST'', ''DELETE''}"

lemma no_agent_write: "rm_tier r \<noteq> AgentWrite \<Longrightarrow> agent_method meth r"
  by (simp add: agent_method_def)

lemma agent_method_simps [simp]:
  "agent_method meth (route n t a) \<longleftrightarrow> t = AgentWrite \<longrightarrow> method_str meth \<in> {''PUT'', ''POST'', ''DELETE''}"
  "agent_method meth (unsupported_method n meth')"
  "agent_method meth (for_methods ms meth' n r) \<longleftrightarrow> meth' \<in> set ms \<longrightarrow> agent_method meth r"
  "agent_method meth (if b then r else r') \<longleftrightarrow> (if b then agent_method meth r else agent_method meth r')"
  by (simp_all add: agent_method_def for_methods_def)

lemma agent_outcomes:
  "pred_option P x \<Longrightarrow> pred_option P y \<Longrightarrow> pred_option P (if b then x else y)"
  "P r \<Longrightarrow> pred_option P (Some r)" "pred_option P None"
  by simp_all

lemma agent_method_parts [simp]:
  "agent_method meth (classify_snapshot meth segs)" "agent_method meth (classify_pit meth segs)"
  "agent_method meth (classify_scroll meth)" "agent_method meth (get_only meth n BestEffort)"
  "agent_method meth (get_only meth n Implemented)" "agent_method meth (get_or_put meth n n')"
  "agent_method meth (classify_pipeline meth k n n' n'')"
  by (simp_all add: classify_snapshot_def classify_pit_def classify_scroll_def get_only_def
      get_or_put_def classify_pipeline_def for_methods_def Let_def)

lemma agent_method_groups: "list_all (pred_option (agent_method meth)) (classify_groups meth path segs)"
  unfolding classify_groups_def list.pred_inject classify_control_def classify_cluster_def classify_read_apis_def
    classify_bulk_and_search_def classify_by_query_def classify_counts_def classify_index_meta_def
    classify_templates_def classify_pipelines_def classify_aliases_def classify_documents_def Let_def
  by (intro conjI TrueI agent_outcomes) simp_all

lemma classify_agent_method:
  assumes "agent_routes_ok inventory"
  shows "agent_method meth (classify inventory meth path)"
proof -
  have "agent_method meth (classify_inventory inventory meth p)" for p
    using assms
    by (auto simp: classify_inventory_def agent_routes_ok_def list_all_iff find_Some_iff Let_def subset_iff split: option.splits)
  then show ?thesis
    by (simp add: classify_def Let_def first_some_list_all [OF agent_method_groups])
qed

lemma method_str_inject [simp]: "method_str meth = ''PUT'' \<longleftrightarrow> meth = PUT \<or> meth = Extension ''PUT''"
  "method_str meth = ''POST'' \<longleftrightarrow> meth = POST \<or> meth = Extension ''POST''"
  "method_str meth = ''DELETE'' \<longleftrightarrow> meth = DELETE \<or> meth = Extension ''DELETE''"
  by (cases meth; simp)+

text \<open>An extension method never has the name of a standard one.\<close>

definition standard_names :: "string list" where
  "standard_names = [''GET'', ''HEAD'', ''POST'', ''PUT'', ''DELETE'', ''PATCH'', ''OPTIONS'', ''CONNECT'', ''TRACE'']"

definition method_ok :: "http_method \<Rightarrow> bool" where
  "method_ok meth \<longleftrightarrow> (\<forall>name \<in> set standard_names. meth \<noteq> Extension name)"

lemma writing_needs_method:
  assumes "plain_path path" and "agent_routes_ok inventory" and "method_ok meth"
    and "handler_writes meth (handle_request inventory cfg sc meth path)"
  shows "meth \<in> writing_methods"
proof -
  let ?r = "classify inventory meth path"
  have h: "handler_writes meth (handle_classified_request cfg meth path ?r)"
    using assms(4) by (auto simp: handle_request_def Let_def split: sum.splits)
  then consider "rm_tier ?r = Implemented" "handler_writes meth (handle_implemented meth path (rm_api_name ?r))"
    | "rm_tier ?r = AgentWrite"
    by (auto simp: handle_classified_request_def split: option.splits Tier.splits)
  then show ?thesis
  proof cases
    case 1
    from implemented_writes_need_method [OF assms(1) this] show ?thesis .
  next
    case 2
    with classify_agent_method [OF assms(2)] assms(3) show ?thesis
      by (auto simp: agent_method_def writing_methods_def method_ok_def standard_names_def)
  qed
qed

subsection \<open>The generated inventory\<close>

text \<open>
  What the specification has to say for the inventory to be as assumed: the one API left to the agent has a writing
  method and no reading one, and the read APIs are not PUT or DELETE on a path of one segment.
\<close>

definition spec_routes :: "(string \<times> json) list \<Rightarrow> ApiRoute list" where
  "spec_routes spec_files = concat (map (\<lambda>(name, v). if is_spec_file name then routes_for_file v else []) spec_files)"

definition spec_ok :: "(string \<times> json) list \<Rightarrow> bool" where
  "spec_ok spec_files \<longleftrightarrow> list_all (\<lambda>r.
       (is_write_fallback_api (ar_name r) \<longrightarrow> ar_methods r \<noteq> [] \<and> set (ar_methods r) \<subseteq> {''PUT'', ''POST'', ''DELETE''})
     \<and> (is_read_api (ar_name r) \<longrightarrow> list_all (\<lambda>p. length (path_parts p) = 1 \<longrightarrow>
          ''PUT'' \<notin> set (ar_methods r) \<and> ''DELETE'' \<notin> set (ar_methods r)) (ar_paths r)))
     (spec_routes spec_files)"

lemma route_of_fields:
  assumes "r \<in> set (routes_for_file v)"
  shows "ar_tier r = tier_for (ar_name r) (ar_methods r) \<and> ar_access r = access_for (ar_name r) (ar_methods r)"
  using assms
  by (auto simp: routes_for_file_def route_of_def List.map_filter_def Let_def
      split: json.splits list.splits option.splits prod.splits)

lemma tier_for_agent: "tier_for name methods = AgentWrite \<Longrightarrow> is_write_fallback_api name"
  by (auto simp: tier_for_def split: if_splits)

lemma access_for_read: "access_for name methods = ReadAccess \<Longrightarrow> is_read_api name \<or> only_reads_methods methods"
  by (auto simp: access_for_def split: if_splits)

lemma fallback_is_no_read_api: "is_write_fallback_api name \<Longrightarrow> \<not> is_read_api name"
  by (auto simp: is_write_fallback_api_def is_read_api_def read_api_names_def starts_with_def)

lemma only_reads_methods_writes: "only_reads_methods ms \<Longrightarrow> ''PUT'' \<notin> set ms \<and> ''DELETE'' \<notin> set ms"
  unfolding only_reads_methods_def by (induction ms) auto

lemma generated_inventory_ok:
  assumes "spec_ok spec_files"
  shows "inventory_ok (generated_inventory spec_files)" and "agent_routes_ok (generated_inventory spec_files)"
proof -
  have mem: "set (generated_inventory spec_files) = set (spec_routes spec_files) \<union> set manual_routes"
    by (simp add: generated_inventory_def spec_routes_def)
  have fields: "ar_tier r = tier_for (ar_name r) (ar_methods r) \<and> ar_access r = access_for (ar_name r) (ar_methods r)"
    if "r \<in> set (spec_routes spec_files)" for r
    using that by (auto simp: spec_routes_def route_of_fields split: if_splits)
  have ok: "(is_write_fallback_api (ar_name r) \<longrightarrow> ar_methods r \<noteq> [] \<and> set (ar_methods r) \<subseteq> {''PUT'', ''POST'', ''DELETE''})
      \<and> (is_read_api (ar_name r) \<longrightarrow> list_all (\<lambda>p. length (path_parts p) = 1 \<longrightarrow>
          ''PUT'' \<notin> set (ar_methods r) \<and> ''DELETE'' \<notin> set (ar_methods r)) (ar_paths r))"
    if "r \<in> set (spec_routes spec_files)" for r
    using assms that unfolding spec_ok_def list_all_iff by blast
  have manual: "ar_tier r = Mocked" if "r \<in> set manual_routes" for r
    using that by (auto simp: manual_routes_def)
  show "agent_routes_ok (generated_inventory spec_files)"
    unfolding agent_routes_ok_def list_all_iff mem using fields ok manual tier_for_agent by (metis Tier.distinct Un_iff)
  have agent: "ar_access r \<noteq> ReadAccess" if "r \<in> set (spec_routes spec_files)" "ar_tier r = AgentWrite" for r
  proof
    assume "ar_access r = ReadAccess"
    with that fields have fallback: "is_write_fallback_api (ar_name r)" and "is_read_api (ar_name r) \<or> only_reads_methods (ar_methods r)"
      using tier_for_agent access_for_read by metis+
    with fallback_is_no_read_api have "only_reads_methods (ar_methods r)" by blast
    with ok [OF that(1)] fallback show False by (cases "ar_methods r") (auto simp: only_reads_methods_def)
  qed
  have paths: "list_all (\<lambda>p. length (path_parts p) = 1 \<longrightarrow> ''PUT'' \<notin> set (ar_methods r) \<and> ''DELETE'' \<notin> set (ar_methods r)) (ar_paths r)"
    if "r \<in> set (spec_routes spec_files)" "ar_access r = ReadAccess" for r
  proof (cases "is_read_api (ar_name r)")
    case True
    with ok [OF that(1)] show ?thesis by blast
  next
    case False
    with fields [OF that(1)] that(2) have "only_reads_methods (ar_methods r)" using access_for_read by metis
    then have "''PUT'' \<notin> set (ar_methods r)" "''DELETE'' \<notin> set (ar_methods r)"
      using only_reads_methods_writes by blast+
    then show ?thesis by (simp add: list_all_iff)
  qed
  show "inventory_ok (generated_inventory spec_files)"
    unfolding inventory_ok_def list_all_iff [of _ "generated_inventory spec_files"] mem
  proof (intro ballI impI conjI)
    fix r assume r: "r \<in> set (spec_routes spec_files) \<union> set manual_routes" "ar_access r = ReadAccess"
    show "ar_tier r \<noteq> AgentWrite" using r agent manual by fastforce
    assume "ar_tier r = Implemented"
    with r manual have "r \<in> set (spec_routes spec_files)" by fastforce
    from paths [OF this r(2)]
    show "list_all (\<lambda>p. length (path_parts p) = 1 \<longrightarrow> ''PUT'' \<notin> set (ar_methods r) \<and> ''DELETE'' \<notin> set (ar_methods r)) (ar_paths r)" .
  qed
qed

end
