(* ===== verification/FrontEnd.thy ===== *)
theory FrontEnd
  imports Server Config MethodSafety
begin

section \<open>The front end\<close>

text \<open>
  What a request passes before it is classified: authentication (\<open>src/security/authn.rs\<close>, \<open>src/security/users.rs\<close>,
  \<open>src/security/mod.rs\<close>), the body limit (\<open>src/http/body.rs\<close>) and the guards of \<open>src/http/router.rs\<close> against requests
  a browser was made to send. Third-party code is the record \<open>FrontLink\<close>: whether a header value is text, base64, the
  parser of URLs, the verifier of password hashes and the derived deserializer of the users file. The delay after
  a failed authentication is left out.
\<close>

record UserEntry =
  ue_username :: string
  ue_password_hash :: string
  ue_roles :: "Role list"

record FrontLink =
  fe_is_text :: "string \<Rightarrow> bool"
  fe_base64 :: "string \<Rightarrow> string option"
  fe_parse_url :: url_parser
  fe_hash_ok :: "string \<Rightarrow> bool"
  fe_verify_password :: "string \<Rightarrow> string \<Rightarrow> bool"
  fe_decode_users :: "string \<Rightarrow> UserEntry list option"

text \<open>A request as the server library hands it over: the query string is decoded, the headers are in order, a name
  may occur more than once.\<close>

record HttpRequest =
  hq_method :: http_method
  hq_path :: string
  hq_query :: "(string \<times> string) list"
  hq_headers :: "(string \<times> string) list"
  hq_body :: string

subsection \<open>Users\<close>

record UserRecord =
  ur_password_hash :: string
  ur_roles :: "Role list"

type_synonym UserStore = "(string, UserRecord) btree"

fun add_users :: "FrontLink \<Rightarrow> UserEntry list \<Rightarrow> UserStore \<Rightarrow> (string, UserStore) result" where
  "add_users fe [] users = Inr users"
| "add_users fe (entry # entries) users =
     (if blank (ue_username entry) then Inl ''users file contains a user with an empty username''
      else if ue_roles entry = [] then Inl (''user ['' @ ue_username entry @ ''] must have at least one role'')
      else if \<not> fe_hash_ok fe (ue_password_hash entry) then
        Inl (''user ['' @ ue_username entry @ ''] has an invalid PHC password hash'')
      else if bt_has users (ue_username entry) then
        Inl (''duplicate user ['' @ ue_username entry @ ''] in users file'')
      else add_users fe entries
        (bt_insert (ue_username entry) \<lparr>ur_password_hash = ue_password_hash entry, ur_roles = ue_roles entry\<rparr> users))"

definition users_from_json :: "FrontLink \<Rightarrow> string \<Rightarrow> (string, UserStore) result" where
  "users_from_json fe raw =
     (case fe_decode_users fe raw of
        None \<Rightarrow> Inl ''failed to parse users file JSON''
      | Some entries \<Rightarrow>
          if entries = [] then Inl ''users file must contain at least one user'' else add_users fe entries [])"

definition verify_user :: "FrontLink \<Rightarrow> UserStore \<Rightarrow> string \<Rightarrow> string \<Rightarrow> Principal option" where
  "verify_user fe users username password =
     Option.bind (bt_get users username) (\<lambda>r.
       if fe_hash_ok fe (ur_password_hash r) \<and> fe_verify_password fe password (ur_password_hash r)
       then Some \<lparr>pr_username = username, pr_roles = ur_roles r\<rparr> else None)"

subsection \<open>The security state\<close>

record SecurityState =
  ay_mode :: SecurityMode
  ay_users :: "UserStore option"

text \<open>The users file is its contents, if it can be read.\<close>

definition SecurityState_from_config :: "FrontLink \<Rightarrow> (string \<Rightarrow> string option) \<Rightarrow> Config \<Rightarrow> (string, SecurityState) result" where
  "SecurityState_from_config fe read_file cf =
     and_then (case sy_users_file (cf_security cf) of
         None \<Rightarrow> Inr None
       | Some path \<Rightarrow>
           (case read_file path of
              None \<Rightarrow> Inl (''failed to read users file '' @ path)
            | Some raw \<Rightarrow> and_then (users_from_json fe raw) (\<lambda>users. Inr (Some users)))) (\<lambda>users.
       Inr \<lparr>ay_mode =
              (if users \<noteq> None then Secured
               else if \<not> is_loopback (sa_ip (cf_listen cf)) \<and> sy_allow_insecure_non_loopback (cf_security cf)
                 then InsecureNonLoopback
               else DisabledLoopback),
            ay_users = users\<rparr>)"

definition disabled_loopback :: SecurityContext where
  "disabled_loopback = \<lparr>sc_mode = DisabledLoopback, sc_principal = None, sc_client_cert_verified = False\<rparr>"

definition insecure_non_loopback :: SecurityContext where
  "insecure_non_loopback = \<lparr>sc_mode = InsecureNonLoopback, sc_principal = None, sc_client_cert_verified = False\<rparr>"

definition secured :: "Principal \<Rightarrow> bool \<Rightarrow> SecurityContext" where
  "secured user client_cert_verified =
     \<lparr>sc_mode = Secured, sc_principal = Some user, sc_client_cert_verified = client_cert_verified\<rparr>"

subsection \<open>Authentication\<close>

definition authentication_error :: "string \<Rightarrow> Response" where
  "authentication_error reason =
     with_header ''www-authenticate'' (''Basic realm='' @ [CHR 0x22] @ ''mainstack-search'' @ [CHR 0x22])
       (open_search_error 401 ''security_exception'' reason)"

definition header_values :: "(string \<times> string) list \<Rightarrow> string \<Rightarrow> string list" where
  "header_values headers name = map snd (filter (\<lambda>(n, _). n = name) headers)"

definition invalid_credentials :: Response where
  "invalid_credentials = authentication_error ''Authorization header contains invalid Basic credentials''"

definition decode_credentials :: "FrontLink \<Rightarrow> string \<Rightarrow> (Response, string \<times> string) result" where
  "decode_credentials fe val =
     (if \<not> fe_is_text fe val then Inl (authentication_error ''Authorization header must be valid UTF-8'')
      else and_then (ok_or (authentication_error ''Authorization header must use HTTP Basic'') (strip_prefix ''Basic '' val)) (\<lambda>encoded.
           and_then (ok_or invalid_credentials (fe_base64 fe encoded)) (\<lambda>decoded.
             if \<not> utf8_valid decoded then Inl invalid_credentials
             else and_then (ok_or invalid_credentials (split_once (CHR '':'') decoded)) (\<lambda>(username, password).
               if username = [] then Inl (authentication_error ''username cannot be empty'')
               else Inr (username, password)))))"

definition basic_credentials :: "FrontLink \<Rightarrow> (string \<times> string) list \<Rightarrow> (Response, string \<times> string) result" where
  "basic_credentials fe headers =
     (case header_values headers ''authorization'' of
        [] \<Rightarrow> Inl (authentication_error ''missing Authorization header'')
      | [val] \<Rightarrow> decode_credentials fe val
      | _ \<Rightarrow> Inl (authentication_error ''multiple Authorization headers are not allowed''))"

definition authenticate_headers ::
    "FrontLink \<Rightarrow> Config \<Rightarrow> SecurityState \<Rightarrow> (string \<times> string) list \<Rightarrow> (Response, SecurityContext) result" where
  "authenticate_headers fe cf ay headers =
     (case ay_users ay of
        None \<Rightarrow> Inr (if ay_mode ay = InsecureNonLoopback then insecure_non_loopback else disabled_loopback)
      | Some users \<Rightarrow>
          and_then (basic_credentials fe headers) (\<lambda>(username, password).
            case verify_user fe users username password of
              Some user \<Rightarrow> Inr (secured user (sy_require_client_cert (cf_security cf)))
            | None \<Rightarrow> Inl (authentication_error ''invalid username or password'')))"

subsection \<open>Guards\<close>

text \<open>\<open>Request::from_parts_with_security\<close>: values that are not text are left out, the last one of a name stays.\<close>

definition request_headers :: "FrontLink \<Rightarrow> (string \<times> string) list \<Rightarrow> (string, string) btree" where
  "request_headers fe headers =
     fold (\<lambda>(name, val) m. if fe_is_text fe val then bt_insert (to_ascii_lowercase name) val m else m) headers []"

definition ensure_body_limit :: "string \<Rightarrow> nat \<Rightarrow> (Response, unit) result" where
  "ensure_body_limit body limit =
     (if length body > limit then
        Inl (open_search_error 413 ''content_too_long_exception''
          (''request body is '' @ show_nat (length body) @ '' bytes, which exceeds the configured limit of ''
           @ show_nat limit @ '' bytes''))
      else Inr ())"

definition is_state_changing_method :: "http_method \<Rightarrow> bool" where
  "is_state_changing_method meth \<longleftrightarrow> meth = POST \<or> meth = PUT \<or> meth = DELETE \<or> meth = PATCH"

definition write_content_type_is_json :: "string \<Rightarrow> bool" where
  "write_content_type_is_json content_type \<longleftrightarrow> to_ascii_lowercase content_type \<in> set
     [''application/json'', ''application/x-ndjson'', ''application/vnd.elasticsearch+json'',
      ''application/vnd.elasticsearch+x-ndjson'', ''application/vnd.opensearch+json'', ''application/vnd.opensearch+x-ndjson'']"

definition cross_site_error :: Response where
  "cross_site_error = open_search_error 403 ''mainstack_search_cross_site_request_exception'' ''cross-site browser request rejected''"

definition host_header_is_loopback :: "string \<Rightarrow> bool" where
  "host_header_is_loopback val =
     host_is_loopback
       (case Option.bind (strip_prefix ''['' val) (split_once (CHR '']'')) of
          Some (host, _) \<Rightarrow> host
        | None \<Rightarrow> hd (split_on (CHR '':'') val))"

definition origin_like_is_loopback :: "url_parser \<Rightarrow> string \<Rightarrow> bool" where
  "origin_like_is_loopback parse_url val =
     (case Option.bind (parse_url val) snd of Some host \<Rightarrow> host_is_loopback host | None \<Rightarrow> False)"

definition guard_host :: "Config \<Rightarrow> (string, string) btree \<Rightarrow> (Response, unit) result" where
  "guard_host cf headers =
     (if \<not> cf_allow_nonlocal_listen cf
         \<and> (case bt_get headers ''host'' of Some host \<Rightarrow> \<not> host_header_is_loopback host | None \<Rightarrow> False)
      then Inl (open_search_error 403 ''mainstack_search_host_rejected_exception'' ''request Host is not loopback'')
      else Inr ())"

definition foreign_origin :: "url_parser \<Rightarrow> (string, string) btree \<Rightarrow> bool" where
  "foreign_origin parse_url headers \<longleftrightarrow>
     (case bt_get headers ''sec-fetch-site'' of
        Some site \<Rightarrow> site = ''cross-site'' \<or> site = ''same-site''
      | None \<Rightarrow> False)
     \<or> list_ex (\<lambda>h. case bt_get headers h of Some v \<Rightarrow> \<not> origin_like_is_loopback parse_url v | None \<Rightarrow> False)
         [''origin'', ''referer'']"

definition content_type_of :: "(string, string) btree \<Rightarrow> string" where
  "content_type_of headers =
     (case bt_get headers ''content-type'' of Some v \<Rightarrow> trim (hd (split_on (CHR '';'') v)) | None \<Rightarrow> [])"

definition guard_request :: "url_parser \<Rightarrow> Config \<Rightarrow> (string, string) btree \<Rightarrow> http_method \<Rightarrow> string \<Rightarrow> (Response, unit) result" where
  "guard_request parse_url cf headers meth body =
     and_then (guard_host cf headers) (\<lambda>_.
       if \<not> is_state_changing_method meth then Inr ()
       else if foreign_origin parse_url headers then Inl cross_site_error
       else if body \<noteq> [] \<and> \<not> write_content_type_is_json (content_type_of headers) then
         Inl (open_search_error 415 ''mainstack_search_content_type_exception''
           ''write requests with bodies must use a JSON or NDJSON content type'')
       else Inr ())"

subsection \<open>A request from the connection to its response\<close>

definition plain_request :: "HttpRequest \<Rightarrow> Request" where
  "plain_request hq = \<lparr>rq_method = hq_method hq, rq_path = hq_path hq, rq_query = hq_query hq, rq_body = hq_body hq\<rparr>"

definition route_request ::
    "FrontLink \<Rightarrow> Config \<Rightarrow> Services \<Rightarrow> Moment \<Rightarrow> SecurityContext \<Rightarrow> HttpRequest \<Rightarrow> Server \<Rightarrow> (Server \<times> Response) option" where
  "route_request fe cf ss mo sc hq sv =
     (case and_then (ensure_body_limit (hq_body hq) (cf_max_body_bytes cf)) (\<lambda>_.
             guard_request (fe_parse_url fe) cf (request_headers fe (hq_headers hq)) (hq_method hq) (hq_body hq)) of
        Inl response \<Rightarrow> Some (sv, response)
      | Inr _ \<Rightarrow> serve ss mo sc (plain_request hq) sv)"

definition answer ::
    "FrontLink \<Rightarrow> Config \<Rightarrow> SecurityState \<Rightarrow> Services \<Rightarrow> Moment \<Rightarrow> HttpRequest \<Rightarrow> Server \<Rightarrow> (Server \<times> Response) option" where
  "answer fe cf ay ss mo hq sv =
     (case authenticate_headers fe cf ay (hq_headers hq) of
        Inl response \<Rightarrow> Some (sv, response)
      | Inr sc \<Rightarrow> route_request fe cf ss mo sc hq sv)"

end
