(* ===== verification/Tls.thy ===== *)
theory Tls
  imports Config
begin

section \<open>Certificates and keys\<close>

text \<open>
  \<open>src/security/tls.rs\<close>: what the files named on the command line have to hold and which connections the server is set
  up for. The parsers of the PEM files and the checks of the TLS library are the record \<open>TlsLink\<close>; certificates and keys
  stay opaque texts, the texts of that library's errors are left out.
\<close>

record TlsLink =
  tl_certs :: "string \<Rightarrow> string list option"
  tl_private_key :: "string \<Rightarrow> string option option"
  tl_root_ok :: "string \<Rightarrow> bool"
  tl_verifier_ok :: "string list \<Rightarrow> bool"
  tl_chain_ok :: "string list \<Rightarrow> string \<Rightarrow> bool"

text \<open>The configuration handed to the TLS library: the authorities a client certificate is checked against, if one is
  required, the own certificates, the key and the protocols.\<close>

record ServerTls =
  xt_client_roots :: "string list option"
  xt_cert_chain :: "string list"
  xt_key :: string
  xt_protocols :: "string list"

definition load_certs :: "TlsLink \<Rightarrow> (string \<Rightarrow> string option) \<Rightarrow> string \<Rightarrow> (string, string list) result" where
  "load_certs lnk read_file path =
     (case read_file path of
        None \<Rightarrow> Inl (''failed to read certificate file '' @ path)
      | Some contents \<Rightarrow>
          (case tl_certs lnk contents of
             None \<Rightarrow> Inl (''failed to parse certificate file '' @ path)
           | Some certs \<Rightarrow>
               if certs = [] then Inl (''certificate file '' @ path @ '' contained no certificates'') else Inr certs))"

definition load_key :: "TlsLink \<Rightarrow> (string \<Rightarrow> string option) \<Rightarrow> string \<Rightarrow> (string, string) result" where
  "load_key lnk read_file path =
     (case read_file path of
        None \<Rightarrow> Inl (''failed to read private key file '' @ path)
      | Some contents \<Rightarrow>
          and_then (ok_or (''failed to parse private key file '' @ path) (tl_private_key lnk contents)) (\<lambda>key.
            ok_or (''private key file '' @ path @ '' contained no private key'') key))"

definition optional_certs :: "TlsLink \<Rightarrow> (string \<Rightarrow> string option) \<Rightarrow> string option \<Rightarrow> (string, unit) result" where
  "optional_certs lnk read_file path =
     (case path of None \<Rightarrow> Inr () | Some p \<Rightarrow> and_then (load_certs lnk read_file p) (\<lambda>_. Inr ()))"

definition tls_validate :: "TlsLink \<Rightarrow> (string \<Rightarrow> string option) \<Rightarrow> SecurityConfig \<Rightarrow> (string, unit) result" where
  "tls_validate lnk read_file sy =
     and_then (case sy_tls sy of
         None \<Rightarrow> Inr ()
       | Some tls \<Rightarrow>
           and_then (load_certs lnk read_file (tls_cert_file tls)) (\<lambda>_.
           and_then (load_key lnk read_file (tls_key_file tls)) (\<lambda>_.
             optional_certs lnk read_file (tls_server_ca_file tls)))) (\<lambda>_.
       optional_certs lnk read_file (sy_client_cert_ca_file sy))"

definition client_roots :: "TlsLink \<Rightarrow> (string \<Rightarrow> string option) \<Rightarrow> SecurityConfig \<Rightarrow> (string, string list option) result" where
  "client_roots lnk read_file sy =
     (if \<not> sy_require_client_cert sy then Inr None
      else and_then (ok_or ''--require-client-cert requires --client-cert-ca-file'' (sy_client_cert_ca_file sy)) (\<lambda>ca_file.
           and_then (load_certs lnk read_file ca_file) (\<lambda>roots.
             if \<not> list_all (tl_root_ok lnk) roots then Inl ''failed to add client certificate CA''
             else if \<not> tl_verifier_ok lnk roots then Inl ''invalid client certificate CA''
             else Inr (Some roots))))"

definition rustls_config :: "TlsLink \<Rightarrow> (string \<Rightarrow> string option) \<Rightarrow> SecurityConfig \<Rightarrow> (string, ServerTls option) result" where
  "rustls_config lnk read_file sy =
     (case sy_tls sy of
        None \<Rightarrow> Inr None
      | Some tls \<Rightarrow>
          and_then (load_certs lnk read_file (tls_cert_file tls)) (\<lambda>cert_chain.
          and_then (load_key lnk read_file (tls_key_file tls)) (\<lambda>key.
          and_then (client_roots lnk read_file sy) (\<lambda>roots.
            if \<not> tl_chain_ok lnk cert_chain key then Inl ''the certificate does not fit the key''
            else Inr (Some \<lparr>xt_client_roots = roots, xt_cert_chain = cert_chain, xt_key = key,
                            xt_protocols = [''h2'', ''http/1.1'']\<rparr>)))))"

end
