(* ===== verification/Startup.thy ===== *)
theory Startup
  imports FrontEnd Tls
begin

section \<open>Starting the server\<close>

text \<open>
  \<open>src/resources.rs\<close>, \<open>AppState::new\<close> and \<open>run\<close> of \<open>src/server.rs\<close>, and \<open>main\<close>: from the command line to the state
  requests run on. What the start reads of its surroundings is the record \<open>World\<close>; sockets and the messages on the
  console are left out.
\<close>

subsection \<open>Memory\<close>

definition DEFAULT_RESERVED_OVERHEAD_BYTES :: nat where
  "DEFAULT_RESERVED_OVERHEAD_BYTES = 128 * 1024 * 1024"

definition CGROUP_UNBOUNDED_LIMIT :: nat where
  "CGROUP_UNBOUNDED_LIMIT = 2 ^ 60"

record ResourceDiagnostics =
  rd_configured_memory_limit_bytes :: nat
  rd_detected_container_limit_bytes :: "nat option"
  rd_reserved_overhead_bytes :: nat
  rd_effective_safe_memory_bytes :: "nat option"
  rd_snapshot_estimated_stored_bytes :: "nat option"
  rd_snapshot_document_count :: "nat option"
  rd_snapshot_index_count :: "nat option"

datatype StartError =
    ConfigProblem ConfigError
  | MetadataUnreadable io_error
  | MemoryLimitAboveContainer nat nat
  | SnapshotAboveMemoryLimit nat nat
  | SnapshotAboveContainer nat nat
  | StoreUnreadable io_error
  | UsersUnusable string
  | TlsUnusable string
  | ValidateOnly

text \<open>The contents of a cgroup file, or nothing if it cannot be read.\<close>

definition read_cgroup_limit :: "string option \<Rightarrow> nat option" where
  "read_cgroup_limit contents =
     Option.bind contents (\<lambda>c.
       let trimmed = trim c
       in if trimmed = [] \<or> trimmed = ''max'' then None
          else Option.bind (parse_u64 trimmed) (\<lambda>limit.
            if limit = 0 \<or> limit \<ge> CGROUP_UNBOUNDED_LIMIT then None else Some limit))"

definition cgroup_candidates :: "string list" where
  "cgroup_candidates = [''/sys/fs/cgroup/memory.max'', ''/sys/fs/cgroup/memory/memory.limit_in_bytes'',
     ''/sys/fs/cgroup/memory.limit_in_bytes'']"

definition detect_container_memory_limit :: "(string \<Rightarrow> string option) \<Rightarrow> nat option" where
  "detect_container_memory_limit read_file =
     (let limits = List.map_filter (\<lambda>path. read_cgroup_limit (read_file path)) cgroup_candidates
      in if limits = [] then None else Some (Min (set limits)))"

definition effective_safe_memory :: "nat \<Rightarrow> nat" where
  "effective_safe_memory limit = max (limit - DEFAULT_RESERVED_OVERHEAD_BYTES) (limit div 2)"

definition validate_diagnostics :: "ResourceDiagnostics \<Rightarrow> (StartError, unit) result" where
  "validate_diagnostics d =
     (let configured = rd_configured_memory_limit_bytes d;
          above = (\<lambda>n safe. case safe of Some s \<Rightarrow> n > s | None \<Rightarrow> False);
          safe = rd_effective_safe_memory_bytes d
      in if above configured safe then Inl (MemoryLimitAboveContainer configured (the safe))
         else case rd_snapshot_estimated_stored_bytes d of
           None \<Rightarrow> Inr ()
         | Some stored \<Rightarrow>
             if stored > configured then Inl (SnapshotAboveMemoryLimit stored configured)
             else if above stored safe then Inl (SnapshotAboveContainer stored (the safe))
             else Inr ())"

definition resource_diagnostics :: "Config \<Rightarrow> nat option \<Rightarrow> SnapshotMetadata option \<Rightarrow> ResourceDiagnostics" where
  "resource_diagnostics cf container metadata =
     \<lparr>rd_configured_memory_limit_bytes = cf_memory_limit_bytes cf, rd_detected_container_limit_bytes = container,
      rd_reserved_overhead_bytes = DEFAULT_RESERVED_OVERHEAD_BYTES,
      rd_effective_safe_memory_bytes = map_option effective_safe_memory container,
      rd_snapshot_estimated_stored_bytes = map_option sm_estimated_stored_bytes metadata,
      rd_snapshot_document_count = map_option sm_document_count metadata,
      rd_snapshot_index_count = map_option sm_index_count metadata\<rparr>"

definition validate_resources :: "Codec \<Rightarrow> (string \<Rightarrow> string option) \<Rightarrow> Config \<Rightarrow> Files \<Rightarrow> (StartError, ResourceDiagnostics) result" where
  "validate_resources cd read_file cf files =
     (case (if cf_ephemeral cf then Inr None else read_metadata cd files) of
        Inl e \<Rightarrow> Inl (MetadataUnreadable e)
      | Inr metadata \<Rightarrow>
          let d = resource_diagnostics cf (detect_container_memory_limit read_file) metadata
          in and_then (validate_diagnostics d) (\<lambda>_. Inr d))"

subsection \<open>The state of the server\<close>

record World =
  wo_front :: FrontLink
  wo_tls :: TlsLink
  wo_codec :: Codec
  wo_text :: TextOps
  wo_parse :: json_parse
  wo_db_vec :: "Database \<Rightarrow> string option"
  wo_repository_codec :: RepositoryCodec
  wo_alphanumeric :: "string \<Rightarrow> bool"
  wo_agent_link :: AgentLink
  wo_specification :: "(string \<times> json) list"
  wo_read_file :: "string \<Rightarrow> string option"
  wo_ip_text :: "IpAddr \<Rightarrow> string"
  wo_address_text :: "SocketAddr \<Rightarrow> string"

text \<open>A running server: what requests change, and what is fixed.\<close>

record Running =
  ru_server :: Server
  ru_services :: Services
  ru_config :: Config
  ru_security :: SecurityState
  ru_tls :: "ServerTls option"

definition setup_of :: "World \<Rightarrow> Config \<Rightarrow> Setup" where
  "setup_of w cf =
     \<lparr>su_codec = wo_codec w,
      su_limits = \<lparr>max_indexes = cf_max_indexes cf, max_documents = cf_max_documents cf, memory_limit_bytes = cf_memory_limit_bytes cf\<rparr>,
      su_policy = \<lparr>write_threshold = cf_snapshot_write_threshold cf, interval = cf_snapshot_interval_secs cf\<rparr>\<rparr>"

definition agent_from_config :: "AgentConfig \<Rightarrow> AgentClient" where
  "agent_from_config cfg = (if ac_endpoint cfg \<noteq> None then ClientHttp else ClientDisabled)"

definition services_of :: "World \<Rightarrow> Config \<Rightarrow> Services" where
  "services_of w cf =
     \<lparr>ss_setup = setup_of w cf,
      ss_search = \<lparr>sg_text = wo_text w, sg_parse = wo_parse w,
        sg_runtime = \<lparr>rc_tv = cd_to_vec (wo_codec w), rc_db_vec = wo_db_vec w, rc_memory_limit = cf_memory_limit_bytes cf,
          rc_max_result_window = cf_max_result_window cf\<rparr>\<rparr>,
      ss_max_bulk_actions = cf_max_bulk_actions cf, ss_ephemeral = cf_ephemeral cf,
      ss_repository_codec = wo_repository_codec w,
      ss_node = \<lparr>ni_advertised_version = cf_advertised_version cf, ni_ip = wo_ip_text w (sa_ip (cf_listen cf)),
        ni_publish_address = wo_address_text w (cf_listen cf)\<rparr>,
      ss_alphanumeric = wo_alphanumeric w, ss_agent_link = wo_agent_link w, ss_agent_config = cf_agent cf,
      ss_agent_client = agent_from_config (cf_agent cf),
      ss_dispatch = \<lparr>dc_strict = cf_strict_compatibility cf, dc_allowlist = cf_strict_allowlist cf\<rparr>,
      ss_inventory = generated_inventory (wo_specification w)\<rparr>"

definition config_checked :: "'a config_result \<Rightarrow> (StartError, 'a) result" where
  "config_checked r = (case r of Inl e \<Rightarrow> Inl (ConfigProblem e) | Inr x \<Rightarrow> Inr x)"

definition validate_state_security :: "url_parser \<Rightarrow> Config \<Rightarrow> (StartError, unit) result" where
  "validate_state_security parse_url cf =
     (if \<not> cf_allow_nonlocal_listen cf \<and> \<not> is_loopback (sa_ip (cf_listen cf)) then
        Inl (ConfigProblem (Rejected ''--listen is not loopback; pass --allow-nonlocal-listen and configure TLS/auth for workgroup use''))
      else config_checked (and_then (AgentConfig_validate parse_url (cf_agent cf)) (\<lambda>_.
             validate_posture (cf_security cf) (cf_listen cf) (cf_allow_nonlocal_listen cf))))"

definition users_checked :: "(string, 'a) result \<Rightarrow> (StartError, 'a) result" where
  "users_checked r = (case r of Inl e \<Rightarrow> Inl (UsersUnusable e) | Inr x \<Rightarrow> Inr x)"

definition tls_checked :: "(string, 'a) result \<Rightarrow> (StartError, 'a) result" where
  "tls_checked r = (case r of Inl e \<Rightarrow> Inl (TlsUnusable e) | Inr x \<Rightarrow> Inr x)"

text \<open>The snapshot repositories found on disk are part of the state from the start.\<close>

definition AppState_new :: "World \<Rightarrow> Env \<Rightarrow> Config \<Rightarrow> Files \<Rightarrow> Repositories \<Rightarrow> (StartError, Running) result" where
  "AppState_new w env cf files repos =
     and_then (validate_state_security (fe_parse_url (wo_front w)) cf) (\<lambda>_.
     and_then (validate_resources (wo_codec w) (wo_read_file w) cf files) (\<lambda>_.
     and_then (case snd (Store_open (setup_of w cf) env (cf_ephemeral cf) files) of
                 Inl e \<Rightarrow> Inl (StoreUnreadable e) | Inr s \<Rightarrow> Inr s) (\<lambda>s.
     and_then (users_checked (SecurityState_from_config (wo_front w) (wo_read_file w) cf)) (\<lambda>ay.
       Inr \<lparr>ru_server = \<lparr>sv_store = s, sv_runtime = RuntimeState_default, sv_repositories = repos\<rparr>,
            ru_services = services_of w cf, ru_config = cf, ru_security = ay, ru_tls = None\<rparr>))))"

definition validate_security :: "World \<Rightarrow> Config \<Rightarrow> (StartError, unit) result" where
  "validate_security w cf =
     and_then (tls_checked (tls_validate (wo_tls w) (wo_read_file w) (cf_security cf))) (\<lambda>_.
     and_then (tls_checked (rustls_config (wo_tls w) (wo_read_file w) (cf_security cf))) (\<lambda>_.
     and_then (users_checked (SecurityState_from_config (wo_front w) (wo_read_file w) cf)) (\<lambda>_. Inr ())))"

definition validate_config :: "World \<Rightarrow> Config \<Rightarrow> Files \<Rightarrow> (StartError, unit) result" where
  "validate_config w cf files =
     and_then (config_checked (Config_validate (fe_parse_url (wo_front w)) cf)) (\<lambda>_.
     and_then (validate_resources (wo_codec w) (wo_read_file w) cf files) (\<lambda>_.
       validate_security w cf))"

text \<open>\<open>run\<close>, up to the sockets: a server that accepts connections.\<close>

definition run_config :: "World \<Rightarrow> Env \<Rightarrow> Config \<Rightarrow> Files \<Rightarrow> Repositories \<Rightarrow> (StartError, Running) result" where
  "run_config w env cf files repos =
     and_then (validate_config w cf files) (\<lambda>_.
     and_then (AppState_new w env cf files repos) (\<lambda>ru.
     and_then (tls_checked (rustls_config (wo_tls w) (wo_read_file w) (cf_security cf))) (\<lambda>tls.
       Inr (ru\<lparr>ru_tls := tls\<rparr>))))"

text \<open>\<open>main\<close>.\<close>

definition start_server :: "World \<Rightarrow> Env \<Rightarrow> string list \<Rightarrow> Files \<Rightarrow> Repositories \<Rightarrow> (StartError, Running) result" where
  "start_server w env args files repos =
     and_then (config_checked (from_args (fe_parse_url (wo_front w)) args)) (\<lambda>cf.
       if sy_validate_only (cf_security cf) then and_then (validate_config w cf files) (\<lambda>_. Inl ValidateOnly)
       else run_config w env cf files repos)"

text \<open>One request to a running server.\<close>

definition run_request :: "World \<Rightarrow> Moment \<Rightarrow> HttpRequest \<Rightarrow> Running \<Rightarrow> (Running \<times> Response) option" where
  "run_request w mo hq ru =
     map_option (\<lambda>(sv, response). (ru\<lparr>ru_server := sv\<rparr>, response))
       (answer (wo_front w) (ru_config ru) (ru_security ru) (ru_services ru) mo hq (ru_server ru))"

end
