(* ===== verification/FrontProperties.thy ===== *)
theory FrontProperties
  imports Startup ServerSafety Samples
begin

section \<open>Properties of the front end\<close>

text \<open>The claims about a server from its command line to its responses: what a configuration that is accepted looks
  like, who is let in, and what requests of other sites can do; with witnesses on the sample server.\<close>

subsection \<open>What the command line can ask for\<close>

text \<open>The ranges of the values, which every flag keeps.\<close>

definition values_ok :: "Config \<Rightarrow> bool" where
  "values_ok cf \<longleftrightarrow>
     cf_memory_limit_bytes cf \<le> usize_max \<and> cf_max_body_bytes cf \<le> usize_max
     \<and> list_all (\<lambda>n. 0 < n \<and> n \<le> usize_max)
         [cf_max_bulk_actions cf, cf_max_result_window cf, cf_max_indexes cf, cf_max_documents cf,
          cf_snapshot_write_threshold cf, cf_snapshot_interval_secs cf, cf_connection_limit cf]
     \<and> ac_context_limit_bytes (cf_agent cf) \<le> usize_max \<and> ac_response_limit_bytes (cf_agent cf) \<le> usize_max
     \<and> 0 < ac_timeout_millis (cf_agent cf) \<and> ac_timeout_millis (cf_agent cf) \<le> usize_max
     \<and> 0 < ac_confidence_threshold (cf_agent cf) \<and> ac_confidence_threshold (cf_agent cf) \<le> 100"

lemma parse_u64_le: "parse_u64 s = Some n \<Longrightarrow> n \<le> usize_max"
  by (auto simp: parse_u64_def Let_def split: if_splits)

lemma parse_bytes_le: "parse_bytes s = Inr n \<Longrightarrow> n \<le> usize_max"
  by (auto simp: parse_bytes_def Let_def split: if_splits option.splits prod.splits)

lemma parse_positive_bounds: "parse_positive flag s = Inr n \<Longrightarrow> 0 < n \<and> n \<le> usize_max"
  by (auto simp: parse_positive_def dest: parse_u64_le split: if_splits option.splits)

lemma and_then_Inr: "and_then r f = Inr y \<longleftrightarrow> (\<exists>x. r = Inr x \<and> f x = Inr y)"
  by (cases r) auto

definition keeps_values :: "(Config \<Rightarrow> Config) \<Rightarrow> bool" where
  "keeps_values f \<longleftrightarrow> (\<forall>cf. values_ok cf \<longrightarrow> values_ok (f cf))"

definition setter_ok :: "setter \<Rightarrow> bool" where
  "setter_ok set_flag \<longleftrightarrow> (\<forall>flag val cf cf'. values_ok cf \<longrightarrow> set_flag flag val cf = Inr cf' \<longrightarrow> values_ok cf')"

lemma update_agent_ok:
  "(\<And>a. ac_context_limit_bytes a \<le> usize_max \<Longrightarrow> ac_response_limit_bytes a \<le> usize_max \<Longrightarrow> 0 < ac_timeout_millis a
      \<Longrightarrow> ac_timeout_millis a \<le> usize_max \<Longrightarrow> 0 < ac_confidence_threshold a \<Longrightarrow> ac_confidence_threshold a \<le> 100 \<Longrightarrow>
      ac_context_limit_bytes (f a) \<le> usize_max \<and> ac_response_limit_bytes (f a) \<le> usize_max \<and> 0 < ac_timeout_millis (f a)
      \<and> ac_timeout_millis (f a) \<le> usize_max \<and> 0 < ac_confidence_threshold (f a) \<and> ac_confidence_threshold (f a) \<le> 100)
    \<Longrightarrow> keeps_values (update_agent f)"
  by (simp add: keeps_values_def values_ok_def update_agent_def)

lemma update_security_ok: "keeps_values (update_security f)"
  by (simp add: keeps_values_def values_ok_def update_security_def)

lemma setter_okI:
  "(\<And>n. n \<le> usize_max \<Longrightarrow> keeps_values (update n)) \<Longrightarrow> setter_ok (set_bytes update)"
  "(\<And>n. 0 < n \<Longrightarrow> n \<le> usize_max \<Longrightarrow> keeps_values (update n)) \<Longrightarrow> setter_ok (set_positive update)"
  "(\<And>v. keeps_values (update_text v)) \<Longrightarrow> setter_ok (set_text update_text)"
  "setter_ok set_listen"
  "setter_ok set_confidence"
  by (auto simp: setter_ok_def keeps_values_def set_bytes_def set_positive_def set_text_def set_listen_def set_confidence_def
      and_then_Inr dest!: parse_bytes_le parse_positive_bounds split: option.splits if_splits)
    (simp_all add: values_ok_def update_agent_def)

lemma switches_keep: "list_all (\<lambda>(_, switch). keeps_values switch) switches"
  unfolding switches_def list.pred_inject prod.case
  by (intro conjI TrueI update_agent_ok update_security_ok) (simp_all add: keeps_values_def values_ok_def)

lemma setters_keep: "list_all (\<lambda>(_, set_flag). setter_ok set_flag) setters"
  unfolding setters_def list.pred_inject prod.case
  by (intro conjI TrueI setter_okI update_agent_ok update_security_ok) (simp_all add: keeps_values_def values_ok_def)

lemma switches_ok:
  assumes "map_of switches flag = Some switch" and "values_ok cf"
  shows "values_ok (switch cf)"
  using switches_keep assms(2) map_of_SomeD [OF assms(1)] by (auto simp: list_all_iff keeps_values_def)

lemma setters_ok:
  assumes "map_of setters flag = Some set_flag" and "values_ok cf" and "set_flag flag val cf = Inr cf'"
  shows "values_ok cf'"
  using setters_keep assms(2,3) map_of_SomeD [OF assms(1)] by (auto simp: list_all_iff setter_ok_def)

lemma set_value_ok:
  assumes "values_ok (ag_config a)" and "set_value flag val a = Inr b"
  shows "values_ok (ag_config b)"
  using assms by (auto simp: set_value_def and_then_Inr dest: setters_ok split: if_splits option.splits)

lemma parse_args_ok:
  "parse_args args a = Inr b \<Longrightarrow> values_ok (ag_config a) \<Longrightarrow> values_ok (ag_config b)"
proof (induction args a rule: parse_args.induct)
  case (2 arg rest a)
  obtain flag inline where f: "split_flag_value arg = (flag, inline)" by (cases "split_flag_value arg")
  from 2(4) have arg: "utf8_valid arg" "\<not> (arg = ''--help'' \<or> arg = ''-h'')" by (auto split: if_splits)
  show ?case
  proof (cases "map_of switches flag")
    case (Some switch)
    with 2(4) f arg have "reject_inline_value flag inline = Inr ()"
      "parse_args rest (a\<lparr>ag_config := switch (ag_config a)\<rparr>) = Inr b"
      by (auto simp: and_then_Inr)
    with 2(3) f arg Some switches_ok [OF Some 2(5)] show ?thesis by simp
  next
    case None
    with 2(4) f arg have takes: "takes_value flag" by (auto split: if_splits)
    show ?thesis
    proof (cases inline)
      case Some
      with 2(4) f arg None takes obtain a' where "set_value flag (the inline) a = Inr a'" "parse_args rest a' = Inr b"
        by (auto simp: and_then_Inr)
      with 2(2) f arg None takes Some 2(5) set_value_ok show ?thesis by (metis option.sel)
    next
      case inline_none: None
      with 2(4) f arg None takes obtain val rest' a' where "rest = val # rest'" "utf8_valid val"
        "set_value flag val a = Inr a'" "parse_args rest' a' = Inr b"
        by (auto simp: and_then_Inr split: list.splits if_splits)
      with 2(1) f arg None takes inline_none 2(5) set_value_ok show ?thesis by metis
    qed
  qed
qed simp

lemma default_values_ok: "values_ok Config_default"
  by (simp add: values_ok_def Config_default_def AgentConfig_default_def usize_max_def)

lemma from_args_ok:
  assumes "from_args parse_url args = Inr cf"
  shows "values_ok cf" and "Config_validate parse_url cf = Inr ()"
proof -
  from assms obtain a where a: "parse_args (drop 1 args)
      \<lparr>ag_config = Config_default, ag_tls_cert_file = None, ag_tls_key_file = None, ag_tls_ca_file = None\<rparr> = Inr a"
    "tls_arguments a = Inr cf" and valid: "Config_validate parse_url cf = Inr ()"
    by (auto simp: from_args_def and_then_Inr)
  from parse_args_ok [OF a(1)] have "values_ok (ag_config a)" by (simp add: default_values_ok)
  with a(2) show "values_ok cf"
    using update_security_ok by (auto simp: tls_arguments_def keeps_values_def and_then_Inr split: if_splits)
  show "Config_validate parse_url cf = Inr ()" by (rule valid)
qed

definition endpoint_ok :: "url_parser \<Rightarrow> AgentConfig \<Rightarrow> bool" where
  "endpoint_ok parse_url cfg \<longleftrightarrow>
     pred_option (\<lambda>endpoint. pred_option (\<lambda>(scheme, host).
         scheme = ''https''
         \<or> scheme = ''http'' \<and> host \<noteq> None \<and> (host_is_loopback (the host) \<or> ac_allow_insecure_endpoint cfg))
       (parse_url endpoint) \<and> parse_url endpoint \<noteq> None) (ac_endpoint cfg)"

lemma agent_validate_ok:
  assumes "AgentConfig_validate parse_url cfg = Inr ()"
  shows "endpoint_ok parse_url cfg" and "0 < ac_context_limit_bytes cfg" and "0 < ac_response_limit_bytes cfg"
  using assms unfolding AgentConfig_validate_def validate_agent_endpoint_def endpoint_ok_def
  by (auto split: if_splits option.splits)

lemma posture_ok:
  assumes "validate_posture sy listen allow = Inr ()"
  shows "\<not> allow \<or> is_loopback (sa_ip listen) \<or> sy_allow_insecure_non_loopback sy \<or> sy_tls sy \<noteq> None \<and> sy_users_file sy \<noteq> None"
  using assms unfolding validate_posture_def by (auto split: if_splits bool.splits)

lemma Config_validate_ok:
  assumes "Config_validate parse_url cf = Inr ()"
  shows "0 < cf_max_body_bytes cf \<and> cf_max_body_bytes cf \<le> cf_memory_limit_bytes cf
    \<and> (cf_allow_nonlocal_listen cf \<or> is_loopback (sa_ip (cf_listen cf)))
    \<and> AgentConfig_validate parse_url (cf_agent cf) = Inr ()
    \<and> validate_posture (cf_security cf) (cf_listen cf) (cf_allow_nonlocal_listen cf) = Inr ()"
  using assms unfolding Config_validate_def by (simp add: and_then_Inr split: if_splits)

text \<open>C8. Whatever the command line, a configuration that is accepted is well-formed: its limits are positive and fit
  their machine integers, a body fits the memory, the agent is asked over TLS, on the own host or where that is
  allowed explicitly, and a server that other hosts can reach has TLS and users unless it was declared insecure.\<close>

theorem accepted_configuration_is_well_formed:
  assumes "from_args parse_url args = Inr cf"
  shows "values_ok cf
    \<and> 0 < cf_max_body_bytes cf \<and> cf_max_body_bytes cf \<le> cf_memory_limit_bytes cf
    \<and> 0 < ac_context_limit_bytes (cf_agent cf) \<and> 0 < ac_response_limit_bytes (cf_agent cf)
    \<and> endpoint_ok parse_url (cf_agent cf)
    \<and> (is_loopback (sa_ip (cf_listen cf)) \<or> cf_allow_nonlocal_listen cf
        \<and> (sy_allow_insecure_non_loopback (cf_security cf)
            \<or> sy_tls (cf_security cf) \<noteq> None \<and> sy_users_file (cf_security cf) \<noteq> None))"
  using Config_validate_ok [OF from_args_ok(2) [OF assms]] agent_validate_ok posture_ok from_args_ok(1) [OF assms] by blast

definition exposed_args :: "string list" where
  "exposed_args = [''mainstack-search'', ''--listen=0.0.0.0:9200'', ''--allow-nonlocal-listen'', ''--tls-cert-file'', ''c'',
     ''--tls-key-file'', ''k'', ''--users-file'', ''u'', ''--ephemeral'', ''--max-body-size'', ''4k'']"

theorem accepted_configuration_is_well_formed_witness:
  "\<exists>cf. from_args (\<lambda>_. None) exposed_args = Inr cf \<and> values_ok cf \<and> sy_users_file (cf_security cf) = Some ''u''
     \<and> cf_max_body_bytes cf = 4096 \<and> \<not> is_loopback (sa_ip (cf_listen cf))"
proof -
  have "case from_args (\<lambda>_. None) exposed_args of
      Inl _ \<Rightarrow> False
    | Inr cf \<Rightarrow> sy_users_file (cf_security cf) = Some ''u'' \<and> cf_max_body_bytes cf = 4096 \<and> \<not> is_loopback (sa_ip (cf_listen cf))"
    by code_simp
  then obtain cf where "from_args (\<lambda>_. None) exposed_args = Inr cf"
    "sy_users_file (cf_security cf) = Some ''u''" "cf_max_body_bytes cf = 4096" "\<not> is_loopback (sa_ip (cf_listen cf))"
    by (auto split: sum.splits)
  with accepted_configuration_is_well_formed [OF this(1)] show ?thesis by blast
qed

subsection \<open>Who gets in\<close>

lemma add_users_entries:
  assumes "add_users fe entries users = Inr users'" and "bt_get users' u = Some r" and "bt_ok users"
  shows "bt_get users u = Some r
    \<or> (\<exists>e \<in> set entries. ue_username e = u \<and> ue_password_hash e = ur_password_hash r \<and> ue_roles e = ur_roles r)"
  using assms
proof (induction entries arbitrary: users)
  case (Cons e entries)
  then show ?case by (fastforce simp: bt_get_insert split: if_splits)
qed simp

text \<open>The credentials of a request are those of a user of the users file.\<close>

definition known_user :: "World \<Rightarrow> Config \<Rightarrow> HttpRequest \<Rightarrow> bool" where
  "known_user w cf hq \<longleftrightarrow>
     (\<exists>path raw entries e password.
        sy_users_file (cf_security cf) = Some path \<and> wo_read_file w path = Some raw
        \<and> fe_decode_users (wo_front w) raw = Some entries \<and> e \<in> set entries
        \<and> basic_credentials (wo_front w) (hq_headers hq) = Inr (ue_username e, password)
        \<and> fe_verify_password (wo_front w) password (ue_password_hash e))"

fun run_requests :: "World \<Rightarrow> (Moment \<times> HttpRequest) list \<Rightarrow> Running \<Rightarrow> Running option" where
  "run_requests w [] ru = Some ru"
| "run_requests w ((mo, hq) # rest) ru = Option.bind (run_request w mo hq ru) (\<lambda>(ru, _). run_requests w rest ru)"

lemma run_request_fixed:
  "run_request w mo hq ru = Some (ru', response) \<Longrightarrow>
    ru_config ru' = ru_config ru \<and> ru_security ru' = ru_security ru \<and> ru_services ru' = ru_services ru"
  by (auto simp: run_request_def)

lemma run_requests_fixed:
  "run_requests w requests ru = Some ru' \<Longrightarrow>
    ru_config ru' = ru_config ru \<and> ru_security ru' = ru_security ru \<and> ru_services ru' = ru_services ru"
  by (induction requests arbitrary: ru) (fastforce simp: bind_eq_Some_conv dest: run_request_fixed)+

lemma credential_errors:
  "basic_credentials fe headers = Inl response \<Longrightarrow> rs_status response = 401"
  by (auto simp: basic_credentials_def decode_credentials_def invalid_credentials_def authentication_error_def ok_or_def
      and_then_def split: list.splits if_splits option.splits sum.splits)

lemma unknown_user_refused:
  assumes "SecurityState_from_config (wo_front w) (wo_read_file w) cf = Inr ay"
    and "sy_users_file (cf_security cf) \<noteq> None" and "\<not> known_user w cf hq"
  shows "\<exists>response. authenticate_headers (wo_front w) cf ay (hq_headers hq) = Inl response \<and> rs_status response = 401"
proof -
  let ?fe = "wo_front w"
  from assms(1,2) obtain path raw entries users where loaded: "sy_users_file (cf_security cf) = Some path"
    "wo_read_file w path = Some raw" "fe_decode_users ?fe raw = Some entries" "add_users ?fe entries [] = Inr users"
    "ay_users ay = Some users"
    by (auto simp: SecurityState_from_config_def users_from_json_def and_then_Inr split: option.splits if_splits)
  show ?thesis
  proof (cases "basic_credentials ?fe (hq_headers hq)")
    case (Inl response)
    with credential_errors [OF this] loaded(5) show ?thesis by (simp add: authenticate_headers_def)
  next
    case (Inr c)
    obtain username password where c: "c = (username, password)" by (cases c)
    have "verify_user ?fe users username password = None"
    proof (rule ccontr)
      assume "verify_user ?fe users username password \<noteq> None"
      then obtain r where r: "bt_get users username = Some r" "fe_verify_password ?fe password (ur_password_hash r)"
        by (auto simp: verify_user_def bind_eq_Some_conv split: if_splits)
      from add_users_entries [OF loaded(4) r(1)] obtain e where "e \<in> set entries" "ue_username e = username"
        "ue_password_hash e = ur_password_hash r" by auto
      with loaded Inr c r(2) assms(3) show False by (auto simp: known_user_def)
    qed
    with Inr c loaded(5) show ?thesis by (simp add: authenticate_headers_def authentication_error_def)
  qed
qed

lemma start_server_parts:
  assumes "start_server w env args files repos = Inr ru"
  shows "from_args (fe_parse_url (wo_front w)) args = Inr (ru_config ru)"
    and "SecurityState_from_config (wo_front w) (wo_read_file w) (ru_config ru) = Inr (ru_security ru)"
    and "ru_services ru = services_of w (ru_config ru)"
    and "rustls_config (wo_tls w) (wo_read_file w) (cf_security (ru_config ru)) = Inr (ru_tls ru)"
  using assms
  by (auto simp: start_server_def run_config_def AppState_new_def and_then_Inr config_checked_def users_checked_def
      tls_checked_def split: sum.splits if_splits)

text \<open>How the connections of a server that needs TLS are set up: with the certificates it was given, and with authorities
  to check the certificates of clients where those are required.\<close>

definition tls_ready :: "Config \<Rightarrow> ServerTls option \<Rightarrow> bool" where
  "tls_ready cf tls \<longleftrightarrow>
     (case tls of
        None \<Rightarrow> False
      | Some xt \<Rightarrow> xt_cert_chain xt \<noteq> []
          \<and> (if sy_require_client_cert (cf_security cf) then xt_client_roots xt \<noteq> None \<and> xt_client_roots xt \<noteq> Some []
             else xt_client_roots xt = None))"

lemma load_certs_nonempty [simp]: "load_certs lnk read_file path \<noteq> Inr []"
  by (auto simp: load_certs_def split: option.splits if_splits)

lemma rustls_config_ready:
  assumes "rustls_config lnk read_file (cf_security cf) = Inr tls" and "sy_tls (cf_security cf) \<noteq> None"
  shows "tls_ready cf tls"
  using assms
  by (auto simp: rustls_config_def client_roots_def tls_ready_def and_then_Inr split: if_splits)

text \<open>C4. A server that is started on an address other hosts can reach, and was not declared insecure, has its connections
  set up for TLS, with client certificates where they are required, and answers every request without the name and
  password of a user of its users file with 401, before the request is even classified; no such request changes
  anything, whatever requests came before.\<close>

theorem exposed_server_requires_login:
  assumes "start_server w env args files repos = Inr ru"
    and "\<not> is_loopback (sa_ip (cf_listen (ru_config ru)))"
    and "\<not> sy_allow_insecure_non_loopback (cf_security (ru_config ru))"
    and "run_requests w earlier ru = Some ru'" and "\<not> known_user w (ru_config ru) hq"
  shows "tls_ready (ru_config ru) (ru_tls ru)
    \<and> (\<exists>response. run_request w mo hq ru' = Some (ru', response) \<and> rs_status response = 401)"
proof -
  note parts = start_server_parts [OF assms(1)]
  from Config_validate_ok [OF from_args_ok(2) [OF parts(1)]] posture_ok assms(2,3)
  have secured: "sy_users_file (cf_security (ru_config ru)) \<noteq> None" "sy_tls (cf_security (ru_config ru)) \<noteq> None" by blast+
  from unknown_user_refused [OF parts(2) secured(1) assms(5)] run_requests_fixed [OF assms(4)]
  have "\<exists>response. run_request w mo hq ru' = Some (ru', response) \<and> rs_status response = 401"
    by (auto simp: run_request_def answer_def)
  with rustls_config_ready [OF parts(4) secured(2)] show ?thesis by blast
qed

definition sample_front :: FrontLink where
  "sample_front = \<lparr>fe_is_text = (\<lambda>_. True), fe_base64 = (\<lambda>s. Some s), fe_parse_url = (\<lambda>_. None), fe_hash_ok = (\<lambda>_. True),
     fe_verify_password = (\<lambda>password hash. password = hash),
     fe_decode_users = (\<lambda>_. Some [\<lparr>ue_username = ''ann'', ue_password_hash = ''pw'', ue_roles = [ReadWrite]\<rparr>])\<rparr>"

definition sample_tls :: TlsLink where
  "sample_tls = \<lparr>tl_certs = (\<lambda>contents. Some [contents]), tl_private_key = (\<lambda>contents. Some (Some contents)),
     tl_root_ok = (\<lambda>_. True), tl_verifier_ok = (\<lambda>_. True), tl_chain_ok = (\<lambda>_ _. True)\<rparr>"

definition sample_world :: World where
  "sample_world = \<lparr>wo_front = sample_front, wo_tls = sample_tls, wo_codec = sample_codec, wo_text = sample_text, wo_parse = sample_parse,
     wo_db_vec = (\<lambda>_. None), wo_repository_codec = ss_repository_codec sample_services, wo_alphanumeric = (\<lambda>_. False),
     wo_agent_link = ss_agent_link sample_services, wo_specification = [],
     wo_read_file = map_of [(''u'', ''U''), (''c'', ''C''), (''k'', ''K'')], wo_ip_text = (\<lambda>_. []), wo_address_text = (\<lambda>_. [])\<rparr>"

definition sample_files :: Files where
  "sample_files = \<lparr>fl_meta = None, fl_snapshots = [], fl_log = None\<rparr>"

definition index_request :: "(string \<times> string) list \<Rightarrow> HttpRequest" where
  "index_request headers = \<lparr>hq_method = PUT, hq_path = ''/logs/_doc/1'', hq_query = [],
     hq_headers = (''content-type'', ''application/json'') # headers, hq_body = ''S''\<rparr>"

lemma sample_start:
  obtains ru where "start_server sample_world sample_env exposed_args sample_files [] = Inr ru"
    "\<not> is_loopback (sa_ip (cf_listen (ru_config ru)))" "\<not> sy_allow_insecure_non_loopback (cf_security (ru_config ru))"
proof -
  have "case start_server sample_world sample_env exposed_args sample_files [] of
      Inl _ \<Rightarrow> False
    | Inr ru \<Rightarrow> \<not> is_loopback (sa_ip (cf_listen (ru_config ru))) \<and> \<not> sy_allow_insecure_non_loopback (cf_security (ru_config ru))"
    by code_simp
  with that show thesis by (auto split: sum.splits)
qed

lemma sample_world_front:
  "wo_front sample_world = sample_front"
  "fe_parse_url sample_front = (\<lambda>_. None)"
  "fe_verify_password sample_front = (\<lambda>password hash. password = hash)"
  "fe_decode_users sample_front =
     (\<lambda>_. Some [\<lparr>ue_username = ''ann'', ue_password_hash = ''pw'', ue_roles = [ReadWrite]\<rparr>])"
  by (simp_all add: sample_world_def sample_front_def)

lemma sample_credentials:
  "basic_credentials sample_front (hq_headers (index_request [(''authorization'', ''Basic ann:no'')])) = Inr (''ann'', ''no'')"
  by code_simp

lemma sample_unknown: "\<not> known_user sample_world cf (index_request [(''authorization'', ''Basic ann:no'')])"
  by (simp add: known_user_def sample_world_front sample_credentials)

theorem exposed_server_requires_login_witness:
  "\<exists>ru response. start_server sample_world sample_env exposed_args sample_files [] = Inr ru
     \<and> run_request sample_world sample_moment (index_request [(''authorization'', ''Basic ann:no'')]) ru = Some (ru, response)
     \<and> rs_status response = 401 \<and> tls_ready (ru_config ru) (ru_tls ru)"
proof -
  obtain ru where ru: "start_server sample_world sample_env exposed_args sample_files [] = Inr ru"
    "\<not> is_loopback (sa_ip (cf_listen (ru_config ru)))" "\<not> sy_allow_insecure_non_loopback (cf_security (ru_config ru))"
    by (rule sample_start)
  from exposed_server_requires_login [OF ru run_requests.simps(1) sample_unknown] ru(1) show ?thesis by blast
qed

subsection \<open>What another site can make a browser do\<close>

lemma serve_needs_method:
  assumes "serve ss mo sc request sv = Some (sv', response)" and "plain_path (rq_path request)"
    and "agent_routes_ok (ss_inventory ss)" and "method_ok (rq_method request)" and "rq_method request \<notin> writing_methods"
  shows "sv_store sv' = sv_store sv \<and> sv_repositories sv' = sv_repositories sv"
proof (rule reader_keeps_state)
  show "run_handler ss mo (sc_principal sc) request
      (handle_request (ss_inventory ss) (ss_dispatch ss) sc (rq_method request) (rq_path request)) sv = Some (sv', response)"
    using assms(1) by (simp add: serve_def)
  show "\<not> handler_writes (rq_method request)
      (handle_request (ss_inventory ss) (ss_dispatch ss) sc (rq_method request) (rq_path request))"
    using writing_needs_method [OF assms(2-4)] assms(5) by blast
qed

lemma guard_foreign:
  assumes "guard_request parse_url cf headers meth body = Inr ()" and "foreign_origin parse_url headers"
  shows "meth \<notin> writing_methods"
  using assms by (auto simp: guard_request_def and_then_Inr is_state_changing_method_def writing_methods_def split: if_splits)

text \<open>C5. A request that a page of another site makes a browser send, as \<open>sec-fetch-site\<close>, \<open>origin\<close> or \<open>referer\<close> says,
  changes neither the store nor the snapshot repositories, when its path is plain, without percent signs and without a
  slash at the end, whatever its method (\<open>method_ok\<close> says that no extension method has the name of a standard one): the guard lets
  only methods pass behind which no handler writes, the bulk handler included, which does not look at the method.\<close>

theorem cross_site_requests_change_nothing:
  assumes "start_server w env args files repos = Inr ru" and "spec_ok (wo_specification w)"
    and "run_requests w earlier ru = Some ru'" and "run_request w mo hq ru' = Some (ru'', response)"
    and "foreign_origin (fe_parse_url (wo_front w)) (request_headers (wo_front w) (hq_headers hq))"
    and "plain_path (hq_path hq)" and "method_ok (hq_method hq)"
  shows "sv_store (ru_server ru'') = sv_store (ru_server ru') \<and> sv_repositories (ru_server ru'') = sv_repositories (ru_server ru')"
proof -
  from start_server_parts(3) [OF assms(1)] run_requests_fixed [OF assms(3)] generated_inventory_ok(2) [OF assms(2)]
  have inventory: "agent_routes_ok (ss_inventory (ru_services ru'))" by (simp add: services_of_def)
  from assms(4) have a: "answer (wo_front w) (ru_config ru') (ru_security ru') (ru_services ru') mo hq (ru_server ru')
      = Some (ru_server ru'', response)" by (auto simp: run_request_def)
  show ?thesis
  proof (cases "\<exists>sc. serve (ru_services ru') mo sc (plain_request hq) (ru_server ru') = Some (ru_server ru'', response)
      \<and> guard_request (fe_parse_url (wo_front w)) (ru_config ru') (request_headers (wo_front w) (hq_headers hq))
          (hq_method hq) (hq_body hq) = Inr ()")
    case True
    with guard_foreign [OF _ assms(5)] serve_needs_method inventory assms(6,7) show ?thesis
      by (fastforce simp: plain_request_def)
  next
    case False
    with a have "ru_server ru'' = ru_server ru'"
      by (auto simp: answer_def route_request_def and_then_def split: sum.splits)
    then show ?thesis by simp
  qed
qed

definition foreign_request :: HttpRequest where
  "foreign_request = index_request [(''authorization'', ''Basic ann:pw''), (''Origin'', ''http://x'')]"

lemma sample_answer:
  obtains ru response where "start_server sample_world sample_env exposed_args sample_files [] = Inr ru"
    "run_request sample_world sample_moment foreign_request ru = Some (ru, response)" "rs_status response = 403"
proof -
  have "case start_server sample_world sample_env exposed_args sample_files [] of
      Inl _ \<Rightarrow> False
    | Inr ru \<Rightarrow> (case authenticate_headers (wo_front sample_world) (ru_config ru) (ru_security ru) (hq_headers foreign_request) of
          Inl _ \<Rightarrow> False | Inr _ \<Rightarrow> True)
        \<and> and_then (ensure_body_limit (hq_body foreign_request) (cf_max_body_bytes (ru_config ru))) (\<lambda>_.
             guard_request (fe_parse_url (wo_front sample_world)) (ru_config ru)
               (request_headers (wo_front sample_world) (hq_headers foreign_request)) (hq_method foreign_request)
               (hq_body foreign_request)) = Inl cross_site_error"
    by code_simp
  moreover have "rs_status cross_site_error = 403" by (simp add: cross_site_error_def)
  ultimately show thesis
    using that by (auto simp: run_request_def answer_def route_request_def split: sum.splits)
qed

theorem cross_site_requests_change_nothing_witness:
  "\<exists>ru ru' response. start_server sample_world sample_env exposed_args sample_files [] = Inr ru
     \<and> run_request sample_world sample_moment foreign_request ru = Some (ru', response) \<and> rs_status response = 403
     \<and> sv_store (ru_server ru') = sv_store (ru_server ru)"
proof -
  obtain ru response where ru: "start_server sample_world sample_env exposed_args sample_files [] = Inr ru"
    "run_request sample_world sample_moment foreign_request ru = Some (ru, response)" "rs_status response = 403"
    by (rule sample_answer)
  have spec: "spec_ok (wo_specification sample_world)" by code_simp
  have foreign: "foreign_origin (fe_parse_url (wo_front sample_world))
      (request_headers (wo_front sample_world) (hq_headers foreign_request))" by code_simp
  have plain: "plain_path (hq_path foreign_request)" "method_ok (hq_method foreign_request)" by code_simp+
  from cross_site_requests_change_nothing [OF ru(1) spec run_requests.simps(1) ru(2) foreign plain] ru show ?thesis
    by blast
qed

end
